(* ===== verification/GoBase.thy ===== *)
theory GoBase imports Main "HOL-Library.Sublist" begin

text \<open>
  The shared prelude: the types the components of the control plane have in
  common (instance ids, clock readings, durations), the part of Go's standard
  string library the sources use, and the generic facts on lists and maps the
  component proofs are built from.

  Clock readings and durations are integers in nanoseconds.  A \<open>time.Time\<close>
  field that the code may leave at its zero value is an \<open>option\<close>, with
  \<open>None\<close> for the zero time (\<open>IsZero\<close>).  Go strings are byte strings, here
  \<open>char list\<close>.
\<close>

section \<open>Types\<close>

type_synonym iid = nat
type_synonym gtime = int
type_synonym duration = int

abbreviation seconds :: "int \<Rightarrow> duration" where
  "seconds n \<equiv> n * 1000000000"

abbreviation minutes :: "int \<Rightarrow> duration" where
  "minutes n \<equiv> n * 60000000000"

named_theorems frame_simps
  \<open>what an operation on one key leaves unchanged at another key or in another field\<close>

section \<open>The last elements of a list\<close>

definition lastn :: "nat \<Rightarrow> 'a list \<Rightarrow> 'a list" where
  "lastn n xs = drop (length xs - n) xs"

lemma length_lastn [simp]: "length (lastn n xs) = min n (length xs)"
  by (simp add: lastn_def)

lemma lastn_all [simp]: "length xs \<le> n \<Longrightarrow> lastn n xs = xs"
  by (simp add: lastn_def)

lemma lastn_Nil [simp]: "lastn n [] = []"
  by (simp add: lastn_def)

lemma lastn_lastn [simp]: "lastn n (lastn n xs) = lastn n xs"
  by (simp add: lastn_def)

lemma lastn_drop: "k + n \<le> length zs \<Longrightarrow> lastn n (drop k zs) = lastn n zs"
  by (simp add: lastn_def)

lemma lastn_append_lastn: "lastn n (lastn n xs @ ys) = lastn n (xs @ ys)"
proof (cases "length xs \<le> n")
  case True
  then show ?thesis by simp
next
  case False
  then have "lastn n xs @ ys = drop (length xs - n) (xs @ ys)"
    by (simp add: lastn_def)
  with False show ?thesis by (simp add: lastn_drop del: drop_append)
qed

lemma lastn_map: "lastn n (map f xs) = map f (lastn n xs)"
  by (simp add: lastn_def drop_map)

lemma set_lastn: "set (lastn n xs) \<subseteq> set xs"
  by (simp add: lastn_def set_drop_subset)

lemma lastn_suffix: "suffix (lastn n xs) xs"
  by (simp add: lastn_def suffix_drop)

lemma lastn_nonempty_last: "0 < n \<Longrightarrow> xs \<noteq> [] \<Longrightarrow> last (lastn n xs) = last xs"
  by (simp add: lastn_def last_drop)

section \<open>Keeping the entries of a map that satisfy a predicate\<close>

text \<open>The loop \<open>for k, v := range m { if p { delete(m, k) } }\<close>, whose result does not
  depend on the order in which Go walks the map.\<close>

definition keep_where :: "('k \<Rightarrow> 'v \<Rightarrow> bool) \<Rightarrow> ('k \<rightharpoonup> 'v) \<Rightarrow> ('k \<rightharpoonup> 'v)" where
  "keep_where p m = (\<lambda>k. case m k of None \<Rightarrow> None | Some v \<Rightarrow> if p k v then Some v else None)"

lemma keep_where_Some [simp]: "keep_where p m k = Some v \<longleftrightarrow> m k = Some v \<and> p k v"
  by (auto simp: keep_where_def split: option.splits)

lemma keep_where_None: "keep_where p m k = None \<longleftrightarrow> (\<forall>v. m k = Some v \<longrightarrow> \<not> p k v)"
  by (auto simp: keep_where_def split: option.splits)

lemma dom_keep_where: "dom (keep_where p m) = {k. \<exists>v. m k = Some v \<and> p k v}"
  by (auto simp: dom_def)

lemma keep_where_le: "keep_where p m \<subseteq>\<^sub>m m"
  by (auto simp: map_le_def)

lemma keep_where_cong: "m k = m' k \<Longrightarrow> keep_where p m k = keep_where p m' k"
  by (simp add: keep_where_def)

section \<open>Lists without repetition, in first-occurrence order\<close>

lemma filter_mono_length:
  "(\<And>x. x \<in> set xs \<Longrightarrow> p x \<Longrightarrow> q x) \<Longrightarrow> length (filter p xs) \<le> length (filter q xs)"
  by (induction xs) auto

lemma fold_preserves: "(\<And>x s. P s \<Longrightarrow> P (f x s)) \<Longrightarrow> P s \<Longrightarrow> P (fold f xs s)"
  by (induction xs arbitrary: s) auto

section \<open>Strings\<close>

definition has_prefix :: "string \<Rightarrow> string \<Rightarrow> bool" where
  \<comment> \<open>\<open>strings.HasPrefix s p\<close>\<close>
  "has_prefix s p \<longleftrightarrow> take (length p) s = p"

definition trim_prefix :: "string \<Rightarrow> string \<Rightarrow> string" where
  \<comment> \<open>\<open>strings.TrimPrefix s p\<close>\<close>
  "trim_prefix s p = (if has_prefix s p then drop (length p) s else s)"

definition has_suffix :: "string \<Rightarrow> string \<Rightarrow> bool" where
  \<comment> \<open>\<open>strings.HasSuffix s p\<close>\<close>
  "has_suffix s p \<longleftrightarrow> length p \<le> length s \<and> drop (length s - length p) s = p"

fun contains :: "string \<Rightarrow> string \<Rightarrow> bool" where
  \<comment> \<open>\<open>strings.Contains s p\<close>\<close>
  "contains [] p = (p = [])"
| "contains (c # s) p = (has_prefix (c # s) p \<or> contains s p)"

lemma has_prefix_append [simp]: "has_prefix (p @ s) p"
  by (simp add: has_prefix_def)

lemma has_prefix_iff: "has_prefix s p \<longleftrightarrow> (\<exists>r. s = p @ r)"
proof
  assume "has_prefix s p"
  then have "s = p @ drop (length p) s"
    by (metis has_prefix_def append_take_drop_id)
  then show "\<exists>r. s = p @ r" by blast
qed auto

lemma trim_prefix_append [simp]: "trim_prefix (p @ s) p = s"
  by (simp add: trim_prefix_def)

lemma contains_iff: "contains s p \<longleftrightarrow> (\<exists>a b. s = a @ p @ b)"
proof (induction s)
  case Nil
  then show ?case by simp
next
  case (Cons c s)
  show ?case
  proof
    assume "contains (c # s) p"
    then consider "has_prefix (c # s) p" | "contains s p" by auto
    then show "\<exists>a b. c # s = a @ p @ b"
    proof cases
      case 1
      then show ?thesis by (metis append_Nil has_prefix_iff)
    next
      case 2
      with Cons.IH obtain a b where "s = a @ p @ b" by blast
      then have "c # s = (c # a) @ p @ b" by simp
      then show ?thesis by blast
    qed
  next
    assume "\<exists>a b. c # s = a @ p @ b"
    then obtain a b where ab: "c # s = a @ p @ b" by blast
    show "contains (c # s) p"
    proof (cases a)
      case Nil
      with ab have "has_prefix (c # s) p" by simp
      then show ?thesis by simp
    next
      case (Cons d a')
      with ab have "s = a' @ p @ b" by simp
      with Cons.IH have "contains s p" by blast
      then show ?thesis by simp
    qed
  qed
qed

text \<open>Decimal digits of a natural number, as \<open>%d\<close> prints it.\<close>

fun show_nat :: "nat \<Rightarrow> string" where
  "show_nat n = (if n < 10 then [char_of (48 + n)] else show_nat (n div 10) @ [char_of (48 + n mod 10)])"

declare show_nat.simps [simp del]

text \<open>Digits and the numbers they write.\<close>

definition digit_val :: "char \<Rightarrow> nat option" where
  "digit_val c = (let n = of_char c in if 48 \<le> n \<and> n \<le> 57 then Some (n - 48) else None)"

definition hex_val :: "char \<Rightarrow> nat option" where
  "hex_val c = (let n = of_char c in
     if 48 \<le> n \<and> n \<le> 57 then Some (n - 48)
     else if 97 \<le> n \<and> n \<le> 102 then Some (n - 87)
     else if 65 \<le> n \<and> n \<le> 70 then Some (n - 55) else None)"

definition dec_value :: "string \<Rightarrow> nat" where
  "dec_value s = foldl (\<lambda>v c. v * 10 + the (digit_val c)) 0 s"

definition hex_value :: "string \<Rightarrow> nat" where
  "hex_value s = foldl (\<lambda>v c. v * 16 + the (hex_val c)) 0 s"

text \<open>\<open>strconv.Atoi\<close> (64-bit), and the conversion \<open>uint(id)\<close> of its result.\<close>

definition atoi :: "string \<Rightarrow> int option" where
  "atoi s =
     (let neg = has_prefix s ''-'';
          ds = (if has_prefix s ''-'' \<or> has_prefix s ''+'' then tl s else s);
          v = (if neg then - int (dec_value ds) else int (dec_value ds))
      in if ds \<noteq> [] \<and> list_all (\<lambda>c. digit_val c \<noteq> None) ds \<and> - (2 ^ 63) \<le> v \<and> v < 2 ^ 63
         then Some v else None)"

definition uint_of :: "int \<Rightarrow> nat" where
  "uint_of i = nat (i mod 2 ^ 64)"

lemma atoi_bounds: "atoi s = Some i \<Longrightarrow> - (2 ^ 63) \<le> i \<and> i < 2 ^ 63"
  by (auto simp: atoi_def Let_def split: if_splits)

lemma uint_of_nat: "atoi s = Some i \<Longrightarrow> i = int n \<Longrightarrow> uint_of i = n"
  using atoi_bounds [of s i] by (simp add: uint_of_def)

text \<open>\<open>strings.Split\<close> on a one-byte separator.\<close>

fun go_split :: "char \<Rightarrow> string \<Rightarrow> string list" where
  "go_split sep [] = [[]]"
| "go_split sep (c # s) =
     (if c = sep then [] # go_split sep s
      else (c # hd (go_split sep s)) # tl (go_split sep s))"

lemma go_split_nonempty [simp]: "go_split sep s \<noteq> []"
  by (cases s) simp_all

lemma go_split_code [code]:
  "go_split sep [] = [[]]"
  "go_split sep (c # s) =
     (if c = sep then [] # go_split sep s
      else (case go_split sep s of [] \<Rightarrow> [[c]] | x # xs \<Rightarrow> (c # x) # xs))"
  using go_split_nonempty [of sep s] by (auto split: list.split)

text \<open>\<open>strings.TrimSpace\<close>: the UTF-8 encodings of the runes for which \<open>unicode.IsSpace\<close> holds,
  removed at both ends.\<close>

definition go_spaces :: "string list" where
  "go_spaces =
     map (\<lambda>n. [char_of (n::nat)]) [9, 10, 11, 12, 13, 32]
     @ map (\<lambda>n. [CHR 0xC2, char_of (n::nat)]) [0x85, 0xA0]
     @ [[CHR 0xE1, CHR 0x9A, CHR 0x80]]
     @ map (\<lambda>n. [CHR 0xE2, CHR 0x80, char_of (n::nat)])
         [0x80, 0x81, 0x82, 0x83, 0x84, 0x85, 0x86, 0x87, 0x88, 0x89, 0x8A, 0xA8, 0xA9, 0xAF]
     @ [[CHR 0xE2, CHR 0x81, CHR 0x9F], [CHR 0xE3, CHR 0x80, CHR 0x80]]"

definition lead_space :: "string \<Rightarrow> nat" where
  "lead_space s = (case filter (has_prefix s) go_spaces of [] \<Rightarrow> 0 | p # ps \<Rightarrow> length p)"

definition trail_space :: "string \<Rightarrow> nat" where
  "trail_space s = (case filter (has_suffix s) go_spaces of [] \<Rightarrow> 0 | p # ps \<Rightarrow> length p)"

lemma lead_space_Nil [simp]: "lead_space [] = 0"
  by (simp add: lead_space_def go_spaces_def has_prefix_def)

lemma trail_space_Nil [simp]: "trail_space [] = 0"
  by (simp add: trail_space_def go_spaces_def has_suffix_def)

function trim_left :: "string \<Rightarrow> string" where
  "trim_left s = (if lead_space s = 0 then s else trim_left (drop (lead_space s) s))"
  by pat_completeness auto
termination
  by (relation "measure length") (auto intro: diff_less Nat.gr0I)

function trim_right :: "string \<Rightarrow> string" where
  "trim_right s = (if trail_space s = 0 then s else trim_right (take (length s - trail_space s) s))"
  by pat_completeness auto
termination
  by (relation "measure length") (auto intro: diff_less Nat.gr0I)

declare trim_left.simps [simp del] trim_right.simps [simp del]

lemma trim_code [code]:
  "trim_left [] = []"
  "trim_left (c # s) = (if lead_space (c # s) = 0 then c # s else trim_left (drop (lead_space (c # s)) (c # s)))"
  "trim_right [] = []"
  "trim_right (c # s) =
     (if trail_space (c # s) = 0 then c # s else trim_right (take (length (c # s) - trail_space (c # s)) (c # s)))"
  by (subst trim_left.simps trim_right.simps, simp)+

definition trim_space :: "string \<Rightarrow> string" where
  "trim_space s = trim_right (trim_left s)"

lemma has_suffix_iff: "has_suffix s p \<longleftrightarrow> (\<exists>r. s = r @ p)"
proof
  assume "has_suffix s p"
  then have "s = take (length s - length p) s @ p"
    by (metis append_take_drop_id has_suffix_def)
  then show "\<exists>r. s = r @ p" by blast
qed (auto simp: has_suffix_def)

lemma trim_space_id:
  assumes "s \<noteq> []" "(of_char (hd s) :: nat) \<in> {33..<127}" "(of_char (last s) :: nat) \<in> {33..<127}"
  shows "trim_space s = s"
proof -
  have "list_all (\<lambda>p. (of_char (hd p) :: nat) \<notin> {33..<127} \<and> (of_char (last p) :: nat) \<notin> {33..<127}) go_spaces"
    by (simp add: go_spaces_def)
  then have out: "hd s \<notin> hd ` set go_spaces" "last s \<notin> last ` set go_spaces"
    using assms by (auto simp: list_all_iff)
  have ne: "p \<noteq> []" if "p \<in> set go_spaces" for p using that by (auto simp: go_spaces_def)
  have "filter (has_prefix s) go_spaces = []"
  proof (rule ccontr)
    assume "filter (has_prefix s) go_spaces \<noteq> []"
    then obtain p where p: "p \<in> set go_spaces" "has_prefix s p" by (auto simp: filter_empty_conv)
    with ne have "hd s = hd p" by (auto simp: has_prefix_iff)
    with p out(1) show False by blast
  qed
  moreover have "filter (has_suffix s) go_spaces = []"
  proof (rule ccontr)
    assume "filter (has_suffix s) go_spaces \<noteq> []"
    then obtain p where p: "p \<in> set go_spaces" "has_suffix s p" by (auto simp: filter_empty_conv)
    with ne have "last s = last p" by (auto simp: has_suffix_iff)
    with p out(2) show False by blast
  qed
  ultimately show ?thesis
    by (simp add: trim_space_def trim_left.simps [of s] trim_right.simps [of s] lead_space_def trail_space_def)
qed

text \<open>\<open>net.JoinHostPort\<close> with a decimal port.\<close>

definition join_host_port :: "string \<Rightarrow> nat \<Rightarrow> string" where
  "join_host_port host port =
     (if CHR '':'' \<in> set host then ''['' @ host @ '']:'' @ show_nat port
      else host @ '':'' @ show_nat port)"

end
