(* ===== verification/Contracts.thy ===== *)
theory Contracts imports GoBase begin

text \<open>
  The interfaces several components share, as locales: a bounded history (the
  ring buffers of the connection state tracker, the event log and the terminal
  scrollback), a delay that doubles up to a cap (the rate limiter's block, the
  reconnect loop, the tunnel backoff), and a store indexed by instance whose
  operations touch one instance only.  Every locale is interpreted on the
  model of the component that provides it, in that component's theory.
\<close>

section \<open>A bounded history\<close>

text \<open>Written in chunks: what is kept is the last \<open>cap\<close> elements of all that was written.\<close>

locale chunked_history =
  fixes put_all :: "'b \<Rightarrow> 'a list \<Rightarrow> 'b"
    and hist :: "'b \<Rightarrow> 'a list"
    and wf :: "'b \<Rightarrow> bool"
    and empty :: 'b
    and cap :: nat
  assumes wf_start: "wf empty"
    and wf_write: "wf b \<Longrightarrow> wf (put_all b xs)"
    and hist_start: "hist empty = []"
    and hist_write: "wf b \<Longrightarrow> hist (put_all b xs) = lastn cap (hist b @ xs)"
begin

lemma wf_writes: "wf b \<Longrightarrow> wf (foldl put_all b xss)"
  by (induction xss arbitrary: b) (auto intro: wf_write)

lemma hist_writes_from: "wf b \<Longrightarrow> hist b = lastn cap h \<Longrightarrow> hist (foldl put_all b xss) = lastn cap (h @ concat xss)"
proof (induction xss arbitrary: b h)
  case (Cons xs xss)
  have "hist (put_all b xs) = lastn cap (h @ xs)"
    using Cons.prems by (simp add: hist_write lastn_append_lastn)
  from Cons.IH [OF wf_write [OF Cons.prems(1)] this] show ?case by simp
qed simp

theorem hist_writes: "hist (foldl put_all empty xss) = lastn cap (concat xss)"
  using hist_writes_from [OF wf_start, of "[]" xss] by (simp add: hist_start)

end

text \<open>Written one element at a time.\<close>

locale bounded_history =
  fixes put :: "'b \<Rightarrow> 'a \<Rightarrow> 'b"
    and hist :: "'b \<Rightarrow> 'a list"
    and wf :: "'b \<Rightarrow> bool"
    and empty :: 'b
    and cap :: nat
  assumes wf_empty: "wf empty"
    and wf_put: "wf b \<Longrightarrow> wf (put b x)"
    and hist_empty: "hist empty = []"
    and hist_put: "wf b \<Longrightarrow> hist (put b x) = lastn cap (hist b @ [x])"
    and hist_cap: "wf b \<Longrightarrow> lastn cap (hist b) = hist b"
begin

lemma wf_foldl: "wf b \<Longrightarrow> wf (foldl put b xs)"
  by (induction xs arbitrary: b) (auto intro: wf_put)

lemma hist_foldl: "wf b \<Longrightarrow> hist b = lastn cap h \<Longrightarrow> hist (foldl put b xs) = lastn cap (h @ xs)"
proof (induction xs arbitrary: b h)
  case Nil
  then show ?case by simp
next
  case (Cons x xs)
  have "hist (put b x) = lastn cap (h @ [x])"
    using Cons.prems by (simp add: hist_put lastn_append_lastn)
  from Cons.IH [OF wf_put [OF Cons.prems(1)] this] show ?case by simp
qed

theorem hist_run: "hist (foldl put empty xs) = lastn cap xs"
  using hist_foldl [OF wf_empty, of "[]" xs] by (simp add: hist_empty)

lemma hist_length: "length (hist (foldl put empty xs)) = min cap (length xs)"
  by (simp add: hist_run)

end

sublocale bounded_history \<subseteq> chunks: chunked_history "\<lambda>b xs. foldl put b xs" hist wf empty cap
proof
  show "hist (foldl put b xs) = lastn cap (hist b @ xs)" if "wf b" for b xs
    using hist_foldl [OF that, of "hist b" xs] hist_cap [OF that] by simp
qed (simp_all add: wf_empty wf_foldl hist_empty)

section \<open>A delay that doubles up to a cap\<close>

locale capped_doubling =
  fixes initial :: int
    and ceiling :: int
    and grow :: "int \<Rightarrow> int"
  assumes initial_pos: "0 < initial"
    and initial_le: "initial \<le> ceiling"
    and grow_eq: "0 < d \<Longrightarrow> d \<le> ceiling \<Longrightarrow> grow d = min ceiling (2 * d)"
begin

definition delay :: "nat \<Rightarrow> int" where
  "delay n = (grow ^^ n) initial"

theorem delay_closed: "delay n = min ceiling (initial * 2 ^ n)"
proof (induction n)
  case 0
  then show ?case using initial_le by (simp add: delay_def)
next
  case (Suc n)
  have pos: "0 < delay n" using Suc initial_pos initial_le by simp
  have "delay n \<le> ceiling" using Suc by simp
  with pos have "delay (Suc n) = min ceiling (2 * delay n)"
    by (simp add: grow_eq delay_def)
  then show ?case using Suc initial_pos initial_le by (auto simp: min_def)
qed

lemma delay_pos: "0 < delay n"
  using initial_pos initial_le by (simp add: delay_closed)

lemma delay_le: "delay n \<le> ceiling"
  by (simp add: delay_closed)

lemma delay_mono: "m \<le> n \<Longrightarrow> delay m \<le> delay n"
  using initial_pos by (simp add: delay_closed min.coboundedI2)

lemma delay_Suc: "grow (delay n) = delay (Suc n)"
  by (simp add: delay_def)

end

section \<open>Counters of check outcomes\<close>

locale check_counters =
  fixes good :: "gtime \<Rightarrow> 'm \<Rightarrow> 'm"
    and bad :: "gtime \<Rightarrow> 'm \<Rightarrow> 'm"
    and goods :: "'m \<Rightarrow> nat"
    and bads :: "'m \<Rightarrow> nat"
    and latest :: "'m \<Rightarrow> gtime option"
  assumes goods_good: "goods (good t m) = Suc (goods m)" and goods_bad: "goods (bad t m) = goods m"
    and bads_bad: "bads (bad t m) = Suc (bads m)" and bads_good: "bads (good t m) = bads m"
    and latest_good: "latest (good t m) = Some t" and latest_bad: "latest (bad t m) = Some t"
begin

fun outcome :: "gtime \<times> bool \<Rightarrow> 'm \<Rightarrow> 'm" where
  "outcome (t, ok) m = (if ok then good t m else bad t m)"

definition outcomes :: "(gtime \<times> bool) list \<Rightarrow> 'm \<Rightarrow> 'm" where
  "outcomes xs m = fold outcome xs m"

lemma goods_outcomes: "goods (outcomes xs m) = goods m + length (filter snd xs)"
  unfolding outcomes_def by (induction xs arbitrary: m) (auto simp: goods_good goods_bad)

lemma bads_outcomes: "bads (outcomes xs m) = bads m + length (filter (\<lambda>x. \<not> snd x) xs)"
  unfolding outcomes_def by (induction xs arbitrary: m) (auto simp: bads_good bads_bad)

lemma latest_outcomes: "latest (outcomes xs m) = (if xs = [] then latest m else Some (fst (last xs)))"
  unfolding outcomes_def
  by (induction xs arbitrary: m) (auto simp: latest_good latest_bad)

end

section \<open>A store with one entry per key\<close>

locale keyed_store =
  fixes look :: "'s \<Rightarrow> 'k \<Rightarrow> 'v"
    and act :: "'k \<Rightarrow> 'op \<Rightarrow> 's \<Rightarrow> 's"
  assumes act_other: "j \<noteq> i \<Longrightarrow> look (act i x s) j = look s j"
begin

text \<open>Operations on other keys are invisible at a key, so a run of operations can be
  restricted to the ones on that key.\<close>

lemma run_other:
  "i \<notin> set (map fst xs) \<Longrightarrow> look (foldl (\<lambda>s (k, x). act k x s) s xs) i = look s i"
  by (induction xs arbitrary: s) (auto simp: act_other)

end

locale keyed_local = keyed_store look act
  for look :: "'s \<Rightarrow> 'k \<Rightarrow> 'v" and act :: "'k \<Rightarrow> 'op \<Rightarrow> 's \<Rightarrow> 's" +
  fixes local :: "'op \<Rightarrow> 'v \<Rightarrow> 'v"
  assumes act_same: "look (act i x s) i = local x (look s i)"
begin

theorem run_local:
  "look (foldl (\<lambda>s (k, x). act k x s) s xs) i =
   foldl (\<lambda>v x. local x v) (look s i) (map snd (filter (\<lambda>(k, x). k = i) xs))"
proof (induction xs arbitrary: s)
  case Nil
  then show ?case by simp
next
  case (Cons p xs)
  obtain k x where p: "p = (k, x)" by (cases p)
  show ?case
    by (cases "k = i") (simp_all add: p Cons.IH act_same act_other)
qed

end

end
