(* ===== verification/RateLimit.thy ===== *)
theory RateLimit imports Contracts begin

text \<open>
  \<^verbatim>\<open>control-plane/internal/sshproxy/ratelimit.go\<close>: the limiter of SSH
  connection attempts.  The state of one instance is the record
  \<open>instanceRateState\<close>; the limiter is the map of them.  The clock
  (\<open>nowFunc\<close>) is the argument \<open>now\<close> of the operations that read it, and the
  mutex makes each operation one step.  Log lines are left out.
\<close>

section \<open>Constants and state\<close>

definition rateLimitWindow :: duration where "rateLimitWindow = minutes 1"
definition rateLimitMaxAttempts :: nat where "rateLimitMaxAttempts = 10"
definition rateLimitFailureThreshold :: nat where "rateLimitFailureThreshold = 5"
definition rateLimitInitialBlock :: duration where "rateLimitInitialBlock = seconds 30"
definition rateLimitMaxBlock :: duration where "rateLimitMaxBlock = minutes 5"

lemmas rate_limit_consts = rateLimitWindow_def rateLimitMaxAttempts_def
  rateLimitFailureThreshold_def rateLimitInitialBlock_def rateLimitMaxBlock_def

text \<open>The \<open>Reason\<close> of the error is kept as a value; \<open>%d\<close> of the failure count is its argument.\<close>

datatype rate_reason = Blocked_after_failures nat | Exceeded_attempts

datatype rate_error = ErrRateLimited (err_instance: iid) (err_reason: rate_reason) (RetryAfter: duration)

record instanceRateState =
  attempts :: "gtime list"
  consecutiveFailures :: nat
  blockedUntil :: "gtime option"
  blockDuration :: duration

type_synonym RateLimiter = "iid \<rightharpoonup> instanceRateState"

definition zeroRateState :: instanceRateState where
  "zeroRateState = \<lparr>attempts = [], consecutiveFailures = 0, blockedUntil = None, blockDuration = 0\<rparr>"

definition NewRateLimiter :: RateLimiter where
  "NewRateLimiter = Map.empty"

definition rl_getOrCreate :: "RateLimiter \<Rightarrow> iid \<Rightarrow> instanceRateState" where
  "rl_getOrCreate rl i = (case rl i of None \<Rightarrow> zeroRateState | Some s \<Rightarrow> s)"

section \<open>Operations\<close>

text \<open>\<open>Allow\<close> after it has looked its instance up: the failure block, the pruning of the
  sliding window, the window limit, and the recording of the attempt.\<close>

definition allowInstance :: "gtime \<Rightarrow> iid \<Rightarrow> instanceRateState \<Rightarrow> rate_error option \<times> instanceRateState" where
  "allowInstance now i st =
     (if (case blockedUntil st of None \<Rightarrow> False | Some b \<Rightarrow> now < b)
      then (Some (ErrRateLimited i (Blocked_after_failures (consecutiveFailures st))
                    (the (blockedUntil st) - now)), st)
      else
        let cutoff = now - rateLimitWindow;
            recent = filter (\<lambda>t. cutoff < t) (attempts st);
            st1 = st\<lparr>attempts := recent\<rparr>
        in if rateLimitMaxAttempts \<le> length recent
           then (Some (ErrRateLimited i Exceeded_attempts (max 0 (hd recent + rateLimitWindow - now))), st1)
           else (None, st1\<lparr>attempts := recent @ [now]\<rparr>))"

definition Allow :: "gtime \<Rightarrow> iid \<Rightarrow> RateLimiter \<Rightarrow> rate_error option \<times> RateLimiter" where
  "Allow now i rl =
     (let (r, st) = allowInstance now i (rl_getOrCreate rl i) in (r, rl(i \<mapsto> st)))"

definition RecordSuccess :: "iid \<Rightarrow> RateLimiter \<Rightarrow> RateLimiter" where
  "RecordSuccess i rl =
     (case rl i of
        None \<Rightarrow> rl
      | Some st \<Rightarrow> rl(i \<mapsto> st\<lparr>consecutiveFailures := 0, blockedUntil := None, blockDuration := 0\<rparr>))"

definition escalateBlock :: "duration \<Rightarrow> duration" where
  "escalateBlock d = (if d * 2 > rateLimitMaxBlock then rateLimitMaxBlock else d * 2)"

definition failInstance :: "gtime \<Rightarrow> instanceRateState \<Rightarrow> instanceRateState" where
  "failInstance now st =
     (let st1 = st\<lparr>consecutiveFailures := consecutiveFailures st + 1\<rparr> in
      if rateLimitFailureThreshold \<le> consecutiveFailures st1
      then let d = (if blockDuration st1 = 0 then rateLimitInitialBlock
                    else escalateBlock (blockDuration st1))
           in st1\<lparr>blockDuration := d, blockedUntil := Some (now + d)\<rparr>
      else st1)"

definition RecordFailure :: "gtime \<Rightarrow> iid \<Rightarrow> RateLimiter \<Rightarrow> RateLimiter" where
  "RecordFailure now i rl = rl(i \<mapsto> failInstance now (rl_getOrCreate rl i))"

definition rl_Reset :: "iid \<Rightarrow> RateLimiter \<Rightarrow> RateLimiter" where
  "rl_Reset i rl = rl(i := None)"

definition rl_GetState :: "gtime \<Rightarrow> iid \<Rightarrow> RateLimiter \<Rightarrow> nat \<times> gtime option \<times> nat" where
  "rl_GetState now i rl =
     (case rl i of
        None \<Rightarrow> (0, None, 0)
      | Some st \<Rightarrow>
          (consecutiveFailures st, blockedUntil st,
           length (filter (\<lambda>t. now - rateLimitWindow < t) (attempts st))))"

section \<open>Runs of operations\<close>

text \<open>A run is a list of operations, each with its instance and its clock reading.
  \<open>admitted i\<close> collects the times at which \<open>Allow\<close> returned nil for instance \<open>i\<close>.\<close>

datatype rl_op = OpAllow | OpSuccess | OpFailure | OpReset

fun rl_act :: "iid \<Rightarrow> gtime \<times> rl_op \<Rightarrow> RateLimiter \<Rightarrow> RateLimiter" where
  "rl_act i (t, OpAllow) rl = snd (Allow t i rl)"
| "rl_act i (t, OpSuccess) rl = RecordSuccess i rl"
| "rl_act i (t, OpFailure) rl = RecordFailure t i rl"
| "rl_act i (t, OpReset) rl = rl_Reset i rl"

definition rl_run :: "(iid \<times> gtime \<times> rl_op) list \<Rightarrow> RateLimiter" where
  "rl_run ops = foldl (\<lambda>rl (i, x). rl_act i x rl) NewRateLimiter ops"

fun admitted :: "iid \<Rightarrow> (iid \<times> gtime \<times> rl_op) list \<Rightarrow> RateLimiter \<Rightarrow> gtime list" where
  "admitted i [] rl = []"
| "admitted i ((k, t, op) # ops) rl =
     (if k = i \<and> op = OpAllow \<and> fst (Allow t k rl) = None then [t] else [])
     @ admitted i ops (rl_act k (t, op) rl)"

fun rl_local :: "gtime \<times> rl_op \<Rightarrow> instanceRateState option \<Rightarrow> instanceRateState option" where
  "rl_local (t, OpAllow) v = Some (snd (allowInstance t 0 (case v of None \<Rightarrow> zeroRateState | Some s \<Rightarrow> s)))"
| "rl_local (t, OpSuccess) v =
     map_option (\<lambda>st. st\<lparr>consecutiveFailures := 0, blockedUntil := None, blockDuration := 0\<rparr>) v"
| "rl_local (t, OpFailure) v = Some (failInstance t (case v of None \<Rightarrow> zeroRateState | Some s \<Rightarrow> s))"
| "rl_local (t, OpReset) v = None"

lemma allowInstance_state_id: "snd (allowInstance now i st) = snd (allowInstance now k st)"
  by (simp add: allowInstance_def Let_def)

lemma snd_Allow: "snd (Allow now i rl) = rl(i \<mapsto> snd (allowInstance now i (rl_getOrCreate rl i)))"
  by (simp add: Allow_def split: prod.splits)

lemma fst_Allow: "fst (Allow now i rl) = fst (allowInstance now i (rl_getOrCreate rl i))"
  by (simp add: Allow_def split: prod.splits)

lemma rl_act_other [frame_simps]: "j \<noteq> i \<Longrightarrow> rl_act i x rl j = rl j"
  by (cases "(i, x, rl)" rule: rl_act.cases)
     (auto simp: snd_Allow RecordSuccess_def RecordFailure_def rl_Reset_def split: option.splits)

lemma rl_act_same: "rl_act i x rl i = rl_local x (rl i)"
  by (cases "(i, x, rl)" rule: rl_act.cases)
     (auto simp: snd_Allow RecordSuccess_def RecordFailure_def rl_Reset_def rl_getOrCreate_def
        split: option.splits intro: allowInstance_state_id)

interpretation rl: keyed_local "\<lambda>rl i. rl i" rl_act rl_local
  by unfold_locales (auto simp: rl_act_other rl_act_same)

interpretation rl_block: capped_doubling rateLimitInitialBlock rateLimitMaxBlock escalateBlock
  by unfold_locales (auto simp: rate_limit_consts escalateBlock_def)

section \<open>The sliding window\<close>

text \<open>What the stored attempts say about the admitted ones: they are the admitted times after
  some cutoff that the clock has passed by a window's length, and no window holds more than the limit.\<close>

definition in_window :: "gtime \<Rightarrow> gtime list \<Rightarrow> nat" where
  "in_window t adm = length (filter (\<lambda>a. t - rateLimitWindow < a \<and> a \<le> t) adm)"

definition window_inv :: "gtime \<Rightarrow> gtime list \<Rightarrow> instanceRateState \<Rightarrow> bool" where
  "window_inv T adm st \<longleftrightarrow>
     (\<forall>a\<in>set adm. a \<le> T) \<and>
     (\<exists>c. c \<le> T - rateLimitWindow \<and> attempts st = filter (\<lambda>a. c < a) adm) \<and>
     (\<forall>t. in_window t adm \<le> rateLimitMaxAttempts)"

lemma window_inv_keep:
  "window_inv T adm st \<Longrightarrow> T \<le> now \<Longrightarrow> attempts st' = attempts st \<Longrightarrow> window_inv now adm st'"
proof -
  assume inv: "window_inv T adm st" and now: "T \<le> now" and same: "attempts st' = attempts st"
  from inv obtain c where "c \<le> T - rateLimitWindow" "attempts st = filter (\<lambda>a. c < a) adm"
    by (auto simp: window_inv_def)
  with now same have "\<exists>c. c \<le> now - rateLimitWindow \<and> attempts st' = filter (\<lambda>a. c < a) adm"
    by (intro exI [of _ c]) auto
  with inv now show ?thesis by (auto simp: window_inv_def)
qed

lemma filter_prune:
  "c \<le> d \<Longrightarrow> filter (\<lambda>a. d < a) (filter (\<lambda>a. (c::int) < a) xs) = filter (\<lambda>a. d < a) xs"
  by (induction xs) auto

lemma window_inv_allow:
  assumes inv: "window_inv T adm st" and now: "T \<le> now"
  shows "window_inv now (adm @ (if fst (allowInstance now i st) = None then [now] else []))
           (snd (allowInstance now i st))"
proof (cases "case blockedUntil st of None \<Rightarrow> False | Some b \<Rightarrow> now < b")
  case True
  then show ?thesis using window_inv_keep [OF inv now] by (simp add: allowInstance_def)
next
  case False
  let ?recent = "filter (\<lambda>t. now - rateLimitWindow < t) (attempts st)"
  from inv obtain c where c: "c \<le> T - rateLimitWindow" "attempts st = filter (\<lambda>a. c < a) adm"
    and le: "\<forall>a\<in>set adm. a \<le> T" and few: "\<forall>t. in_window t adm \<le> rateLimitMaxAttempts"
    by (auto simp: window_inv_def)
  have recent: "?recent = filter (\<lambda>t. now - rateLimitWindow < t) adm"
    using filter_prune [of c "now - rateLimitWindow" adm] c now by simp
  show ?thesis
  proof (cases "rateLimitMaxAttempts \<le> length ?recent")
    case True
    with False le few now recent show ?thesis
      by (auto simp: allowInstance_def Let_def window_inv_def)
  next
    case few_recent: False
    have "in_window t (adm @ [now]) \<le> rateLimitMaxAttempts" for t
    proof (cases "now \<le> t")
      case True
      have "in_window t adm \<le> length ?recent"
        unfolding in_window_def recent by (rule filter_mono_length) (use True in auto)
      with few_recent show ?thesis by (simp add: in_window_def)
    next
      case False
      with few show ?thesis by (simp add: in_window_def)
    qed
    moreover have "?recent @ [now] = filter (\<lambda>a. now - rateLimitWindow < a) (adm @ [now])"
      using recent by (simp add: rateLimitWindow_def)
    ultimately show ?thesis using False few_recent le now
      by (fastforce simp: allowInstance_def Let_def window_inv_def)
  qed
qed

lemma attempts_failInstance [simp]: "attempts (failInstance t st) = attempts st"
  by (simp add: failInstance_def Let_def)

lemma window_inv_act:
  assumes inv: "window_inv T adm (rl_getOrCreate rl i)" and now: "T \<le> t"
    and noreset: "\<not> (k = i \<and> op = OpReset)"
  shows "window_inv t (adm @ (if k = i \<and> op = OpAllow \<and> fst (Allow t k rl) = None then [t] else []))
           (rl_getOrCreate (rl_act k (t, op) rl) i)"
proof (cases "k = i")
  case False
  with window_inv_keep [OF inv now] show ?thesis by (simp add: rl_getOrCreate_def rl_act_other)
next
  case True
  show ?thesis
  proof (cases op)
    case OpAllow
    with True window_inv_allow [OF inv now, of i] show ?thesis
      by (simp add: snd_Allow fst_Allow rl_getOrCreate_def)
  next
    case OpSuccess
    with True window_inv_keep [OF inv now] show ?thesis
      by (auto simp: RecordSuccess_def rl_getOrCreate_def split: option.splits)
  next
    case OpFailure
    with True window_inv_keep [OF inv now] show ?thesis
      by (simp add: RecordFailure_def rl_getOrCreate_def)
  next
    case OpReset
    with True noreset show ?thesis by simp
  qed
qed

lemma admitted_window:
  "window_inv T adm (rl_getOrCreate rl i) \<Longrightarrow> sorted (T # map (\<lambda>p. fst (snd p)) ops) \<Longrightarrow>
   \<forall>(k, t, op)\<in>set ops. \<not> (k = i \<and> op = OpReset) \<Longrightarrow>
   in_window t (adm @ admitted i ops rl) \<le> rateLimitMaxAttempts"
proof (induction ops arbitrary: T adm rl)
  case Nil
  then show ?case by (simp add: window_inv_def)
next
  case (Cons p ops)
  obtain k u op where p: "p = (k, u, op)" by (cases p)
  from Cons.prems p have "T \<le> u" and "\<not> (k = i \<and> op = OpReset)" and "sorted (u # map (\<lambda>p. fst (snd p)) ops)"
    by auto
  with Cons.prems p show ?case
    using Cons.IH [OF window_inv_act [of T adm rl i u k op]] by fastforce
qed

text \<open>C6: However operations on the limiter interleave, as long as the clock does not run
  backwards and the instance is not \<open>Reset\<close>, no window of one minute (of any position) contains
  more than ten admitted connection attempts of an instance.\<close>

theorem rate_window_bound:
  assumes "sorted (map (\<lambda>p. fst (snd p)) ops)"
    and "\<forall>(k, t, op)\<in>set ops. \<not> (k = i \<and> op = OpReset)"
  shows "length (filter (\<lambda>a. t - rateLimitWindow < a \<and> a \<le> t) (admitted i ops NewRateLimiter))
         \<le> rateLimitMaxAttempts"
proof -
  define T where "T = (case ops of [] \<Rightarrow> 0 | (k, u, op) # _ \<Rightarrow> u)"
  have "window_inv T [] (rl_getOrCreate NewRateLimiter i)"
    by (auto simp: window_inv_def in_window_def rl_getOrCreate_def NewRateLimiter_def zeroRateState_def)
  moreover have "sorted (T # map (\<lambda>p. fst (snd p)) ops)"
    using assms(1) by (fastforce simp: T_def split: list.splits prod.splits)
  ultimately show ?thesis
    using admitted_window [of T "[]" NewRateLimiter i ops t] assms(2) by (simp add: in_window_def)
qed

theorem rate_window_bound_witness:
  "length (filter (\<lambda>a. 5 - rateLimitWindow < a \<and> a \<le> 5)
     (admitted 1 [(1, 0, OpAllow), (2, 3, OpReset), (1, 5, OpAllow)] NewRateLimiter)) \<le> rateLimitMaxAttempts"
  by (rule rate_window_bound) simp_all

section \<open>The failure block\<close>

text \<open>The specification of the block: the number of failures of an instance since its last success
  or reset, and the time of the last of them.\<close>

fun streak_step :: "nat \<times> gtime \<Rightarrow> gtime \<times> rl_op \<Rightarrow> nat \<times> gtime" where
  "streak_step (n, tf) (t, OpAllow) = (n, tf)"
| "streak_step (n, tf) (t, OpFailure) = (n + 1, t)"
| "streak_step (n, tf) (t, OpSuccess) = (0, tf)"
| "streak_step (n, tf) (t, OpReset) = (0, tf)"

definition rl_streak :: "iid \<Rightarrow> (iid \<times> gtime \<times> rl_op) list \<Rightarrow> nat \<times> gtime" where
  "rl_streak i ops = foldl streak_step (0, 0) (map snd (filter (\<lambda>(k, x). k = i) ops))"

definition block_of_streak :: "nat \<Rightarrow> duration" where
  "block_of_streak n = min rateLimitMaxBlock (rateLimitInitialBlock * 2 ^ (n - rateLimitFailureThreshold))"

fun block_inv :: "nat \<times> gtime \<Rightarrow> instanceRateState option \<Rightarrow> bool" where
  "block_inv (n, tf) v =
     (let st = (case v of None \<Rightarrow> zeroRateState | Some s \<Rightarrow> s) in
      consecutiveFailures st = n \<and>
      (if n < rateLimitFailureThreshold then blockedUntil st = None \<and> blockDuration st = 0
       else blockDuration st = block_of_streak n \<and> blockedUntil st = Some (tf + block_of_streak n)))"

lemma block_grow:
  assumes "rateLimitFailureThreshold \<le> n"
  shows "escalateBlock (block_of_streak n) = block_of_streak (Suc n)"
  using rl_block.delay_Suc [of "n - rateLimitFailureThreshold"] assms
  by (simp add: rl_block.delay_closed block_of_streak_def Suc_diff_le)

lemma block_pos: "0 < block_of_streak n"
  by (simp add: block_of_streak_def rate_limit_consts)

lemma block_first: "block_of_streak rateLimitFailureThreshold = rateLimitInitialBlock"
  by (simp add: block_of_streak_def rate_limit_consts)

lemma block_inv_fail:
  assumes "block_inv (n, tf) (Some st)"
  shows "block_inv (Suc n, t) (Some (failInstance t st))"
proof (cases "n < rateLimitFailureThreshold")
  case True
  show ?thesis
  proof (cases "Suc n < rateLimitFailureThreshold")
    case True
    with assms show ?thesis by (auto simp: failInstance_def Let_def)
  next
    case False
    with True have "Suc n = rateLimitFailureThreshold" by simp
    with assms True show ?thesis by (auto simp: failInstance_def Let_def block_first [symmetric])
  qed
next
  case False
  with assms block_pos [of n] show ?thesis
    by (auto simp: failInstance_def Let_def block_grow)
qed

lemma block_inv_allow:
  "block_inv p (Some st) \<Longrightarrow> block_inv p (Some (snd (allowInstance t i st)))"
  by (cases p) (auto simp: allowInstance_def Let_def split: option.splits if_splits)

lemma block_inv_None: "block_inv p None = block_inv p (Some zeroRateState)"
  by (cases p) simp

lemma block_inv_step: "block_inv p v \<Longrightarrow> block_inv (streak_step p x) (rl_local x v)"
proof (induction p x rule: streak_step.induct)
  case (1 n tf t)
  then show ?case
    by (cases v) (auto intro: block_inv_allow simp: block_inv_None simp del: block_inv.simps)
next
  case (2 n tf t)
  then show ?case
    by (cases v) (auto intro: block_inv_fail simp: block_inv_None simp del: block_inv.simps)
next
  case (3 n tf t)
  then show ?case by (cases v) (auto simp: zeroRateState_def rate_limit_consts)
next
  case (4 n tf t)
  then show ?case by (auto simp: zeroRateState_def rate_limit_consts)
qed

lemma block_inv_foldl: "block_inv p v \<Longrightarrow> block_inv (foldl streak_step p xs) (foldl (\<lambda>v x. rl_local x v) v xs)"
  by (induction xs arbitrary: p v) (simp_all add: block_inv_step)

lemma block_inv_run: "block_inv (rl_streak i ops) (rl_run ops i)"
  unfolding rl_run_def rl_streak_def rl.run_local
  by (rule block_inv_foldl) (simp add: NewRateLimiter_def zeroRateState_def rate_limit_consts)

text \<open>After any run of operations an instance is refused for its failures exactly when it has
  five or more consecutive failures and the last is less than 30s, 60s, 120s, ... (doubling with
  each further failure, at most 5 minutes) ago, and the error says how long to wait.\<close>

theorem rate_block_schedule:
  "case rl_streak i ops of (n, tf) \<Rightarrow>
     (let free_at = tf + min (minutes 5) (seconds 30 * 2 ^ (n - 5)) in
      if 5 \<le> n \<and> now < free_at
      then fst (Allow now i (rl_run ops)) = Some (ErrRateLimited i (Blocked_after_failures n) (free_at - now))
      else fst (Allow now i (rl_run ops)) = None \<or>
           (\<exists>d. fst (Allow now i (rl_run ops)) = Some (ErrRateLimited i Exceeded_attempts d)))"
  using block_inv_run [of i ops]
  by (cases "rl_streak i ops")
     (auto simp: fst_Allow allowInstance_def Let_def rl_getOrCreate_def block_of_streak_def
        rate_limit_consts split: if_splits option.splits)

end
