(* ===== verification/RingBuffer.thy ===== *)
theory RingBuffer imports Contracts begin

text \<open>
  The fixed-size ring buffer that the connection state tracker and the event log both keep as an
  array, a write position and a count.  The components have their own copies of the code; the
  lemmas here are about the triple (array, head, count) and are applied to both.
\<close>

type_synonym 'a ring = "'a list \<times> nat \<times> nat"

fun ring_put :: "nat \<Rightarrow> 'a ring \<Rightarrow> 'a \<Rightarrow> 'a ring" where
  "ring_put n (xs, h, c) x = (xs[h := x], (h + 1) mod n, if c < n then c + 1 else c)"

fun ring_hist :: "nat \<Rightarrow> 'a ring \<Rightarrow> 'a list" where
  "ring_hist n (xs, h, c) =
     (if c = 0 then [] else if c < n then take c xs else drop h xs @ take h xs)"

fun ring_wf :: "nat \<Rightarrow> 'a ring \<Rightarrow> bool" where
  "ring_wf n (xs, h, c) \<longleftrightarrow> length xs = n \<and> h < n \<and> c \<le> n \<and> (c < n \<longrightarrow> h = c)"

lemma ring_wf_put: "ring_wf n b \<Longrightarrow> ring_wf n (ring_put n b x)"
proof (cases b)
  case (fields xs h c)
  assume wf: "ring_wf n b"
  then have "(h + 1) mod n < n" using fields by auto
  moreover have "h = c \<Longrightarrow> c + 1 < n \<Longrightarrow> (h + 1) mod n = c + 1" by simp
  ultimately show ?thesis using wf fields by auto
qed

lemma ring_hist_length: "ring_wf n (xs, h, c) \<Longrightarrow> length (ring_hist n (xs, h, c)) = c"
  by auto

lemma lastn_snoc_full: "length xs = n \<Longrightarrow> 0 < n \<Longrightarrow> lastn n (xs @ [x]) = tl xs @ [x]"
  by (cases xs) (auto simp: lastn_def)

lemma update_last: "length xs = Suc h \<Longrightarrow> xs[h := x] = take h xs @ [x]"
  by (simp add: upd_conv_take_nth_drop)

lemma ring_hist_put:
  assumes "ring_wf n b"
  shows "ring_hist n (ring_put n b x) = lastn n (ring_hist n b @ [x])"
proof (cases b)
  case (fields xs h c)
  with assms have len: "length xs = n" and h: "h < n" and c: "c \<le> n" "c < n \<Longrightarrow> h = c" by auto
  consider "Suc c < n" | "Suc c = n" | "c = n" "Suc h < n" | "c = n" "Suc h = n"
    using c h by linarith
  then show ?thesis
  proof cases
    case 1
    with c have "h = c" by simp
    with 1 len fields show ?thesis by (simp add: take_Suc_conv_app_nth)
  next
    case 2
    with c have "h = c" by simp
    with 2 len fields show ?thesis by (auto simp: update_last)
  next
    case 3
    have "drop h xs = xs ! h # drop (Suc h) xs" using len h by (simp add: Cons_nth_drop_Suc)
    then have "lastn n ((drop h xs @ take h xs) @ [x]) = (drop (Suc h) xs @ take h xs) @ [x]"
      using len h by (subst lastn_snoc_full) auto
    moreover have "take (Suc h) (xs[h := x]) = take h xs @ [x]"
      using len h by (simp add: take_Suc_conv_app_nth)
    ultimately show ?thesis using 3 fields len h by simp
  next
    case 4
    have "drop h xs = xs ! h # drop (Suc h) xs" using len h by (simp add: Cons_nth_drop_Suc)
    with len 4 have "drop h xs = [xs ! h]" by simp
    then have "lastn n ((drop h xs @ take h xs) @ [x]) = take h xs @ [x]"
      using len h 4 by (subst lastn_snoc_full) auto
    with 4 fields len h show ?thesis by (simp add: update_last)
  qed
qed

lemma ring_wf_empty: "0 < n \<Longrightarrow> ring_wf n (replicate n d, 0, 0)"
  by simp

lemma ring_hist_empty: "ring_hist n (xs, h, 0) = []"
  by simp

end
