(* ===== verification/ConnState.thy ===== *)
theory ConnState imports RingBuffer begin

text \<open>
  \<^verbatim>\<open>control-plane/internal/sshproxy/state.go\<close>: the tracker of connection states.
  An instance has a current state and a ring buffer of its last 50 transitions;
  \<open>setState\<close> ignores a change to the same state, records the others and calls the
  registered callbacks.  A callback is an opaque id; \<open>setState\<close> returns the calls it makes,
  in order.  The clock reading of \<open>record\<close> is the argument \<open>now\<close>.
\<close>

section \<open>Data\<close>

datatype ConnectionState =
  StateDisconnected | StateConnecting | StateConnected | StateReconnecting | StateFailed

fun ConnectionState_String :: "ConnectionState \<Rightarrow> string" where
  "ConnectionState_String StateDisconnected = ''disconnected''"
| "ConnectionState_String StateConnecting = ''connecting''"
| "ConnectionState_String StateConnected = ''connected''"
| "ConnectionState_String StateReconnecting = ''reconnecting''"
| "ConnectionState_String StateFailed = ''failed''"

definition stateTransitionBufferSize :: nat where
  "stateTransitionBufferSize = 50"

record StateTransition =
  tr_From :: ConnectionState
  tr_To :: ConnectionState
  tr_Timestamp :: "gtime option"
  tr_Reason :: string

record stateEntry =
  current :: ConnectionState
  transitions :: "StateTransition list"
  se_head :: nat
  se_count :: nat

type_synonym callback = nat

record stateTracker =
  st_states :: "iid \<rightharpoonup> stateEntry"
  st_callbacks :: "callback list"

definition zeroTransition :: StateTransition where
  "zeroTransition = \<lparr>tr_From = StateDisconnected, tr_To = StateDisconnected,
                     tr_Timestamp = None, tr_Reason = []\<rparr>"

definition newStateEntry :: stateEntry where
  "newStateEntry = \<lparr>current = StateDisconnected,
                    transitions = replicate stateTransitionBufferSize zeroTransition,
                    se_head = 0, se_count = 0\<rparr>"

section \<open>Operations\<close>

definition entry_record :: "gtime \<Rightarrow> ConnectionState \<Rightarrow> ConnectionState \<Rightarrow> string \<Rightarrow> stateEntry \<Rightarrow> stateEntry" where
  "entry_record now from_st to_st reason e =
     (let e1 = e\<lparr>transitions := (transitions e)[se_head e :=
                   \<lparr>tr_From = from_st, tr_To = to_st, tr_Timestamp = Some now, tr_Reason = reason\<rparr>],
                 se_head := (se_head e + 1) mod stateTransitionBufferSize\<rparr>
      in if se_count e1 < stateTransitionBufferSize then e1\<lparr>se_count := se_count e1 + 1\<rparr> else e1)"

definition entry_history :: "stateEntry \<Rightarrow> StateTransition list" where
  "entry_history e =
     (if se_count e = 0 then []
      else if se_count e < stateTransitionBufferSize then take (se_count e) (transitions e)
      else drop (se_head e) (transitions e) @ take (se_head e) (transitions e))"

definition newStateTracker :: stateTracker where
  "newStateTracker = \<lparr>st_states = Map.empty, st_callbacks = []\<rparr>"

definition st_getOrCreate :: "stateTracker \<Rightarrow> iid \<Rightarrow> stateEntry" where
  "st_getOrCreate st i = (case st_states st i of None \<Rightarrow> newStateEntry | Some e \<Rightarrow> e)"

definition setState :: "gtime \<Rightarrow> iid \<Rightarrow> ConnectionState \<Rightarrow> string \<Rightarrow> stateTracker \<Rightarrow>
    (callback \<times> iid \<times> ConnectionState \<times> ConnectionState) list \<times> stateTracker" where
  "setState now i s reason st =
     (let e = st_getOrCreate st i; from_st = current e in
      if from_st = s then ([], st\<lparr>st_states := (st_states st)(i \<mapsto> e)\<rparr>)
      else (map (\<lambda>cb. (cb, i, from_st, s)) (st_callbacks st),
            st\<lparr>st_states := (st_states st)(i \<mapsto> entry_record now from_st s reason (e\<lparr>current := s\<rparr>))\<rparr>))"

definition getState :: "stateTracker \<Rightarrow> iid \<Rightarrow> ConnectionState" where
  "getState st i = (case st_states st i of None \<Rightarrow> StateDisconnected | Some e \<Rightarrow> current e)"

definition getTransitions :: "stateTracker \<Rightarrow> iid \<Rightarrow> StateTransition list" where
  "getTransitions st i = (case st_states st i of None \<Rightarrow> [] | Some e \<Rightarrow> entry_history e)"

definition onStateChange :: "callback \<Rightarrow> stateTracker \<Rightarrow> stateTracker" where
  "onStateChange cb st = st\<lparr>st_callbacks := st_callbacks st @ [cb]\<rparr>"

definition st_remove :: "iid \<Rightarrow> stateTracker \<Rightarrow> stateTracker" where
  "st_remove i st = st\<lparr>st_states := (st_states st)(i := None)\<rparr>"

section \<open>The transition buffer is a bounded history\<close>

definition entry_ring :: "stateEntry \<Rightarrow> StateTransition ring" where
  "entry_ring e = (transitions e, se_head e, se_count e)"

definition entry_wf :: "stateEntry \<Rightarrow> bool" where
  "entry_wf e \<longleftrightarrow> ring_wf stateTransitionBufferSize (entry_ring e)"

lemma entry_record_ring:
  "entry_ring (entry_record now f t r e) =
   ring_put stateTransitionBufferSize (entry_ring e)
     \<lparr>tr_From = f, tr_To = t, tr_Timestamp = Some now, tr_Reason = r\<rparr>"
  by (simp add: entry_record_def entry_ring_def Let_def)

lemma entry_history_ring: "entry_history e = ring_hist stateTransitionBufferSize (entry_ring e)"
  by (simp add: entry_history_def entry_ring_def)

lemma entry_wf_record [simp]: "entry_wf e \<Longrightarrow> entry_wf (entry_record now f t r e)"
  by (simp add: entry_wf_def entry_record_ring ring_wf_put)

lemma entry_history_record [simp]:
  "entry_wf e \<Longrightarrow> entry_history (entry_record now f t r e) =
     lastn stateTransitionBufferSize
       (entry_history e @ [\<lparr>tr_From = f, tr_To = t, tr_Timestamp = Some now, tr_Reason = r\<rparr>])"
  by (simp add: entry_wf_def entry_history_ring entry_record_ring ring_hist_put)

lemma entry_new [simp]: "entry_wf newStateEntry" "entry_history newStateEntry = []"
    "current newStateEntry = StateDisconnected"
  by (simp_all add: entry_wf_def entry_ring_def newStateEntry_def entry_history_def
        stateTransitionBufferSize_def)

lemma entry_current [simp]:
  "entry_wf (e\<lparr>current := s\<rparr>) = entry_wf e"
  "entry_history (e\<lparr>current := s\<rparr>) = entry_history e"
  "current (entry_record now f t r e) = current e"
  by (simp_all add: entry_wf_def entry_ring_def entry_history_def entry_record_def Let_def)

section \<open>Runs of the tracker\<close>

datatype st_op = SetState gtime ConnectionState string | RemoveState

fun st_act :: "iid \<Rightarrow> st_op \<Rightarrow> stateTracker \<Rightarrow> stateTracker" where
  "st_act i (SetState now s r) st = snd (setState now i s r st)"
| "st_act i RemoveState st = st_remove i st"

definition st_run :: "(iid \<times> st_op) list \<Rightarrow> stateTracker" where
  "st_run ops = foldl (\<lambda>st (i, x). st_act i x st) newStateTracker ops"

fun st_local :: "st_op \<Rightarrow> stateEntry option \<Rightarrow> stateEntry option" where
  "st_local (SetState now s r) v =
     (let e = (case v of None \<Rightarrow> newStateEntry | Some e \<Rightarrow> e) in
      if current e = s then Some e else Some (entry_record now (current e) s r (e\<lparr>current := s\<rparr>)))"
| "st_local RemoveState v = None"

interpretation st: keyed_local "\<lambda>st i. st_states st i" st_act st_local
proof
  show "j \<noteq> i \<Longrightarrow> st_states (st_act i x s) j = st_states s j" for i j x s
    by (cases x) (simp_all add: setState_def st_remove_def Let_def)
  show "st_states (st_act i x s) i = st_local x (st_states s i)" for i x s
    by (cases x) (simp_all add: setState_def st_remove_def st_getOrCreate_def Let_def)
qed

text \<open>The specification: the state an instance is in and the list of all its changes since it was
  last forgotten.\<close>

fun track :: "ConnectionState \<times> StateTransition list \<Rightarrow> st_op \<Rightarrow> ConnectionState \<times> StateTransition list" where
  "track (s, h) (SetState now s' r) =
     (if s = s' then (s, h)
      else (s', h @ [\<lparr>tr_From = s, tr_To = s', tr_Timestamp = Some now, tr_Reason = r\<rparr>]))"
| "track (s, h) RemoveState = (StateDisconnected, [])"

definition tracked :: "iid \<Rightarrow> (iid \<times> st_op) list \<Rightarrow> ConnectionState \<times> StateTransition list" where
  "tracked i ops = foldl track (StateDisconnected, []) (map snd (filter (\<lambda>(k, x). k = i) ops))"

definition entry_is :: "stateEntry option \<Rightarrow> ConnectionState \<times> StateTransition list \<Rightarrow> bool" where
  "entry_is v p \<longleftrightarrow>
     (let e = (case v of None \<Rightarrow> newStateEntry | Some e \<Rightarrow> e) in
      entry_wf e \<and> current e = fst p \<and> entry_history e = lastn stateTransitionBufferSize (snd p))"

lemma entry_is_step: "entry_is v p \<Longrightarrow> entry_is (st_local x v) (track p x)"
  by (cases "(p, x)" rule: track.cases) (auto simp: entry_is_def Let_def lastn_append_lastn)

lemma entry_is_run: "entry_is (st_states (st_run ops) i) (tracked i ops)"
proof -
  have "entry_is (foldl (\<lambda>v x. st_local x v) v xs) (foldl track p xs)" if "entry_is v p" for v p xs
    using that by (induction xs arbitrary: v p) (simp_all add: entry_is_step)
  then show ?thesis
    unfolding st_run_def tracked_def st.run_local
    by (simp add: entry_is_def newStateTracker_def)
qed

text \<open>After any interleaving of state changes and removals over all instances, the tracker
  reports for an instance the last state it was set to, and its history is exactly the last 50
  real changes, oldest first, with their reasons and times.\<close>

theorem tracker_refines_history:
  "getState (st_run ops) i = fst (tracked i ops) \<and>
   getTransitions (st_run ops) i = lastn 50 (snd (tracked i ops))"
  using entry_is_run [of ops i]
  by (auto simp: getState_def getTransitions_def entry_is_def stateTransitionBufferSize_def
        split: option.splits)

text \<open>A history is linked when each change starts where the one before ended, no change is from a
  state to itself, and the last ends in the given state.\<close>

fun linked :: "StateTransition list \<Rightarrow> ConnectionState \<Rightarrow> bool" where
  "linked [] s \<longleftrightarrow> True"
| "linked [t] s \<longleftrightarrow> tr_From t \<noteq> tr_To t \<and> tr_To t = s"
| "linked (t # u # ts) s \<longleftrightarrow> tr_From t \<noteq> tr_To t \<and> tr_To t = tr_From u \<and> linked (u # ts) s"

lemma linked_tl: "linked (t # ts) s \<Longrightarrow> linked ts s"
  by (cases ts) auto

lemma linked_drop: "linked ts s \<Longrightarrow> linked (drop n ts) s"
proof (induction n)
  case (Suc n)
  then have "linked (tl (drop n ts)) s"
    by (cases "drop n ts") (auto dest: linked_tl)
  then show ?case by (simp add: drop_Suc tl_drop)
qed simp

lemma linked_snoc: "linked ts s \<Longrightarrow> tr_From t = s \<Longrightarrow> tr_To t = s' \<Longrightarrow> s \<noteq> s' \<Longrightarrow> linked (ts @ [t]) s'"
  by (induction ts s rule: linked.induct) auto

lemma linked_track: "linked (snd p) (fst p) \<Longrightarrow> linked (snd (track p x)) (fst (track p x))"
  by (cases "(p, x)" rule: track.cases) (auto intro: linked_snoc)

text \<open>The reported history of an instance is a path of the state machine: each recorded change
  starts in the state the previous one ended in, none is a self-loop, the last ends in the state
  the tracker reports, and at most 50 are kept.\<close>

theorem tracker_history_linked:
  "linked (getTransitions (st_run ops) i) (getState (st_run ops) i) \<and>
   length (getTransitions (st_run ops) i) \<le> 50"
proof -
  have "linked (snd (foldl track p xs)) (fst (foldl track p xs))" if "linked (snd p) (fst p)" for p xs
    using that by (induction xs arbitrary: p) (simp_all add: linked_track)
  then have "linked (snd (tracked i ops)) (fst (tracked i ops))"
    by (simp add: tracked_def)
  moreover have "getState (st_run ops) i = fst (tracked i ops)"
    "getTransitions (st_run ops) i = lastn 50 (snd (tracked i ops))"
    using entry_is_run [of ops i]
    by (auto simp: getState_def getTransitions_def entry_is_def stateTransitionBufferSize_def
          split: option.splits)
  ultimately show ?thesis by (simp add: lastn_def linked_drop)
qed

end
