(* ===== verification/EventLog.thy ===== *)
theory EventLog imports RingBuffer begin

text \<open>
  \<^verbatim>\<open>control-plane/internal/sshproxy/events.go\<close> and the event type of
  \<^verbatim>\<open>reconnect.go\<close>: the log of connection events, a ring buffer of the last 100
  events per instance.
\<close>

section \<open>Data\<close>

type_synonym ConnectionEventType = string

definition EventConnected :: ConnectionEventType where "EventConnected = ''connected''"
definition EventDisconnected :: ConnectionEventType where "EventDisconnected = ''disconnected''"
definition EventReconnecting :: ConnectionEventType where "EventReconnecting = ''reconnecting''"
definition EventReconnected :: ConnectionEventType where "EventReconnected = ''reconnected''"
definition EventReconnectFailed :: ConnectionEventType where "EventReconnectFailed = ''reconnect_failed''"
definition EventKeyUploaded :: ConnectionEventType where "EventKeyUploaded = ''key_uploaded''"
definition EventHealthCheckFailed :: ConnectionEventType where
  "EventHealthCheckFailed = ''health_check_failed''"

lemmas event_types = EventConnected_def EventDisconnected_def EventReconnecting_def
  EventReconnected_def EventReconnectFailed_def EventKeyUploaded_def EventHealthCheckFailed_def

record ConnectionEvent =
  ev_InstanceID :: iid
  ev_Type :: ConnectionEventType
  ev_Timestamp :: "gtime option"
  ev_Details :: string

definition eventBufferSize :: nat where
  "eventBufferSize = 100"

record eventBuffer =
  eb_events :: "ConnectionEvent list"
  eb_head :: nat
  eb_count :: nat

type_synonym eventLog = "iid \<rightharpoonup> eventBuffer"

definition zeroEvent :: ConnectionEvent where
  "zeroEvent = \<lparr>ev_InstanceID = 0, ev_Type = [], ev_Timestamp = None, ev_Details = []\<rparr>"

definition newEventBuffer :: eventBuffer where
  "newEventBuffer = \<lparr>eb_events = replicate eventBufferSize zeroEvent, eb_head = 0, eb_count = 0\<rparr>"

section \<open>Operations\<close>

definition eb_record :: "eventBuffer \<Rightarrow> ConnectionEvent \<Rightarrow> eventBuffer" where
  "eb_record b ev =
     (let b1 = b\<lparr>eb_events := (eb_events b)[eb_head b := ev],
                 eb_head := (eb_head b + 1) mod eventBufferSize\<rparr>
      in if eb_count b1 < eventBufferSize then b1\<lparr>eb_count := eb_count b1 + 1\<rparr> else b1)"

definition eb_history :: "eventBuffer \<Rightarrow> ConnectionEvent list" where
  "eb_history b =
     (if eb_count b = 0 then []
      else if eb_count b < eventBufferSize then take (eb_count b) (eb_events b)
      else drop (eb_head b) (eb_events b) @ take (eb_head b) (eb_events b))"

definition newEventLog :: eventLog where
  "newEventLog = Map.empty"

definition recordEvent :: "ConnectionEvent \<Rightarrow> eventLog \<Rightarrow> eventLog" where
  "recordEvent ev el =
     (let buf = (case el (ev_InstanceID ev) of None \<Rightarrow> newEventBuffer | Some b \<Rightarrow> b) in
      el(ev_InstanceID ev \<mapsto> eb_record buf ev))"

definition logEvent :: "gtime \<Rightarrow> iid \<Rightarrow> ConnectionEventType \<Rightarrow> string \<Rightarrow> eventLog \<Rightarrow> eventLog" where
  "logEvent now i ty details el =
     (let buf = (case el i of None \<Rightarrow> newEventBuffer | Some b \<Rightarrow> b) in
      el(i \<mapsto> eb_record buf \<lparr>ev_InstanceID = i, ev_Type = ty, ev_Timestamp = Some now, ev_Details = details\<rparr>))"

definition getEvents :: "eventLog \<Rightarrow> iid \<Rightarrow> ConnectionEvent list" where
  "getEvents el i = (case el i of None \<Rightarrow> [] | Some b \<Rightarrow> eb_history b)"

definition getAllEvents :: "eventLog \<Rightarrow> iid \<rightharpoonup> ConnectionEvent list" where
  "getAllEvents el =
     (\<lambda>i. case el i of None \<Rightarrow> None
                     | Some b \<Rightarrow> if eb_history b = [] then None else Some (eb_history b))"

definition el_remove :: "iid \<Rightarrow> eventLog \<Rightarrow> eventLog" where
  "el_remove i el = el(i := None)"

lemma logEvent_recordEvent:
  "logEvent now i ty d el =
   recordEvent \<lparr>ev_InstanceID = i, ev_Type = ty, ev_Timestamp = Some now, ev_Details = d\<rparr> el"
  by (simp add: logEvent_def recordEvent_def)

section \<open>The event buffer is a bounded history\<close>

definition eb_ring :: "eventBuffer \<Rightarrow> ConnectionEvent ring" where
  "eb_ring b = (eb_events b, eb_head b, eb_count b)"

definition eb_wf :: "eventBuffer \<Rightarrow> bool" where
  "eb_wf b \<longleftrightarrow> ring_wf eventBufferSize (eb_ring b)"

lemma eb_record_ring: "eb_ring (eb_record b ev) = ring_put eventBufferSize (eb_ring b) ev"
  by (simp add: eb_record_def eb_ring_def Let_def)

lemma eb_history_ring: "eb_history b = ring_hist eventBufferSize (eb_ring b)"
  by (simp add: eb_history_def eb_ring_def)

lemma eb_wf_record: "eb_wf b \<Longrightarrow> eb_wf (eb_record b ev)"
  by (simp add: eb_wf_def eb_record_ring ring_wf_put)

lemma eb_history_record:
  "eb_wf b \<Longrightarrow> eb_history (eb_record b ev) = lastn eventBufferSize (eb_history b @ [ev])"
  by (simp add: eb_wf_def eb_history_ring eb_record_ring ring_hist_put)

lemma eb_new: "eb_wf newEventBuffer" "eb_history newEventBuffer = []"
  by (simp_all add: eb_wf_def eb_ring_def newEventBuffer_def eb_history_def eventBufferSize_def)

lemma eb_history_cap: "eb_wf b \<Longrightarrow> lastn eventBufferSize (eb_history b) = eb_history b"
  by (auto simp: eb_history_def eb_wf_def eb_ring_def)

interpretation event_buffer: bounded_history eb_record eb_history eb_wf newEventBuffer eventBufferSize
  by unfold_locales (rule eb_new eb_wf_record eb_history_record eb_history_cap; assumption)+

section \<open>Runs of the log\<close>

datatype el_op = Emit ConnectionEvent | RemoveEvents iid

fun el_act :: "eventLog \<Rightarrow> el_op \<Rightarrow> eventLog" where
  "el_act el (Emit ev) = recordEvent ev el"
| "el_act el (RemoveEvents i) = el_remove i el"

text \<open>The specification: all events of an instance since its history was last removed.\<close>

fun emitted :: "iid \<Rightarrow> ConnectionEvent list \<Rightarrow> el_op \<Rightarrow> ConnectionEvent list" where
  "emitted i h (Emit ev) = (if ev_InstanceID ev = i then h @ [ev] else h)"
| "emitted i h (RemoveEvents k) = (if k = i then [] else h)"

definition buffer_is :: "eventBuffer option \<Rightarrow> ConnectionEvent list \<Rightarrow> bool" where
  "buffer_is v h \<longleftrightarrow>
     (case v of None \<Rightarrow> h = [] | Some b \<Rightarrow> h \<noteq> [] \<and> b = foldl eb_record newEventBuffer h)"

lemma buffer_is_step: "buffer_is (el i) h \<Longrightarrow> buffer_is (el_act el x i) (emitted i h x)"
  by (cases x) (auto simp: buffer_is_def recordEvent_def el_remove_def Let_def split: option.splits)

lemma buffer_is_run: "buffer_is (foldl el_act newEventLog ops i) (foldl (emitted i) [] ops)"
proof -
  have "buffer_is (foldl el_act el ops i) (foldl (emitted i) h ops)" if "buffer_is (el i) h" for el h
    using that by (induction ops arbitrary: el h) (simp_all add: buffer_is_step)
  then show ?thesis by (simp add: buffer_is_def newEventLog_def)
qed

lemma getEvents_run: "getEvents (foldl el_act newEventLog ops) i = lastn 100 (foldl (emitted i) [] ops)"
  using buffer_is_run [of ops i] event_buffer.hist_run [of "foldl (emitted i) [] ops"]
  by (auto simp: getEvents_def buffer_is_def eventBufferSize_def split: option.splits)

text \<open>After any sequence of events and removals over all instances, the event history of an
  instance is the last 100 of the events logged for it since its history was removed, oldest
  first, and the listing of all histories has exactly the non-empty ones.\<close>

theorem event_log_refines_history:
  "getEvents (foldl el_act newEventLog ops) i = lastn 100 (foldl (emitted i) [] ops) \<and>
   getAllEvents (foldl el_act newEventLog ops) i =
     (if foldl (emitted i) [] ops = [] then None
      else Some (lastn 100 (foldl (emitted i) [] ops)))"
proof -
  have "getAllEvents el i = (if getEvents el i = [] then None else Some (getEvents el i))" for el
    by (simp add: getAllEvents_def getEvents_def split: option.splits)
  moreover have "lastn 100 h = [] \<longleftrightarrow> h = []" for h :: "ConnectionEvent list"
    by (cases h) (auto simp: lastn_def)
  ultimately show ?thesis by (simp add: getEvents_run)
qed

end
