(* ===== verification/NetAddr.thy ===== *)
theory NetAddr imports GoBase "HOL-Library.Word" begin

unbundle bit_operations_syntax

text \<open>
  The part of Go's \<open>net\<close> and \<open>net/netip\<close> packages that the source IP restriction uses:
  parsing of IPv4 and IPv6 addresses and of CIDR ranges, membership of an address in a range, and
  equality of addresses.  Addresses are byte lists of length 4 or 16, as \<open>net.IP\<close> is.
\<close>

type_synonym byte = "8 word"
type_synonym IP = "byte list"

record IPNet =
  net_IP :: IP
  net_Mask :: "byte list"

section \<open>Parsing\<close>

definition parse_octet :: "string \<Rightarrow> byte option" where
  "parse_octet s =
     (if s \<noteq> [] \<and> list_all (\<lambda>c. digit_val c \<noteq> None) s \<and> (hd s = CHR ''0'' \<longrightarrow> length s = 1)
         \<and> dec_value s \<le> 255
      then Some (of_nat (dec_value s)) else None)"

definition parse_v4 :: "string \<Rightarrow> byte list option" where
  "parse_v4 s =
     (let fs = map parse_octet (go_split (CHR ''.'') s) in
      if length fs = 4 \<and> None \<notin> set fs then Some (map the fs) else None)"

text \<open>The loop of \<open>parseIPv6\<close>: hex groups separated by colons, at most one ellipsis, and an IPv4
  address in the last four bytes.\<close>

function v6_loop :: "string \<Rightarrow> byte list \<Rightarrow> nat option \<Rightarrow> (byte list \<times> nat option) option" where
  "v6_loop s ip ell =
     (if 16 \<le> length ip then (if s = [] then Some (ip, ell) else None)
      else
        let ds = takeWhile (\<lambda>c. hex_val c \<noteq> None) s; rest = dropWhile (\<lambda>c. hex_val c \<noteq> None) s in
        if ds = [] \<or> 4 < length ds then None
        else if rest \<noteq> [] \<and> hd rest = CHR ''.'' then
          (if ell = None \<and> length ip \<noteq> 12 then None
           else if 16 < length ip + 4 then None
           else case parse_v4 s of None \<Rightarrow> None | Some b \<Rightarrow> Some (ip @ b, ell))
        else
          let ip1 = ip @ [of_nat (hex_value ds div 256), of_nat (hex_value ds mod 256)] in
          if rest = [] then Some (ip1, ell)
          else if hd rest \<noteq> CHR '':'' \<or> length rest = 1 then None
          else
            let s1 = tl rest in
            if hd s1 = CHR '':'' then
              (if ell \<noteq> None then None
               else if tl s1 = [] then Some (ip1, Some (length ip1))
               else v6_loop (tl s1) ip1 (Some (length ip1)))
            else v6_loop s1 ip1 ell)"
  by pat_completeness auto
termination
proof (relation "measure (\<lambda>(s, ip, ell). length s)", goal_cases)
  case 1
  show ?case by simp
next
  case (2 s ip ell ds rest ip1 s1)
  then have "length rest \<le> length s" "rest \<noteq> []" "s1 = tl rest"
    by (simp_all add: length_dropWhile_le)
  then show ?case by (cases rest) auto
next
  case (3 s ip ell ds rest ip1 s1)
  then have "length rest \<le> length s" "rest \<noteq> []" "s1 = tl rest"
    by (simp_all add: length_dropWhile_le)
  then show ?case by (cases rest) auto
qed

declare v6_loop.simps [simp del]

fun v6_finish :: "byte list \<times> nat option \<Rightarrow> byte list option" where
  "v6_finish (ip, ell) =
     (if length ip < 16
      then (case ell of None \<Rightarrow> None
            | Some e \<Rightarrow> Some (take e ip @ replicate (16 - length ip) 0 @ drop e ip))
      else if ell \<noteq> None then None else Some ip)"

definition parse_v6 :: "string \<Rightarrow> byte list option" where
  "parse_v6 s =
     (if CHR ''%'' \<in> set s then None
      else if take 2 s = ''::'' then
        (if drop 2 s = [] then Some (replicate 16 0)
         else Option.bind (v6_loop (drop 2 s) [] (Some 0)) v6_finish)
      else Option.bind (v6_loop s [] None) v6_finish)"

datatype netip = V4 "byte list" | V6 "byte list"

fun parse_addr_from :: "string \<Rightarrow> string \<Rightarrow> netip option" where
  "parse_addr_from s [] = None"
| "parse_addr_from s (c # cs) =
     (if c = CHR ''.'' then map_option V4 (parse_v4 s)
      else if c = CHR '':'' then map_option V6 (parse_v6 s)
      else if c = CHR ''%'' then None
      else parse_addr_from s cs)"

definition v4InV6Prefix :: "byte list" where
  "v4InV6Prefix = replicate 10 0 @ [255, 255]"

fun as16 :: "netip \<Rightarrow> IP" where
  "as16 (V4 b) = v4InV6Prefix @ b"
| "as16 (V6 b) = b"

definition ParseIP :: "string \<Rightarrow> IP option" where
  "ParseIP s = map_option as16 (parse_addr_from s s)"

section \<open>Ranges\<close>

definition to4 :: "IP \<Rightarrow> IP option" where
  "to4 ip = (if length ip = 4 then Some ip
             else if length ip = 16 \<and> take 12 ip = v4InV6Prefix then Some (drop 12 ip) else None)"

definition mask_byte :: "nat \<Rightarrow> byte" where
  "mask_byte n = (if 8 \<le> n then 255 else NOT (drop_bit n 255))"

fun cidr_mask :: "nat \<Rightarrow> nat \<Rightarrow> byte list" where
  "cidr_mask ones 0 = []"
| "cidr_mask ones (Suc k) = mask_byte ones # cidr_mask (ones - 8) k"

definition and_bytes :: "byte list \<Rightarrow> byte list \<Rightarrow> byte list" where
  "and_bytes xs ms = map2 (AND) xs ms"

definition ParseCIDR :: "string \<Rightarrow> IPNet option" where
  "ParseCIDR s =
     (let addr = takeWhile (\<lambda>c. c \<noteq> CHR ''/'') s; mask = tl (dropWhile (\<lambda>c. c \<noteq> CHR ''/'') s) in
      if CHR ''/'' \<notin> set s then None
      else case parse_addr_from addr addr of
        None \<Rightarrow> None
      | Some a \<Rightarrow>
          let bits = (case a of V4 _ \<Rightarrow> 32 | V6 _ \<Rightarrow> 128) in
          if mask = [] \<or> \<not> list_all (\<lambda>c. digit_val c \<noteq> None) mask \<or> bits < dec_value mask then None
          else
            let m = cidr_mask (dec_value mask) (bits div 8);
                ip = (case a of V4 b \<Rightarrow> b | V6 b \<Rightarrow> b)
            in Some \<lparr>net_IP = and_bytes ip m, net_Mask = m\<rparr>)"

text \<open>\<open>IPNet.Contains\<close>: both sides are taken in their four-byte form when they have one.\<close>

definition net_contains :: "IPNet \<Rightarrow> IP \<Rightarrow> bool" where
  "net_contains n ip =
     (let nn = (case to4 (net_IP n) of Some b \<Rightarrow> b | None \<Rightarrow> net_IP n);
          m = (if length (net_Mask n) = 16 \<and> length nn = 4 then drop 12 (net_Mask n) else net_Mask n);
          x = (case to4 ip of Some b \<Rightarrow> b | None \<Rightarrow> ip)
      in length nn = length m \<and> length x = length nn \<and> and_bytes nn m = and_bytes x m)"

definition ip_equal :: "IP \<Rightarrow> IP \<Rightarrow> bool" where
  "ip_equal a b =
     (if length a = length b then a = b
      else if length a = 4 \<and> length b = 16 then take 12 b = v4InV6Prefix \<and> a = drop 12 b
      else if length a = 16 \<and> length b = 4 then take 12 a = v4InV6Prefix \<and> b = drop 12 a
      else False)"

section \<open>A range holds the addresses that share its prefix\<close>

definition byte_bits :: "byte \<Rightarrow> bool list" where
  "byte_bits b = map (bit b) [7, 6, 5, 4, 3, 2, 1, 0]"

definition ip_bits :: "byte list \<Rightarrow> bool list" where
  "ip_bits bs = concat (map byte_bits bs)"

lemma length_byte_bits [simp]: "length (byte_bits b) = 8"
  by (simp add: byte_bits_def)

lemma byte_eq_bits: "(a :: byte) = b \<longleftrightarrow> byte_bits a = byte_bits b"
proof
  assume "byte_bits a = byte_bits b"
  then have "bit a n = bit b n" if "n < 8" for n
    using that by (auto simp: byte_bits_def less_Suc_eq numeral_eq_Suc)
  then show "a = b" by (auto intro!: bit_word_eqI)
qed simp

lemma bit_mask_byte: "n < 8 \<Longrightarrow> bit (mask_byte k) n \<longleftrightarrow> 8 \<le> n + k"
proof -
  assume n: "n < 8"
  have ff: "bit (255 :: byte) j \<longleftrightarrow> j < 8" for j
  proof -
    have e: "(255 :: byte) = - 1" by simp
    show ?thesis unfolding e by (simp add: bit_simps)
  qed
  have len: "LENGTH(8) = 8" by simp
  from n show ?thesis
    by (cases "8 \<le> k") (auto simp only: mask_byte_def ff bit_not_iff bit_drop_bit_eq o_def if_True if_False
        possible_bit_word len)
qed

lemma masked_byte_eq:
  "(a AND mask_byte k = b AND mask_byte k) \<longleftrightarrow> take k (byte_bits a) = take k (byte_bits b)"
proof -
  have bits: "byte_bits (x AND mask_byte k) = map (\<lambda>n. bit x n \<and> 8 \<le> n + k) [7, 6, 5, 4, 3, 2, 1, 0]" for x
    by (simp add: byte_bits_def bit_and_iff bit_mask_byte)
  consider "k = 0" | "k = 1" | "k = 2" | "k = 3" | "k = 4" | "k = 5" | "k = 6" | "k = 7" | "8 \<le> k"
    by linarith
  then show ?thesis
    unfolding byte_eq_bits [of "a AND mask_byte k"] bits by cases (simp_all add: byte_bits_def)
qed

end
