(* ===== verification/IpRestrict.thy ===== *)
theory IpRestrict imports NetAddr begin

text \<open>
  \<^verbatim>\<open>control-plane/internal/sshproxy/iprestrict.go\<close>: the whitelist of source
  addresses an instance may put on SSH connections.  The local address the kernel picks for a
  target (\<open>GetOutboundIP\<close>, a UDP dial) is outside the program: it is the argument
  \<open>outbound\<close>, a map from \<open>host:port\<close> to the address or to no answer.  The text of an
  error is kept as its constructor and its arguments.
\<close>

section \<open>Data\<close>

record IPRestriction =
  CIDRs :: "IPNet list"
  IPs :: "IP list"
  Raw :: string

datatype parse_error = Invalid_CIDR string | Invalid_IP string

datatype restrict_reason = No_outbound_IP | Not_in_allowed_list string

datatype check_error =
    ErrParse iid parse_error
  | ErrIPRestricted (restricted_instance: iid) (SourceIP: "IP option") (restricted_reason: restrict_reason)

section \<open>Operations\<close>

fun parse_entries :: "string list \<Rightarrow> IPRestriction \<Rightarrow> parse_error + IPRestriction" where
  "parse_entries [] r = Inr r"
| "parse_entries (e # es) r =
     (let entry = trim_space e in
      if entry = [] then parse_entries es r
      else if contains entry ''/'' then
        (case ParseCIDR entry of
           None \<Rightarrow> Inl (Invalid_CIDR entry)
         | Some n \<Rightarrow> parse_entries es (r\<lparr>CIDRs := CIDRs r @ [n]\<rparr>))
      else
        (case ParseIP entry of
           None \<Rightarrow> Inl (Invalid_IP entry)
         | Some ip \<Rightarrow> parse_entries es (r\<lparr>IPs := IPs r @ [ip]\<rparr>)))"

definition ParseIPRestrictions :: "string \<Rightarrow> parse_error + IPRestriction option" where
  "ParseIPRestrictions csv0 =
     (let csv = trim_space csv0 in
      if csv = [] then Inr None
      else case parse_entries (go_split (CHR '','') csv) \<lparr>CIDRs = [], IPs = [], Raw = csv\<rparr> of
             Inl e \<Rightarrow> Inl e
           | Inr r \<Rightarrow> if CIDRs r = [] \<and> IPs r = [] then Inr None else Inr (Some r))"

definition IsAllowed :: "IPRestriction option \<Rightarrow> IP \<Rightarrow> bool" where
  "IsAllowed r ip =
     (case r of None \<Rightarrow> True
      | Some r \<Rightarrow> list_ex (\<lambda>n. net_contains n ip) (CIDRs r) \<or> list_ex (\<lambda>a. ip_equal a ip) (IPs r))"

definition GetOutboundIP :: "(string \<Rightarrow> IP option) \<Rightarrow> string \<Rightarrow> nat \<Rightarrow> IP option" where
  "GetOutboundIP outbound host port = outbound (join_host_port host port)"

definition CheckSourceIPAllowed ::
    "(string \<Rightarrow> IP option) \<Rightarrow> iid \<Rightarrow> string \<Rightarrow> string \<Rightarrow> nat \<Rightarrow> check_error option" where
  "CheckSourceIPAllowed outbound i allowed host port =
     (case ParseIPRestrictions allowed of
        Inl e \<Rightarrow> Some (ErrParse i e)
      | Inr None \<Rightarrow> None
      | Inr (Some r) \<Rightarrow>
          (case GetOutboundIP outbound host port of
             None \<Rightarrow> Some (ErrIPRestricted i None No_outbound_IP)
           | Some ip \<Rightarrow> if \<not> IsAllowed (Some r) ip
                        then Some (ErrIPRestricted i (Some ip) (Not_in_allowed_list (Raw r)))
                        else None))"

section \<open>The entries of a list\<close>

text \<open>What one entry of the list stands for.\<close>

datatype entry = Blank | Net IPNet | Single IP | Bad parse_error

definition entry_of :: "string \<Rightarrow> entry" where
  "entry_of s =
     (let e = trim_space s in
      if e = [] then Blank
      else if CHR ''/'' \<in> set e
      then (case ParseCIDR e of None \<Rightarrow> Bad (Invalid_CIDR e) | Some n \<Rightarrow> Net n)
      else (case ParseIP e of None \<Rightarrow> Bad (Invalid_IP e) | Some ip \<Rightarrow> Single ip))"

definition entries :: "string \<Rightarrow> entry list" where
  "entries csv = map entry_of (go_split (CHR '','') (trim_space csv))"

fun first_bad :: "entry list \<Rightarrow> parse_error option" where
  "first_bad [] = None"
| "first_bad (Bad e # es) = Some e"
| "first_bad (_ # es) = first_bad es"

fun admits :: "IP \<Rightarrow> entry \<Rightarrow> bool" where
  "admits ip (Net n) = net_contains n ip"
| "admits ip (Single a) = ip_equal a ip"
| "admits ip _ = False"

fun nets :: "entry list \<Rightarrow> IPNet list" where
  "nets [] = []"
| "nets (Net n # es) = n # nets es"
| "nets (_ # es) = nets es"

fun singles :: "entry list \<Rightarrow> IP list" where
  "singles [] = []"
| "singles (Single a # es) = a # singles es"
| "singles (_ # es) = singles es"

lemma contains_char: "contains s [c] \<longleftrightarrow> c \<in> set s"
  by (induction s) (auto simp: has_prefix_def)

lemma parse_entries_spec:
  "parse_entries es r =
     (case first_bad (map entry_of es) of
        Some e \<Rightarrow> Inl e
      | None \<Rightarrow> Inr (r\<lparr>CIDRs := CIDRs r @ nets (map entry_of es),
                      IPs := IPs r @ singles (map entry_of es)\<rparr>))"
proof (induction es arbitrary: r)
  case (Cons e es)
  then show ?case
    by (auto simp: entry_of_def [of e] Let_def contains_char split: option.splits)
qed simp

lemma trim_space_Nil [simp]: "trim_space [] = []"
  by (simp add: trim_space_def trim_left.simps trim_right.simps)

lemma entries_blank: "trim_space csv = [] \<Longrightarrow> entries csv = [Blank]"
  by (simp add: entries_def entry_of_def)

lemma ParseIPRestrictions_spec:
  "ParseIPRestrictions csv =
     (case first_bad (entries csv) of
        Some e \<Rightarrow> Inl e
      | None \<Rightarrow> if nets (entries csv) = [] \<and> singles (entries csv) = [] then Inr None
                else Inr (Some \<lparr>CIDRs = nets (entries csv), IPs = singles (entries csv),
                                Raw = trim_space csv\<rparr>))"
proof (cases "trim_space csv = []")
  case True
  then show ?thesis by (simp add: ParseIPRestrictions_def entries_blank)
next
  case False
  then show ?thesis
    by (auto simp: ParseIPRestrictions_def Let_def parse_entries_spec entries_def split: option.splits)
qed

lemma admits_ex:
  "(\<exists>e\<in>set es. admits ip e) \<longleftrightarrow> list_ex (\<lambda>n. net_contains n ip) (nets es) \<or> list_ex (\<lambda>a. ip_equal a ip) (singles es)"
proof (induction es)
  case (Cons e es)
  then show ?case by (cases e) auto
qed simp

lemma all_blank:
  "first_bad es = None \<Longrightarrow> nets es = [] \<and> singles es = [] \<longleftrightarrow> (\<forall>e\<in>set es. e = Blank)"
proof (induction es)
  case (Cons e es)
  then show ?case by (cases e) auto
qed simp

section \<open>The check\<close>

definition allowed_by :: "entry list \<Rightarrow> IP option \<Rightarrow> bool" where
  "allowed_by es out \<longleftrightarrow>
     list_all (\<lambda>e. case e of Bad _ \<Rightarrow> False | _ \<Rightarrow> True) es \<and>
     (list_all (\<lambda>e. e = Blank) es \<or> (case out of None \<Rightarrow> False | Some ip \<Rightarrow> list_ex (admits ip) es))"

lemma first_bad_None: "first_bad es = None \<longleftrightarrow> list_all (\<lambda>e. case e of Bad _ \<Rightarrow> False | _ \<Rightarrow> True) es"
proof (induction es)
  case (Cons e es)
  then show ?case by (cases e) auto
qed simp

lemma source_ip_closed:
  "CheckSourceIPAllowed outbound i csv host port = None \<longleftrightarrow>
   allowed_by (entries csv) (outbound (join_host_port host port))"
proof (cases "first_bad (entries csv)")
  case (Some e)
  then have "\<not> list_all (\<lambda>e. case e of Bad _ \<Rightarrow> False | _ \<Rightarrow> True) (entries csv)"
    using first_bad_None [of "entries csv"] by simp
  with Some show ?thesis
    by (simp add: CheckSourceIPAllowed_def ParseIPRestrictions_spec allowed_by_def)
next
  case None
  have "list_all (\<lambda>e. case e of Bad _ \<Rightarrow> False | _ \<Rightarrow> True) (entries csv)"
    using None first_bad_None by blast
  moreover have "list_all (\<lambda>e. e = Blank) (entries csv) \<longleftrightarrow>
                 nets (entries csv) = [] \<and> singles (entries csv) = []"
    using all_blank [OF None] by (simp add: list_all_iff)
  moreover have "list_ex (admits ip) (entries csv) \<longleftrightarrow>
      list_ex (\<lambda>n. net_contains n ip) (nets (entries csv)) \<or>
      list_ex (\<lambda>a. ip_equal a ip) (singles (entries csv))" for ip
    using admits_ex [of "entries csv" ip] by (simp add: list_ex_iff)
  ultimately show ?thesis
    using None
    by (simp add: CheckSourceIPAllowed_def ParseIPRestrictions_spec allowed_by_def
        GetOutboundIP_def IsAllowed_def split: option.split)
qed

text \<open>C15: The source IP check fails closed.  A connection passes exactly when every entry of the
  whitelist parses and either all entries are blank or the outbound address could be determined
  and some entry admits it; a list with one malformed entry, or an unknown outbound address under
  a non-empty list, lets nothing through.\<close>

theorem source_ip_fail_closed:
  "CheckSourceIPAllowed outbound i csv host port = None \<longleftrightarrow>
   allowed_by (entries csv) (outbound (join_host_port host port))"
  by (rule source_ip_closed)

section \<open>What a CIDR entry admits\<close>

lemma length_cidr_mask [simp]: "length (cidr_mask n k) = k"
  by (induction k arbitrary: n) simp_all

lemma length_ip_bits [simp]: "length (ip_bits bs) = 8 * length bs"
  by (induction bs) (simp_all add: ip_bits_def)

lemma masked_eq_prefix:
  "length a = length b \<Longrightarrow>
   and_bytes a (cidr_mask n (length a)) = and_bytes b (cidr_mask n (length b)) \<longleftrightarrow>
   take n (ip_bits a) = take n (ip_bits b)"
proof (induction a b arbitrary: n rule: list_induct2)
  case (Cons x xs y ys)
  have "take n (byte_bits x @ ip_bits xs) = take n (byte_bits y @ ip_bits ys) \<longleftrightarrow>
        take n (byte_bits x) = take n (byte_bits y) \<and> take (n - 8) (ip_bits xs) = take (n - 8) (ip_bits ys)"
    by simp
  moreover have "ip_bits (z # zs) = byte_bits z @ ip_bits zs" for z zs by (simp add: ip_bits_def)
  ultimately show ?case
    using Cons by (simp add: and_bytes_def masked_byte_eq)
qed (simp add: and_bytes_def ip_bits_def)

lemma and_bytes_idem: "length a = length m \<Longrightarrow> and_bytes (and_bytes a m) m = and_bytes a m"
  unfolding and_bytes_def by (induction a m rule: list_induct2) (simp_all add: and.assoc)

lemma length_and_bytes [simp]: "length (and_bytes a m) = min (length a) (length m)"
  by (simp add: and_bytes_def)

lemma parse_v4_length: "parse_v4 s = Some b \<Longrightarrow> length b = 4"
  by (auto simp: parse_v4_def Let_def split: if_splits)

lemma parse_addr_v4: "parse_addr_from s cs = Some (V4 b) \<Longrightarrow> length b = 4"
  by (induction s cs rule: parse_addr_from.induct) (auto split: if_splits dest: parse_v4_length)

lemma four_byte_form: "length b = 4 \<Longrightarrow> to4 b = Some b"
  by (simp add: to4_def)

text \<open>A parsed IPv4 range \<open>a.b.c.d/n\<close> contains an IPv4 address (in its four-byte
  form or mapped into IPv6) exactly when the two agree on their first n bits.\<close>

theorem cidr_v4_prefix:
  assumes "ParseCIDR s = Some net"
    and "parse_addr_from (takeWhile (\<lambda>c. c \<noteq> CHR ''/'') s) (takeWhile (\<lambda>c. c \<noteq> CHR ''/'') s) = Some (V4 b)"
    and "to4 ip = Some x"
  shows "net_contains net ip \<longleftrightarrow>
         take (dec_value (tl (dropWhile (\<lambda>c. c \<noteq> CHR ''/'') s))) (ip_bits x) =
         take (dec_value (tl (dropWhile (\<lambda>c. c \<noteq> CHR ''/'') s))) (ip_bits b)"
proof -
  let ?n = "dec_value (tl (dropWhile (\<lambda>c. c \<noteq> CHR ''/'') s))"
  have lb: "length b = 4" using assms(2) by (rule parse_addr_v4)
  have lx: "length x = 4" using assms(3) by (auto simp: to4_def split: if_splits)
  have net: "net = \<lparr>net_IP = and_bytes b (cidr_mask ?n 4), net_Mask = cidr_mask ?n 4\<rparr>"
    using assms(1) by (simp add: ParseCIDR_def assms(2) Let_def split: if_splits)
  have "net_contains net ip \<longleftrightarrow>
        and_bytes (and_bytes b (cidr_mask ?n 4)) (cidr_mask ?n 4) = and_bytes x (cidr_mask ?n 4)"
    using lb lx assms(3) by (simp add: net_contains_def net four_byte_form Let_def)
  also have "\<dots> \<longleftrightarrow> and_bytes b (cidr_mask ?n (length b)) = and_bytes x (cidr_mask ?n (length x))"
    using lb lx by (simp add: and_bytes_idem)
  also have "\<dots> \<longleftrightarrow> take ?n (ip_bits b) = take ?n (ip_bits x)"
    using lb lx by (intro masked_eq_prefix) simp
  finally show ?thesis by auto
qed

theorem cidr_v4_prefix_witness:
  "net_contains (the (ParseCIDR ''10.1.0.0/9'')) [10, 5, 6, 7] \<longleftrightarrow>
   take 9 (ip_bits [10, 5, 6, 7]) = take 9 (ip_bits [10, 1, 0, 0])"
proof -
  have "ParseCIDR ''10.1.0.0/9'' = Some (the (ParseCIDR ''10.1.0.0/9''))" by code_simp
  moreover have "parse_addr_from (takeWhile (\<lambda>c. c \<noteq> CHR ''/'') ''10.1.0.0/9'')
      (takeWhile (\<lambda>c. c \<noteq> CHR ''/'') ''10.1.0.0/9'') = Some (V4 [10, 1, 0, 0])" by code_simp
  moreover have "dec_value (tl (dropWhile (\<lambda>c. c \<noteq> CHR ''/'') ''10.1.0.0/9'')) = 9" by code_simp
  ultimately show ?thesis using cidr_v4_prefix [of "''10.1.0.0/9''" _ "[10, 1, 0, 0]" "[10, 5, 6, 7]"]
    by (simp add: four_byte_form)
qed

end
