(* ===== verification/SshManager.thy ===== *)
theory SshManager imports RateLimit ConnState EventLog IpRestrict begin

text \<open>
  \<^verbatim>\<open>control-plane/internal/sshproxy/manager.go\<close> and \<^verbatim>\<open>health.go\<close>: one SSH
  connection per instance, its host key (trust on first use), its health checks, and the single
  entry point \<open>EnsureConnected\<close>.

  The state is the record \<open>SSHManager\<close> with the fields of the struct, followed by a log of what
  the code does to objects outside the struct (\<open>w_\<dots>\<close> fields): the next fresh client and context,
  the clients closed, the clients dropped after a failed keepalive, the contexts cancelled, the
  listener and callback calls.  The network, the orchestrator and the answers of a client are
  arguments.  Each operation that reads the clock gets the reading at its start (\<open>t0\<close>) and, where it
  waits for the network, the reading after the wait (\<open>t1\<close>).  Errors of libraries are their texts.
\<close>

section \<open>State\<close>

record ConnectionMetrics =
  ConnectedAt :: "gtime option"
  LastHealthCheck :: "gtime option"
  SuccessfulChecks :: nat
  FailedChecks :: nat

record managedConn =
  mc_client :: nat
  mc_cancel :: nat
  mc_metrics :: ConnectionMetrics

type_synonym pubkey = string
type_synonym signer = nat
type_synonym listener = nat

record SSHManager =
  m_signer :: signer
  m_publicKey :: string
  m_conns :: "iid \<rightharpoonup> managedConn"
  m_healthCancel :: "nat option"
  m_orch :: bool
  m_eventListeners :: "listener list"
  m_reconnecting :: "iid \<rightharpoonup> nat"
  m_stateTracker :: stateTracker
  m_eventLog :: eventLog
  m_rateLimiter :: RateLimiter
  m_hostKeys :: "iid \<rightharpoonup> pubkey"
  w_nextClient :: nat
  w_nextCtx :: nat
  w_closed :: "nat list"
  w_dropped :: "nat list"
  w_cancelled :: "nat list"
  w_notified :: "(listener \<times> ConnectionEvent) list"
  w_stateCalls :: "(callback \<times> iid \<times> ConnectionState \<times> ConnectionState) list"

definition NewSSHManager :: "signer \<Rightarrow> string \<Rightarrow> SSHManager" where
  "NewSSHManager privateKey pub =
     \<lparr>m_signer = privateKey, m_publicKey = pub, m_conns = Map.empty, m_healthCancel = None,
      m_orch = False, m_eventListeners = [], m_reconnecting = Map.empty,
      m_stateTracker = newStateTracker, m_eventLog = newEventLog, m_rateLimiter = NewRateLimiter,
      m_hostKeys = Map.empty, w_nextClient = 0, w_nextCtx = 0, w_closed = [], w_dropped = [],
      w_cancelled = [], w_notified = [], w_stateCalls = []\<rparr>"

section \<open>Keys, events and states\<close>

definition ReloadKeys :: "signer \<Rightarrow> string \<Rightarrow> SSHManager \<Rightarrow> SSHManager" where
  "ReloadKeys s pub m = m\<lparr>m_signer := s, m_publicKey := pub\<rparr>"

definition SetOrchestrator :: "SSHManager \<Rightarrow> SSHManager" where
  "SetOrchestrator m = m\<lparr>m_orch := True\<rparr>"

definition OnEvent :: "listener \<Rightarrow> SSHManager \<Rightarrow> SSHManager" where
  "OnEvent l m = m\<lparr>m_eventListeners := m_eventListeners m @ [l]\<rparr>"

definition emitEvent :: "ConnectionEvent \<Rightarrow> SSHManager \<Rightarrow> SSHManager" where
  "emitEvent ev m =
     m\<lparr>m_eventLog := recordEvent ev (m_eventLog m),
       w_notified := w_notified m @ map (\<lambda>l. (l, ev)) (m_eventListeners m)\<rparr>"

definition event :: "gtime \<Rightarrow> iid \<Rightarrow> ConnectionEventType \<Rightarrow> string \<Rightarrow> ConnectionEvent" where
  "event now i ty details =
     \<lparr>ev_InstanceID = i, ev_Type = ty, ev_Timestamp = Some now, ev_Details = details\<rparr>"

text \<open>The call \<open>m.stateTracker.setState\<close>.\<close>

definition mark :: "gtime \<Rightarrow> iid \<Rightarrow> ConnectionState \<Rightarrow> string \<Rightarrow> SSHManager \<Rightarrow> SSHManager" where
  "mark now i s reason m =
     (let (calls, tr) = setState now i s reason (m_stateTracker m) in
      m\<lparr>m_stateTracker := tr, w_stateCalls := w_stateCalls m @ calls\<rparr>)"

text \<open>The host key callback reads the stored key under the read lock and, when there was none, looks
  again under the write lock: \<open>seen\<close> is what the first look found, the state is the one at the
  second.\<close>

definition hostKeyCallback :: "pubkey option \<Rightarrow> iid \<Rightarrow> pubkey \<Rightarrow> SSHManager \<Rightarrow> bool \<times> SSHManager" where
  "hostKeyCallback seen i key m =
     (case seen of
        None \<Rightarrow>
          (case m_hostKeys m i of
             Some known2 \<Rightarrow> (known2 = key, m)
           | None \<Rightarrow> (True, m\<lparr>m_hostKeys := (m_hostKeys m)(i \<mapsto> key)\<rparr>))
      | Some known \<Rightarrow> (known = key, m))"

definition ClearHostKey :: "iid \<Rightarrow> SSHManager \<Rightarrow> SSHManager" where
  "ClearHostKey i m = m\<lparr>m_hostKeys := (m_hostKeys m)(i := None)\<rparr>"

section \<open>Connect and Close\<close>

text \<open>How the network answers one connection attempt: the dial fails, the handshake fails before the
  server has shown its key, or the server shows a key; in the last case the authentication that
  follows an accepted key has its own outcome, and a refused key ends in the third argument's text.\<close>

datatype ssh_net =
    DialFails string
  | HandshakeFails string
  | ServerKey pubkey "string option" string

datatype ssh_error =
    SshRateLimited rate_error
  | SshDial string string
  | SshHandshake string string

fun NewClientConn :: "iid \<Rightarrow> ssh_net \<Rightarrow> SSHManager \<Rightarrow> string option \<times> SSHManager" where
  "NewClientConn i (DialFails e) m = (Some e, m)"
| "NewClientConn i (HandshakeFails e) m = (Some e, m)"
| "NewClientConn i (ServerKey key auth refusal) m =
     (let (ok, m') = hostKeyCallback (m_hostKeys m i) i key m in
      if \<not> ok then (Some refusal, m') else (auth, m'))"

definition install :: "gtime \<Rightarrow> iid \<Rightarrow> SSHManager \<Rightarrow> nat \<times> SSHManager" where
  "install t i m =
     (let c = w_nextClient m; k = w_nextCtx m;
          m1 = (case m_conns m i of
                  None \<Rightarrow> m
                | Some existing \<Rightarrow> m\<lparr>w_cancelled := w_cancelled m @ [mc_cancel existing],
                                    w_closed := w_closed m @ [mc_client existing]\<rparr>)
      in (c, m1\<lparr>m_conns := (m_conns m1)(i \<mapsto>
                  \<lparr>mc_client = c, mc_cancel = k,
                   mc_metrics = \<lparr>ConnectedAt = Some t, LastHealthCheck = None,
                                 SuccessfulChecks = 0, FailedChecks = 0\<rparr>\<rparr>),
                w_nextClient := c + 1, w_nextCtx := k + 1\<rparr>))"

text \<open>The stages of \<open>Connect\<close>: up to the dial, and from the handshake's outcome on.\<close>

definition begin_connect :: "gtime \<Rightarrow> iid \<Rightarrow> string \<Rightarrow> SSHManager \<Rightarrow> SSHManager" where
  "begin_connect t0 i addr m =
     mark t0 i StateConnecting (''connecting to '' @ addr)
       (if m_conns m i \<noteq> None then ClearHostKey i m else m)"

fun end_connect :: "gtime \<Rightarrow> iid \<Rightarrow> string \<Rightarrow> string option \<times> SSHManager \<Rightarrow> (ssh_error + nat) \<times> SSHManager" where
  "end_connect t1 i addr (Some e, m) =
     (Inl (SshHandshake addr e),
      mark t1 i StateDisconnected (''ssh handshake failed: '' @ e)
        (m\<lparr>m_rateLimiter := RecordFailure t1 i (m_rateLimiter m)\<rparr>))"
| "end_connect t1 i addr (None, m) =
     (case install t1 i (m\<lparr>m_rateLimiter := RecordSuccess i (m_rateLimiter m)\<rparr>) of
        (c, m') \<Rightarrow> (Inr c, mark t1 i StateConnected (''connected to '' @ addr) m'))"

definition Connect :: "gtime \<Rightarrow> gtime \<Rightarrow> iid \<Rightarrow> string \<Rightarrow> nat \<Rightarrow> ssh_net \<Rightarrow> SSHManager \<Rightarrow>
    (ssh_error + nat) \<times> SSHManager" where
  "Connect t0 t1 i host port net m =
     (case Allow t0 i (m_rateLimiter m) of
        (Some e, rl) \<Rightarrow> (Inl (SshRateLimited e), m\<lparr>m_rateLimiter := rl\<rparr>)
      | (None, rl) \<Rightarrow>
          let addr = join_host_port host port;
              m3 = begin_connect t0 i addr (m\<lparr>m_rateLimiter := rl\<rparr>)
          in case net of
               DialFails e \<Rightarrow>
                 (Inl (SshDial addr e),
                  mark t1 i StateDisconnected (''dial failed: '' @ e)
                    (m3\<lparr>m_rateLimiter := RecordFailure t1 i (m_rateLimiter m3)\<rparr>))
             | _ \<Rightarrow> end_connect t1 i addr (NewClientConn i net m3))"

definition GetConnection :: "iid \<Rightarrow> SSHManager \<Rightarrow> nat option" where
  "GetConnection i m = map_option mc_client (m_conns m i)"

text \<open>\<open>Close\<close>: \<open>err\<close> is what the client's own \<open>Close\<close> returns.\<close>

definition Close :: "gtime \<Rightarrow> iid \<Rightarrow> string option \<Rightarrow> SSHManager \<Rightarrow> string option \<times> SSHManager" where
  "Close now i err m =
     (case m_conns m i of
        None \<Rightarrow> (None, m)
      | Some mc \<Rightarrow>
          let m1 = m\<lparr>m_conns := (m_conns m)(i := None),
                     w_cancelled := w_cancelled m @ [mc_cancel mc],
                     w_closed := w_closed m @ [mc_client mc]\<rparr>
          in case err of
               Some e \<Rightarrow> (Some e, mark now i StateDisconnected (''closed with error: '' @ e) m1)
             | None \<Rightarrow> (None, mark now i StateDisconnected ''connection closed'' m1))"

section \<open>Health checks\<close>

definition metrics_recordSuccess :: "gtime \<Rightarrow> ConnectionMetrics \<Rightarrow> ConnectionMetrics" where
  "metrics_recordSuccess now cm =
     cm\<lparr>LastHealthCheck := Some now, SuccessfulChecks := SuccessfulChecks cm + 1\<rparr>"

definition metrics_recordFailure :: "gtime \<Rightarrow> ConnectionMetrics \<Rightarrow> ConnectionMetrics" where
  "metrics_recordFailure now cm =
     cm\<lparr>LastHealthCheck := Some now, FailedChecks := FailedChecks cm + 1\<rparr>"

interpretation conn_metrics:
  check_counters metrics_recordSuccess metrics_recordFailure SuccessfulChecks FailedChecks LastHealthCheck
  by unfold_locales (simp_all add: metrics_recordSuccess_def metrics_recordFailure_def)

definition Uptime :: "gtime \<Rightarrow> ConnectionMetrics \<Rightarrow> duration" where
  "Uptime now cm = (case ConnectedAt cm of None \<Rightarrow> 0 | Some t \<Rightarrow> now - t)"

datatype probe = ProbeNoSession string | ProbeFails string | ProbeTimeout | ProbeOk

definition with_metrics :: "(ConnectionMetrics \<Rightarrow> ConnectionMetrics) \<Rightarrow> iid \<Rightarrow> SSHManager \<Rightarrow> SSHManager" where
  "with_metrics f i m =
     m\<lparr>m_conns := (m_conns m)(i := map_option (\<lambda>mc. mc\<lparr>mc_metrics := f (mc_metrics mc)\<rparr>) (m_conns m i))\<rparr>"

definition HealthCheck :: "gtime \<Rightarrow> iid \<Rightarrow> probe \<Rightarrow> SSHManager \<Rightarrow> string option \<times> SSHManager" where
  "HealthCheck now i p m =
     (if m_conns m i = None then (Some (''no connection for instance '' @ show_nat i), m)
      else case p of
        ProbeNoSession e \<Rightarrow> (Some (''create session for instance '' @ show_nat i @ '': '' @ e),
                            with_metrics (metrics_recordFailure now) i m)
      | ProbeFails e \<Rightarrow> (Some (''health check command failed for instance '' @ show_nat i @ '': '' @ e),
                        with_metrics (metrics_recordFailure now) i m)
      | ProbeTimeout \<Rightarrow> (Some (''health check timed out for instance '' @ show_nat i),
                       with_metrics (metrics_recordFailure now) i m)
      | ProbeOk \<Rightarrow> (None, with_metrics (metrics_recordSuccess now) i m))"

definition GetMetrics :: "iid \<Rightarrow> SSHManager \<Rightarrow> ConnectionMetrics option" where
  "GetMetrics i m = map_option mc_metrics (m_conns m i)"

definition StartHealthChecker :: "SSHManager \<Rightarrow> SSHManager" where
  "StartHealthChecker m = m\<lparr>m_healthCancel := Some (w_nextCtx m), w_nextCtx := w_nextCtx m + 1\<rparr>"

definition StopHealthChecker :: "SSHManager \<Rightarrow> SSHManager" where
  "StopHealthChecker m =
     (case m_healthCancel m of
        None \<Rightarrow> m
      | Some k \<Rightarrow> m\<lparr>m_healthCancel := None, w_cancelled := w_cancelled m @ [k]\<rparr>)"

section \<open>Reconnections: who runs\<close>

text \<open>\<open>triggerReconnect\<close> returns the context of the goroutine it starts, if it starts one; the
  goroutine's deferred function is \<open>reconnectDone\<close>.\<close>

definition triggerReconnect :: "iid \<Rightarrow> SSHManager \<Rightarrow> nat option \<times> SSHManager" where
  "triggerReconnect i m =
     (if \<not> m_orch m then (None, m)
      else if m_reconnecting m i \<noteq> None then (None, m)
      else (Some (w_nextCtx m),
            m\<lparr>m_reconnecting := (m_reconnecting m)(i \<mapsto> w_nextCtx m), w_nextCtx := w_nextCtx m + 1\<rparr>))"

definition reconnectDone :: "iid \<Rightarrow> SSHManager \<Rightarrow> SSHManager" where
  "reconnectDone i m = m\<lparr>m_reconnecting := (m_reconnecting m)(i := None)\<rparr>"

definition cancelEntry :: "iid \<Rightarrow> SSHManager \<Rightarrow> SSHManager" where
  "cancelEntry i m =
     (case m_reconnecting m i of
        None \<Rightarrow> m
      | Some k \<Rightarrow> m\<lparr>w_cancelled := w_cancelled m @ [k],
                    m_reconnecting := (m_reconnecting m)(i := None)\<rparr>)"

definition CancelReconnection :: "gtime \<Rightarrow> iid \<Rightarrow> string option \<Rightarrow> SSHManager \<Rightarrow> SSHManager" where
  "CancelReconnection now i err m = snd (Close now i err (cancelEntry i m))"

text \<open>Go walks a map in no fixed order; \<open>ids\<close> is the order of this walk.\<close>

definition cancelAllReconnections :: "iid list \<Rightarrow> SSHManager \<Rightarrow> SSHManager" where
  "cancelAllReconnections ids m = fold cancelEntry ids m"

fun close_one :: "(nat \<Rightarrow> string option) \<Rightarrow> (iid \<rightharpoonup> managedConn) \<Rightarrow> iid \<Rightarrow>
    (iid \<times> string) option \<times> SSHManager \<Rightarrow> (iid \<times> string) option \<times> SSHManager" where
  "close_one errs conns i (firstErr, m) =
     (case conns i of
        None \<Rightarrow> (firstErr, m)
      | Some mc \<Rightarrow>
          ((case errs (mc_client mc) of
              Some e \<Rightarrow> if firstErr = None then Some (i, e) else firstErr
            | None \<Rightarrow> firstErr),
           m\<lparr>w_cancelled := w_cancelled m @ [mc_cancel mc], w_closed := w_closed m @ [mc_client mc]\<rparr>))"

definition CloseAll :: "iid list \<Rightarrow> iid list \<Rightarrow> (nat \<Rightarrow> string option) \<Rightarrow> SSHManager \<Rightarrow>
    (iid \<times> string) option \<times> SSHManager" where
  "CloseAll rids ids errs m =
     (let m1 = cancelAllReconnections rids (StopHealthChecker m);
          conns = m_conns m1
      in fold (close_one errs conns) ids (None, m1\<lparr>m_conns := Map.empty\<rparr>))"

section \<open>The background loops\<close>

text \<open>One failed keepalive of the goroutine that watches \<open>client\<close>.\<close>

definition keepalive_failed :: "gtime \<Rightarrow> iid \<Rightarrow> nat \<Rightarrow> string \<Rightarrow> SSHManager \<Rightarrow> nat option \<times> SSHManager" where
  "keepalive_failed now i client err m =
     (let m1 = (case m_conns m i of
                  None \<Rightarrow> m
                | Some mc \<Rightarrow> if mc_client mc = client
                            then m\<lparr>m_conns := (m_conns m)(i := None), w_dropped := w_dropped m @ [client]\<rparr>
                            else m);
          reason = ''keepalive failed: '' @ err;
          m2 = mark now i StateDisconnected reason m1;
          m3 = emitEvent (event now i EventDisconnected reason) m2
      in triggerReconnect i m3)"

text \<open>\<open>checkAllConnections\<close> for the snapshot \<open>ids\<close> of the connected instances: the probe's outcome
  and the error of closing a client are functions of the instance.  It returns the reconnect
  goroutines it starts.\<close>

definition check_one :: "gtime \<Rightarrow> probe \<Rightarrow> string option \<Rightarrow> iid \<Rightarrow> SSHManager \<Rightarrow> nat option \<times> SSHManager" where
  "check_one now p cerr i m =
     (case HealthCheck now i p m of
        (None, m1) \<Rightarrow> (None, m1)
      | (Some e, m1) \<Rightarrow>
          let reason = ''health check failed: '' @ e;
              m2 = emitEvent (event now i EventHealthCheckFailed reason) m1;
              m3 = mark now i StateDisconnected reason m2;
              m4 = snd (Close now i cerr m3);
              m5 = emitEvent (event now i EventDisconnected reason) m4
          in triggerReconnect i m5)"

definition checkAllConnections :: "gtime \<Rightarrow> (iid \<Rightarrow> probe) \<Rightarrow> (iid \<Rightarrow> string option) \<Rightarrow> iid list \<Rightarrow>
    SSHManager \<Rightarrow> SSHManager" where
  "checkAllConnections now probes cerrs ids m =
     fold (\<lambda>i m. snd (check_one now (probes i) (cerrs i) i m)) ids m"

section \<open>EnsureConnected\<close>

text \<open>\<open>probe\<close>: whether a client answers a keepalive; \<open>txt\<close>: the text an IP restriction error prints
  as.\<close>

definition IsConnected :: "(nat \<Rightarrow> bool) \<Rightarrow> iid \<Rightarrow> SSHManager \<Rightarrow> bool" where
  "IsConnected probe i m = (case m_conns m i of None \<Rightarrow> False | Some mc \<Rightarrow> probe (mc_client mc))"

record ensure_env =
  env_now :: gtime
  env_then :: gtime
  env_probe :: "nat \<Rightarrow> bool"
  env_address :: "string + string \<times> nat"
  env_outbound :: "string \<Rightarrow> IP option"
  env_configure :: "string \<Rightarrow> string option"
  env_net :: ssh_net

datatype ensure_error =
    EnsureAddress string
  | EnsureRestricted check_error
  | EnsureConfigure string
  | EnsureConnect ssh_error

definition EnsureConnectedWithIPCheck :: "(check_error \<Rightarrow> string) \<Rightarrow> ensure_env \<Rightarrow> iid \<Rightarrow> string \<Rightarrow>
    SSHManager \<Rightarrow> (ensure_error + nat) \<times> SSHManager" where
  "EnsureConnectedWithIPCheck txt env i allowed m =
     (if IsConnected (env_probe env) i m then (Inr (the (GetConnection i m)), m)
      else case env_address env of
        Inl e \<Rightarrow> (Inl (EnsureAddress e), m)
      | Inr (host, port) \<Rightarrow>
          (case CheckSourceIPAllowed (env_outbound env) i allowed host port of
             Some e \<Rightarrow>
               (Inl (EnsureRestricted e),
                emitEvent (event (env_now env) i EventDisconnected
                             (''connection blocked by IP restriction: '' @ txt e))
                  (mark (env_now env) i StateDisconnected (''blocked by IP restriction: '' @ txt e) m))
           | None \<Rightarrow>
               (case env_configure env (m_publicKey m) of
                  Some e \<Rightarrow> (Inl (EnsureConfigure e), m)
                | None \<Rightarrow>
                    (case Connect (env_now env) (env_then env) i host port (env_net env) m of
                       (Inl e, m') \<Rightarrow> (Inl (EnsureConnect e), m')
                     | (Inr c, m') \<Rightarrow> (Inr c, m')))))"

definition EnsureConnected :: "(check_error \<Rightarrow> string) \<Rightarrow> ensure_env \<Rightarrow> iid \<Rightarrow> SSHManager \<Rightarrow>
    (ensure_error + nat) \<times> SSHManager" where
  "EnsureConnected txt env i m = EnsureConnectedWithIPCheck txt env i [] m"

section \<open>Frames\<close>

lemma getState_mark [simp]: "getState (m_stateTracker (mark now i s r m)) i = s"
  by (simp add: mark_def setState_def st_getOrCreate_def getState_def Let_def entry_record_def
      split: prod.splits option.splits)

lemma getState_mark_other [frame_simps]:
  "j \<noteq> i \<Longrightarrow> getState (m_stateTracker (mark now i s r m)) j = getState (m_stateTracker m) j"
  by (auto simp: mark_def setState_def st_getOrCreate_def getState_def Let_def
      split: prod.splits option.splits)

lemma mark_frame [frame_simps]:
  "m_conns (mark now i s r m) = m_conns m" "m_reconnecting (mark now i s r m) = m_reconnecting m"
  "m_eventLog (mark now i s r m) = m_eventLog m" "m_rateLimiter (mark now i s r m) = m_rateLimiter m"
  "m_hostKeys (mark now i s r m) = m_hostKeys m" "m_orch (mark now i s r m) = m_orch m"
  "w_nextClient (mark now i s r m) = w_nextClient m" "w_closed (mark now i s r m) = w_closed m"
  "w_dropped (mark now i s r m) = w_dropped m" "m_publicKey (mark now i s r m) = m_publicKey m"
  "m_eventListeners (mark now i s r m) = m_eventListeners m"
  "w_nextCtx (mark now i s r m) = w_nextCtx m" "w_cancelled (mark now i s r m) = w_cancelled m"
  by (simp_all add: mark_def split: prod.splits)

lemma emit_frame [frame_simps]:
  "m_conns (emitEvent ev m) = m_conns m" "m_reconnecting (emitEvent ev m) = m_reconnecting m"
  "m_stateTracker (emitEvent ev m) = m_stateTracker m" "m_rateLimiter (emitEvent ev m) = m_rateLimiter m"
  "m_hostKeys (emitEvent ev m) = m_hostKeys m" "m_orch (emitEvent ev m) = m_orch m"
  "w_nextClient (emitEvent ev m) = w_nextClient m" "w_closed (emitEvent ev m) = w_closed m"
  "w_dropped (emitEvent ev m) = w_dropped m" "m_publicKey (emitEvent ev m) = m_publicKey m"
  "m_eventListeners (emitEvent ev m) = m_eventListeners m"
  "w_nextCtx (emitEvent ev m) = w_nextCtx m" "w_cancelled (emitEvent ev m) = w_cancelled m"
  by (simp_all add: emitEvent_def)

lemma hostKey_frame [frame_simps]:
  "m_conns (snd (hostKeyCallback s i k m)) = m_conns m"
  "m_reconnecting (snd (hostKeyCallback s i k m)) = m_reconnecting m"
  "m_stateTracker (snd (hostKeyCallback s i k m)) = m_stateTracker m"
  "m_rateLimiter (snd (hostKeyCallback s i k m)) = m_rateLimiter m"
  "w_nextClient (snd (hostKeyCallback s i k m)) = w_nextClient m"
  "w_closed (snd (hostKeyCallback s i k m)) = w_closed m"
  "w_dropped (snd (hostKeyCallback s i k m)) = w_dropped m"
  "m_eventLog (snd (hostKeyCallback s i k m)) = m_eventLog m"
  "m_orch (snd (hostKeyCallback s i k m)) = m_orch m"
  by (simp_all add: hostKeyCallback_def split: option.splits)

lemma handshake_frame [frame_simps]:
  "m_conns (snd (NewClientConn i n m)) = m_conns m"
  "m_reconnecting (snd (NewClientConn i n m)) = m_reconnecting m"
  "m_stateTracker (snd (NewClientConn i n m)) = m_stateTracker m"
  "m_rateLimiter (snd (NewClientConn i n m)) = m_rateLimiter m"
  "w_nextClient (snd (NewClientConn i n m)) = w_nextClient m"
  "w_closed (snd (NewClientConn i n m)) = w_closed m"
  "w_dropped (snd (NewClientConn i n m)) = w_dropped m"
  "m_eventLog (snd (NewClientConn i n m)) = m_eventLog m"
  "m_orch (snd (NewClientConn i n m)) = m_orch m"
  using hostKey_frame [where i = i and m = m]
  by (cases n; simp split: prod.splits; metis snd_conv)+

lemma install_frame [frame_simps]:
  "m_reconnecting (snd (install t i m)) = m_reconnecting m"
  "m_stateTracker (snd (install t i m)) = m_stateTracker m"
  "m_rateLimiter (snd (install t i m)) = m_rateLimiter m"
  "m_hostKeys (snd (install t i m)) = m_hostKeys m"
  "w_dropped (snd (install t i m)) = w_dropped m"
  "m_eventLog (snd (install t i m)) = m_eventLog m"
  "m_orch (snd (install t i m)) = m_orch m"
  by (simp_all add: install_def Let_def split: option.splits)

lemma ClearHostKey_frame [frame_simps]:
  "m_conns (ClearHostKey i m) = m_conns m" "m_stateTracker (ClearHostKey i m) = m_stateTracker m"
  "m_reconnecting (ClearHostKey i m) = m_reconnecting m" "m_rateLimiter (ClearHostKey i m) = m_rateLimiter m"
  "w_nextClient (ClearHostKey i m) = w_nextClient m" "w_closed (ClearHostKey i m) = w_closed m"
  "w_dropped (ClearHostKey i m) = w_dropped m" "m_eventLog (ClearHostKey i m) = m_eventLog m"
  "m_orch (ClearHostKey i m) = m_orch m"
  by (simp_all add: ClearHostKey_def)

text \<open>The table of clients, the part of the state the resource accounting is about.\<close>

type_synonym clients = "(iid \<rightharpoonup> nat) \<times> nat \<times> nat list \<times> nat list"

definition clients :: "SSHManager \<Rightarrow> clients" where
  "clients m = (map_option mc_client \<circ> m_conns m, w_nextClient m, w_closed m, w_dropped m)"

fun open_client :: "iid \<Rightarrow> clients \<Rightarrow> clients" where
  "open_client i (tab, nxt, closed, dropped) =
     (tab(i \<mapsto> nxt), nxt + 1, closed @ (case tab i of None \<Rightarrow> [] | Some c \<Rightarrow> [c]), dropped)"

fun close_client :: "iid \<Rightarrow> clients \<Rightarrow> clients" where
  "close_client i (tab, nxt, closed, dropped) =
     (tab(i := None), nxt, closed @ (case tab i of None \<Rightarrow> [] | Some c \<Rightarrow> [c]), dropped)"

fun drop_client :: "iid \<Rightarrow> nat \<Rightarrow> clients \<Rightarrow> clients" where
  "drop_client i c (tab, nxt, closed, dropped) =
     (if tab i = Some c then (tab(i := None), nxt, closed, dropped @ [c]) else (tab, nxt, closed, dropped))"

lemma clients_frame [frame_simps]:
  "clients (mark now i s r m) = clients m" "clients (emitEvent ev m) = clients m"
  "clients (ClearHostKey i m) = clients m" "clients (snd (hostKeyCallback sn i k m)) = clients m"
  "clients (snd (NewClientConn i n m)) = clients m" "clients (m\<lparr>m_rateLimiter := rl\<rparr>) = clients m"
  "clients (snd (triggerReconnect i m)) = clients m" "clients (cancelEntry i m) = clients m"
  "clients (reconnectDone i m) = clients m" "clients (StopHealthChecker m) = clients m"
  "clients (ReloadKeys sg p m) = clients m" "clients (StartHealthChecker m) = clients m"
  by (simp_all add: clients_def frame_simps triggerReconnect_def cancelEntry_def reconnectDone_def
      StopHealthChecker_def ReloadKeys_def StartHealthChecker_def split: option.splits)

lemma clients_with_metrics [frame_simps]: "clients (with_metrics f i m) = clients m"
  by (auto simp: clients_def with_metrics_def fun_eq_iff option.map_comp o_def intro!: option.map_cong)

lemma clients_HealthCheck [frame_simps]: "clients (snd (HealthCheck now i p m)) = clients m"
  by (simp add: HealthCheck_def clients_with_metrics split: probe.splits)

lemma clients_install: "clients (snd (install t i m)) = open_client i (clients m)"
  by (auto simp: install_def clients_def Let_def fun_eq_iff split: option.splits)

lemma clients_Close: "clients (snd (Close now i err m)) = close_client i (clients m)"
  by (auto simp: Close_def clients_def frame_simps fun_eq_iff Let_def split: option.splits)

text \<open>What a call of \<open>Connect\<close> does to the table and to the state the instance is in.\<close>

lemma clients_begin [frame_simps]: "clients (begin_connect t0 i addr m) = clients m"
  by (simp add: begin_connect_def frame_simps)

lemma end_connect_result:
  "fst (end_connect t1 i addr (r, m)) =
     (case r of Some e \<Rightarrow> Inl (SshHandshake addr e) | None \<Rightarrow> Inr (w_nextClient m))"
  "clients (snd (end_connect t1 i addr (r, m))) =
     (case r of Some e \<Rightarrow> clients m | None \<Rightarrow> open_client i (clients m))"
  "getState (m_stateTracker (snd (end_connect t1 i addr (r, m)))) i =
     (case r of Some e \<Rightarrow> StateDisconnected | None \<Rightarrow> StateConnected)"
proof -
  let ?m = "m\<lparr>m_rateLimiter := RecordSuccess i (m_rateLimiter m)\<rparr>"
  obtain c m6 where inst: "install t1 i ?m = (c, m6)" by fastforce
  then have c: "c = w_nextClient m" by (simp add: install_def Let_def)
  have m6: "clients m6 = open_client i (clients m)"
    using clients_install [of t1 i ?m] inst by (simp only: snd_conv clients_frame)
  show
    "fst (end_connect t1 i addr (r, m)) =
       (case r of Some e \<Rightarrow> Inl (SshHandshake addr e) | None \<Rightarrow> Inr (w_nextClient m))"
    by (cases r) (simp_all add: inst c)
  show
    "clients (snd (end_connect t1 i addr (r, m))) =
       (case r of Some e \<Rightarrow> clients m | None \<Rightarrow> open_client i (clients m))"
    by (cases r) (simp_all add: inst m6 frame_simps)
  show
    "getState (m_stateTracker (snd (end_connect t1 i addr (r, m)))) i =
       (case r of Some e \<Rightarrow> StateDisconnected | None \<Rightarrow> StateConnected)"
    by (cases r) (simp_all add: inst)
qed

declare end_connect.simps [simp del]

text \<open>How a connection attempt can end.\<close>

datatype connect_case = Refused | Failed | Opened

definition connect_case :: "gtime \<Rightarrow> iid \<Rightarrow> ssh_net \<Rightarrow> SSHManager \<Rightarrow> connect_case" where
  "connect_case t0 i net m =
     (if fst (Allow t0 i (m_rateLimiter m)) \<noteq> None then Refused
      else case net of
        DialFails _ \<Rightarrow> Failed
      | HandshakeFails _ \<Rightarrow> Failed
      | ServerKey key auth _ \<Rightarrow>
          if (m_conns m i \<noteq> None \<or> m_hostKeys m i = None \<or> m_hostKeys m i = Some key) \<and> auth = None
          then Opened else Failed)"

lemma begin_hostKeys: "m_hostKeys (begin_connect t0 i addr m) =
    (if m_conns m i \<noteq> None then (m_hostKeys m)(i := None) else m_hostKeys m)"
  by (simp add: begin_connect_def frame_simps ClearHostKey_def)

lemma nextClient_begin [frame_simps]: "w_nextClient (begin_connect t0 i addr m) = w_nextClient m"
  by (simp add: begin_connect_def frame_simps)

lemma handshake_ok:
  "fst (NewClientConn i net m) = None \<longleftrightarrow>
   (case net of ServerKey key auth _ \<Rightarrow>
      (m_hostKeys m i = None \<or> m_hostKeys m i = Some key) \<and> auth = None | _ \<Rightarrow> False)"
  by (cases net) (auto simp: hostKeyCallback_def split: option.splits)

lemma Connect_allowed:
  assumes "Allow t0 i (m_rateLimiter m) = (None, rl)" and "addr = join_host_port host port"
    and "m3 = begin_connect t0 i addr (m\<lparr>m_rateLimiter := rl\<rparr>)"
  shows "Connect t0 t1 i host port net m =
     (case net of
        DialFails e \<Rightarrow> (Inl (SshDial addr e), mark t1 i StateDisconnected (''dial failed: '' @ e)
                         (m3\<lparr>m_rateLimiter := RecordFailure t1 i (m_rateLimiter m3)\<rparr>))
      | _ \<Rightarrow> end_connect t1 i addr (NewClientConn i net m3))"
  using assms by (cases net) (simp_all add: Connect_def Let_def)

lemma Connect_result:
  "case connect_case t0 i net m of
     Refused \<Rightarrow> (\<exists>e. Connect t0 t1 i host port net m =
                    (Inl (SshRateLimited e), m\<lparr>m_rateLimiter := snd (Allow t0 i (m_rateLimiter m))\<rparr>))
   | Failed \<Rightarrow> (\<exists>e m'. Connect t0 t1 i host port net m = (Inl e, m') \<and> clients m' = clients m \<and>
                  getState (m_stateTracker m') i = StateDisconnected)
   | Opened \<Rightarrow> (\<exists>m'. Connect t0 t1 i host port net m = (Inr (w_nextClient m), m') \<and>
                  clients m' = open_client i (clients m) \<and>
                  getState (m_stateTracker m') i = StateConnected)"
proof (cases "Allow t0 i (m_rateLimiter m)")
  case (Pair r rl)
  show ?thesis
  proof (cases r)
    case (Some e)
    with Pair show ?thesis by (simp add: Connect_def connect_case_def)
  next
    case None
    define addr where "addr = join_host_port host port"
    define m3 where "m3 = begin_connect t0 i addr (m\<lparr>m_rateLimiter := rl\<rparr>)"
    from Pair None have conn: "Connect t0 t1 i host port net m = (case net of
        DialFails e \<Rightarrow> (Inl (SshDial addr e), mark t1 i StateDisconnected (''dial failed: '' @ e)
                         (m3\<lparr>m_rateLimiter := RecordFailure t1 i (m_rateLimiter m3)\<rparr>))
      | _ \<Rightarrow> end_connect t1 i addr (NewClientConn i net m3))"
      by (intro Connect_allowed [OF _ addr_def m3_def]) simp
    obtain r4 m4 where hs: "NewClientConn i net m3 = (r4, m4)" by fastforce
    have "clients m3 = clients m" "w_nextClient m3 = w_nextClient m"
      by (simp_all add: m3_def frame_simps)
    then have c4: "clients m4 = clients m" "w_nextClient m4 = w_nextClient m"
      using clients_frame(5) [of i net m3] handshake_frame(5) [of i net m3] hs by simp_all
    have r4: "r4 = None \<longleftrightarrow> connect_case t0 i net m = Opened"
      using handshake_ok [of i net m3] hs Pair None
      by (cases net) (auto simp: m3_def begin_hostKeys connect_case_def)
    have "connect_case t0 i net m \<noteq> Refused"
      using Pair None by (simp add: connect_case_def split: ssh_net.splits)
    then consider "connect_case t0 i net m = Opened" | "connect_case t0 i net m = Failed"
      by (cases "connect_case t0 i net m") auto
    then show ?thesis
    proof cases
      case 1
      then have "r4 = None" "\<And>e. net \<noteq> DialFails e"
        using r4 by (auto simp: connect_case_def split: if_splits)
      then have "Connect t0 t1 i host port net m = end_connect t1 i addr (None, m4)"
        using conn hs by (cases net) auto
      with 1 c4 end_connect_result [of t1 i addr None m4] show ?thesis
        by (cases "end_connect t1 i addr (None, m4)") simp
    next
      case 2
      then obtain e where e: "r4 = Some e" using r4 by (cases r4) auto
      show ?thesis
      proof (cases "\<exists>e. net = DialFails e")
        case True
        with 2 conn show ?thesis by (auto simp: m3_def frame_simps)
      next
        case False
        then have "Connect t0 t1 i host port net m = end_connect t1 i addr (Some e, m4)"
          using conn hs e by (cases net) auto
        with 2 c4 end_connect_result [of t1 i addr "Some e" m4] show ?thesis
          by (cases "end_connect t1 i addr (Some e, m4)") auto
      qed
    qed
  qed
qed

end
