(* ===== verification/Reconnect.thy ===== *)
theory Reconnect imports SshManager begin

text \<open>
  \<^verbatim>\<open>control-plane/internal/sshproxy/reconnect.go\<close>: reconnection with exponential
  backoff.  One run of \<open>reconnectWithBackoff\<close> is a function of what each attempt meets
  (\<open>attempt_env\<close>): whether the context is cancelled at the top of the loop or during the wait, what
  the orchestrator answers, and how the network answers the connection.  Besides its result and
  the new manager state it returns the waits, in order.
\<close>

section \<open>The reconnect loop\<close>

definition reconnectInitialBackoff :: duration where "reconnectInitialBackoff = seconds 1"
definition reconnectMaxBackoff :: duration where "reconnectMaxBackoff = seconds 16"
definition reconnectDefaultRetries :: nat where "reconnectDefaultRetries = 10"

definition next_backoff :: "duration \<Rightarrow> duration" where
  "next_backoff b = (let b2 = b * 2 in if b2 > reconnectMaxBackoff then reconnectMaxBackoff else b2)"

interpretation reconnect_delay: capped_doubling reconnectInitialBackoff reconnectMaxBackoff next_backoff
  by unfold_locales (auto simp: reconnectInitialBackoff_def reconnectMaxBackoff_def next_backoff_def Let_def)

record attempt_env =
  at_cancelled :: bool
  at_start :: gtime
  at_end :: gtime
  at_configure :: "string \<Rightarrow> string option"
  at_address :: "string + string \<times> nat"
  at_net :: ssh_net
  at_cancelled_waiting :: bool

datatype attempt_error =
    AttemptConfigure nat string
  | AttemptAddress nat string
  | AttemptConnect nat ssh_error

datatype reconnect_result =
    Reconnected nat
  | CtxDone
  | Gone
  | GaveUp nat "attempt_error option"

datatype attempt_result = Success nat | Abort | Again attempt_error

text \<open>One attempt: the key upload, the address lookup, the connection.\<close>

definition attempt :: "attempt_env \<Rightarrow> iid \<Rightarrow> nat \<Rightarrow> string \<Rightarrow> SSHManager \<Rightarrow> attempt_result \<times> SSHManager" where
  "attempt env i n reason m =
     (case at_configure env (m_publicKey m) of
        Some e \<Rightarrow> if contains e ''not found'' then (Abort, m) else (Again (AttemptConfigure n e), m)
      | None \<Rightarrow>
          let m1 = emitEvent (event (at_start env) i EventKeyUploaded (''attempt '' @ show_nat n)) m in
          (case at_address env of
             Inl e \<Rightarrow> (Again (AttemptAddress n e), m1)
           | Inr (host, port) \<Rightarrow>
               (case Connect (at_start env) (at_end env) i host port (at_net env) m1 of
                  (Inl e, m2) \<Rightarrow> (Again (AttemptConnect n e), m2)
                | (Inr c, m2) \<Rightarrow>
                    (Success c,
                     emitEvent (event (at_end env) i EventReconnected
                       (''reconnected after '' @ show_nat n @ '' attempt(s) (reason: '' @ reason @ '')'')) m2))))"

text \<open>The loop from attempt \<open>n\<close> with \<open>left\<close> attempts to go.  \<open>txt\<close> is the text an error prints as
  (\<open><nil>\<close> for no error).\<close>

fun attempts_loop :: "(attempt_error option \<Rightarrow> string) \<Rightarrow> (nat \<Rightarrow> attempt_env) \<Rightarrow> iid \<Rightarrow> string \<Rightarrow> nat \<Rightarrow>
    nat \<Rightarrow> nat \<Rightarrow> duration \<Rightarrow> attempt_error option \<Rightarrow> SSHManager \<Rightarrow>
    reconnect_result \<times> duration list \<times> SSHManager" where
  "attempts_loop txt envs i reason retries 0 n backoff lastErr m =
     (let details = ''gave up after '' @ show_nat retries @ '' attempts: '' @ txt lastErr;
          now = at_end (envs n)
      in (GaveUp retries lastErr, [],
          emitEvent (event now i EventReconnectFailed details) (mark now i StateFailed details m)))"
| "attempts_loop txt envs i reason retries (Suc left) n backoff lastErr m =
     (if at_cancelled (envs n) then (CtxDone, [], m)
      else case attempt (envs n) i n reason m of
        (Success c, m1) \<Rightarrow> (Reconnected c, [], m1)
      | (Abort, m1) \<Rightarrow> (Gone, [], m1)
      | (Again e, m1) \<Rightarrow>
          if 0 < left then
            (if at_cancelled_waiting (envs n) then (CtxDone, [], m1)
             else case attempts_loop txt envs i reason retries left (n + 1) (next_backoff backoff) (Some e) m1 of
                    (r, ws, m2) \<Rightarrow> (r, backoff # ws, m2))
          else attempts_loop txt envs i reason retries left (n + 1) backoff (Some e) m1)"

definition reconnectWithBackoff :: "(attempt_error option \<Rightarrow> string) \<Rightarrow> (nat \<Rightarrow> attempt_env) \<Rightarrow> gtime \<Rightarrow>
    string option \<Rightarrow> iid \<Rightarrow> nat \<Rightarrow> string \<Rightarrow> SSHManager \<Rightarrow> reconnect_result \<times> duration list \<times> SSHManager" where
  "reconnectWithBackoff txt envs now cerr i maxRetries reason m =
     (let m1 = mark now i StateReconnecting reason m;
          m2 = emitEvent (event now i EventReconnecting reason) m1;
          m3 = snd (Close now i cerr m2);
          m4 = ClearHostKey i m3
      in attempts_loop txt envs i reason maxRetries maxRetries 1 reconnectInitialBackoff None m4)"

definition ReconnectWithBackoff :: "(attempt_error option \<Rightarrow> string) \<Rightarrow> (nat \<Rightarrow> attempt_env) \<Rightarrow> gtime \<Rightarrow>
    string option \<Rightarrow> iid \<Rightarrow> nat \<Rightarrow> string \<Rightarrow> SSHManager \<Rightarrow> (reconnect_result \<times> duration list) option \<times> SSHManager" where
  "ReconnectWithBackoff txt envs now cerr i maxRetries reason m =
     (if \<not> m_orch m then (None, m)
      else case reconnectWithBackoff txt envs now cerr i maxRetries reason m of
             (r, ws, m') \<Rightarrow> (Some (r, ws), m'))"

section \<open>The schedule of the waits\<close>

definition waits_ok :: "nat \<Rightarrow> nat \<Rightarrow> nat \<Rightarrow> reconnect_result \<times> duration list \<times> SSHManager \<Rightarrow> bool" where
  "waits_ok d left retries p =
     (case p of (r, ws, m) \<Rightarrow>
        ws = map reconnect_delay.delay [d..<d + length ws] \<and>
        length ws \<le> left - 1 \<and>
        (case r of GaveUp n _ \<Rightarrow> n = retries \<and> length ws = left - 1 | _ \<Rightarrow> 0 < left))"

lemma waits_ok_Cons:
  "waits_ok (Suc d) left retries (r, ws, m) \<Longrightarrow> 0 < left \<Longrightarrow>
   waits_ok d (Suc left) retries (r, reconnect_delay.delay d # ws, m)"
  by (auto simp: waits_ok_def upt_conv_Cons split: reconnect_result.splits simp del: upt_Suc)

lemma attempts_waits:
  "waits_ok d left retries
     (attempts_loop txt envs i reason retries left n (reconnect_delay.delay d) lastErr m)"
proof (induction left arbitrary: n d lastErr m)
  case 0
  then show ?case by (simp add: waits_ok_def Let_def)
next
  case (Suc left)
  obtain a m1 where at: "attempt (envs n) i n reason m = (a, m1)" by fastforce
  show ?case
  proof (cases "at_cancelled (envs n)")
    case True
    then show ?thesis by (simp add: waits_ok_def)
  next
    case go: False
    show ?thesis
    proof (cases a)
      case (Again e)
      show ?thesis
      proof (cases "0 < left")
        case True
        obtain r ws m2 where rec:
          "attempts_loop txt envs i reason retries left (n + 1) (reconnect_delay.delay (Suc d)) (Some e) m1
           = (r, ws, m2)" by (metis prod_cases3)
        with Suc.IH [of "Suc d" "n + 1" "Some e" m1] True go at Again show ?thesis
          by (auto simp: reconnect_delay.delay_Suc waits_ok_Cons) (simp add: waits_ok_def)
      next
        case False
        with go at Again show ?thesis by (simp add: waits_ok_def Let_def)
      qed
    qed (use go at in \<open>simp_all add: waits_ok_def\<close>)
  qed
qed

text \<open>C26: Every run of the reconnect loop ends.  It waits 1s, 2s, 4s, 8s and then 16s between
  attempts, never more often than the number of retries less one, and gives up only after
  all of these waits.\<close>

theorem reconnect_schedule:
  "case reconnectWithBackoff txt envs now cerr i maxRetries reason m of (r, ws, m') \<Rightarrow>
     ws = map (\<lambda>k. min (seconds 16) (seconds 1 * 2 ^ k)) [0..<length ws] \<and>
     length ws \<le> maxRetries - 1 \<and>
     (case r of GaveUp n _ \<Rightarrow> n = maxRetries \<and> length ws = maxRetries - 1 | _ \<Rightarrow> 0 < maxRetries)"
proof -
  have first: "reconnect_delay.delay 0 = reconnectInitialBackoff" by (simp add: reconnect_delay.delay_def)
  have "waits_ok 0 maxRetries maxRetries (reconnectWithBackoff txt envs now cerr i maxRetries reason m)"
    using attempts_waits [where d = 0, unfolded first] by (simp add: reconnectWithBackoff_def Let_def)
  moreover have "reconnect_delay.delay = (\<lambda>k. min (seconds 16) (seconds 1 * 2 ^ k))"
    by (rule ext) (simp only: reconnect_delay.delay_closed,
        simp only: reconnectInitialBackoff_def reconnectMaxBackoff_def)
  ultimately show ?thesis
    by (cases "reconnectWithBackoff txt envs now cerr i maxRetries reason m")
       (simp only: waits_ok_def prod.case add_0)
qed

section \<open>How a reconnection ends\<close>

definition down :: "iid \<Rightarrow> SSHManager \<Rightarrow> bool" where
  "down i m \<longleftrightarrow> m_conns m i = None \<and>
     getState (m_stateTracker m) i \<in> {StateReconnecting, StateDisconnected}"

definition up :: "iid \<Rightarrow> nat \<Rightarrow> SSHManager \<Rightarrow> bool" where
  "up i c m \<longleftrightarrow> GetConnection i m = Some c \<and> getState (m_stateTracker m) i = StateConnected"

lemma clients_conns: "clients m = clients m' \<Longrightarrow> m_conns m i = None \<longleftrightarrow> m_conns m' i = None"
  by (auto simp: clients_def o_def fun_eq_iff) (metis option.map_disc_iff)+

lemma down_emit [simp]: "down i (emitEvent ev m) = down i m"
  by (simp add: down_def frame_simps)

lemma up_emit [simp]: "up i c (emitEvent ev m) = up i c m"
  by (simp add: up_def GetConnection_def frame_simps)

lemma Connect_down:
  assumes "down i m"
  shows "case Connect t0 t1 i host port net m of
           (Inl e, m') \<Rightarrow> down i m' | (Inr c, m') \<Rightarrow> up i c m'"
proof (cases "connect_case t0 i net m")
  case Refused
  with Connect_result [of t0 t1 i host port net m] assms show ?thesis by (auto simp: down_def)
next
  case Failed
  with Connect_result [of t0 t1 i host port net m] assms show ?thesis
    by (force simp: down_def dest: clients_conns)
next
  case Opened
  with Connect_result [of t0 t1 i host port net m] obtain m' where
    m': "Connect t0 t1 i host port net m = (Inr (w_nextClient m), m')"
    "clients m' = open_client i (clients m)" "getState (m_stateTracker m') i = StateConnected" by auto
  then have "map_option mc_client (m_conns m' i) = Some (w_nextClient m)"
    by (auto simp: clients_def fun_eq_iff)
  with m' show ?thesis by (simp add: up_def GetConnection_def)
qed

lemma attempt_down:
  assumes "down i m"
  shows "case attempt env i n reason m of
           (Success c, m') \<Rightarrow> up i c m' \<and>
              (\<exists>t d m''. m' = emitEvent (event t i EventReconnected d) m'')
         | (_, m') \<Rightarrow> down i m'"
proof -
  define m1 where "m1 = emitEvent (event (at_start env) i EventKeyUploaded (''attempt '' @ show_nat n)) m"
  with assms have "down i m1" by simp
  note conn = Connect_down [OF this, of "at_start env" "at_end env" _ _ "at_net env"]
  show ?thesis
  proof (cases "at_configure env (m_publicKey m)")
    case (Some e)
    with assms show ?thesis by (simp add: attempt_def)
  next
    case conf: None
    show ?thesis
    proof (cases "at_address env")
      case (Inl e)
      with conf \<open>down i m1\<close> show ?thesis by (simp add: attempt_def Let_def m1_def)
    next
      case (Inr hp)
      obtain host port where hp: "hp = (host, port)" by fastforce
      obtain r m2 where c: "Connect (at_start env) (at_end env) i host port (at_net env) m1 = (r, m2)"
        by fastforce
      with c [unfolded m1_def] conn [of host port] conf Inr hp show ?thesis
        by (cases r) (auto simp: attempt_def Let_def)
    qed
  qed
qed

lemma Close_down:
  "getState (m_stateTracker m) i \<in> {StateReconnecting, StateDisconnected} \<Longrightarrow> down i (snd (Close now i err m))"
  by (auto simp: Close_def down_def frame_simps Let_def split: option.splits)

definition ends_ok :: "iid \<Rightarrow> reconnect_result \<times> duration list \<times> SSHManager \<Rightarrow> bool" where
  "ends_ok i p =
     (case p of (r, ws, m) \<Rightarrow>
        (case r of
           Reconnected c \<Rightarrow> up i c m \<and> (\<exists>t d m''. m = emitEvent (event t i EventReconnected d) m'')
         | GaveUp n e \<Rightarrow> m_conns m i = None \<and> getState (m_stateTracker m) i = StateFailed \<and>
                         (\<exists>t d m''. m = emitEvent (event t i EventReconnectFailed d) m'')
         | _ \<Rightarrow> down i m))"

lemma attempts_end:
  "down i m \<Longrightarrow> ends_ok i (attempts_loop txt envs i reason retries left n backoff lastErr m)"
proof (induction left arbitrary: n backoff lastErr m)
  case 0
  then show ?case by (auto simp: ends_ok_def Let_def down_def frame_simps)
next
  case (Suc left)
  obtain a m1 where at: "attempt (envs n) i n reason m = (a, m1)" by fastforce
  note step = attempt_down [OF Suc.prems, of "envs n" n reason]
  show ?case
  proof (cases "at_cancelled (envs n)")
    case True
    with Suc.prems show ?thesis by (simp add: ends_ok_def)
  next
    case go: False
    show ?thesis
    proof (cases a)
      case (Again e)
      with step at have m1: "down i m1" by simp
      show ?thesis
      proof (cases "0 < left \<and> at_cancelled_waiting (envs n)")
        case True
        with m1 go at Again show ?thesis by (simp add: ends_ok_def)
      next
        case False
        let ?b = "if 0 < left then next_backoff backoff else backoff"
        obtain r ws m2 where rec: "attempts_loop txt envs i reason retries left (n + 1) ?b (Some e) m1
          = (r, ws, m2)" by (metis prod_cases3)
        with Suc.IH [OF m1] have "ends_ok i (r, ws, m2)" by metis
        with rec False go at Again show ?thesis
          by (cases "0 < left") (simp_all add: ends_ok_def)
      qed
    qed (use go at step in \<open>auto simp: ends_ok_def\<close>)
  qed
qed

text \<open>A reconnection that reports success leaves the instance with the returned connection, in
  state Connected, after a \<open>reconnected\<close> event; one that gives up leaves no connection, state
  Failed, after a \<open>reconnect_failed\<close> event; one that is cancelled, or aborted because the instance
  is gone, leaves no connection and the state at Reconnecting or Disconnected.\<close>

theorem reconnect_outcome:
  "case reconnectWithBackoff txt envs now cerr i maxRetries reason m of (r, ws, m') \<Rightarrow>
     (case r of
        Reconnected c \<Rightarrow> GetConnection i m' = Some c \<and> getState (m_stateTracker m') i = StateConnected \<and>
                         (\<exists>t d m''. m' = emitEvent (event t i EventReconnected d) m'')
      | GaveUp n e \<Rightarrow> GetConnection i m' = None \<and> getState (m_stateTracker m') i = StateFailed \<and>
                      (\<exists>t d m''. m' = emitEvent (event t i EventReconnectFailed d) m'')
      | _ \<Rightarrow> GetConnection i m' = None \<and>
             getState (m_stateTracker m') i \<in> {StateReconnecting, StateDisconnected})"
proof -
  have "down i (ClearHostKey i (snd (Close now i cerr
          (emitEvent (event now i EventReconnecting reason) (mark now i StateReconnecting reason m)))))"
    using Close_down [of "emitEvent (event now i EventReconnecting reason)
        (mark now i StateReconnecting reason m)" i]
    by (simp add: down_def frame_simps)
  from attempts_end [OF this] show ?thesis
    unfolding reconnectWithBackoff_def Let_def
    by (fastforce simp: ends_ok_def up_def down_def GetConnection_def
        split: prod.splits reconnect_result.splits)
qed

end
