(* ===== verification/SshSafety.thy ===== *)
theory SshSafety imports Reconnect begin

text \<open>
  What holds over runs of the SSH manager: no client is lost without being accounted for, a state
  \<open>connected\<close> has a connection behind it, host keys are pinned on first use, the IP restriction gates
  the key upload and the dial, and which reconnections can run at the same time.
\<close>

section \<open>Runs of the manager\<close>

datatype ssh_op =
    DoConnect gtime gtime iid string nat ssh_net
  | DoEnsure "check_error \<Rightarrow> string" ensure_env iid string
  | DoClose gtime iid "string option"
  | DoKeepaliveFailed gtime iid nat string
  | DoCheckAll gtime "iid \<Rightarrow> probe" "iid \<Rightarrow> string option" "iid list"
  | DoReconnect "attempt_error option \<Rightarrow> string" "nat \<Rightarrow> attempt_env" gtime "string option" iid nat string
  | DoReconnectDone iid
  | DoCancel gtime iid "string option"
  | DoClearHostKey iid
  | DoReloadKeys signer string
  | DoOnEvent listener
  | DoSetOrchestrator
  | DoCloseAll "iid list" "iid list" "nat \<Rightarrow> string option"

fun ssh_act :: "ssh_op \<Rightarrow> SSHManager \<Rightarrow> SSHManager" where
  "ssh_act (DoConnect t0 t1 i host port net) m = snd (Connect t0 t1 i host port net m)"
| "ssh_act (DoEnsure txt env i allowed) m = snd (EnsureConnectedWithIPCheck txt env i allowed m)"
| "ssh_act (DoClose now i err) m = snd (Close now i err m)"
| "ssh_act (DoKeepaliveFailed now i c err) m = snd (keepalive_failed now i c err m)"
| "ssh_act (DoCheckAll now probes cerrs ids) m = checkAllConnections now probes cerrs ids m"
| "ssh_act (DoReconnect txt envs now cerr i n reason) m =
     snd (snd (reconnectWithBackoff txt envs now cerr i n reason m))"
| "ssh_act (DoReconnectDone i) m = reconnectDone i m"
| "ssh_act (DoCancel now i err) m = CancelReconnection now i err m"
| "ssh_act (DoClearHostKey i) m = ClearHostKey i m"
| "ssh_act (DoReloadKeys s p) m = ReloadKeys s p m"
| "ssh_act (DoOnEvent l) m = OnEvent l m"
| "ssh_act DoSetOrchestrator m = SetOrchestrator m"
| "ssh_act (DoCloseAll rids ids errs) m = snd (CloseAll rids ids errs m)"

text \<open>Walks over a map visit each of its keys once.\<close>

fun op_ok :: "ssh_op \<Rightarrow> SSHManager \<Rightarrow> bool" where
  "op_ok (DoCloseAll rids ids errs) m \<longleftrightarrow> distinct ids \<and> set ids = dom (m_conns m)"
| "op_ok _ m \<longleftrightarrow> True"

inductive ssh_reach :: "SSHManager \<Rightarrow> bool" where
  init: "ssh_reach (NewSSHManager s p)"
| step: "ssh_reach m \<Longrightarrow> op_ok x m \<Longrightarrow> ssh_reach (ssh_act x m)"

section \<open>Every client is accounted for\<close>

fun resources_ok :: "clients \<Rightarrow> bool" where
  "resources_ok (tab, nxt, closed, dropped) \<longleftrightarrow>
     inj_on tab (dom tab) \<and>
     ran tab \<union> set closed \<union> set dropped = {..<nxt} \<and>
     ran tab \<inter> set closed = {} \<and> ran tab \<inter> set dropped = {} \<and> set closed \<inter> set dropped = {} \<and>
     distinct closed \<and> distinct dropped"

lemma ran_upd_inj:
  "inj_on tab (dom tab) \<Longrightarrow> tab i = Some c \<Longrightarrow> ran (tab(i := None)) = ran tab - {c}"
  by (force simp: ran_def inj_on_def dom_def)

lemma inj_upd_None: "inj_on tab (dom tab) \<Longrightarrow> inj_on (tab(i := None)) (dom (tab(i := None)))"
  by (auto simp: inj_on_def)

lemma resources_close: "resources_ok s \<Longrightarrow> resources_ok (close_client i s)"
proof (cases s)
  case (fields tab nxt closed dropped)
  assume ok: "resources_ok s"
  show ?thesis
  proof (cases "tab i")
    case None
    then have "tab(i := None) = tab" by auto
    with ok fields None show ?thesis by simp
  next
    case (Some c)
    then have c: "c \<in> ran tab" by (auto simp: ran_def)
    have r: "ran (tab(i := None)) = ran tab - {c}"
      using ok fields Some by (intro ran_upd_inj) simp_all
    from ok fields have part: "ran tab \<union> set closed \<union> set dropped = {..<nxt}"
      and dis: "ran tab \<inter> set closed = {}" "ran tab \<inter> set dropped = {}" "set closed \<inter> set dropped = {}"
      and inj: "inj_on tab (dom tab)" by auto
    from c dis have "c \<notin> set closed" "c \<notin> set dropped" by auto
    moreover have "(ran tab - {c}) \<union> (set closed \<union> {c}) \<union> set dropped = {..<nxt}"
      using part c by blast
    ultimately show ?thesis
      using ok fields Some dis inj_upd_None [OF inj, of i] by (auto simp: r)
  qed
qed

lemma resources_drop: "resources_ok s \<Longrightarrow> resources_ok (drop_client i c s)"
proof (cases s)
  case (fields tab nxt closed dropped)
  assume ok: "resources_ok s"
  show ?thesis
  proof (cases "tab i = Some c")
    case False
    with ok fields show ?thesis by simp
  next
    case True
    then have c: "c \<in> ran tab" by (auto simp: ran_def)
    have r: "ran (tab(i := None)) = ran tab - {c}"
      using ok fields True by (intro ran_upd_inj) simp_all
    from ok fields have part: "ran tab \<union> set closed \<union> set dropped = {..<nxt}"
      and dis: "ran tab \<inter> set closed = {}" "ran tab \<inter> set dropped = {}" "set closed \<inter> set dropped = {}"
      and inj: "inj_on tab (dom tab)" by auto
    from c dis have "c \<notin> set closed" "c \<notin> set dropped" by auto
    moreover have "(ran tab - {c}) \<union> set closed \<union> (set dropped \<union> {c}) = {..<nxt}"
      using part c by blast
    ultimately show ?thesis
      using ok fields True dis inj_upd_None [OF inj, of i] by (auto simp: r)
  qed
qed

lemma open_as_close: "open_client i s = (case close_client i s of (tab, nxt, closed, dropped) \<Rightarrow>
    (tab(i \<mapsto> nxt), nxt + 1, closed, dropped))"
  by (cases s) simp

lemma resources_open: "resources_ok s \<Longrightarrow> resources_ok (open_client i s)"
proof -
  assume "resources_ok s"
  then have ok: "resources_ok (close_client i s)" by (rule resources_close)
  obtain tab nxt closed dropped where c: "close_client i s = (tab, nxt, closed, dropped)"
    by (metis prod_cases4)
  then have i: "tab i = None" by (cases s) auto
  from ok c have part: "ran tab \<union> set closed \<union> set dropped = {..<nxt}"
    and inj: "inj_on tab (dom tab)" by auto
  then have new: "nxt \<notin> ran tab" "nxt \<notin> set closed" "nxt \<notin> set dropped" by auto
  have "inj_on (tab(i \<mapsto> nxt)) (dom (tab(i \<mapsto> nxt)))"
    using inj new(1) by (auto simp: inj_on_def ran_def)
  moreover have "ran (tab(i \<mapsto> nxt)) = insert nxt (ran tab)" using i by (rule ran_map_upd)
  moreover have "insert nxt {..<nxt} = {..<nxt + 1}" by auto
  ultimately show ?thesis using ok c new part by (auto simp: open_as_close)
qed

lemma resources_Connect:
  "resources_ok (clients m) \<Longrightarrow> resources_ok (clients (snd (Connect t0 t1 i host port net m)))"
  using Connect_result [of t0 t1 i host port net m]
  by (cases "connect_case t0 i net m") (auto simp: frame_simps resources_open)

lemma resources_Close: "resources_ok (clients m) \<Longrightarrow> resources_ok (clients (snd (Close now i err m)))"
  by (simp add: clients_Close resources_close)

lemma resources_attempt:
  assumes "resources_ok (clients m)"
  shows "resources_ok (clients (snd (attempt env i n reason m)))"
proof -
  define m1 where "m1 = emitEvent (event (at_start env) i EventKeyUploaded (''attempt '' @ show_nat n)) m"
  have "resources_ok (clients m1)" using assms by (simp add: m1_def frame_simps)
  then have conn: "resources_ok (clients m2)"
    if "Connect (at_start env) (at_end env) i host port (at_net env) m1 = (r, m2)" for host port r m2
    using resources_Connect [of m1 "at_start env" "at_end env" i host port "at_net env"] that by simp
  show ?thesis
    unfolding attempt_def Let_def m1_def [symmetric]
    using assms \<open>resources_ok (clients m1)\<close>
    by (auto simp: frame_simps split: option.splits sum.splits prod.splits dest: conn)
qed

lemma resources_attempts:
  "resources_ok (clients m) \<Longrightarrow>
   resources_ok (clients (snd (snd (attempts_loop txt envs i reason retries left n backoff lastErr m))))"
proof (induction left arbitrary: n backoff lastErr m)
  case 0
  then show ?case by (simp add: Let_def frame_simps)
next
  case (Suc left)
  obtain a m1 where at: "attempt (envs n) i n reason m = (a, m1)" by fastforce
  with resources_attempt [OF Suc.prems, of "envs n" i n reason] have "resources_ok (clients m1)" by simp
  from Suc.IH [OF this] Suc.prems at \<open>resources_ok (clients m1)\<close> show ?case
    by (cases a) (auto simp: split_beta)
qed

lemma clients_OnEvent [frame_simps]: "clients (OnEvent l m) = clients m" "clients (SetOrchestrator m) = clients m"
  by (simp_all add: clients_def OnEvent_def SetOrchestrator_def)

lemma clients_check_one:
  "clients (snd (check_one now p cerr i m)) = clients m \<or>
   clients (snd (check_one now p cerr i m)) = close_client i (clients m)"
proof -
  obtain r m1 where h: "HealthCheck now i p m = (r, m1)" by fastforce
  then have "clients m1 = clients m" using clients_HealthCheck [of now i p m] by simp
  with h show ?thesis
    by (cases r) (simp_all add: check_one_def Let_def frame_simps clients_Close)
qed

lemma resources_checkAll:
  "resources_ok (clients m) \<Longrightarrow> resources_ok (clients (checkAllConnections now probes cerrs ids m))"
  unfolding checkAllConnections_def
proof (induction ids arbitrary: m)
  case (Cons i ids)
  have "resources_ok (clients (snd (check_one now (probes i) (cerrs i) i m)))"
    using clients_check_one [of now "probes i" "cerrs i" i m] Cons.prems by (auto simp: resources_close)
  from Cons.IH [OF this] show ?case by simp
qed simp

lemma clients_keepalive:
  "clients (snd (keepalive_failed now i c err m)) = drop_client i c (clients m)"
proof -
  have "clients (case m_conns m i of None \<Rightarrow> m
          | Some mc \<Rightarrow> if mc_client mc = c
                      then m\<lparr>m_conns := (m_conns m)(i := None), w_dropped := w_dropped m @ [c]\<rparr> else m)
        = drop_client i c (clients m)"
    by (auto simp: clients_def fun_eq_iff o_def split: option.splits)
  then show ?thesis by (simp add: keepalive_failed_def Let_def frame_simps)
qed

lemma close_one_fold:
  "clients (snd (fold (close_one errs conns) ids (fe, m))) =
   (map_option mc_client \<circ> m_conns m, w_nextClient m,
    w_closed m @ List.map_filter (map_option mc_client \<circ> conns) ids, w_dropped m)"
proof (induction ids arbitrary: fe m)
  case Nil
  then show ?case by (simp add: clients_def map_filter_simps o_def)
next
  case (Cons i ids)
  show ?case
    by (cases "conns i") (simp_all add: Cons.IH map_filter_simps o_def)
qed

lemma close_client_fold:
  "distinct ids \<Longrightarrow> fold close_client ids (tab, n, cl, dr) =
     (tab |` (- set ids), n, cl @ List.map_filter tab ids, dr)"
proof (induction ids arbitrary: tab cl)
  case Nil
  then show ?case by (simp add: map_filter_simps)
next
  case (Cons i ids)
  have "List.map_filter (tab(i := None)) ids = List.map_filter tab ids"
    using Cons.prems by (auto simp: List.map_filter_def intro!: map_cong filter_cong)
  moreover have "(tab(i := None)) |` (- set ids) = tab |` (- set (i # ids))"
    by (auto simp: restrict_map_def fun_eq_iff)
  ultimately show ?case
    using Cons by (cases "tab i") (simp_all add: map_filter_simps)
qed

lemma clients_cancelAll [frame_simps]: "clients (cancelAllReconnections rids m) = clients m"
  unfolding cancelAllReconnections_def by (induction rids arbitrary: m) (simp_all add: frame_simps)

lemma clients_CloseAll:
  assumes "distinct ids" and "set ids = dom (m_conns m)"
  shows "clients (snd (CloseAll rids ids errs m)) = fold close_client ids (clients m)"
proof -
  define m1 where "m1 = cancelAllReconnections rids (StopHealthChecker m)"
  have c: "clients m1 = clients m" by (simp add: m1_def frame_simps)
  then have tab: "map_option mc_client \<circ> m_conns m1 = map_option mc_client \<circ> m_conns m"
    and rest: "w_nextClient m1 = w_nextClient m" "w_closed m1 = w_closed m" "w_dropped m1 = w_dropped m"
    by (simp_all add: clients_def)
  have "(map_option mc_client \<circ> m_conns m) |` (- set ids) = Map.empty"
    using assms(2) by (auto simp: restrict_map_def fun_eq_iff)
  moreover have "map_option mc_client \<circ> Map.empty = Map.empty" by auto
  ultimately show ?thesis
    using assms(1)
    by (simp add: CloseAll_def Let_def m1_def [symmetric] close_one_fold tab rest clients_def [of m]
        close_client_fold)
qed

lemma resources_close_fold: "resources_ok s \<Longrightarrow> resources_ok (fold close_client ids s)"
  by (induction ids arbitrary: s) (simp_all add: resources_close del: resources_ok.simps)

lemma resources_Ensure:
  assumes "resources_ok (clients m)"
  shows "resources_ok (clients (snd (EnsureConnectedWithIPCheck txt env i allowed m)))"
proof -
  have conn: "resources_ok (clients m')"
    if "Connect t0 t1 i host port net m = (r, m')" for t0 t1 host port net r m'
    using resources_Connect [OF assms, of t0 t1 i host port net] that by simp
  with assms show ?thesis
    by (auto simp: EnsureConnectedWithIPCheck_def frame_simps
        split: option.splits sum.splits prod.splits dest: conn)
qed

lemma resources_act: "resources_ok (clients m) \<Longrightarrow> op_ok x m \<Longrightarrow> resources_ok (clients (ssh_act x m))"
proof (cases x)
  case (DoReconnect tx envs now cerr i n reason)
  assume "resources_ok (clients m)"
  then show ?thesis unfolding DoReconnect
    by (simp add: reconnectWithBackoff_def Let_def resources_attempts frame_simps resources_Close
        del: resources_ok.simps)
next
  case (DoCloseAll rids ids errs)
  assume "resources_ok (clients m)" "op_ok x m"
  then show ?thesis unfolding DoCloseAll by (simp add: clients_CloseAll resources_close_fold)
qed (simp_all add: resources_Connect resources_Ensure resources_Close clients_keepalive resources_drop
    resources_checkAll CancelReconnection_def frame_simps clients_OnEvent)

text \<open>C5: In every state the manager can reach, each client it has ever opened is in exactly one
  place: the table (under one instance), the closed ones (closed once), or the ones dropped by a
  failed keepalive; nothing else is in those places.\<close>

theorem clients_accounted:
  "ssh_reach m \<Longrightarrow> resources_ok (clients m)"
proof (induction rule: ssh_reach.induct)
  case (init s p)
  then show ?case by (simp add: clients_def NewSSHManager_def)
next
  case (step m x)
  then show ?case by (simp only: resources_act)
qed

definition demo_connected :: SSHManager where
  "demo_connected = ssh_act (DoConnect 0 1 7 ''h'' 22 (ServerKey ''k'' None [])) (NewSSHManager 0 [])"

lemma demo_reach: "ssh_reach demo_connected"
  unfolding demo_connected_def by (intro ssh_reach.intros) simp

theorem clients_accounted_witness:
  "resources_ok (clients demo_connected)"
  by (rule clients_accounted) (rule demo_reach)

section \<open>A connected state has a connection\<close>

definition agree :: "iid \<Rightarrow> SSHManager \<Rightarrow> bool" where
  "agree i m \<longleftrightarrow> (getState (m_stateTracker m) i = StateConnected \<longrightarrow> fst (clients m) i \<noteq> None)"

lemma agree_frame [frame_simps]:
  "agree i (emitEvent ev m) = agree i m" "agree i (ClearHostKey j m) = agree i m"
  "agree i (m\<lparr>m_rateLimiter := rl\<rparr>) = agree i m" "agree i (cancelEntry j m) = agree i m"
  "agree i (reconnectDone j m) = agree i m" "agree i (snd (triggerReconnect j m)) = agree i m"
  "agree i (ReloadKeys s p m) = agree i m" "agree i (OnEvent l m) = agree i m"
  "agree i (SetOrchestrator m) = agree i m"
  by (simp_all add: agree_def clients_def frame_simps cancelEntry_def reconnectDone_def
      triggerReconnect_def ReloadKeys_def OnEvent_def SetOrchestrator_def split: option.splits)

lemma agree_mark: "s \<noteq> StateConnected \<Longrightarrow> agree i m \<Longrightarrow> agree i (mark now j s r m)"
  by (cases "i = j") (simp_all add: agree_def frame_simps)

lemma Connect_state_other:
  "j \<noteq> i \<Longrightarrow> getState (m_stateTracker (snd (Connect t0 t1 i host port net m))) j = getState (m_stateTracker m) j"
proof -
  assume j: "j \<noteq> i"
  have ends: "getState (m_stateTracker (snd (end_connect t1 i addr p))) j = getState (m_stateTracker (snd p)) j"
    for addr p
  proof (cases p)
    case (Pair r m')
    obtain c m6 where inst: "install t1 i (m'\<lparr>m_rateLimiter := RecordSuccess i (m_rateLimiter m')\<rparr>) = (c, m6)"
      by fastforce
    then have "m_stateTracker m6 = m_stateTracker m'"
      using install_frame(2) [of t1 i "m'\<lparr>m_rateLimiter := RecordSuccess i (m_rateLimiter m')\<rparr>"] by simp
    with Pair inst j show ?thesis by (cases r) (simp_all add: end_connect.simps frame_simps)
  qed
  obtain r rl where "Allow t0 i (m_rateLimiter m) = (r, rl)" by fastforce
  with ends j show ?thesis
    by (cases r; cases net)
       (simp_all add: Connect_def Let_def begin_connect_def frame_simps del: NewClientConn.simps)
qed

lemma agree_Connect: "agree j m \<Longrightarrow> agree j (snd (Connect t0 t1 i host port net m))"
proof (cases "connect_case t0 i net m")
  case Refused
  assume "agree j m"
  with Refused Connect_result [of t0 t1 i host port net m] show ?thesis by (auto simp: frame_simps)
next
  case Failed
  assume "agree j m"
  with Failed Connect_result [of t0 t1 i host port net m] Connect_state_other [of j i t0 t1 host port net m]
  show ?thesis by (cases "j = i") (auto simp: agree_def)
next
  case Opened
  assume "agree j m"
  with Opened Connect_result [of t0 t1 i host port net m] Connect_state_other [of j i t0 t1 host port net m]
  show ?thesis by (cases "j = i"; cases "clients m") (auto simp: agree_def)
qed

lemma agree_Close: "agree j m \<Longrightarrow> agree j (snd (Close now i err m))"
proof (cases "m_conns m i")
  case (Some mc)
  assume a: "agree j m"
  have "getState (m_stateTracker (snd (Close now i err m))) j =
        (if j = i then StateDisconnected else getState (m_stateTracker m) j)"
    using Some by (auto simp: Close_def Let_def frame_simps split: option.splits)
  with a show ?thesis by (cases "clients m") (auto simp: agree_def clients_Close)
qed (simp add: Close_def)

lemma agree_attempt: "agree j m \<Longrightarrow> agree j (snd (attempt env i n reason m))"
proof -
  assume a: "agree j m"
  have conn: "agree j m'" if "Connect t0 t1 i host port net m0 = (r, m')" "agree j m0"
    for t0 t1 host port net r m' m0
    using agree_Connect [OF that(2), of t0 t1 i host port net] that(1) by simp
  define m1 where "m1 = emitEvent (event (at_start env) i EventKeyUploaded (''attempt '' @ show_nat n)) m"
  with a have a1: "agree j m1" by (simp add: frame_simps)
  show ?thesis
    unfolding attempt_def Let_def m1_def [symmetric]
    using a a1 by (auto simp: frame_simps split: option.splits sum.splits prod.splits dest: conn)
qed

lemma agree_attempts:
  "agree j m \<Longrightarrow> agree j (snd (snd (attempts_loop txt envs i reason retries left n backoff lastErr m)))"
proof (induction left arbitrary: n backoff lastErr m)
  case 0
  then show ?case by (simp add: Let_def frame_simps agree_mark)
next
  case (Suc left)
  obtain a m1 where at: "attempt (envs n) i n reason m = (a, m1)" by fastforce
  with agree_attempt [OF Suc.prems, of "envs n" i n reason] have "agree j m1" by simp
  from Suc.IH [OF this] Suc.prems at \<open>agree j m1\<close> show ?case
    by (cases a) (auto simp: split_beta)
qed

lemma state_HealthCheck: "m_stateTracker (snd (HealthCheck now i p m)) = m_stateTracker m"
  by (simp add: HealthCheck_def with_metrics_def split: probe.splits)

lemma agree_check_one: "agree j m \<Longrightarrow> agree j (snd (check_one now p cerr i m))"
proof -
  assume a: "agree j m"
  obtain r m1 where h: "HealthCheck now i p m = (r, m1)" by fastforce
  then have "agree j m1"
    using a clients_HealthCheck [of now i p m] state_HealthCheck [of now i p m] by (simp add: agree_def)
  with h show ?thesis
    by (cases r) (simp_all add: check_one_def Let_def frame_simps agree_Close agree_mark)
qed

lemma agree_checkAll: "agree j m \<Longrightarrow> agree j (checkAllConnections now probes cerrs ids m)"
  unfolding checkAllConnections_def
  by (induction ids arbitrary: m) (simp_all add: agree_check_one)

lemma agree_keepalive: "agree j m \<Longrightarrow> agree j (snd (keepalive_failed now i c err m))"
proof -
  assume a: "agree j m"
  have "getState (m_stateTracker (snd (keepalive_failed now i c err m))) j =
        (if j = i then StateDisconnected else getState (m_stateTracker m) j)"
    by (auto simp: keepalive_failed_def Let_def triggerReconnect_def frame_simps split: option.splits)
  with a show ?thesis
    by (cases "clients m") (auto simp: agree_def clients_keepalive)
qed

lemma agree_Ensure: "agree j m \<Longrightarrow> agree j (snd (EnsureConnectedWithIPCheck txt env i allowed m))"
proof -
  assume a: "agree j m"
  have conn: "agree j m'" if "Connect t0 t1 i host port net m = (r, m')" for t0 t1 host port net r m'
    using agree_Connect [OF a, of t0 t1 i host port net] that by simp
  with a show ?thesis
    by (auto simp: EnsureConnectedWithIPCheck_def frame_simps agree_mark
        split: option.splits sum.splits prod.splits dest: conn)
qed

definition before_shutdown :: "ssh_op \<Rightarrow> bool" where
  "before_shutdown x = (case x of DoCloseAll _ _ _ \<Rightarrow> False | _ \<Rightarrow> True)"

lemma agree_act: "agree j m \<Longrightarrow> before_shutdown x \<Longrightarrow> agree j (ssh_act x m)"
proof (cases x)
  case (DoReconnect tx envs now cerr i n reason)
  assume "agree j m"
  then show ?thesis unfolding DoReconnect
    by (simp add: reconnectWithBackoff_def Let_def agree_attempts frame_simps agree_Close agree_mark)
qed (simp_all add: agree_Connect agree_Ensure agree_Close agree_checkAll agree_keepalive
    CancelReconnection_def frame_simps before_shutdown_def)

text \<open>Over any run of the manager's operations before the shutdown, an instance whose state is
  reported as connected has a connection in the table.\<close>

theorem connected_has_connection:
  assumes "list_all before_shutdown ops"
    and "getState (m_stateTracker (fold ssh_act ops (NewSSHManager s p))) i = StateConnected"
  shows "GetConnection i (fold ssh_act ops (NewSSHManager s p)) \<noteq> None"
proof -
  have "agree i (fold ssh_act ops m)" if "agree i m" for m
    using assms(1) that
  proof (induction ops arbitrary: m)
    case (Cons x ops)
    have "agree i (ssh_act x m)" using Cons.prems by (intro agree_act) auto
    with Cons show ?case by simp
  qed simp
  moreover have "agree i (NewSSHManager s p)"
    by (simp add: agree_def NewSSHManager_def getState_def newStateTracker_def)
  ultimately have "agree i (fold ssh_act ops (NewSSHManager s p))" by blast
  with assms(2) show ?thesis by (simp add: agree_def clients_def GetConnection_def)
qed

theorem connected_has_connection_witness:
  "GetConnection 7 (fold ssh_act [DoConnect 0 1 7 ''h'' 22 (ServerKey ''k'' None [])] (NewSSHManager 0 [])) \<noteq> None"
proof (rule connected_has_connection)
  have "connect_case 0 7 (ServerKey ''k'' None []) (NewSSHManager 0 []) = Opened"
    by (simp add: connect_case_def NewSSHManager_def fst_Allow allowInstance_def Let_def NewRateLimiter_def
        rl_getOrCreate_def zeroRateState_def rate_limit_consts)
  then show "getState (m_stateTracker (fold ssh_act [DoConnect 0 1 7 ''h'' 22 (ServerKey ''k'' None [])]
      (NewSSHManager 0 []))) 7 = StateConnected"
    using Connect_result [of 0 1 7 "''h''" 22 "ServerKey ''k'' None []" "NewSSHManager 0 []"] by auto
qed (simp add: before_shutdown_def)

section \<open>Trust on first use\<close>

text \<open>A run of handshakes and key removals.  A handshake looks the key up twice; \<open>stale\<close> says that
  its first look came before another handshake stored a key, so that it found none.\<close>

datatype tofu_op = Present iid pubkey bool | Clear iid

fun tofu_act :: "tofu_op \<Rightarrow> SSHManager \<Rightarrow> bool \<times> SSHManager" where
  "tofu_act (Present i key stale) m = hostKeyCallback (if stale then None else m_hostKeys m i) i key m"
| "tofu_act (Clear i) m = (True, ClearHostKey i m)"

definition tofu_run :: "tofu_op list \<Rightarrow> SSHManager \<Rightarrow> SSHManager" where
  "tofu_run ops m = fold (\<lambda>x m. snd (tofu_act x m)) ops m"

text \<open>The specification: the first key presented since the instance's key was last removed.\<close>

fun pin :: "iid \<Rightarrow> tofu_op \<Rightarrow> pubkey option \<Rightarrow> pubkey option" where
  "pin i (Present j key _) p = (if j = i \<and> p = None then Some key else p)"
| "pin i (Clear j) p = (if j = i then None else p)"

lemma tofu_pin: "m_hostKeys (snd (tofu_act x m)) i = pin i x (m_hostKeys m i)"
  by (cases x) (auto simp: hostKeyCallback_def ClearHostKey_def split: option.splits)

lemma tofu_run_pin: "m_hostKeys (tofu_run ops m) i = fold (pin i) ops (m_hostKeys m i)"
  unfolding tofu_run_def by (induction ops arbitrary: m) (simp_all add: tofu_pin)

text \<open>C1: Trust on first use.  In any interleaving of handshakes (with early or late first looks) and
  key removals over all instances, a handshake accepts a key exactly when no key was presented
  for the instance since its key was last removed, or the first one presented was the same.\<close>

theorem tofu_pins_first_key:
  "fst (tofu_act (Present i key stale) (tofu_run ops (NewSSHManager s p))) \<longleftrightarrow>
   fold (pin i) ops None \<in> {None, Some key}"
proof -
  have "m_hostKeys (NewSSHManager s p) i = None" by (simp add: NewSSHManager_def)
  then have "m_hostKeys (tofu_run ops (NewSSHManager s p)) i = fold (pin i) ops None"
    by (simp add: tofu_run_pin)
  then show ?thesis by (auto simp: hostKeyCallback_def split: option.splits)
qed

section \<open>Connect\<close>

text \<open>A connection attempt is refused by the rate limiter with nothing else changed, or fails
  with the client table unchanged and the state Disconnected, or opens a fresh client,
  installed in place of the instance's old one (which is closed), with the state Connected.  It
  opens one exactly when the limiter lets it through, the server authenticates it, and the
  server's key is the pinned one, or none is pinned, or the instance still had an entry in the
  table (then the pinned key is forgotten first).\<close>

theorem connect_spec:
  "case connect_case t0 i net m of
     Refused \<Rightarrow> (\<exists>e. Connect t0 t1 i host port net m =
                    (Inl (SshRateLimited e), m\<lparr>m_rateLimiter := snd (Allow t0 i (m_rateLimiter m))\<rparr>))
   | Failed \<Rightarrow> (\<exists>e m'. Connect t0 t1 i host port net m = (Inl e, m') \<and> clients m' = clients m \<and>
                  getState (m_stateTracker m') i = StateDisconnected)
   | Opened \<Rightarrow> (\<exists>m'. Connect t0 t1 i host port net m = (Inr (w_nextClient m), m') \<and>
                  clients m' = open_client i (clients m) \<and>
                  getState (m_stateTracker m') i = StateConnected)"
  by (rule Connect_result)

section \<open>The IP restriction gates what follows it\<close>

lemma restriction_blocks:
  assumes "\<not> IsConnected (env_probe env) i m" and "env_address env = Inr (host, port)"
    and "CheckSourceIPAllowed (env_outbound env) i allowed host port = Some e"
  shows "EnsureConnectedWithIPCheck txt env i allowed m =
     (Inl (EnsureRestricted e),
      emitEvent (event (env_now env) i EventDisconnected (''connection blocked by IP restriction: '' @ txt e))
        (mark (env_now env) i StateDisconnected (''blocked by IP restriction: '' @ txt e) m))"
  using assms by (simp add: EnsureConnectedWithIPCheck_def)

text \<open>When an instance has no live connection and its whitelist does not admit the outbound
  address, \<open>EnsureConnectedWithIPCheck\<close> returns the restriction error, whatever the key upload and
  the network would have answered: it neither uploads the key nor dials, it keeps the clients, the
  pinned keys and the attempt counters, and it records the blocked attempt.\<close>

theorem ensure_ip_gate:
  assumes "\<not> IsConnected (env_probe env) i m" and "env_address env = Inr (host, port)"
    and "\<not> allowed_by (entries csv) (env_outbound env (join_host_port host port))"
  shows "\<exists>e. fst (EnsureConnectedWithIPCheck txt env i csv m) = Inl (EnsureRestricted e) \<and>
    (\<forall>up net. EnsureConnectedWithIPCheck txt (env\<lparr>env_configure := up, env_net := net\<rparr>) i csv m =
              EnsureConnectedWithIPCheck txt env i csv m) \<and>
    (let m' = snd (EnsureConnectedWithIPCheck txt env i csv m) in
       clients m' = clients m \<and> m_hostKeys m' = m_hostKeys m \<and> m_rateLimiter m' = m_rateLimiter m \<and>
       getState (m_stateTracker m') i = StateDisconnected)"
proof -
  from assms(3) obtain e where e: "CheckSourceIPAllowed (env_outbound env) i csv host port = Some e"
    using source_ip_closed [of "env_outbound env" i csv host port] by (metis option.exhaust)
  have "EnsureConnectedWithIPCheck txt (env\<lparr>env_configure := up, env_net := net\<rparr>) i csv m =
        EnsureConnectedWithIPCheck txt env i csv m" for up net
    using restriction_blocks [of "env\<lparr>env_configure := up, env_net := net\<rparr>" i m host port csv e "txt"]
      restriction_blocks [OF assms(1,2) e, of "txt"] assms(1,2) e by simp
  then show ?thesis
    using restriction_blocks [OF assms(1,2) e, of "txt"] by (simp add: Let_def frame_simps)
qed

theorem ensure_ip_gate_witness:
  "\<exists>env e. fst (EnsureConnectedWithIPCheck (\<lambda>_. []) env 7 ''10.0.0.0/8'' (NewSSHManager 0 [])) =
     Inl (EnsureRestricted e)"
proof -
  define env where "env = \<lparr>env_now = 0, env_then = 0, env_probe = (\<lambda>_. True), env_address = Inr (''h'', 22),
     env_outbound = (\<lambda>_. None), env_configure = (\<lambda>_. None), env_net = DialFails []\<rparr>"
  have "\<not> IsConnected (env_probe env) 7 (NewSSHManager 0 [])"
    by (simp add: IsConnected_def NewSSHManager_def)
  moreover have "env_address env = Inr (''h'', 22)" by (simp add: env_def)
  moreover have "\<not> allowed_by (entries ''10.0.0.0/8'') None" by code_simp
  then have "\<not> allowed_by (entries ''10.0.0.0/8'') (env_outbound env (join_host_port ''h'' 22))"
    by (simp add: env_def)
  ultimately show ?thesis
    using ensure_ip_gate [of env 7 "NewSSHManager 0 []" "''h''" 22 "''10.0.0.0/8''" "\<lambda>_. []"] by blast
qed

section \<open>Which reconnections run\<close>

text \<open>The goroutines \<open>triggerReconnect\<close> starts, between the critical sections of \<open>reconnMu\<close>: a trigger
  starts one or is dropped, a running one ends (its deferred function runs), and
  \<open>CancelReconnection\<close> cancels the registered one, which goes on running until it notices.\<close>

inductive rc_step :: "bool \<Rightarrow> SSHManager \<times> (iid \<times> nat) list \<Rightarrow> SSHManager \<times> (iid \<times> nat) list \<Rightarrow> bool"
  for cancels :: bool where
  trigger: "triggerReconnect i m = (Some k, m') \<Longrightarrow> rc_step cancels (m, run) (m', (i, k) # run)"
| dropped: "triggerReconnect i m = (None, m') \<Longrightarrow> rc_step cancels (m, run) (m', run)"
| finish: "(i, k) \<in> set run \<Longrightarrow> rc_step cancels (m, run) (reconnectDone i m, remove1 (i, k) run)"
| cancel: "cancels \<Longrightarrow> rc_step cancels (m, run) (cancelEntry i m, run)"

definition one_each :: "SSHManager \<times> (iid \<times> nat) list \<Rightarrow> bool" where
  "one_each s \<longleftrightarrow> distinct (map fst (snd s)) \<and> dom (m_reconnecting (fst s)) = fst ` set (snd s)"

lemma fst_remove1:
  "distinct (map fst xs) \<Longrightarrow> (i, k) \<in> set xs \<Longrightarrow>
   distinct (map fst (remove1 (i, k) xs)) \<and> fst ` set (remove1 (i, k) xs) = fst ` set xs - {i}"
proof (induction xs)
  case (Cons x xs)
  then show ?case by (cases x) (auto simp: image_iff)
qed simp

lemma one_each_step: "rc_step False s s' \<Longrightarrow> one_each s \<Longrightarrow> one_each s'"
proof (induction rule: rc_step.induct)
  case (trigger i m k m' run)
  then have "m_reconnecting m i = None" "m_reconnecting m' = (m_reconnecting m)(i \<mapsto> k)"
    by (auto simp: triggerReconnect_def split: if_splits)
  moreover from this have "i \<notin> dom (m_reconnecting m)" by auto
  ultimately show ?case using trigger by (simp add: one_each_def)
next
  case (dropped i m m' run)
  then show ?case by (auto simp: one_each_def triggerReconnect_def split: if_splits)
next
  case (finish i k run m)
  then show ?case using fst_remove1 [of run i k] by (simp add: one_each_def reconnectDone_def)
qed simp

text \<open>As long as no reconnection is cancelled, at most one reconnect goroutine runs per instance,
  and the registered ones are exactly the running ones.\<close>

theorem reconnect_dedup:
  assumes "(rc_step False)\<^sup>*\<^sup>* (NewSSHManager s p\<lparr>m_orch := orch\<rparr>, []) (m, run)"
  shows "distinct (map fst run) \<and> dom (m_reconnecting m) = fst ` set run"
proof -
  have "one_each (NewSSHManager s p\<lparr>m_orch := orch\<rparr>, [])"
    by (simp add: one_each_def NewSSHManager_def)
  with assms have "one_each (m, run)"
    by (induction rule: rtranclp_induct) (auto intro: one_each_step)
  then show ?thesis by (simp add: one_each_def)
qed

theorem reconnect_dedup_witness:
  "distinct (map fst [(3 :: iid, 0 :: nat)])"
proof -
  have "triggerReconnect 3 (NewSSHManager 0 []\<lparr>m_orch := True\<rparr>) =
    (Some 0, NewSSHManager 0 []\<lparr>m_orch := True, m_reconnecting := [3 \<mapsto> 0], w_nextCtx := 1\<rparr>)"
    by (simp add: triggerReconnect_def NewSSHManager_def)
  then have "(rc_step False)\<^sup>*\<^sup>* (NewSSHManager 0 []\<lparr>m_orch := True\<rparr>, [])
    (NewSSHManager 0 []\<lparr>m_orch := True, m_reconnecting := [3 \<mapsto> 0], w_nextCtx := 1\<rparr>, [(3, 0)])"
    by (intro r_into_rtranclp trigger)
  from reconnect_dedup [OF this] show ?thesis by blast
qed

text \<open>Once reconnections are cancelled this is lost: after a cancellation and a new trigger, the end
  of the cancelled goroutine removes the new one's registration, and a third trigger starts a
  second live reconnection of the same instance, with the first out of reach of
  \<open>CancelReconnection\<close>.\<close>

theorem reconnect_dedup_lost_after_cancel:
  "\<exists>m k k'. (rc_step True)\<^sup>*\<^sup>* (NewSSHManager s p\<lparr>m_orch := True\<rparr>, []) (m, [(i, k'), (i, k)]) \<and>
     k \<noteq> k' \<and> k \<notin> set (w_cancelled m) \<and> k' \<notin> set (w_cancelled m) \<and> m_reconnecting m i = Some k'"
proof -
  define m0 where "m0 = NewSSHManager s p\<lparr>m_orch := True\<rparr>"
  define m1 where "m1 = snd (triggerReconnect i m0)"
  define m2 where "m2 = cancelEntry i m1"
  define m3 where "m3 = snd (triggerReconnect i m2)"
  define m4 where "m4 = reconnectDone i m3"
  define m5 where "m5 = snd (triggerReconnect i m4)"
  note defs = m0_def m1_def m2_def m3_def m4_def m5_def triggerReconnect_def cancelEntry_def
    reconnectDone_def NewSSHManager_def
  have "triggerReconnect i m0 = (Some 0, m1)" "triggerReconnect i m2 = (Some 1, m3)"
    "triggerReconnect i m4 = (Some 2, m5)" by (simp_all add: defs)
  then have steps: "rc_step True (m0, []) (m1, [(i, 0)])" "rc_step True (m1, [(i, 0)]) (m2, [(i, 0)])"
    "rc_step True (m2, [(i, 0)]) (m3, [(i, 1), (i, 0)])"
    "rc_step True (m4, [(i, 1)]) (m5, [(i, 2), (i, 1)])"
    by (auto simp: m2_def intro: rc_step.trigger rc_step.cancel)
  have "rc_step True (m3, [(i, 1), (i, 0)]) (m4, [(i, 1)])"
    using rc_step.finish [of i 0 "[(i, 1), (i, 0)]" True m3] by (simp add: m4_def)
  with steps have "(rc_step True)\<^sup>*\<^sup>* (m0, []) (m5, [(i, 2), (i, 1)])"
    by (meson converse_rtranclp_into_rtranclp rtranclp.rtrancl_refl)
  moreover have "1 \<notin> set (w_cancelled m5)" "2 \<notin> set (w_cancelled m5)" "m_reconnecting m5 i = Some 2"
    by (simp_all add: defs)
  ultimately show ?thesis unfolding m0_def
    by (intro exI [of _ m5] exI [of _ 1] exI [of _ 2]) simp
qed

end
