(* ===== verification/Tunnels.thy ===== *)
theory Tunnels imports SshManager begin

text \<open>
  \<^verbatim>\<open>control-plane/internal/sshproxy/tunnel.go\<close> and \<^verbatim>\<open>tunnel_health.go\<close>: the tunnels
  of each instance over its SSH connection, their health checks, and the reconciliation loop with
  its backoff.  The manager's state is the record \<open>TunnelManager\<close>; the operations that go
  through the SSH manager take and return the pair of both.  A listener and the context of its
  accept loop are one number; \<open>tm_stopped\<close> logs the listeners closed.  What is outside (the answers
  of the SSH layer, of \<open>net.Listen\<close> and of the TCP probe, the clock) comes in \<open>tun_env\<close>.
\<close>

section \<open>State\<close>

datatype TunnelType = TunnelTypeForward | TunnelTypeReverse | TunnelTypeAgentListener

record TunnelConfig =
  cfg_LocalPort :: nat
  cfg_RemotePort :: nat
  cfg_Type :: TunnelType

record TunnelMetrics =
  tmx_CreatedAt :: "gtime option"
  tmx_LastHealthCheck :: "gtime option"
  tmx_SuccessfulChecks :: nat
  tmx_FailedChecks :: nat

record ActiveTunnel =
  tn_Config :: TunnelConfig
  tn_Label :: string
  tn_LocalPort :: nat
  tn_Status :: string
  tn_Error :: string
  tn_LastCheck :: gtime
  tn_listener :: nat
  tn_metrics :: TunnelMetrics

record reconnectState =
  rs_attempts :: nat
  rs_nextRetry :: gtime
  rs_lastError :: string

record TunnelManager =
  tm_tunnels :: "iid \<rightharpoonup> ActiveTunnel list"
  tm_backoff :: "iid \<rightharpoonup> reconnectState"
  tm_reconnectCounts :: "iid \<Rightarrow> nat"
  tm_llmGatewayAddr :: string
  tm_cdpDialProvider :: "(iid \<Rightarrow> bool) option"
  tm_cdpHealthProbe :: "(iid \<Rightarrow> bool) option"
  tm_nextListener :: nat
  tm_stopped :: "nat list"

definition NewTunnelManager :: TunnelManager where
  "NewTunnelManager = \<lparr>tm_tunnels = Map.empty, tm_backoff = Map.empty, tm_reconnectCounts = (\<lambda>_. 0),
     tm_llmGatewayAddr = [], tm_cdpDialProvider = None, tm_cdpHealthProbe = None,
     tm_nextListener = 0, tm_stopped = []\<rparr>"

definition SetLLMGatewayAddr :: "string \<Rightarrow> TunnelManager \<Rightarrow> TunnelManager" where
  "SetLLMGatewayAddr addr tm = tm\<lparr>tm_llmGatewayAddr := addr\<rparr>"

definition SetCDPDialProvider :: "(iid \<Rightarrow> bool) option \<Rightarrow> TunnelManager \<Rightarrow> TunnelManager" where
  "SetCDPDialProvider p tm = tm\<lparr>tm_cdpDialProvider := p\<rparr>"

definition SetCDPHealthProbe :: "(iid \<Rightarrow> bool) option \<Rightarrow> TunnelManager \<Rightarrow> TunnelManager" where
  "SetCDPHealthProbe p tm = tm\<lparr>tm_cdpHealthProbe := p\<rparr>"

record tun_env =
  te_now :: gtime
  te_connected :: "nat \<Rightarrow> bool"
  te_ensure :: "iid \<Rightarrow> ensure_env"
  te_text :: "check_error \<Rightarrow> string"
  te_ensure_text :: "ensure_error \<Rightarrow> string"
  te_listen :: "iid \<Rightarrow> string \<Rightarrow> string + nat"
  te_dial :: "iid \<Rightarrow> nat \<Rightarrow> string option"

section \<open>Creating and stopping\<close>

definition tunnels_of :: "iid \<Rightarrow> TunnelManager \<Rightarrow> ActiveTunnel list" where
  \<comment> \<open>reading a missing key of the map gives the nil slice\<close>
  "tunnels_of i tm = (case tm_tunnels tm i of None \<Rightarrow> [] | Some ts \<Rightarrow> ts)"

definition addTunnel :: "iid \<Rightarrow> ActiveTunnel \<Rightarrow> TunnelManager \<Rightarrow> TunnelManager" where
  "addTunnel i t tm = tm\<lparr>tm_tunnels := (tm_tunnels tm)(i \<mapsto> tunnels_of i tm @ [t])\<rparr>"

definition newMetrics :: "gtime \<Rightarrow> TunnelMetrics" where
  "newMetrics now = \<lparr>tmx_CreatedAt = Some now, tmx_LastHealthCheck = None,
                     tmx_SuccessfulChecks = 0, tmx_FailedChecks = 0\<rparr>"

definition CreateAgentListenerTunnelDial :: "tun_env \<Rightarrow> iid \<Rightarrow> string \<Rightarrow> nat \<Rightarrow> SSHManager \<Rightarrow>
    TunnelManager \<Rightarrow> string option \<times> TunnelManager" where
  "CreateAgentListenerTunnelDial env i label agentPort m tm =
     (case GetConnection i m of
        None \<Rightarrow> (Some (''no SSH connection for instance '' @ show_nat i), tm)
      | Some client \<Rightarrow>
          (case te_listen env i label of
             Inl e \<Rightarrow> (Some (''agent listen port '' @ show_nat agentPort @ '': '' @ e), tm)
           | Inr _ \<Rightarrow>
               (None, addTunnel i
                  \<lparr>tn_Config = \<lparr>cfg_LocalPort = agentPort, cfg_RemotePort = 0,
                               cfg_Type = TunnelTypeAgentListener\<rparr>,
                   tn_Label = label, tn_LocalPort = agentPort, tn_Status = ''active'', tn_Error = [],
                   tn_LastCheck = te_now env, tn_listener = tm_nextListener tm,
                   tn_metrics = newMetrics (te_now env)\<rparr>
                  (tm\<lparr>tm_nextListener := tm_nextListener tm + 1\<rparr>))))"

definition CreateReverseTunnel :: "tun_env \<Rightarrow> iid \<Rightarrow> string \<Rightarrow> nat \<Rightarrow> SSHManager \<Rightarrow> TunnelManager \<Rightarrow>
    (string + nat) \<times> TunnelManager" where
  "CreateReverseTunnel env i label remotePort m tm =
     (case GetConnection i m of
        None \<Rightarrow> (Inl (''no SSH connection for instance '' @ show_nat i), tm)
      | Some client \<Rightarrow>
          (case te_listen env i label of
             Inl e \<Rightarrow> (Inl (''listen on 127.0.0.1:0: '' @ e), tm)
           | Inr boundPort \<Rightarrow>
               (Inr boundPort, addTunnel i
                  \<lparr>tn_Config = \<lparr>cfg_LocalPort = boundPort, cfg_RemotePort = remotePort,
                               cfg_Type = TunnelTypeReverse\<rparr>,
                   tn_Label = label, tn_LocalPort = boundPort, tn_Status = ''active'', tn_Error = [],
                   tn_LastCheck = te_now env, tn_listener = tm_nextListener tm,
                   tn_metrics = newMetrics (te_now env)\<rparr>
                  (tm\<lparr>tm_nextListener := tm_nextListener tm + 1\<rparr>))))"

definition CreateTunnelForVNC :: "tun_env \<Rightarrow> iid \<Rightarrow> SSHManager \<Rightarrow> TunnelManager \<Rightarrow>
    (string + nat) \<times> TunnelManager" where
  "CreateTunnelForVNC env i m tm = CreateReverseTunnel env i ''VNC'' 3000 m tm"

definition CreateTunnelForGateway :: "tun_env \<Rightarrow> iid \<Rightarrow> nat \<Rightarrow> SSHManager \<Rightarrow> TunnelManager \<Rightarrow>
    (string + nat) \<times> TunnelManager" where
  "CreateTunnelForGateway env i gatewayPort m tm =
     CreateReverseTunnel env i ''Gateway'' (if gatewayPort = 0 then 18789 else gatewayPort) m tm"

definition StopTunnelsForInstance :: "iid \<Rightarrow> TunnelManager \<Rightarrow> TunnelManager" where
  "StopTunnelsForInstance i tm =
     (case tm_tunnels tm i of
        None \<Rightarrow> tm
      | Some ts \<Rightarrow> tm\<lparr>tm_tunnels := (tm_tunnels tm)(i := None),
                     tm_stopped := tm_stopped tm @ map tn_listener ts\<rparr>)"

definition StopAll :: "iid list \<Rightarrow> TunnelManager \<Rightarrow> TunnelManager" where
  "StopAll ids tm =
     tm\<lparr>tm_tunnels := Map.empty,
        tm_stopped := tm_stopped tm @ concat (map (\<lambda>i. map tn_listener (tunnels_of i tm)) ids)\<rparr>"

definition setTunnelStatus :: "gtime \<Rightarrow> iid \<Rightarrow> nat \<Rightarrow> string \<Rightarrow> string \<Rightarrow> TunnelManager \<Rightarrow> TunnelManager" where
  "setTunnelStatus now i listener status err tm =
     tm\<lparr>tm_tunnels := (tm_tunnels tm)(i := map_option (map (\<lambda>t.
          if tn_listener t = listener then t\<lparr>tn_Status := status, tn_Error := err, tn_LastCheck := now\<rparr> else t))
        (tm_tunnels tm i))\<rparr>"

definition GetVNCLocalPort :: "iid \<Rightarrow> TunnelManager \<Rightarrow> nat" where
  "GetVNCLocalPort i tm =
     (case filter (\<lambda>t. tn_Label t = ''VNC'' \<and> tn_Status t = ''active'') (tunnels_of i tm) of
        [] \<Rightarrow> 0 | t # _ \<Rightarrow> tn_LocalPort t)"

definition GetGatewayLocalPort :: "iid \<Rightarrow> TunnelManager \<Rightarrow> nat" where
  "GetGatewayLocalPort i tm =
     (case filter (\<lambda>t. tn_Label t = ''Gateway'' \<and> tn_Status t = ''active'') (tunnels_of i tm) of
        [] \<Rightarrow> 0 | t # _ \<Rightarrow> tn_LocalPort t)"

section \<open>Starting the tunnels of an instance\<close>

definition tunnel_up :: "ActiveTunnel \<Rightarrow> bool" where
  "tunnel_up t \<longleftrightarrow> tn_Status t = ''active'' \<or> tn_Status t = ''idle''"

definition areTunnelsHealthy :: "tun_env \<Rightarrow> iid \<Rightarrow> SSHManager \<Rightarrow> TunnelManager \<Rightarrow> bool \<times> TunnelManager" where
  "areTunnelsHealthy env i m tm =
     (if tunnels_of i tm = [] then (False, tm)
      else if \<not> IsConnected (te_connected env) i m then (False, tm)
      else if \<not> list_all tunnel_up (tunnels_of i tm) then (False, tm)
      else (True, tm\<lparr>tm_tunnels := (tm_tunnels tm)(i \<mapsto>
                       map (\<lambda>t. t\<lparr>tn_LastCheck := te_now env\<rparr>) (tunnels_of i tm))\<rparr>))"

text \<open>\<open>fmt.Sscanf(addr, "127.0.0.1:%d", &p)\<close> for an unsigned port, and the default.\<close>

definition agent_port :: "string \<Rightarrow> nat" where
  "agent_port addr =
     (let p = (if has_prefix addr ''127.0.0.1:''
               then dec_value (takeWhile (\<lambda>c. digit_val c \<noteq> None) (drop 10 addr)) else 0)
      in if p = 0 then 40001 else p)"

definition incrementReconnectCount :: "iid \<Rightarrow> TunnelManager \<Rightarrow> TunnelManager" where
  "incrementReconnectCount i tm = tm\<lparr>tm_reconnectCounts := (tm_reconnectCounts tm)(i := tm_reconnectCounts tm i + 1)\<rparr>"

definition create_llm :: "tun_env \<Rightarrow> iid \<Rightarrow> SSHManager \<Rightarrow> TunnelManager \<Rightarrow> TunnelManager" where
  "create_llm env i m tm =
     snd (CreateAgentListenerTunnelDial env i ''LLMProxy'' (agent_port (tm_llmGatewayAddr tm)) m tm)"

definition create_cdp :: "tun_env \<Rightarrow> iid \<Rightarrow> SSHManager \<Rightarrow> TunnelManager \<Rightarrow> TunnelManager" where
  "create_cdp env i m tm = snd (CreateAgentListenerTunnelDial env i ''CDP'' 9222 m tm)"

definition useCDP :: "iid \<Rightarrow> TunnelManager \<Rightarrow> bool" where
  "useCDP i tm = (case tm_cdpDialProvider tm of None \<Rightarrow> False | Some p \<Rightarrow> p i)"

definition start_missing :: "tun_env \<Rightarrow> iid \<Rightarrow> SSHManager \<Rightarrow> TunnelManager \<Rightarrow> TunnelManager" where
  "start_missing env i m tm =
     (let ts = tunnels_of i tm;
          hasLLMProxy = list_ex (\<lambda>t. tn_Label t = ''LLMProxy'' \<and> tn_Status t = ''active'') ts;
          hasCDP = list_ex (\<lambda>t. tn_Label t = ''CDP'' \<and> tunnel_up t) ts;
          tm1 = (if tm_llmGatewayAddr tm \<noteq> [] \<and> \<not> hasLLMProxy then create_llm env i m tm else tm)
      in if useCDP i tm \<and> \<not> hasCDP then create_cdp env i m tm1 else tm1)"

definition start_fresh :: "tun_env \<Rightarrow> iid \<Rightarrow> SSHManager \<Rightarrow> TunnelManager \<Rightarrow> TunnelManager" where
  "start_fresh env i m tm =
     (let tm1 = (if tunnels_of i tm \<noteq> []
                 then incrementReconnectCount i (StopTunnelsForInstance i tm) else tm);
          tm2 = (if useCDP i tm then create_cdp env i m tm1 else snd (CreateTunnelForVNC env i m tm1));
          tm3 = snd (CreateTunnelForGateway env i 0 m tm2)
      in if tm_llmGatewayAddr tm3 \<noteq> [] then create_llm env i m tm3 else tm3)"

definition StartTunnelsForInstance :: "tun_env \<Rightarrow> iid \<Rightarrow> SSHManager \<times> TunnelManager \<Rightarrow>
    ensure_error option \<times> SSHManager \<times> TunnelManager" where
  "StartTunnelsForInstance env i s =
     (case s of (m, tm) \<Rightarrow>
        (case areTunnelsHealthy env i m tm of (healthy, tm1) \<Rightarrow>
           (case EnsureConnected (te_text env) (te_ensure env i) i m of
              (Inl e, m1) \<Rightarrow> (Some e, m1, tm1)
            | (Inr c, m1) \<Rightarrow>
                (None, m1, if healthy then start_missing env i m1 tm1 else start_fresh env i m1 tm1))))"

section \<open>Backoff\<close>

definition tunnelCheckInterval :: duration where "tunnelCheckInterval = seconds 60"
definition maxBackoffInterval :: duration where "maxBackoffInterval = minutes 5"
definition initialBackoffInterval :: duration where "initialBackoffInterval = seconds 5"

text \<open>The loop \<open>for i := 1; i < attempts; i++\<close> of \<open>recordFailure\<close>, with its \<open>break\<close>.\<close>

fun delay_loop :: "nat \<Rightarrow> duration \<Rightarrow> duration" where
  "delay_loop 0 d = d"
| "delay_loop (Suc k) d = (if d * 2 > maxBackoffInterval then maxBackoffInterval else delay_loop k (d * 2))"

definition tm_recordFailure :: "gtime \<Rightarrow> iid \<Rightarrow> string \<Rightarrow> TunnelManager \<Rightarrow> TunnelManager" where
  "tm_recordFailure now i err tm =
     (let st = (case tm_backoff tm i of
                  None \<Rightarrow> \<lparr>rs_attempts = 0, rs_nextRetry = 0, rs_lastError = []\<rparr> | Some st \<Rightarrow> st);
          n = rs_attempts st + 1
      in tm\<lparr>tm_backoff := (tm_backoff tm)(i \<mapsto>
              \<lparr>rs_attempts = n, rs_nextRetry = now + delay_loop (n - 1) initialBackoffInterval,
               rs_lastError = err\<rparr>)\<rparr>)"

definition isInBackoff :: "iid \<Rightarrow> gtime \<Rightarrow> TunnelManager \<Rightarrow> bool" where
  "isInBackoff i now tm = (case tm_backoff tm i of None \<Rightarrow> False | Some st \<Rightarrow> now < rs_nextRetry st)"

definition clearBackoff :: "iid \<Rightarrow> TunnelManager \<Rightarrow> TunnelManager" where
  "clearBackoff i tm = tm\<lparr>tm_backoff := (tm_backoff tm)(i := None)\<rparr>"

definition getAttempts :: "iid \<Rightarrow> TunnelManager \<Rightarrow> nat" where
  "getAttempts i tm = (case tm_backoff tm i of None \<Rightarrow> 0 | Some st \<Rightarrow> rs_attempts st)"

section \<open>Reconciliation\<close>

definition remove_stopped :: "iid list \<Rightarrow> iid list \<Rightarrow> TunnelManager \<Rightarrow> TunnelManager" where
  "remove_stopped running keys tm =
     (let tm1 = fold (\<lambda>i tm. clearBackoff i (StopTunnelsForInstance i tm))
                  (filter (\<lambda>i. i \<notin> set running) keys) tm
      in tm1\<lparr>tm_backoff := keep_where (\<lambda>i st. i \<in> set running) (tm_backoff tm1)\<rparr>)"

definition reconcile_one :: "tun_env \<Rightarrow> iid \<Rightarrow> SSHManager \<times> TunnelManager \<Rightarrow> SSHManager \<times> TunnelManager" where
  "reconcile_one env i s =
     (if isInBackoff i (te_now env) (snd s) then s
      else case StartTunnelsForInstance env i s of
             (Some e, m, tm) \<Rightarrow> (m, tm_recordFailure (te_now env) i (te_ensure_text env e) tm)
           | (None, m, tm) \<Rightarrow> (m, clearBackoff i tm))"

text \<open>\<open>running\<close> is what \<open>listRunning\<close> returns (\<open>None\<close> for an error), \<open>keys\<close> the walk over the map.\<close>

definition reconcile :: "tun_env \<Rightarrow> iid list option \<Rightarrow> iid list \<Rightarrow> SSHManager \<times> TunnelManager \<Rightarrow>
    SSHManager \<times> TunnelManager" where
  "reconcile env running keys s =
     (case running of
        None \<Rightarrow> s
      | Some ids \<Rightarrow> fold (reconcile_one env) ids (fst s, remove_stopped ids keys (snd s)))"

section \<open>Health checks\<close>

definition tunnel_recordSuccess :: "gtime \<Rightarrow> TunnelMetrics \<Rightarrow> TunnelMetrics" where
  "tunnel_recordSuccess now x =
     x\<lparr>tmx_LastHealthCheck := Some now, tmx_SuccessfulChecks := tmx_SuccessfulChecks x + 1\<rparr>"

definition tunnel_recordFailure :: "gtime \<Rightarrow> TunnelMetrics \<Rightarrow> TunnelMetrics" where
  "tunnel_recordFailure now x =
     x\<lparr>tmx_LastHealthCheck := Some now, tmx_FailedChecks := tmx_FailedChecks x + 1\<rparr>"

interpretation tunnel_metrics: check_counters tunnel_recordSuccess tunnel_recordFailure
  tmx_SuccessfulChecks tmx_FailedChecks tmx_LastHealthCheck
  by unfold_locales (simp_all add: tunnel_recordSuccess_def tunnel_recordFailure_def)

definition with_tunnel_metrics :: "(TunnelMetrics \<Rightarrow> TunnelMetrics) \<Rightarrow> iid \<Rightarrow> nat \<Rightarrow> TunnelManager \<Rightarrow> TunnelManager" where
  "with_tunnel_metrics f i listener tm =
     tm\<lparr>tm_tunnels := (tm_tunnels tm)(i := map_option (map (\<lambda>t.
          if tn_listener t = listener then t\<lparr>tn_metrics := f (tn_metrics t)\<rparr> else t)) (tm_tunnels tm i))\<rparr>"

datatype tunnel_error = NoTunnel | BadStatus string | ProbeFailed string

definition CheckTunnelHealth :: "tun_env \<Rightarrow> iid \<Rightarrow> string \<Rightarrow> TunnelManager \<Rightarrow> tunnel_error option \<times> TunnelManager" where
  "CheckTunnelHealth env i label tm =
     (let now = te_now env in
      case filter (\<lambda>t. tn_Label t = label) (tunnels_of i tm) of
        [] \<Rightarrow> (Some NoTunnel, tm)
      | target # _ \<Rightarrow>
          let l = tn_listener target in
          if cfg_Type (tn_Config target) = TunnelTypeAgentListener \<and> tn_Label target = ''CDP''
          then (case tm_cdpHealthProbe tm of
                  Some probe \<Rightarrow>
                    if probe i
                    then (None, with_tunnel_metrics (tunnel_recordSuccess now) i l
                            (if tn_Status target \<noteq> ''active'' then setTunnelStatus now i l ''active'' [] tm else tm))
                    else (None, if tn_Status target \<noteq> ''idle''
                                then setTunnelStatus now i l ''idle'' ''browser pod not running'' tm else tm)
                | None \<Rightarrow> (None, with_tunnel_metrics (tunnel_recordSuccess now) i l tm))
          else if tn_Status target \<noteq> ''active''
          then (Some (BadStatus (tn_Status target)), with_tunnel_metrics (tunnel_recordFailure now) i l tm)
          else if cfg_Type (tn_Config target) = TunnelTypeAgentListener
          then (None, with_tunnel_metrics (tunnel_recordSuccess now) i l tm)
          else (case te_dial env i (tn_LocalPort target) of
                  Some e \<Rightarrow> (Some (ProbeFailed e),
                     setTunnelStatus now i l ''error'' (''health check failed: '' @ e)
                       (with_tunnel_metrics (tunnel_recordFailure now) i l tm))
                | None \<Rightarrow> (None, with_tunnel_metrics (tunnel_recordSuccess now) i l tm)))"

definition checkAllTunnelHealth :: "tun_env \<Rightarrow> iid list \<Rightarrow> TunnelManager \<Rightarrow> TunnelManager" where
  "checkAllTunnelHealth env keys tm =
     (let refs = concat (map (\<lambda>i. map (\<lambda>t. (i, tn_Label t)) (filter tunnel_up (tunnels_of i tm))) keys)
      in fold (\<lambda>(i, label) tm. snd (CheckTunnelHealth env i label tm)) refs tm)"

end
