(* ===== verification/TunnelSafety.thy ===== *)
theory TunnelSafety imports Tunnels begin

text \<open>
  What holds of the tunnel manager: every listener it opened is live under one instance or closed
  once; reconciliation leaves tunnels and backoff only for running instances; the retry schedule;
  healthy tunnels are reused; a failed probe leads to recreation.
\<close>

section \<open>Every listener is accounted for\<close>

type_synonym listeners = "(iid \<Rightarrow> nat list) \<times> nat \<times> nat list"

definition listeners :: "TunnelManager \<Rightarrow> listeners" where
  "listeners tm = ((\<lambda>i. map tn_listener (tunnels_of i tm)), tm_nextListener tm, tm_stopped tm)"

fun open_listener :: "iid \<Rightarrow> listeners \<Rightarrow> listeners" where
  "open_listener i (live, nxt, stopped) = (live(i := live i @ [nxt]), nxt + 1, stopped)"

fun stop_listeners :: "iid \<Rightarrow> listeners \<Rightarrow> listeners" where
  "stop_listeners i (live, nxt, stopped) = (live(i := []), nxt, stopped @ live i)"

fun listeners_ok :: "listeners \<Rightarrow> bool" where
  "listeners_ok (live, nxt, stopped) \<longleftrightarrow>
     distinct stopped \<and> (\<forall>i. distinct (live i)) \<and> (\<forall>i. set (live i) \<inter> set stopped = {}) \<and>
     (\<forall>i j. i \<noteq> j \<longrightarrow> set (live i) \<inter> set (live j) = {}) \<and>
     (\<Union>i. set (live i)) \<union> set stopped = {..<nxt}"

lemma listeners_open: "listeners_ok s \<Longrightarrow> listeners_ok (open_listener i s)"
proof (cases s)
  case (fields live nxt stopped)
  assume ok: "listeners_ok s"
  then have all: "(\<Union>i. set (live i)) \<union> set stopped = {..<nxt}" using fields by simp
  then have new: "nxt \<notin> set (live j)" "nxt \<notin> set stopped" for j by blast+
  have "(\<Union>j. set ((live(i := live i @ [nxt])) j)) = insert nxt (\<Union>j. set (live j))"
    by (auto split: if_splits)
  moreover have "insert nxt {..<nxt} = {..<nxt + 1}" by auto
  ultimately have "(\<Union>j. set ((live(i := live i @ [nxt])) j)) \<union> set stopped = {..<nxt + 1}"
    using all by simp
  moreover have "x \<noteq> nxt" if "x \<in> set (live j)" for x j using new(1) that by blast
  ultimately show ?thesis using ok fields new by (simp add: disjoint_iff)
qed

lemma listeners_stop: "listeners_ok s \<Longrightarrow> listeners_ok (stop_listeners i s)"
proof (cases s)
  case (fields live nxt stopped)
  assume ok: "listeners_ok s"
  then have all: "(\<Union>i. set (live i)) \<union> set stopped = {..<nxt}"
    and one: "\<And>j. j \<noteq> i \<Longrightarrow> set (live j) \<inter> set (live i) = {}" using fields by simp_all
  have "(\<Union>j. set ((live(i := [])) j)) \<union> set (stopped @ live i) = (\<Union>j. set (live j)) \<union> set stopped"
    by (auto split: if_splits)
  with all have "(\<Union>j. set ((live(i := [])) j)) \<union> set (stopped @ live i) = {..<nxt}" by simp
  with ok fields one show ?thesis by (simp add: disjoint_iff) blast
qed

lemma tunnels_of_upd [simp]:
  "tunnels_of j (tm\<lparr>tm_tunnels := (tm_tunnels tm)(i \<mapsto> ts)\<rparr>) = (if j = i then ts else tunnels_of j tm)"
  "tunnels_of j (tm\<lparr>tm_tunnels := (tm_tunnels tm)(i := None)\<rparr>) = (if j = i then [] else tunnels_of j tm)"
  "tunnels_of j (tm\<lparr>tm_tunnels := (tm_tunnels tm)(i := map_option (map f) (tm_tunnels tm i))\<rparr>) =
     (if j = i then map f (tunnels_of j tm) else tunnels_of j tm)"
  by (auto simp: tunnels_of_def split: option.splits)

lemma tunnels_of_frame [frame_simps]:
  "tunnels_of j (tm\<lparr>tm_backoff := b\<rparr>) = tunnels_of j tm"
  "tunnels_of j (tm\<lparr>tm_nextListener := n\<rparr>) = tunnels_of j tm"
  "tunnels_of j (tm\<lparr>tm_stopped := s\<rparr>) = tunnels_of j tm"
  "tunnels_of j (incrementReconnectCount i tm) = tunnels_of j tm"
  "tunnels_of j (clearBackoff i tm) = tunnels_of j tm"
  "tunnels_of j (tm_recordFailure now i e tm) = tunnels_of j tm"
  by (simp_all add: tunnels_of_def incrementReconnectCount_def clearBackoff_def tm_recordFailure_def Let_def)

lemma listeners_frame [frame_simps]:
  "listeners (tm\<lparr>tm_backoff := b\<rparr>) = listeners tm"
  "listeners (incrementReconnectCount i tm) = listeners tm"
  "listeners (clearBackoff i tm) = listeners tm"
  "listeners (tm_recordFailure now i e tm) = listeners tm"
  by (simp_all add: listeners_def tunnels_of_def incrementReconnectCount_def clearBackoff_def
      tm_recordFailure_def Let_def)

lemma listeners_setTunnelStatus [frame_simps]:
  "listeners (setTunnelStatus now i l s e tm) = listeners tm"
  by (auto simp: listeners_def setTunnelStatus_def fun_eq_iff)

lemma listeners_with_metrics [frame_simps]:
  "listeners (with_tunnel_metrics f i l tm) = listeners tm"
  by (auto simp: listeners_def with_tunnel_metrics_def fun_eq_iff)

lemma listeners_add:
  "tn_listener t = tm_nextListener tm \<Longrightarrow>
   listeners (addTunnel i t (tm\<lparr>tm_nextListener := Suc (tm_nextListener tm)\<rparr>)) = open_listener i (listeners tm)"
  by (auto simp: listeners_def addTunnel_def fun_eq_iff tunnels_of_def)

lemma listeners_CreateDial:
  "listeners (snd (CreateAgentListenerTunnelDial env i label p m tm)) \<in>
     {listeners tm, open_listener i (listeners tm)}"
  by (auto simp: CreateAgentListenerTunnelDial_def listeners_add split: option.splits sum.splits)

lemma listeners_CreateReverse:
  "listeners (snd (CreateReverseTunnel env i label p m tm)) \<in>
     {listeners tm, open_listener i (listeners tm)}"
  by (auto simp: CreateReverseTunnel_def listeners_add split: option.splits sum.splits)

lemma listeners_Stop: "listeners (StopTunnelsForInstance i tm) = stop_listeners i (listeners tm)"
  by (auto simp: listeners_def StopTunnelsForInstance_def tunnels_of_def fun_eq_iff split: option.splits)

definition tun_ok :: "TunnelManager \<Rightarrow> bool" where
  "tun_ok tm \<longleftrightarrow> listeners_ok (listeners tm)"

lemma tun_ok_create [intro]:
  "tun_ok tm \<Longrightarrow> tun_ok (snd (CreateAgentListenerTunnelDial env i label p m tm))"
  "tun_ok tm \<Longrightarrow> tun_ok (snd (CreateReverseTunnel env i label p m tm))"
  using listeners_CreateDial [of env i label p m tm] listeners_CreateReverse [of env i label p m tm]
  by (auto simp: tun_ok_def listeners_open)

lemma tun_ok_stop [intro]: "tun_ok tm \<Longrightarrow> tun_ok (StopTunnelsForInstance i tm)"
  by (simp add: tun_ok_def listeners_Stop listeners_stop)

lemma tun_ok_frame [simp]:
  "tun_ok (tm\<lparr>tm_backoff := b\<rparr>) = tun_ok tm" "tun_ok (incrementReconnectCount i tm) = tun_ok tm"
  "tun_ok (clearBackoff i tm) = tun_ok tm" "tun_ok (tm_recordFailure now i e tm) = tun_ok tm"
  "tun_ok (setTunnelStatus now i l s e tm) = tun_ok tm" "tun_ok (with_tunnel_metrics f i l tm) = tun_ok tm"
  by (simp_all add: tun_ok_def frame_simps)

lemma tun_ok_healthy: "tun_ok tm \<Longrightarrow> tun_ok (snd (areTunnelsHealthy env i m tm))"
proof -
  have "listeners (snd (areTunnelsHealthy env i m tm)) = listeners tm"
    by (auto simp: areTunnelsHealthy_def listeners_def fun_eq_iff comp_def)
  then show "tun_ok tm \<Longrightarrow> ?thesis" by (simp add: tun_ok_def)
qed

lemma tun_ok_start:
  "tun_ok tm \<Longrightarrow> tun_ok (snd (snd (StartTunnelsForInstance env i (m, tm))))"
proof -
  assume ok: "tun_ok tm"
  obtain h tm1 where h: "areTunnelsHealthy env i m tm = (h, tm1)" by fastforce
  with tun_ok_healthy [OF ok, of env i m] have "tun_ok tm1" by simp
  moreover have "tun_ok tm' \<Longrightarrow> tun_ok (start_missing env i m' tm')" for m' tm'
    by (auto simp: start_missing_def Let_def create_llm_def create_cdp_def)
  moreover have "tun_ok tm' \<Longrightarrow> tun_ok (start_fresh env i m' tm')" for m' tm'
    by (simp add: start_fresh_def Let_def create_llm_def create_cdp_def CreateTunnelForVNC_def
        CreateTunnelForGateway_def tun_ok_create tun_ok_stop)
  ultimately show ?thesis
    using h by (auto simp: StartTunnelsForInstance_def split: prod.splits sum.splits)
qed

lemma tun_ok_reconcile_one: "tun_ok (snd s) \<Longrightarrow> tun_ok (snd (reconcile_one env i s))"
proof -
  assume ok: "tun_ok (snd s)"
  obtain e m' tm' where s: "StartTunnelsForInstance env i s = (e, m', tm')" by (metis prod_cases3)
  with tun_ok_start [OF ok, of env i "fst s"] have "tun_ok tm'" by simp
  with s ok show ?thesis by (cases e) (simp_all add: reconcile_one_def)
qed

lemma tun_ok_remove: "tun_ok tm \<Longrightarrow> tun_ok (remove_stopped running keys tm)"
proof -
  assume "tun_ok tm"
  then have "tun_ok (fold (\<lambda>i tm. clearBackoff i (StopTunnelsForInstance i tm))
                       (filter (\<lambda>i. i \<notin> set running) keys) tm)"
    by (rule fold_preserves [where P = tun_ok, rotated]) (auto intro: tun_ok_stop)
  then show ?thesis by (simp add: remove_stopped_def Let_def)
qed

lemma tun_ok_reconcile: "tun_ok (snd s) \<Longrightarrow> tun_ok (snd (reconcile env running keys s))"
proof (cases running)
  case (Some ids)
  assume "tun_ok (snd s)"
  then have "tun_ok (remove_stopped ids keys (snd s))" by (rule tun_ok_remove)
  then show ?thesis
    using fold_preserves [where P = "\<lambda>s. tun_ok (snd s)" and f = "reconcile_one env"] Some
    by (simp add: reconcile_def tun_ok_reconcile_one)
qed (simp add: reconcile_def)

lemma tun_ok_check: "tun_ok tm \<Longrightarrow> tun_ok (snd (CheckTunnelHealth env i label tm))"
  by (auto simp: CheckTunnelHealth_def Let_def split: list.splits option.splits)

datatype tun_op =
    RunReconcile tun_env "iid list option" "iid list"
  | RunStart tun_env iid
  | RunStop iid
  | RunHealth tun_env "iid list"
  | AcceptFails gtime iid nat string
  | SshChanges SSHManager

fun tun_act :: "tun_op \<Rightarrow> SSHManager \<times> TunnelManager \<Rightarrow> SSHManager \<times> TunnelManager" where
  "tun_act (RunReconcile env running keys) s = reconcile env running keys s"
| "tun_act (RunStart env i) s = snd (StartTunnelsForInstance env i s)"
| "tun_act (RunStop i) s = (fst s, StopTunnelsForInstance i (snd s))"
| "tun_act (RunHealth env keys) s = (fst s, checkAllTunnelHealth env keys (snd s))"
| "tun_act (AcceptFails now i l e) s = (fst s, setTunnelStatus now i l ''error'' e (snd s))"
| "tun_act (SshChanges m) s = (m, snd s)"

lemma tun_ok_act: "tun_ok (snd s) \<Longrightarrow> tun_ok (snd (tun_act x s))"
proof (cases x)
  case (RunHealth env keys)
  assume "tun_ok (snd s)"
  then show ?thesis unfolding RunHealth
    unfolding tun_act.simps checkAllTunnelHealth_def Let_def snd_conv
    by (rule fold_preserves [where P = tun_ok, rotated]) (auto intro: tun_ok_check)
next
  case (RunStart env i)
  assume "tun_ok (snd s)"
  then show ?thesis unfolding RunStart using tun_ok_start [of "snd s" env i "fst s"] by simp
qed (auto simp: tun_ok_reconcile)


section \<open>Each instance has its own tunnels and backoff\<close>

definition entry_at :: "SSHManager \<times> TunnelManager \<Rightarrow> iid \<Rightarrow> ActiveTunnel list option \<times> reconnectState option" where
  "entry_at s i = (tm_tunnels (snd s) i, tm_backoff (snd s) i)"

lemma create_frame [frame_simps]:
  "tm_backoff (snd (CreateAgentListenerTunnelDial env i label p m tm)) = tm_backoff tm"
  "tm_backoff (snd (CreateReverseTunnel env i label p m tm)) = tm_backoff tm"
  "tm_llmGatewayAddr (snd (CreateAgentListenerTunnelDial env i label p m tm)) = tm_llmGatewayAddr tm"
  "tm_llmGatewayAddr (snd (CreateReverseTunnel env i label p m tm)) = tm_llmGatewayAddr tm"
  "tm_stopped (snd (CreateAgentListenerTunnelDial env i label p m tm)) = tm_stopped tm"
  "tm_stopped (snd (CreateReverseTunnel env i label p m tm)) = tm_stopped tm"
  "j \<noteq> i \<Longrightarrow> tm_tunnels (snd (CreateAgentListenerTunnelDial env i label p m tm)) j = tm_tunnels tm j"
  "j \<noteq> i \<Longrightarrow> tm_tunnels (snd (CreateReverseTunnel env i label q m tm)) j = tm_tunnels tm j"
  by (simp_all add: CreateAgentListenerTunnelDial_def CreateReverseTunnel_def addTunnel_def
      split: option.splits sum.splits)

lemma stop_frame [frame_simps]:
  "tm_backoff (StopTunnelsForInstance i tm) = tm_backoff tm"
  "tm_llmGatewayAddr (StopTunnelsForInstance i tm) = tm_llmGatewayAddr tm"
  "tm_tunnels (StopTunnelsForInstance i tm) j = (if j = i then None else tm_tunnels tm j)"
  by (auto simp: StopTunnelsForInstance_def split: option.splits)

lemma simple_frame [frame_simps]:
  "tm_backoff (incrementReconnectCount i tm) = tm_backoff tm"
  "tm_tunnels (incrementReconnectCount i tm) = tm_tunnels tm"
  "tm_stopped (incrementReconnectCount i tm) = tm_stopped tm"
  "tm_llmGatewayAddr (incrementReconnectCount i tm) = tm_llmGatewayAddr tm"
  "tm_tunnels (clearBackoff i tm) = tm_tunnels tm"
  "tm_backoff (clearBackoff i tm) = (tm_backoff tm)(i := None)"
  "tm_tunnels (tm_recordFailure now i e tm) = tm_tunnels tm"
  "j \<noteq> i \<Longrightarrow> tm_backoff (tm_recordFailure now i e tm) j = tm_backoff tm j"
  by (simp_all add: incrementReconnectCount_def clearBackoff_def tm_recordFailure_def Let_def)

lemma healthy_frame [frame_simps]:
  "tm_backoff (snd (areTunnelsHealthy env i m tm)) = tm_backoff tm"
  "tm_stopped (snd (areTunnelsHealthy env i m tm)) = tm_stopped tm"
  "tm_nextListener (snd (areTunnelsHealthy env i m tm)) = tm_nextListener tm"
  "j \<noteq> i \<Longrightarrow> tm_tunnels (snd (areTunnelsHealthy env i m tm)) j = tm_tunnels tm j"
  by (simp_all add: areTunnelsHealthy_def)

lemma start_frame [frame_simps]:
  "tm_backoff (start_missing env i m tm) = tm_backoff tm"
  "tm_backoff (start_fresh env i m tm) = tm_backoff tm"
  "j \<noteq> i \<Longrightarrow> tm_tunnels (start_missing env i m tm) j = tm_tunnels tm j"
  "j \<noteq> i \<Longrightarrow> tm_tunnels (start_fresh env i m tm) j = tm_tunnels tm j"
  by (simp_all add: start_missing_def start_fresh_def Let_def create_llm_def create_cdp_def
      CreateTunnelForVNC_def CreateTunnelForGateway_def frame_simps)

lemma Start_frame [frame_simps]:
  "tm_backoff (snd (snd (StartTunnelsForInstance env i s))) = tm_backoff (snd s)"
  "j \<noteq> i \<Longrightarrow> tm_tunnels (snd (snd (StartTunnelsForInstance env i s))) j = tm_tunnels (snd s) j"
proof -
  obtain m tm where s: "s = (m, tm)" by fastforce
  obtain h tm1 where h: "areTunnelsHealthy env i m tm = (h, tm1)" by fastforce
  then have "tm_backoff tm1 = tm_backoff tm" "j \<noteq> i \<Longrightarrow> tm_tunnels tm1 j = tm_tunnels tm j"
    using healthy_frame [where env = env and i = i and m = m and tm = tm] by auto
  then show "tm_backoff (snd (snd (StartTunnelsForInstance env i s))) = tm_backoff (snd s)"
    "j \<noteq> i \<Longrightarrow> tm_tunnels (snd (snd (StartTunnelsForInstance env i s))) j = tm_tunnels (snd s) j"
    by (auto simp: StartTunnelsForInstance_def s h frame_simps split: prod.splits sum.splits)
qed

lemma reconcile_one_other: "j \<noteq> i \<Longrightarrow> entry_at (reconcile_one env i s) j = entry_at s j"
proof -
  assume j: "j \<noteq> i"
  obtain e m' tm' where s: "StartTunnelsForInstance env i s = (e, m', tm')" by (metis prod_cases3)
  with Start_frame(1) [of env i s] Start_frame(2) [OF j, of env s]
  have "tm_backoff tm' = tm_backoff (snd s)" "tm_tunnels tm' j = tm_tunnels (snd s) j" by simp_all
  with s j show ?thesis by (cases e) (simp_all add: reconcile_one_def entry_at_def frame_simps)
qed

interpretation rec: keyed_store entry_at "\<lambda>i env s. reconcile_one env i s"
  by unfold_locales (rule reconcile_one_other)

lemma reconcile_fold_other:
  "i \<notin> set ids \<Longrightarrow> entry_at (fold (reconcile_one env) ids s) i = entry_at s i"
proof -
  have "fold (reconcile_one env) ids s = foldl (\<lambda>s (k, x). reconcile_one x k s) s (map (\<lambda>k. (k, env)) ids)"
    by (induction ids arbitrary: s) simp_all
  then show "i \<notin> set ids \<Longrightarrow> ?thesis" using rec.run_other [of i "map (\<lambda>k. (k, env)) ids" s] by (simp add: comp_def)
qed

section \<open>Reconciliation removes what is not running\<close>

lemma removed_tunnels:
  "tm_tunnels (fold (\<lambda>i tm. clearBackoff i (StopTunnelsForInstance i tm)) xs tm) j =
     (if j \<in> set xs then None else tm_tunnels tm j)"
  by (induction xs arbitrary: tm) (simp_all add: frame_simps)

lemma removed_listeners:
  "j \<in> set xs \<or> l \<in> set (tm_stopped tm) \<Longrightarrow> l \<in> set (map tn_listener (tunnels_of j tm)) \<or> l \<in> set (tm_stopped tm) \<Longrightarrow>
   l \<in> set (tm_stopped (fold (\<lambda>i tm. clearBackoff i (StopTunnelsForInstance i tm)) xs tm))"
proof (induction xs arbitrary: tm)
  case (Cons x xs)
  let ?tm = "clearBackoff x (StopTunnelsForInstance x tm)"
  have st: "tm_stopped ?tm = tm_stopped tm @ map tn_listener (tunnels_of x tm)"
    by (simp add: clearBackoff_def StopTunnelsForInstance_def tunnels_of_def split: option.splits)
  have tn: "j \<noteq> x \<Longrightarrow> tunnels_of j ?tm = tunnels_of j tm"
    by (simp add: tunnels_of_def frame_simps)
  show ?case using Cons.IH [of ?tm] Cons.prems st tn by (cases "j = x") auto
qed auto

text \<open>After a reconciliation, tunnels and backoff entries exist only for running instances, and all
  listeners of the tunnels of stopped instances have been closed.\<close>

theorem reconcile_cleans:
  assumes "set keys = dom (tm_tunnels (snd s))"
  shows "dom (tm_tunnels (snd (reconcile env (Some ids) keys s))) \<subseteq> set ids \<and>
    dom (tm_backoff (snd (reconcile env (Some ids) keys s))) \<subseteq> set ids \<and>
    set (concat (map (\<lambda>i. map tn_listener (tunnels_of i (snd s))) (filter (\<lambda>i. i \<notin> set ids) keys)))
      \<subseteq> set (tm_stopped (remove_stopped ids keys (snd s)))"
proof -
  let ?tm = "remove_stopped ids keys (snd s)"
  have gone: "tm_tunnels ?tm i = None" "tm_backoff ?tm i = None" if "i \<notin> set ids" for i
    using that assms by (auto simp: remove_stopped_def Let_def removed_tunnels keep_where_None)
  have "entry_at (reconcile env (Some ids) keys s) i = (None, None)" if "i \<notin> set ids" for i
    using gone [OF that] reconcile_fold_other [OF that] by (simp add: reconcile_def entry_at_def)
  then have "i \<in> set ids" if "entry_at (reconcile env (Some ids) keys s) i \<noteq> (None, None)" for i
    using that by blast
  then have "dom (tm_tunnels (snd (reconcile env (Some ids) keys s))) \<subseteq> set ids"
    "dom (tm_backoff (snd (reconcile env (Some ids) keys s))) \<subseteq> set ids"
    by (force simp: entry_at_def)+
  moreover have "l \<in> set (tm_stopped ?tm)"
    if "i \<in> set keys" "i \<notin> set ids" "l \<in> set (map tn_listener (tunnels_of i (snd s)))" for i l
    using that removed_listeners [of i "filter (\<lambda>i. i \<notin> set ids) keys" l "snd s"]
    by (simp add: remove_stopped_def Let_def)
  ultimately show ?thesis by fastforce
qed

definition demo_tunnel :: ActiveTunnel where
  "demo_tunnel = \<lparr>tn_Config = \<lparr>cfg_LocalPort = 5, cfg_RemotePort = 3000, cfg_Type = TunnelTypeReverse\<rparr>,
     tn_Label = ''VNC'', tn_LocalPort = 5, tn_Status = ''active'', tn_Error = [], tn_LastCheck = 0,
     tn_listener = 0, tn_metrics = newMetrics 0\<rparr>"

definition demo_tunnels :: TunnelManager where
  "demo_tunnels = NewTunnelManager\<lparr>tm_tunnels := [4 \<mapsto> [demo_tunnel]], tm_nextListener := 1\<rparr>"

definition demo_tun_env :: tun_env where
  "demo_tun_env = \<lparr>te_now = 9, te_connected = (\<lambda>_. False),
     te_ensure = (\<lambda>i. \<lparr>env_now = 9, env_then = 9, env_probe = (\<lambda>_. False), env_address = Inr (''h'', 22),
        env_outbound = (\<lambda>_. None), env_configure = (\<lambda>_. None), env_net = DialFails []\<rparr>),
     te_text = (\<lambda>_. []), te_ensure_text = (\<lambda>_. []), te_listen = (\<lambda>_ _. Inl []), te_dial = (\<lambda>_ _. None)\<rparr>"

theorem reconcile_cleans_witness:
  "dom (tm_tunnels (snd (reconcile demo_tun_env (Some [7]) [4] (NewSSHManager 0 [], demo_tunnels)))) \<subseteq> {7}"
  using reconcile_cleans [of "[4]" "(NewSSHManager 0 [], demo_tunnels)" demo_tun_env "[7]"]
  by (simp add: demo_tunnels_def)

section \<open>The retry schedule\<close>

definition tunnel_grow :: "duration \<Rightarrow> duration" where
  "tunnel_grow d = (if d * 2 > maxBackoffInterval then maxBackoffInterval else d * 2)"

interpretation tunnel_delay: capped_doubling initialBackoffInterval maxBackoffInterval tunnel_grow
  by unfold_locales (auto simp: initialBackoffInterval_def maxBackoffInterval_def tunnel_grow_def)

lemma delay_loop_cap: "d = maxBackoffInterval \<Longrightarrow> delay_loop k d = maxBackoffInterval"
  by (cases k) (simp_all add: maxBackoffInterval_def)

lemma delay_loop_eq: "delay_loop k (tunnel_delay.delay n) = tunnel_delay.delay (n + k)"
proof (induction k arbitrary: n)
  case (Suc k)
  have step: "tunnel_grow (tunnel_delay.delay n) = tunnel_delay.delay (Suc n)" by (rule tunnel_delay.delay_Suc)
  show ?case
  proof (cases "tunnel_delay.delay n * 2 > maxBackoffInterval")
    case True
    then have "tunnel_delay.delay (Suc n) = maxBackoffInterval" using step by (simp add: tunnel_grow_def)
    then have "tunnel_delay.delay (n + Suc k) = maxBackoffInterval"
      using tunnel_delay.delay_mono [of "Suc n" "n + Suc k"] tunnel_delay.delay_le [of "n + Suc k"] by simp
    with True show ?thesis by simp
  next
    case False
    then have "tunnel_delay.delay n * 2 = tunnel_delay.delay (Suc n)" using step by (simp add: tunnel_grow_def)
    with False Suc.IH [of "Suc n"] show ?thesis by simp
  qed
qed simp

lemma delay_loop_closed:
  "delay_loop k initialBackoffInterval = min (minutes 5) (seconds 5 * 2 ^ k)"
proof -
  have "delay_loop k initialBackoffInterval = tunnel_delay.delay k"
    using delay_loop_eq [of k 0] by (simp add: tunnel_delay.delay_def)
  also have "\<dots> = min (minutes 5) (seconds 5 * 2 ^ k)"
    by (simp only: tunnel_delay.delay_closed) (simp only: initialBackoffInterval_def maxBackoffInterval_def)
  finally show ?thesis .
qed

text \<open>The reconciliation leaves an instance alone while it is in backoff; otherwise it tries, forgets
  the failures on success, and after the n-th failure in a row sets the next try
  5s, 10s, 20s, ... (doubling, at most 5 minutes) later.\<close>

theorem tunnel_retry_schedule:
  "if isInBackoff i (te_now env) (snd s) then reconcile_one env i s = s
   else case fst (StartTunnelsForInstance env i s) of
      None \<Rightarrow> tm_backoff (snd (reconcile_one env i s)) i = None
    | Some e \<Rightarrow> tm_backoff (snd (reconcile_one env i s)) i =
        Some \<lparr>rs_attempts = getAttempts i (snd s) + 1,
              rs_nextRetry = te_now env + min (minutes 5) (seconds 5 * 2 ^ getAttempts i (snd s)),
              rs_lastError = te_ensure_text env e\<rparr>"
proof -
  obtain e m' tm' where s: "StartTunnelsForInstance env i s = (e, m', tm')" by (metis prod_cases3)
  with Start_frame(1) [of env i s] have "tm_backoff tm' = tm_backoff (snd s)" by simp
  with s show ?thesis
    by (cases e) (auto simp: reconcile_one_def frame_simps tm_recordFailure_def Let_def getAttempts_def
        delay_loop_closed split: option.splits)
qed

section \<open>Reuse and recreation\<close>

text \<open>\<open>adds i ls tm tm'\<close>: \<open>tm'\<close> has the tunnels of \<open>tm\<close> at \<open>i\<close> and after them new ones on fresh
  listeners, whose labels are among \<open>ls\<close> in this order; nothing was stopped.\<close>

definition adds :: "iid \<Rightarrow> string list \<Rightarrow> TunnelManager \<Rightarrow> TunnelManager \<Rightarrow> bool" where
  "adds i labels tm tm' \<longleftrightarrow>
     (\<exists>new. tunnels_of i tm' = tunnels_of i tm @ new \<and> subseq (map tn_Label new) labels \<and>
        list_all (\<lambda>t. tm_nextListener tm \<le> tn_listener t) new) \<and>
     tm_nextListener tm \<le> tm_nextListener tm' \<and> tm_stopped tm' = tm_stopped tm"

lemma adds_refl: "adds i labels tm tm"
  by (simp add: adds_def)

lemma adds_trans: "adds i l1 a b \<Longrightarrow> adds i l2 b c \<Longrightarrow> adds i (l1 @ l2) a c"
proof -
  assume ab: "adds i l1 a b" and bc: "adds i l2 b c"
  from ab obtain n1 where n1: "tunnels_of i b = tunnels_of i a @ n1" "subseq (map tn_Label n1) l1"
    "list_all (\<lambda>t. tm_nextListener a \<le> tn_listener t) n1" by (auto simp: adds_def)
  from bc obtain n2 where n2: "tunnels_of i c = tunnels_of i b @ n2" "subseq (map tn_Label n2) l2"
    "list_all (\<lambda>t. tm_nextListener b \<le> tn_listener t) n2" by (auto simp: adds_def)
  have le: "tm_nextListener a \<le> tm_nextListener b" using ab by (simp add: adds_def)
  have "list_all (\<lambda>t. tm_nextListener a \<le> tn_listener t) (n1 @ n2)"
    using n1(3) n2(3) le by (auto simp: list_all_iff)
  moreover have "subseq (map tn_Label (n1 @ n2)) (l1 @ l2)"
    using n1(2) n2(2) by (simp add: list_emb_append_mono)
  moreover have "tunnels_of i c = tunnels_of i a @ (n1 @ n2)" using n1(1) n2(1) by simp
  ultimately show ?thesis using ab bc unfolding adds_def by (intro conjI exI [of _ "n1 @ n2"]) auto
qed

lemma adds_addTunnel:
  "tn_Label t = label \<Longrightarrow> tn_listener t = tm_nextListener tm \<Longrightarrow>
   adds i [label] tm (addTunnel i t (tm\<lparr>tm_nextListener := Suc (tm_nextListener tm)\<rparr>))"
  by (simp add: adds_def addTunnel_def tunnels_of_def)

lemma adds_create:
  "adds i [label] tm (snd (CreateAgentListenerTunnelDial env i label p m tm))"
  "adds i [label] tm (snd (CreateReverseTunnel env i label p m tm))"
  by (auto simp: CreateAgentListenerTunnelDial_def CreateReverseTunnel_def adds_refl adds_addTunnel
      split: option.splits sum.splits)

lemma adds_missing: "adds i [''LLMProxy'', ''CDP''] tm (start_missing env i m tm)"
proof -
  have two: "adds i ([''LLMProxy''] @ [''CDP'']) tm c" if "adds i [''LLMProxy''] tm b" "adds i [''CDP''] b c" for b c
    using that by (rule adds_trans)
  show ?thesis
    using two [OF adds_refl adds_refl] two [OF adds_create(1) adds_refl] two [OF adds_refl adds_create(1)]
      two [OF adds_create(1) adds_create(1)]
    by (simp add: start_missing_def Let_def create_llm_def create_cdp_def)
qed

lemma adds_fresh:
  "adds i [if useCDP i tm then ''CDP'' else ''VNC'', ''Gateway'', ''LLMProxy'']
     (if tunnels_of i tm \<noteq> [] then incrementReconnectCount i (StopTunnelsForInstance i tm) else tm)
     (start_fresh env i m tm)"
proof -
  define tm1 where "tm1 = (if tunnels_of i tm \<noteq> []
    then incrementReconnectCount i (StopTunnelsForInstance i tm) else tm)"
  define tm2 where "tm2 = (if useCDP i tm then create_cdp env i m tm1 else snd (CreateTunnelForVNC env i m tm1))"
  define tm3 where "tm3 = snd (CreateTunnelForGateway env i 0 m tm2)"
  have "adds i [if useCDP i tm then ''CDP'' else ''VNC''] tm1 tm2"
    by (simp add: tm2_def create_cdp_def CreateTunnelForVNC_def adds_create)
  moreover have "adds i [''Gateway''] tm2 tm3"
    by (simp add: tm3_def CreateTunnelForGateway_def adds_create)
  ultimately have "adds i ([if useCDP i tm then ''CDP'' else ''VNC''] @ [''Gateway'']) tm1 tm3"
    by (rule adds_trans)
  moreover have "adds i [''LLMProxy''] tm3 (start_fresh env i m tm)"
    by (simp add: start_fresh_def Let_def tm1_def [symmetric] tm2_def [symmetric] tm3_def [symmetric]
        create_llm_def adds_create adds_refl)
  ultimately have "adds i (([if useCDP i tm then ''CDP'' else ''VNC''] @ [''Gateway'']) @ [''LLMProxy''])
      tm1 (start_fresh env i m tm)" by (rule adds_trans)
  then show ?thesis by (simp add: tm1_def)
qed

lemma healthy_result:
  "areTunnelsHealthy env i m tm = (h, tm1) \<Longrightarrow>
   tunnels_of i tm1 = (if h then map (\<lambda>t. t\<lparr>tn_LastCheck := te_now env\<rparr>) (tunnels_of i tm) else tunnels_of i tm) \<and>
   listeners tm1 = listeners tm \<and> (\<not> h \<longrightarrow> tm1 = tm)"
  by (auto simp: areTunnelsHealthy_def listeners_def fun_eq_iff comp_def split: if_splits)

text \<open>Starting the tunnels of an instance whose SSH connection cannot be had changes no listener.
  Healthy tunnels are kept as they are (only their check time moves) and at most the missing LLM
  proxy and CDP tunnels are added.  Otherwise all old listeners of the instance are closed and the
  tunnels are recreated on fresh listeners: CDP or VNC according to the mode, never both, then
  the gateway, then the LLM proxy.\<close>

theorem tunnels_reused_or_recreated:
  "case StartTunnelsForInstance env i (m, tm) of (r, m', tm') \<Rightarrow>
     if r \<noteq> None then listeners tm' = listeners tm
     else if fst (areTunnelsHealthy env i m tm)
     then \<exists>new. tunnels_of i tm' = map (\<lambda>t. t\<lparr>tn_LastCheck := te_now env\<rparr>) (tunnels_of i tm) @ new \<and>
            subseq (map tn_Label new) [''LLMProxy'', ''CDP''] \<and> tm_stopped tm' = tm_stopped tm
     else tm_stopped tm' = tm_stopped tm @ map tn_listener (tunnels_of i tm) \<and>
          list_all (\<lambda>t. tm_nextListener tm \<le> tn_listener t) (tunnels_of i tm') \<and>
          subseq (map tn_Label (tunnels_of i tm'))
            [if useCDP i tm then ''CDP'' else ''VNC'', ''Gateway'', ''LLMProxy'']"
proof -
  obtain h tm1 where h: "areTunnelsHealthy env i m tm = (h, tm1)" by fastforce
  note hr = healthy_result [OF h]
  obtain r m1 where e: "EnsureConnected (te_text env) (te_ensure env i) i m = (r, m1)" by fastforce
  show ?thesis
  proof (cases r)
    case (Inl err)
    with h e hr show ?thesis by (simp add: StartTunnelsForInstance_def)
  next
    case (Inr c)
    show ?thesis
    proof (cases h)
      case True
      have st: "tm_stopped tm1 = tm_stopped tm" using hr by (simp add: listeners_def)
      with adds_missing [of i tm1 env m1] True h e Inr hr st show ?thesis
        by (auto simp: StartTunnelsForInstance_def adds_def)
    next
      case False
      let ?old = "if tunnels_of i tm \<noteq> [] then incrementReconnectCount i (StopTunnelsForInstance i tm) else tm"
      have old: "tunnels_of i ?old = []" "tm_stopped ?old = tm_stopped tm @ map tn_listener (tunnels_of i tm)"
        "tm_nextListener ?old = tm_nextListener tm"
        by (auto simp: tunnels_of_def StopTunnelsForInstance_def incrementReconnectCount_def
            split: option.splits)
      have "adds i [if useCDP i tm then ''CDP'' else ''VNC'', ''Gateway'', ''LLMProxy''] ?old
              (start_fresh env i m1 tm)" by (rule adds_fresh)
      then show ?thesis
        using False h e Inr hr old by (simp add: StartTunnelsForInstance_def adds_def)
    qed
  qed
qed

section \<open>Health checks and recreation\<close>

lemma first_labelled:
  "filter (\<lambda>t. tn_Label t = label) ts = t # rest \<Longrightarrow> t \<in> set ts \<and> tn_Label t = label"
proof -
  assume eq: "filter (\<lambda>t. tn_Label t = label) ts = t # rest"
  have "t \<in> set (filter (\<lambda>t. tn_Label t = label) ts)" unfolding eq by simp
  then show ?thesis by simp
qed

lemma tunnels_of_marked:
  "tunnels_of i (setTunnelStatus now i l s e tm) = map (\<lambda>t. if tn_listener t = l
     then t\<lparr>tn_Status := s, tn_Error := e, tn_LastCheck := now\<rparr> else t) (tunnels_of i tm)"
  "tunnels_of i (with_tunnel_metrics g i l tm) = map (\<lambda>t. if tn_listener t = l
     then t\<lparr>tn_metrics := g (tn_metrics t)\<rparr> else t) (tunnels_of i tm)"
  by (simp_all add: setTunnelStatus_def with_tunnel_metrics_def)

lemma errored_unhealthy:
  "t \<in> set (tunnels_of i tm) \<Longrightarrow> \<not> tunnel_up t \<Longrightarrow> \<not> fst (areTunnelsHealthy env i m tm)"
  by (auto simp: areTunnelsHealthy_def list_all_iff)

text \<open>A tunnel whose health check fails because its port does not answer is marked, so that the
  instance's tunnels count as unhealthy, whatever the SSH connection, and the next start
  recreates them.\<close>

theorem failed_probe_is_unhealthy:
  "case CheckTunnelHealth env i label tm of
     (Some (ProbeFailed e), tm') \<Rightarrow> \<not> fst (areTunnelsHealthy env' i m tm')
   | _ \<Rightarrow> True"
proof (cases "filter (\<lambda>t. tn_Label t = label) (tunnels_of i tm)")
  case Nil
  then show ?thesis by (simp add: CheckTunnelHealth_def)
next
  case (Cons target rest)

  have mem: "target \<in> set (tunnels_of i tm)" using first_labelled [OF Cons] by simp
  have "\<not> fst (areTunnelsHealthy env' i m (setTunnelStatus (te_now env) i (tn_listener target) ''error'' d
          (with_tunnel_metrics g i (tn_listener target) tm)))" for d g
  proof (rule errored_unhealthy)
    let ?t = "target\<lparr>tn_metrics := g (tn_metrics target), tn_Status := ''error'', tn_Error := d,
                     tn_LastCheck := te_now env\<rparr>"
    show "?t \<in> set (tunnels_of i (setTunnelStatus (te_now env) i (tn_listener target) ''error'' d
          (with_tunnel_metrics g i (tn_listener target) tm)))"
      using mem by (simp add: tunnels_of_marked image_image)
    show "\<not> tunnel_up ?t" by (simp add: tunnel_up_def)
  qed
  with Cons show ?thesis
    by (auto simp: CheckTunnelHealth_def Let_def split: option.splits)
qed

text \<open>A CDP tunnel whose accept loop has ended on an error is unhealthy, but a health check of it
  while the browser pod runs marks it active again although its listener is gone: the
  instance's tunnels then count as healthy and are not recreated.\<close>

theorem cdp_check_hides_dead_listener:
  "\<exists>tm. \<not> fst (areTunnelsHealthy env 4 m tm) \<and>
     tm = setTunnelStatus 0 4 0 ''error'' ''accept failed'' tm \<and>
     fst (areTunnelsHealthy env 4 m (snd (CheckTunnelHealth env 4 ''CDP'' tm))) =
       IsConnected (te_connected env) 4 m"
proof -
  let ?t = "demo_tunnel\<lparr>tn_Config := \<lparr>cfg_LocalPort = 9222, cfg_RemotePort = 0,
      cfg_Type = TunnelTypeAgentListener\<rparr>, tn_Label := ''CDP'', tn_Status := ''error'',
      tn_Error := ''accept failed''\<rparr>"
  let ?tm = "demo_tunnels\<lparr>tm_tunnels := [4 \<mapsto> [?t]], tm_cdpHealthProbe := Some (\<lambda>_. True)\<rparr>"
  show ?thesis
    by (intro exI [of _ ?tm])
       (auto simp: areTunnelsHealthy_def tunnels_of_def tunnel_up_def demo_tunnel_def demo_tunnels_def
          setTunnelStatus_def with_tunnel_metrics_def CheckTunnelHealth_def NewTunnelManager_def
          Let_def)
qed

end
