(* ===== verification/Terminal.thy ===== *)
theory Terminal imports Contracts begin

text \<open>
  \<^verbatim>\<open>control-plane/internal/sshterminal\<close>: the scrollback ring
  (\<^verbatim>\<open>scrollback.go\<close>), the shells a session may run (\<^verbatim>\<open>terminal.go\<close>)
  and the manager of terminal sessions (\<^verbatim>\<open>session_manager.go\<close>).  Session
  objects live in a store by their id, as the manager's map, the output pump and the handlers
  share pointers to them; the SSH session behind a terminal is outside, and the store logs the
  writes to clients and the closings of terminals.
\<close>

section \<open>Scrollback\<close>

record scrollbackBuffer =
  sb_data :: string
  sb_size :: nat
  sb_pos :: nat
  sb_full :: bool

definition newScrollbackBuffer :: "nat \<Rightarrow> scrollbackBuffer" where
  "newScrollbackBuffer n =
     (let sz = (if n * 120 < 1024 then 1024 else n * 120)
      in \<lparr>sb_data = replicate sz (CHR 0x00), sb_size = sz, sb_pos = 0, sb_full = False\<rparr>)"

text \<open>One turn of the loop of \<open>Write\<close>, and the loop, which ends only because the write position is
  inside the buffer: it is \<open>None\<close> if it runs for ever.\<close>

definition sb_turn :: "scrollbackBuffer \<Rightarrow> string \<Rightarrow> scrollbackBuffer \<times> string" where
  "sb_turn sb p =
     (let n = min (length (sb_data sb) - sb_pos sb) (length p);
          sb1 = sb\<lparr>sb_data := take (sb_pos sb) (sb_data sb) @ take n p @ drop (sb_pos sb + n) (sb_data sb),
                   sb_pos := sb_pos sb + n\<rparr>
      in (if sb_size sb1 \<le> sb_pos sb1 then sb1\<lparr>sb_pos := 0, sb_full := True\<rparr> else sb1, drop n p))"

partial_function (option) sb_loop :: "scrollbackBuffer \<Rightarrow> string \<Rightarrow> scrollbackBuffer option" where
  "sb_loop sb p = (if p = [] then Some sb else case sb_turn sb p of (sb1, q) \<Rightarrow> sb_loop sb1 q)"

definition sb_Write :: "scrollbackBuffer \<Rightarrow> string \<Rightarrow> scrollbackBuffer" where
  "sb_Write sb p = the (sb_loop sb p)"

definition sb_Bytes :: "scrollbackBuffer \<Rightarrow> string" where
  "sb_Bytes sb =
     (if \<not> sb_full sb then take (sb_pos sb) (sb_data sb)
      else drop (sb_pos sb) (sb_data sb) @ take (sb_pos sb) (sb_data sb))"

definition sb_Len :: "scrollbackBuffer \<Rightarrow> nat" where
  "sb_Len sb = (if sb_full sb then sb_size sb else sb_pos sb)"

definition sb_wf :: "nat \<Rightarrow> scrollbackBuffer \<Rightarrow> bool" where
  "sb_wf sz sb \<longleftrightarrow> sb_size sb = sz \<and> length (sb_data sb) = sz \<and> sb_pos sb < sz"

lemma sb_turn_step:
  assumes wf: "sb_wf sz sb" and p: "p \<noteq> []" and t: "sb_turn sb p = (sb1, q)"
  shows "sb_wf sz sb1 \<and> length q < length p \<and>
         (\<exists>d. p = d @ q \<and> sb_Bytes sb1 = lastn sz (sb_Bytes sb @ d))"
proof -
  define n where "n = min (length (sb_data sb) - sb_pos sb) (length p)"
  from wf have len: "length (sb_data sb) = sz" "sb_size sb = sz" "sb_pos sb < sz"
    by (simp_all add: sb_wf_def)
  have n: "0 < n" "n \<le> sz - sb_pos sb" "n \<le> length p" using len p by (simp_all add: n_def)
  define d where "d = take n p"
  have ld: "length d = n" using n by (simp add: d_def)
  have q: "q = drop n p" using t by (simp add: sb_turn_def Let_def n_def split: if_splits)
  let ?data = "take (sb_pos sb) (sb_data sb) @ d @ drop (sb_pos sb + n) (sb_data sb)"
  have data: "length ?data = sz" using len ld n by simp
  have sb1: "sb1 = (if sz \<le> sb_pos sb + n
      then sb\<lparr>sb_data := ?data, sb_pos := 0, sb_full := True\<rparr>
      else sb\<lparr>sb_data := ?data, sb_pos := sb_pos sb + n\<rparr>)"
    using t len by (simp add: sb_turn_def Let_def d_def n_def split: if_splits)
  have "sb_wf sz sb1" using sb1 data len n ld by (auto simp: sb_wf_def)
  moreover have "length q < length p" using q n by simp
  moreover have "p = d @ q" by (simp add: d_def q)
  moreover have "sb_Bytes sb1 = lastn sz (sb_Bytes sb @ d)"
  proof (cases "sb_full sb")
    case False
    then have b: "sb_Bytes sb = take (sb_pos sb) (sb_data sb)" by (simp add: sb_Bytes_def)
    have "take (sb_pos sb + n) ?data = take (sb_pos sb) (sb_data sb) @ d"
      using len ld by simp
    then show ?thesis using b sb1 len n ld data False by (auto simp: sb_Bytes_def)
  next
    case True
    then have b: "sb_Bytes sb = drop (sb_pos sb) (sb_data sb) @ take (sb_pos sb) (sb_data sb)"
      by (simp add: sb_Bytes_def)
    have "lastn sz (sb_Bytes sb @ d) = drop n (sb_Bytes sb @ d)"
      using len ld by (simp add: lastn_def b)
    also have "\<dots> = drop (sb_pos sb + n) (sb_data sb) @ take (sb_pos sb) (sb_data sb) @ d"
      using len n ld by (simp add: b add.commute)
    finally show ?thesis
      using True sb1 len n ld data by (auto simp: sb_Bytes_def)
  qed
  ultimately show ?thesis by blast
qed

lemma sb_loop_spec:
  "sb_wf sz sb \<Longrightarrow> \<exists>sb'. sb_loop sb p = Some sb' \<and> sb_wf sz sb' \<and>
     (sb_Bytes sb = lastn sz h \<longrightarrow> sb_Bytes sb' = lastn sz (h @ p))"
proof (induction p arbitrary: sb h rule: length_induct)
  case (1 p)
  show ?case
  proof (cases "p = []")
    case True
    with 1 show ?thesis by (simp add: sb_loop.simps)
  next
    case False
    obtain sb1 q where t: "sb_turn sb p = (sb1, q)" by fastforce
    from sb_turn_step [OF "1.prems" False t] obtain d where
      d: "sb_wf sz sb1" "length q < length p" "p = d @ q" "sb_Bytes sb1 = lastn sz (sb_Bytes sb @ d)"
      by blast
    with "1.IH" obtain sb' where "sb_loop sb1 q = Some sb'" "sb_wf sz sb'"
      "sb_Bytes sb1 = lastn sz (h @ d) \<longrightarrow> sb_Bytes sb' = lastn sz ((h @ d) @ q)" by blast
    moreover have "sb_loop sb p = sb_loop sb1 q" using False t by (subst sb_loop.simps) simp
    ultimately show ?thesis using d by (auto simp: lastn_append_lastn)
  qed
qed

lemma sb_Bytes_length: "sb_wf sz sb \<Longrightarrow> length (sb_Bytes sb) \<le> sz"
  by (simp add: sb_wf_def sb_Bytes_def)

lemma sb_Write_spec:
  assumes "sb_wf sz sb"
  shows "sb_wf sz (sb_Write sb p) \<and> sb_Bytes (sb_Write sb p) = lastn sz (sb_Bytes sb @ p)"
  using sb_loop_spec [OF assms, of p "sb_Bytes sb"] sb_Bytes_length [OF assms]
  by (auto simp: sb_Write_def)

definition sb_capacity :: "nat \<Rightarrow> nat" where
  "sb_capacity n = max 1024 (n * 120)"

lemma newScrollback_wf: "sb_wf (sb_capacity n) (newScrollbackBuffer n)" "sb_Bytes (newScrollbackBuffer n) = []"
  by (auto simp: sb_wf_def newScrollbackBuffer_def Let_def sb_Bytes_def sb_capacity_def)

interpretation scrollback: chunked_history sb_Write sb_Bytes "sb_wf (sb_capacity n)" "newScrollbackBuffer n"
    "sb_capacity n" for n
  using newScrollback_wf sb_Write_spec by unfold_locales auto

text \<open>C24: Writing to the scrollback always returns, and after any sequence of writes, of any sizes, the
  buffer for n lines holds exactly the last max(1024, 120 n) bytes of all that was written, in
  order, and reports their number.\<close>

theorem scrollback_keeps_tail:
  "sb_Bytes (foldl sb_Write (newScrollbackBuffer n) ps) = lastn (max 1024 (n * 120)) (concat ps) \<and>
   sb_Len (foldl sb_Write (newScrollbackBuffer n) ps) = min (max 1024 (n * 120)) (length (concat ps)) \<and>
   (\<exists>sb'. sb_loop (foldl sb_Write (newScrollbackBuffer n) ps) p = Some sb')"
proof -
  let ?sb = "foldl sb_Write (newScrollbackBuffer n) ps"
  have bytes: "sb_Bytes ?sb = lastn (sb_capacity n) (concat ps)" by (rule scrollback.hist_writes)
  have wf: "sb_wf (sb_capacity n) ?sb" using scrollback.wf_writes newScrollback_wf(1) by blast
  then have "sb_Len ?sb = length (sb_Bytes ?sb)" by (simp add: sb_Len_def sb_Bytes_def sb_wf_def)
  moreover have "\<exists>sb'. sb_loop ?sb p = Some sb'" using sb_loop_spec [OF wf] by blast
  ultimately show ?thesis using bytes by (simp add: sb_capacity_def)
qed

section \<open>Shells\<close>

definition AllowedShells :: "string list" where
  "AllowedShells = [''/bin/bash'', ''/bin/sh'', ''/bin/zsh'']"

definition shell_metachars :: "char list" where
  "shell_metachars = '';&|$'' @ [CHR 0x60] @ ''(){}<>'' @ [CHR 0x0A, CHR 0x5C, CHR 0x22, CHR 0x27] @ ''!''"

datatype shell_error = ForbiddenCharacter | NotInAllowedList

definition ValidateShell :: "string \<Rightarrow> shell_error option" where
  "ValidateShell shell =
     (if shell = [] then None
      else if shell \<in> set AllowedShells then None
      else if 2 \<le> length shell \<and> take 2 shell = ''su''
              \<and> (length shell = 2 \<or> shell ! 2 = CHR '' '' \<or> shell ! 2 = CHR 0x09)
      then (if list_ex (\<lambda>c. c \<in> set shell_metachars) shell then Some ForbiddenCharacter else None)
      else Some NotInAllowedList)"

text \<open>An accepted shell is the default, one of the allowed shells, or an \<open>su\<close> command; it never
  contains a character with which a shell would run a second command, substitute, redirect or
  quote.\<close>

theorem validated_shell_safe:
  assumes "ValidateShell shell = None"
  shows "set shell \<inter> set shell_metachars = {} \<and>
     (shell = [] \<or> shell \<in> set AllowedShells \<or> shell = ''su'' \<or>
      has_prefix shell ''su '' \<or> has_prefix shell (''su'' @ [CHR 0x09]))"
proof -
  consider "shell = []" | "shell \<in> set AllowedShells" |
    "take 2 shell = ''su''" "length shell = 2 \<or> shell ! 2 = CHR '' '' \<or> shell ! 2 = CHR 0x09"
    "\<not> list_ex (\<lambda>c. c \<in> set shell_metachars) shell" "2 \<le> length shell"
    using assms by (auto simp: ValidateShell_def split: if_splits)
  then show ?thesis
  proof cases
    case 2
    then show ?thesis by (auto simp: AllowedShells_def shell_metachars_def)
  next
    case 3
    have "shell = ''su'' \<or> has_prefix shell ''su '' \<or> has_prefix shell (''su'' @ [CHR 0x09])"
    proof (cases "length shell = 2")
      case True
      with 3 show ?thesis by simp
    next
      case False
      with 3 have "take 3 shell = ''su'' @ [shell ! 2]"
        using take_Suc_conv_app_nth [of 2 shell] by (simp add: numeral_3_eq_3)
      with 3 False show ?thesis by (auto simp: has_prefix_def numeral_3_eq_3)
    qed
    moreover have "set shell \<inter> set shell_metachars = {}" using 3(3) by (auto simp only: list_ex_iff)
    ultimately show ?thesis by blast
  qed auto
qed

theorem validated_shell_safe_witness:
  "set ''su - claworc'' \<inter> set shell_metachars = {}"
  using validated_shell_safe [of "''su - claworc''"]
  by (simp add: ValidateShell_def AllowedShells_def shell_metachars_def)

section \<open>Sessions\<close>

record ManagedSession =
  ms_InstanceID :: iid
  ms_CreatedAt :: gtime
  ms_Shell :: string
  ms_history :: "scrollbackBuffer option"
  ms_recording :: "string option"
  ms_attached :: bool
  ms_detachedAt :: "gtime option"
  ms_outputWriter :: "nat option"
  ms_done :: bool
  ms_closed :: bool

record SessionManager =
  sm_store :: "string \<rightharpoonup> ManagedSession"
  sm_sessions :: "string \<Rightarrow> bool"
  sm_HistoryLines :: nat
  sm_Recording :: bool
  sm_IdleTimeout :: duration
  sm_written :: "(nat \<times> string) list"
  sm_terminated :: "string list"

definition NewSessionManager :: "nat \<Rightarrow> bool \<Rightarrow> duration \<Rightarrow> SessionManager" where
  "NewSessionManager lines recording idle =
     \<lparr>sm_store = Map.empty, sm_sessions = (\<lambda>_. False), sm_HistoryLines = lines, sm_Recording = recording,
      sm_IdleTimeout = (if idle = 0 then minutes 30 else idle), sm_written = [], sm_terminated = []\<rparr>"

datatype create_error = BadShell shell_error | SshSession string | RecordingDir string | RecordingFile string

text \<open>\<open>id\<close> is the fresh UUID, \<open>pty\<close> the outcome of the SSH calls, \<open>dir\<close> and \<open>file\<close> those of making the
  recording directory and file.\<close>

definition CreateSession :: "gtime \<Rightarrow> string \<Rightarrow> string option \<Rightarrow> string option \<Rightarrow> string option \<Rightarrow> iid \<Rightarrow> string \<Rightarrow>
    SessionManager \<Rightarrow> (create_error + string) \<times> SessionManager" where
  "CreateSession now sid pty dir file i shell sm =
     (case ValidateShell shell of
        Some e \<Rightarrow> (Inl (BadShell e), sm)
      | None \<Rightarrow>
          (case pty of
             Some e \<Rightarrow> (Inl (SshSession e), sm)
           | None \<Rightarrow>
               if sm_Recording sm \<and> dir \<noteq> None
               then (Inl (RecordingDir (the dir)), sm\<lparr>sm_terminated := sm_terminated sm @ [sid]\<rparr>)
               else if sm_Recording sm \<and> file \<noteq> None
               then (Inl (RecordingFile (the file)), sm\<lparr>sm_terminated := sm_terminated sm @ [sid]\<rparr>)
               else (Inr sid,
                 sm\<lparr>sm_store := (sm_store sm)(sid \<mapsto>
                      \<lparr>ms_InstanceID = i, ms_CreatedAt = now, ms_Shell = shell,
                       ms_history = (if 0 < sm_HistoryLines sm
                                     then Some (newScrollbackBuffer (sm_HistoryLines sm)) else None),
                       ms_recording = (if sm_Recording sm then Some [] else None),
                       ms_attached = False, ms_detachedAt = None, ms_outputWriter = None,
                       ms_done = False, ms_closed = False\<rparr>),
                    sm_sessions := (sm_sessions sm)(sid := True)\<rparr>)))"

definition update_session :: "string \<Rightarrow> (ManagedSession \<Rightarrow> ManagedSession) \<Rightarrow> SessionManager \<Rightarrow> SessionManager" where
  "update_session sid f sm = sm\<lparr>sm_store := (sm_store sm)(sid := map_option f (sm_store sm sid))\<rparr>"

definition ms_close :: "string \<Rightarrow> SessionManager \<Rightarrow> SessionManager" where
  "ms_close sid sm =
     (case sm_store sm sid of
        None \<Rightarrow> sm
      | Some ms \<Rightarrow>
          if ms_closed ms then sm
          else (update_session sid (\<lambda>ms. ms\<lparr>ms_closed := True, ms_outputWriter := None\<rparr>) sm)
                 \<lparr>sm_terminated := sm_terminated sm @ [sid]\<rparr>)"

definition CloseSession :: "string \<Rightarrow> SessionManager \<Rightarrow> bool \<times> SessionManager" where
  "CloseSession sid sm =
     (if \<not> sm_sessions sm sid then (False, sm)
      else (True, ms_close sid (sm\<lparr>sm_sessions := (sm_sessions sm)(sid := False)\<rparr>)))"

text \<open>Closing the sessions that satisfy a predicate, in the order \<open>ids\<close> of the walk over the map: first
  all leave the map, then each is closed.\<close>

definition close_where :: "(ManagedSession \<Rightarrow> bool) \<Rightarrow> string list \<Rightarrow> SessionManager \<Rightarrow> SessionManager" where
  "close_where p ids sm =
     (let toClose = filter (\<lambda>sid. sm_sessions sm sid \<and>
                      (case sm_store sm sid of None \<Rightarrow> False | Some ms \<Rightarrow> p ms)) ids
      in fold ms_close toClose
           (sm\<lparr>sm_sessions := (\<lambda>sid. sm_sessions sm sid \<and> sid \<notin> set toClose)\<rparr>))"

definition CloseAllForInstance :: "iid \<Rightarrow> string list \<Rightarrow> SessionManager \<Rightarrow> SessionManager" where
  "CloseAllForInstance i ids sm = close_where (\<lambda>ms. ms_InstanceID ms = i) ids sm"

definition SessionManager_Stop :: "string list \<Rightarrow> SessionManager \<Rightarrow> SessionManager" where
  "SessionManager_Stop ids sm = close_where (\<lambda>_. True) ids sm"

definition reapable :: "gtime \<Rightarrow> duration \<Rightarrow> ManagedSession \<Rightarrow> bool" where
  "reapable now idle ms \<longleftrightarrow>
     \<not> ms_attached ms \<and> (case ms_detachedAt ms of None \<Rightarrow> False | Some t \<Rightarrow> now - t > idle)"

definition reapIdle :: "gtime \<Rightarrow> string list \<Rightarrow> SessionManager \<Rightarrow> SessionManager" where
  "reapIdle now ids sm = close_where (reapable now (sm_IdleTimeout sm)) ids sm"

definition ListSessions :: "iid \<Rightarrow> string list \<Rightarrow> SessionManager \<Rightarrow> string list" where
  "ListSessions i ids sm =
     filter (\<lambda>sid. sm_sessions sm sid \<and>
        (case sm_store sm sid of None \<Rightarrow> False | Some ms \<Rightarrow> ms_InstanceID ms = i)) ids"

definition Attach :: "string \<Rightarrow> nat \<Rightarrow> SessionManager \<Rightarrow> string option \<times> SessionManager" where
  "Attach sid w sm =
     (case sm_store sm sid of
        None \<Rightarrow> (None, sm)
      | Some ms \<Rightarrow>
          (map_option sb_Bytes (ms_history ms),
           update_session sid (\<lambda>ms. ms\<lparr>ms_attached := True, ms_detachedAt := None, ms_outputWriter := Some w\<rparr>) sm))"

definition Detach :: "gtime \<Rightarrow> string \<Rightarrow> SessionManager \<Rightarrow> SessionManager" where
  "Detach now sid sm =
     update_session sid (\<lambda>ms. ms\<lparr>ms_attached := False, ms_detachedAt := Some now, ms_outputWriter := None\<rparr>) sm"

text \<open>One read of \<open>pumpOutput\<close> that returns \<open>data\<close>: a write to a recording that is closed fails and
  is ignored.  \<open>pumpEnd\<close> is the read error that ends the loop.\<close>

definition pumpOutput :: "string \<Rightarrow> string \<Rightarrow> SessionManager \<Rightarrow> SessionManager" where
  "pumpOutput sid data sm =
     (case sm_store sm sid of
        None \<Rightarrow> sm
      | Some ms \<Rightarrow>
          if data = [] \<or> ms_done ms then sm
          else (update_session sid (\<lambda>ms. ms\<lparr>
                   ms_history := map_option (\<lambda>h. sb_Write h data) (ms_history ms),
                   ms_recording := (if ms_closed ms then ms_recording ms
                                    else map_option (\<lambda>r. r @ data) (ms_recording ms))\<rparr>) sm)
                 \<lparr>sm_written := sm_written sm @
                    (case ms_outputWriter ms of None \<Rightarrow> [] | Some w \<Rightarrow> [(w, data)])\<rparr>)"

definition pumpEnd :: "string \<Rightarrow> SessionManager \<Rightarrow> SessionManager" where
  "pumpEnd sid sm = update_session sid (\<lambda>ms. ms\<lparr>ms_done := True\<rparr>) sm"

section \<open>Runs of the session manager\<close>

datatype sm_op =
    SmAttach string nat
  | SmDetach gtime string
  | SmOutput string string
  | SmEnd string
  | SmClose string
  | SmCloseAll iid "string list"
  | SmReap gtime "string list"
  | SmStop "string list"

fun sm_act :: "sm_op \<Rightarrow> SessionManager \<Rightarrow> SessionManager" where
  "sm_act (SmAttach sid w) sm = snd (Attach sid w sm)"
| "sm_act (SmDetach now sid) sm = Detach now sid sm"
| "sm_act (SmOutput sid data) sm = pumpOutput sid data sm"
| "sm_act (SmEnd sid) sm = pumpEnd sid sm"
| "sm_act (SmClose sid) sm = snd (CloseSession sid sm)"
| "sm_act (SmCloseAll i ids) sm = CloseAllForInstance i ids sm"
| "sm_act (SmReap now ids) sm = reapIdle now ids sm"
| "sm_act (SmStop ids) sm = SessionManager_Stop ids sm"

text \<open>A session as its clients see it: what its terminal has put out, until it ended.\<close>

fun outputs :: "string \<Rightarrow> sm_op \<Rightarrow> string \<times> bool \<Rightarrow> string \<times> bool" where
  "outputs sid (SmOutput s data) (h, over) = (if s = sid \<and> \<not> over then h @ data else h, over)"
| "outputs sid (SmEnd s) (h, over) = (h, over \<or> s = sid)"
| "outputs sid _ p = p"

lemma store_close: "sm_store (ms_close s sm) sid =
   (if s = sid then map_option (\<lambda>ms. if ms_closed ms then ms else ms\<lparr>ms_closed := True, ms_outputWriter := None\<rparr>) (sm_store sm sid)
    else sm_store sm sid)"
  by (auto simp: ms_close_def update_session_def split: option.splits)

definition replay_is :: "nat \<Rightarrow> string \<times> bool \<Rightarrow> ManagedSession option \<Rightarrow> bool" where
  "replay_is n p v \<longleftrightarrow>
     (case v of None \<Rightarrow> False
      | Some ms \<Rightarrow> ms_done ms = snd p \<and>
          (case ms_history ms of None \<Rightarrow> False
           | Some h \<Rightarrow> sb_wf (sb_capacity n) h \<and> sb_Bytes h = lastn (sb_capacity n) (fst p)))"

lemma replay_close: "replay_is n p (sm_store sm sid) \<Longrightarrow> replay_is n p (sm_store (ms_close s sm) sid)"
  by (auto simp: replay_is_def store_close split: option.splits)

lemma replay_close_where: "replay_is n p (sm_store sm sid) \<Longrightarrow> replay_is n p (sm_store (close_where q ids sm) sid)"
  unfolding close_where_def Let_def
  by (rule fold_preserves [where P = "\<lambda>sm. replay_is n p (sm_store sm sid)"]) (simp_all add: replay_close)

lemma replay_update:
  "(\<And>ms. ms_done (f ms) = ms_done ms \<and> ms_history (f ms) = ms_history ms) \<Longrightarrow>
   replay_is n p (sm_store sm sid) \<Longrightarrow> replay_is n p (sm_store (update_session s f sm) sid)"
proof -
  assume f: "\<And>ms. ms_done (f ms) = ms_done ms \<and> ms_history (f ms) = ms_history ms"
    and r: "replay_is n p (sm_store sm sid)"
  then obtain ms where ms: "sm_store sm sid = Some ms" by (auto simp: replay_is_def split: option.splits)
  have "replay_is n p (Some (f ms)) = replay_is n p (Some ms)" by (simp add: replay_is_def f)
  with r ms show ?thesis by (auto simp: update_session_def)
qed

lemma replay_output:
  assumes "replay_is n (h, over) (sm_store sm sid)"
  shows "replay_is n (if \<not> over then h @ data else h, over) (sm_store (pumpOutput sid data sm) sid)"
proof -
  from assms obtain ms sb where ms: "sm_store sm sid = Some ms" "ms_done ms = over" "ms_history ms = Some sb"
    "sb_wf (sb_capacity n) sb" "sb_Bytes sb = lastn (sb_capacity n) h"
    by (auto simp: replay_is_def split: option.splits)
  with sb_Write_spec [OF ms(4), of data] show ?thesis
    by (auto simp: pumpOutput_def replay_is_def update_session_def lastn_append_lastn)
qed

lemma replay_act:
  "replay_is n p (sm_store sm sid) \<Longrightarrow> replay_is n (outputs sid x p) (sm_store (sm_act x sm) sid)"
proof (induction sid x p rule: outputs.induct)
  case (1 sid s data h over)
  show ?case
  proof (cases "s = sid")
    case True
    with replay_output [OF 1] show ?thesis by simp
  next
    case False
    with 1 show ?thesis by (auto simp: pumpOutput_def update_session_def split: option.splits)
  qed
next
  case (2 sid s h over)
  then show ?case by (auto simp: pumpEnd_def update_session_def replay_is_def split: option.splits)
qed (simp_all add: Attach_def Detach_def CloseSession_def CloseAllForInstance_def replay_update
    reapIdle_def SessionManager_Stop_def replay_close_where replay_close split: option.split)

text \<open>A client that attaches to a session, however often and for however long the session was
  attached, detached, or even closed before, is given the last max(1024, 120 n) bytes of everything
  the terminal has put out since the session was created, whether or not a client was
  there to read it.\<close>

theorem attach_replays_output:
  assumes "CreateSession now sid None dir file i shell sm0 = (Inr sid, sm1)" and "0 < sm_HistoryLines sm0"
  shows "fst (Attach sid w (fold sm_act ops sm1)) =
     Some (lastn (max 1024 (sm_HistoryLines sm0 * 120)) (fst (fold (outputs sid) ops ([], False))))"
proof -
  let ?n = "sm_HistoryLines sm0"
  have "replay_is ?n ([], False) (sm_store sm1 sid)"
    using assms newScrollback_wf [of ?n]
    by (auto simp: CreateSession_def replay_is_def split: option.splits if_splits)
  moreover have "replay_is ?n p (sm_store sm sid) \<Longrightarrow>
      replay_is ?n (fold (outputs sid) ops p) (sm_store (fold sm_act ops sm) sid)" for p sm
    by (induction ops arbitrary: p sm) (simp_all add: replay_act)
  ultimately have "replay_is ?n (fold (outputs sid) ops ([], False)) (sm_store (fold sm_act ops sm1) sid)"
    by blast
  then show ?thesis by (auto simp: replay_is_def Attach_def sb_capacity_def split: option.splits)
qed

theorem attach_replays_output_witness:
  "fst (Attach ''a'' 1 (fold sm_act [SmOutput ''a'' ''hi'', SmAttach ''a'' 2, SmOutput ''a'' ''!'']
     (snd (CreateSession 0 ''a'' None None None 3 [] (NewSessionManager 5 False 0))))) = Some ''hi!''"
proof -
  have "CreateSession 0 ''a'' None None None 3 [] (NewSessionManager 5 False 0) =
      (Inr ''a'', snd (CreateSession 0 ''a'' None None None 3 [] (NewSessionManager 5 False 0)))"
    by (simp add: CreateSession_def NewSessionManager_def ValidateShell_def)
  from attach_replays_output [OF this, of 1 "[SmOutput ''a'' ''hi'', SmAttach ''a'' 2, SmOutput ''a'' ''!'']"]
  show ?thesis by (simp add: NewSessionManager_def)
qed

section \<open>Closing\<close>

text \<open>A session's terminal is closed at most once, exactly when the session is marked closed; sessions
  in the map are open.\<close>

definition sessions_ok :: "SessionManager \<Rightarrow> bool" where
  "sessions_ok sm \<longleftrightarrow> distinct (sm_terminated sm) \<and>
     (\<forall>sid ms. sm_store sm sid = Some ms \<longrightarrow> (ms_closed ms \<longleftrightarrow> sid \<in> set (sm_terminated sm)) \<and>
        (sm_sessions sm sid \<longrightarrow> \<not> ms_closed ms))"

lemma sessions_ok_update:
  assumes "sessions_ok sm" and "\<And>ms. ms_closed (f ms) = ms_closed ms"
  shows "sessions_ok (update_session s f sm)"
proof -
  have "(\<exists>ms0. sm_store sm sid = Some ms0 \<and> ms_closed ms0 = ms_closed ms)"
    if "sm_store (update_session s f sm) sid = Some ms" for sid ms
    using that assms(2) by (auto simp: update_session_def split: if_splits)
  then show ?thesis using assms(1) unfolding sessions_ok_def
    by (fastforce simp: update_session_def)
qed

lemma close_fields [simp]: "sm_sessions (ms_close s sm) = sm_sessions sm"
  by (simp add: ms_close_def update_session_def split: option.splits)

lemma terminated_close: "sm_terminated (ms_close s sm) =
   sm_terminated sm @ (case sm_store sm s of None \<Rightarrow> [] | Some ms \<Rightarrow> if ms_closed ms then [] else [s])"
  by (simp add: ms_close_def update_session_def split: option.splits)

lemma sessions_ok_close: "sessions_ok sm \<Longrightarrow> \<not> sm_sessions sm s \<Longrightarrow> sessions_ok (ms_close s sm)"
proof -
  assume ok: "sessions_ok sm" and gone: "\<not> sm_sessions sm s"
  show ?thesis
  proof (cases "\<exists>ms. sm_store sm s = Some ms \<and> \<not> ms_closed ms")
    case False
    then have "ms_close s sm = sm" by (auto simp: ms_close_def split: option.split)
    with ok show ?thesis by simp
  next
    case True
    then obtain ms where ms: "sm_store sm s = Some ms" "\<not> ms_closed ms" by blast
    then have "s \<notin> set (sm_terminated sm)" using ok by (simp add: sessions_ok_def)
    moreover have "sm_store (ms_close s sm) =
        (sm_store sm)(s \<mapsto> ms\<lparr>ms_closed := True, ms_outputWriter := None\<rparr>)"
      using ms by (auto simp: ms_close_def update_session_def)
    moreover have "sm_terminated (ms_close s sm) = sm_terminated sm @ [s]"
      using ms by (simp add: terminated_close)
    ultimately show ?thesis using ok gone unfolding sessions_ok_def by auto
  qed
qed

lemma sessions_ok_hide:
  "sessions_ok sm \<Longrightarrow> (\<And>sid. g sid \<Longrightarrow> sm_sessions sm sid) \<Longrightarrow> sessions_ok (sm\<lparr>sm_sessions := g\<rparr>)"
  unfolding sessions_ok_def by (intro conjI allI impI) auto

lemma sessions_ok_close_all:
  "sessions_ok sm \<Longrightarrow> list_all (\<lambda>s. \<not> sm_sessions sm s) xs \<Longrightarrow>
   sessions_ok (fold ms_close xs sm) \<and> sm_sessions (fold ms_close xs sm) = sm_sessions sm"
  by (induction xs arbitrary: sm) (simp_all add: sessions_ok_close)

lemma sessions_ok_close_where: "sessions_ok sm \<Longrightarrow> sessions_ok (close_where p ids sm)"
proof -
  let ?xs = "filter (\<lambda>sid. sm_sessions sm sid \<and> (case sm_store sm sid of None \<Rightarrow> False | Some ms \<Rightarrow> p ms)) ids"
  let ?sm = "sm\<lparr>sm_sessions := (\<lambda>sid. sm_sessions sm sid \<and> sid \<notin> set ?xs)\<rparr>"
  assume "sessions_ok sm"
  then have "sessions_ok ?sm" by (rule sessions_ok_hide) simp
  moreover have "list_all (\<lambda>s. \<not> sm_sessions ?sm s) ?xs" by (auto simp: list_all_iff)
  ultimately show ?thesis using sessions_ok_close_all [of ?sm ?xs] by (simp add: close_where_def Let_def)
qed

lemma sessions_ok_create:
  assumes "sessions_ok sm" and "sm_store sm sid = None" and "sid \<notin> set (sm_terminated sm)"
  shows "sessions_ok (snd (CreateSession now sid pty dir file i shell sm))"
  using assms unfolding sessions_ok_def CreateSession_def
  by (simp split: option.split) auto

lemma sessions_ok_pump: "sessions_ok sm \<Longrightarrow> sessions_ok (pumpOutput s data sm)"
proof -
  assume ok: "sessions_ok sm"
  have w: "sessions_ok (x\<lparr>sm_written := l\<rparr>) = sessions_ok x" for x l by (simp add: sessions_ok_def)
  show ?thesis
    by (auto simp: pumpOutput_def w ok intro: sessions_ok_update split: option.split)
qed

lemma sessions_ok_act: "sessions_ok sm \<Longrightarrow> sessions_ok (sm_act x sm)"
proof (cases x)
  case (SmClose sid)
  assume "sessions_ok sm"
  then have "sessions_ok (sm\<lparr>sm_sessions := (sm_sessions sm)(sid := False)\<rparr>)"
    by (rule sessions_ok_hide) (simp split: if_splits)
  with \<open>sessions_ok sm\<close> show ?thesis unfolding SmClose
    by (auto simp: CloseSession_def intro: sessions_ok_close)
qed (auto simp: Attach_def Detach_def pumpEnd_def CloseAllForInstance_def reapIdle_def SessionManager_Stop_def
    sessions_ok_close_where sessions_ok_pump intro: sessions_ok_update split: option.split)

inductive sm_reach :: "SessionManager \<Rightarrow> bool" where
  start: "sm_reach (NewSessionManager lines recording idle)"
| act: "sm_reach sm \<Longrightarrow> sm_reach (sm_act x sm)"
| create: "sm_reach sm \<Longrightarrow> sm_store sm sid = None \<Longrightarrow> sid \<notin> set (sm_terminated sm) \<Longrightarrow>
    sm_reach (snd (CreateSession now sid pty dir file i shell sm))"

text \<open>C25: In every state the session manager can reach (session ids being fresh), every terminal was
  closed at most once, a session is marked closed exactly when its terminal was closed, and
  the sessions in the map are all open.\<close>

theorem sessions_closed_once:
  assumes "sm_reach sm"
  shows "distinct (sm_terminated sm) \<and>
     (\<forall>sid. case sm_store sm sid of None \<Rightarrow> True
        | Some ms \<Rightarrow> (ms_closed ms \<longleftrightarrow> sid \<in> set (sm_terminated sm)) \<and> \<not> (sm_sessions sm sid \<and> ms_closed ms))"
proof -
  have "sessions_ok sm"
    using assms
  proof (induction rule: sm_reach.induct)
    case (start lines recording idle)
    then show ?case by (simp add: sessions_ok_def NewSessionManager_def)
  qed (simp_all add: sessions_ok_act sessions_ok_create)
  then show ?thesis by (auto simp: sessions_ok_def split: option.split)
qed

theorem sessions_closed_once_witness:
  "distinct (sm_terminated (sm_act (SmStop [''a'']) (snd (CreateSession 0 ''a'' None None None 3 []
     (NewSessionManager 5 False 0)))))"
proof -
  have "sm_reach (sm_act (SmStop [''a'']) (snd (CreateSession 0 ''a'' None None None 3 []
     (NewSessionManager 5 False 0))))"
    by (intro sm_reach.intros) (simp_all add: NewSessionManager_def)
  from sessions_closed_once [OF this] show ?thesis by blast
qed

lemma close_all_sessions: "sm_sessions (fold ms_close xs sm) = sm_sessions sm"
  by (induction xs arbitrary: sm) simp_all

text \<open>The reaper removes exactly the sessions whose client left longer than the idle timeout ago
  and has not come back; a session that no client has ever attached to is never reaped.\<close>

theorem reap_exactly_idle:
  assumes "sm_sessions sm sid" and "sm_store sm sid = Some ms" and "sid \<in> set ids"
  shows "sm_sessions (reapIdle now ids sm) sid \<longleftrightarrow>
     ms_attached ms \<or> (case ms_detachedAt ms of None \<Rightarrow> True | Some t \<Rightarrow> now - t \<le> sm_IdleTimeout sm)"
  using assms
  by (auto simp: reapIdle_def close_where_def Let_def close_all_sessions reapable_def split: option.splits)

theorem reap_exactly_idle_witness:
  "sm_sessions (reapIdle 99999999999999 [''a'']
     (snd (CreateSession 0 ''a'' None None None 3 [] (NewSessionManager 5 False 0)))) ''a''"
  using reap_exactly_idle [of "snd (CreateSession 0 ''a'' None None None 3 [] (NewSessionManager 5 False 0))"
      "''a''" "the (sm_store (snd (CreateSession 0 ''a'' None None None 3 [] (NewSessionManager 5 False 0))) ''a'')"
      "[''a'']" 99999999999999]
  by (simp add: CreateSession_def NewSessionManager_def ValidateShell_def)

end
