(* ===== verification/Utf8.thy ===== *)
theory Utf8 imports GoBase begin

text \<open>
  Go's decoding of a string into runes (the \<open>range\<close> loop) and the encoding of a rune
  (\<open>WriteRune\<close>).
\<close>

section \<open>UTF-8\<close>

definition byte :: "char \<Rightarrow> nat" where
  "byte c = of_char c"

definition cont :: "nat \<Rightarrow> nat \<Rightarrow> char \<Rightarrow> bool" where
  "cont lo hi c \<longleftrightarrow> lo \<le> byte c \<and> byte c \<le> hi"

text \<open>A rune of more than one byte, and its width.\<close>

definition decode_multi :: "string \<Rightarrow> nat \<times> nat" where
  "decode_multi s =
     (let b0 = byte (s ! 0); bad = (0xFFFD, 1);
          b = (\<lambda>k. byte (s ! k) mod 64)
      in if 0xC2 \<le> b0 \<and> b0 \<le> 0xDF then
           (if 2 \<le> length s \<and> cont 0x80 0xBF (s ! 1) then ((b0 mod 32) * 64 + b 1, 2) else bad)
         else if 0xE0 \<le> b0 \<and> b0 \<le> 0xEF then
           (if 3 \<le> length s \<and> cont (if b0 = 0xE0 then 0xA0 else 0x80) (if b0 = 0xED then 0x9F else 0xBF) (s ! 1)
               \<and> cont 0x80 0xBF (s ! 2)
            then ((b0 mod 16) * 4096 + b 1 * 64 + b 2, 3) else bad)
         else if 0xF0 \<le> b0 \<and> b0 \<le> 0xF4 then
           (if 4 \<le> length s \<and> cont (if b0 = 0xF0 then 0x90 else 0x80) (if b0 = 0xF4 then 0x8F else 0xBF) (s ! 1)
               \<and> cont 0x80 0xBF (s ! 2) \<and> cont 0x80 0xBF (s ! 3)
            then ((b0 mod 8) * 262144 + b 1 * 4096 + b 2 * 64 + b 3, 4) else bad)
         else bad)"

text \<open>\<open>utf8.DecodeRuneInString\<close>: the first rune and its width; an invalid byte is U+FFFD of width 1.\<close>

definition decode_rune :: "string \<Rightarrow> nat \<times> nat" where
  "decode_rune s = (if byte (s ! 0) < 0x80 then (byte (s ! 0), 1) else decode_multi s)"

lemma decode_width: "0 < snd (decode_rune s)"
  by (simp add: decode_rune_def decode_multi_def Let_def)

function runes :: "string \<Rightarrow> nat list" where
  "runes s = (if s = [] then [] else fst (decode_rune s) # runes (drop (snd (decode_rune s)) s))"
  by pat_completeness auto
termination
  by (relation "measure length") (auto simp: decode_width intro: diff_less)

declare runes.simps [simp del]

lemma runes_Nil [simp]: "runes [] = []"
  by (simp add: runes.simps)

lemma runes_code [code]:
  "runes [] = []"
  "runes (c # s) = (case decode_rune (c # s) of (r, w) \<Rightarrow> r # runes (drop w (c # s)))"
  by (simp, subst runes.simps, simp split: prod.split)

definition encode_rune :: "nat \<Rightarrow> string" where
  "encode_rune r =
     (if r < 0x80 then [char_of r]
      else if r < 0x800 then [char_of (0xC0 + r div 64), char_of (0x80 + r mod 64)]
      else if 0x10FFFF < r \<or> (0xD800 \<le> r \<and> r \<le> 0xDFFF) then map char_of [0xEF, 0xBF, 0xBD :: nat]
      else if r < 0x10000
      then [char_of (0xE0 + r div 4096), char_of (0x80 + r div 64 mod 64), char_of (0x80 + r mod 64)]
      else [char_of (0xF0 + r div 262144), char_of (0x80 + r div 4096 mod 64),
            char_of (0x80 + r div 64 mod 64), char_of (0x80 + r mod 64)])"

lemma byte_char_of [simp]: "byte (char_of n) = n mod 256"
  by (simp add: byte_def)

lemma encode_ascii: "r < 128 \<Longrightarrow> encode_rune r = [char_of r]"
  by (simp add: encode_rune_def)

lemma encode_high: "128 \<le> r \<Longrightarrow> c \<in> set (encode_rune r) \<Longrightarrow> 128 \<le> byte c"
proof -
  assume r: "128 \<le> r" and c: "c \<in> set (encode_rune r)"
  have m: "x mod 64 < 64" for x :: nat by simp
  have small: "128 \<le> (128 + x mod 64) mod 256" for x :: nat
    using m [of x] by simp
  consider "r < 0x800" | "0x800 \<le> r" "0x10FFFF < r \<or> (0xD800 \<le> r \<and> r \<le> 0xDFFF)"
    | "0x800 \<le> r" "r < 0x10000" "\<not> (0x10FFFF < r \<or> (0xD800 \<le> r \<and> r \<le> 0xDFFF))"
    | "0x10000 \<le> r" "r \<le> 0x10FFFF" by linarith
  then show ?thesis
  proof cases
    case 1
    then have "r div 64 < 32" by (simp add: less_mult_imp_div_less)
    with 1 c r small show ?thesis by (auto simp: encode_rune_def)
  next
    case 2
    with c r show ?thesis by (auto simp: encode_rune_def)
  next
    case 3
    then have "r div 4096 < 16" by (simp add: less_mult_imp_div_less)
    with 3 c r small show ?thesis by (auto simp: encode_rune_def)
  next
    case 4
    then have "r div 262144 < 5" by (simp add: less_mult_imp_div_less)
    with 4 c r small show ?thesis by (auto simp: encode_rune_def)
  qed
qed

lemma runes_ascii: "list_all (\<lambda>c. byte c < 128) s \<Longrightarrow> runes s = map byte s"
proof (induction s)
  case (Cons c s)
  then have "decode_rune (c # s) = (byte c, 1)" by (simp add: decode_rune_def)
  with Cons show ?case by (subst runes.simps) simp
qed simp

end
