(* ===== verification/ShellText.thy ===== *)
theory ShellText imports Utf8 begin

text \<open>
  Text that crosses a boundary: base64, the single-quoting of shell words
  (\<^verbatim>\<open>sshproxy/logs.go\<close>, \<^verbatim>\<open>sshproxy/instance.go\<close>), and a reading of shell command
  lines by the POSIX quoting rules, as the reference against which the quoting is judged.
\<close>

section \<open>Base64\<close>

definition b64_char :: "nat \<Rightarrow> char" where
  "b64_char i = (if i < 26 then char_of (65 + i) else if i < 52 then char_of (71 + i)
                 else if i < 62 then char_of (i - 4) else if i = 62 then CHR ''+'' else CHR ''/'')"

definition b64_val :: "char \<Rightarrow> nat option" where
  "b64_val c =
     (let n = byte c in
      if 65 \<le> n \<and> n \<le> 90 then Some (n - 65) else if 97 \<le> n \<and> n \<le> 122 then Some (n - 71)
      else if 48 \<le> n \<and> n \<le> 57 then Some (n + 4) else if n = 43 then Some 62
      else if n = 47 then Some 63 else None)"

fun b64_groups :: "nat list \<Rightarrow> string" where
  "b64_groups [] = []"
| "b64_groups [a] = [b64_char (a div 4), b64_char (a mod 4 * 16), CHR ''='', CHR ''='']"
| "b64_groups [a, b] = [b64_char (a div 4), b64_char (a mod 4 * 16 + b div 16),
                        b64_char (b mod 16 * 4), CHR ''='']"
| "b64_groups (a # b # c # r) =
     [b64_char (a div 4), b64_char (a mod 4 * 16 + b div 16),
      b64_char (b mod 16 * 4 + c div 64), b64_char (c mod 64)] @ b64_groups r"

definition base64_encode :: "string \<Rightarrow> string" where
  \<comment> \<open>\<open>base64.StdEncoding.EncodeToString\<close>\<close>
  "base64_encode s = b64_groups (map byte s)"

fun b64_bytes :: "string \<Rightarrow> nat list option" where
  "b64_bytes [] = Some []"
| "b64_bytes (w # x # y # z # r) =
     (case (b64_val w, b64_val x) of
        (Some i, Some j) \<Rightarrow>
          if y = CHR ''='' then (if z = CHR ''='' \<and> r = [] then Some [i * 4 + j div 16] else None)
          else (case b64_val y of
                  None \<Rightarrow> None
                | Some k \<Rightarrow>
                    if z = CHR ''='' then (if r = [] then Some [i * 4 + j div 16, j mod 16 * 16 + k div 4] else None)
                    else (case b64_val z of
                            None \<Rightarrow> None
                          | Some l \<Rightarrow> map_option (\<lambda>bs. [i * 4 + j div 16, j mod 16 * 16 + k div 4,
                                                      k mod 4 * 64 + l] @ bs) (b64_bytes r)))
      | _ \<Rightarrow> None)"
| "b64_bytes _ = None"

definition base64_decode :: "string \<Rightarrow> string option" where
  "base64_decode s = map_option (map char_of) (b64_bytes s)"

lemma b64_val_char: "i < 64 \<Longrightarrow> b64_val (b64_char i) = Some i"
proof -
  assume "i < 64"
  then consider "i < 26" | "26 \<le> i" "i < 52" | "52 \<le> i" "i < 62" | "i = 62" | "i = 63" by linarith
  then show ?thesis
  proof cases
    case 1 then show ?thesis by (simp add: b64_char_def b64_val_def Let_def)
  next
    case 2 then show ?thesis by (simp add: b64_char_def b64_val_def Let_def)
  next
    case 3 then show ?thesis by (auto simp: b64_char_def b64_val_def Let_def)
  qed (simp_all add: b64_char_def b64_val_def Let_def byte_def)
qed

lemma b64_char_neq: "i < 64 \<Longrightarrow> b64_char i \<noteq> CHR ''=''"
  using b64_val_char [of i] by (auto simp: b64_val_def Let_def byte_def)

lemma b64_roundtrip: "list_all (\<lambda>n. n < 256) bs \<Longrightarrow> b64_bytes (b64_groups bs) = Some bs"
proof (induction bs rule: b64_groups.induct)
  case (2 a)
  then have "a div 4 < 64" "a mod 4 * 16 < 64" by auto
  moreover have "a div 4 * 4 + a mod 4 * 16 div 16 = a" by simp
  ultimately show ?case by (simp add: b64_val_char)
next
  case (3 a b)
  then have "a div 4 < 64" "a mod 4 * 16 + b div 16 < 64" "b mod 16 * 4 < 64" "b div 16 < 16" by auto
  moreover from this have "a div 4 * 4 + (a mod 4 * 16 + b div 16) div 16 = a" by simp
  moreover from calculation have "(a mod 4 * 16 + b div 16) mod 16 * 16 + b mod 16 * 4 div 4 = b" by simp
  ultimately show ?case by (simp add: b64_val_char b64_char_neq)
next
  case (4 a b c r)
  then have ab: "a < 256" "b < 256" "c < 256" by auto
  then have "a div 4 < 64" "a mod 4 * 16 + b div 16 < 64" "b mod 16 * 4 + c div 64 < 64" "c mod 64 < 64"
    by auto
  moreover have "a div 4 * 4 + (a mod 4 * 16 + b div 16) div 16 = a" using ab by simp
  moreover have "(a mod 4 * 16 + b div 16) mod 16 * 16 + (b mod 16 * 4 + c div 64) div 4 = b" using ab by simp
  moreover have "(b mod 16 * 4 + c div 64) mod 4 * 64 + c mod 64 = c" using ab by simp
  ultimately show ?case using 4 by (simp add: b64_val_char b64_char_neq)
qed simp

lemma base64_decode_encode [simp]: "base64_decode (base64_encode s) = Some s"
proof -
  have "list_all (\<lambda>n. n < 256) (map byte s)" by (simp add: list_all_iff byte_def)
  then show ?thesis
    by (simp add: base64_decode_def base64_encode_def b64_roundtrip o_def) (simp add: byte_def map_idI)
qed

section \<open>Shell words\<close>

definition quote_char :: "char \<Rightarrow> string" where
  "quote_char c = (if c = CHR 0x27 then [CHR 0x27, CHR 0x5C, CHR 0x27, CHR 0x27] else [c])"

definition shellQuote :: "string \<Rightarrow> string" where
  \<comment> \<open>\<open>ReplaceAll\<close> of a one-byte pattern replaces each byte on its own\<close>
  "shellQuote s = [CHR 0x27] @ concat (map quote_char s) @ [CHR 0x27]"

definition ShellQuote :: "string \<Rightarrow> string" where
  "ShellQuote s = [CHR 0x27] @ concat (map quote_char s) @ [CHR 0x27]"

datatype token = Word string | Op string

definition plain_char :: "char \<Rightarrow> bool" where
  "plain_char c \<longleftrightarrow> (let n = byte c in
     (48 \<le> n \<and> n \<le> 57) \<or> (65 \<le> n \<and> n \<le> 90) \<or> (97 \<le> n \<and> n \<le> 122) \<or> c \<in> set ''-_./=:,+%@'')"

definition flush :: "string option \<Rightarrow> token list" where
  "flush w = (case w of None \<Rightarrow> [] | Some s \<Rightarrow> [Word s])"

definition word_of :: "string option \<Rightarrow> string" where
  "word_of w = (case w of None \<Rightarrow> [] | Some s \<Rightarrow> s)"

text \<open>Reading a command line: outside quotes a backslash takes the next character as it is, blanks
  separate words, \<open>>\<close>, \<open>>>\<close> and \<open>|\<close> are operators; inside single quotes every character stands
  for itself.  A character that could start an expansion, a second command or another kind of
  quoting makes the reading fail.\<close>

fun lex :: "string option \<Rightarrow> string \<Rightarrow> token list option"
  and lexq :: "string \<Rightarrow> string \<Rightarrow> token list option" where
  "lex w [] = Some (flush w)"
| "lex w (c # s) =
     (if c = CHR 0x27 then lexq (word_of w) s
      else if c = CHR 0x5C then (case s of [] \<Rightarrow> None | d # r \<Rightarrow> lex (Some (word_of w @ [d])) r)
      else if c = CHR '' '' then map_option (\<lambda>ts. flush w @ ts) (lex None s)
      else if c = CHR ''|'' then map_option (\<lambda>ts. flush w @ Op ''|'' # ts) (lex None s)
      else if c = CHR ''>'' then
        (case s of
           d # r \<Rightarrow> if d = CHR ''>'' then map_option (\<lambda>ts. flush w @ Op ''>>'' # ts) (lex None r)
                    else map_option (\<lambda>ts. flush w @ Op ''>'' # ts) (lex None s)
         | [] \<Rightarrow> Some (flush w @ [Op ''>'']))
      else if plain_char c then lex (Some (word_of w @ [c])) s
      else None)"
| "lexq w [] = None"
| "lexq w (c # s) = (if c = CHR 0x27 then lex (Some w) s else lexq (w @ [c]) s)"

declare lex.simps(2) [simp del]

lemma lex_quote [simp]: "lex w (CHR 0x27 # s) = lexq (word_of w) s"
  by (simp add: lex.simps)

lemma word_of_simps [simp]: "word_of None = []" "word_of (Some s) = s"
  by (simp_all add: word_of_def)

lemma flush_simps [simp]: "flush None = []" "flush (Some s) = [Word s]"
  by (simp_all add: flush_def)

lemma lexq_body: "lexq w (concat (map quote_char s) @ CHR 0x27 # rest) = lex (Some (w @ s)) rest"
proof (induction s arbitrary: w)
  case (Cons c s)
  show ?case
  proof (cases "c = CHR 0x27")
    case True
    have "lexq w (concat (map quote_char (c # s)) @ CHR 0x27 # rest) =
          lex (Some w) (CHR 0x5C # CHR 0x27 # CHR 0x27 # concat (map quote_char s) @ CHR 0x27 # rest)"
      by (simp add: True quote_char_def)
    also have "\<dots> = lexq (w @ [CHR 0x27]) (concat (map quote_char s) @ CHR 0x27 # rest)"
      by (simp add: lex.simps)
    finally show ?thesis using Cons [of "w @ [c]"] True by simp
  next
    case False
    then show ?thesis using Cons [of "w @ [c]"] by (simp add: quote_char_def)
  qed
qed simp

lemma lex_shellQuote: "lex w (shellQuote s @ rest) = lex (Some (word_of w @ s)) rest"
  using lexq_body [of "word_of w" s rest] by (simp add: shellQuote_def)

lemma lex_shellQuote_end: "lex w (shellQuote s) = Some [Word (word_of w @ s)]"
  using lex_shellQuote [of w s "[]"] by simp

lemma lex_plain: "list_all plain_char p \<Longrightarrow> p \<noteq> [] \<Longrightarrow> lex w (p @ rest) = lex (Some (word_of w @ p)) rest"
proof (induction p arbitrary: w)
  case (Cons c p)
  then have "c \<noteq> CHR 0x27" "c \<noteq> CHR 0x5C" "c \<noteq> CHR '' ''" "c \<noteq> CHR ''|''" "c \<noteq> CHR ''>''"
    by (auto simp: plain_char_def byte_def Let_def)
  with Cons show ?case by (cases "p = []") (simp_all add: lex.simps(2))
qed simp

lemma lex_blank: "lex w (CHR '' '' # s) = map_option (\<lambda>ts. flush w @ ts) (lex None s)"
  by (simp add: lex.simps)

lemma lex_pipe: "lex w (CHR ''|'' # s) = map_option (\<lambda>ts. flush w @ Op ''|'' # ts) (lex None s)"
  by (simp add: lex.simps)

lemma lex_append_op: "lex w (CHR ''>'' # CHR ''>'' # s) = map_option (\<lambda>ts. flush w @ Op ''>>'' # ts) (lex None s)"
  by (simp add: lex.simps)

lemma lex_out: "lex w (CHR ''>'' # CHR '' '' # s) = map_option (\<lambda>ts. flush w @ Op ''>'' # ts) (lex None s)"
  by (simp add: lex.simps(2) lex_blank option.map_comp o_def option.map_ident)

text \<open>Quoting is safe and exact: whatever bytes a string has, in any context the shell reads its
  quoted form as exactly that string, joined to the word it stands in, and goes on after it.\<close>

theorem shell_quote_exact:
  "lex w (shellQuote s @ rest) = lex (Some (word_of w @ s)) rest \<and> ShellQuote s = shellQuote s"
  by (simp add: lex_shellQuote) (simp add: ShellQuote_def shellQuote_def)

end
