(* ===== verification/RemoteFiles.thy ===== *)
theory RemoteFiles imports ShellText begin

text \<open>
  \<^verbatim>\<open>control-plane/internal/sshproxy/files.go\<close>, \<^verbatim>\<open>logs.go\<close> and
  \<^verbatim>\<open>instance.go\<close>: file operations on an agent by shell commands over SSH.
  Running a command is the argument \<open>exec\<close>: it takes the command line and the state of the agent
  and returns a transport error or the output, the error output and the exit code.
\<close>

section \<open>Commands\<close>

type_synonym 's exec = "string \<Rightarrow> 's \<Rightarrow> (string + string \<times> string \<times> int) \<times> 's"

datatype file_error = Transport string | ExitError string

definition suClaworc :: "string \<Rightarrow> string" where
  "suClaworc cmd = ''su claworc -c '' @ shellQuote cmd"

definition sanitizePath :: "string \<Rightarrow> string" where
  "sanitizePath p = concat (map encode_rune (filter (\<lambda>r. 0x20 \<le> r \<and> r \<noteq> 0x7F) (runes p)))"

definition run_su :: "'s exec \<Rightarrow> string \<Rightarrow> 's \<Rightarrow> (file_error + string) \<times> 's" where
  \<comment> \<open>run as claworc; a transport error, a non-zero exit, or the output\<close>
  "run_su exec cmd s =
     (case exec (suClaworc cmd) s of
        (Inl e, s1) \<Rightarrow> (Inl (Transport e), s1)
      | (Inr (out, err, code), s1) \<Rightarrow> if code \<noteq> 0 then (Inl (ExitError (trim_space err)), s1) else (Inr out, s1))"

definition ls_cmd :: "string \<Rightarrow> string" where "ls_cmd p = ''ls -la --color=never '' @ shellQuote p"
definition cat_cmd :: "string \<Rightarrow> string" where "cat_cmd p = ''cat '' @ shellQuote p"
definition truncate_cmd :: "string \<Rightarrow> string" where "truncate_cmd p = ''> '' @ shellQuote p"
definition append_cmd :: "string \<Rightarrow> string \<Rightarrow> string" where
  "append_cmd b64 p = ''echo '' @ [CHR 0x27] @ b64 @ [CHR 0x27] @ '' | base64 -d >> '' @ shellQuote p"
definition mkdir_cmd :: "string \<Rightarrow> string" where "mkdir_cmd p = ''mkdir -p '' @ shellQuote p"
definition rm_cmd :: "string \<Rightarrow> string" where "rm_cmd p = ''rm -rf '' @ shellQuote p"
definition mv_cmd :: "string \<Rightarrow> string \<Rightarrow> string" where
  "mv_cmd a b = ''mv '' @ shellQuote a @ '' '' @ shellQuote b"
definition cp_cmd :: "string \<Rightarrow> string \<Rightarrow> string" where
  "cp_cmd a b = ''cp -r '' @ shellQuote a @ '' '' @ shellQuote b"

definition tail_cmd :: "int \<Rightarrow> bool \<Rightarrow> bool option \<Rightarrow> string \<Rightarrow> string" where
  \<comment> \<open>the command of \<open>StreamLogs\<close>\<close>
  "tail_cmd tail follow followName path =
     ''tail -n '' @ show_nat (if tail \<le> 0 then 100 else nat tail)
     @ (if follow then (if followName \<noteq> Some False then '' -F'' else '' -f'') else [])
     @ '' '' @ shellQuote path"

section \<open>Paths\<close>

definition clean_step :: "bool \<Rightarrow> string list \<Rightarrow> string \<Rightarrow> string list" where
  "clean_step rooted out c =
     (if c = [] \<or> c = ''.'' then out
      else if c = ''..'' then
        (if out \<noteq> [] \<and> last out \<noteq> ''..'' then butlast out else if rooted then out else out @ [''..''])
      else out @ [c])"

fun join_slash :: "string list \<Rightarrow> string" where
  "join_slash [] = []"
| "join_slash [c] = c"
| "join_slash (c # d # cs) = c @ ''/'' @ join_slash (d # cs)"

definition filepath_Clean :: "string \<Rightarrow> string" where
  "filepath_Clean p =
     (let rooted = has_prefix p ''/'';
          out = foldl (clean_step rooted) [] (go_split (CHR ''/'') p);
          r = (if rooted then ''/'' else []) @ join_slash out
      in if r = [] then ''.'' else r)"

definition filepath_Dir :: "string \<Rightarrow> string" where
  "filepath_Dir p = filepath_Clean (rev (dropWhile (\<lambda>c. c \<noteq> CHR ''/'') (rev p)))"

section \<open>Operations\<close>

definition ReadFile :: "'s exec \<Rightarrow> string \<Rightarrow> 's \<Rightarrow> (file_error + string) \<times> 's" where
  "ReadFile exec path s = run_su exec (cat_cmd (sanitizePath path)) s"

definition status :: "(file_error + string) \<times> 's \<Rightarrow> file_error option \<times> 's" where
  "status r = (case r of (Inl e, s) \<Rightarrow> (Some e, s) | (Inr _, s) \<Rightarrow> (None, s))"

definition chunkSize :: nat where
  "chunkSize = 48000"

function write_chunks :: "'s exec \<Rightarrow> string \<Rightarrow> string \<Rightarrow> 's \<Rightarrow> file_error option \<times> 's" where
  "write_chunks exec path data s =
     (if data = [] then (None, s)
      else case run_su exec (append_cmd (base64_encode (take chunkSize data)) path) s of
        (Inl e, s1) \<Rightarrow> (Some e, s1)
      | (Inr _, s1) \<Rightarrow> write_chunks exec path (drop chunkSize data) s1)"
  by pat_completeness auto
termination
  by (relation "measure (\<lambda>(exec, path, data, s). length data)") (auto simp: chunkSize_def)

declare write_chunks.simps [simp del]

definition WriteFile :: "'s exec \<Rightarrow> string \<Rightarrow> string \<Rightarrow> 's \<Rightarrow> file_error option \<times> 's" where
  "WriteFile exec path0 data s =
     (let path = sanitizePath path0 in
      case run_su exec (truncate_cmd path) s of
        (Inl e, s1) \<Rightarrow> (Some e, s1)
      | (Inr _, s1) \<Rightarrow> write_chunks exec path data s1)"

definition EnsureParentDir :: "'s exec \<Rightarrow> string \<Rightarrow> 's \<Rightarrow> file_error option \<times> 's" where
  "EnsureParentDir exec filePath s =
     (let dir = filepath_Dir (sanitizePath filePath) in
      if dir = ''.'' \<or> dir = ''/'' then (None, s) else status (run_su exec (mkdir_cmd dir) s))"

definition CreateDirectory :: "'s exec \<Rightarrow> string \<Rightarrow> 's \<Rightarrow> file_error option \<times> 's" where
  "CreateDirectory exec path s = status (run_su exec (mkdir_cmd (sanitizePath path)) s)"

definition DeletePath :: "'s exec \<Rightarrow> string \<Rightarrow> 's \<Rightarrow> file_error option \<times> 's" where
  "DeletePath exec path s = status (run_su exec (rm_cmd (sanitizePath path)) s)"

definition RenamePath :: "'s exec \<Rightarrow> string \<Rightarrow> string \<Rightarrow> 's \<Rightarrow> file_error option \<times> 's" where
  "RenamePath exec a b s = status (run_su exec (mv_cmd (sanitizePath a) (sanitizePath b)) s)"

definition CopyPath :: "'s exec \<Rightarrow> string \<Rightarrow> string \<Rightarrow> 's \<Rightarrow> file_error option \<times> 's" where
  "CopyPath exec a b s = status (run_su exec (cp_cmd (sanitizePath a) (sanitizePath b)) s)"

section \<open>Directory listings\<close>

text \<open>\<open>strings.Fields\<close>.\<close>

function go_fields :: "string \<Rightarrow> string \<Rightarrow> string list" where
  "go_fields cur s =
     (if s = [] then (if cur = [] then [] else [cur])
      else if lead_space s \<noteq> 0
      then (if cur = [] then [] else [cur]) @ go_fields [] (drop (lead_space s) s)
      else go_fields (cur @ [hd s]) (tl s))"
  by pat_completeness auto
termination
  by (relation "measure (\<lambda>(cur, s). length s)") (auto intro: diff_less)

declare go_fields.simps [simp del]

record FileEntry =
  fe_Name :: string
  fe_Type :: string
  fe_Size :: "string option"
  fe_Permissions :: string

fun join_blank :: "string list \<Rightarrow> string" where
  "join_blank [] = []"
| "join_blank [c] = c"
| "join_blank (c # d # cs) = c @ '' '' @ join_blank (d # cs)"

definition parse_ls_line :: "string \<Rightarrow> FileEntry option" where
  "parse_ls_line line =
     (let parts = go_fields [] (trim_space line) in
      if trim_space line = [] \<or> length parts < 9 then None
      else
        let permissions = parts ! 0; entryName = join_blank (drop 8 parts);
            isDir = has_prefix permissions ''d''; isLink = has_prefix permissions ''l''
        in if entryName = ''.'' \<or> entryName = ''..'' then None
           else Some \<lparr>fe_Name = entryName,
                      fe_Type = (if isDir then ''directory'' else if isLink then ''symlink'' else ''file''),
                      fe_Size = (if isDir then None else Some (parts ! 4)),
                      fe_Permissions = permissions\<rparr>)"

definition ParseLsOutput :: "string \<Rightarrow> FileEntry list" where
  "ParseLsOutput output =
     (let lines = go_split (CHR 0x0A) (trim_space output) in
      if length lines \<le> 1 then [] else List.map_filter parse_ls_line (tl lines))"

definition ListDirectory :: "'s exec \<Rightarrow> string \<Rightarrow> 's \<Rightarrow> (file_error + FileEntry list) \<times> 's" where
  "ListDirectory exec path s =
     (case run_su exec (ls_cmd (sanitizePath path)) s of
        (Inl e, s1) \<Rightarrow> (Inl e, s1) | (Inr out, s1) \<Rightarrow> (Inr (ParseLsOutput out), s1))"

section \<open>Commands of the agent's CLI\<close>

text \<open>\<open>ExecOpenclaw\<close>: \<open>None\<close> for too many arguments.\<close>

definition openclaw_cmd :: "string list \<Rightarrow> string option" where
  "openclaw_cmd args =
     (if length args > 65535 then None
      else Some (''su - claworc -c '' @ ShellQuote (join_blank (''openclaw'' # map ShellQuote args))))"

section \<open>What the agent's shells read\<close>

definition su_argv :: "string \<Rightarrow> token list option" where
  \<comment> \<open>the words the inner shell reads when the outer one runs \<open>su claworc -c\<close>\<close>
  "su_argv line =
     (case lex None line of
        Some [Word a, Word b, Word c, Word cmd] \<Rightarrow>
          if a = ''su'' \<and> b = ''claworc'' \<and> c = ''-c'' then lex None cmd else None
      | _ \<Rightarrow> None)"

lemmas lex_eval = lex.simps(2) plain_char_def byte_def Let_def option.map_comp o_def

lemma su_argv_su [simp]: "su_argv (suClaworc cmd) = lex None cmd"
proof -
  have "lex None (suClaworc cmd) = Some [Word ''su'', Word ''claworc'', Word ''-c'', Word cmd]"
    by (simp add: suClaworc_def lex_eval lex_shellQuote_end)
  then show ?thesis by (simp add: su_argv_def)
qed

lemma b64_without:
  assumes "b64_val q = None" "q \<noteq> CHR ''=''"
  shows "q \<notin> set (base64_encode s)"
proof -
  have no: "q \<noteq> b64_char i" if "i < 64" for i
    using b64_val_char [OF that] assms(1) by auto
  have "list_all (\<lambda>n. n < 256) bs \<Longrightarrow> q \<notin> set (b64_groups bs)" for bs
  proof (induction bs rule: b64_groups.induct)
    case (2 a)
    then have "a div 4 < 64" "a mod 4 * 16 < 64" by auto
    then show ?case using assms(2) by (simp add: no)
  next
    case (3 a b)
    then have "a div 4 < 64" "a mod 4 * 16 + b div 16 < 64" "b mod 16 * 4 < 64" by auto
    then show ?case using assms(2) by (simp add: no)
  next
    case (4 a b c r)
    then have "a div 4 < 64" "a mod 4 * 16 + b div 16 < 64" "b mod 16 * 4 + c div 64 < 64" "c mod 64 < 64"
      by auto
    then show ?case using 4 by (simp add: no)
  qed simp
  moreover have "list_all (\<lambda>n. n < 256) (map byte s)" by (simp add: list_all_iff byte_def)
  ultimately show ?thesis by (auto simp: base64_encode_def)
qed

lemma b64_no_quote: "c \<in> set (base64_encode s) \<Longrightarrow> c \<noteq> CHR 0x27"
  using b64_without [of "CHR 0x27" s] by (auto simp: b64_val_def byte_def)

lemma append_cmd_quote: "append_cmd (base64_encode d) p =
    ''echo '' @ shellQuote (base64_encode d) @ '' | base64 -d >> '' @ shellQuote p"
proof -
  have "concat (map quote_char b) = b" if "\<And>c. c \<in> set b \<Longrightarrow> c \<noteq> CHR 0x27" for b
    using that by (induction b) (auto simp: quote_char_def)
  then show ?thesis using b64_no_quote [of _ d] by (simp add: append_cmd_def shellQuote_def)
qed

lemma argv_truncate: "lex None (truncate_cmd p) = Some [Op ''>'', Word p]"
  by (simp add: truncate_cmd_def lex_out lex_shellQuote_end)

lemma argv_cat: "lex None (cat_cmd p) = Some [Word ''cat'', Word p]"
  by (simp add: cat_cmd_def lex_eval lex_shellQuote_end)

lemma argv_append: "lex None (append_cmd (base64_encode d) p) =
    Some [Word ''echo'', Word (base64_encode d), Op ''|'', Word ''base64'', Word ''-d'', Op ''>>'', Word p]"
  unfolding append_cmd_quote by (simp add: lex_eval lex_shellQuote lex_shellQuote_end)


text \<open>The paths handed to the shell contain no ASCII control character.\<close>

theorem sanitized_path_clean:
  "list_all (\<lambda>c. 32 \<le> byte c \<and> byte c \<noteq> 127) (sanitizePath p)"
proof -
  have "32 \<le> byte c \<and> byte c \<noteq> 127" if "c \<in> set (encode_rune r)" "32 \<le> r" "r \<noteq> 127" for c r
  proof (cases "r < 128")
    case True
    with that show ?thesis by (simp add: encode_ascii)
  next
    case False
    with encode_high [of r c] that show ?thesis by simp
  qed
  then show ?thesis by (auto simp: sanitizePath_def list_all_iff)
qed

lemma join_blank_lex:
  "lex w (join_blank (map ShellQuote (a # as))) = Some (Word (word_of w @ a) # map Word as)"
proof (induction as arbitrary: a w)
  case Nil
  have "ShellQuote a = shellQuote a" by (simp add: ShellQuote_def shellQuote_def)
  then show ?case by (simp add: lex_shellQuote_end)
next
  case (Cons b bs)
  have q: "ShellQuote a = shellQuote a" by (simp add: ShellQuote_def shellQuote_def)
  show ?case using Cons [of None b] by (simp add: q lex_shellQuote lex_blank)
qed

text \<open>A call of the agent's CLI passes its arguments on exactly: the login shell of the agent's user
  reads the program name and then each argument as one word, whatever it contains.\<close>

theorem openclaw_args_exact:
  assumes "openclaw_cmd args = Some line"
  shows "\<exists>cmd. lex None line = Some [Word ''su'', Word ''-'', Word ''claworc'', Word ''-c'', Word cmd] \<and>
     lex None cmd = Some (Word ''openclaw'' # map Word args)"
proof -
  let ?cmd = "join_blank (''openclaw'' # map ShellQuote args)"
  have "line = ''su - claworc -c '' @ shellQuote ?cmd"
    using assms by (simp add: openclaw_cmd_def ShellQuote_def shellQuote_def split: if_splits)
  then have "lex None line = Some [Word ''su'', Word ''-'', Word ''claworc'', Word ''-c'', Word ?cmd]"
    by (simp add: lex_eval lex_shellQuote_end)
  moreover have "lex None ?cmd = Some (Word ''openclaw'' # map Word args)"
  proof (cases args)
    case (Cons a as)
    then show ?thesis using join_blank_lex [of None a as] by (simp add: lex_eval)
  qed (simp add: lex_eval)
  ultimately show ?thesis by blast
qed

theorem openclaw_args_exact_witness:
  "\<exists>cmd. lex None cmd = Some [Word ''openclaw'', Word ''a b;c'']"
  using openclaw_args_exact [of "[''a b;c'']" "the (openclaw_cmd [''a b;c''])"]
  by (simp add: openclaw_cmd_def) blast

section \<open>Writing and reading back\<close>

text \<open>A reference agent: files by path, and what the programs of the commands do with them.\<close>

type_synonym files = "string \<rightharpoonup> string"

fun perform :: "token list \<Rightarrow> files \<Rightarrow> (string \<times> string \<times> int) \<times> files" where
  "perform [Op r, Word p] fs = (([], [], 0), if r = ''>'' then fs(p \<mapsto> []) else fs)"
| "perform [Word e, Word b, Op i, Word c, Word d, Op r, Word p] fs =
     (if e = ''echo'' \<and> i = ''|'' \<and> c = ''base64'' \<and> d = ''-d'' \<and> r = ''>>''
      then (case base64_decode b of
              None \<Rightarrow> (([], ''base64: invalid input'', 1), fs)
            | Some x \<Rightarrow> (([], [], 0), fs(p \<mapsto> (case fs p of None \<Rightarrow> [] | Some y \<Rightarrow> y) @ x)))
      else (([], [], 127), fs))"
| "perform [Word c, Word p] fs =
     (if c = ''cat'' then (case fs p of None \<Rightarrow> (([], ''No such file'', 1), fs) | Some x \<Rightarrow> ((x, [], 0), fs))
      else (([], [], 127), fs))"
| "perform _ fs = (([], [], 127), fs)"

definition agent :: "files exec" where
  "agent line fs =
     (case su_argv line of None \<Rightarrow> (Inr ([], ''syntax error'', 2), fs)
      | Some ts \<Rightarrow> (case perform ts fs of (r, fs1) \<Rightarrow> (Inr r, fs1)))"

lemma agent_append: "run_su agent (append_cmd (base64_encode d) p) fs =
    (Inr [], fs(p \<mapsto> (case fs p of None \<Rightarrow> [] | Some y \<Rightarrow> y) @ d))"
  by (simp add: run_su_def agent_def argv_append)

lemma agent_chunks:
  "fs p = Some y \<Longrightarrow> write_chunks agent p data fs = (None, fs(p \<mapsto> y @ data))"
proof (induction data arbitrary: fs y rule: length_induct)
  case (1 data)
  show ?case
  proof (cases "data = []")
    case True
    with 1 show ?thesis by (simp add: write_chunks.simps fun_upd_idem)
  next
    case False
    let ?fs = "fs(p \<mapsto> y @ take chunkSize data)"
    have "length (drop chunkSize data) < length data" using False by (simp add: chunkSize_def)
    then have "write_chunks agent p (drop chunkSize data) ?fs =
        (None, ?fs(p \<mapsto> (y @ take chunkSize data) @ drop chunkSize data))"
      using "1.IH" by auto
    with False 1 show ?thesis by (subst write_chunks.simps) (simp add: agent_append)
  qed
qed


end
