(* ===== verification/Tasks.thy ===== *)
theory Tasks imports GoBase "HOL-Library.Multiset" begin

text \<open>
  \<^verbatim>\<open>control-plane/internal/taskmanager/taskmanager.go\<close>: the registry of
  background tasks.  Each operation below is one critical section of the code, so that the
  goroutines of a task, of its cancellations and of the sweeper interleave freely: a change that is
  followed by a broadcast puts its event into \<open>m_pending\<close>, and the broadcast is a step of its own;
  likewise \<open>Cancel\<close> ends with the cancelled context and leaves the call of \<open>OnCancel\<close> to a later
  step (\<open>m_cleanups\<close>).  The functions of a task (\<open>Run\<close>, \<open>OnCancel\<close>) are outside; a subscriber's
  channel is the list of the events in it.
\<close>

section \<open>Data\<close>

datatype TaskState = TaskRunning | TaskSucceeded | TaskFailed | TaskCanceled

record Task =
  tk_ID :: string
  tk_Type :: string
  tk_InstanceID :: iid
  tk_UserID :: nat
  tk_ResourceID :: string
  tk_ResourceName :: string
  tk_Title :: string
  tk_State :: TaskState
  tk_Message :: string
  tk_Cancellable :: bool
  tk_StartedAt :: gtime
  tk_EndedAt :: "gtime option"

datatype EventType = EventStarted | EventUpdated | EventEnded

type_synonym TaskEvent = "EventType \<times> Task"

record StartOpts =
  so_Type :: string
  so_InstanceID :: iid
  so_UserID :: nat
  so_ResourceID :: string
  so_ResourceName :: string
  so_Title :: string
  so_OnCancel :: bool

record Filter =
  f_Type :: string
  f_InstanceID :: iid
  f_UserID :: nat
  f_ResourceID :: string
  f_State :: "TaskState option"
  f_OnlyActive :: bool

record taskInternal =
  ti_pub :: Task
  ti_onCancel :: bool
  ti_canceled :: bool

record TaskManager =
  m_RetainTerminal :: duration
  m_SubscriberBuffer :: nat
  m_tasks :: "string \<rightharpoonup> taskInternal"
  m_subs :: "nat \<rightharpoonup> TaskEvent list"
  m_nextSub :: nat
  m_used :: "string list"
  m_goroutines :: "string list"
  m_ctxCanceled :: "string list"
  m_cleanups :: "string list"
  m_onCancelCalls :: "string list"
  m_pending :: "TaskEvent list"
  m_broadcasts :: "TaskEvent list"

datatype task_error = ErrNotFound | ErrNotCancellable | ErrAlreadyTerminal

section \<open>Operations\<close>

definition NewManager :: "duration \<Rightarrow> int \<Rightarrow> TaskManager" where
  "NewManager retain buffer =
     \<lparr>m_RetainTerminal = (if retain \<le> 0 then minutes 60 else retain),
      m_SubscriberBuffer = (if buffer \<le> 0 then 32 else nat buffer),
      m_tasks = Map.empty, m_subs = Map.empty, m_nextSub = 0, m_used = [], m_goroutines = [],
      m_ctxCanceled = [], m_cleanups = [], m_onCancelCalls = [], m_pending = [], m_broadcasts = []\<rparr>"

definition broadcast :: "TaskEvent \<Rightarrow> TaskManager \<Rightarrow> TaskManager" where
  "broadcast ev m =
     m\<lparr>m_subs := (\<lambda>k. map_option (\<lambda>ch. if length ch < m_SubscriberBuffer m then ch @ [ev] else ch) (m_subs m k)),
       m_broadcasts := m_broadcasts m @ [ev]\<rparr>"

definition Start :: "gtime \<Rightarrow> string \<Rightarrow> StartOpts \<Rightarrow> TaskManager \<Rightarrow> TaskManager" where
  "Start now tid opts m =
     (let t = \<lparr>tk_ID = tid, tk_Type = so_Type opts, tk_InstanceID = so_InstanceID opts,
               tk_UserID = so_UserID opts, tk_ResourceID = so_ResourceID opts,
               tk_ResourceName = so_ResourceName opts, tk_Title = so_Title opts,
               tk_State = TaskRunning, tk_Message = [], tk_Cancellable = so_OnCancel opts,
               tk_StartedAt = now, tk_EndedAt = None\<rparr>
      in broadcast (EventStarted, t)
           (m\<lparr>m_tasks := (m_tasks m)(tid \<mapsto> \<lparr>ti_pub = t, ti_onCancel = so_OnCancel opts, ti_canceled = False\<rparr>),
              m_used := m_used m @ [tid], m_goroutines := m_goroutines m @ [tid]\<rparr>))"

definition Get :: "string \<Rightarrow> TaskManager \<Rightarrow> Task option" where
  "Get tid m = map_option ti_pub (m_tasks m tid)"

definition matches :: "Filter \<Rightarrow> Task \<Rightarrow> bool" where
  "matches f t \<longleftrightarrow>
     \<not> (f_Type f \<noteq> [] \<and> tk_Type t \<noteq> f_Type f) \<and>
     \<not> (f_InstanceID f \<noteq> 0 \<and> tk_InstanceID t \<noteq> f_InstanceID f) \<and>
     \<not> (f_UserID f \<noteq> 0 \<and> tk_UserID t \<noteq> f_UserID f) \<and>
     \<not> (f_ResourceID f \<noteq> [] \<and> tk_ResourceID t \<noteq> f_ResourceID f) \<and>
     \<not> (f_State f \<noteq> None \<and> Some (tk_State t) \<noteq> f_State f) \<and>
     \<not> (f_OnlyActive f \<and> tk_State t \<noteq> TaskRunning)"

text \<open>The insertion sort of \<open>List\<close>: the inner loop sinks the element at the end of the sorted part
  (kept reversed) below the later ones.\<close>

fun sink :: "Task \<Rightarrow> Task list \<Rightarrow> Task list" where
  "sink t [] = [t]"
| "sink t (u # us) = (if tk_StartedAt u > tk_StartedAt t then u # sink t us else t # u # us)"

definition sort_by_start :: "Task list \<Rightarrow> Task list" where
  "sort_by_start ts = rev (foldl (\<lambda>acc t. sink t acc) [] ts)"

text \<open>\<open>keys\<close> is the walk over the map.\<close>

definition List :: "Filter \<Rightarrow> string list \<Rightarrow> TaskManager \<Rightarrow> Task list" where
  "List f keys m = sort_by_start (filter (matches f) (List.map_filter (\<lambda>k. Get k m) keys))"

definition Cancel :: "string \<Rightarrow> TaskManager \<Rightarrow> task_error option \<times> TaskManager" where
  "Cancel tid m =
     (case m_tasks m tid of
        None \<Rightarrow> (Some ErrNotFound, m)
      | Some ti \<Rightarrow>
          if tk_State (ti_pub ti) \<noteq> TaskRunning then (Some ErrAlreadyTerminal, m)
          else if \<not> ti_onCancel ti then (Some ErrNotCancellable, m)
          else
            let m1 = m\<lparr>m_tasks := (m_tasks m)(tid \<mapsto> ti\<lparr>ti_canceled := True\<rparr>)\<rparr>
            in if ti_canceled ti then (None, m1)
               else (None, m1\<lparr>m_ctxCanceled := m_ctxCanceled m @ [tid], m_cleanups := m_cleanups m @ [tid]\<rparr>))"

definition runOnCancel :: "string \<Rightarrow> TaskManager \<Rightarrow> TaskManager" where
  "runOnCancel tid m =
     (if tid \<in> set (m_cleanups m)
      then m\<lparr>m_cleanups := remove1 tid (m_cleanups m), m_onCancelCalls := m_onCancelCalls m @ [tid]\<rparr>
      else m)"

definition Subscribe :: "TaskManager \<Rightarrow> nat \<times> TaskManager" where
  "Subscribe m = (m_nextSub m, m\<lparr>m_nextSub := m_nextSub m + 1, m_subs := (m_subs m)(m_nextSub m \<mapsto> [])\<rparr>)"

definition Unsubscribe :: "nat \<Rightarrow> TaskManager \<Rightarrow> TaskManager" where
  "Unsubscribe k m = m\<lparr>m_subs := (m_subs m)(k := None)\<rparr>"

definition updateMessage :: "string \<Rightarrow> string \<Rightarrow> TaskManager \<Rightarrow> TaskManager" where
  "updateMessage tid msg m =
     (case m_tasks m tid of
        None \<Rightarrow> m
      | Some ti \<Rightarrow>
          if tk_State (ti_pub ti) \<noteq> TaskRunning then m
          else let p = (ti_pub ti)\<lparr>tk_Message := msg\<rparr>
               in m\<lparr>m_tasks := (m_tasks m)(tid \<mapsto> ti\<lparr>ti_pub := p\<rparr>),
                    m_pending := m_pending m @ [(EventUpdated, p)]\<rparr>)"

definition ended :: "gtime \<Rightarrow> string option \<Rightarrow> taskInternal \<Rightarrow> Task" where
  "ended now runErr ti =
     (let p = ti_pub ti;
          p1 = (if ti_canceled ti
                then p\<lparr>tk_State := TaskCanceled,
                       tk_Message := (if tk_Message p = [] then ''canceled'' else tk_Message p)\<rparr>
                else case runErr of
                       Some e \<Rightarrow> p\<lparr>tk_State := TaskFailed, tk_Message := e\<rparr>
                     | None \<Rightarrow> p\<lparr>tk_State := TaskSucceeded\<rparr>)
      in p1\<lparr>tk_EndedAt := Some now\<rparr>)"

definition finish :: "gtime \<Rightarrow> string \<Rightarrow> string option \<Rightarrow> TaskManager \<Rightarrow> TaskManager" where
  "finish now tid runErr m =
     (case m_tasks m tid of
        None \<Rightarrow> m
      | Some ti \<Rightarrow>
          m\<lparr>m_tasks := (m_tasks m)(tid \<mapsto> ti\<lparr>ti_pub := ended now runErr ti\<rparr>),
            m_pending := m_pending m @ [(EventEnded, ended now runErr ti)]\<rparr>)"

definition gcOnce :: "gtime \<Rightarrow> TaskManager \<Rightarrow> TaskManager" where
  "gcOnce now m =
     m\<lparr>m_tasks := keep_where (\<lambda>k ti. \<not> (case tk_EndedAt (ti_pub ti) of None \<Rightarrow> False
                                   | Some e \<Rightarrow> e < now - m_RetainTerminal m)) (m_tasks m)\<rparr>"

definition CloseManager :: "TaskManager \<Rightarrow> TaskManager" where
  "CloseManager m = m\<lparr>m_subs := Map.empty\<rparr>"

section \<open>Runs\<close>

text \<open>A task's goroutine calls \<open>finish\<close> once, when \<open>Run\<close> returns or panics; ids are fresh.  A pending
  broadcast may be carried out at any time.\<close>

datatype task_act =
    AStart gtime string StartOpts
  | ACancel string
  | AOnCancel string
  | AMessage string string
  | AReturn gtime string "string option"
  | ABroadcast nat
  | ASubscribe
  | AUnsubscribe nat
  | AReceive nat
  | AGc gtime
  | AClose

definition deliver :: "nat \<Rightarrow> TaskManager \<Rightarrow> TaskManager" where
  "deliver n m =
     (if n < length (m_pending m)
      then broadcast (m_pending m ! n) (m\<lparr>m_pending := take n (m_pending m) @ drop (Suc n) (m_pending m)\<rparr>)
      else m)"

definition receive :: "nat \<Rightarrow> TaskManager \<Rightarrow> TaskManager" where
  "receive k m = m\<lparr>m_subs := (m_subs m)(k := map_option tl (m_subs m k))\<rparr>"

fun act :: "task_act \<Rightarrow> TaskManager \<Rightarrow> TaskManager" where
  "act (AStart now tid opts) m = (if tid \<in> set (m_used m) then m else Start now tid opts m)"
| "act (ACancel tid) m = snd (Cancel tid m)"
| "act (AOnCancel tid) m = runOnCancel tid m"
| "act (AMessage tid msg) m = updateMessage tid msg m"
| "act (AReturn now tid e) m =
     (if tid \<in> set (m_goroutines m)
      then finish now tid e (m\<lparr>m_goroutines := remove1 tid (m_goroutines m)\<rparr>) else m)"
| "act (ABroadcast n) m = deliver n m"
| "act ASubscribe m = snd (Subscribe m)"
| "act (AUnsubscribe k) m = Unsubscribe k m"
| "act (AReceive k) m = receive k m"
| "act (AGc now) m = gcOnce now m"
| "act AClose m = CloseManager m"

text \<open>What the state says about one task: its entry, whether its id was used, how many goroutines run
  it, and how often its \<open>OnCancel\<close> was or will be called.\<close>

type_synonym task_view = "taskInternal option \<times> bool \<times> nat \<times> nat"

definition view :: "TaskManager \<Rightarrow> string \<Rightarrow> task_view" where
  "view m tid = (m_tasks m tid, tid \<in> set (m_used m), count_list (m_goroutines m) tid,
                 count_list (m_cleanups m) tid + count_list (m_onCancelCalls m) tid)"

fun view_ok :: "task_view \<Rightarrow> bool" where
  "view_ok (None, used, g, c) \<longleftrightarrow> g = 0 \<and> c \<le> 1 \<and> (used \<or> c = 0)"
| "view_ok (Some ti, used, g, c) \<longleftrightarrow>
     used \<and> g \<le> 1 \<and> c \<le> 1 \<and>
     (tk_State (ti_pub ti) = TaskRunning \<longleftrightarrow> g = 1) \<and>
     (tk_State (ti_pub ti) = TaskRunning \<longleftrightarrow> tk_EndedAt (ti_pub ti) = None) \<and>
     (ti_canceled ti \<longleftrightarrow> c = 1) \<and> (ti_canceled ti \<longrightarrow> ti_onCancel ti) \<and>
     (tk_State (ti_pub ti) = TaskCanceled \<longleftrightarrow> ti_canceled ti \<and> tk_State (ti_pub ti) \<noteq> TaskRunning)"

definition task_ok :: "TaskManager \<Rightarrow> string \<Rightarrow> bool" where
  "task_ok m tid \<longleftrightarrow> view_ok (view m tid)"

lemma count_remove1: "count_list (remove1 x xs) y = count_list xs y - (if x = y then 1 else 0)"
  by (induction xs) (auto simp: count_list_0_iff)

lemma count_one: "count_list xs x = 0 \<longleftrightarrow> x \<notin> set xs"
  by (simp add: count_list_0_iff)

lemma broadcast_frame [frame_simps]:
  "m_tasks (broadcast ev m) = m_tasks m" "m_used (broadcast ev m) = m_used m"
  "m_goroutines (broadcast ev m) = m_goroutines m" "m_cleanups (broadcast ev m) = m_cleanups m"
  "m_onCancelCalls (broadcast ev m) = m_onCancelCalls m"
  "m_SubscriberBuffer (broadcast ev m) = m_SubscriberBuffer m"
  by (simp_all add: broadcast_def)

lemma other_frame [frame_simps]:
  "m_tasks (Unsubscribe k m) = m_tasks m" "m_used (Unsubscribe k m) = m_used m"
  "m_goroutines (Unsubscribe k m) = m_goroutines m" "m_cleanups (Unsubscribe k m) = m_cleanups m"
  "m_onCancelCalls (Unsubscribe k m) = m_onCancelCalls m"
  "m_tasks (receive k m) = m_tasks m" "m_used (receive k m) = m_used m"
  "m_goroutines (receive k m) = m_goroutines m" "m_cleanups (receive k m) = m_cleanups m"
  "m_onCancelCalls (receive k m) = m_onCancelCalls m"
  "m_tasks (CloseManager m) = m_tasks m" "m_used (CloseManager m) = m_used m"
  "m_goroutines (CloseManager m) = m_goroutines m" "m_cleanups (CloseManager m) = m_cleanups m"
  "m_onCancelCalls (CloseManager m) = m_onCancelCalls m"
  "m_tasks (snd (Subscribe m)) = m_tasks m" "m_used (snd (Subscribe m)) = m_used m"
  "m_goroutines (snd (Subscribe m)) = m_goroutines m" "m_cleanups (snd (Subscribe m)) = m_cleanups m"
  "m_onCancelCalls (snd (Subscribe m)) = m_onCancelCalls m"
  "m_tasks (deliver n m) = m_tasks m" "m_used (deliver n m) = m_used m"
  "m_goroutines (deliver n m) = m_goroutines m" "m_cleanups (deliver n m) = m_cleanups m"
  "m_onCancelCalls (deliver n m) = m_onCancelCalls m"
  by (simp_all add: Unsubscribe_def receive_def CloseManager_def Subscribe_def deliver_def broadcast_frame)

lemma view_simple:
  "view (act (ABroadcast n) m) k = view m k" "view (act ASubscribe m) k = view m k"
  "view (act (AUnsubscribe j) m) k = view m k" "view (act (AReceive j) m) k = view m k"
  "view (act AClose m) k = view m k"
  by (simp_all add: view_def frame_simps)

lemma view_start: "tid \<notin> set (m_used m) \<Longrightarrow> view (Start now tid opts m) k =
   (if k = tid then (Some \<lparr>ti_pub = \<lparr>tk_ID = tid, tk_Type = so_Type opts, tk_InstanceID = so_InstanceID opts,
               tk_UserID = so_UserID opts, tk_ResourceID = so_ResourceID opts,
               tk_ResourceName = so_ResourceName opts, tk_Title = so_Title opts,
               tk_State = TaskRunning, tk_Message = [], tk_Cancellable = so_OnCancel opts,
               tk_StartedAt = now, tk_EndedAt = None\<rparr>, ti_onCancel = so_OnCancel opts, ti_canceled = False\<rparr>,
               True, Suc (count_list (m_goroutines m) tid),
               count_list (m_cleanups m) tid + count_list (m_onCancelCalls m) tid)
    else view m k)"
  by (simp add: view_def Start_def Let_def frame_simps)

lemma task_ok_start: "task_ok m k \<Longrightarrow> tid \<notin> set (m_used m) \<Longrightarrow> task_ok (Start now tid opts m) k"
proof -
  assume "task_ok m k" "tid \<notin> set (m_used m)"
  then show ?thesis
    by (cases "m_tasks m k") (auto simp: task_ok_def view_start, auto simp: view_def)
qed

lemma view_cancel: "view (snd (Cancel tid m)) k =
   (case m_tasks m tid of None \<Rightarrow> view m k
    | Some ti \<Rightarrow>
        if k = tid \<and> tk_State (ti_pub ti) = TaskRunning \<and> ti_onCancel ti
        then (Some (ti\<lparr>ti_canceled := True\<rparr>), tid \<in> set (m_used m), count_list (m_goroutines m) tid,
              (if ti_canceled ti then 0 else 1) + count_list (m_cleanups m) tid + count_list (m_onCancelCalls m) tid)
        else view m k)"
  by (auto simp: view_def Cancel_def Let_def split: option.split)

lemma task_ok_cancel: "task_ok m k \<Longrightarrow> task_ok (snd (Cancel tid m)) k"
  by (cases "m_tasks m tid"; cases "k = tid") (auto simp: task_ok_def view_cancel, auto simp: view_def)

lemma view_onCancel: "view (runOnCancel tid m) k = view m k"
proof (cases "tid \<in> set (m_cleanups m)")
  case True
  then have "0 < count_list (m_cleanups m) tid" using count_one [of "m_cleanups m" tid] by linarith
  then show ?thesis using True by (auto simp: view_def runOnCancel_def count_remove1)
qed (simp add: runOnCancel_def)

lemma view_message: "view (updateMessage tid msg m) k =
   (case m_tasks m tid of None \<Rightarrow> view m k
    | Some ti \<Rightarrow>
        if k = tid \<and> tk_State (ti_pub ti) = TaskRunning
        then (Some (ti\<lparr>ti_pub := (ti_pub ti)\<lparr>tk_Message := msg\<rparr>\<rparr>), tid \<in> set (m_used m),
              count_list (m_goroutines m) tid, count_list (m_cleanups m) tid + count_list (m_onCancelCalls m) tid)
        else view m k)"
  by (auto simp: view_def updateMessage_def Let_def split: option.split)

lemma task_ok_message: "task_ok m k \<Longrightarrow> task_ok (updateMessage tid msg m) k"
  by (cases "m_tasks m tid"; cases "k = tid") (auto simp: task_ok_def view_message, auto simp: view_def)

lemma ended_simps [simp]:
  "tk_EndedAt (ended now e ti) = Some now"
  "tk_State (ended now e ti) = (if ti_canceled ti then TaskCanceled else if e = None then TaskSucceeded else TaskFailed)"
  by (simp_all add: ended_def Let_def split: option.splits)

lemma task_ok_return:
  assumes "task_ok m k" and "tid \<in> set (m_goroutines m)"
  shows "task_ok (finish now tid e (m\<lparr>m_goroutines := remove1 tid (m_goroutines m)\<rparr>)) k"
proof -
  let ?m = "finish now tid e (m\<lparr>m_goroutines := remove1 tid (m_goroutines m)\<rparr>)"
  have pos: "0 < count_list (m_goroutines m) tid" using assms(2) count_one [of "m_goroutines m" tid] by linarith
  show ?thesis
  proof (cases "k = tid")
    case True
    then obtain ti where ti: "m_tasks m k = Some ti" using assms(1) pos
      by (cases "m_tasks m k") (auto simp: task_ok_def view_def)
    then have "view ?m k = (Some (ti\<lparr>ti_pub := ended now e ti\<rparr>), k \<in> set (m_used m),
        count_list (m_goroutines m) k - 1, count_list (m_cleanups m) k + count_list (m_onCancelCalls m) k)"
      using True by (simp add: view_def finish_def count_remove1)
    with assms(1) ti True show ?thesis by (simp add: task_ok_def view_def)
  next
    case False
    then have "view ?m k = view m k"
      by (simp add: view_def finish_def count_remove1 split: option.split)
    with assms(1) show ?thesis by (simp add: task_ok_def)
  qed
qed

lemma task_ok_gc: "task_ok m k \<Longrightarrow> task_ok (gcOnce now m) k"
proof (cases "m_tasks m k")
  case (Some ti)
  assume "task_ok m k"
  with Some show ?thesis
    by (cases "tk_EndedAt (ti_pub ti)") (auto simp: task_ok_def view_def gcOnce_def keep_where_def)
qed (simp add: task_ok_def view_def gcOnce_def keep_where_def)

lemma task_ok_act: "task_ok m k \<Longrightarrow> task_ok (act x m) k"
proof (cases x)
  case (ABroadcast n)
  assume "task_ok m k"
  then show ?thesis unfolding ABroadcast by (simp only: task_ok_def view_simple)
next
  case ASubscribe
  assume "task_ok m k"
  then show ?thesis unfolding ASubscribe by (simp only: task_ok_def view_simple)
next
  case (AUnsubscribe j)
  assume "task_ok m k"
  then show ?thesis unfolding AUnsubscribe by (simp only: task_ok_def view_simple)
next
  case (AReceive j)
  assume "task_ok m k"
  then show ?thesis unfolding AReceive by (simp only: task_ok_def view_simple)
next
  case AClose
  assume "task_ok m k"
  then show ?thesis unfolding AClose by (simp only: task_ok_def view_simple)
next
  case (AOnCancel tid)
  assume "task_ok m k"
  then show ?thesis unfolding AOnCancel by (simp add: task_ok_def view_onCancel)
qed (simp_all add: task_ok_start task_ok_cancel task_ok_message task_ok_return task_ok_gc)

lemma task_ok_run: "task_ok (fold act xs (NewManager retain buffer)) k"
  by (rule fold_preserves [where P = "\<lambda>m. task_ok m k"])
     (simp_all add: task_ok_act, simp add: task_ok_def view_def NewManager_def)

text \<open>C14: However the goroutines interleave, a task's \<open>OnCancel\<close> is called at most once, and only for a
  task that was started with one and that a \<open>Cancel\<close> reached while it ran; such a task can only
  end as canceled, whatever its function returns, and no other task ends so.\<close>

theorem cancel_at_most_once:
  "let m = fold act xs (NewManager retain buffer) in
     count_list (m_onCancelCalls m) tid \<le> 1 \<and>
     (case m_tasks m tid of None \<Rightarrow> True
      | Some ti \<Rightarrow>
          (ti_canceled ti \<longleftrightarrow> tid \<in> set (m_cleanups m @ m_onCancelCalls m)) \<and>
          \<not> (ti_canceled ti \<and> \<not> ti_onCancel ti) \<and>
          (tk_State (ti_pub ti) = TaskCanceled \<longleftrightarrow> ti_canceled ti \<and> tk_State (ti_pub ti) \<noteq> TaskRunning))"
proof -
  let ?m = "fold act xs (NewManager retain buffer)"
  have "count_list (m_cleanups ?m) tid + count_list (m_onCancelCalls ?m) tid = 0 \<longleftrightarrow>
        tid \<notin> set (m_cleanups ?m @ m_onCancelCalls ?m)" by (simp add: count_one)
  then show ?thesis
    using task_ok_run [of xs retain buffer tid]
    by (cases "m_tasks ?m tid") (auto simp: task_ok_def view_def Let_def)
qed

lemma final_step:
  assumes "m_tasks m tid = Some ti" and "tk_State (ti_pub ti) \<noteq> TaskRunning" and "task_ok m tid"
  shows "m_tasks (act x m) tid \<in> {None, Some ti}"
proof -
  have used: "tid \<in> set (m_used m)" "tid \<notin> set (m_goroutines m)"
    using assms by (auto simp: task_ok_def view_def simp flip: count_one)
  with assms show ?thesis
  proof (cases x)
    case (AGc now)
    with assms show ?thesis by (auto simp: gcOnce_def keep_where_def split: option.splits)
  qed (auto simp: Start_def Cancel_def updateMessage_def finish_def frame_simps runOnCancel_def Let_def
      split: option.splits)
qed

text \<open>A task that has ended does not change any more: state, message and end time stay what they
  were until the sweeper removes it, and it never comes back.\<close>

theorem terminal_is_final:
  assumes "m_tasks (fold act xs (NewManager retain buffer)) tid = Some ti"
    and "tk_State (ti_pub ti) \<noteq> TaskRunning"
  shows "m_tasks (fold act ys (fold act xs (NewManager retain buffer))) tid \<in> {None, Some ti}"
proof -
  have gone: "m_tasks (fold act ys m) tid = None"
    if "m_tasks m tid = None" "tid \<in> set (m_used m)" "task_ok m tid" for m ys
    using that
  proof (induction ys arbitrary: m)
    case (Cons y ys)
    have "m_tasks (act y m) tid = None \<and> tid \<in> set (m_used (act y m))"
      using Cons.prems
      by (cases y) (auto simp: Start_def Cancel_def updateMessage_def finish_def frame_simps runOnCancel_def
          Let_def gcOnce_def keep_where_def task_ok_def view_def count_one split: option.splits)
    with Cons task_ok_act show ?case by simp
  qed simp
  have "m_tasks (fold act ys m) tid \<in> {None, Some ti}"
    if "m_tasks m tid = Some ti" "task_ok m tid" for m
    using that
  proof (induction ys arbitrary: m)
    case (Cons y ys)
    have step: "m_tasks (act y m) tid \<in> {None, Some ti}" using final_step Cons.prems assms(2) by blast
    have ok: "task_ok (act y m) tid" using Cons.prems by (simp add: task_ok_act)
    show ?case
    proof (cases "m_tasks (act y m) tid")
      case None
      have "tid \<in> set (m_used m)" using Cons.prems by (simp add: task_ok_def view_def)
      then have "tid \<in> set (m_used (act y m))"
        by (cases y) (auto simp: Start_def Cancel_def updateMessage_def finish_def frame_simps runOnCancel_def
            Let_def gcOnce_def split: option.splits)
      with None ok gone show ?thesis by simp
    next
      case (Some ti')
      with step have "m_tasks (act y m) tid = Some ti" by simp
      with ok Cons.IH show ?thesis by simp
    qed
  qed simp
  with assms(1) task_ok_run show ?thesis by blast
qed

definition demo_opts :: StartOpts where
  "demo_opts = \<lparr>so_Type = ''backup.create'', so_InstanceID = 1, so_UserID = 2, so_ResourceID = [],
     so_ResourceName = [], so_Title = ''b'', so_OnCancel = True\<rparr>"

theorem terminal_is_final_witness:
  "\<exists>ti. m_tasks (fold act [AMessage ''t'' ''late''] (fold act [AStart 0 ''t'' demo_opts, AReturn 5 ''t'' None]
     (NewManager 0 0))) ''t'' \<in> {None, Some ti} \<and> tk_State (ti_pub ti) = TaskSucceeded"
proof -
  let ?m = "fold act [AStart 0 ''t'' demo_opts, AReturn 5 ''t'' None] (NewManager 0 0)"
  obtain ti where ti: "m_tasks ?m ''t'' = Some ti" "tk_State (ti_pub ti) = TaskSucceeded"
    by (simp add: Start_def finish_def NewManager_def demo_opts_def Let_def frame_simps)
  then show ?thesis
    using terminal_is_final [OF ti(1), of "[AMessage ''t'' ''late'']"] by (intro exI [of _ ti]) simp
qed

text \<open>The contract of \<open>OnCancel\<close> says that it runs before the task becomes canceled.  It need not:
  once the context is cancelled the task's goroutine may finish first, so that subscribers are
  told the task has ended as canceled while its clean-up has not begun.\<close>

theorem cleanup_after_canceled:
  "let m = fold act [AStart 0 tid demo_opts, ACancel tid, AReturn 1 tid e] (NewManager 0 0) in
     map_option (\<lambda>ti. tk_State (ti_pub ti)) (m_tasks m tid) = Some TaskCanceled \<and>
     map fst (m_pending m) = [EventEnded] \<and>
     m_onCancelCalls m = [] \<and> m_cleanups m = [tid]"
  by (simp add: Start_def finish_def NewManager_def demo_opts_def Let_def frame_simps Cancel_def ended_def
      broadcast_def)

section \<open>Listing\<close>

lemma mset_sink [simp]: "mset (sink t us) = add_mset t (mset us)"
  by (induction us) auto

lemma set_sink [simp]: "set (sink t us) = insert t (set us)"
  by (induction us) auto

lemma sorted_sink:
  "sorted_wrt (\<lambda>u v. tk_StartedAt v \<le> tk_StartedAt u) us \<Longrightarrow>
   sorted_wrt (\<lambda>u v. tk_StartedAt v \<le> tk_StartedAt u) (sink t us)"
  by (induction us) auto

lemma sort_by_start_spec:
  "sorted (map tk_StartedAt (sort_by_start ts)) \<and> mset (sort_by_start ts) = mset ts"
proof -
  have acc: "sorted_wrt (\<lambda>u v. tk_StartedAt v \<le> tk_StartedAt u) (foldl (\<lambda>acc t. sink t acc) acc ts) \<and>
        mset (foldl (\<lambda>acc t. sink t acc) acc ts) = mset ts + mset acc"
    if "sorted_wrt (\<lambda>u v. tk_StartedAt v \<le> tk_StartedAt u) acc" for acc
    using that
  proof (induction ts arbitrary: acc)
    case (Cons t ts)
    from Cons.IH [OF sorted_sink [OF Cons.prems]] show ?case by simp
  qed simp
  from acc [of "[]"] show ?thesis
    by (simp add: sort_by_start_def sorted_map sorted_wrt_rev)
qed

text \<open>Listing returns the tasks that match the filter, each once, in the order in which they
  started.\<close>

theorem list_matching_sorted:
  "sorted (map tk_StartedAt (List f keys m)) \<and>
   mset (List f keys m) = filter_mset (matches f) (mset (List.map_filter (\<lambda>k. Get k m) keys))"
  using sort_by_start_spec [of "filter (matches f) (List.map_filter (\<lambda>k. Get k m) keys)"]
  by (simp add: List_def)

section \<open>Subscribers\<close>

definition channels_ok :: "TaskManager \<Rightarrow> bool" where
  "channels_ok m \<longleftrightarrow>
     (\<forall>k ch. m_subs m k = Some ch \<longrightarrow> length ch \<le> m_SubscriberBuffer m \<and> subseq ch (m_broadcasts m))"

lemma subseq_prefix_trans: "subseq xs ys \<Longrightarrow> prefix ys zs \<Longrightarrow> subseq xs zs"
  by (meson prefix_imp_subseq subseq_order.order_trans)

lemma channels_broadcast: "channels_ok m \<Longrightarrow> channels_ok (broadcast ev m)"
proof -
  assume ok: "channels_ok m"
  have "length ch \<le> m_SubscriberBuffer m \<and> subseq ch (m_broadcasts m @ [ev])"
    if "m_subs (broadcast ev m) k = Some ch" for k ch
  proof -
    from that obtain c where c: "m_subs m k = Some c"
      "ch = (if length c < m_SubscriberBuffer m then c @ [ev] else c)" by (auto simp: broadcast_def)
    with ok have "length c \<le> m_SubscriberBuffer m" "subseq c (m_broadcasts m)"
      by (auto simp: channels_ok_def)
    moreover from this have "subseq (c @ [ev]) (m_broadcasts m @ [ev])" by (simp add: list_emb_append_mono)
    moreover have "subseq c (m_broadcasts m @ [ev])"
      using \<open>subseq c (m_broadcasts m)\<close> by (rule subseq_prefix_trans) simp
    ultimately show ?thesis using c by simp
  qed
  then show ?thesis by (simp add: channels_ok_def) (simp add: broadcast_def)
qed

lemma channels_frame:
  "channels_ok m \<Longrightarrow> m_subs m' = m_subs m \<Longrightarrow> m_broadcasts m' = m_broadcasts m \<Longrightarrow>
   m_SubscriberBuffer m' = m_SubscriberBuffer m \<Longrightarrow> channels_ok m'"
  by (simp add: channels_ok_def)

lemma channels_act: "channels_ok m \<Longrightarrow> channels_ok (act x m)"
proof (cases x)
  case (AReceive k)
  assume ok: "channels_ok m"
  have "subseq (tl c) bs" if "subseq c bs" for c bs :: "TaskEvent list"
    using that by (cases c) (auto intro: subseq_Cons')
  moreover have "length (tl c) \<le> n" if "length c \<le> n" for c :: "TaskEvent list" and n
    using that by simp
  ultimately show ?thesis using ok unfolding AReceive
    by (auto simp: channels_ok_def receive_def split: if_splits)
next
  case (ABroadcast n)
  assume ok: "channels_ok m"
  then have "channels_ok (m\<lparr>m_pending := take n (m_pending m) @ drop (Suc n) (m_pending m)\<rparr>)"
    by (rule channels_frame) simp_all
  with ok show ?thesis unfolding ABroadcast by (simp add: deliver_def channels_broadcast)
next
  case (AStart now tid opts)
  assume ok: "channels_ok m"
  show ?thesis unfolding AStart act.simps Start_def Let_def
    by (auto intro!: channels_broadcast channels_frame [OF ok] simp: ok)
qed (auto simp: channels_ok_def Cancel_def runOnCancel_def updateMessage_def finish_def Subscribe_def
    Unsubscribe_def gcOnce_def CloseManager_def Let_def split: option.split)

text \<open>A slow subscriber never blocks a broadcast and never holds more than its buffer; what waits
  for it is a part of what was broadcast, in the same order.\<close>

theorem subscriber_bounded:
  assumes "m_subs (fold act xs (NewManager retain buffer)) k = Some ch"
  shows "length ch \<le> (if buffer \<le> 0 then 32 else nat buffer) \<and>
    subseq ch (m_broadcasts (fold act xs (NewManager retain buffer)))"
proof -
  have "channels_ok (NewManager retain buffer)" by (simp add: channels_ok_def NewManager_def)
  then have "channels_ok (fold act xs (NewManager retain buffer))"
    by (rule fold_preserves [where P = channels_ok, rotated]) (rule channels_act)
  moreover have "m_SubscriberBuffer (act x m) = m_SubscriberBuffer m" for x m
    by (cases x) (auto simp: Start_def Cancel_def runOnCancel_def updateMessage_def finish_def Subscribe_def
        Unsubscribe_def gcOnce_def CloseManager_def deliver_def receive_def Let_def frame_simps split: option.split)
  then have "m_SubscriberBuffer (fold act xs m) = m_SubscriberBuffer m" for m
    by (induction xs arbitrary: m) simp_all
  ultimately show ?thesis using assms by (auto simp: channels_ok_def NewManager_def)
qed

theorem subscriber_bounded_witness:
  "length [(EventStarted, the (Get ''t'' (fold act [ASubscribe, AStart 0 ''t'' demo_opts] (NewManager 0 1))))] \<le> 1"
proof -
  have "m_subs (fold act [ASubscribe, AStart 0 ''t'' demo_opts] (NewManager 0 1)) 0 =
      Some [(EventStarted, the (Get ''t'' (fold act [ASubscribe, AStart 0 ''t'' demo_opts] (NewManager 0 1))))]"
    by (simp add: Subscribe_def Start_def broadcast_def NewManager_def Let_def Get_def)
  from subscriber_bounded [OF this] show ?thesis by simp
qed

section \<open>Sweeping\<close>

text \<open>The sweeper removes exactly the tasks that ended longer ago than the retention time; a running
  task is never removed.\<close>

theorem sweep_exact:
  "let m = fold act xs (NewManager retain buffer) in
     m_tasks (gcOnce now m) tid =
       (case m_tasks m tid of
          None \<Rightarrow> None
        | Some ti \<Rightarrow>
            if tk_State (ti_pub ti) = TaskRunning \<or> now - m_RetainTerminal m \<le> the (tk_EndedAt (ti_pub ti))
            then Some ti else None)"
proof -
  let ?m = "fold act xs (NewManager retain buffer)"
  show ?thesis
  proof (cases "m_tasks ?m tid")
    case (Some ti)
    then have "tk_State (ti_pub ti) = TaskRunning \<longleftrightarrow> tk_EndedAt (ti_pub ti) = None"
      using task_ok_run [of xs retain buffer tid] unfolding task_ok_def view_def by (metis view_ok.simps(2))
    with Some show ?thesis
      by (cases "tk_EndedAt (ti_pub ti)") (auto simp: gcOnce_def keep_where_def Let_def)
  qed (simp add: gcOnce_def keep_where_def Let_def)
qed

end
