(* ===== verification/Database.thy ===== *)
theory Database imports GoBase "HOL-Library.List_Lexorder" "HOL-Library.Char_ord" begin

text \<open>
  \<^verbatim>\<open>control-plane/internal/database\<close> (teams.go, database.go, upsert.go and the
  row types of models/models.go): the tables behind accounts, teams and access,
  and the queries on them.

  A table is the list of its rows, in insertion order.  A query is the list
  function its SQL denotes: \<open>WHERE\<close> is a filter, \<open>JOIN\<close> a comprehension,
  \<open>ORDER BY\<close> a stable sort (strings compare bytewise).  The database is taken to be
  reachable: the errors a query can give are a missing row (\<open>First\<close>) and a violated
  primary key or unique index (\<open>Create\<close>, \<open>Update\<close>).  Columns nothing here reads are
  left out.
\<close>

section \<open>Rows and tables\<close>

record Team =
  team_ID :: nat
  team_Name :: string
  team_Description :: string

record TeamMember =
  tm_TeamID :: nat
  tm_UserID :: nat
  tm_Role :: string

record TeamProvider =
  tp_TeamID :: nat
  tp_ProviderID :: nat

record User =
  user_ID :: nat
  Username :: string
  PasswordHash :: string
  user_Role :: string
  LastLoginAt :: "gtime option"

record UserInstance =
  ui_UserID :: nat
  ui_InstanceID :: nat

record Instance =
  inst_ID :: nat
  inst_Name :: string
  inst_DisplayName :: string
  inst_Status :: string
  inst_CPURequest :: string
  inst_CPULimit :: string
  inst_MemoryRequest :: string
  inst_MemoryLimit :: string
  inst_StorageHomebrew :: string
  inst_StorageHome :: string
  inst_BraveAPIKey :: string
  inst_ContainerImage :: string
  inst_VNCResolution :: string
  inst_GatewayToken :: string
  inst_ModelsConfig :: string
  inst_DefaultModel :: string
  inst_LogPaths :: string
  inst_AllowedSourceIPs :: string
  inst_EnabledProviders :: string
  inst_Timezone :: string
  inst_UserAgent :: string
  inst_EnvVars :: string
  inst_SortOrder :: int
  inst_BrowserProvider :: string
  inst_BrowserImage :: string
  inst_BrowserIdleMinutes :: "int option"
  inst_BrowserStorage :: string
  inst_BrowserActive :: bool
  inst_TeamID :: nat
  inst_UpdatedAt :: "gtime option"

record LLMProvider =
  prov_ID :: nat
  prov_Key :: string
  prov_InstanceID :: "nat option"
  prov_Provider :: string
  prov_Name :: string
  prov_BaseURL :: string
  prov_APIType :: string
  prov_APIKey :: string
  prov_Models :: string
  prov_OAuthAccessToken :: string
  prov_OAuthRefreshToken :: string
  prov_OAuthExpiresAt :: int
  prov_OAuthAccountID :: string
  prov_OAuthEmail :: string

record LLMGatewayKey =
  gk_InstanceID :: nat
  gk_ProviderID :: nat
  gk_GatewayKey :: string

record WebAuthnCredential =
  cred_ID :: string
  cred_UserID :: nat
  cred_Name :: string
  cred_SignCount :: nat

record Backup =
  bk_ID :: nat
  bk_InstanceID :: nat
  bk_InstanceName :: string
  bk_Status :: string
  bk_FilePath :: string
  bk_Paths :: string
  bk_SizeBytes :: int
  bk_ErrorMessage :: string
  bk_Note :: string
  bk_CreatedAt :: gtime
  bk_CompletedAt :: "gtime option"

record BackupSchedule =
  bs_ID :: nat
  bs_InstanceIDs :: string
  bs_TeamIDs :: string
  bs_CronExpression :: string
  bs_Paths :: string
  bs_RetentionDays :: int
  bs_LastRunAt :: "gtime option"
  bs_NextRunAt :: "gtime option"
  bs_CreatedAt :: gtime

record SharedFolder =
  sf_ID :: nat
  sf_Name :: string
  sf_MountPath :: string
  sf_OwnerID :: nat
  sf_InstanceIDs :: string
  sf_TeamIDs :: string
  sf_CreatedAt :: gtime

record BrowserSession =
  br_InstanceID :: nat
  br_Provider :: string
  br_Status :: string
  br_Image :: string
  br_PodName :: string
  br_ProviderRef :: string
  br_LastUsedAt :: gtime
  br_StartedAt :: gtime
  br_StoppedAt :: "gtime option"
  br_ErrorMsg :: string

record KanbanBoard =
  kb_ID :: nat
  kb_Name :: string
  kb_Description :: string
  kb_EligibleInstances :: string

record KanbanTask =
  kt_ID :: nat
  kt_BoardID :: nat
  kt_Title :: string
  kt_Description :: string
  kt_Status :: string
  kt_AssignedInstanceID :: "nat option"
  kt_OpenClawSessionID :: string
  kt_OpenClawRunID :: string
  kt_EvaluatorProviderKey :: string
  kt_EvaluatorModel :: string

record KanbanComment =
  kc_ID :: nat
  kc_TaskID :: nat
  kc_Kind :: string
  kc_Author :: string
  kc_Body :: string
  kc_OpenClawSessionID :: string

record KanbanArtifact =
  ka_ID :: nat
  ka_TaskID :: nat
  ka_Path :: string
  ka_SizeBytes :: int
  ka_SHA256 :: string
  ka_StoragePath :: string

record InstanceSoul =
  so_InstanceID :: nat
  so_Summary :: string
  so_Skills :: string

record db =
  teams :: "Team list"
  team_members :: "TeamMember list"
  team_providers :: "TeamProvider list"
  users :: "User list"
  user_instances :: "UserInstance list"
  instances :: "Instance list"
  llm_providers :: "LLMProvider list"
  llm_gateway_keys :: "LLMGatewayKey list"
  credentials :: "WebAuthnCredential list"
  settings :: "string \<rightharpoonup> string"
  backups :: "Backup list"
  backup_schedules :: "BackupSchedule list"
  shared_folders :: "SharedFolder list"
  browser_sessions :: "BrowserSession list"
  kanban_boards :: "KanbanBoard list"
  kanban_tasks :: "KanbanTask list"
  kanban_comments :: "KanbanComment list"
  kanban_artifacts :: "KanbanArtifact list"
  instance_souls :: "InstanceSoul list"
  next_team :: nat
  next_user :: nat
  next_row :: "string \<Rightarrow> nat"

text \<open>The next id of a table is a counter: \<open>next_row\<close> holds those of the later tables, under the
  table's name.\<close>

definition empty_db :: db where
  "empty_db = \<lparr>teams = [], team_members = [], team_providers = [], users = [], user_instances = [], instances = [],
     llm_providers = [], llm_gateway_keys = [], credentials = [], settings = Map.empty, backups = [],
     backup_schedules = [], shared_folders = [], browser_sessions = [], kanban_boards = [], kanban_tasks = [],
     kanban_comments = [], kanban_artifacts = [], instance_souls = [], next_team = 1, next_user = 1,
     next_row = (\<lambda>_. 1)\<rparr>"

definition zero_instance :: Instance where
  "zero_instance = \<lparr>inst_ID = 0, inst_Name = [], inst_DisplayName = [], inst_Status = [], inst_CPURequest = [],
     inst_CPULimit = [], inst_MemoryRequest = [], inst_MemoryLimit = [], inst_StorageHomebrew = [],
     inst_StorageHome = [], inst_BraveAPIKey = [], inst_ContainerImage = [], inst_VNCResolution = [],
     inst_GatewayToken = [], inst_ModelsConfig = [], inst_DefaultModel = [], inst_LogPaths = [],
     inst_AllowedSourceIPs = [], inst_EnabledProviders = [], inst_Timezone = [], inst_UserAgent = [],
     inst_EnvVars = [], inst_SortOrder = 0, inst_BrowserProvider = [], inst_BrowserImage = [],
     inst_BrowserIdleMinutes = None, inst_BrowserStorage = [], inst_BrowserActive = False, inst_TeamID = 0,
     inst_UpdatedAt = None\<rparr>"

definition TeamRoleUser :: string where "TeamRoleUser = ''user''"
definition TeamRoleManager :: string where "TeamRoleManager = ''manager''"

lemma team_roles_differ [simp]: "TeamRoleUser \<noteq> TeamRoleManager" "TeamRoleManager \<noteq> TeamRoleUser"
  "TeamRoleUser \<noteq> []" "TeamRoleManager \<noteq> []"
  by (simp_all add: TeamRoleUser_def TeamRoleManager_def)

section \<open>Settings\<close>

definition GetSetting :: "string \<Rightarrow> db \<Rightarrow> string option" where
  "GetSetting k d = settings d k"

definition upsertSetting :: "string \<Rightarrow> string \<Rightarrow> db \<Rightarrow> db" where
  "upsertSetting k v d = d\<lparr>settings := (settings d)(k \<mapsto> v)\<rparr>"

definition SetSetting :: "string \<Rightarrow> string \<Rightarrow> db \<Rightarrow> db" where
  "SetSetting k v d = upsertSetting k v d"

definition DeleteSetting :: "string \<Rightarrow> db \<Rightarrow> db" where
  "DeleteSetting k d = d\<lparr>settings := (settings d)(k := None)\<rparr>"

section \<open>Users, grants and credentials\<close>

definition GetUserByUsername :: "string \<Rightarrow> db \<Rightarrow> User option" where
  "GetUserByUsername n d = List.find (\<lambda>u. Username u = n) (users d)"

definition GetUserByID :: "nat \<Rightarrow> db \<Rightarrow> User option" where
  "GetUserByID i d = List.find (\<lambda>u. user_ID u = i) (users d)"

text \<open>\<open>Create\<close> fills in the id; the unique index on the username can refuse the row.\<close>

definition db_CreateUser :: "User \<Rightarrow> db \<Rightarrow> (User \<times> db) option" where
  "db_CreateUser u d =
     (if Username u \<in> Username ` set (users d) then None
      else let u' = u\<lparr>user_ID := next_user d\<rparr>
           in Some (u', d\<lparr>users := users d @ [u'], next_user := next_user d + 1\<rparr>))"

definition db_DeleteUser :: "nat \<Rightarrow> db \<Rightarrow> db" where
  "db_DeleteUser i d =
     (let d1 = d\<lparr>user_instances := filter (\<lambda>g. ui_UserID g \<noteq> i) (user_instances d)\<rparr>;
          d2 = d1\<lparr>credentials := filter (\<lambda>c. cred_UserID c \<noteq> i) (credentials d1)\<rparr>
      in d2\<lparr>users := filter (\<lambda>u. user_ID u \<noteq> i) (users d2)\<rparr>)"

definition update_user :: "int \<Rightarrow> (User \<Rightarrow> User) \<Rightarrow> db \<Rightarrow> db" where
  \<comment> \<open>\<open>Model(&User{}).Where("id = ?", i).Update(...)\<close>\<close>
  "update_user i f d = d\<lparr>users := map (\<lambda>u. if int (user_ID u) = i then f u else u) (users d)\<rparr>"

definition UpdateUserPassword :: "nat \<Rightarrow> string \<Rightarrow> db \<Rightarrow> db" where
  "UpdateUserPassword i h d = update_user (int i) (\<lambda>u. u\<lparr>PasswordHash := h\<rparr>) d"

definition TouchUserLastLogin :: "gtime \<Rightarrow> nat \<Rightarrow> db \<Rightarrow> db" where
  "TouchUserLastLogin now i d = update_user (int i) (\<lambda>u. u\<lparr>LastLoginAt := Some now\<rparr>) d"

definition db_ListUsers :: "db \<Rightarrow> User list" where
  "db_ListUsers d = sort_key user_ID (users d)"

definition UserCount :: "db \<Rightarrow> nat" where
  "UserCount d = length (users d)"

definition GetFirstAdmin :: "db \<Rightarrow> User option" where
  "GetFirstAdmin d = List.find (\<lambda>u. user_Role u = ''admin'') (sort_key user_ID (users d))"

definition GetUserInstances :: "nat \<Rightarrow> db \<Rightarrow> nat list" where
  "GetUserInstances i d = map ui_InstanceID (filter (\<lambda>g. ui_UserID g = i) (user_instances d))"

text \<open>\<open>SetUserInstances\<close> runs outside a transaction: a duplicate in the list stops it at
  the violated primary key, with the rows created so far in place.\<close>

fun create_grants :: "nat \<Rightarrow> nat list \<Rightarrow> UserInstance list \<Rightarrow> bool \<times> UserInstance list" where
  "create_grants i [] gs = (True, gs)"
| "create_grants i (k # ks) gs =
     (let g = \<lparr>ui_UserID = i, ui_InstanceID = k\<rparr> in
      if g \<in> set gs then (False, gs) else create_grants i ks (gs @ [g]))"

definition SetUserInstances :: "nat \<Rightarrow> nat list \<Rightarrow> db \<Rightarrow> bool \<times> db" where
  "SetUserInstances i ks d =
     (let (ok, gs) = create_grants i ks (filter (\<lambda>g. ui_UserID g \<noteq> i) (user_instances d))
      in (ok, d\<lparr>user_instances := gs\<rparr>))"

definition IsUserAssignedToInstance :: "nat \<Rightarrow> nat \<Rightarrow> db \<Rightarrow> bool" where
  "IsUserAssignedToInstance i k d \<longleftrightarrow>
     0 < length (filter (\<lambda>g. ui_UserID g = i \<and> ui_InstanceID g = k) (user_instances d))"

definition GetWebAuthnCredentials :: "nat \<Rightarrow> db \<Rightarrow> WebAuthnCredential list" where
  "GetWebAuthnCredentials i d = filter (\<lambda>c. cred_UserID c = i) (credentials d)"

definition SaveWebAuthnCredential :: "WebAuthnCredential \<Rightarrow> db \<Rightarrow> db option" where
  "SaveWebAuthnCredential c d =
     (if cred_ID c \<in> cred_ID ` set (credentials d) then None
      else Some (d\<lparr>credentials := credentials d @ [c]\<rparr>))"

definition db_DeleteWebAuthnCredential :: "string \<Rightarrow> nat \<Rightarrow> db \<Rightarrow> db" where
  "db_DeleteWebAuthnCredential c i d =
     d\<lparr>credentials := filter (\<lambda>x. \<not> (cred_ID x = c \<and> cred_UserID x = i)) (credentials d)\<rparr>"

definition UpdateCredentialSignCount :: "string \<Rightarrow> nat \<Rightarrow> db \<Rightarrow> db" where
  "UpdateCredentialSignCount c n d =
     d\<lparr>credentials := map (\<lambda>x. if cred_ID x = c then x\<lparr>cred_SignCount := n\<rparr> else x) (credentials d)\<rparr>"

section \<open>Teams\<close>

definition GetInstance :: "nat \<Rightarrow> db \<Rightarrow> Instance option" where
  "GetInstance i d = List.find (\<lambda>x. inst_ID x = i) (instances d)"

definition db_ListTeams :: "db \<Rightarrow> Team list" where
  "db_ListTeams d = sort_key team_Name (teams d)"

definition GetTeam :: "nat \<Rightarrow> db \<Rightarrow> Team option" where
  "GetTeam i d = List.find (\<lambda>t. team_ID t = i) (teams d)"

definition db_CreateTeam :: "Team \<Rightarrow> db \<Rightarrow> (Team \<times> db) option" where
  "db_CreateTeam t d =
     (if team_Name t \<in> team_Name ` set (teams d) then None
      else let t' = t\<lparr>team_ID := next_team d\<rparr>
           in Some (t', d\<lparr>teams := teams d @ [t'], next_team := next_team d + 1\<rparr>))"

text \<open>The update map of the handler always sets the description, the name only when it is not empty.
  The unique index on the name can refuse the update.\<close>

definition db_UpdateTeam :: "nat \<Rightarrow> string option \<Rightarrow> string \<Rightarrow> db \<Rightarrow> db option" where
  "db_UpdateTeam i name desc d =
     (if (\<exists>t\<in>set (teams d). team_ID t = i) \<and> name \<noteq> None
         \<and> (\<exists>t\<in>set (teams d). team_ID t \<noteq> i \<and> Some (team_Name t) = name)
      then None
      else Some (d\<lparr>teams := map (\<lambda>t. if team_ID t = i
          then t\<lparr>team_Name := (case name of None \<Rightarrow> team_Name t | Some n \<Rightarrow> n), team_Description := desc\<rparr>
          else t) (teams d)\<rparr>))"

datatype team_error = Team_not_found | Team_has_instances | Invalid_team_role

definition db_DeleteTeam :: "nat \<Rightarrow> db \<Rightarrow> team_error + db" where
  "db_DeleteTeam i d =
     (case GetTeam i d of
        None \<Rightarrow> Inl Team_not_found
      | Some _ \<Rightarrow>
          if 0 < length (filter (\<lambda>x. inst_TeamID x = i) (instances d)) then Inl Team_has_instances
          else Inr (d\<lparr>team_members := filter (\<lambda>m. tm_TeamID m \<noteq> i) (team_members d),
                     team_providers := filter (\<lambda>p. tp_TeamID p \<noteq> i) (team_providers d),
                     teams := filter (\<lambda>t. team_ID t \<noteq> i) (teams d)\<rparr>))"

type_synonym TeamMembership = "Team \<times> string"

definition GetUserTeams :: "nat \<Rightarrow> db \<Rightarrow> TeamMembership list" where
  "GetUserTeams i d =
     [(t, tm_Role m). t \<leftarrow> sort_key team_Name (teams d),
                      m \<leftarrow> team_members d, tm_TeamID m = team_ID t \<and> tm_UserID m = i]"

definition GetTeamRole :: "nat \<Rightarrow> nat \<Rightarrow> db \<Rightarrow> string" where
  "GetTeamRole u t d =
     (case List.find (\<lambda>m. tm_TeamID m = t \<and> tm_UserID m = u) (team_members d) of
        None \<Rightarrow> [] | Some m \<Rightarrow> tm_Role m)"

definition IsTeamManager :: "nat \<Rightarrow> nat \<Rightarrow> db \<Rightarrow> bool" where
  "IsTeamManager u t d \<longleftrightarrow> GetTeamRole u t d = TeamRoleManager"

definition UserManagedTeamIDs :: "nat \<Rightarrow> db \<Rightarrow> nat list" where
  "UserManagedTeamIDs u d =
     map tm_TeamID (filter (\<lambda>m. tm_UserID m = u \<and> tm_Role m = TeamRoleManager) (team_members d))"

definition UserTeamIDs :: "nat \<Rightarrow> db \<Rightarrow> nat list" where
  "UserTeamIDs u d = map tm_TeamID (filter (\<lambda>m. tm_UserID m = u) (team_members d))"

record TeamMemberWithUser =
  mu_UserID :: nat
  mu_Username :: string
  mu_Role :: string
  mu_UserRole :: string

definition db_ListTeamMembers :: "nat \<Rightarrow> db \<Rightarrow> TeamMemberWithUser list" where
  "db_ListTeamMembers t d =
     [\<lparr>mu_UserID = tm_UserID m, mu_Username = Username u, mu_Role = tm_Role m, mu_UserRole = user_Role u\<rparr>.
        u \<leftarrow> sort_key Username (users d),
        m \<leftarrow> team_members d, user_ID u = tm_UserID m \<and> tm_TeamID m = t]"

definition db_SetTeamMember :: "nat \<Rightarrow> nat \<Rightarrow> string \<Rightarrow> db \<Rightarrow> team_error + db" where
  "db_SetTeamMember t u role d =
     (if role = [] then
        Inr (d\<lparr>team_members := filter (\<lambda>m. \<not> (tm_TeamID m = t \<and> tm_UserID m = u)) (team_members d)\<rparr>)
      else if role \<noteq> TeamRoleUser \<and> role \<noteq> TeamRoleManager then Inl Invalid_team_role
      else
        (case List.find (\<lambda>m. tm_TeamID m = t \<and> tm_UserID m = u) (team_members d) of
           None \<Rightarrow> Inr (d\<lparr>team_members := team_members d @ [\<lparr>tm_TeamID = t, tm_UserID = u, tm_Role = role\<rparr>]\<rparr>)
         | Some _ \<Rightarrow> Inr (d\<lparr>team_members :=
               map (\<lambda>m. if tm_TeamID m = t \<and> tm_UserID m = u then m\<lparr>tm_Role := role\<rparr> else m) (team_members d)\<rparr>)))"

definition GetTeamProviderIDs :: "nat \<Rightarrow> db \<Rightarrow> nat list" where
  "GetTeamProviderIDs t d = map tp_ProviderID (filter (\<lambda>p. tp_TeamID p = t) (team_providers d))"

text \<open>\<open>SetTeamProviders\<close> is a transaction: a duplicate rolls everything back.\<close>

fun create_team_providers :: "nat \<Rightarrow> nat list \<Rightarrow> TeamProvider list \<Rightarrow> TeamProvider list option" where
  "create_team_providers t [] ps = Some ps"
| "create_team_providers t (k # ks) ps =
     (let p = \<lparr>tp_TeamID = t, tp_ProviderID = k\<rparr> in
      if p \<in> set ps then None else create_team_providers t ks (ps @ [p]))"

definition db_SetTeamProviders :: "nat \<Rightarrow> nat list \<Rightarrow> db \<Rightarrow> db option" where
  "db_SetTeamProviders t ks d =
     map_option (\<lambda>ps. d\<lparr>team_providers := ps\<rparr>)
       (create_team_providers t ks (filter (\<lambda>p. tp_TeamID p \<noteq> t) (team_providers d)))"

definition IsProviderAllowedForTeam :: "nat \<Rightarrow> nat \<Rightarrow> db \<Rightarrow> bool" where
  "IsProviderAllowedForTeam t p d \<longleftrightarrow>
     0 < length (filter (\<lambda>x. tp_TeamID x = t \<and> tp_ProviderID x = p) (team_providers d))"

text \<open>The ids come out of a Go map, so their order is unspecified and each occurs once:
  a list without repetitions stands for it.\<close>

definition AccessibleInstanceIDs :: "nat \<Rightarrow> db \<Rightarrow> nat list" where
  "AccessibleInstanceIDs u d =
     (let memberships = GetUserTeams u d;
          managedTeamIDs = map (\<lambda>m. team_ID (fst m)) (filter (\<lambda>m. snd m = TeamRoleManager) memberships);
          memberTeamIDs = map (\<lambda>m. team_ID (fst m)) (filter (\<lambda>m. snd m \<noteq> TeamRoleManager) memberships);
          managed = (if managedTeamIDs = [] then []
                     else map inst_ID (filter (\<lambda>x. inst_TeamID x \<in> set managedTeamIDs) (instances d)));
          granted = (if memberTeamIDs = [] then []
                     else [ui_InstanceID g. g \<leftarrow> user_instances d, x \<leftarrow> instances d,
                             inst_ID x = ui_InstanceID g \<and> ui_UserID g = u \<and> inst_TeamID x \<in> set memberTeamIDs])
      in remdups (managed @ granted))"

section \<open>Basic facts\<close>

lemma find_Some_in: "List.find p xs = Some x \<Longrightarrow> x \<in> set xs \<and> p x"
  by (auto simp: find_Some_iff)

lemma find_None_all: "List.find p xs = None \<longleftrightarrow> (\<forall>x\<in>set xs. \<not> p x)"
  by (induction xs) auto

lemma find_unique:
  "x \<in> set xs \<Longrightarrow> p x \<Longrightarrow> (\<And>y. y \<in> set xs \<Longrightarrow> p y \<Longrightarrow> y = x) \<Longrightarrow> List.find p xs = Some x"
  by (metis find_None_all find_Some_in option.exhaust)

lemma mem_GetUserTeams:
  "(t, r) \<in> set (GetUserTeams i d) \<longleftrightarrow>
     t \<in> set (teams d) \<and> (\<exists>m. m \<in> set (team_members d) \<and> tm_TeamID m = team_ID t \<and> tm_UserID m = i \<and> tm_Role m = r)"
  by (auto simp: GetUserTeams_def)

lemma IsUserAssigned_iff:
  "IsUserAssignedToInstance i k d \<longleftrightarrow> \<lparr>ui_UserID = i, ui_InstanceID = k\<rparr> \<in> set (user_instances d)"
proof -
  have "ui_UserID g = i \<and> ui_InstanceID g = k \<longleftrightarrow> g = \<lparr>ui_UserID = i, ui_InstanceID = k\<rparr>"
    for g :: UserInstance by (cases g) auto
  then show ?thesis by (auto simp: IsUserAssignedToInstance_def filter_empty_conv)
qed



section \<open>The invariant of the access tables\<close>

text \<open>Memberships carry one of the two roles and are unique per team and user (the primary key);
  instance ids are unique, and the team of every instance exists.\<close>

definition members_ok :: "TeamMember list \<Rightarrow> bool" where
  "members_ok ms \<longleftrightarrow>
     tm_Role ` set ms \<subseteq> {TeamRoleUser, TeamRoleManager}
     \<and> distinct (map (\<lambda>m. (tm_TeamID m, tm_UserID m)) ms)"

definition db_ok :: "db \<Rightarrow> bool" where
  "db_ok d \<longleftrightarrow>
     members_ok (team_members d)
     \<and> distinct (map inst_ID (instances d))
     \<and> inst_TeamID ` set (instances d) \<subseteq> team_ID ` set (teams d)"

text \<open>Role of a member, read off the membership rows.\<close>

lemma role_iff:
  assumes "db_ok d" "r \<noteq> []"
  shows "GetTeamRole u t d = r \<longleftrightarrow> \<lparr>tm_TeamID = t, tm_UserID = u, tm_Role = r\<rparr> \<in> set (team_members d)"
proof
  assume "GetTeamRole u t d = r"
  then obtain m where m: "List.find (\<lambda>m. tm_TeamID m = t \<and> tm_UserID m = u) (team_members d) = Some m"
    and r: "tm_Role m = r"
    using assms(2) by (auto simp: GetTeamRole_def split: option.splits)
  from find_Some_in [OF m] r have "m = \<lparr>tm_TeamID = t, tm_UserID = u, tm_Role = r\<rparr>" by (cases m) auto
  with find_Some_in [OF m] show "\<lparr>tm_TeamID = t, tm_UserID = u, tm_Role = r\<rparr> \<in> set (team_members d)" by simp
next
  let ?m = "\<lparr>tm_TeamID = t, tm_UserID = u, tm_Role = r\<rparr>"
  assume m: "?m \<in> set (team_members d)"
  have inj: "inj_on (\<lambda>m. (tm_TeamID m, tm_UserID m)) (set (team_members d))"
    using assms(1) by (simp add: db_ok_def members_ok_def distinct_map)
  have "List.find (\<lambda>m. tm_TeamID m = t \<and> tm_UserID m = u) (team_members d) = Some ?m"
    by (rule find_unique [OF m]) (use inj_onD [OF inj] m in auto)
  then show "GetTeamRole u t d = r" by (simp add: GetTeamRole_def)
qed

lemma GetInstance_iff:
  assumes "db_ok d"
  shows "GetInstance i d = Some x \<longleftrightarrow> x \<in> set (instances d) \<and> inst_ID x = i"
proof
  show "GetInstance i d = Some x \<Longrightarrow> x \<in> set (instances d) \<and> inst_ID x = i"
    by (auto simp: GetInstance_def dest: find_Some_in)
  assume x: "x \<in> set (instances d) \<and> inst_ID x = i"
  have inj: "inj_on inst_ID (set (instances d))"
    using assms by (simp add: db_ok_def distinct_map)
  show "GetInstance i d = Some x"
    unfolding GetInstance_def
    by (rule find_unique) (use x inj_onD [OF inj] in auto)
qed

lemma mem_AccessibleInstanceIDs:
  "k \<in> set (AccessibleInstanceIDs u d) \<longleftrightarrow>
     (\<exists>x\<in>set (instances d). inst_ID x = k \<and>
        (\<exists>t. (t, TeamRoleManager) \<in> set (GetUserTeams u d) \<and> team_ID t = inst_TeamID x))
     \<or> (\<exists>x\<in>set (instances d). inst_ID x = k \<and> IsUserAssignedToInstance u k d \<and>
        (\<exists>t r. (t, r) \<in> set (GetUserTeams u d) \<and> r \<noteq> TeamRoleManager \<and> team_ID t = inst_TeamID x))"
proof -
  have ids: "i \<in> set (map (\<lambda>m. team_ID (fst m)) (filter (\<lambda>m. p (snd m)) ms))
      \<longleftrightarrow> (\<exists>t r. (t, r) \<in> set ms \<and> p r \<and> team_ID t = i)" for i p and ms :: "TeamMembership list"
    by force
  have ne: "(if xs = [] then [] else map f (filter (\<lambda>x. g x \<in> set xs) ys)) = map f (filter (\<lambda>x. g x \<in> set xs) ys)"
    for xs :: "nat list" and f :: "Instance \<Rightarrow> nat" and g ys by simp
  have ne': "(if xs = [] then [] else [ui_InstanceID y. y \<leftarrow> user_instances d, x \<leftarrow> instances d,
      inst_ID x = ui_InstanceID y \<and> ui_UserID y = u \<and> inst_TeamID x \<in> set xs]) =
      [ui_InstanceID y. y \<leftarrow> user_instances d, x \<leftarrow> instances d,
      inst_ID x = ui_InstanceID y \<and> ui_UserID y = u \<and> inst_TeamID x \<in> set xs]" for xs :: "nat list"
    by (cases xs) (simp_all add: concat_eq_Nil_conv)
  have grant: "IsUserAssignedToInstance u k d
      \<longleftrightarrow> (\<exists>g\<in>set (user_instances d). ui_InstanceID g = k \<and> ui_UserID g = u)"
    by (auto simp: IsUserAssignedToInstance_def filter_empty_conv)
  have grants: "k \<in> set [ui_InstanceID y. y \<leftarrow> user_instances d, x \<leftarrow> instances d,
      inst_ID x = ui_InstanceID y \<and> ui_UserID y = u \<and> inst_TeamID x \<in> set xs]
    \<longleftrightarrow> IsUserAssignedToInstance u k d \<and> (\<exists>x\<in>set (instances d). inst_ID x = k \<and> inst_TeamID x \<in> set xs)" for xs
    unfolding grant by auto
  have managers: "k \<in> set (map inst_ID (filter (\<lambda>x. inst_TeamID x \<in> set xs) (instances d)))
    \<longleftrightarrow> (\<exists>x\<in>set (instances d). inst_ID x = k \<and> inst_TeamID x \<in> set xs)" for xs
    by auto
  show ?thesis
    unfolding AccessibleInstanceIDs_def Let_def ne ne' set_remdups set_append Un_iff grants managers
    unfolding ids [of _ "\<lambda>r. r = TeamRoleManager"] ids [of _ "\<lambda>r. r \<noteq> TeamRoleManager"]
    by blast
qed

text \<open>What the list of accessible instances holds.\<close>

lemma accessible_iff:
  assumes "db_ok d"
  shows "k \<in> set (AccessibleInstanceIDs u d) \<longleftrightarrow>
    (\<exists>x. GetInstance k d = Some x
       \<and> (GetTeamRole u (inst_TeamID x) d = TeamRoleManager
          \<or> GetTeamRole u (inst_TeamID x) d = TeamRoleUser \<and> IsUserAssignedToInstance u k d))"
proof -
  have team: "inst_TeamID x \<in> team_ID ` set (teams d)" if "x \<in> set (instances d)" for x
    using assms that by (auto simp: db_ok_def)

  have role: "(\<exists>t m. t \<in> set (teams d) \<and> m \<in> set (team_members d) \<and> tm_TeamID m = team_ID t
        \<and> tm_UserID m = u \<and> tm_Role m = r \<and> team_ID t = inst_TeamID x)
      \<longleftrightarrow> GetTeamRole u (inst_TeamID x) d = r" if "x \<in> set (instances d)" "r \<noteq> []" for x r
    unfolding role_iff [OF assms that(2)]
  proof
    assume "\<exists>t m. t \<in> set (teams d) \<and> m \<in> set (team_members d) \<and> tm_TeamID m = team_ID t
        \<and> tm_UserID m = u \<and> tm_Role m = r \<and> team_ID t = inst_TeamID x"
    then obtain m where "m \<in> set (team_members d)" "tm_TeamID m = inst_TeamID x" "tm_UserID m = u" "tm_Role m = r"
      by auto
    moreover from this have "m = \<lparr>tm_TeamID = inst_TeamID x, tm_UserID = u, tm_Role = r\<rparr>" by simp
    ultimately show "\<lparr>tm_TeamID = inst_TeamID x, tm_UserID = u, tm_Role = r\<rparr> \<in> set (team_members d)"
      by simp
  next
    let ?m = "\<lparr>tm_TeamID = inst_TeamID x, tm_UserID = u, tm_Role = r\<rparr>"
    assume m: "?m \<in> set (team_members d)"
    note x = \<open>x \<in> set (instances d)\<close>
    obtain t where "t \<in> set (teams d)" "team_ID t = inst_TeamID x"
      using team [OF x] by auto
    with m show "\<exists>t m. t \<in> set (teams d) \<and> m \<in> set (team_members d) \<and> tm_TeamID m = team_ID t
        \<and> tm_UserID m = u \<and> tm_Role m = r \<and> team_ID t = inst_TeamID x"
      by (intro exI [of _ t] exI [of _ ?m]) simp
  qed
  have managed: "(\<exists>t. (t, TeamRoleManager) \<in> set (GetUserTeams u d) \<and> team_ID t = inst_TeamID x)
      \<longleftrightarrow> GetTeamRole u (inst_TeamID x) d = TeamRoleManager" if "x \<in> set (instances d)" for x
    unfolding mem_GetUserTeams using role [OF that, of TeamRoleManager] by (simp del: split_paired_Ex) blast
  have plain: "(\<exists>t r. (t, r) \<in> set (GetUserTeams u d) \<and> r \<noteq> TeamRoleManager \<and> team_ID t = inst_TeamID x)
      \<longleftrightarrow> GetTeamRole u (inst_TeamID x) d = TeamRoleUser" if x: "x \<in> set (instances d)" for x
  proof -
    have "r = TeamRoleUser" if "(t, r) \<in> set (GetUserTeams u d)" "r \<noteq> TeamRoleManager" for t r
      using that assms by (auto simp: mem_GetUserTeams db_ok_def members_ok_def)
    then have "(\<exists>t r. (t, r) \<in> set (GetUserTeams u d) \<and> r \<noteq> TeamRoleManager \<and> team_ID t = inst_TeamID x)
      \<longleftrightarrow> (\<exists>t. (t, TeamRoleUser) \<in> set (GetUserTeams u d) \<and> team_ID t = inst_TeamID x)"
      by (metis team_roles_differ(1))
    then show ?thesis unfolding mem_GetUserTeams using role [OF x, of TeamRoleUser] by (simp del: split_paired_Ex) blast
  qed
  show ?thesis
    unfolding mem_AccessibleInstanceIDs GetInstance_iff [OF assms] using managed plain by blast
qed

section \<open>Preservation\<close>

named_theorems db_frames \<open>the operations that leave the access tables alone\<close>

text \<open>The part of the database \<open>db_ok\<close> reads.\<close>

definition access_tables :: "db \<Rightarrow> TeamMember list \<times> Instance list \<times> nat set" where
  "access_tables d = (team_members d, instances d, team_ID ` set (teams d))"

lemma db_ok_cong: "access_tables d = access_tables d' \<Longrightarrow> db_ok d \<longleftrightarrow> db_ok d'"
  by (simp add: access_tables_def db_ok_def)

lemma access_tables_frames [db_frames]:
  "access_tables (upsertSetting k v d) = access_tables d"
  "access_tables (SetSetting k v d) = access_tables d"
  "access_tables (DeleteSetting k d) = access_tables d"
  "access_tables (db_DeleteUser i d) = access_tables d"
  "access_tables (update_user j f d) = access_tables d"
  "access_tables (UpdateUserPassword i h d) = access_tables d"
  "access_tables (TouchUserLastLogin now i d) = access_tables d"
  "access_tables (db_DeleteWebAuthnCredential c i d) = access_tables d"
  "access_tables (UpdateCredentialSignCount c n d) = access_tables d"
  "access_tables (snd (SetUserInstances i ks d)) = access_tables d"
  by (simp_all add: access_tables_def upsertSetting_def SetSetting_def DeleteSetting_def db_DeleteUser_def
      update_user_def UpdateUserPassword_def TouchUserLastLogin_def db_DeleteWebAuthnCredential_def
      UpdateCredentialSignCount_def SetUserInstances_def Let_def split: prod.splits)

lemma access_tables_optional [db_frames]:
  "db_CreateUser u d = Some (u', d') \<Longrightarrow> access_tables d' = access_tables d"
  "SaveWebAuthnCredential c d = Some d' \<Longrightarrow> access_tables d' = access_tables d"
  "db_SetTeamProviders t ks d = Some d' \<Longrightarrow> access_tables d' = access_tables d"
  by (auto simp: access_tables_def db_CreateUser_def SaveWebAuthnCredential_def db_SetTeamProviders_def
      Let_def split: if_splits)

lemma db_ok_CreateTeam: "db_ok d \<Longrightarrow> db_CreateTeam t d = Some (t', d') \<Longrightarrow> db_ok d'"
  by (auto simp: db_ok_def db_CreateTeam_def Let_def image_subset_iff split: if_splits)

lemma db_ok_UpdateTeam: "db_ok d \<Longrightarrow> db_UpdateTeam i n s d = Some d' \<Longrightarrow> db_ok d'"
proof -
  assume ok: "db_ok d" and d': "db_UpdateTeam i n s d = Some d'"
  have mapped: "map team_ID (map (\<lambda>t. if team_ID t = i then t\<lparr>team_Name := f t, team_Description := s\<rparr> else t) ts)
      = map team_ID ts" for f ts
    by (induction ts) auto
  have ids: "team_ID ` set (map (\<lambda>t. if team_ID t = i then t\<lparr>team_Name := f t, team_Description := s\<rparr> else t) ts)
      = team_ID ` set ts" for f ts
    by (simp only: list.set_map [symmetric] mapped)
  have "d' = d\<lparr>teams := map (\<lambda>t. if team_ID t = i
      then t\<lparr>team_Name := (case n of None \<Rightarrow> team_Name t | Some n \<Rightarrow> n), team_Description := s\<rparr> else t) (teams d)\<rparr>"
    using d' by (simp add: db_UpdateTeam_def split: if_split_asm)
  then have "access_tables d' = access_tables d"
    using ids [of "\<lambda>t. case n of None \<Rightarrow> team_Name t | Some n \<Rightarrow> n" "teams d"]
    by (simp add: access_tables_def del: set_map)
  with ok show "db_ok d'" using db_ok_cong by blast
qed

lemma members_ok_filter: "members_ok ms \<Longrightarrow> members_ok (filter p ms)"
  by (auto simp: members_ok_def distinct_map_filter image_subset_iff)

lemma members_ok_add:
  "members_ok ms \<Longrightarrow> List.find (\<lambda>m. tm_TeamID m = t \<and> tm_UserID m = u) ms = None
   \<Longrightarrow> r = TeamRoleUser \<or> r = TeamRoleManager
   \<Longrightarrow> members_ok (ms @ [\<lparr>tm_TeamID = t, tm_UserID = u, tm_Role = r\<rparr>])"
  by (auto simp: members_ok_def find_None_all)

lemma members_ok_update:
  assumes "members_ok ms" "r = TeamRoleUser \<or> r = TeamRoleManager"
  shows "members_ok (map (\<lambda>m. if p m then m\<lparr>tm_Role := r\<rparr> else m) ms)"
proof -
  have "map (\<lambda>m. (tm_TeamID m, tm_UserID m)) (map (\<lambda>m. if p m then m\<lparr>tm_Role := r\<rparr> else m) ms)
      = map (\<lambda>m. (tm_TeamID m, tm_UserID m)) ms"
    by (induction ms) auto
  with assms show ?thesis by (auto simp: members_ok_def image_subset_iff simp del: map_map)
qed

lemma db_ok_DeleteTeam:
  assumes ok: "db_ok d" and d': "db_DeleteTeam i d = Inr d'"
  shows "db_ok d'"
proof -
  have free: "i \<notin> inst_TeamID ` set (instances d)"
    using d' by (auto simp: db_DeleteTeam_def filter_empty_conv split: option.splits if_splits)
  have "team_members d' = filter (\<lambda>m. tm_TeamID m \<noteq> i) (team_members d)"
    and "instances d' = instances d" and "teams d' = filter (\<lambda>t. team_ID t \<noteq> i) (teams d)"
    using d' by (auto simp: db_DeleteTeam_def split: option.splits if_splits)
  moreover have "team_ID ` set (filter (\<lambda>t. team_ID t \<noteq> i) (teams d)) = team_ID ` set (teams d) - {i}"
    by auto
  moreover have "inst_TeamID ` set (instances d) \<subseteq> team_ID ` set (teams d) - {i}"
    using ok free unfolding db_ok_def by blast
  ultimately show ?thesis using ok by (simp add: db_ok_def members_ok_filter)
qed

lemma db_ok_SetTeamMember:
  assumes ok: "db_ok d" and d': "db_SetTeamMember t u r d = Inr d'"
  shows "db_ok d'"
proof -
  have "members_ok (team_members d)" using ok by (simp add: db_ok_def)
  then have "members_ok (team_members d')"
    using d' unfolding db_SetTeamMember_def
    by (auto intro!: members_ok_filter members_ok_add members_ok_update split: if_splits option.splits)
  moreover have "instances d' = instances d" "teams d' = teams d"
    using d' by (auto simp: db_SetTeamMember_def split: option.splits if_splits)
  ultimately show ?thesis using ok by (simp add: db_ok_def)
qed

end
