(* ===== verification/Sessions.thy ===== *)
theory Sessions imports GoBase begin

text \<open>
  \<^verbatim>\<open>control-plane/internal/auth/auth.go\<close>: the in-memory store of login sessions,
  and the challenge store of \<^verbatim>\<open>auth/webauthn.go\<close>.  The clock is an argument; the 32
  random bytes of a new session id are an argument too, \<open>None\<close> when \<open>rand.Read\<close> fails.
\<close>

section \<open>The session store\<close>

definition SessionDuration :: duration where
  "SessionDuration = minutes 180"

text \<open>\<open>hex.EncodeToString\<close>.\<close>

definition hex_digit :: "nat \<Rightarrow> char" where
  "hex_digit n = (if n < 10 then char_of (48 + n) else char_of (87 + n))"

definition hex_encode :: "nat list \<Rightarrow> string" where
  "hex_encode bs = concat (map (\<lambda>b. [hex_digit (b div 16), hex_digit (b mod 16)]) bs)"

record sessionEntry =
  se_UserID :: nat
  se_ExpiresAt :: gtime

type_synonym SessionStore = "string \<rightharpoonup> sessionEntry"

definition NewSessionStore :: SessionStore where
  "NewSessionStore = Map.empty"

definition CreateSession :: "gtime \<Rightarrow> nat list option \<Rightarrow> nat \<Rightarrow> SessionStore \<Rightarrow> string option \<times> SessionStore" where
  "CreateSession now rnd u s =
     (case rnd of
        None \<Rightarrow> (None, s)
      | Some b \<Rightarrow>
          let i = hex_encode b
          in (Some i, s(i \<mapsto> \<lparr>se_UserID = u, se_ExpiresAt = now + SessionDuration\<rparr>)))"

definition GetSession :: "gtime \<Rightarrow> string \<Rightarrow> SessionStore \<Rightarrow> nat option" where
  "GetSession now i s =
     (case s i of
        None \<Rightarrow> None
      | Some e \<Rightarrow> if se_ExpiresAt e < now then None else Some (se_UserID e))"

definition DeleteSession :: "string \<Rightarrow> SessionStore \<Rightarrow> SessionStore" where
  "DeleteSession i s = s(i := None)"

definition DeleteByUserID :: "nat \<Rightarrow> SessionStore \<Rightarrow> SessionStore" where
  "DeleteByUserID u s = keep_where (\<lambda>i e. \<not> se_UserID e = u) s"

definition DeleteByUserIDExcept :: "nat \<Rightarrow> string \<Rightarrow> SessionStore \<Rightarrow> SessionStore" where
  "DeleteByUserIDExcept u except s = keep_where (\<lambda>i e. \<not> (se_UserID e = u \<and> i \<noteq> except)) s"

definition CleanupSessions :: "gtime \<Rightarrow> SessionStore \<Rightarrow> SessionStore" where
  "CleanupSessions now s = keep_where (\<lambda>i e. \<not> se_ExpiresAt e < now) s"

lemma GetSession_Some:
  "GetSession now i s = Some u \<longleftrightarrow> (\<exists>e. s i = Some e \<and> se_UserID e = u \<and> now \<le> se_ExpiresAt e)"
  by (auto simp: GetSession_def split: option.splits)

lemma GetSession_DeleteByUserID: "GetSession now i (DeleteByUserID u s) \<noteq> Some u"
  by (auto simp: GetSession_Some DeleteByUserID_def)

lemma GetSession_DeleteByUserIDExcept:
  "GetSession now i (DeleteByUserIDExcept u x s) = Some u \<Longrightarrow> i = x"
  by (auto simp: GetSession_Some DeleteByUserIDExcept_def)

lemma GetSession_Cleanup: "t \<le> now \<Longrightarrow> GetSession now i (CleanupSessions t s) = GetSession now i s"
  by (cases "s i") (auto simp: GetSession_def CleanupSessions_def keep_where_def)

section \<open>Runs of the store\<close>

datatype session_op =
    SCreate nat "nat list option"
  | SDelete string
  | SDeleteUser nat
  | SDeleteUserExcept nat string
  | SCleanup

fun session_act :: "gtime \<times> session_op \<Rightarrow> SessionStore \<Rightarrow> SessionStore" where
  "session_act (t, SCreate u rnd) s = snd (CreateSession t rnd u s)"
| "session_act (t, SDelete i) s = DeleteSession i s"
| "session_act (t, SDeleteUser u) s = DeleteByUserID u s"
| "session_act (t, SDeleteUserExcept u x) s = DeleteByUserIDExcept u x s"
| "session_act (t, SCleanup) s = CleanupSessions t s"

definition session_run :: "(gtime \<times> session_op) list \<Rightarrow> SessionStore" where
  "session_run ops = foldl (\<lambda>s op. session_act op s) NewSessionStore ops"

text \<open>The operations that end the session \<open>i\<close> of user \<open>u\<close> created at \<open>t0\<close>: a new session
  under the same id, its deletion, the two deletions by user, and the cleanup after its expiry.\<close>

fun ends_session :: "string \<Rightarrow> nat \<Rightarrow> gtime \<Rightarrow> gtime \<times> session_op \<Rightarrow> bool" where
  "ends_session i u t0 (t, SCreate v rnd) = (map_option hex_encode rnd = Some i)"
| "ends_session i u t0 (t, SDelete j) = (j = i)"
| "ends_session i u t0 (t, SDeleteUser v) = (v = u)"
| "ends_session i u t0 (t, SDeleteUserExcept v x) = (v = u \<and> i \<noteq> x)"
| "ends_session i u t0 (t, SCleanup) = (t0 + SessionDuration < t)"

lemma session_step:
  "session_act op s i = Some e \<longleftrightarrow>
     (\<exists>t rnd. op = (t, SCreate (se_UserID e) rnd) \<and> map_option hex_encode rnd = Some i
        \<and> se_ExpiresAt e = t + SessionDuration)
     \<or> s i = Some e \<and> \<not> ends_session i (se_UserID e) (se_ExpiresAt e - SessionDuration) op"
  by (cases "(op, s)" rule: session_act.cases; cases e)
     (auto simp: CreateSession_def DeleteSession_def DeleteByUserID_def DeleteByUserIDExcept_def
        CleanupSessions_def Let_def split: option.splits)

lemma session_run_entry:
  "session_run ops i = Some e \<longleftrightarrow>
     (\<exists>xs t rnd ys. ops = xs @ (t, SCreate (se_UserID e) rnd) # ys \<and> map_option hex_encode rnd = Some i
        \<and> se_ExpiresAt e = t + SessionDuration \<and> list_all (\<lambda>op. \<not> ends_session i (se_UserID e) t op) ys)"
proof (induction ops rule: rev_induct)
  case Nil
  then show ?case by (simp add: session_run_def NewSessionStore_def)
next
  case (snoc op ops)
  have run: "session_run (ops @ [op]) = session_act op (session_run ops)"
    by (simp add: session_run_def)
  let ?u = "se_UserID e" and ?t0 = "se_ExpiresAt e - SessionDuration"
  let ?is = "\<lambda>t rnd. map_option hex_encode rnd = Some i \<and> se_ExpiresAt e = t + SessionDuration"
  have split: "ops @ [op] = xs @ c # ys \<longleftrightarrow>
      (ys = [] \<and> xs = ops \<and> op = c) \<or> (\<exists>zs. ys = zs @ [op] \<and> ops = xs @ c # zs)" for xs c ys
    by (cases ys rule: rev_cases) auto
  have "(\<exists>xs t rnd ys. ops @ [op] = xs @ (t, SCreate ?u rnd) # ys \<and> ?is t rnd
        \<and> list_all (\<lambda>op. \<not> ends_session i ?u t op) ys)
     \<longleftrightarrow> (\<exists>t rnd. op = (t, SCreate ?u rnd) \<and> ?is t rnd)
       \<or> (\<exists>xs t rnd zs. ops = xs @ (t, SCreate ?u rnd) # zs \<and> ?is t rnd
            \<and> list_all (\<lambda>op. \<not> ends_session i ?u t op) zs \<and> \<not> ends_session i ?u t op)"
    (is "?L \<longleftrightarrow> ?now \<or> ?before")
  proof
    assume ?L
    then show "?now \<or> ?before" unfolding split by fastforce
  next
    have "?L" if "op = (t, SCreate ?u rnd)" "?is t rnd" for t rnd
      unfolding split using that by (intro exI [of _ ops] exI [of _ t] exI [of _ rnd] exI [of _ "[]"]) auto
    moreover have "?L" if "ops = xs @ (t, SCreate ?u rnd) # zs" "?is t rnd"
      "list_all (\<lambda>op. \<not> ends_session i ?u t op) zs" "\<not> ends_session i ?u t op" for xs t rnd zs
      unfolding split using that
      by (intro exI [of _ xs] exI [of _ t] exI [of _ rnd] exI [of _ "zs @ [op]"]) auto
    ultimately show ?L if "?now \<or> ?before" using that by blast
  qed
  moreover have "?before \<longleftrightarrow> session_run ops i = Some e \<and> \<not> ends_session i ?u ?t0 op"
    unfolding snoc.IH by (auto; fastforce)
  ultimately show ?case unfolding run session_step by auto
qed

text \<open>A session id is valid at time \<open>now\<close> for user \<open>u\<close> exactly when it was created for \<open>u\<close> at a
  time at most three hours before, and nothing that ends it came after: no deletion of the id, no
  deletion of the sessions of \<open>u\<close> (with an exception for another id), no session created over it, no
  cleanup past its expiry.\<close>

theorem session_valid_iff:
  "GetSession now i (session_run ops) = Some u \<longleftrightarrow>
     (\<exists>xs t rnd ys. ops = xs @ (t, SCreate u rnd) # ys \<and> map_option hex_encode rnd = Some i
        \<and> now \<le> t + minutes 180 \<and> list_all (\<lambda>op. \<not> ends_session i u t op) ys)"
proof -
  have "GetSession now i (session_run ops) = Some u \<longleftrightarrow>
      (\<exists>x. session_run ops i = Some \<lparr>se_UserID = u, se_ExpiresAt = x\<rparr> \<and> now \<le> x)"
    unfolding GetSession_Some
  proof
    assume "\<exists>e. session_run ops i = Some e \<and> se_UserID e = u \<and> now \<le> se_ExpiresAt e"
    then obtain e where "session_run ops i = Some e" "se_UserID e = u" "now \<le> se_ExpiresAt e" by blast
    then show "\<exists>x. session_run ops i = Some \<lparr>se_UserID = u, se_ExpiresAt = x\<rparr> \<and> now \<le> x"
      by (intro exI [of _ "se_ExpiresAt e"]) (cases e; auto)
  qed auto
  also have "\<dots> \<longleftrightarrow> (\<exists>x xs t rnd ys. ops = xs @ (t, SCreate u rnd) # ys
        \<and> map_option hex_encode rnd = Some i \<and> x = t + minutes 180
        \<and> list_all (\<lambda>op. \<not> ends_session i u t op) ys \<and> now \<le> x)"
    unfolding session_run_entry SessionDuration_def sessionEntry.simps by blast
  also have "\<dots> \<longleftrightarrow> (\<exists>xs t rnd ys. ops = xs @ (t, SCreate u rnd) # ys
        \<and> map_option hex_encode rnd = Some i \<and> now \<le> t + minutes 180
        \<and> list_all (\<lambda>op. \<not> ends_session i u t op) ys)"
    by blast
  finally show ?thesis .
qed

section \<open>The WebAuthn challenge store\<close>

type_synonym 'c challengeStore = "nat \<rightharpoonup> 'c \<times> gtime"

definition StoreChallenge :: "gtime \<Rightarrow> nat \<Rightarrow> 'c \<Rightarrow> 'c challengeStore \<Rightarrow> 'c challengeStore" where
  "StoreChallenge now u sd c = c(u \<mapsto> (sd, now + minutes 2))"

definition GetChallenge :: "gtime \<Rightarrow> nat \<Rightarrow> 'c challengeStore \<Rightarrow> 'c option \<times> 'c challengeStore" where
  "GetChallenge now u c =
     (case c u of
        None \<Rightarrow> (None, c(u := None))
      | Some (sd, exp) \<Rightarrow> if exp < now then (None, c(u := None)) else (Some sd, c(u := None)))"

lemma GetChallenge_used: "snd (GetChallenge now u c) u = None"
  by (auto simp: GetChallenge_def split: option.splits)

lemma GetChallenge_once: "fst (GetChallenge t u (snd (GetChallenge now u c))) = None"
  by (simp add: GetChallenge_def [of t] GetChallenge_used)

lemma GetChallenge_Store:
  "fst (GetChallenge now u (StoreChallenge t u sd c)) = (if now \<le> t + minutes 2 then Some sd else None)"
  by (simp add: GetChallenge_def StoreChallenge_def)

lemma GetChallenge_other [frame_simps]:
  "v \<noteq> u \<Longrightarrow> snd (GetChallenge now u c) v = c v"
  "v \<noteq> u \<Longrightarrow> StoreChallenge now u sd c v = c v"
  by (auto simp: GetChallenge_def StoreChallenge_def split: option.splits)

end
