(* ===== verification/Accounts.thy ===== *)
theory Accounts imports Database Sessions NetAddr begin

text \<open>
  \<^verbatim>\<open>control-plane/internal/middleware/auth.go\<close> and the account handlers of
  \<^verbatim>\<open>control-plane/internal/handlers\<close> (auth.go, users.go, teams.go), with the routes of
  \<^verbatim>\<open>control-plane/main.go\<close> that lead to them.

  The state of the server is the record \<open>world\<close>: the database, the session store and
  the WebAuthn challenges.  A handler is a function from the request's data to the response and the
  new state, one step per request.  A decoded JSON body is an option, \<open>None\<close> when it does
  not decode.  The password hash (bcrypt) and the WebAuthn library are parameters: \<open>hash\<close>
  and \<open>check\<close> in the record \<open>services\<close>, and the outcome of a WebAuthn ceremony as an
  argument of its handler.  Analytics events and log lines are left out.
\<close>

section \<open>State, responses and parameters\<close>

record teamResponse =
  tr_ID :: nat
  tr_Name :: string
  tr_Description :: string
  tr_MemberCount :: nat
  tr_InstanceCount :: nat

record instanceRef =
  ir_ID :: nat
  ir_Name :: string
  ir_DisplayName :: string
  ir_TeamID :: nat
  ir_TeamName :: string

record userResponse =
  ur_ID :: nat
  ur_Username :: string
  ur_Role :: string
  ur_LastLoginAt :: "gtime option"
  ur_Teams :: "(nat \<times> string \<times> string) list"
  ur_Instances :: "instanceRef list"

datatype payload =
    Empty
  | Detail string
  | Detail_err string                  \<comment> \<open>a message that ends with the text of a database or library error\<close>
  | StatusOK
  | UserJSON nat string string
  | MeJSON nat string string "(nat \<times> string \<times> string) list"
  | SetupJSON bool
  | TeamsJSON "teamResponse list"
  | TeamJSON teamResponse
  | MembersJSON "TeamMemberWithUser list"
  | ProviderIDsJSON "nat list"
  | InstanceIDsJSON "nat list"
  | UserTeamsJSON "(nat \<times> string \<times> string) list"
  | UsersJSON "userResponse list"
  | CredsJSON "(string \<times> string) list"
  | OptionsJSON

text \<open>The session cookie a response sets: none, a new value, or its removal.\<close>

datatype cookie = No_cookie | Set_cookie string | Clear_cookie

record response =
  rs_status :: nat
  rs_body :: payload
  rs_cookie :: cookie

record world =
  w_db :: db
  w_sessions :: SessionStore
  w_challenges :: "string challengeStore"

record services =
  sv_hash :: "string \<Rightarrow> string option"
  sv_check :: "string \<Rightarrow> string \<Rightarrow> bool"

definition writeJSON :: "nat \<Rightarrow> payload \<Rightarrow> response" where
  "writeJSON st b = \<lparr>rs_status = st, rs_body = b, rs_cookie = No_cookie\<rparr>"

definition writeError :: "nat \<Rightarrow> string \<Rightarrow> response" where
  "writeError st msg = writeJSON st (Detail msg)"

definition noContent :: response where
  "noContent = \<lparr>rs_status = 204, rs_body = Empty, rs_cookie = No_cookie\<rparr>"

definition setSessionCookie :: "string \<Rightarrow> response \<Rightarrow> response" where
  "setSessionCookie i r = r\<lparr>rs_cookie := Set_cookie i\<rparr>"

definition clearSessionCookie :: "response \<Rightarrow> response" where
  "clearSessionCookie r = r\<lparr>rs_cookie := Clear_cookie\<rparr>"

section \<open>Middleware\<close>

type_synonym handler = "world \<Rightarrow> response \<times> world"

definition RequireAuth :: "bool \<Rightarrow> gtime \<Rightarrow> string option \<Rightarrow> (User option \<Rightarrow> handler) \<Rightarrow> handler" where
  "RequireAuth disabled now ck next w =
     (if disabled then
        (case GetFirstAdmin (w_db w) of
           None \<Rightarrow> (writeError 500 ''No admin user found'', w)
         | Some u \<Rightarrow> next (Some u) w)
      else
        (case ck of
           None \<Rightarrow> (writeError 401 ''Authentication required'', w)
         | Some i \<Rightarrow>
             (case GetSession now i (w_sessions w) of
                None \<Rightarrow> (writeError 401 ''Authentication required'', w)
              | Some uid \<Rightarrow>
                  (case GetUserByID uid (w_db w) of
                     None \<Rightarrow> (writeError 401 ''Authentication required'', w)
                   | Some u \<Rightarrow> next (Some u) w))))"

definition RequireAdmin :: "User option \<Rightarrow> handler \<Rightarrow> handler" where
  "RequireAdmin cu next w =
     (if (case cu of None \<Rightarrow> True | Some u \<Rightarrow> user_Role u \<noteq> ''admin'')
      then (writeError 403 ''Admin access required'', w)
      else next w)"

definition RequireInstanceCreator :: "User option \<Rightarrow> handler \<Rightarrow> handler" where
  "RequireInstanceCreator cu next w =
     (case cu of
        None \<Rightarrow> (writeError 401 ''Authentication required'', w)
      | Some u \<Rightarrow>
          if user_Role u = ''admin'' then next w
          else if 0 < length (UserManagedTeamIDs (user_ID u) (w_db w)) then next w
          else (writeError 403 ''Instance creation permission required'', w))"

definition CanMutateInstance :: "User option \<Rightarrow> nat \<Rightarrow> db \<Rightarrow> bool" where
  "CanMutateInstance cu k d =
     (case cu of
        None \<Rightarrow> False
      | Some u \<Rightarrow>
          if user_Role u = ''admin'' then True
          else (case GetInstance k d of
                  None \<Rightarrow> False
                | Some x \<Rightarrow> IsTeamManager (user_ID u) (inst_TeamID x) d))"

definition CanManageTeam :: "User option \<Rightarrow> nat \<Rightarrow> db \<Rightarrow> bool" where
  "CanManageTeam cu t d =
     (case cu of
        None \<Rightarrow> False
      | Some u \<Rightarrow> if user_Role u = ''admin'' then True else IsTeamManager (user_ID u) t d)"

definition CanAccessInstance :: "User option \<Rightarrow> nat \<Rightarrow> db \<Rightarrow> bool" where
  "CanAccessInstance cu k d =
     (case cu of
        None \<Rightarrow> False
      | Some u \<Rightarrow>
          if user_Role u = ''admin'' then True
          else (case GetInstance k d of
                  Some x \<Rightarrow>
                    let role = GetTeamRole (user_ID u) (inst_TeamID x) d
                    in if role = TeamRoleManager then True
                       else if role = TeamRoleUser \<and> IsUserAssignedToInstance (user_ID u) k d then True
                       else False
                | None \<Rightarrow> IsUserAssignedToInstance (user_ID u) k d))"

section \<open>Handlers: login and the own account\<close>

definition openSession :: "gtime \<Rightarrow> nat list option \<Rightarrow> nat \<Rightarrow> User \<Rightarrow> handler" where
  \<comment> \<open>the common end of the three handlers that log a user in\<close>
  "openSession now rnd ok u w =
     (let (sid, ss) = CreateSession now rnd (user_ID u) (w_sessions w) in
      case sid of
        None \<Rightarrow> (writeError 500 ''Failed to create session'', w\<lparr>w_sessions := ss\<rparr>)
      | Some i \<Rightarrow>
          (setSessionCookie i (writeJSON ok (UserJSON (user_ID u) (Username u) (user_Role u))),
           w\<lparr>w_sessions := ss, w_db := TouchUserLastLogin now (user_ID u) (w_db w)\<rparr>))"

definition Login :: "services \<Rightarrow> gtime \<Rightarrow> nat list option \<Rightarrow> (string \<times> string) option \<Rightarrow> handler" where
  "Login sv now rnd body w =
     (case body of
        None \<Rightarrow> (writeError 400 ''Invalid request body'', w)
      | Some (name, pw) \<Rightarrow>
          if name = [] \<or> pw = [] then (writeError 400 ''Username and password are required'', w)
          else
            (case GetUserByUsername name (w_db w) of
               None \<Rightarrow> (writeError 401 ''Invalid username or password'', w)
             | Some u \<Rightarrow>
                 if \<not> sv_check sv pw (PasswordHash u)
                 then (writeError 401 ''Invalid username or password'', w)
                 else openSession now rnd 200 u w))"

definition Logout :: "string option \<Rightarrow> handler" where
  "Logout ck w =
     (let w1 = (case ck of None \<Rightarrow> w | Some i \<Rightarrow> w\<lparr>w_sessions := DeleteSession i (w_sessions w)\<rparr>)
      in (clearSessionCookie (writeJSON 200 StatusOK), w1))"

definition GetCurrentUser :: "User option \<Rightarrow> handler" where
  "GetCurrentUser cu w =
     (case cu of
        None \<Rightarrow> (writeError 401 ''Authentication required'', w)
      | Some u \<Rightarrow>
          let ts = (if user_Role u = ''admin''
                    then map (\<lambda>t. (team_ID t, team_Name t, TeamRoleManager)) (db_ListTeams (w_db w))
                    else map (\<lambda>(t, r). (team_ID t, team_Name t, r)) (GetUserTeams (user_ID u) (w_db w)))
          in (writeJSON 200 (MeJSON (user_ID u) (Username u) (user_Role u) ts), w))"

definition SetupRequired :: handler where
  "SetupRequired w = (writeJSON 200 (SetupJSON (UserCount (w_db w) = 0)), w)"

definition SetupCreateAdmin :: "services \<Rightarrow> gtime \<Rightarrow> nat list option \<Rightarrow> (string \<times> string) option \<Rightarrow> handler" where
  "SetupCreateAdmin sv now rnd body w =
     (if 0 < UserCount (w_db w) then (writeError 409 ''Setup already completed'', w)
      else
        (case body of
           None \<Rightarrow> (writeError 400 ''Invalid request body'', w)
         | Some (name, pw) \<Rightarrow>
             if name = [] \<or> pw = [] then (writeError 400 ''Username and password are required'', w)
             else
               (case sv_hash sv pw of
                  None \<Rightarrow> (writeError 500 ''Failed to hash password'', w)
                | Some h \<Rightarrow>
                    (case db_CreateUser \<lparr>user_ID = 0, Username = name, PasswordHash = h,
                                         user_Role = ''admin'', LastLoginAt = None\<rparr> (w_db w) of
                       None \<Rightarrow> (writeError 500 ''Failed to create admin user'', w)
                     | Some (u, d) \<Rightarrow> openSession now rnd 201 u (w\<lparr>w_db := d\<rparr>)))))"

definition ChangePassword :: "services \<Rightarrow> User option \<Rightarrow> string option \<Rightarrow> (string \<times> string) option \<Rightarrow> handler" where
  "ChangePassword sv cu ck body w =
     (case cu of
        None \<Rightarrow> (writeError 401 ''Authentication required'', w)
      | Some u \<Rightarrow>
          (case body of
             None \<Rightarrow> (writeError 400 ''Invalid request body'', w)
           | Some (cur, new) \<Rightarrow>
               if cur = [] \<or> new = []
               then (writeError 400 ''Current password and new password are required'', w)
               else
                 (case GetUserByID (user_ID u) (w_db w) of
                    None \<Rightarrow> (writeError 500 ''Failed to load user'', w)
                  | Some du \<Rightarrow>
                      if \<not> sv_check sv cur (PasswordHash du)
                      then (writeError 401 ''Current password is incorrect'', w)
                      else
                        (case sv_hash sv new of
                           None \<Rightarrow> (writeError 500 ''Failed to hash password'', w)
                         | Some h \<Rightarrow>
                             let w1 = w\<lparr>w_db := UpdateUserPassword (user_ID u) h (w_db w)\<rparr>;
                                 w2 = (case ck of
                                         None \<Rightarrow> w1
                                       | Some i \<Rightarrow> w1\<lparr>w_sessions :=
                                           DeleteByUserIDExcept (user_ID u) i (w_sessions w1)\<rparr>)
                             in (writeJSON 200 StatusOK, w2)))))"

section \<open>Handlers: WebAuthn\<close>

text \<open>\<open>ceremony\<close> is what the library returns: for a begin the session data, for a finish
  the credential (id, sign count), \<open>None\<close> for its error.\<close>

definition WebAuthnRegisterBegin :: "gtime \<Rightarrow> User option \<Rightarrow> string option \<Rightarrow> handler" where
  "WebAuthnRegisterBegin now cu ceremony w =
     (case cu of
        None \<Rightarrow> (writeError 401 ''Authentication required'', w)
      | Some u \<Rightarrow>
          (case GetUserByID (user_ID u) (w_db w) of
             None \<Rightarrow> (writeError 500 ''Failed to load user'', w)
           | Some _ \<Rightarrow>
               (case ceremony of
                  None \<Rightarrow> (writeJSON 500 (Detail_err ''WebAuthn error: ''), w)
                | Some sd \<Rightarrow>
                    (writeJSON 200 OptionsJSON,
                     w\<lparr>w_challenges := StoreChallenge now (user_ID u) sd (w_challenges w)\<rparr>))))"

definition WebAuthnRegisterFinish ::
    "gtime \<Rightarrow> User option \<Rightarrow> (string \<Rightarrow> (string \<times> nat) option) \<Rightarrow> string \<Rightarrow> string \<Rightarrow> handler" where
  "WebAuthnRegisterFinish now cu ceremony name today w =
     (case cu of
        None \<Rightarrow> (writeError 401 ''Authentication required'', w)
      | Some u \<Rightarrow>
          (case GetUserByID (user_ID u) (w_db w) of
             None \<Rightarrow> (writeError 500 ''Failed to load user'', w)
           | Some _ \<Rightarrow>
               let (sd, cs) = GetChallenge now (user_ID u) (w_challenges w);
                   w1 = w\<lparr>w_challenges := cs\<rparr>
               in case sd of
                    None \<Rightarrow> (writeError 400 ''No pending registration challenge'', w1)
                  | Some s \<Rightarrow>
                      (case ceremony s of
                         None \<Rightarrow> (writeJSON 400 (Detail_err ''Registration failed: ''), w1)
                       | Some (cid, n) \<Rightarrow>
                           let nm = (if name = [] then ''Passkey '' @ today else name) in
                           (case SaveWebAuthnCredential \<lparr>cred_ID = cid, cred_UserID = user_ID u,
                                                         cred_Name = nm, cred_SignCount = n\<rparr> (w_db w1) of
                              None \<Rightarrow> (writeError 500 ''Failed to save credential'', w1)
                            | Some d \<Rightarrow> (writeJSON 200 StatusOK, w1\<lparr>w_db := d\<rparr>)))))"

definition WebAuthnLoginBegin :: "gtime \<Rightarrow> string option \<Rightarrow> handler" where
  "WebAuthnLoginBegin now ceremony w =
     (case ceremony of
        None \<Rightarrow> (writeJSON 500 (Detail_err ''WebAuthn error: ''), w)
      | Some sd \<Rightarrow>
          (writeJSON 200 OptionsJSON, w\<lparr>w_challenges := StoreChallenge now 0 sd (w_challenges w)\<rparr>))"

definition WebAuthnLoginFinish ::
    "gtime \<Rightarrow> nat list option \<Rightarrow> (string \<Rightarrow> (string \<times> nat) option) \<Rightarrow> handler" where
  "WebAuthnLoginFinish now rnd ceremony w =
     (let (sd, cs) = GetChallenge now 0 (w_challenges w);
          w1 = w\<lparr>w_challenges := cs\<rparr>
      in case sd of
           None \<Rightarrow> (writeError 400 ''No pending login challenge'', w1)
         | Some s \<Rightarrow>
             (case ceremony s of
                None \<Rightarrow> (writeJSON 401 (Detail_err ''Login failed: ''), w1)
              | Some (cid, n) \<Rightarrow>
                  let d = UpdateCredentialSignCount cid n (w_db w1);
                      w2 = w1\<lparr>w_db := d\<rparr>
                  in case filter (\<lambda>c. cred_ID c = cid) (credentials d) of
                       [] \<Rightarrow> (writeError 401 ''Credential not found'', w2)
                     | c # _ \<Rightarrow>
                         (case GetUserByID (cred_UserID c) d of
                            None \<Rightarrow> (writeError 401 ''User not found'', w2)
                          | Some u \<Rightarrow> openSession now rnd 200 u w2)))"

definition ListWebAuthnCredentials :: "User option \<Rightarrow> handler" where
  "ListWebAuthnCredentials cu w =
     (case cu of
        None \<Rightarrow> (writeError 401 ''Authentication required'', w)
      | Some u \<Rightarrow>
          (writeJSON 200 (CredsJSON (map (\<lambda>c. (cred_ID c, cred_Name c))
             (GetWebAuthnCredentials (user_ID u) (w_db w)))), w))"

definition splitPath :: "string \<Rightarrow> string list" where
  "splitPath path = filter (\<lambda>p. p \<noteq> []) (go_split (CHR ''/'') path)"

definition DeleteWebAuthnCredential :: "User option \<Rightarrow> string \<Rightarrow> string \<Rightarrow> handler" where
  "DeleteWebAuthnCredential cu pathValue path w =
     (case cu of
        None \<Rightarrow> (writeError 401 ''Authentication required'', w)
      | Some u \<Rightarrow>
          let parts = splitPath path;
              cid = (if pathValue = [] then (if parts \<noteq> [] then last parts else []) else pathValue)
          in if cid = [] then (writeError 400 ''Credential ID required'', w)
             else (noContent, w\<lparr>w_db := db_DeleteWebAuthnCredential cid (user_ID u) (w_db w)\<rparr>))"

end
