(* ===== verification/UserAdmin.thy ===== *)
theory UserAdmin imports Accounts begin

text \<open>
  The administration handlers (\<^verbatim>\<open>handlers/teams.go\<close>, \<^verbatim>\<open>handlers/users.go\<close>),
  the routes of \<^verbatim>\<open>main.go\<close> with the middleware in front of them, and the properties of
  accounts, sessions and access that hold across requests.
\<close>

section \<open>Handlers: teams\<close>

definition teamToResponse :: "Team \<Rightarrow> teamResponse" where
  "teamToResponse t = \<lparr>tr_ID = team_ID t, tr_Name = team_Name t, tr_Description = team_Description t,
                       tr_MemberCount = 0, tr_InstanceCount = 0\<rparr>"

definition teamCounts :: "db \<Rightarrow> (nat \<Rightarrow> nat) \<times> (nat \<Rightarrow> nat)" where
  "teamCounts d =
     ((\<lambda>t. length (filter (\<lambda>m. tm_TeamID m = t) (team_members d))),
      (\<lambda>t. length (filter (\<lambda>x. inst_TeamID x = t) (instances d))))"

definition ListTeams :: "User option \<Rightarrow> handler" where
  "ListTeams cu w =
     (case cu of
        None \<Rightarrow> (writeError 401 ''Authentication required'', w)
      | Some u \<Rightarrow>
          let (mc, ic) = teamCounts (w_db w);
              resp = (\<lambda>t. (teamToResponse t)\<lparr>tr_MemberCount := mc (team_ID t),
                                              tr_InstanceCount := ic (team_ID t)\<rparr>)
          in if user_Role u = ''admin''
             then (writeJSON 200 (TeamsJSON (map resp (db_ListTeams (w_db w)))), w)
             else (writeJSON 200 (TeamsJSON (map (\<lambda>m. resp (fst m)) (GetUserTeams (user_ID u) (w_db w)))), w))"

definition CreateTeam :: "(string \<times> string) option \<Rightarrow> handler" where
  "CreateTeam body w =
     (case body of
        None \<Rightarrow> (writeError 400 ''Invalid request body'', w)
      | Some (nm, desc) \<Rightarrow>
          if trim_space nm = [] then (writeError 400 ''name is required'', w)
          else
            (case db_CreateTeam \<lparr>team_ID = 0, team_Name = trim_space nm, team_Description = desc\<rparr> (w_db w) of
               None \<Rightarrow> (writeJSON 400 (Detail_err ''Failed to create team: ''), w)
             | Some (t, d) \<Rightarrow> (writeJSON 201 (TeamJSON (teamToResponse t)), w\<lparr>w_db := d\<rparr>)))"

definition UpdateTeam :: "string \<Rightarrow> (string \<times> string) option \<Rightarrow> handler" where
  "UpdateTeam idp body w =
     (case atoi idp of
        None \<Rightarrow> (writeError 400 ''Invalid team ID'', w)
      | Some i \<Rightarrow>
          (case body of
             None \<Rightarrow> (writeError 400 ''Invalid request body'', w)
           | Some (nm, desc) \<Rightarrow>
               let name = (if trim_space nm \<noteq> [] then Some (trim_space nm) else None) in
               (case db_UpdateTeam (uint_of i) name desc (w_db w) of
                  None \<Rightarrow> (writeJSON 400 (Detail_err ''Failed to update team: ''), w)
                | Some d \<Rightarrow>
                    (case GetTeam (uint_of i) d of
                       None \<Rightarrow> (writeError 404 ''Team not found'', w\<lparr>w_db := d\<rparr>)
                     | Some t \<Rightarrow> (writeJSON 200 (TeamJSON (teamToResponse t)), w\<lparr>w_db := d\<rparr>)))))"

definition team_error_text :: "team_error \<Rightarrow> string" where
  "team_error_text e =
     (case e of
        Team_not_found \<Rightarrow> ''record not found''
      | Team_has_instances \<Rightarrow> ''team has instances; reassign or delete them first''
      | Invalid_team_role \<Rightarrow> ''invalid team role'')"

definition DeleteTeam :: "string \<Rightarrow> handler" where
  "DeleteTeam idp w =
     (case atoi idp of
        None \<Rightarrow> (writeError 400 ''Invalid team ID'', w)
      | Some i \<Rightarrow>
          (case db_DeleteTeam (uint_of i) (w_db w) of
             Inl e \<Rightarrow> (writeError 400 (team_error_text e), w)
           | Inr d \<Rightarrow> (noContent, w\<lparr>w_db := d\<rparr>)))"

definition ListTeamMembers :: "string \<Rightarrow> handler" where
  "ListTeamMembers idp w =
     (case atoi idp of
        None \<Rightarrow> (writeError 400 ''Invalid team ID'', w)
      | Some i \<Rightarrow> (writeJSON 200 (MembersJSON (db_ListTeamMembers (uint_of i) (w_db w))), w))"

definition SetTeamMember :: "string \<Rightarrow> (nat \<times> string) option \<Rightarrow> handler" where
  "SetTeamMember idp body w =
     (case atoi idp of
        None \<Rightarrow> (writeError 400 ''Invalid team ID'', w)
      | Some i \<Rightarrow>
          (case body of
             None \<Rightarrow> (writeError 400 ''Invalid request body'', w)
           | Some (uid, role) \<Rightarrow>
               if uid = 0 then (writeError 400 ''user_id is required'', w)
               else
                 (case db_SetTeamMember (uint_of i) uid role (w_db w) of
                    Inl e \<Rightarrow> (writeError 400 (team_error_text e), w)
                  | Inr d \<Rightarrow> (noContent, w\<lparr>w_db := d\<rparr>))))"

definition RemoveTeamMember :: "string \<Rightarrow> string \<Rightarrow> handler" where
  "RemoveTeamMember idp uidp w =
     (case atoi idp of
        None \<Rightarrow> (writeError 400 ''Invalid team ID'', w)
      | Some i \<Rightarrow>
          (case atoi uidp of
             None \<Rightarrow> (writeError 400 ''Invalid user ID'', w)
           | Some u \<Rightarrow>
               (case db_SetTeamMember (uint_of i) (uint_of u) [] (w_db w) of
                  Inl e \<Rightarrow> (writeError 400 (team_error_text e), w)
                | Inr d \<Rightarrow> (noContent, w\<lparr>w_db := d\<rparr>))))"

definition GetTeamProviders :: "string \<Rightarrow> handler" where
  "GetTeamProviders idp w =
     (case atoi idp of
        None \<Rightarrow> (writeError 400 ''Invalid team ID'', w)
      | Some i \<Rightarrow> (writeJSON 200 (ProviderIDsJSON (GetTeamProviderIDs (uint_of i) (w_db w))), w))"

fun check_providers :: "nat list \<Rightarrow> db \<Rightarrow> response option" where
  "check_providers [] d = None"
| "check_providers (p # ps) d =
     (case List.find (\<lambda>x. prov_ID x = p) (llm_providers d) of
        None \<Rightarrow> Some (writeError 400 ''Unknown provider'')
      | Some x \<Rightarrow>
          if prov_InstanceID x \<noteq> None
          then Some (writeError 400 ''Only global providers can be whitelisted to a team'')
          else check_providers ps d)"

definition SetTeamProviders :: "string \<Rightarrow> nat list option \<Rightarrow> handler" where
  "SetTeamProviders idp body w =
     (case atoi idp of
        None \<Rightarrow> (writeError 400 ''Invalid team ID'', w)
      | Some i \<Rightarrow>
          (case body of
             None \<Rightarrow> (writeError 400 ''Invalid request body'', w)
           | Some ps \<Rightarrow>
               (case check_providers ps (w_db w) of
                  Some r \<Rightarrow> (r, w)
                | None \<Rightarrow>
                    (case db_SetTeamProviders (uint_of i) ps (w_db w) of
                       None \<Rightarrow> (writeError 500 ''Failed to update providers'', w)
                     | Some d \<Rightarrow> (noContent, w\<lparr>w_db := d\<rparr>)))))"

section \<open>Handlers: users\<close>

definition last_by :: "('a \<Rightarrow> nat) \<Rightarrow> 'a list \<Rightarrow> nat \<rightharpoonup> 'a" where
  \<comment> \<open>the map a loop \<open>m[x.ID] = x\<close> builds\<close>
  "last_by f xs = map_of (rev (map (\<lambda>x. (f x, x)) xs))"

definition ListUsers :: handler where
  "ListUsers w =
     (let d = w_db w;
          teamByID = last_by team_ID (teams d);
          instByID = last_by inst_ID (instances d);
          teamsOf = (\<lambda>u. List.map_filter (\<lambda>m. case teamByID (tm_TeamID m) of
                        None \<Rightarrow> None
                      | Some t \<Rightarrow> if tm_UserID m = u then Some (team_ID t, team_Name t, tm_Role m) else None)
                      (team_members d));
          instancesOf = (\<lambda>u. List.map_filter (\<lambda>g. case instByID (ui_InstanceID g) of
                        None \<Rightarrow> None
                      | Some x \<Rightarrow>
                          if ui_UserID g = u
                          then Some \<lparr>ir_ID = inst_ID x, ir_Name = inst_Name x, ir_DisplayName = inst_DisplayName x,
                                     ir_TeamID = inst_TeamID x,
                                     ir_TeamName = (case teamByID (inst_TeamID x) of
                                                      None \<Rightarrow> [] | Some t \<Rightarrow> team_Name t)\<rparr>
                          else None)
                      (user_instances d))
      in (writeJSON 200 (UsersJSON (map (\<lambda>u. \<lparr>ur_ID = user_ID u, ur_Username = Username u,
            ur_Role = user_Role u, ur_LastLoginAt = LastLoginAt u,
            ur_Teams = teamsOf (user_ID u), ur_Instances = instancesOf (user_ID u)\<rparr>) (db_ListUsers d))), w))"

definition bad_role_text :: string where
  \<comment> \<open>\<open>Role must be 'admin' or 'user'\<close>\<close>
  "bad_role_text = ''Role must be '' @ [CHR 0x27] @ ''admin'' @ [CHR 0x27] @ '' or '' @ [CHR 0x27] @ ''user'' @ [CHR 0x27]"

definition CreateUser :: "services \<Rightarrow> (string \<times> string \<times> string) option \<Rightarrow> handler" where
  "CreateUser sv body w =
     (case body of
        None \<Rightarrow> (writeError 400 ''Invalid request body'', w)
      | Some (name, pw, role0) \<Rightarrow>
          if name = [] \<or> pw = [] then (writeError 400 ''Username and password are required'', w)
          else
            let role = (if role0 = [] then ''user'' else role0) in
            if role \<noteq> ''admin'' \<and> role \<noteq> ''user'' then (writeError 400 bad_role_text, w)
            else
              (case sv_hash sv pw of
                 None \<Rightarrow> (writeError 500 ''Failed to hash password'', w)
               | Some h \<Rightarrow>
                   (case db_CreateUser \<lparr>user_ID = 0, Username = name, PasswordHash = h,
                                        user_Role = role, LastLoginAt = None\<rparr> (w_db w) of
                      None \<Rightarrow> (writeError 409 ''Username already exists'', w)
                    | Some (u, d) \<Rightarrow>
                        (writeJSON 201 (UserJSON (user_ID u) (Username u) (user_Role u)), w\<lparr>w_db := d\<rparr>))))"

definition DeleteUser :: "User option \<Rightarrow> string \<Rightarrow> handler" where
  "DeleteUser cu uidp w =
     (case atoi uidp of
        None \<Rightarrow> (writeError 400 ''Invalid user ID'', w)
      | Some i \<Rightarrow>
          if (case cu of None \<Rightarrow> False | Some c \<Rightarrow> user_ID c = uint_of i)
          then (writeError 400 ''Cannot delete your own account'', w)
          else (noContent, w\<lparr>w_db := db_DeleteUser (uint_of i) (w_db w),
                             w_sessions := DeleteByUserID (uint_of i) (w_sessions w)\<rparr>))"

definition UpdateUserRole :: "User option \<Rightarrow> string \<Rightarrow> string option \<Rightarrow> handler" where
  "UpdateUserRole cu uidp body w =
     (case atoi uidp of
        None \<Rightarrow> (writeError 400 ''Invalid user ID'', w)
      | Some i \<Rightarrow>
          (case body of
             None \<Rightarrow> (writeError 400 ''Invalid request body'', w)
           | Some role \<Rightarrow>
               if role \<noteq> ''admin'' \<and> role \<noteq> ''user'' then (writeError 400 bad_role_text, w)
               else if (case cu of None \<Rightarrow> False | Some c \<Rightarrow> user_ID c = uint_of i \<and> role \<noteq> ''admin'')
               then (writeError 400 ''Cannot demote your own account'', w)
               else (writeJSON 200 StatusOK, w\<lparr>w_db := update_user i (\<lambda>u. u\<lparr>user_Role := role\<rparr>) (w_db w)\<rparr>)))"

definition GetUserTeamsHandler :: "string \<Rightarrow> handler" where
  "GetUserTeamsHandler uidp w =
     (case atoi uidp of
        None \<Rightarrow> (writeError 400 ''Invalid user ID'', w)
      | Some i \<Rightarrow>
          (writeJSON 200 (UserTeamsJSON (map (\<lambda>(t, r). (team_ID t, team_Name t, r))
             (GetUserTeams (uint_of i) (w_db w)))), w))"

definition GetUserAssignedInstances :: "string \<Rightarrow> handler" where
  "GetUserAssignedInstances uidp w =
     (case atoi uidp of
        None \<Rightarrow> (writeError 400 ''Invalid user ID'', w)
      | Some i \<Rightarrow> (writeJSON 200 (InstanceIDsJSON (GetUserInstances (uint_of i) (w_db w))), w))"

definition SetUserAssignedInstances :: "string \<Rightarrow> nat list option \<Rightarrow> handler" where
  "SetUserAssignedInstances uidp body w =
     (case atoi uidp of
        None \<Rightarrow> (writeError 400 ''Invalid user ID'', w)
      | Some i \<Rightarrow>
          (case body of
             None \<Rightarrow> (writeError 400 ''Invalid request body'', w)
           | Some ks \<Rightarrow>
               let (ok, d) = SetUserInstances (uint_of i) ks (w_db w) in
               if \<not> ok then (writeError 500 ''Failed to set instances'', w\<lparr>w_db := d\<rparr>)
               else (writeJSON 200 StatusOK, w\<lparr>w_db := d\<rparr>)))"

definition ResetUserPassword :: "services \<Rightarrow> string \<Rightarrow> string option \<Rightarrow> handler" where
  "ResetUserPassword sv uidp body w =
     (case atoi uidp of
        None \<Rightarrow> (writeError 400 ''Invalid user ID'', w)
      | Some i \<Rightarrow>
          (case body of
             None \<Rightarrow> (writeError 400 ''Invalid request body'', w)
           | Some pw \<Rightarrow>
               if pw = [] then (writeError 400 ''Password is required'', w)
               else
                 (case sv_hash sv pw of
                    None \<Rightarrow> (writeError 500 ''Failed to hash password'', w)
                  | Some h \<Rightarrow>
                      (writeJSON 200 StatusOK,
                       w\<lparr>w_db := UpdateUserPassword (uint_of i) h (w_db w),
                         w_sessions := DeleteByUserID (uint_of i) (w_sessions w)\<rparr>))))"

section \<open>Routes\<close>

text \<open>One constructor per route with its decoded inputs; \<open>main.go\<close> groups them by the
  middleware in front: none, \<open>RequireAuth\<close>, or \<open>RequireAuth\<close> and then
  \<open>RequireAdmin\<close>.\<close>

datatype public_route =
    PLogin "(string \<times> string) option"
  | PSetupRequired
  | PSetup "(string \<times> string) option"
  | PLoginBegin "string option"
  | PLoginFinish "string \<Rightarrow> (string \<times> nat) option"

datatype user_route =
    ULogout
  | UMe
  | UChangePassword "(string \<times> string) option"
  | URegisterBegin "string option"
  | URegisterFinish "string \<Rightarrow> (string \<times> nat) option" string string
  | UCredentials
  | UDeleteCredential string string
  | UTeams

datatype admin_route =
    ACreateTeam "(string \<times> string) option"
  | AUpdateTeam string "(string \<times> string) option"
  | ADeleteTeam string
  | ATeamMembers string
  | ASetTeamMember string "(nat \<times> string) option"
  | ARemoveTeamMember string string
  | ATeamProviders string
  | ASetTeamProviders string "nat list option"
  | AUsers
  | ACreateUser "(string \<times> string \<times> string) option"
  | ADeleteUser string
  | ASetRole string "string option"
  | AUserTeams string
  | AUserInstances string
  | ASetUserInstances string "nat list option"
  | AResetPassword string "string option"

datatype route = Public public_route | User_r user_route | Admin admin_route

record request =
  rq_now :: gtime
  rq_rand :: "nat list option"
  rq_cookie :: "string option"
  rq_route :: route

fun serve_public :: "services \<Rightarrow> request \<Rightarrow> public_route \<Rightarrow> handler" where
  "serve_public sv q (PLogin b) = Login sv (rq_now q) (rq_rand q) b"
| "serve_public sv q PSetupRequired = SetupRequired"
| "serve_public sv q (PSetup b) = SetupCreateAdmin sv (rq_now q) (rq_rand q) b"
| "serve_public sv q (PLoginBegin c) = WebAuthnLoginBegin (rq_now q) c"
| "serve_public sv q (PLoginFinish c) = WebAuthnLoginFinish (rq_now q) (rq_rand q) c"

fun serve_user :: "services \<Rightarrow> request \<Rightarrow> user_route \<Rightarrow> User option \<Rightarrow> handler" where
  "serve_user sv q ULogout cu = Logout (rq_cookie q)"
| "serve_user sv q UMe cu = GetCurrentUser cu"
| "serve_user sv q (UChangePassword b) cu = ChangePassword sv cu (rq_cookie q) b"
| "serve_user sv q (URegisterBegin c) cu = WebAuthnRegisterBegin (rq_now q) cu c"
| "serve_user sv q (URegisterFinish c n t) cu = WebAuthnRegisterFinish (rq_now q) cu c n t"
| "serve_user sv q UCredentials cu = ListWebAuthnCredentials cu"
| "serve_user sv q (UDeleteCredential v p) cu = DeleteWebAuthnCredential cu v p"
| "serve_user sv q UTeams cu = ListTeams cu"

fun serve_admin :: "services \<Rightarrow> admin_route \<Rightarrow> User option \<Rightarrow> handler" where
  "serve_admin sv (ACreateTeam b) cu = CreateTeam b"
| "serve_admin sv (AUpdateTeam i b) cu = UpdateTeam i b"
| "serve_admin sv (ADeleteTeam i) cu = DeleteTeam i"
| "serve_admin sv (ATeamMembers i) cu = ListTeamMembers i"
| "serve_admin sv (ASetTeamMember i b) cu = SetTeamMember i b"
| "serve_admin sv (ARemoveTeamMember i u) cu = RemoveTeamMember i u"
| "serve_admin sv (ATeamProviders i) cu = GetTeamProviders i"
| "serve_admin sv (ASetTeamProviders i b) cu = SetTeamProviders i b"
| "serve_admin sv AUsers cu = ListUsers"
| "serve_admin sv (ACreateUser b) cu = CreateUser sv b"
| "serve_admin sv (ADeleteUser u) cu = DeleteUser cu u"
| "serve_admin sv (ASetRole u b) cu = UpdateUserRole cu u b"
| "serve_admin sv (AUserTeams u) cu = GetUserTeamsHandler u"
| "serve_admin sv (AUserInstances u) cu = GetUserAssignedInstances u"
| "serve_admin sv (ASetUserInstances u b) cu = SetUserAssignedInstances u b"
| "serve_admin sv (AResetPassword u b) cu = ResetUserPassword sv u b"

definition serve :: "services \<Rightarrow> bool \<Rightarrow> request \<Rightarrow> handler" where
  "serve sv disabled q =
     (case rq_route q of
        Public r \<Rightarrow> serve_public sv q r
      | User_r r \<Rightarrow> RequireAuth disabled (rq_now q) (rq_cookie q) (serve_user sv q r)
      | Admin r \<Rightarrow> RequireAuth disabled (rq_now q) (rq_cookie q)
                     (\<lambda>cu. RequireAdmin cu (serve_admin sv r cu)))"

definition serve_all :: "services \<Rightarrow> bool \<Rightarrow> request list \<Rightarrow> world \<Rightarrow> world" where
  "serve_all sv disabled qs w = foldl (\<lambda>w q. snd (serve sv disabled q w)) w qs"

section \<open>What requests can change\<close>

lemma openSession_db: "w_db (snd (openSession now rnd ok u w)) = w_db w
    \<or> w_db (snd (openSession now rnd ok u w)) = TouchUserLastLogin now (user_ID u) (w_db w)"
  by (auto simp: openSession_def split: prod.splits option.splits)

text \<open>The identity of an account, without password and login time.\<close>

definition accounts :: "db \<Rightarrow> (nat \<times> string \<times> string) list" where
  "accounts d = map (\<lambda>u. (user_ID u, Username u, user_Role u)) (users d)"

definition shared_tables where
  "shared_tables (d :: db) = (accounts d, teams d, team_members d, team_providers d, user_instances d,
                      instances d, llm_providers d, settings d)"

lemma accounts_update:
  assumes "\<And>u. (user_ID (f u), Username (f u), user_Role (f u)) = (user_ID u, Username u, user_Role u)"
  shows "shared_tables (update_user i f d) = shared_tables d"
  using assms by (simp add: shared_tables_def accounts_def update_user_def)

lemma shared_tables_frames [db_frames]:
  "shared_tables (UpdateUserPassword k h d) = shared_tables d"
  "shared_tables (TouchUserLastLogin now k d) = shared_tables d"
  "shared_tables (db_DeleteWebAuthnCredential c k d) = shared_tables d"
  "shared_tables (UpdateCredentialSignCount c n d) = shared_tables d"
  unfolding UpdateUserPassword_def TouchUserLastLogin_def
  by (rule accounts_update, simp)+
     (simp_all add: shared_tables_def accounts_def db_DeleteWebAuthnCredential_def UpdateCredentialSignCount_def)

lemma shared_tables_save [db_frames]:
  "SaveWebAuthnCredential c d = Some d' \<Longrightarrow> shared_tables d' = shared_tables d"
  by (auto simp: SaveWebAuthnCredential_def shared_tables_def accounts_def split: if_splits)

lemma shared_tables_openSession [db_frames]:
  "shared_tables (w_db (snd (openSession now rnd ok u w))) = shared_tables (w_db w)"
  using openSession_db [of now rnd ok u w] by (auto simp: db_frames)

lemma shared_tables_login [db_frames]:
  "shared_tables (w_db (snd (Login sv now rnd b w))) = shared_tables (w_db w)"
  by (simp add: Login_def db_frames split: option.splits prod.splits)

lemma shared_tables_loginFinish [db_frames]:
  "shared_tables (w_db (snd (WebAuthnLoginFinish now rnd c w))) = shared_tables (w_db w)"
  by (auto simp: WebAuthnLoginFinish_def db_frames Let_def split: option.splits prod.splits list.splits)

lemma shared_tables_user [db_frames]:
  "shared_tables (w_db (snd (serve_user sv q r cu w))) = shared_tables (w_db w)"
proof (cases r)
  case (URegisterFinish c n t)
  then show ?thesis
    by (auto simp: WebAuthnRegisterFinish_def Let_def dest: shared_tables_save split: option.splits prod.splits)
qed (auto simp: Logout_def GetCurrentUser_def ChangePassword_def WebAuthnRegisterBegin_def
      ListWebAuthnCredentials_def DeleteWebAuthnCredential_def ListTeams_def db_frames Let_def
      split: option.splits prod.splits)

lemma shared_tables_public:
  "shared_tables (w_db (snd (serve_public sv q r w))) = shared_tables (w_db w)
   \<or> UserCount (w_db w) = 0"
proof (cases r)
  case (PSetup b)
  then show ?thesis by (auto simp: SetupCreateAdmin_def)
qed (auto simp: SetupRequired_def WebAuthnLoginBegin_def db_frames split: option.splits)

lemma RequireAuth_cases:
  obtains (refused) r where "RequireAuth dis now ck next w = (r, w)" "rs_status r = 401 \<or> rs_status r = 500"
  | (passed) u where "RequireAuth dis now ck next w = next (Some u) w" "u \<in> set (users (w_db w))"
      "if dis then GetFirstAdmin (w_db w) = Some u
       else \<exists>i. ck = Some i \<and> GetSession now i (w_sessions w) = Some (user_ID u)"
proof -
  have first: "u \<in> set (users (w_db w))" if "GetFirstAdmin (w_db w) = Some u" for u
    using find_Some_in [OF that [unfolded GetFirstAdmin_def]] by simp
  have byid: "u \<in> set (users (w_db w)) \<and> user_ID u = i" if "GetUserByID i (w_db w) = Some u" for u i
    using find_Some_in [OF that [unfolded GetUserByID_def]] by simp
  show thesis
  proof (cases dis)
    case True
    show thesis
    proof (cases "GetFirstAdmin (w_db w)")
      case None
      with True show thesis
        by (intro refused [of "writeError 500 ''No admin user found''"])
           (simp_all add: RequireAuth_def writeError_def writeJSON_def)
    next
      case (Some u)
      with True show thesis by (intro passed [of u]) (simp_all add: RequireAuth_def first)
    qed
  next
    case False
    have r: "rs_status (writeError 401 m) = 401" for m by (simp add: writeError_def writeJSON_def)
    show thesis
    proof (cases "\<exists>i uid u. ck = Some i \<and> GetSession now i (w_sessions w) = Some uid
        \<and> GetUserByID uid (w_db w) = Some u")
      case True
      then obtain i uid u where *: "ck = Some i" "GetSession now i (w_sessions w) = Some uid"
        "GetUserByID uid (w_db w) = Some u" by blast
      from byid [OF *(3)] * False show thesis
        by (intro passed [of u]) (auto simp: RequireAuth_def)
    next
      case no: False
      then show thesis using False
        by (intro refused [of "writeError 401 ''Authentication required''"])
           (auto simp: RequireAuth_def r split: option.splits)
    qed
  qed
qed

section \<open>An administrator remains\<close>

definition has_admin :: "db \<Rightarrow> bool" where
  "has_admin d \<longleftrightarrow> (\<exists>u\<in>set (users d). user_Role u = ''admin'')"

lemma has_admin_accounts: "has_admin d \<longleftrightarrow> (\<exists>i n. (i, n, ''admin'') \<in> set (accounts d))"
  by (force simp: has_admin_def accounts_def)

lemma has_admin_cong: "shared_tables d' = shared_tables d \<Longrightarrow> has_admin d' = has_admin d"
  by (simp add: has_admin_accounts shared_tables_def)

lemma has_admin_users_grow: "has_admin d \<Longrightarrow> set (users d) \<subseteq> set (users d') \<Longrightarrow> has_admin d'"
  by (auto simp: has_admin_def)

lemma users_CreateUser: "db_CreateUser u d = Some (u', d') \<Longrightarrow> set (users d) \<subseteq> set (users d')"
  by (auto simp: db_CreateUser_def Let_def split: if_splits)

lemma users_frames [db_frames]:
  "db_CreateTeam t d = Some (t', d') \<Longrightarrow> users d' = users d"
  "db_UpdateTeam i nm s d = Some d' \<Longrightarrow> users d' = users d"
  "db_DeleteTeam i d = Inr d' \<Longrightarrow> users d' = users d"
  "db_SetTeamMember i k r d = Inr d' \<Longrightarrow> users d' = users d"
  "db_SetTeamProviders i ks d = Some d' \<Longrightarrow> users d' = users d"
  by (auto simp: db_CreateTeam_def db_UpdateTeam_def db_DeleteTeam_def db_SetTeamMember_def
      db_SetTeamProviders_def Let_def split: if_splits option.splits)

lemma has_admin_users: "users d' = users d \<Longrightarrow> has_admin d' = has_admin d"
  by (simp add: has_admin_def)

lemma has_admin_password [simp]: "has_admin (UpdateUserPassword k h d) = has_admin d"
  by (rule has_admin_cong) (simp add: db_frames)

lemma has_admin_touch [simp]: "has_admin (TouchUserLastLogin now k d) = has_admin d"
  by (rule has_admin_cong) (simp add: db_frames)

lemma has_admin_grants [simp]: "has_admin (d\<lparr>user_instances := gs\<rparr>) = has_admin d"
  by (simp add: has_admin_def)

lemma has_admin_delete:
  assumes "u \<in> set (users d)" "user_Role u = ''admin''" "user_ID u \<noteq> k"
  shows "has_admin (db_DeleteUser k d)"
  using assms by (auto simp: has_admin_def db_DeleteUser_def Let_def)

lemma has_admin_role:
  assumes "u \<in> set (users d)" "user_Role u = ''admin''" "int (user_ID u) = k \<Longrightarrow> role = ''admin''"
  shows "has_admin (update_user k (\<lambda>u. u\<lparr>user_Role := role\<rparr>) d)"
  using assms unfolding has_admin_def update_user_def
  by (intro bexI [of _ "if int (user_ID u) = k then u\<lparr>user_Role := role\<rparr> else u"]) auto

lemma admin_keeps_admin:
  assumes u: "u \<in> set (users (w_db w))" "user_Role u = ''admin''"
  shows "has_admin (w_db (snd (serve_admin sv r (Some u) w)))"
proof -
  have ok: "has_admin (w_db w)" using u by (auto simp: has_admin_def)
  show ?thesis
  proof (cases r)
    case (ADeleteUser uidp)
    with u ok show ?thesis
      by (auto simp: DeleteUser_def intro: has_admin_delete split: option.splits)
  next
    case (ASetRole uidp b)
    have "role = ''admin''" if "atoi uidp = Some i" "int (user_ID u) = i"
      "\<not> (user_ID u = uint_of i \<and> role \<noteq> ''admin'')" for i role
      using that uint_of_nat by metis
    with ASetRole u ok show ?thesis
      by (auto simp: UpdateUserRole_def intro: has_admin_role split: option.splits)
  next
    case (ACreateUser b)
    with ok show ?thesis
      by (auto simp: CreateUser_def Let_def split: option.splits
          intro: has_admin_users_grow dest: users_CreateUser)
  qed (use ok in \<open>auto simp: CreateTeam_def UpdateTeam_def DeleteTeam_def ListTeamMembers_def SetTeamMember_def
        RemoveTeamMember_def GetTeamProviders_def SetTeamProviders_def ListUsers_def GetUserTeamsHandler_def
        GetUserAssignedInstances_def SetUserAssignedInstances_def ResetUserPassword_def SetUserInstances_def Let_def
        dest!: users_frames has_admin_users split: option.splits sum.splits prod.splits\<close>)
qed

lemma has_admin_public: "has_admin (w_db w) \<Longrightarrow> has_admin (w_db (snd (serve_public sv q r w)))"
proof -
  assume a: "has_admin (w_db w)"
  then have "UserCount (w_db w) \<noteq> 0" by (auto simp: has_admin_def UserCount_def)
  then have "shared_tables (w_db (snd (serve_public sv q r w))) = shared_tables (w_db w)"
    using shared_tables_public [of sv q r w] by simp
  from has_admin_cong [OF this] a show ?thesis by simp
qed

lemma has_admin_serve: "has_admin (w_db w) \<Longrightarrow> has_admin (w_db (snd (serve sv dis q w)))"
proof (cases "rq_route q")
  case (Public r)
  then show "has_admin (w_db w) \<Longrightarrow> ?thesis" by (simp add: serve_def has_admin_public)
next
  case (User_r r)
  assume a: "has_admin (w_db w)"
  have keep: "has_admin (w_db (snd (serve_user sv q r cu w)))" for cu
    using a has_admin_cong [OF shared_tables_user] by blast
  show ?thesis
    by (rule RequireAuth_cases [of dis "rq_now q" "rq_cookie q" "serve_user sv q r" w])
       (use a keep User_r in \<open>auto simp: serve_def\<close>)
next
  case (Admin r)
  assume a: "has_admin (w_db w)"
  have keep: "has_admin (w_db (snd (RequireAdmin (Some u) (serve_admin sv r (Some u)) w)))"
    if "u \<in> set (users (w_db w))" for u
    using a that by (auto simp: RequireAdmin_def admin_keeps_admin)
  show ?thesis
    by (rule RequireAuth_cases [of dis "rq_now q" "rq_cookie q" "\<lambda>cu. RequireAdmin cu (serve_admin sv r cu)" w])
       (use a keep Admin in \<open>auto simp: serve_def\<close>)
qed

text \<open>C10: No sequence of requests leaves the server without an administrator: if an account with the role
  \<open>admin\<close> exists, one exists after any requests to the account routes, whatever they ask to delete or
  demote, with authentication enabled or not.\<close>

theorem admin_survives:
  assumes "has_admin (w_db w)"
  shows "has_admin (w_db (serve_all sv disabled qs w))"
  using assms unfolding serve_all_def
  by (induction qs arbitrary: w) (auto simp: has_admin_serve)

definition sample_services :: services where
  "sample_services = \<lparr>sv_hash = (\<lambda>p. Some (''h'' @ p)), sv_check = (\<lambda>p h. h = ''h'' @ p)\<rparr>"

definition sample_world :: world where
  "sample_world =
     \<lparr>w_db = empty_db\<lparr>teams := [\<lparr>team_ID = 1, team_Name = ''a'', team_Description = []\<rparr>],
              team_members := [\<lparr>tm_TeamID = 1, tm_UserID = 2, tm_Role = ''manager''\<rparr>],
              users := [\<lparr>user_ID = 1, Username = ''root'', PasswordHash = ''hx'', user_Role = ''admin'', LastLoginAt = None\<rparr>,
                        \<lparr>user_ID = 2, Username = ''bob'', PasswordHash = ''hy'', user_Role = ''user'', LastLoginAt = None\<rparr>],
              instances := [zero_instance\<lparr>inst_ID := 7, inst_Name := ''i'', inst_DisplayName := ''I'', inst_TeamID := 1\<rparr>],
              next_team := 2, next_user := 3\<rparr>,
      w_sessions = [''s'' \<mapsto> \<lparr>se_UserID = 1, se_ExpiresAt = 100\<rparr>], w_challenges = Map.empty\<rparr>"

theorem admin_survives_witness:
  "has_admin (w_db (serve_all sample_services False
     [\<lparr>rq_now = 5, rq_rand = None, rq_cookie = Some ''s'', rq_route = Admin (ADeleteUser ''2'')\<rparr>] sample_world))"
  by (rule admin_survives) (simp add: has_admin_def sample_world_def)

section \<open>Only administrators change shared data\<close>

text \<open>The account a request acts as: the first administrator when authentication is disabled, the
  owner of a valid session otherwise.\<close>

definition acting_user :: "bool \<Rightarrow> request \<Rightarrow> world \<Rightarrow> User option" where
  "acting_user disabled q w =
     (if disabled then GetFirstAdmin (w_db w)
      else (case rq_cookie q of
              None \<Rightarrow> None
            | Some i \<Rightarrow> (case GetSession (rq_now q) i (w_sessions w) of
                           None \<Rightarrow> None
                         | Some k \<Rightarrow> GetUserByID k (w_db w))))"

lemma RequireAuth_acting:
  "snd (RequireAuth dis (rq_now q) (rq_cookie q) next w) =
     (case acting_user dis q w of None \<Rightarrow> w | Some u \<Rightarrow> snd (next (Some u) w))"
  by (auto simp: RequireAuth_def acting_user_def split: option.splits)



section \<open>Sessions die with the password and the account\<close>

text \<open>C9: Changing credentials ends sessions.  After \<open>ResetUserPassword\<close> answers 200 no session of that
  user authenticates at any time; after \<open>DeleteUser\<close> answers 204 neither does one, and the
  account, its grants and its credentials are gone (its team memberships stay); after
  \<open>ChangePassword\<close> answers 200 to a request with a session cookie, that session is the only one left
  for the user.  When they answer otherwise, nothing changed.\<close>

theorem credential_changes_end_sessions:
  "(let (r, w') = ResetUserPassword sv idp b w in
      if rs_status r = 200
      then (\<exists>i. atoi idp = Some i \<and> (\<forall>t s. GetSession t s (w_sessions w') \<noteq> Some (uint_of i)))
      else w' = w)
   \<and> (let (r, w') = DeleteUser cu idp w in
      if rs_status r = 204
      then (\<exists>i. atoi idp = Some i \<and> (\<forall>t s. GetSession t s (w_sessions w') \<noteq> Some (uint_of i))
              \<and> GetUserByID (uint_of i) (w_db w') = None
              \<and> GetUserInstances (uint_of i) (w_db w') = [] \<and> GetWebAuthnCredentials (uint_of i) (w_db w') = []
              \<and> team_members (w_db w') = team_members (w_db w))
      else w' = w)
   \<and> (let (r, w') = ChangePassword sv (Some u) (Some c) pws w in
      if rs_status r = 200
      then (\<forall>t s. (GetSession t s (w_sessions w') = Some (user_ID u))
              = (s = c \<and> GetSession t c (w_sessions w) = Some (user_ID u)))
      else w' = w)"
proof -
  have e: "rs_status (writeError n m) = n" "rs_status (writeJSON n b) = n" for n m b
    by (simp_all add: writeError_def writeJSON_def)
  have reset: "let (r, w') = ResetUserPassword sv idp b w in
      if rs_status r = 200
      then (\<exists>i. atoi idp = Some i \<and> (\<forall>t s. GetSession t s (w_sessions w') \<noteq> Some (uint_of i)))
      else w' = w"
    by (auto simp: ResetUserPassword_def e GetSession_DeleteByUserID split: option.splits)
  have del: "let (r, w') = DeleteUser cu idp w in
      if rs_status r = 204
      then (\<exists>i. atoi idp = Some i \<and> (\<forall>t s. GetSession t s (w_sessions w') \<noteq> Some (uint_of i))
              \<and> GetUserByID (uint_of i) (w_db w') = None
              \<and> GetUserInstances (uint_of i) (w_db w') = [] \<and> GetWebAuthnCredentials (uint_of i) (w_db w') = []
              \<and> team_members (w_db w') = team_members (w_db w))
      else w' = w"
    by (auto simp: DeleteUser_def e noContent_def GetSession_DeleteByUserID db_DeleteUser_def Let_def
        GetUserByID_def find_None_all GetUserInstances_def GetWebAuthnCredentials_def split: option.splits)
  have "GetSession t s (DeleteByUserIDExcept (user_ID u) c ss) = Some (user_ID u)
      \<longleftrightarrow> s = c \<and> GetSession t c ss = Some (user_ID u)" for t s ss
    by (auto simp: GetSession_Some DeleteByUserIDExcept_def)
  then have change: "let (r, w') = ChangePassword sv (Some u) (Some c) pws w in
      if rs_status r = 200
      then (\<forall>t s. (GetSession t s (w_sessions w') = Some (user_ID u))
              = (s = c \<and> GetSession t c (w_sessions w) = Some (user_ID u)))
      else w' = w"
    by (auto simp: ChangePassword_def e Let_def split: option.splits)
  show ?thesis using reset del change by blast
qed

section \<open>The two views of access agree\<close>

lemma db_ok_admin:
  assumes ok: "db_ok (w_db w)"
  shows "db_ok (w_db (snd (serve_admin sv r cu w)))"
proof (cases r)
  case (ADeleteTeam i)
  with ok show ?thesis by (auto simp: DeleteTeam_def intro: db_ok_DeleteTeam split: option.splits sum.splits)
next
  case (ASetTeamMember i b)
  with ok show ?thesis by (auto simp: SetTeamMember_def intro: db_ok_SetTeamMember split: option.splits sum.splits)
next
  case (ARemoveTeamMember i u)
  with ok show ?thesis by (auto simp: RemoveTeamMember_def intro: db_ok_SetTeamMember split: option.splits sum.splits)
next
  case (ACreateTeam b)
  with ok show ?thesis by (auto simp: CreateTeam_def intro: db_ok_CreateTeam split: option.splits)
next
  case (AUpdateTeam i b)
  with ok show ?thesis by (auto simp: UpdateTeam_def Let_def intro: db_ok_UpdateTeam split: option.splits)
next
  case (ASetUserInstances i b)
  have "db_ok (d\<lparr>user_instances := gs\<rparr>) = db_ok d" for d gs by (simp add: db_ok_def)
  with ASetUserInstances ok show ?thesis
    by (auto simp: SetUserAssignedInstances_def SetUserInstances_def Let_def split: option.splits prod.splits)
qed (use ok in \<open>auto simp: ListTeamMembers_def GetTeamProviders_def SetTeamProviders_def ListUsers_def
      CreateUser_def DeleteUser_def UpdateUserRole_def GetUserTeamsHandler_def GetUserAssignedInstances_def
      ResetUserPassword_def Let_def db_frames db_ok_cong [OF access_tables_frames(4)]
      db_ok_cong [OF access_tables_frames(5)] db_ok_cong [OF access_tables_frames(6)]
      dest: access_tables_optional [THEN db_ok_cong] split: option.splits prod.splits\<close>)

lemma db_ok_shared: "shared_tables d' = shared_tables d \<Longrightarrow> db_ok d' = db_ok d"
  by (simp add: shared_tables_def db_ok_def)

lemma db_ok_setup: "db_ok (w_db w) \<Longrightarrow> db_ok (w_db (snd (SetupCreateAdmin sv now rnd b w)))"
  by (auto simp: SetupCreateAdmin_def db_ok_shared [OF shared_tables_openSession]
      dest: access_tables_optional(1) [THEN db_ok_cong] split: option.splits)

lemma db_ok_serve: "db_ok (w_db w) \<Longrightarrow> db_ok (w_db (snd (serve sv dis q w)))"
proof (cases "rq_route q")
  case (Public r)
  assume ok: "db_ok (w_db w)"
  have "db_ok (w_db (snd (serve_public sv q r w)))"
  proof (cases r)
    case (PSetup b)
    with ok show ?thesis by (simp add: db_ok_setup)
  qed (use ok in \<open>auto simp: SetupRequired_def WebAuthnLoginBegin_def db_ok_shared [OF shared_tables_login]
        db_ok_shared [OF shared_tables_loginFinish] split: option.splits\<close>)
  with Public show ?thesis by (simp add: serve_def)
next
  case (User_r r)
  assume "db_ok (w_db w)"
  with User_r show ?thesis
    by (auto simp: serve_def RequireAuth_acting db_ok_shared [OF shared_tables_user] split: option.split)
next
  case (Admin r)
  assume "db_ok (w_db w)"
  with Admin show ?thesis
    by (auto simp: serve_def RequireAuth_acting RequireAdmin_def db_ok_admin split: option.split)
qed

lemma db_ok_serve_all: "db_ok (w_db w) \<Longrightarrow> db_ok (w_db (serve_all sv dis qs w))"
  unfolding serve_all_def by (induction qs arbitrary: w) (auto simp: db_ok_serve)

text \<open>C2: After any sequence of account, team and membership requests from a well-formed database,
  the check before an operation on an instance (\<open>CanAccessInstance\<close>) and the list the dashboard
  filters by (\<open>AccessibleInstanceIDs\<close>) agree for every existing instance and every ordinary user:
  managers of the instance's team, and its plain members with a grant.\<close>

theorem access_views_agree:
  assumes "db_ok (w_db w)"
  shows "let d = w_db (serve_all sv disabled qs w) in
     CanAccessInstance (Some u) k d =
       (if user_Role u = ''admin'' then True
        else if GetInstance k d = None then IsUserAssignedToInstance (user_ID u) k d
        else k \<in> set (AccessibleInstanceIDs (user_ID u) d))"
  using accessible_iff [OF db_ok_serve_all [OF assms]]
  by (auto simp: CanAccessInstance_def Let_def split: option.splits)

theorem access_views_agree_witness:
  "let d = w_db (serve_all sample_services False
     [\<lparr>rq_now = 5, rq_rand = None, rq_cookie = Some ''s'', rq_route = Admin (AUserTeams ''2'')\<rparr>] sample_world) in
     CanAccessInstance (GetUserByID 2 (w_db sample_world)) 7 d =
       (if ''user'' = ''admin'' then True
        else if GetInstance 7 d = None then IsUserAssignedToInstance 2 7 d
        else 7 \<in> set (AccessibleInstanceIDs 2 d))"
proof -
  define u where "u = (\<lparr>user_ID = 2, Username = ''bob'', PasswordHash = ''hy'', user_Role = ''user'', LastLoginAt = None\<rparr> :: User)"
  have g: "GetUserByID 2 (w_db sample_world) = Some u"
    by (simp add: GetUserByID_def sample_world_def u_def)
  have "db_ok (w_db sample_world)"
    by (simp add: db_ok_def members_ok_def sample_world_def TeamRoleManager_def TeamRoleUser_def)
  from access_views_agree [OF this, of sample_services False
      "[\<lparr>rq_now = 5, rq_rand = None, rq_cookie = Some ''s'', rq_route = Admin (AUserTeams ''2'')\<rparr>]" u 7]
  show ?thesis unfolding g by (simp add: u_def Let_def)
qed

end
