(* ===== verification/Json.thy ===== *)
theory Json imports Utf8 begin

text \<open>
  The part of \<open>encoding/json\<close> that the program's decoding rests on: the parser of JSON texts
  (\<open>checkValid\<close> and the scanner), the assignment of a parsed value to a Go variable whose type is
  a \<open>shape\<close> (\<open>json.Unmarshal\<close>), and the coding of lists of ids in text columns
  (\<^verbatim>\<open>control-plane/internal/database/models/models.go\<close>).

  An object keeps its members in order, as repeated and differently cased names matter to
  \<open>Unmarshal\<close>; a number keeps its text.  Names are compared by their ASCII letters (Go also folds
  two non-ASCII letters).
\<close>

datatype json =
    JNull
  | JBool bool
  | JNum string
  | JStr string
  | JArr "json list"
  | JObj "(string \<times> json) list"

type_synonym jobject = "(string \<times> json) list"

section \<open>Parsing\<close>

definition json_ws :: "char \<Rightarrow> bool" where
  "json_ws c \<longleftrightarrow> c = CHR '' '' \<or> c = CHR 0x09 \<or> c = CHR 0x0A \<or> c = CHR 0x0D"

definition skip_ws :: "string \<Rightarrow> string" where
  "skip_ws s = dropWhile json_ws s"

text \<open>The four digits of a \<open>\\u\<close> escape, and the rune of one or of a surrogate pair.\<close>

definition hex4 :: "string \<Rightarrow> nat option" where
  "hex4 s = (if 4 \<le> length s \<and> list_all (\<lambda>c. hex_val c \<noteq> None) (take 4 s) then Some (hex_value (take 4 s)) else None)"

definition low_surrogate :: "string \<Rightarrow> nat option" where
  \<comment> \<open>the second half of a pair at the start of the rest\<close>
  "low_surrogate s =
     (if has_prefix s [CHR 0x5C, CHR ''u''] then
        (case hex4 (drop 2 s) of
           Some r \<Rightarrow> if 0xDC00 \<le> r \<and> r < 0xE000 then Some r else None
         | None \<Rightarrow> None)
      else None)"

definition simple_escape :: "char \<Rightarrow> char option" where
  "simple_escape c =
     (if c = CHR 0x22 \<or> c = CHR 0x5C \<or> c = CHR ''/'' then Some c
      else if c = CHR ''b'' then Some (CHR 0x08)
      else if c = CHR ''f'' then Some (CHR 0x0C)
      else if c = CHR ''n'' then Some (CHR 0x0A)
      else if c = CHR ''r'' then Some (CHR 0x0D)
      else if c = CHR ''t'' then Some (CHR 0x09) else None)"

text \<open>The bytes of the next character of a string, given its first byte, and the text after it.\<close>

definition next_char :: "char \<Rightarrow> string \<Rightarrow> (string \<times> string) option" where
  "next_char c r =
     (if byte c < 32 then None
      else if c \<noteq> CHR 0x5C then Some ([c], r)
      else
        (case r of
           [] \<Rightarrow> None
         | e # r1 \<Rightarrow>
             if e = CHR ''u'' then
               (case hex4 r1 of
                  None \<Rightarrow> None
                | Some h \<Rightarrow>
                    if 0xD800 \<le> h \<and> h < 0xDC00 then
                      (case low_surrogate (drop 4 r1) of
                         Some l \<Rightarrow> Some (encode_rune (0x10000 + (h - 0xD800) * 1024 + (l - 0xDC00)), drop 10 r1)
                       | None \<Rightarrow> Some (encode_rune 0xFFFD, drop 4 r1))
                    else Some (encode_rune h, drop 4 r1))
             else map_option (\<lambda>x. ([x], r1)) (simple_escape e)))"

lemma next_char_length: "next_char c r = Some (x, q) \<Longrightarrow> length q \<le> length r"
  by (auto simp: next_char_def split: if_splits list.splits option.splits)

text \<open>The body of a string up to its closing quote; what is left is the text after it.\<close>

function string_body :: "string \<Rightarrow> (string \<times> string) option" where
  "string_body [] = None"
| "string_body (c # r) =
     (if c = CHR 0x22 then Some ([], r)
      else case next_char c r of
             None \<Rightarrow> None
           | Some (x, q) \<Rightarrow> map_option (\<lambda>(t, q1). (x @ t, q1)) (string_body q))"
  by pat_completeness auto
termination
  by (relation "measure length") (auto dest: next_char_length)

definition to_valid_utf8 :: "string \<Rightarrow> string" where
  \<comment> \<open>each byte that starts no rune becomes U+FFFD\<close>
  "to_valid_utf8 s = concat (map encode_rune (runes s))"

definition is_digit :: "char \<Rightarrow> bool" where
  "is_digit c \<longleftrightarrow> digit_val c \<noteq> None"

definition digits1 :: "string \<Rightarrow> (string \<times> string) option" where
  "digits1 s = (let ds = takeWhile is_digit s in if ds = [] then None else Some (ds, dropWhile is_digit s))"

definition int_part :: "string \<Rightarrow> (string \<times> string) option" where
  "int_part s = (if has_prefix s ''0'' then Some (''0'', tl s) else digits1 s)"

definition frac_part :: "string \<Rightarrow> (string \<times> string) option" where
  "frac_part s = (if has_prefix s ''.'' then map_option (\<lambda>(ds, r). (''.'' @ ds, r)) (digits1 (tl s)) else Some ([], s))"

definition exp_part :: "string \<Rightarrow> (string \<times> string) option" where
  "exp_part s =
     (if has_prefix s ''e'' \<or> has_prefix s ''E'' then
        (if has_prefix (tl s) ''+'' \<or> has_prefix (tl s) ''-''
         then map_option (\<lambda>(ds, r). (take 2 s @ ds, r)) (digits1 (drop 2 s))
         else map_option (\<lambda>(ds, r). (take 1 s @ ds, r)) (digits1 (tl s)))
      else Some ([], s))"

definition number_text :: "string \<Rightarrow> (string \<times> string) option" where
  "number_text s =
     (let (sign, s1) = (if has_prefix s ''-'' then (''-'', tl s) else ([], s)) in
      case int_part s1 of
        None \<Rightarrow> None
      | Some (ip, s2) \<Rightarrow>
          (case frac_part s2 of
             None \<Rightarrow> None
           | Some (fp, s3) \<Rightarrow> map_option (\<lambda>(ep, r). (sign @ ip @ fp @ ep, r)) (exp_part s3)))"

text \<open>The value at the start of a text.  The first argument bounds the calls, the second is the nesting
  still allowed (Go refuses more than 10000 levels).\<close>

fun parse_value :: "nat \<Rightarrow> nat \<Rightarrow> string \<Rightarrow> (json \<times> string) option"
and parse_elems :: "nat \<Rightarrow> nat \<Rightarrow> string \<Rightarrow> (json list \<times> string) option"
and parse_members :: "nat \<Rightarrow> nat \<Rightarrow> string \<Rightarrow> (jobject \<times> string) option" where
  "parse_value 0 d s = None"
| "parse_value (Suc n) d s0 =
     (case skip_ws s0 of
        [] \<Rightarrow> None
      | c # r \<Rightarrow>
          if c = CHR 0x22 then map_option (\<lambda>(t, q). (JStr (to_valid_utf8 t), q)) (string_body r)
          else if c = CHR ''['' then
            (if d = 0 then None
             else if has_prefix (skip_ws r) '']'' then Some (JArr [], tl (skip_ws r))
             else map_option (\<lambda>(vs, q). (JArr vs, q)) (parse_elems n (d - 1) r))
          else if c = CHR ''{'' then
            (if d = 0 then None
             else if has_prefix (skip_ws r) ''}'' then Some (JObj [], tl (skip_ws r))
             else map_option (\<lambda>(ms, q). (JObj ms, q)) (parse_members n (d - 1) r))
          else if has_prefix (c # r) ''true'' then Some (JBool True, drop 3 r)
          else if has_prefix (c # r) ''false'' then Some (JBool False, drop 4 r)
          else if has_prefix (c # r) ''null'' then Some (JNull, drop 3 r)
          else map_option (\<lambda>(t, q). (JNum t, q)) (number_text (c # r)))"
| "parse_elems 0 d s = None"
| "parse_elems (Suc n) d s =
     (case parse_value n d s of
        None \<Rightarrow> None
      | Some (v, q) \<Rightarrow>
          (case skip_ws q of
             [] \<Rightarrow> None
           | c # r \<Rightarrow>
               if c = CHR '','' then map_option (\<lambda>(vs, q1). (v # vs, q1)) (parse_elems n d r)
               else if c = CHR '']'' then Some ([v], r) else None))"
| "parse_members 0 d s = None"
| "parse_members (Suc n) d s =
     (case skip_ws s of
        [] \<Rightarrow> None
      | c0 # r0 \<Rightarrow>
          if c0 \<noteq> CHR 0x22 then None
          else
            (case string_body r0 of
               None \<Rightarrow> None
             | Some (k, q0) \<Rightarrow>
                 if \<not> has_prefix (skip_ws q0) '':'' then None
                 else
                   (case parse_value n d (tl (skip_ws q0)) of
                      None \<Rightarrow> None
                    | Some (v, q) \<Rightarrow>
                        (case skip_ws q of
                           [] \<Rightarrow> None
                         | c # r \<Rightarrow>
                             if c = CHR '','' then map_option (\<lambda>(ms, q1). ((to_valid_utf8 k, v) # ms, q1)) (parse_members n d r)
                             else if c = CHR ''}'' then Some ([(to_valid_utf8 k, v)], r) else None))))"

definition json_parse :: "string \<Rightarrow> json option" where
  "json_parse s =
     (case parse_value (2 * length s + 2) 10000 s of
        Some (v, r) \<Rightarrow> if skip_ws r = [] then Some v else None
      | None \<Rightarrow> None)"

text \<open>The bound on the calls is enough: every value consumes a byte, and each byte pays for two calls.\<close>

lemma skip_ws_length: "length (skip_ws s) \<le> length s"
  by (simp add: skip_ws_def length_dropWhile_le)

lemma skip_ws_Cons_length: "skip_ws s = c # r \<Longrightarrow> Suc (length r) \<le> length s"
  using skip_ws_length [of s] by simp

lemma string_body_length: "string_body s = Some (t, q) \<Longrightarrow> length q < length s"
proof (induction s arbitrary: t q rule: string_body.induct)
  case (2 c r)
  show ?case
  proof (cases "c = CHR 0x22")
    case False
    with "2.prems" obtain x y t' where n: "next_char c r = Some (x, y)" and b: "string_body y = Some (t', q)"
      by (auto split: option.splits)
    with "2.IH" [OF False n refl b] next_char_length [OF n] show ?thesis by simp
  qed (use "2.prems" in simp)
qed simp

lemma digits1_length: "digits1 s = Some (ds, q) \<Longrightarrow> length q < length s"
  using takeWhile_dropWhile_id [of is_digit s, symmetric]
  by (auto simp: digits1_def Let_def simp del: takeWhile_dropWhile_id split: if_splits)

lemma has_prefix_ne: "has_prefix s (c # p) \<Longrightarrow> s \<noteq> []"
  by (auto simp: has_prefix_def)

lemma number_parts_length:
  "int_part s = Some (t, q) \<Longrightarrow> length q < length s"
  "frac_part s = Some (t, q) \<Longrightarrow> length q \<le> length s"
  "exp_part s = Some (t, q) \<Longrightarrow> length q \<le> length s"
  by (auto simp: int_part_def frac_part_def exp_part_def split: if_splits dest!: digits1_length dest: has_prefix_ne)

lemma number_text_length: "number_text s = Some (t, q) \<Longrightarrow> length q < length s"
  by (auto simp: number_text_def Let_def split: if_splits option.splits dest!: number_parts_length)

lemma has_prefix_tl_length: "has_prefix s [c] \<Longrightarrow> Suc (length (tl s)) = length s"
  using has_prefix_ne by (cases s) auto

lemma parse_elems_SucD:
  "parse_elems (Suc n) d s = Some (vs, q) \<Longrightarrow>
   \<exists>v q1 c r. parse_value n d s = Some (v, q1) \<and> skip_ws q1 = c # r
     \<and> (r = q \<or> c = CHR '','' \<and> (\<exists>vs'. parse_elems n d r = Some (vs', q)))"
  by (auto split: option.splits list.splits if_splits)

lemma parse_members_SucD:
  "parse_members (Suc n) d s = Some (ms, q) \<Longrightarrow>
   \<exists>c0 r0 k q0 v q1 c r. skip_ws s = c0 # r0 \<and> string_body r0 = Some (k, q0) \<and> has_prefix (skip_ws q0) '':''
     \<and> parse_value n d (tl (skip_ws q0)) = Some (v, q1) \<and> skip_ws q1 = c # r
     \<and> (r = q \<or> c = CHR '','' \<and> (\<exists>ms'. parse_members n d r = Some (ms', q)))"
  by (auto split: option.splits list.splits if_splits)

lemma parse_length:
  "(\<forall>d s v q. parse_value n d s = Some (v, q) \<longrightarrow> length q < length s)
   \<and> (\<forall>d s vs q. parse_elems n d s = Some (vs, q) \<longrightarrow> length q < length s)
   \<and> (\<forall>d s ms q. parse_members n d s = Some (ms, q) \<longrightarrow> length q < length s)"
proof (induction n)
  case 0
  then show ?case by simp
next
  case (Suc n)
  then have V: "parse_value n d s = Some (v, q) \<Longrightarrow> length q < length s"
    and E: "parse_elems n d s = Some (vs, q) \<Longrightarrow> length q < length s"
    and M: "parse_members n d s = Some (ms, q) \<Longrightarrow> length q < length s" for d s v q vs ms
    by blast+
  have "length q < length s" if v: "parse_value (Suc n) d s = Some (v, q)" for d s v q
  proof (cases "skip_ws s")
    case Nil
    with v show ?thesis by simp
  next
    case (Cons c r)
    have "length q < length (c # r)"
      using v Cons skip_ws_length [of r]
      by (auto split: if_splits dest!: string_body_length number_text_length has_prefix_tl_length E M)
    with Cons show ?thesis using skip_ws_length [of s] by simp
  qed
  moreover have "length q < length s" if e: "parse_elems (Suc n) d s = Some (vs, q)" for d s vs q
  proof -
    from parse_elems_SucD [OF e] obtain v q1 c r where
      v: "parse_value n d s = Some (v, q1)" "skip_ws q1 = c # r"
        "r = q \<or> c = CHR '','' \<and> (\<exists>vs'. parse_elems n d r = Some (vs', q))" by blast
    from v(3) have "length q \<le> length r" by (auto dest: E)
    with V [OF v(1)] skip_ws_Cons_length [OF v(2)] show ?thesis by simp
  qed
  moreover have "length q < length s" if m: "parse_members (Suc n) d s = Some (ms, q)" for d s ms q
  proof -
    from parse_members_SucD [OF m] obtain c0 r0 k q0 v q1 c r where
      v: "skip_ws s = c0 # r0" "string_body r0 = Some (k, q0)" "parse_value n d (tl (skip_ws q0)) = Some (v, q1)"
        "skip_ws q1 = c # r" "r = q \<or> c = CHR '','' \<and> (\<exists>ms'. parse_members n d r = Some (ms', q))" by blast
    from v(5) have "length q \<le> length r" by (auto dest: M)
    with V [OF v(3)] skip_ws_Cons_length [OF v(4)] skip_ws_length [of q0] string_body_length [OF v(2)]
      skip_ws_Cons_length [OF v(1)] show ?thesis by simp
  qed
  ultimately show ?case by blast
qed

text \<open>With that many calls allowed, more change nothing.\<close>

lemma parse_enough_calls:
  "(\<forall>d s. 2 * length s + 2 \<le> n \<longrightarrow> parse_value (Suc n) d s = parse_value n d s)
   \<and> (\<forall>d s. 2 * length s + 3 \<le> n \<longrightarrow> parse_elems (Suc n) d s = parse_elems n d s)
   \<and> (\<forall>d s. 2 * length s + 3 \<le> n \<longrightarrow> parse_members (Suc n) d s = parse_members n d s)"
proof (induction n)
  case 0
  then show ?case by simp
next
  case (Suc n)
  then have V: "2 * length s + 2 \<le> n \<Longrightarrow> parse_value (Suc n) d s = parse_value n d s"
    and E: "2 * length s + 3 \<le> n \<Longrightarrow> parse_elems (Suc n) d s = parse_elems n d s"
    and M: "2 * length s + 3 \<le> n \<Longrightarrow> parse_members (Suc n) d s = parse_members n d s" for d s
    by blast+
  have "parse_value (Suc (Suc n)) d s = parse_value (Suc n) d s" if "2 * length s + 2 \<le> Suc n" for d s
  proof (cases "skip_ws s")
    case Nil
    then show ?thesis by simp
  next
    case (Cons c r)
    then have "2 * length r + 3 \<le> n" using that skip_ws_Cons_length [OF Cons] by simp
    with Cons show ?thesis by (simp del: parse_elems.simps parse_members.simps add: E M)
  qed
  moreover have "parse_elems (Suc (Suc n)) d s = parse_elems (Suc n) d s" if "2 * length s + 3 \<le> Suc n" for d s
  proof (cases "parse_value n d s")
    case None
    with V [of s d] that show ?thesis by simp
  next
    case (Some p)
    then obtain v q where p: "parse_value n d s = Some (v, q)" by (cases p) auto
    from parse_length p have "length q < length s" by blast
    then have "2 * length r + 3 \<le> n" if "skip_ws q = c # r" for c r
      using skip_ws_Cons_length [OF that] \<open>2 * length s + 3 \<le> Suc n\<close> by simp
    then show ?thesis
      unfolding parse_elems.simps(2) [of "Suc n" d s] parse_elems.simps(2) [of n d s]
      using p that V [of s d] E by (simp del: parse_elems.simps parse_value.simps split: list.split)
  qed
  moreover have "parse_members (Suc (Suc n)) d s = parse_members (Suc n) d s" if "2 * length s + 3 \<le> Suc n" for d s
  proof (cases "\<exists>c0 r0 k q0. skip_ws s = c0 # r0 \<and> string_body r0 = Some (k, q0) \<and> has_prefix (skip_ws q0) '':''")
    case False
    then show ?thesis
      unfolding parse_members.simps(2) [of "Suc n" d s] parse_members.simps(2) [of n d s]
      by (auto simp del: parse_members.simps parse_value.simps split: list.split option.split)
  next
    case True
    then obtain c0 r0 k q0 where k: "skip_ws s = c0 # r0" "string_body r0 = Some (k, q0)" by blast
    let ?q = "tl (skip_ws q0)"
    have q: "length ?q < length s"
      using skip_ws_Cons_length [OF k(1)] string_body_length [OF k(2)] skip_ws_length [of q0] by simp
    then have v: "parse_value (Suc n) d ?q = parse_value n d ?q" using V that by simp
    have "2 * length r + 3 \<le> n" if "parse_value n d ?q = Some (v, q1)" "skip_ws q1 = c # r" for v q1 c r
    proof -
      from parse_length that(1) have "length q1 < length ?q" by blast
      with q skip_ws_Cons_length [OF that(2)] \<open>2 * length s + 3 \<le> Suc n\<close> show ?thesis by simp
    qed
    then show ?thesis
      unfolding parse_members.simps(2) [of "Suc n" d s] parse_members.simps(2) [of n d s]
      using k v M by (simp del: parse_members.simps parse_value.simps split: list.split option.split)
  qed
  ultimately show ?case by blast
qed

lemma json_parse_enough_calls:
  assumes "2 * length s + 2 \<le> n"
  shows "json_parse s = (case parse_value n 10000 s of
     Some (v, r) \<Rightarrow> if skip_ws r = [] then Some v else None | None \<Rightarrow> None)"
proof -
  have "parse_value n 10000 s = parse_value (2 * length s + 2) 10000 s"
    using assms by (induction rule: dec_induct) (use parse_enough_calls in auto)
  then show ?thesis by (simp add: json_parse_def del: parse_value.simps)
qed

text \<open>Examples of JSON texts are written with \<open>~\<close> for the quotation mark.\<close>

definition jtext :: "string \<Rightarrow> string" where
  "jtext s = map (\<lambda>c. if c = CHR 0x7E then CHR 0x22 else c) s"

section \<open>Decoding into Go variables\<close>

datatype shape =
    SInt
  | SUint
  | SBool
  | SString
  | SStruct "(string \<times> shape) list"
  | SPtr shape
  | SSlice shape

datatype gv =
    GInt int
  | GBool bool
  | GStr string
  | GStruct "(string \<times> gv) list"
  | GNil
  | GPtr gv
  | GSlice "gv list"

fun zero_of :: "shape \<Rightarrow> gv" where
  "zero_of SInt = GInt 0"
| "zero_of SUint = GInt 0"
| "zero_of SBool = GBool False"
| "zero_of SString = GStr []"
| "zero_of (SStruct fs) = GStruct (map (\<lambda>(k, sh). (k, zero_of sh)) fs)"
| "zero_of (SPtr sh) = GNil"
| "zero_of (SSlice sh) = GNil"

text \<open>\<open>strconv.ParseInt\<close> and \<open>ParseUint\<close> of a number's text.\<close>

definition parse_uint :: "string \<Rightarrow> nat option" where
  "parse_uint t = (if t \<noteq> [] \<and> list_all is_digit t \<and> dec_value t < 2 ^ 64 then Some (dec_value t) else None)"

definition fold_char :: "char \<Rightarrow> char" where
  "fold_char c = (let n = of_char c :: nat in if 65 \<le> n \<and> n \<le> 90 then char_of (n + 32) else c)"

definition same_name :: "string \<Rightarrow> string \<Rightarrow> bool" where
  "same_name a b \<longleftrightarrow> map fold_char a = map fold_char b"

text \<open>The field a member's name selects: the one of exactly that name, else the first that differs in case
  only.\<close>

definition field_for :: "string \<Rightarrow> (string \<times> shape) list \<Rightarrow> (string \<times> shape) option" where
  "field_for k fs =
     (case List.find (\<lambda>f. fst f = k) fs of Some f \<Rightarrow> Some f | None \<Rightarrow> List.find (\<lambda>f. same_name (fst f) k) fs)"

fun set_field :: "string \<Rightarrow> gv \<Rightarrow> (string \<times> gv) list \<Rightarrow> (string \<times> gv) list" where
  "set_field k v [] = []"
| "set_field k v ((k1, v1) # fs) = (if k1 = k then (k, v) # fs else (k1, v1) # set_field k v fs)"

definition get_field :: "string \<Rightarrow> (string \<times> gv) list \<Rightarrow> gv" where
  "get_field k vs = (case map_of vs k of Some v \<Rightarrow> v | None \<Rightarrow> GNil)"

text \<open>\<open>json.Unmarshal\<close> into a variable that holds the third argument: its new value, and whether there
  was no error.  A value of the wrong type leaves the variable as it was, and the decoding goes on.\<close>

fun decode :: "shape \<Rightarrow> json \<Rightarrow> gv \<Rightarrow> gv \<times> bool"
and decode_elems :: "shape \<Rightarrow> json list \<Rightarrow> gv list \<times> bool"
and decode_members :: "(string \<times> shape) list \<Rightarrow> jobject \<Rightarrow> (string \<times> gv) list \<Rightarrow> (string \<times> gv) list \<times> bool" where
  "decode sh j v =
     (case j of
        JNull \<Rightarrow> ((case sh of SPtr _ \<Rightarrow> GNil | SSlice _ \<Rightarrow> GNil | _ \<Rightarrow> v), True)
      | _ \<Rightarrow>
          (case sh of
             SPtr sh1 \<Rightarrow>
               (case decode sh1 j (case v of GPtr x \<Rightarrow> x | _ \<Rightarrow> zero_of sh1) of (x, ok) \<Rightarrow> (GPtr x, ok))
           | SInt \<Rightarrow> (case j of JNum t \<Rightarrow> (case atoi t of Some i \<Rightarrow> (GInt i, True) | None \<Rightarrow> (v, False)) | _ \<Rightarrow> (v, False))
           | SUint \<Rightarrow> (case j of JNum t \<Rightarrow> (case parse_uint t of Some i \<Rightarrow> (GInt (int i), True) | None \<Rightarrow> (v, False)) | _ \<Rightarrow> (v, False))
           | SBool \<Rightarrow> (case j of JBool b \<Rightarrow> (GBool b, True) | _ \<Rightarrow> (v, False))
           | SString \<Rightarrow> (case j of JStr t \<Rightarrow> (GStr t, True) | _ \<Rightarrow> (v, False))
           | SSlice sh1 \<Rightarrow>
               (case j of JArr js \<Rightarrow> (case decode_elems sh1 js of (vs, ok) \<Rightarrow> (GSlice vs, ok)) | _ \<Rightarrow> (v, False))
           | SStruct fs \<Rightarrow>
               (case (j, v) of
                  (JObj ms, GStruct vs) \<Rightarrow> (case decode_members fs ms vs of (vs1, ok) \<Rightarrow> (GStruct vs1, ok))
                | _ \<Rightarrow> (v, False))))"
| "decode_elems sh [] = ([], True)"
| "decode_elems sh (j # js) =
     (case decode sh j (zero_of sh) of
        (v, ok) \<Rightarrow> (case decode_elems sh js of (vs, ok1) \<Rightarrow> (v # vs, ok \<and> ok1)))"
| "decode_members fs [] vs = (vs, True)"
| "decode_members fs ((k, j) # ms) vs =
     (case field_for k fs of
        None \<Rightarrow> decode_members fs ms vs
      | Some (f, sh) \<Rightarrow>
          (case decode sh j (get_field f vs) of
             (v, ok) \<Rightarrow> (case decode_members fs ms (set_field f v vs) of (vs1, ok1) \<Rightarrow> (vs1, ok \<and> ok1))))"

declare decode.simps [simp del]

lemma decode_values [simp]:
  "decode SInt (JNum t) v = (case atoi t of Some i \<Rightarrow> (GInt i, True) | None \<Rightarrow> (v, False))"
  "decode SUint (JNum t) v = (case parse_uint t of Some i \<Rightarrow> (GInt (int i), True) | None \<Rightarrow> (v, False))"
  "decode SBool (JBool b) v = (GBool b, True)"
  "decode SString (JStr t) v = (GStr t, True)"
  "decode (SSlice sh) (JArr js) v = (case decode_elems sh js of (vs, ok) \<Rightarrow> (GSlice vs, ok))"
  "decode (SStruct fs) (JObj ms) (GStruct vs) = (case decode_members fs ms vs of (vs1, ok) \<Rightarrow> (GStruct vs1, ok))"
  by (simp_all add: decode.simps)

section \<open>Lists of ids in text columns\<close>

text \<open>\<open>ParseSharedFolderInstanceIDs\<close> and \<open>EncodeSharedFolderInstanceIDs\<close> have the same bodies.\<close>

definition uint_list :: "gv \<Rightarrow> nat list" where
  "uint_list v = (case v of GSlice vs \<Rightarrow> map (\<lambda>x. case x of GInt i \<Rightarrow> nat i | _ \<Rightarrow> 0) vs | _ \<Rightarrow> [])"

definition ParseTeamIDs :: "string \<Rightarrow> nat list" where
  "ParseTeamIDs raw =
     (if raw = [] \<or> raw = ''[]'' then []
      else case json_parse raw of
             None \<Rightarrow> []
           | Some j \<Rightarrow> uint_list (fst (decode (SSlice SUint) j GNil)))"

fun comma_ids :: "nat list \<Rightarrow> string" where
  "comma_ids [] = []"
| "comma_ids [i] = show_nat i"
| "comma_ids (i # is) = show_nat i @ '','' @ comma_ids is"

definition EncodeTeamIDs :: "nat list \<Rightarrow> string" where
  "EncodeTeamIDs ids = ''['' @ comma_ids ids @ '']''"

lemma digit_char: "n < 10 \<Longrightarrow> digit_val (char_of (48 + n)) = Some n"
  by (simp add: digit_val_def)

lemma show_nat_digits: "list_all is_digit (show_nat n) \<and> show_nat n \<noteq> []"
proof (induction n rule: show_nat.induct)
  case (1 n)
  then show ?case
    by (cases "n < 10") (simp_all add: show_nat.simps [of n] is_digit_def digit_char)
qed

lemma dec_value_show_nat [simp]: "dec_value (show_nat n) = n"
proof (induction n rule: show_nat.induct)
  case (1 n)
  then show ?case
    by (cases "n < 10") (simp_all add: show_nat.simps [of n] dec_value_def digit_char)
qed

lemma digit_val_0 [simp]: "digit_val (CHR ''0'') = Some 0"
  by (simp add: digit_val_def)

lemma show_nat_first: "0 < n \<Longrightarrow> hd (show_nat n) \<noteq> CHR ''0''"
proof (induction n rule: show_nat.induct)
  case (1 n)
  show ?case
  proof (cases "n < 10")
    case True
    then have "digit_val (hd (show_nat n)) = Some n" by (simp add: show_nat.simps digit_char)
    with 1(2) show ?thesis by auto
  next
    case False
    then show ?thesis using 1 show_nat_digits [of "n div 10"] by (simp add: show_nat.simps [of n])
  qed
qed

lemma atoi_show_nat [simp]: "n < 2 ^ 63 \<Longrightarrow> atoi (show_nat n) = Some (int n)"
proof -
  assume n: "n < 2 ^ 63"
  have ds: "list_all (\<lambda>c. digit_val c \<noteq> None) (show_nat n)" "show_nat n \<noteq> []"
    using show_nat_digits [of n] by (auto simp: is_digit_def list_all_iff)
  then have "digit_val (hd (show_nat n)) \<noteq> None" by (cases "show_nat n") auto
  then have "\<not> has_prefix (show_nat n) ''-''" "\<not> has_prefix (show_nat n) ''+''"
    using ds(2) by (auto simp: has_prefix_iff digit_val_def)
  with ds n show ?thesis by (simp add: atoi_def)
qed

lemma show_nat_zero [simp]: "show_nat 0 = ''0''"
  by code_simp

lemma show_nat_Cons: "\<exists>c r. show_nat n = c # r \<and> is_digit c \<and> list_all is_digit r \<and> (0 < n \<longrightarrow> c \<noteq> CHR ''0'')"
  using show_nat_digits [of n] show_nat_first [of n] by (cases "show_nat n") auto

lemma not_digits [simp]: "\<not> is_digit (CHR '','')" "\<not> is_digit (CHR '']'')" "\<not> is_digit (CHR ''-'')"
  "\<not> is_digit (CHR ''['')" "\<not> is_digit (CHR ''{'')" "\<not> is_digit (CHR 0x22)" "\<not> is_digit (CHR ''.'')"
  "\<not> is_digit (CHR ''t'')" "\<not> is_digit (CHR ''f'')" "\<not> is_digit (CHR ''n'')"
  by (simp_all add: is_digit_def digit_val_def)

lemma digit_not_ws: "is_digit c \<Longrightarrow> \<not> json_ws c"
  by (auto simp: is_digit_def digit_val_def json_ws_def)

lemma number_text_show_nat:
  assumes "z = CHR '','' \<or> z = CHR '']''"
  shows "number_text (show_nat n @ z # rest) = Some (show_nat n, z # rest)"
proof -
  have z: "\<not> is_digit z" using assms by auto
  have "int_part (show_nat n @ z # rest) = Some (show_nat n, z # rest)"
  proof (cases "n = 0")
    case False
    then obtain c r where c: "show_nat n = c # r" "is_digit c" "list_all is_digit r" "c \<noteq> CHR ''0''"
      using show_nat_Cons [of n] by auto
    then show ?thesis using z
      by (simp add: int_part_def has_prefix_def digits1_def Let_def takeWhile_append2 dropWhile_append2 list_all_iff)
  qed (simp add: int_part_def has_prefix_def)
  moreover have "frac_part (z # rest) = Some ([], z # rest)" "exp_part (z # rest) = Some ([], z # rest)"
    using assms by (auto simp: frac_part_def exp_part_def has_prefix_def)
  moreover have "\<not> has_prefix (show_nat n @ z # rest) ''-''"
    using show_nat_Cons [of n] by (auto simp: has_prefix_def)
  ultimately show ?thesis by (simp add: number_text_def)
qed

lemma parse_value_show_nat:
  assumes "z = CHR '','' \<or> z = CHR '']''"
  shows "parse_value (Suc k) d (show_nat n @ z # rest) = Some (JNum (show_nat n), z # rest)"
proof -
  obtain c r where c: "show_nat n = c # r" "is_digit c" using show_nat_Cons by blast
  then have "skip_ws (show_nat n @ z # rest) = c # r @ z # rest"
    by (simp add: skip_ws_def digit_not_ws)
  moreover have "c \<noteq> CHR 0x22" "c \<noteq> CHR ''[''" "c \<noteq> CHR ''{''" "c \<noteq> CHR ''t''" "c \<noteq> CHR ''f''" "c \<noteq> CHR ''n''"
    using c(2) by auto
  ultimately show ?thesis
    using number_text_show_nat [OF assms, of n rest] c(1) by (simp add: has_prefix_def)
qed

lemma parse_elems_ids:
  "ids \<noteq> [] \<Longrightarrow> 2 * length ids \<le> k \<Longrightarrow>
   parse_elems k d (comma_ids ids @ '']'') = Some (map (\<lambda>i. JNum (show_nat i)) ids, [])"
proof (induction ids arbitrary: k rule: comma_ids.induct)
  case (2 i)
  then obtain k' where "k = Suc (Suc k')" by (cases k; cases "k - 1") auto
  then show ?case
    using parse_value_show_nat [of "CHR '']''" k' d i] by (simp add: skip_ws_def json_ws_def del: parse_value.simps)
next
  case (3 i j js)
  then obtain k' where k: "k = Suc (Suc k')" by (cases k; cases "k - 1") auto
  have "parse_elems (Suc k') d (comma_ids (j # js) @ '']'') = Some (map (\<lambda>i. JNum (show_nat i)) (j # js), [])"
    using "3.prems" k by (intro "3.IH") auto
  with k show ?case
    using parse_value_show_nat [of "CHR '',''" k' d i]
    by (simp add: skip_ws_def json_ws_def del: parse_value.simps parse_elems.simps(2) [of k'])
qed simp

lemma comma_ids_length: "2 * length ids \<le> Suc (length (comma_ids ids))"
proof (induction ids rule: comma_ids.induct)
  case (2 i)
  then show ?case using show_nat_digits [of i] by (cases "show_nat i") auto
next
  case (3 i j js)
  then show ?case using show_nat_digits [of i] by (cases "show_nat i") auto
qed simp

lemma comma_ids_first: "ids \<noteq> [] \<Longrightarrow> \<exists>c r. comma_ids ids = c # r \<and> is_digit c"
proof (cases ids rule: comma_ids.cases)
  case (2 i)
  then show ?thesis using show_nat_Cons [of i] by auto
next
  case (3 i j js)
  then show ?thesis using show_nat_Cons [of i] by auto
qed simp

lemma decode_elems_ids:
  "list_all (\<lambda>i. i < 2 ^ 64) ids \<Longrightarrow>
   decode_elems SUint (map (\<lambda>i. JNum (show_nat i)) ids) = (map (\<lambda>i. GInt (int i)) ids, True)"
  using show_nat_digits by (induction ids) (simp_all add: parse_uint_def)

lemma parse_value_array:
  assumes "skip_ws s = CHR ''['' # r" "\<not> has_prefix (skip_ws r) '']''" "parse_elems k d r = Some (vs, q)"
  shows "parse_value (Suc k) (Suc d) s = Some (JArr vs, q)"
  using assms by (simp del: parse_elems.simps)

lemma parse_encoded_ids:
  assumes "ids \<noteq> []" "list_all (\<lambda>i. i < 2 ^ 64) ids"
  shows "json_parse (EncodeTeamIDs ids) = Some (JArr (map (\<lambda>i. JNum (show_nat i)) ids))"
proof -
  obtain c r where c: "comma_ids ids = c # r" "is_digit c" using comma_ids_first [OF assms(1)] by blast
  then have ws: "skip_ws (comma_ids ids @ '']'') = comma_ids ids @ '']''" by (simp add: skip_ws_def digit_not_ws)
  have np: "\<not> has_prefix (comma_ids ids @ '']'') '']''" using c by (auto simp: has_prefix_def)
  have "parse_elems (2 * length (EncodeTeamIDs ids) + 1) 9999 (comma_ids ids @ '']'')
      = Some (map (\<lambda>i. JNum (show_nat i)) ids, [])"
    using assms comma_ids_length [of ids] by (intro parse_elems_ids) (auto simp: EncodeTeamIDs_def)
  moreover have "skip_ws (EncodeTeamIDs ids) = CHR ''['' # comma_ids ids @ '']''"
    by (simp add: EncodeTeamIDs_def skip_ws_def json_ws_def)
  ultimately have v: "parse_value (Suc (2 * length (EncodeTeamIDs ids) + 1)) (Suc 9999) (EncodeTeamIDs ids)
      = Some (JArr (map (\<lambda>i. JNum (show_nat i)) ids), [])"
    using ws np by (intro parse_value_array) simp_all
  have n: "2 * length (EncodeTeamIDs ids) + 2 = Suc (2 * length (EncodeTeamIDs ids) + 1)" "10000 = Suc 9999"
    by simp_all
  show ?thesis unfolding json_parse_def n v by (simp add: skip_ws_def)
qed

text \<open>Reading back a column of ids gives the ids.\<close>

theorem team_ids_roundtrip:
  assumes "list_all (\<lambda>i. i < 2 ^ 64) ids"
  shows "ParseTeamIDs (EncodeTeamIDs ids) = ids"
proof (cases "ids = []")
  case True
  then show ?thesis by (simp add: ParseTeamIDs_def EncodeTeamIDs_def)
next
  case False
  then have "EncodeTeamIDs ids \<noteq> ''[]''" using comma_ids_first [of ids] by (auto simp: EncodeTeamIDs_def)
  moreover have "EncodeTeamIDs ids \<noteq> []" by (simp add: EncodeTeamIDs_def)
  ultimately show ?thesis
    using parse_encoded_ids [OF False assms] decode_elems_ids [OF assms]
    by (simp add: ParseTeamIDs_def uint_list_def comp_def)
qed

theorem team_ids_roundtrip_witness:
  "ParseTeamIDs (EncodeTeamIDs [1, 20, 300]) = [1, 20, 300]"
  by (rule team_ids_roundtrip) simp

end
