(* ===== verification/CodexRequest.thy ===== *)
theory CodexRequest imports Json "HOL-Library.AList" begin

text \<open>
  \<^verbatim>\<open>control-plane/internal/llmgateway/request_rewriter.go\<close>: the translation of a
  request body for the codex endpoint, on the values that decoding into \<open>map[string]any\<close> gives.
  The object is read as a map (Go's maps have no order).  That decoding and \<open>json.Marshal\<close> are
  parameters: they turn numbers into floats and back, of which \<open>JNum\<close> keeps a representation.
\<close>

section \<open>The parts of the translation\<close>

definition required_include :: string where
  "required_include = ''reasoning.encrypted_content''"

text \<open>The loop of \<open>mergeInclude\<close>, with the set of strings seen.\<close>

fun merge_loop :: "string list \<Rightarrow> json list \<Rightarrow> json list" where
  "merge_loop seen [] = []"
| "merge_loop seen (v # vs) =
     (case v of
        JStr s \<Rightarrow> if s \<in> set seen then merge_loop seen vs else JStr s # merge_loop (s # seen) vs
      | _ \<Rightarrow> merge_loop seen vs)"

definition mergeInclude :: "json option \<Rightarrow> json list" where
  "mergeInclude existing =
     JStr required_include #
       (case existing of Some (JArr arr) \<Rightarrow> merge_loop [required_include] arr | _ \<Rightarrow> [])"

text \<open>The parts of a content array; a part that is not an object makes the shape unrecognised.\<close>

fun content_parts :: "string \<Rightarrow> json list \<Rightarrow> string option" where
  "content_parts out [] = Some out"
| "content_parts out (part # ps) =
     (case part of
        JObj obj \<Rightarrow>
          (case map_of obj ''text'' of
             Some (JStr text) \<Rightarrow> content_parts ((if out \<noteq> [] then out @ [CHR 0x0A] else out) @ text) ps
           | _ \<Rightarrow> content_parts out ps)
      | _ \<Rightarrow> None)"

definition contentToText :: "json option \<Rightarrow> string option" where
  "contentToText content =
     (case content of
        Some (JStr s) \<Rightarrow> Some s
      | Some (JArr v) \<Rightarrow> content_parts [] v
      | _ \<Rightarrow> None)"

text \<open>The instructions an item of the input gives, if it is a system or developer message.\<close>

definition item_instructions :: "json \<Rightarrow> string option" where
  "item_instructions item =
     (case item of
        JObj obj \<Rightarrow>
          (let role = (case map_of obj ''role'' of Some (JStr r) \<Rightarrow> r | _ \<Rightarrow> []) in
           if role \<noteq> ''system'' \<and> role \<noteq> ''developer'' then None
           else contentToText (map_of obj ''content''))
      | _ \<Rightarrow> None)"

fun extractSystemInstructions :: "json list \<Rightarrow> string option \<times> json list" where
  "extractSystemInstructions [] = (None, [])"
| "extractSystemInstructions (item # items) =
     (case item_instructions item of
        Some text \<Rightarrow> (Some text, items)
      | None \<Rightarrow> (let (found, remaining) = extractSystemInstructions items in (found, item # remaining)))"

definition with_verbosity :: "json option \<Rightarrow> json" where
  "with_verbosity existing =
     (case existing of
        Some (JObj t) \<Rightarrow>
          JObj (if map_of t ''verbosity'' = None then AList.update ''verbosity'' (JStr ''medium'') t else t)
      | _ \<Rightarrow> JObj [(''verbosity'', JStr ''medium'')])"

text \<open>The assignments before the input is looked at.\<close>

definition force_fields :: "jobject \<Rightarrow> jobject" where
  "force_fields doc0 =
     (let doc1 = AList.delete ''service_tier'' (AList.delete ''max_output_tokens'' doc0);
          doc2 = AList.update ''parallel_tool_calls'' (JBool True)
                   (AList.update ''tool_choice'' (JStr ''auto'')
                     (AList.update ''stream'' (JBool True) (AList.update ''store'' (JBool False) doc1)));
          doc3 = AList.update ''text'' (with_verbosity (map_of doc2 ''text'')) doc2
      in AList.update ''include'' (JArr (mergeInclude (map_of doc3 ''include''))) doc3)"

definition rewrite_doc :: "jobject \<Rightarrow> jobject" where
  "rewrite_doc doc0 =
     (let doc = force_fields doc0 in
      case map_of doc ''input'' of
        Some (JArr input) \<Rightarrow>
          (case extractSystemInstructions input of
             (Some instructions, remaining) \<Rightarrow>
               AList.update ''input'' (JArr remaining)
                 (case map_of doc ''instructions'' of
                    Some (JStr _) \<Rightarrow> doc
                  | _ \<Rightarrow> AList.update ''instructions'' (JStr instructions) doc)
           | (None, _) \<Rightarrow> doc)
      | _ \<Rightarrow> doc)"

definition rewriteCodexRequestBody ::
    "(string \<Rightarrow> json option) \<Rightarrow> (json \<Rightarrow> string option) \<Rightarrow> string \<Rightarrow> string" where
  "rewriteCodexRequestBody unmarshal marshal body =
     (case unmarshal body of
        Some (JObj doc) \<Rightarrow> (case marshal (JObj (rewrite_doc doc)) of None \<Rightarrow> body | Some out \<Rightarrow> out)
      | _ \<Rightarrow> body)"

section \<open>What the translation gives\<close>

lemma merge_loop_spec:
  "\<exists>ss. merge_loop seen vs = map JStr ss \<and> distinct ss \<and> set ss = {s. JStr s \<in> set vs} - set seen"
proof (induction vs arbitrary: seen)
  case Nil
  then show ?case by simp
next
  case (Cons v vs)
  show ?case
  proof (cases "\<exists>s. v = JStr s \<and> s \<notin> set seen")
    case True
    then obtain s where s: "v = JStr s" "s \<notin> set seen" by blast
    from Cons.IH [of "s # seen"] obtain ss where ss: "merge_loop (s # seen) vs = map JStr ss"
      "distinct ss" "set ss = {s. JStr s \<in> set vs} - set (s # seen)" by blast
    then have "merge_loop seen (v # vs) = map JStr (s # ss) \<and> distinct (s # ss)
        \<and> set (s # ss) = {s. JStr s \<in> set (v # vs)} - set seen"
      using s by auto
    then show ?thesis by blast
  next
    case False
    then have "merge_loop seen (v # vs) = merge_loop seen vs"
      and "{s. JStr s \<in> set (v # vs)} - set seen = {s. JStr s \<in> set vs} - set seen"
      by (auto split: json.splits)
    with Cons.IH [of seen] show ?thesis by simp
  qed
qed

lemma mergeInclude_spec:
  "\<exists>ss. mergeInclude existing = map JStr ss \<and> distinct ss \<and> hd ss = required_include
     \<and> set ss = insert required_include (case existing of Some (JArr arr) \<Rightarrow> {s. JStr s \<in> set arr} | _ \<Rightarrow> {})"
proof (cases "\<exists>arr. existing = Some (JArr arr)")
  case True
  then obtain arr where e: "existing = Some (JArr arr)" by blast
  obtain ss where "merge_loop [required_include] arr = map JStr ss" "distinct ss"
    "set ss = {s. JStr s \<in> set arr} - {required_include}"
    using merge_loop_spec [of "[required_include]" arr] by auto
  with e show ?thesis by (intro exI [of _ "required_include # ss"]) (auto simp: mergeInclude_def)
next
  case False
  then show ?thesis
    by (intro exI [of _ "[required_include]"]) (auto simp: mergeInclude_def split: option.splits json.splits)
qed

lemma extract_spec:
  "extractSystemInstructions items =
     (case dropWhile (\<lambda>x. item_instructions x = None) items of
        [] \<Rightarrow> (None, items)
      | x # rest \<Rightarrow> (item_instructions x, takeWhile (\<lambda>x. item_instructions x = None) items @ rest))"
proof (induction items)
  case (Cons x xs)
  show ?case
  proof (cases "item_instructions x")
    case None
    have all_none: "takeWhile (\<lambda>x. item_instructions x = None) xs = xs"
      if "dropWhile (\<lambda>x. item_instructions x = None) xs = []"
      using that by (simp add: takeWhile_eq_all_conv)
    show ?thesis
      using Cons None all_none
      by (cases "dropWhile (\<lambda>x. item_instructions x = None) xs") (simp_all del: dropWhile_eq_Nil_conv)
  qed simp
qed simp

definition forced_keys :: "string set" where
  "forced_keys = {''max_output_tokens'', ''service_tier'', ''store'', ''stream'', ''tool_choice'',
     ''parallel_tool_calls'', ''text'', ''include'', ''input'', ''instructions''}"

lemma force_fields_fields:
  "map_of (force_fields doc) = (map_of doc)
     (''max_output_tokens'' := None, ''service_tier'' := None,
      ''store'' \<mapsto> JBool False, ''stream'' \<mapsto> JBool True, ''tool_choice'' \<mapsto> JStr ''auto'',
      ''parallel_tool_calls'' \<mapsto> JBool True, ''text'' \<mapsto> with_verbosity (map_of doc ''text''),
      ''include'' \<mapsto> JArr (mergeInclude (map_of doc ''include'')))"
  by (rule ext) (simp add: force_fields_def Let_def AList.update_conv' AList.delete_conv' map_of_delete)

lemma with_verbosity_spec:
  "\<exists>t. with_verbosity existing = JObj t
     \<and> map_of t ''verbosity'' = (case existing of
          Some (JObj u) \<Rightarrow> (case map_of u ''verbosity'' of None \<Rightarrow> Some (JStr ''medium'') | v \<Rightarrow> v)
        | _ \<Rightarrow> Some (JStr ''medium''))"
  by (auto simp: with_verbosity_def AList.update_conv' split: option.splits json.splits)

lemma item_instructions_taken:
  "dropWhile (\<lambda>x. item_instructions x = None) items = x # rest \<Longrightarrow> \<exists>t. item_instructions x = Some t"
  using hd_dropWhile [of "\<lambda>x. item_instructions x = None" items] by auto

text \<open>What the last step does to the two fields it touches.\<close>

lemma rewrite_doc_input:
  "map_of (rewrite_doc doc) k =
     (case map_of doc ''input'' of
        Some (JArr items) \<Rightarrow>
          (case dropWhile (\<lambda>x. item_instructions x = None) items of
             [] \<Rightarrow> map_of (force_fields doc) k
           | x # rest \<Rightarrow>
               if k = ''input'' then Some (JArr (takeWhile (\<lambda>x. item_instructions x = None) items @ rest))
               else if k = ''instructions'' then
                 (case map_of doc ''instructions'' of
                    Some (JStr s) \<Rightarrow> Some (JStr s) | _ \<Rightarrow> map_option JStr (item_instructions x))
               else map_of (force_fields doc) k)
      | _ \<Rightarrow> map_of (force_fields doc) k)"
proof (cases "map_of doc ''input''")
  case None
  then show ?thesis by (simp add: rewrite_doc_def force_fields_fields)
next
  case (Some inp)
  show ?thesis
  proof (cases inp)
    case (JArr items)
    show ?thesis
    proof (cases "dropWhile (\<lambda>x. item_instructions x = None) items")
      case Nil
      with Some JArr show ?thesis
        by (simp add: rewrite_doc_def force_fields_fields extract_spec del: dropWhile_eq_Nil_conv)
    next
      case (Cons x rest)
      then obtain t where "item_instructions x = Some t" using item_instructions_taken by blast
      with Some JArr Cons show ?thesis
        by (auto simp: rewrite_doc_def force_fields_fields extract_spec Let_def AList.update_conv'
            split: option.splits json.splits)
    qed
  qed (use Some in \<open>simp_all add: rewrite_doc_def force_fields_fields\<close>)
qed

lemma rewrite_doc_other:
  "k \<noteq> ''input'' \<Longrightarrow> k \<noteq> ''instructions'' \<Longrightarrow> map_of (rewrite_doc doc) k = map_of (force_fields doc) k"
  by (simp add: rewrite_doc_input split: option.splits json.splits list.splits)

text \<open>The translated request has the shape the codex endpoint wants, whatever the client sent: the
  two rejected parameters are gone, the four forced ones are set, a verbosity is there (the client's if it gave one), the
  \<open>include\<close> list is the required entry followed by the client's strings without repetition, the first system
  or developer message with readable content is taken out of the input and becomes the instructions (unless the
  client had set some, in which case its text is dropped), the other items keep their order, and every
  other field is untouched.\<close>

theorem codex_request_shape:
  "(let out = map_of (rewrite_doc doc); inp = map_of doc in
      out ''max_output_tokens'' = None \<and> out ''service_tier'' = None
      \<and> out ''store'' = Some (JBool False) \<and> out ''stream'' = Some (JBool True)
      \<and> out ''tool_choice'' = Some (JStr ''auto'') \<and> out ''parallel_tool_calls'' = Some (JBool True)
      \<and> (\<exists>t. out ''text'' = Some (JObj t)
           \<and> map_of t ''verbosity'' = (case inp ''text'' of
                Some (JObj u) \<Rightarrow> (case map_of u ''verbosity'' of None \<Rightarrow> Some (JStr ''medium'') | v \<Rightarrow> v)
              | _ \<Rightarrow> Some (JStr ''medium'')))
      \<and> (\<exists>ss. out ''include'' = Some (JArr (map JStr ss)) \<and> distinct ss \<and> hd ss = required_include
           \<and> set ss = insert required_include
               (case inp ''include'' of Some (JArr arr) \<Rightarrow> {s. JStr s \<in> set arr} | _ \<Rightarrow> {}))
      \<and> (case inp ''input'' of
           Some (JArr items) \<Rightarrow>
             (case dropWhile (\<lambda>x. item_instructions x = None) items of
                [] \<Rightarrow> out ''input'' = inp ''input'' \<and> out ''instructions'' = inp ''instructions''
              | x # rest \<Rightarrow>
                  out ''input'' = Some (JArr (takeWhile (\<lambda>x. item_instructions x = None) items @ rest))
                  \<and> out ''instructions'' = (case inp ''instructions'' of
                       Some (JStr s) \<Rightarrow> Some (JStr s) | _ \<Rightarrow> map_option JStr (item_instructions x)))
         | _ \<Rightarrow> out ''input'' = inp ''input'' \<and> out ''instructions'' = inp ''instructions'')
      \<and> (\<forall>k. k \<in> forced_keys \<or> out k = inp k))"
proof -
  obtain t where t: "with_verbosity (map_of doc ''text'') = JObj t"
    "map_of t ''verbosity'' = (case map_of doc ''text'' of
        Some (JObj u) \<Rightarrow> (case map_of u ''verbosity'' of None \<Rightarrow> Some (JStr ''medium'') | v \<Rightarrow> v)
      | _ \<Rightarrow> Some (JStr ''medium''))"
    using with_verbosity_spec by blast
  obtain ss where ss: "mergeInclude (map_of doc ''include'') = map JStr ss"
    "distinct ss \<and> hd ss = required_include \<and> set ss = insert required_include
       (case map_of doc ''include'' of Some (JArr arr) \<Rightarrow> {s. JStr s \<in> set arr} | _ \<Rightarrow> {})"
    using mergeInclude_spec by blast
  have input: "(case map_of doc ''input'' of
           Some (JArr items) \<Rightarrow>
             (case dropWhile (\<lambda>x. item_instructions x = None) items of
                [] \<Rightarrow> map_of (rewrite_doc doc) ''input'' = map_of doc ''input''
                  \<and> map_of (rewrite_doc doc) ''instructions'' = map_of doc ''instructions''
              | x # rest \<Rightarrow>
                  map_of (rewrite_doc doc) ''input''
                    = Some (JArr (takeWhile (\<lambda>x. item_instructions x = None) items @ rest))
                  \<and> map_of (rewrite_doc doc) ''instructions'' = (case map_of doc ''instructions'' of
                       Some (JStr s) \<Rightarrow> Some (JStr s) | _ \<Rightarrow> map_option JStr (item_instructions x)))
         | _ \<Rightarrow> map_of (rewrite_doc doc) ''input'' = map_of doc ''input''
             \<and> map_of (rewrite_doc doc) ''instructions'' = map_of doc ''instructions'')"
    unfolding rewrite_doc_input
    by (simp add: force_fields_fields del: dropWhile_eq_Nil_conv split: option.splits json.splits list.splits)
  have others: "k \<in> forced_keys \<or> map_of (rewrite_doc doc) k = map_of doc k" for k
    by (cases "k \<in> forced_keys") (simp_all add: forced_keys_def rewrite_doc_other force_fields_fields)
  have incl: "\<exists>ss. map_of (rewrite_doc doc) ''include'' = Some (JArr (map JStr ss))
      \<and> distinct ss \<and> hd ss = required_include \<and> set ss = insert required_include
       (case map_of doc ''include'' of Some (JArr arr) \<Rightarrow> {s. JStr s \<in> set arr} | _ \<Rightarrow> {})"
    using ss by (intro exI [of _ ss]) (simp add: rewrite_doc_other force_fields_fields)
  show ?thesis
    unfolding Let_def
    using t incl input others by (simp add: rewrite_doc_other force_fields_fields)
qed

end
