(* ===== verification/LlmStream.thy ===== *)
theory LlmStream imports GoBase begin

text \<open>
  \<^verbatim>\<open>control-plane/internal/llmgateway/stream_rewriter.go\<close>: the reader that renames
  the terminal event of a codex event stream while it passes through the gateway.

  The source is the list of what its \<open>Read\<close> calls return: the bytes and, with the last,
  the error (\<open>io.EOF\<close> or another).  A client reads with buffers of any sizes.
\<close>

section \<open>Lines\<close>

abbreviation nl :: char where "nl \<equiv> CHR 0x0A"
abbreviation cr :: char where "cr \<equiv> CHR 0x0D"

definition rewriteCodexLine :: "string \<Rightarrow> string" where
  "rewriteCodexLine line =
     (let n = length line;
          (body, terminator) =
            (if 0 < n \<and> line ! (n - 1) = nl
             then if 2 \<le> n \<and> line ! (n - 2) = cr then (take (n - 2) line, [cr, nl])
                  else (take (n - 1) line, [nl])
             else (line, []))
      in if \<not> has_prefix body ''event:'' then line
         else if trim_space (drop (length ''event:'') body) \<noteq> ''response.done'' then line
         else ''event: response.completed'' @ terminator)"

text \<open>The loop of \<open>consume\<close>: complete lines go to the output, the rest stays.  It cuts the
  pending bytes at the first newline while there is one.\<close>

function take_lines :: "string \<Rightarrow> string \<Rightarrow> string \<times> string" where
  "take_lines out pending =
     (if nl \<notin> set pending then (out, pending)
      else let idx = length (takeWhile (\<lambda>c. c \<noteq> nl) pending)
           in take_lines (out @ rewriteCodexLine (take (idx + 1) pending)) (drop (idx + 1) pending))"
  by pat_completeness auto
termination
  by (relation "measure (\<lambda>(out, pending). length pending)") (auto simp: length_greater_0_conv [symmetric] simp del: length_greater_0_conv intro!: diff_less)

declare take_lines.simps [simp del]

section \<open>The reader\<close>

datatype read_error = EOF | Read_failed string

record codexEventRewriter =
  rw_out :: string
  rw_pending :: string
  rw_srcEOF :: bool
  rw_srcErr :: "read_error option"

type_synonym reader = "(string \<times> read_error option) list"

definition newCodexEventRewriter :: codexEventRewriter where
  "newCodexEventRewriter = \<lparr>rw_out = [], rw_pending = [], rw_srcEOF = False, rw_srcErr = None\<rparr>"

definition consume :: "string \<Rightarrow> codexEventRewriter \<Rightarrow> codexEventRewriter" where
  "consume chunk c =
     (let (out, pending) = take_lines (rw_out c) (rw_pending c @ chunk)
      in c\<lparr>rw_out := out, rw_pending := pending\<rparr>)"

definition src_read :: "string \<times> read_error option \<Rightarrow> codexEventRewriter \<Rightarrow> codexEventRewriter" where
  "src_read r c =
     (let c1 = (if 0 < length (fst r) then consume (fst r) c else c)
      in case snd r of
           None \<Rightarrow> c1
         | Some e \<Rightarrow> c1\<lparr>rw_srcEOF := True, rw_srcErr := Some e\<rparr>)"

text \<open>The loop of \<open>Read\<close>: until there is output, end, or the source has no more to give.\<close>

datatype filled = Ready | Failed read_error | Blocked

fun fill :: "codexEventRewriter \<Rightarrow> reader \<Rightarrow> filled \<times> codexEventRewriter \<times> reader" where
  "fill c src =
     (if rw_out c \<noteq> [] then (Ready, c, src)
      else if rw_srcEOF c then
        if rw_pending c \<noteq> []
        then (Ready, c\<lparr>rw_out := rw_out c @ rewriteCodexLine (rw_pending c), rw_pending := []\<rparr>, src)
        else if rw_srcErr c \<noteq> None \<and> rw_srcErr c \<noteq> Some EOF then (Failed (the (rw_srcErr c)), c, src)
        else (Failed EOF, c, src)
      else case src of [] \<Rightarrow> (Blocked, c, []) | r # src' \<Rightarrow> fill (src_read r c) src')"

declare fill.simps [simp del]

definition rw_Read :: "nat \<Rightarrow> codexEventRewriter \<Rightarrow> reader \<Rightarrow> (filled \<times> string) \<times> codexEventRewriter \<times> reader" where
  "rw_Read n c src =
     (let (f, c1, src1) = fill c src
      in case f of
           Ready \<Rightarrow> ((Ready, take n (rw_out c1)), c1\<lparr>rw_out := drop n (rw_out c1)\<rparr>, src1)
         | _ \<Rightarrow> ((f, []), c1, src1))"

text \<open>A client that reads with the given buffer sizes until an error: what it got, and the error if it
  came to one.\<close>

fun drain :: "nat list \<Rightarrow> codexEventRewriter \<Rightarrow> reader \<Rightarrow> string \<times> read_error option" where
  "drain [] c src = ([], None)"
| "drain (n # ns) c src =
     (case rw_Read n c src of
        ((Ready, d), c1, src1) \<Rightarrow> (let (out, e) = drain ns c1 src1 in (d @ out, e))
      | ((Failed e, d), c1, src1) \<Rightarrow> ([], Some e)
      | ((Blocked, d), c1, src1) \<Rightarrow> ([], None))"

section \<open>The whole stream, line by line\<close>

text \<open>The reference: each line of the complete stream rewritten, the last one with or without newline.\<close>

function rewrite_lines :: "string \<Rightarrow> string" where
  "rewrite_lines s =
     (if s = [] then []
      else if nl \<notin> set s then rewriteCodexLine s
      else let l = takeWhile (\<lambda>c. c \<noteq> nl) s @ [nl]
           in rewriteCodexLine l @ rewrite_lines (drop (length l) s))"
  by pat_completeness auto
termination
  by (relation "measure length") auto

declare rewrite_lines.simps [simp del]

lemma rewrite_lines_Nil [simp]: "rewrite_lines [] = []"
  by (simp add: rewrite_lines.simps)

lemma rewrite_line_nonempty: "l \<noteq> [] \<Longrightarrow> rewriteCodexLine l \<noteq> []"
  by (auto simp: rewriteCodexLine_def Let_def)

lemma rewrite_lines_single: "nl \<notin> set s \<Longrightarrow> s \<noteq> [] \<Longrightarrow> rewrite_lines s = rewriteCodexLine s"
  by (subst rewrite_lines.simps) simp

lemma take_line: "nl \<in> set s \<Longrightarrow>
    take (Suc (length (takeWhile (\<lambda>c. c \<noteq> nl) s))) s = takeWhile (\<lambda>c. c \<noteq> nl) s @ [nl]"
  by (induction s) auto

lemma rewrite_lines_first:
  assumes "nl \<in> set s"
  shows "rewrite_lines (s @ t) =
    rewriteCodexLine (take (length (takeWhile (\<lambda>c. c \<noteq> nl) s) + 1) s)
    @ rewrite_lines (drop (length (takeWhile (\<lambda>c. c \<noteq> nl) s) + 1) s @ t)"
proof -
  have tw: "takeWhile (\<lambda>c. c \<noteq> nl) (s @ t) = takeWhile (\<lambda>c. c \<noteq> nl) s"
    using assms by (simp add: takeWhile_append1)
  have len: "length (takeWhile (\<lambda>c. c \<noteq> nl) s) < length s"
    using assms by (induction s) auto
  show ?thesis
    using assms len by (subst rewrite_lines.simps) (auto simp: tw take_line Let_def)
qed

lemma take_lines_rewrite:
  "take_lines out pending = (out', p) \<Longrightarrow>
     out' @ rewrite_lines (p @ rest) = out @ rewrite_lines (pending @ rest) \<and> nl \<notin> set p"
proof (induction out pending arbitrary: rest rule: take_lines.induct)
  case (1 out pending)
  show ?case
  proof (cases "nl \<in> set pending")
    case False
    with "1.prems" show ?thesis by (simp add: take_lines.simps)
  next
    case True
    let ?i = "length (takeWhile (\<lambda>c. c \<noteq> nl) pending)"
    have "take_lines (out @ rewriteCodexLine (take (?i + 1) pending)) (drop (?i + 1) pending) = (out', p)"
      using "1.prems" True by (simp add: take_lines.simps [of out pending] Let_def)
    from "1.IH" [OF _ refl this] True show ?thesis
      by (simp add: rewrite_lines_first [OF True])
  qed
qed

section \<open>The reader delivers the rewritten stream\<close>

text \<open>The bytes a reader state has still to deliver, when the source returns \<open>rest\<close> more.\<close>

definition due :: "codexEventRewriter \<Rightarrow> string \<Rightarrow> string" where
  "due c rest = rw_out c @ rewrite_lines (rw_pending c @ rest)"

definition source :: "string list \<Rightarrow> string \<Rightarrow> read_error \<Rightarrow> reader" where
  "source ds d e = map (\<lambda>x. (x, None)) ds @ [(d, Some e)]"

text \<open>A state in a run: before the end of the source, with the chunks \<open>ds\<close> and \<open>d\<close> to come, or after it.\<close>

definition running :: "codexEventRewriter \<Rightarrow> reader \<Rightarrow> string \<Rightarrow> read_error \<Rightarrow> bool" where
  "running c src rest e \<longleftrightarrow>
     (if rw_srcEOF c then rest = [] \<and> rw_srcErr c = Some e
      else \<exists>ds d. src = source ds d e \<and> rest = concat ds @ d)
     \<and> nl \<notin> set (rw_pending c)"

lemma consume_due:
  "due (consume chunk c) rest = due c (chunk @ rest)" "nl \<notin> set (rw_pending (consume chunk c))"
  "rw_srcEOF (consume chunk c) = rw_srcEOF c" "rw_srcErr (consume chunk c) = rw_srcErr c"
proof -
  obtain o' p where t: "take_lines (rw_out c) (rw_pending c @ chunk) = (o', p)" by fastforce
  from take_lines_rewrite [OF t, of rest] t
  show "due (consume chunk c) rest = due c (chunk @ rest)" "nl \<notin> set (rw_pending (consume chunk c))"
    by (simp_all add: consume_def due_def)
  show "rw_srcEOF (consume chunk c) = rw_srcEOF c" "rw_srcErr (consume chunk c) = rw_srcErr c"
    by (simp_all add: consume_def t)
qed

lemma src_read_running:
  assumes "running c (r # src) rest e" "\<not> rw_srcEOF c"
  shows "\<exists>rest'. running (src_read r c) src rest' e \<and> due (src_read r c) rest' = due c rest"
proof -
  obtain ds d where src: "r # src = source ds d e" "rest = concat ds @ d" and p: "nl \<notin> set (rw_pending c)"
    using assms by (auto simp: running_def)
  define c1 where "c1 = (if 0 < length (fst r) then consume (fst r) c else c)"
  have c1: "due c1 x = due c (fst r @ x)" "nl \<notin> set (rw_pending c1)" "rw_srcEOF c1 = rw_srcEOF c" for x
    using p by (auto simp: c1_def consume_due)
  show ?thesis
  proof (cases ds)
    case Nil
    with src have r: "r = (d, Some e)" "src = []" by (auto simp: source_def)
    then have s: "src_read r c = c1\<lparr>rw_srcEOF := True, rw_srcErr := Some e\<rparr>"
      by (simp add: src_read_def c1_def)
    show ?thesis
    proof (intro exI [of _ "[]"] conjI)
      show "running (src_read r c) src [] e" using c1(2) by (simp add: s running_def)
      have "due (src_read r c) [] = due c1 []" by (simp add: s due_def)
      with c1(1) [of "[]"] r src Nil show "due (src_read r c) [] = due c rest" by simp
    qed
  next
    case (Cons x xs)
    with src have r: "r = (x, None)" "src = source xs d e" by (auto simp: source_def)
    then have s: "src_read r c = c1" by (simp add: src_read_def c1_def)
    show ?thesis
    proof (intro exI [of _ "concat xs @ d"] conjI)
      show "running (src_read r c) src (concat xs @ d) e"
        using c1(2,3) assms(2) unfolding s running_def r(2) by auto
      from c1(1) [of "concat xs @ d"] r src Cons show "due (src_read r c) (concat xs @ d) = due c rest"
        unfolding s by simp
    qed
  qed
qed

lemma fill_running:
  "running c src rest e \<Longrightarrow>
     (case fill c src of
        (Ready, c1, src1) \<Rightarrow> rw_out c1 \<noteq> [] \<and> (\<exists>rest1. running c1 src1 rest1 e \<and> due c1 rest1 = due c rest)
      | (Failed x, c1, src1) \<Rightarrow> x = e \<and> due c rest = []
      | (Blocked, c1, src1) \<Rightarrow> False)"
proof (induction c src arbitrary: rest rule: fill.induct)
  case (1 c src)
  show ?case
  proof (cases "rw_out c \<noteq> []")
    case True
    with "1.prems" show ?thesis by (subst fill.simps) auto
  next
    case empty: False
    show ?thesis
    proof (cases "rw_srcEOF c")
      case True
      from "1.prems" True have r: "rest = []" "rw_srcErr c = Some e" "nl \<notin> set (rw_pending c)"
        by (auto simp: running_def)
      show ?thesis
      proof (cases "rw_pending c = []")
        case True
        with empty \<open>rw_srcEOF c\<close> r show ?thesis by (subst fill.simps) (auto simp: due_def)
      next
        case False
        with empty \<open>rw_srcEOF c\<close> r have "fill c src =
            (Ready, c\<lparr>rw_out := rewriteCodexLine (rw_pending c), rw_pending := []\<rparr>, src)"
          by (subst fill.simps) auto
        with False \<open>rw_srcEOF c\<close> empty r show ?thesis
          by (auto simp: rewrite_line_nonempty running_def due_def rewrite_lines_single intro!: exI [of _ "[]"])
      qed
    next
      case False
      then obtain r src' where s: "src = r # src'"
        using "1.prems" by (cases src) (auto simp: running_def source_def)
      from src_read_running [OF "1.prems" [unfolded s] False] obtain rest'
        where r': "running (src_read r c) src' rest' e" "due (src_read r c) rest' = due c rest" by blast
      have "fill c src = fill (src_read r c) src'"
        using empty False by (subst fill.simps) (simp add: s)
      have "\<not> rw_out c \<noteq> []" using empty by simp
      from "1.IH" [OF this False s r'(1)] show ?thesis
        unfolding \<open>fill c src = fill (src_read r c) src'\<close> r'(2) .
    qed
  qed
qed

lemma drain_running:
  "running c src rest e \<Longrightarrow>
     (let (got, err) = drain (map Suc ns) c src in
      if err = None then prefix got (due c rest) \<and> length ns \<le> length got
      else got = due c rest \<and> err = Some e)"
proof (induction ns arbitrary: c src rest)
  case Nil
  then show ?case by simp
next
  case (Cons n ns)
  obtain f c1 src1 where f: "fill c src = (f, c1, src1)" using prod_cases3 by blast
  show ?case
  proof (cases f)
    case Ready
    with fill_running [OF Cons.prems] f obtain rest1
      where r1: "rw_out c1 \<noteq> []" "running c1 src1 rest1 e" "due c1 rest1 = due c rest" by auto
    define c2 where "c2 = c1\<lparr>rw_out := drop (Suc n) (rw_out c1)\<rparr>"
    have run2: "running c2 src1 rest1 e" using r1(2) by (simp add: c2_def running_def)
    have split: "due c rest = take (Suc n) (rw_out c1) @ due c2 rest1"
      unfolding r1(3) [symmetric] by (simp add: due_def c2_def)
    obtain got err where d: "drain (map Suc ns) c2 src1 = (got, err)" by fastforce
    have read: "rw_Read (Suc n) c src = ((Ready, take (Suc n) (rw_out c1)), c2, src1)"
      using f Ready by (simp add: rw_Read_def c2_def)
    have dr: "drain (map Suc (n # ns)) c src = (take (Suc n) (rw_out c1) @ got, err)"
      by (simp add: read d del: take_Suc)
    have ih: "if err = None then prefix got (due c2 rest1) \<and> length ns \<le> length got
        else got = due c2 rest1 \<and> err = Some e"
      using Cons.IH [OF run2] d by simp
    have one: "1 \<le> length (take (Suc n) (rw_out c1))" using r1(1) by (cases "rw_out c1") auto
    show ?thesis
      unfolding dr Let_def prod.case
    proof (cases "err = None")
      case True
      with ih have "prefix got (due c2 rest1)" "length ns \<le> length got" by auto
      then have "prefix (take (Suc n) (rw_out c1) @ got) (due c rest)"
        and "length (n # ns) \<le> length (take (Suc n) (rw_out c1) @ got)"
        using one unfolding split length_append by (simp_all only: same_prefix_prefix list.size)
      with True show "if err = None then prefix (take (Suc n) (rw_out c1) @ got) (due c rest)
          \<and> length (n # ns) \<le> length (take (Suc n) (rw_out c1) @ got)
        else take (Suc n) (rw_out c1) @ got = due c rest \<and> err = Some e" by simp
    next
      case False
      with ih show "if err = None then prefix (take (Suc n) (rw_out c1) @ got) (due c rest)
          \<and> length (n # ns) \<le> length (take (Suc n) (rw_out c1) @ got)
        else take (Suc n) (rw_out c1) @ got = due c rest \<and> err = Some e"
        unfolding split by simp
    qed
  next
    case (Failed x)
    with fill_running [OF Cons.prems] f show ?thesis by (simp add: rw_Read_def)
  next
    case Blocked
    with fill_running [OF Cons.prems] f show ?thesis by simp
  qed
qed

text \<open>C30: However the upstream cuts the stream into chunks and whatever buffer sizes the client reads
  with, the client gets the stream with each complete line rewritten on its own, byte for byte, and
  then the error the source ended with.  Before that it has at any time a prefix of it, every read
  makes progress, and it never blocks after the source has ended.\<close>

theorem codex_stream_chunking:
  "let total = rewrite_lines (concat ds @ d);
       (got, err) = drain (map Suc ns) newCodexEventRewriter (source ds d e)
   in if err = None then prefix got total \<and> length ns \<le> length got \<and> length got \<le> length total
      else got = total \<and> err = Some e"
proof -
  have "running newCodexEventRewriter (source ds d e) (concat ds @ d) e"
    by (auto simp: running_def newCodexEventRewriter_def)
  note run = drain_running [OF this, of ns]
  have "due newCodexEventRewriter rest = rewrite_lines rest" for rest
    by (simp add: due_def newCodexEventRewriter_def)
  with run show ?thesis by (auto simp: Let_def prefix_length_le split: prod.splits if_splits)
qed

text \<open>\<open>wrapResponseStream\<close>: only codex streams are rewritten, the others are read as they are.\<close>

datatype body_reader = Plain reader | Rewriter codexEventRewriter reader

definition wrapResponseStream :: "string \<Rightarrow> reader \<Rightarrow> body_reader" where
  "wrapResponseStream apiType r =
     (if apiType = ''openai-codex-responses'' then Rewriter newCodexEventRewriter r else Plain r)"

end
