(* ===== verification/LlmUsage.thy ===== *)
theory LlmUsage imports Json Complex_Main begin

text \<open>
  \<^verbatim>\<open>control-plane/internal/llmgateway/response_parser.go\<close> and the cost computation of
  \<^verbatim>\<open>gateway.go\<close>: the token counts of a response or of a captured event stream, for each API,
  and what they cost.  Counts are 64-bit integers; costs are real numbers, without the rounding of
  \<open>float64\<close>.
\<close>

section \<open>Lines\<close>

definition maxScanTokenSize :: nat where
  "maxScanTokenSize = 65536"

definition drop_cr :: "string \<Rightarrow> string" where
  "drop_cr s = (if has_suffix s [CHR 0x0D] then take (length s - 1) s else s)"

text \<open>\<open>bufio.Scanner\<close> with its standard buffer: the lines up to the first that does not fit in it.\<close>

function scan_lines :: "string \<Rightarrow> string list" where
  "scan_lines s =
     (if s = [] then []
      else let line = takeWhile (\<lambda>c. c \<noteq> CHR 0x0A) s in
           if maxScanTokenSize \<le> length line then []
           else drop_cr line # scan_lines (drop (length line + 1) s))"
  by pat_completeness auto
termination
  by (relation "measure length") auto

declare scan_lines.simps [simp del]

lemma scan_lines_code [code]:
  "scan_lines [] = []"
  "scan_lines (c # s) =
     (let line = takeWhile (\<lambda>c. c \<noteq> CHR 0x0A) (c # s) in
      if maxScanTokenSize \<le> length line then []
      else drop_cr line # scan_lines (drop (length line + 1) (c # s)))"
  by (subst scan_lines.simps, simp)+

section \<open>Decoded fields\<close>

fun at_path :: "string list \<Rightarrow> gv \<Rightarrow> gv" where
  "at_path [] v = v"
| "at_path (k # ks) v = (case v of GStruct vs \<Rightarrow> at_path ks (get_field k vs) | _ \<Rightarrow> GNil)"

definition int_at :: "string list \<Rightarrow> gv \<Rightarrow> int" where
  "int_at ks v = (case at_path ks v of GInt i \<Rightarrow> i | _ \<Rightarrow> 0)"

definition str_at :: "string list \<Rightarrow> gv \<Rightarrow> string" where
  "str_at ks v = (case at_path ks v of GStr s \<Rightarrow> s | _ \<Rightarrow> [])"

definition bool_at :: "string list \<Rightarrow> gv \<Rightarrow> bool" where
  "bool_at ks v = (case at_path ks v of GBool b \<Rightarrow> b | _ \<Rightarrow> False)"

definition unmarshal :: "shape \<Rightarrow> string \<Rightarrow> gv \<Rightarrow> gv \<times> bool" where
  "unmarshal sh body v = (case json_parse body of None \<Rightarrow> (v, False) | Some j \<Rightarrow> decode sh j v)"

definition wrap64 :: "int \<Rightarrow> int" where
  "wrap64 i = (i + 2 ^ 63) mod 2 ^ 64 - 2 ^ 63"

text \<open>Input, output and cached input tokens.\<close>

type_synonym usage = "int \<times> int \<times> int"

section \<open>Whole responses\<close>

definition completions_shape :: shape where
  "completions_shape = SStruct [(''usage'', SStruct [(''prompt_tokens'', SInt), (''completion_tokens'', SInt),
     (''prompt_tokens_details'', SStruct [(''cached_tokens'', SInt)])])]"

definition completions_usage :: "gv \<Rightarrow> usage" where
  "completions_usage u =
     (let cached = int_at [''usage'', ''prompt_tokens_details'', ''cached_tokens''] u
      in (wrap64 (int_at [''usage'', ''prompt_tokens''] u - cached), int_at [''usage'', ''completion_tokens''] u, cached))"

definition ParseUsageOpenAICompletions :: "string \<Rightarrow> usage" where
  "ParseUsageOpenAICompletions body =
     (case unmarshal completions_shape body (zero_of completions_shape) of
        (u, ok) \<Rightarrow> if ok then completions_usage u else (0, 0, 0))"

definition responses_shape :: shape where
  "responses_shape = SStruct [(''usage'', SStruct [(''input_tokens'', SInt), (''output_tokens'', SInt),
     (''input_tokens_details'', SStruct [(''cached_tokens'', SInt)])])]"

definition responses_usage :: "gv \<Rightarrow> usage" where
  "responses_usage u =
     (int_at [''usage'', ''input_tokens''] u, int_at [''usage'', ''output_tokens''] u,
      int_at [''usage'', ''input_tokens_details'', ''cached_tokens''] u)"

definition ParseUsageOpenAIResponses :: "string \<Rightarrow> usage" where
  "ParseUsageOpenAIResponses body =
     (case unmarshal responses_shape body (zero_of responses_shape) of
        (u, ok) \<Rightarrow> if ok then responses_usage u else (0, 0, 0))"

definition ParseUsageAnthropicMessages :: "string \<Rightarrow> usage" where
  "ParseUsageAnthropicMessages body =
     (let sh = SStruct [(''usage'', SStruct [(''input_tokens'', SInt), (''output_tokens'', SInt),
                 (''cache_read_input_tokens'', SInt)])]
      in case unmarshal sh body (zero_of sh) of
           (u, ok) \<Rightarrow> if ok then (int_at [''usage'', ''input_tokens''] u, int_at [''usage'', ''output_tokens''] u,
                                 int_at [''usage'', ''cache_read_input_tokens''] u) else (0, 0, 0))"

definition ParseUsageGoogleGenerativeAI :: "string \<Rightarrow> usage" where
  "ParseUsageGoogleGenerativeAI body =
     (let sh = SStruct [(''usageMetadata'', SStruct [(''promptTokenCount'', SInt), (''candidatesTokenCount'', SInt),
                 (''cachedContentTokenCount'', SInt)])]
      in case unmarshal sh body (zero_of sh) of
           (u, ok) \<Rightarrow> if ok then (int_at [''usageMetadata'', ''promptTokenCount''] u,
                                 int_at [''usageMetadata'', ''candidatesTokenCount''] u,
                                 int_at [''usageMetadata'', ''cachedContentTokenCount''] u) else (0, 0, 0))"

definition ParseUsageOllama :: "string \<Rightarrow> usage" where
  "ParseUsageOllama body =
     (let sh = SStruct [(''prompt_eval_count'', SInt), (''eval_count'', SInt)]
      in case unmarshal sh body (zero_of sh) of
           (r, ok) \<Rightarrow> if ok then (int_at [''prompt_eval_count''] r, int_at [''eval_count''] r, 0) else (0, 0, 0))"

definition ParseUsageBedrockConverseStream :: "string \<Rightarrow> usage" where
  "ParseUsageBedrockConverseStream body =
     (let sh = SStruct [(''metadata'', SStruct [(''usage'', SStruct [(''inputTokens'', SInt), (''outputTokens'', SInt)])])]
      in case unmarshal sh body (zero_of sh) of
           (r, ok) \<Rightarrow> if ok then (int_at [''metadata'', ''usage'', ''inputTokens''] r,
                                 int_at [''metadata'', ''usage'', ''outputTokens''] r, 0) else (0, 0, 0))"

section \<open>Captured streams\<close>

text \<open>The variable an event is decoded into is declared before the loop: what one event leaves in it, the next
  finds.\<close>

definition sse_data :: "string \<Rightarrow> string option" where
  "sse_data line = (if has_prefix line ''data:'' then Some (trim_space (trim_prefix line ''data:'')) else None)"

fun completions_loop :: "string list \<Rightarrow> gv \<Rightarrow> usage \<Rightarrow> usage" where
  "completions_loop [] chunk res = res"
| "completions_loop (line # ls) chunk res =
     (case sse_data line of
        None \<Rightarrow> completions_loop ls chunk res
      | Some data \<Rightarrow>
          if data = ''[DONE]'' then res
          else case unmarshal completions_shape data chunk of
                 (chunk1, ok) \<Rightarrow>
                   completions_loop ls chunk1
                     (if ok \<and> 0 < int_at [''usage'', ''prompt_tokens''] chunk1 then completions_usage chunk1 else res))"

definition ParseUsageOpenAICompletionsStream :: "string \<Rightarrow> usage" where
  "ParseUsageOpenAICompletionsStream body =
     completions_loop (scan_lines body) (zero_of completions_shape) (0, 0, 0)"

definition completed_marker :: string where
  "completed_marker = [CHR 0x22] @ ''response.completed'' @ [CHR 0x22]"

definition event_shape :: shape where
  "event_shape = SStruct [(''type'', SString), (''response'', responses_shape)]"

fun responses_loop :: "string list \<Rightarrow> gv \<Rightarrow> usage" where
  "responses_loop [] event = (0, 0, 0)"
| "responses_loop (line # ls) event =
     (case sse_data line of
        None \<Rightarrow> responses_loop ls event
      | Some data \<Rightarrow>
          if \<not> contains data completed_marker then responses_loop ls event
          else case unmarshal event_shape data event of
                 (event1, ok) \<Rightarrow>
                   if ok \<and> str_at [''type''] event1 = ''response.completed''
                   then responses_usage (at_path [''response''] event1)
                   else responses_loop ls event1)"

definition ParseUsageOpenAIResponsesStream :: "string \<Rightarrow> usage" where
  "ParseUsageOpenAIResponsesStream body = responses_loop (scan_lines body) (zero_of event_shape)"

definition start_shape :: shape where
  "start_shape = SStruct [(''type'', SString), (''message'', SStruct [(''usage'',
     SStruct [(''input_tokens'', SInt), (''cache_read_input_tokens'', SInt), (''output_tokens'', SInt)])])]"

definition delta_shape :: shape where
  "delta_shape = SStruct [(''type'', SString), (''usage'', SStruct [(''output_tokens'', SInt)])]"

definition type_prefix :: "string \<Rightarrow> string" where
  \<comment> \<open>an object whose first member is the given type, in the compact form\<close>
  "type_prefix t = ''{'' @ [CHR 0x22] @ ''type'' @ [CHR 0x22] @ '':'' @ [CHR 0x22] @ t @ [CHR 0x22]"

fun anthropic_loop :: "string list \<Rightarrow> gv \<Rightarrow> gv \<Rightarrow> usage \<Rightarrow> usage" where
  "anthropic_loop [] msgStart msgDelta res = res"
| "anthropic_loop (line # ls) msgStart msgDelta (i, out, c) =
     (case sse_data line of
        None \<Rightarrow> anthropic_loop ls msgStart msgDelta (i, out, c)
      | Some data \<Rightarrow>
          if has_prefix data (type_prefix ''message_start'') then
            (case unmarshal start_shape data msgStart of
               (s1, ok) \<Rightarrow>
                 anthropic_loop ls s1 msgDelta
                   (if ok then (int_at [''message'', ''usage'', ''input_tokens''] s1, out,
                                int_at [''message'', ''usage'', ''cache_read_input_tokens''] s1) else (i, out, c)))
          else if has_prefix data (type_prefix ''message_delta'') then
            (case unmarshal delta_shape data msgDelta of
               (d1, ok) \<Rightarrow>
                 anthropic_loop ls msgStart d1 (if ok then (i, int_at [''usage'', ''output_tokens''] d1, c) else (i, out, c)))
          else anthropic_loop ls msgStart msgDelta (i, out, c))"

definition ParseUsageAnthropicMessagesStream :: "string \<Rightarrow> usage" where
  "ParseUsageAnthropicMessagesStream body =
     anthropic_loop (scan_lines body) (zero_of start_shape) (zero_of delta_shape) (0, 0, 0)"

definition ollama_shape :: shape where
  "ollama_shape = SStruct [(''done'', SBool), (''prompt_eval_count'', SInt), (''eval_count'', SInt)]"

fun ollama_loop :: "string list \<Rightarrow> gv \<Rightarrow> usage" where
  "ollama_loop [] r = (0, 0, 0)"
| "ollama_loop (l # ls) r =
     (let line = trim_space l in
      if line = [] then ollama_loop ls r
      else case unmarshal ollama_shape line r of
             (r1, ok) \<Rightarrow>
               if ok \<and> bool_at [''done''] r1
               then (int_at [''prompt_eval_count''] r1, int_at [''eval_count''] r1, 0)
               else ollama_loop ls r1)"

definition ParseUsageOllamaStream :: "string \<Rightarrow> usage" where
  "ParseUsageOllamaStream body = ollama_loop (scan_lines body) (zero_of ollama_shape)"

section \<open>Costs\<close>

record ProviderModelCost =
  mc_Input :: real
  mc_Output :: real
  mc_CacheRead :: real

record ProviderModel =
  pm_ID :: string
  pm_Cost :: "ProviderModelCost option"

fun findModelCost :: "ProviderModel list \<Rightarrow> string \<Rightarrow> ProviderModelCost option" where
  "findModelCost [] modelID = None"
| "findModelCost (m # ms) modelID =
     (if pm_ID m = modelID \<and> pm_Cost m \<noteq> None then pm_Cost m else findModelCost ms modelID)"

definition calculateCost :: "ProviderModel list \<Rightarrow> string \<Rightarrow> usage \<Rightarrow> real" where
  "calculateCost models modelID u =
     (case (findModelCost models modelID, u) of
        (None, _) \<Rightarrow> 0
      | (Some c, (inputTokens, outputTokens, cached)) \<Rightarrow>
          (of_int inputTokens * mc_Input c + of_int cached * mc_CacheRead c + of_int outputTokens * mc_Output c) / 1000000)"

section \<open>What is counted\<close>

lemma scan_lines_Cons:
  assumes "CHR 0x0A \<notin> set l"
  shows "scan_lines (l @ [CHR 0x0A] @ s) = (if maxScanTokenSize \<le> length l then [] else drop_cr l # scan_lines s)"
proof -
  have "takeWhile (\<lambda>c. c \<noteq> CHR 0x0A) (l @ [CHR 0x0A] @ s) = l"
    using assms by (subst takeWhile_append2) auto
  then show ?thesis
    unfolding scan_lines.simps [of "l @ [CHR 0x0A] @ s"] Let_def by simp
qed

lemma scan_lines_append:
  "list_all (\<lambda>l. CHR 0x0A \<notin> set l \<and> length l < maxScanTokenSize) ls \<Longrightarrow>
   scan_lines (concat (map (\<lambda>l. l @ [CHR 0x0A]) ls) @ s) = map drop_cr ls @ scan_lines s"
proof (induction ls)
  case (Cons l ls)
  then show ?case using scan_lines_Cons [of l "concat (map (\<lambda>l. l @ [CHR 0x0A]) ls) @ s"] by simp
qed simp

text \<open>A line of a response stream that the parser passes over without decoding it.\<close>

definition skipped_line :: "string \<Rightarrow> bool" where
  "skipped_line l \<longleftrightarrow> CHR 0x0A \<notin> set l \<and> length l < maxScanTokenSize
     \<and> (case sse_data (drop_cr l) of None \<Rightarrow> True | Some d \<Rightarrow> \<not> contains d completed_marker)"

lemma responses_loop_skip:
  "list_all skipped_line ls \<Longrightarrow> responses_loop (map drop_cr ls @ rest) e = responses_loop rest e"
  by (induction ls) (auto simp: skipped_line_def split: option.splits)

lemma completed_event_decoded:
  assumes "json_parse data = Some (JObj [(''type'', JStr ''response.completed''), (''response'', resp)])"
    and "decode responses_shape resp (zero_of responses_shape) = (u, ok)"
  shows "unmarshal event_shape data (zero_of event_shape) =
     (GStruct [(''type'', GStr ''response.completed''), (''response'', u)], ok)"
  using assms by (simp add: unmarshal_def event_shape_def field_for_def get_field_def)

text \<open>The usage of a captured Responses stream is that of the response object in its completed event,
  whatever other events surround it, if the event's line is shorter than 64 KiB; from that length on the
  scanner stops at the line and no tokens are counted.\<close>

theorem responses_stream_usage:
  assumes "list_all skipped_line before"
    and "CHR 0x0A \<notin> set line" "sse_data (drop_cr line) = Some data" "contains data completed_marker"
    and "json_parse data = Some (JObj [(''type'', JStr ''response.completed''), (''response'', resp)])"
    and "json_parse body = Some resp" "snd (decode responses_shape resp (zero_of responses_shape))"
  shows "ParseUsageOpenAIResponsesStream (concat (map (\<lambda>l. l @ [CHR 0x0A]) before) @ line @ [CHR 0x0A] @ after) =
     (if length line < 65536 then ParseUsageOpenAIResponses body else (0, 0, 0))"
proof -
  have "list_all (\<lambda>l. CHR 0x0A \<notin> set l \<and> length l < maxScanTokenSize) before"
    using assms(1) by (auto simp: list_all_iff skipped_line_def)
  note lines = scan_lines_append [OF this, of "line @ [CHR 0x0A] @ after"] scan_lines_Cons [OF assms(2), of after]
  obtain u where u: "decode responses_shape resp (zero_of responses_shape) = (u, True)"
    using assms(7) by (cases "decode responses_shape resp (zero_of responses_shape)") simp
  have "ParseUsageOpenAIResponses body = responses_usage u"
    using assms(6) u by (simp add: ParseUsageOpenAIResponses_def unmarshal_def)
  then have "responses_loop (drop_cr line # rest) (zero_of event_shape) = ParseUsageOpenAIResponses body" for rest
    using assms(3,4) completed_event_decoded [OF assms(5) u]
    by (simp add: str_at_def get_field_def)
  with lines responses_loop_skip [OF assms(1)] show ?thesis
    by (simp add: ParseUsageOpenAIResponsesStream_def maxScanTokenSize_def)
qed

definition sample_resp :: string where
  "sample_resp = jtext ''{~usage~:{~input_tokens~:7,~output_tokens~:2}}''"

definition sample_data :: string where
  "sample_data = jtext ''{~type~:~response.completed~,~response~:{~usage~:{~input_tokens~:7,~output_tokens~:2}}}''"

definition sample_json :: json where
  "sample_json = JObj [(''usage'', JObj [(''input_tokens'', JNum ''7''), (''output_tokens'', JNum ''2'')])]"

theorem responses_stream_usage_witness:
  "ParseUsageOpenAIResponsesStream (concat (map (\<lambda>l. l @ [CHR 0x0A]) [''event: x'', []])
     @ (''data:'' @ sample_data) @ [CHR 0x0A] @ ''data: [DONE]'')
   = (if length (''data:'' @ sample_data) < 65536 then ParseUsageOpenAIResponses sample_resp else (0, 0, 0))"
proof (rule responses_stream_usage)
  have "sse_data (drop_cr ''event: x'') = None" "sse_data (drop_cr []) = None" by code_simp+
  then show "list_all skipped_line [''event: x'', []]" by (simp add: skipped_line_def maxScanTokenSize_def)
  show "CHR 0x0A \<notin> set (''data:'' @ sample_data)" by code_simp
  have "drop_cr (''data:'' @ sample_data) = ''data:'' @ sample_data" by code_simp
  moreover have "trim_space sample_data = sample_data"
    by (rule trim_space_id) (simp_all add: sample_data_def jtext_def)
  ultimately show "sse_data (drop_cr (''data:'' @ sample_data)) = Some sample_data"
    by (simp only: sse_data_def has_prefix_append trim_prefix_append if_True)
  show "contains sample_data completed_marker" by code_simp
  show "json_parse sample_data = Some (JObj [(''type'', JStr ''response.completed''), (''response'', sample_json)])"
    by code_simp
  show "json_parse sample_resp = Some sample_json" by code_simp
  show "snd (decode responses_shape sample_json (zero_of responses_shape))" by code_simp
qed

text \<open>An event stream is not a JSON text, so the Google parser, which is also used for streams, counts
  nothing in one.\<close>

lemma event_stream_not_json: "json_parse (''data:'' @ s) = None"
proof -
  have "skip_ws (''data:'' @ s) = ''data:'' @ s" by (simp add: skip_ws_def json_ws_def)
  moreover have "number_text (''data:'' @ s) = None"
    by (simp add: number_text_def int_part_def digits1_def has_prefix_def is_digit_def digit_val_def)
  ultimately have "parse_value (Suc n) d (''data:'' @ s) = None" for n d
    by (simp add: has_prefix_def)
  from this [of "2 * length (''data:'' @ s) + 1" 10000] show ?thesis by (simp add: json_parse_def)
qed

theorem google_stream_uncounted: "ParseUsageGoogleGenerativeAI (''data:'' @ s) = (0, 0, 0)"
  using event_stream_not_json [of s] by (simp add: ParseUsageGoogleGenerativeAI_def unmarshal_def Let_def)

text \<open>What a request costs whose prompt of \<open>p\<close> tokens had \<open>c\<close> of them cached: through the
  completions API the cached tokens are charged once, at the cache price; through the Responses API they
  are charged at the cache price and again, as part of the input, at the full price.\<close>

definition completions_body :: "nat \<Rightarrow> nat \<Rightarrow> nat \<Rightarrow> json" where
  "completions_body p c m = JObj [(''usage'', JObj [(''prompt_tokens'', JNum (show_nat p)),
     (''completion_tokens'', JNum (show_nat m)),
     (''prompt_tokens_details'', JObj [(''cached_tokens'', JNum (show_nat c))])])]"

definition responses_body :: "nat \<Rightarrow> nat \<Rightarrow> nat \<Rightarrow> json" where
  "responses_body p c m = JObj [(''usage'', JObj [(''input_tokens'', JNum (show_nat p)),
     (''output_tokens'', JNum (show_nat m)),
     (''input_tokens_details'', JObj [(''cached_tokens'', JNum (show_nat c))])])]"

theorem cached_tokens_charged:
  assumes "json_parse b1 = Some (completions_body p c m)" "json_parse b2 = Some (responses_body p c m)"
    and "c \<le> p" "p < 2 ^ 63" "m < 2 ^ 63" "findModelCost models modelID = Some k"
  shows "calculateCost models modelID (ParseUsageOpenAICompletions b1)
           = (real (p - c) * mc_Input k + real c * mc_CacheRead k + real m * mc_Output k) / 1000000
       \<and> calculateCost models modelID (ParseUsageOpenAIResponses b2)
           = (real p * mc_Input k + real c * mc_CacheRead k + real m * mc_Output k) / 1000000"
proof -
  have c: "c < 2 ^ 63" using assms by simp
  have w: "wrap64 (int p - int c) = int (p - c)" using assms by (simp add: wrap64_def of_nat_diff)
  have "ParseUsageOpenAICompletions b1 = (int (p - c), int m, int c)"
    using assms c w
    by (simp add: ParseUsageOpenAICompletions_def unmarshal_def completions_shape_def completions_body_def
        completions_usage_def Let_def field_for_def get_field_def int_at_def)
  moreover have "ParseUsageOpenAIResponses b2 = (int p, int m, int c)"
    using assms c
    by (simp add: ParseUsageOpenAIResponses_def unmarshal_def responses_shape_def responses_body_def
        responses_usage_def field_for_def get_field_def int_at_def)
  ultimately show ?thesis using assms(6) by (simp add: calculateCost_def)
qed

definition sample_price :: ProviderModelCost where
  "sample_price = \<lparr>mc_Input = 10, mc_Output = 30, mc_CacheRead = 1\<rparr>"

definition sample_completion :: string where
  "sample_completion =
     jtext ''{~usage~:{~prompt_tokens~:90,~completion_tokens~:5,~prompt_tokens_details~:{~cached_tokens~:80}}}''"

definition sample_response :: string where
  "sample_response =
     jtext ''{~usage~:{~input_tokens~:90,~output_tokens~:5,~input_tokens_details~:{~cached_tokens~:80}}}''"

theorem cached_tokens_charged_witness:
  "calculateCost [\<lparr>pm_ID = ''m'', pm_Cost = Some sample_price\<rparr>] ''m'' (ParseUsageOpenAICompletions sample_completion)
       = (real (90 - 80) * 10 + real 80 * 1 + real 5 * 30) / 1000000
   \<and> calculateCost [\<lparr>pm_ID = ''m'', pm_Cost = Some sample_price\<rparr>] ''m'' (ParseUsageOpenAIResponses sample_response)
       = (real 90 * 10 + real 80 * 1 + real 5 * 30) / 1000000"
proof -
  have "json_parse sample_completion = Some (completions_body 90 80 5)" by code_simp
  moreover have "json_parse sample_response = Some (responses_body 90 80 5)" by code_simp
  ultimately show ?thesis
    using cached_tokens_charged [of sample_completion 90 80 5 sample_response
        "[\<lparr>pm_ID = ''m'', pm_Cost = Some sample_price\<rparr>]" "''m''" sample_price]
    by (simp add: sample_price_def)
qed

end
