(* ===== verification/LlmGateway.thy ===== *)
theory LlmGateway imports Database Sessions LlmStream CodexRequest LlmUsage begin

text \<open>
  \<^verbatim>\<open>control-plane/internal/llmgateway\<close> (gateway.go, keys.go, apitype.go,
  apitype_impl.go, oauth_codex.go): the proxy between the instances and the LLM providers.  An
  instance holds a gateway key; the gateway finds the provider behind it and sends the request on
  with the provider's real credentials.

  HTTP header names are case-insensitive: a header map is a map from the lower-case name to the
  values.  A query is the list of its keys, each once, with their values.  The ciphers, the clock,
  the random bytes, the token endpoint and the upstream server are parameters.
\<close>

section \<open>Headers and queries\<close>

type_synonym header = "string \<rightharpoonup> string list"
type_synonym query = "(string \<times> string list) list"

definition lower_char :: "char \<Rightarrow> char" where
  "lower_char c = (let n = (of_char c :: nat) in if 65 \<le> n \<and> n \<le> 90 then char_of (n + 32) else c)"

definition to_lower :: "string \<Rightarrow> string" where
  "to_lower s = map lower_char s"

definition h_Get :: "header \<Rightarrow> string \<Rightarrow> string" where
  "h_Get h k = (case h (to_lower k) of Some (v # _) \<Rightarrow> v | _ \<Rightarrow> [])"

definition h_Set :: "string \<Rightarrow> string \<Rightarrow> header \<Rightarrow> header" where
  "h_Set k v h = h(to_lower k \<mapsto> [v])"

text \<open>Copying the headers that are not skipped with \<open>Add\<close>; one without values adds none.\<close>

definition h_copy :: "string set \<Rightarrow> header \<Rightarrow> header" where
  "h_copy skip h = keep_where (\<lambda>k vs. k \<notin> skip \<and> vs \<noteq> []) h"

definition q_Get :: "query \<Rightarrow> string \<Rightarrow> string" where
  "q_Get q k = (case map_of q k of Some (v # _) \<Rightarrow> v | _ \<Rightarrow> [])"

definition q_Del :: "string \<Rightarrow> query \<Rightarrow> query" where
  "q_Del k q = filter (\<lambda>e. fst e \<noteq> k) q"

definition hex_upper :: "nat \<Rightarrow> char" where
  "hex_upper n = (if n < 10 then char_of (48 + n) else char_of (55 + n))"

definition query_escape :: "string \<Rightarrow> string" where
  "query_escape s = concat (map (\<lambda>c. let n = (of_char c :: nat) in
     if (48 \<le> n \<and> n \<le> 57) \<or> (65 \<le> n \<and> n \<le> 90) \<or> (97 \<le> n \<and> n \<le> 122) \<or> c \<in> set ''-_.~'' then [c]
     else if c = CHR '' '' then ''+''
     else [CHR 0x25, hex_upper (n div 16), hex_upper (n mod 16)]) s)"

fun join_with :: "string \<Rightarrow> string list \<Rightarrow> string" where
  "join_with sep [] = []"
| "join_with sep [x] = x"
| "join_with sep (x # y # xs) = x @ sep @ join_with sep (y # xs)"

definition q_Encode :: "query \<Rightarrow> string" where
  "q_Encode q = join_with ''&''
     (concat (map (\<lambda>(k, vs). map (\<lambda>v. query_escape k @ ''='' @ query_escape v) vs) (sort_key fst q)))"

fun trim_right_slash :: "string \<Rightarrow> string" where
  "trim_right_slash s = rev (dropWhile (\<lambda>c. c = CHR ''/'') (rev s))"

section \<open>API types\<close>

datatype APIType =
    OpenAICompletions
  | OpenAIResponses
  | OpenAICodexResponses
  | AnthropicMessages
  | GoogleGenerativeAI
  | OllamaAPI
  | BedrockConverse

definition APITypeOpenAICodexResponses :: string where
  "APITypeOpenAICodexResponses = ''openai-codex-responses''"

record AuthMaterial =
  am_APIKey :: string
  am_OAuthAccess :: string
  am_OAuthAccount :: string

definition GetAPIType :: "string \<Rightarrow> APIType" where
  "GetAPIType s =
     (if s = ''openai-responses'' then OpenAIResponses
      else if s = APITypeOpenAICodexResponses then OpenAICodexResponses
      else if s = ''anthropic-messages'' then AnthropicMessages
      else if s = ''google-generative-ai'' then GoogleGenerativeAI
      else if s = ''ollama'' then OllamaAPI
      else if s = ''bedrock-converse'' \<or> s = ''bedrock-converse-stream'' then BedrockConverse
      else OpenAICompletions)"

definition IsOAuthAPIType :: "string \<Rightarrow> bool" where
  "IsOAuthAPIType s \<longleftrightarrow> s = APITypeOpenAICodexResponses"

text \<open>The regular expression \<open>/v\d+$\<close>.\<close>

definition pathEndsWithVersion :: "string \<Rightarrow> bool" where
  "pathEndsWithVersion s =
     (let is_digit = (\<lambda>c. 48 \<le> (of_char c :: nat) \<and> (of_char c :: nat) \<le> 57);
          ds = takeWhile is_digit (rev s); r = dropWhile is_digit (rev s)
      in ds \<noteq> [] \<and> take 2 r = ''v/'')"

definition rewrite_v1 :: "string \<Rightarrow> string \<Rightarrow> string" where
  \<comment> \<open>the body five of the types share\<close>
  "rewrite_v1 baseURL requestPath =
     (if pathEndsWithVersion baseURL \<and> has_prefix requestPath ''/v1/'' then drop 3 requestPath
      else requestPath)"

fun RewritePath :: "APIType \<Rightarrow> string \<Rightarrow> string \<Rightarrow> string" where
  "RewritePath OpenAIResponses baseURL requestPath =
     (if pathEndsWithVersion baseURL \<and> has_prefix requestPath ''/v1/'' then drop 3 requestPath
      else if \<not> pathEndsWithVersion baseURL \<and> \<not> has_prefix requestPath ''/v1/'' then ''/v1'' @ requestPath
      else requestPath)"
| "RewritePath OpenAICodexResponses baseURL requestPath =
     (if requestPath = ''/codex/responses'' then requestPath
      else if trim_prefix requestPath ''/v1'' = ''/responses'' then ''/codex/responses''
      else requestPath)"
| "RewritePath OpenAICompletions baseURL requestPath = rewrite_v1 baseURL requestPath"
| "RewritePath AnthropicMessages baseURL requestPath = rewrite_v1 baseURL requestPath"
| "RewritePath GoogleGenerativeAI baseURL requestPath = rewrite_v1 baseURL requestPath"
| "RewritePath OllamaAPI baseURL requestPath = rewrite_v1 baseURL requestPath"
| "RewritePath BedrockConverse baseURL requestPath = rewrite_v1 baseURL requestPath"

fun SetAuthHeader :: "APIType \<Rightarrow> AuthMaterial \<Rightarrow> header \<Rightarrow> header" where
  "SetAuthHeader OpenAICodexResponses mat h =
     (let h1 = h_Set ''Authorization'' (''Bearer '' @ am_OAuthAccess mat) h;
          h2 = (if am_OAuthAccount mat \<noteq> [] then h_Set ''chatgpt-account-id'' (am_OAuthAccount mat) h1 else h1)
      in h_Set ''originator'' ''pi'' (h_Set ''OpenAI-Beta'' ''responses=experimental'' h2))"
| "SetAuthHeader AnthropicMessages mat h = h_Set ''x-api-key'' (am_APIKey mat) h"
| "SetAuthHeader GoogleGenerativeAI mat h = h_Set ''x-goog-api-key'' (am_APIKey mat) h"
| "SetAuthHeader OpenAICompletions mat h = h_Set ''Authorization'' (''Bearer '' @ am_APIKey mat) h"
| "SetAuthHeader OpenAIResponses mat h = h_Set ''Authorization'' (''Bearer '' @ am_APIKey mat) h"
| "SetAuthHeader OllamaAPI mat h = h_Set ''Authorization'' (''Bearer '' @ am_APIKey mat) h"
| "SetAuthHeader BedrockConverse mat h = h_Set ''Authorization'' (''Bearer '' @ am_APIKey mat) h"

definition probe_models :: "string \<Rightarrow> string" where
  "probe_models baseURL =
     (let trimmed = trim_right_slash baseURL in
      if pathEndsWithVersion trimmed then trimmed @ ''/models'' else trimmed @ ''/v1/models'')"

fun ProbeURL :: "APIType \<Rightarrow> string \<Rightarrow> string" where
  "ProbeURL OpenAICodexResponses baseURL = trim_right_slash baseURL"
| "ProbeURL OllamaAPI baseURL = trim_right_slash baseURL @ ''/api/tags''"
| "ProbeURL BedrockConverse baseURL = trim_right_slash baseURL"
| "ProbeURL OpenAICompletions baseURL = probe_models baseURL"
| "ProbeURL OpenAIResponses baseURL = probe_models baseURL"
| "ProbeURL AnthropicMessages baseURL = probe_models baseURL"
| "ProbeURL GoogleGenerativeAI baseURL = probe_models baseURL"

fun ProbeHeaders :: "APIType \<Rightarrow> header \<Rightarrow> header" where
  "ProbeHeaders AnthropicMessages h = h_Set ''anthropic-version'' ''2023-06-01'' h"
| "ProbeHeaders _ h = h"

section \<open>Gateway keys\<close>

definition generateGatewayKey :: "nat list \<Rightarrow> string" where
  "generateGatewayKey b = ''claworc-vk-'' @ hex_encode b"

text \<open>The k-th key a call creates takes the k-th draw of random bytes.  The unique index on the key
  can refuse the row.\<close>

fun ensure_keys :: "nat \<Rightarrow> nat list \<Rightarrow> (nat \<Rightarrow> nat list) \<Rightarrow> nat \<Rightarrow> db \<Rightarrow> nat option \<times> db" where
  "ensure_keys i [] rnd k d = (None, d)"
| "ensure_keys i (p # ps) rnd k d =
     (case List.find (\<lambda>x. gk_InstanceID x = i \<and> gk_ProviderID x = p) (llm_gateway_keys d) of
        Some _ \<Rightarrow> ensure_keys i ps rnd k d
      | None \<Rightarrow>
          let key = \<lparr>gk_InstanceID = i, gk_ProviderID = p, gk_GatewayKey = generateGatewayKey (rnd k)\<rparr> in
          if gk_GatewayKey key \<in> gk_GatewayKey ` set (llm_gateway_keys d) then (Some p, d)
          else ensure_keys i ps rnd (k + 1) (d\<lparr>llm_gateway_keys := llm_gateway_keys d @ [key]\<rparr>))"

definition EnsureKeysForInstance :: "nat \<Rightarrow> nat list \<Rightarrow> (nat \<Rightarrow> nat list) \<Rightarrow> db \<Rightarrow> nat option \<times> db" where
  "EnsureKeysForInstance i enabled rnd d =
     (case ensure_keys i enabled rnd 0 d of
        (Some p, d1) \<Rightarrow> (Some p, d1)
      | (None, d1) \<Rightarrow>
          (None, d1\<lparr>llm_gateway_keys :=
             (if enabled = [] then filter (\<lambda>x. \<not> gk_InstanceID x = i) (llm_gateway_keys d1)
              else filter (\<lambda>x. \<not> (gk_InstanceID x = i \<and> gk_ProviderID x \<notin> set enabled)) (llm_gateway_keys d1))\<rparr>))"

definition GetInstanceGatewayKeys :: "nat \<Rightarrow> db \<Rightarrow> nat \<rightharpoonup> string" where
  "GetInstanceGatewayKeys i d =
     foldl (\<lambda>m x. m(gk_ProviderID x \<mapsto> gk_GatewayKey x)) Map.empty
       (filter (\<lambda>x. gk_InstanceID x = i) (llm_gateway_keys d))"

section \<open>OAuth tokens\<close>

record CodexTokenResponse =
  tr_AccessToken :: string
  tr_RefreshToken :: string
  tr_ExpiresIn :: int

datatype oauth_error =
    Provider_not_found | Not_linked | Decrypt_failed | Token_endpoint_failed | Encrypt_failed

definition codexRefreshSkew_ms :: int where
  "codexRefreshSkew_ms = 60000"

text \<open>The parameters of the module: the cipher, the token endpoint (asked with the refresh token),
  the account id in an access token (a claim of the JWT), and the two clock readings in
  milliseconds.\<close>

record oauth_env =
  oe_decrypt :: "string \<Rightarrow> string option"
  oe_encrypt :: "string \<Rightarrow> string option"
  oe_endpoint :: "string \<Rightarrow> CodexTokenResponse option"
  oe_account :: "string \<Rightarrow> string"
  oe_now :: int
  oe_then :: int

text \<open>\<open>refreshCodexToken\<close>: an empty access token is an error.\<close>

definition refreshCodexToken :: "oauth_env \<Rightarrow> string \<Rightarrow> CodexTokenResponse option" where
  "refreshCodexToken env refresh =
     (case oe_endpoint env refresh of
        None \<Rightarrow> None
      | Some r \<Rightarrow> if tr_AccessToken r = [] then None else Some r)"

definition EnsureFreshOAuthToken :: "oauth_env \<Rightarrow> nat \<Rightarrow> db \<Rightarrow> (oauth_error + string \<times> string) \<times> db" where
  "EnsureFreshOAuthToken env pid d =
     (case List.find (\<lambda>p. prov_ID p = pid) (llm_providers d) of
        None \<Rightarrow> (Inl Provider_not_found, d)
      | Some p \<Rightarrow>
          if prov_OAuthRefreshToken p = [] then (Inl Not_linked, d)
          else
            let cached = (if prov_OAuthExpiresAt p - oe_now env > codexRefreshSkew_ms
                             \<and> prov_OAuthAccessToken p \<noteq> []
                          then oe_decrypt env (prov_OAuthAccessToken p) else None)
            in case cached of
                 Some access \<Rightarrow> (Inr (access, prov_OAuthAccountID p), d)
               | None \<Rightarrow>
                   (case oe_decrypt env (prov_OAuthRefreshToken p) of
                      None \<Rightarrow> (Inl Decrypt_failed, d)
                    | Some refresh \<Rightarrow>
                        (case refreshCodexToken env refresh of
                           None \<Rightarrow> (Inl Token_endpoint_failed, d)
                         | Some resp \<Rightarrow>
                             (case oe_encrypt env (tr_AccessToken resp) of
                                None \<Rightarrow> (Inl Encrypt_failed, d)
                              | Some encAccess \<Rightarrow>
                                  let rotated = (tr_RefreshToken resp \<noteq> [] \<and> tr_RefreshToken resp \<noteq> refresh)
                                  in case (if rotated then oe_encrypt env (tr_RefreshToken resp)
                                           else Some (prov_OAuthRefreshToken p)) of
                                       None \<Rightarrow> (Inl Encrypt_failed, d)
                                     | Some encRefresh \<Rightarrow>
                                         let acct = oe_account env (tr_AccessToken resp);
                                             newAccountID = (if acct \<noteq> [] then acct else prov_OAuthAccountID p)
                                         in (Inr (tr_AccessToken resp, newAccountID),
                                             d\<lparr>llm_providers := map (\<lambda>x. if prov_ID x = pid
                                                then x\<lparr>prov_OAuthAccessToken := encAccess,
                                                       prov_OAuthRefreshToken := encRefresh,
                                                       prov_OAuthExpiresAt := oe_then env + tr_ExpiresIn resp * 1000,
                                                       prov_OAuthAccountID := newAccountID\<rparr>
                                                else x) (llm_providers d)\<rparr>)))))"

section \<open>The proxy\<close>

record proxy_request =
  pq_method :: string
  pq_path :: string
  pq_query :: query
  pq_headers :: header
  pq_body :: "string option"

record upstream_request =
  up_method :: string
  up_url :: string
  up_headers :: header
  up_body :: string

record upstream_response =
  us_status :: nat
  us_headers :: header
  us_chunks :: "string list"
  us_last :: "string \<times> read_error"

record proxy_response =
  px_status :: nat
  px_headers :: header
  px_body :: string

definition key_prefix :: string where "key_prefix = ''claworc-vk-''"

definition extractGatewayToken :: "proxy_request \<Rightarrow> string" where
  "extractGatewayToken r =
     (let auth = h_Get (pq_headers r) ''Authorization'';
          v1 = h_Get (pq_headers r) ''x-api-key'';
          v2 = h_Get (pq_headers r) ''x-goog-api-key'';
          v3 = q_Get (pq_query r) ''key''
      in if has_prefix auth (''Bearer '' @ key_prefix) then trim_prefix auth ''Bearer ''
         else if has_prefix v1 key_prefix then v1
         else if has_prefix v2 key_prefix then v2
         else if has_prefix v3 key_prefix then v3
         else [])"

definition resolveRealAPIKey :: "oauth_env \<Rightarrow> LLMProvider \<Rightarrow> string" where
  "resolveRealAPIKey env p =
     (if prov_APIKey p = [] then []
      else case oe_decrypt env (prov_APIKey p) of Some k \<Rightarrow> k | None \<Rightarrow> [])"

datatype auth_failure = Missing_token | Invalid_key | OAuth_failed oauth_error

record resolved =
  rv_instanceID :: nat
  rv_providerID :: nat
  rv_baseURL :: string
  rv_mat :: AuthMaterial
  rv_apiType :: string
  rv_models :: string

text \<open>A key whose provider row is gone is resolved with the zero provider, as \<open>Preload\<close> leaves it.\<close>

definition zeroProvider :: LLMProvider where
  "zeroProvider = \<lparr>prov_ID = 0, prov_Key = [], prov_InstanceID = None, prov_Provider = [], prov_Name = [],
     prov_BaseURL = [], prov_APIType = [],
     prov_APIKey = [], prov_Models = [], prov_OAuthAccessToken = [], prov_OAuthRefreshToken = [], prov_OAuthExpiresAt = 0,
     prov_OAuthAccountID = [], prov_OAuthEmail = []\<rparr>"

definition key_provider :: "LLMGatewayKey \<Rightarrow> db \<Rightarrow> LLMProvider" where
  "key_provider k d =
     (case List.find (\<lambda>p. prov_ID p = gk_ProviderID k) (llm_providers d) of None \<Rightarrow> zeroProvider | Some p \<Rightarrow> p)"

definition authAndResolve :: "oauth_env \<Rightarrow> proxy_request \<Rightarrow> db \<Rightarrow> (auth_failure + resolved) \<times> db" where
  "authAndResolve env r d =
     (let token = extractGatewayToken r in
      if token = [] then (Inl Missing_token, d)
      else
        (case List.find (\<lambda>k. gk_GatewayKey k = token) (llm_gateway_keys d) of
           None \<Rightarrow> (Inl Invalid_key, d)
         | Some key \<Rightarrow>
             let p = key_provider key d;
                 apiType = (if prov_APIType p = [] then ''openai-completions'' else prov_APIType p);
                 res = (\<lambda>mat. \<lparr>rv_instanceID = gk_InstanceID key, rv_providerID = gk_ProviderID key,
                              rv_baseURL = trim_right_slash (prov_BaseURL p), rv_mat = mat, rv_apiType = apiType,
                              rv_models = prov_Models p\<rparr>)
             in if IsOAuthAPIType apiType then
                  (case EnsureFreshOAuthToken env (gk_ProviderID key) d of
                     (Inl e, d1) \<Rightarrow> (Inl (OAuth_failed e), d1)
                   | (Inr (access, account), d1) \<Rightarrow>
                       (Inr (res \<lparr>am_APIKey = [], am_OAuthAccess = access, am_OAuthAccount = account\<rparr>), d1))
                else (Inr (res \<lparr>am_APIKey = resolveRealAPIKey env p, am_OAuthAccess = [], am_OAuthAccount = []\<rparr>), d)))"

definition buildTargetURL :: "string \<Rightarrow> string \<Rightarrow> APIType \<Rightarrow> query \<Rightarrow> string" where
  "buildTargetURL baseURL requestPath ty q =
     (let target = baseURL @ RewritePath ty baseURL requestPath;
          encoded = q_Encode (q_Del ''key'' q)
      in if encoded \<noteq> [] then target @ ''?'' @ encoded else target)"

definition skip_request_headers :: "string set" where
  "skip_request_headers = {''authorization'', ''x-api-key'', ''x-goog-api-key'', ''host'', ''accept-encoding''}"

definition buildUpstreamRequest ::
    "(string \<Rightarrow> string \<Rightarrow> bool) \<Rightarrow> string \<Rightarrow> string \<Rightarrow> string \<Rightarrow> header \<Rightarrow> AuthMaterial \<Rightarrow> APIType \<Rightarrow> upstream_request option" where
  "buildUpstreamRequest valid method targetURL body origHeaders mat ty =
     (if \<not> valid method targetURL then None
      else
        let h1 = h_copy skip_request_headers origHeaders;
            h2 = (if am_APIKey mat \<noteq> [] \<or> am_OAuthAccess mat \<noteq> [] then SetAuthHeader ty mat h1 else h1);
            h3 = (if h_Get h2 ''Content-Type'' = [] then h_Set ''Content-Type'' ''application/json'' h2 else h2)
        in Some \<lparr>up_method = method, up_url = targetURL, up_headers = h3, up_body = body\<rparr>)"

text \<open>\<open>io.Copy\<close> reads with 32 KiB buffers until the error; a read delivers at least a byte, so
  one read more than there are bytes is enough.\<close>

definition io_Copy :: "body_reader \<Rightarrow> string" where
  "io_Copy b =
     (case b of
        Plain r \<Rightarrow> concat (map fst r)
      | Rewriter c r \<Rightarrow> fst (drain (replicate (Suc (length (rewrite_lines (concat (map fst r))))) 32768) c r))"

definition skip_response_headers :: "string set" where
  "skip_response_headers = {''content-type'', ''x-content-type-options'', ''set-cookie''}"

definition response_headers :: "upstream_response \<Rightarrow> bool \<Rightarrow> header" where
  "response_headers u isStreaming =
     (let h1 = h_copy skip_response_headers (us_headers u);
          h2 = h_Set ''Content-Type'' (if isStreaming then ''text/event-stream'' else ''application/json'') h1;
          h3 = h_Set ''X-Content-Type-Options'' ''nosniff'' h2
      in if isStreaming then h_Set ''X-Accel-Buffering'' ''no'' h3 else h3)"

text \<open>Each API's parser, for whole bodies and for captured streams.\<close>

fun at_ParseUsage :: "APIType \<Rightarrow> string \<Rightarrow> usage" where
  "at_ParseUsage OpenAICompletions body = ParseUsageOpenAICompletions body"
| "at_ParseUsage OpenAIResponses body = ParseUsageOpenAIResponses body"
| "at_ParseUsage OpenAICodexResponses body = ParseUsageOpenAIResponses body"
| "at_ParseUsage AnthropicMessages body = ParseUsageAnthropicMessages body"
| "at_ParseUsage GoogleGenerativeAI body = ParseUsageGoogleGenerativeAI body"
| "at_ParseUsage OllamaAPI body = ParseUsageOllama body"
| "at_ParseUsage BedrockConverse body = ParseUsageBedrockConverseStream body"

fun at_ParseStreamingUsage :: "APIType \<Rightarrow> string \<Rightarrow> usage" where
  "at_ParseStreamingUsage OpenAICompletions body = ParseUsageOpenAICompletionsStream body"
| "at_ParseStreamingUsage OpenAIResponses body = ParseUsageOpenAIResponsesStream body"
| "at_ParseStreamingUsage OpenAICodexResponses body = ParseUsageOpenAIResponsesStream body"
| "at_ParseStreamingUsage AnthropicMessages body = ParseUsageAnthropicMessagesStream body"
| "at_ParseStreamingUsage GoogleGenerativeAI body = ParseUsageGoogleGenerativeAI body"
| "at_ParseStreamingUsage OllamaAPI body = ParseUsageOllamaStream body"
| "at_ParseStreamingUsage BedrockConverse body = ParseUsageBedrockConverseStream body"

definition parseProxyUsage :: "string \<Rightarrow> APIType \<Rightarrow> bool \<Rightarrow> usage" where
  "parseProxyUsage body ty isStreaming = (if isStreaming then at_ParseStreamingUsage ty body else at_ParseUsage ty body)"

text \<open>The body for the client, and for the request log the tokens, their cost and the error message (the
  first 500 bytes of an upstream error).\<close>

definition processResponse ::
    "upstream_response \<Rightarrow> bool \<Rightarrow> APIType \<Rightarrow> string \<Rightarrow> ProviderModel list \<Rightarrow> string \<Rightarrow> string \<times> usage \<times> real \<times> string" where
  "processResponse u isStreaming ty apiType models model =
     (let src = source (us_chunks u) (fst (us_last u)) (snd (us_last u));
          report = (\<lambda>captured.
            let tokens = parseProxyUsage captured ty isStreaming
            in (captured, tokens, calculateCost models model tokens,
                if 400 \<le> us_status u then (if 500 < length captured then take 500 captured else captured) else []))
      in if isStreaming then report (io_Copy (wrapResponseStream apiType src))
         else if snd (us_last u) \<noteq> EOF then ([], (0, 0, 0), 0, [])
         else report (concat (map fst src)))"

record LLMRequestLog =
  rl_InstanceID :: nat
  rl_ProviderID :: nat
  rl_ModelID :: string
  rl_Tokens :: usage
  rl_CostUSD :: real
  rl_StatusCode :: nat
  rl_ErrorMessage :: string

text \<open>The parameters: the token refresh, the JSON coding of arbitrary values, the decoding of a provider's
  model list, whether a method and URL make a request, and the provider.\<close>

record gateway_env =
  ge_oauth :: oauth_env
  ge_unmarshal :: "string \<Rightarrow> json option"
  ge_marshal :: "json \<Rightarrow> string option"
  ge_models :: "string \<Rightarrow> ProviderModel list option"
  ge_valid :: "string \<Rightarrow> string \<Rightarrow> bool"
  ge_upstream :: "upstream_request \<Rightarrow> string + upstream_response"

definition ParseProviderModels :: "(string \<Rightarrow> ProviderModel list option) \<Rightarrow> string \<Rightarrow> ProviderModel list" where
  "ParseProviderModels dec raw =
     (if raw = [] \<or> raw = ''[]'' then [] else case dec raw of None \<Rightarrow> [] | Some ms \<Rightarrow> ms)"

definition request_model :: "string \<Rightarrow> string" where
  "request_model body =
     (let sh = SStruct [(''model'', SString)] in str_at [''model''] (fst (unmarshal sh body (zero_of sh))))"

definition quoted :: "string \<Rightarrow> string" where
  "quoted s = [CHR 0x22] @ s @ [CHR 0x22]"

definition plain_error :: "nat \<Rightarrow> string \<Rightarrow> proxy_response" where
  \<comment> \<open>\<open>http.Error\<close>\<close>
  "plain_error st msg = \<lparr>px_status = st,
     px_headers = h_Set ''X-Content-Type-Options'' ''nosniff''
                    (h_Set ''Content-Type'' ''text/plain; charset=utf-8'' Map.empty),
     px_body = ''{'' @ quoted ''error'' @ '':{'' @ quoted ''message'' @ '':'' @ quoted msg @ ''}}'' @ [nl]\<rparr>"

definition auth_failed_response :: proxy_response where
  "auth_failed_response = \<lparr>px_status = 401, px_headers = h_Set ''Content-Type'' ''application/json'' Map.empty,
     px_body = ''{'' @ quoted ''error'' @ '':{'' @ quoted ''message'' @ '':'' @ quoted ''authentication failed'' @ '',''
       @ quoted ''type'' @ '':'' @ quoted ''authentication_error'' @ ''}}'' @ [nl]\<rparr>"

text \<open>The response to the instance, the request sent upstream if one was, the row of the request log if
  one is written, and the database.\<close>

definition handleProxy ::
    "gateway_env \<Rightarrow> proxy_request \<Rightarrow> db \<Rightarrow> proxy_response \<times> upstream_request option \<times> LLMRequestLog option \<times> db" where
  "handleProxy env r d =
     (case authAndResolve (ge_oauth env) r d of
        (Inl e, d1) \<Rightarrow> (auth_failed_response, None, None, d1)
      | (Inr v, d1) \<Rightarrow>
          (case pq_body r of
             None \<Rightarrow> (plain_error 400 ''failed to read request body'', None, None, d1)
           | Some body0 \<Rightarrow>
               let model = request_model body0;
                   ty = GetAPIType (rv_apiType v);
                   targetURL = buildTargetURL (rv_baseURL v) (pq_path r) ty (pq_query r);
                   body = (if rv_apiType v = APITypeOpenAICodexResponses
                           then rewriteCodexRequestBody (ge_unmarshal env) (ge_marshal env) body0 else body0);
                   row = (\<lambda>tokens cost st msg. Some \<lparr>rl_InstanceID = rv_instanceID v, rl_ProviderID = rv_providerID v,
                            rl_ModelID = model, rl_Tokens = tokens, rl_CostUSD = cost, rl_StatusCode = st,
                            rl_ErrorMessage = msg\<rparr>)
               in case buildUpstreamRequest (ge_valid env) (pq_method r) targetURL body (pq_headers r) (rv_mat v) ty of
                    None \<Rightarrow> (plain_error 500 ''failed to build upstream request'', None, None, d1)
                  | Some up \<Rightarrow>
                      (case ge_upstream env up of
                         Inl err \<Rightarrow> (plain_error 502 ''upstream request failed'', Some up, row (0, 0, 0) 0 502 err, d1)
                       | Inr u \<Rightarrow>
                           let isStreaming = contains (h_Get (us_headers u) ''Content-Type'') ''text/event-stream'';
                               (out, tokens, cost, msg) = processResponse u isStreaming ty (rv_apiType v)
                                 (ParseProviderModels (ge_models env) (rv_models v)) model
                           in (\<lparr>px_status = us_status u, px_headers = response_headers u isStreaming, px_body = out\<rparr>,
                               Some up, row tokens cost (us_status u) msg, d1))))"

section \<open>Credentials\<close>

lemma to_lower_consts [simp]:
  "to_lower ''Authorization'' = ''authorization''" "to_lower ''x-api-key'' = ''x-api-key''"
  "to_lower ''x-goog-api-key'' = ''x-goog-api-key''" "to_lower ''chatgpt-account-id'' = ''chatgpt-account-id''"
  "to_lower ''originator'' = ''originator''" "to_lower ''OpenAI-Beta'' = ''openai-beta''"
  "to_lower ''Content-Type'' = ''content-type''" "to_lower ''X-Content-Type-Options'' = ''x-content-type-options''"
  "to_lower ''X-Accel-Buffering'' = ''x-accel-buffering''"
  by code_simp+

text \<open>The credential header a provider's type asks for, under its lower-case name.\<close>

fun credential :: "APIType \<Rightarrow> AuthMaterial \<Rightarrow> string \<times> string" where
  "credential OpenAICodexResponses mat = (''authorization'', ''Bearer '' @ am_OAuthAccess mat)"
| "credential AnthropicMessages mat = (''x-api-key'', am_APIKey mat)"
| "credential GoogleGenerativeAI mat = (''x-goog-api-key'', am_APIKey mat)"
| "credential _ mat = (''authorization'', ''Bearer '' @ am_APIKey mat)"

text \<open>The order in which the layers of headers are laid over each other does not matter, as they have
  different names.\<close>

lemma header_layers:
  assumes "nm \<in> A" "ct \<notin> A" "ct \<notin> B" "acc \<notin> A" "acc \<notin> B" "beta \<notin> A" "beta \<notin> B" "orig \<notin> A" "orig \<notin> B"
    "ct \<noteq> acc" "ct \<noteq> beta" "ct \<noteq> orig" "\<And>x. x \<in> A \<Longrightarrow> x \<notin> B"
  shows "(if k = ct \<and> e then v1
      else if has \<and> k = nm then v2
      else if has \<and> codex \<and> k = acc \<and> q then v3
      else if has \<and> codex \<and> k = beta then v4
      else if has \<and> codex \<and> k = orig then v5
      else if k \<in> A \<union> B \<or> n then None else v6) =
    (if k \<in> A then (if has \<and> k = nm then v2 else None)
     else if k \<in> B then None
     else if has \<and> codex \<and> k = acc \<and> q then v3
     else if has \<and> codex \<and> k = beta then v4
     else if has \<and> codex \<and> k = orig then v5
     else if k = ct \<and> e then v1
     else if n then None else v6)"
  using assms by (cases "k \<in> A"; cases "k \<in> B") auto


end
