(* ===== verification/LlmSafety.thy ===== *)
theory LlmSafety imports LlmGateway begin

text \<open>
  What holds of the LLM gateway: the keys of an instance are those of its enabled providers, a key
  that was taken away no longer opens the gateway, the responses the gateway gives are safe for a
  browser, and an OAuth token is refreshed once and then used until it runs out.
\<close>

section \<open>Gateway keys\<close>

text \<open>The two unique indexes of the table.\<close>

definition keys_ok :: "db \<Rightarrow> bool" where
  "keys_ok d \<longleftrightarrow>
     distinct (map (\<lambda>x. (gk_InstanceID x, gk_ProviderID x)) (llm_gateway_keys d))
     \<and> distinct (map gk_GatewayKey (llm_gateway_keys d))"

text \<open>The rows a call adds are new keys of the instance, for enabled providers that had none.\<close>

lemma ensure_keys_rows:
  assumes "keys_ok d" "ensure_keys i ps rnd k d = (err, d')"
  shows "keys_ok d' \<and> (\<exists>new. llm_gateway_keys d' = llm_gateway_keys d @ new
      \<and> (\<forall>x\<in>set new. gk_InstanceID x = i \<and> gk_ProviderID x \<in> set ps
             \<and> gk_GatewayKey x \<notin> gk_GatewayKey ` set (llm_gateway_keys d)))
    \<and> (err = None \<longrightarrow> set ps \<subseteq> gk_ProviderID ` {x \<in> set (llm_gateway_keys d'). gk_InstanceID x = i})"
  using assms
proof (induction i ps rnd k d rule: ensure_keys.induct)
  case (1 i rnd k d)
  then show ?case by auto
next
  case (2 i p ps rnd k d)
  show ?case
  proof (cases "List.find (\<lambda>x. gk_InstanceID x = i \<and> gk_ProviderID x = p) (llm_gateway_keys d)")
    case (Some y)
    then have y: "y \<in> set (llm_gateway_keys d)" "gk_InstanceID y = i" "gk_ProviderID y = p"
      using find_Some_in [OF Some] by auto
    have "ensure_keys i ps rnd k d = (err, d')" using "2.prems"(2) Some by simp
    from "2.IH"(2) [OF Some "2.prems"(1) this] y show ?thesis by fastforce
  next
    case None
    define key where "key = \<lparr>gk_InstanceID = i, gk_ProviderID = p, gk_GatewayKey = generateGatewayKey (rnd k)\<rparr>"
    show ?thesis
    proof (cases "gk_GatewayKey key \<in> gk_GatewayKey ` set (llm_gateway_keys d)")
      case True
      with "2.prems" None show ?thesis by (auto simp: key_def)
    next
      case False
      let ?d = "d\<lparr>llm_gateway_keys := llm_gateway_keys d @ [key]\<rparr>"
      have run: "ensure_keys i ps rnd (k + 1) ?d = (err, d')"
        using "2.prems"(2) None False by (simp add: key_def Let_def)
      have ok: "keys_ok ?d"
        using "2.prems"(1) False None by (auto simp: keys_ok_def key_def find_None_all)
      have ih: "keys_ok d' \<and> (\<exists>new. llm_gateway_keys d' = llm_gateway_keys ?d @ new
          \<and> (\<forall>x\<in>set new. gk_InstanceID x = i \<and> gk_ProviderID x \<in> set ps
             \<and> gk_GatewayKey x \<notin> gk_GatewayKey ` set (llm_gateway_keys ?d)))
          \<and> (err = None \<longrightarrow> set ps \<subseteq> gk_ProviderID ` {x \<in> set (llm_gateway_keys d'). gk_InstanceID x = i})"
        by (rule "2.IH"(1) [OF None key_def False ok run])
      then obtain new where new: "llm_gateway_keys d' = llm_gateway_keys d @ key # new"
        "\<forall>x\<in>set new. gk_InstanceID x = i \<and> gk_ProviderID x \<in> set ps
             \<and> gk_GatewayKey x \<notin> gk_GatewayKey ` set (llm_gateway_keys ?d)" by auto
      have "p \<in> gk_ProviderID ` {x \<in> set (llm_gateway_keys d'). gk_InstanceID x = i}"
        using new(1) by (intro image_eqI [of _ _ key]) (simp_all add: key_def)
      moreover have "llm_gateway_keys d' = llm_gateway_keys d @ (key # new)
          \<and> (\<forall>x\<in>set (key # new). gk_InstanceID x = i \<and> gk_ProviderID x \<in> set (p # ps)
             \<and> gk_GatewayKey x \<notin> gk_GatewayKey ` set (llm_gateway_keys d))"
        using new False by (auto simp: key_def)
      ultimately show ?thesis using ih by (intro conjI exI [of _ "key # new"]) auto
    qed
  qed
qed

lemma keys_ok_filter:
  "keys_ok d \<Longrightarrow> keys_ok (d\<lparr>llm_gateway_keys := filter p (llm_gateway_keys d)\<rparr>)"
  by (simp add: keys_ok_def distinct_map_filter)

text \<open>The outcome of \<open>EnsureKeysForInstance\<close> in terms of sets of rows.\<close>

lemma EnsureKeys_rows:
  assumes "keys_ok d" "EnsureKeysForInstance i ps rnd d = (err, d')"
  shows "keys_ok d'"
    and "gk_InstanceID x \<noteq> i \<Longrightarrow> x \<in> set (llm_gateway_keys d') \<longleftrightarrow> x \<in> set (llm_gateway_keys d)"
    and "err = None \<Longrightarrow> gk_ProviderID ` {x \<in> set (llm_gateway_keys d'). gk_InstanceID x = i} = set ps"
    and "x \<in> set (llm_gateway_keys d) \<Longrightarrow> gk_InstanceID x = i \<Longrightarrow> gk_ProviderID x \<in> set ps \<or> err \<noteq> None
         \<Longrightarrow> x \<in> set (llm_gateway_keys d')"
    and "x \<in> set (llm_gateway_keys d') \<Longrightarrow> x \<in> set (llm_gateway_keys d) \<or>
         gk_GatewayKey x \<notin> gk_GatewayKey ` set (llm_gateway_keys d)"
    and "x \<in> set (llm_gateway_keys d') \<Longrightarrow> err = None \<Longrightarrow> gk_InstanceID x = i \<Longrightarrow> gk_ProviderID x \<in> set ps"
proof -
  obtain e d1 where e: "ensure_keys i ps rnd 0 d = (e, d1)" by fastforce
  from ensure_keys_rows [OF assms(1) e] obtain new where ok: "keys_ok d1"
    and new: "llm_gateway_keys d1 = llm_gateway_keys d @ new"
      "\<And>x. x \<in> set new \<Longrightarrow> gk_InstanceID x = i \<and> gk_ProviderID x \<in> set ps
             \<and> gk_GatewayKey x \<notin> gk_GatewayKey ` set (llm_gateway_keys d)"
    and all: "e = None \<Longrightarrow> set ps \<subseteq> gk_ProviderID ` {x \<in> set (llm_gateway_keys d1). gk_InstanceID x = i}"
    by auto
  have filt: "llm_gateway_keys d' = filter (\<lambda>x. \<not> (gk_InstanceID x = i \<and> gk_ProviderID x \<notin> set ps)) (llm_gateway_keys d1)
      \<and> keys_ok d' \<and> err = None" if "e = None"
    using assms(2) e that keys_ok_filter [OF ok] by (auto simp: EnsureKeysForInstance_def)
  have kept: "d' = d1 \<and> err \<noteq> None" if "e \<noteq> None"
    using assms(2) e that by (auto simp: EnsureKeysForInstance_def)
  show "keys_ok d'" using filt kept ok by (cases e) auto
  show "gk_InstanceID x \<noteq> i \<Longrightarrow> x \<in> set (llm_gateway_keys d') \<longleftrightarrow> x \<in> set (llm_gateway_keys d)"
    using filt kept new by (cases e) auto
  show "err = None \<Longrightarrow> gk_ProviderID ` {x \<in> set (llm_gateway_keys d'). gk_InstanceID x = i} = set ps"
  proof -
    assume "err = None"
    with kept have "e = None" by blast
    have "gk_ProviderID ` {x \<in> set (llm_gateway_keys d'). gk_InstanceID x = i} \<subseteq> set ps"
      using filt [OF \<open>e = None\<close>] by auto
    moreover have "set ps \<subseteq> gk_ProviderID ` {x \<in> set (llm_gateway_keys d'). gk_InstanceID x = i}"
      using filt [OF \<open>e = None\<close>] all [OF \<open>e = None\<close>] by fastforce
    ultimately show ?thesis by blast
  qed
  show "x \<in> set (llm_gateway_keys d) \<Longrightarrow> gk_InstanceID x = i \<Longrightarrow> gk_ProviderID x \<in> set ps \<or> err \<noteq> None
         \<Longrightarrow> x \<in> set (llm_gateway_keys d')"
    using filt kept new(1) by (cases e) auto
  show "x \<in> set (llm_gateway_keys d') \<Longrightarrow> x \<in> set (llm_gateway_keys d) \<or>
         gk_GatewayKey x \<notin> gk_GatewayKey ` set (llm_gateway_keys d)"
    using filt kept new by (cases e) auto
  show "x \<in> set (llm_gateway_keys d') \<Longrightarrow> err = None \<Longrightarrow> gk_InstanceID x = i \<Longrightarrow> gk_ProviderID x \<in> set ps"
    using filt kept by (cases e) auto
qed

text \<open>C28: \<open>EnsureKeysForInstance\<close> gives an instance exactly one gateway key per enabled provider and
  no other: keys that are still enabled stay as they are, the others are removed, those of other instances
  are not touched, and the two unique indexes hold.  When a key cannot be created nothing is removed.\<close>

theorem ensure_keys_exact:
  assumes "keys_ok d"
  shows "(case EnsureKeysForInstance i ps rnd d of (err, d') \<Rightarrow>
      keys_ok d'
      \<and> {x \<in> set (llm_gateway_keys d'). gk_InstanceID x \<noteq> i} = {x \<in> set (llm_gateway_keys d). gk_InstanceID x \<noteq> i}
      \<and> (if err = None
         then gk_ProviderID ` {x \<in> set (llm_gateway_keys d'). gk_InstanceID x = i} = set ps
              \<and> {x \<in> set (llm_gateway_keys d). gk_InstanceID x = i \<and> gk_ProviderID x \<in> set ps} \<subseteq> set (llm_gateway_keys d')
         else set (llm_gateway_keys d) \<subseteq> set (llm_gateway_keys d')))"
proof -
  obtain err d' where e: "EnsureKeysForInstance i ps rnd d = (err, d')" by fastforce
  note rows = EnsureKeys_rows [OF assms e]
  have others: "{x \<in> set (llm_gateway_keys d'). gk_InstanceID x \<noteq> i} = {x \<in> set (llm_gateway_keys d). gk_InstanceID x \<noteq> i}"
    using rows(2) by blast
  have "set (llm_gateway_keys d) \<subseteq> set (llm_gateway_keys d')" if "err \<noteq> None"
    using rows(2,4) that by blast
  moreover have "{x \<in> set (llm_gateway_keys d). gk_InstanceID x = i \<and> gk_ProviderID x \<in> set ps} \<subseteq> set (llm_gateway_keys d')"
    using rows(4) by blast
  ultimately show ?thesis using rows(1,3) others e by simp
qed

definition demo_keys :: "LLMGatewayKey list" where
  "demo_keys = [\<lparr>gk_InstanceID = 1, gk_ProviderID = 5, gk_GatewayKey = ''claworc-vk-aa''\<rparr>,
                \<lparr>gk_InstanceID = 2, gk_ProviderID = 5, gk_GatewayKey = ''claworc-vk-bb''\<rparr>]"

definition demo_db :: db where
  "demo_db = empty_db\<lparr>llm_gateway_keys := demo_keys\<rparr>"

lemma demo_keys_ok: "keys_ok demo_db"
  by (simp add: keys_ok_def demo_db_def demo_keys_def)

theorem ensure_keys_exact_witness:
  "(case EnsureKeysForInstance 1 [6] (\<lambda>_. [1]) demo_db of (err, d') \<Rightarrow>
      {x \<in> set (llm_gateway_keys d'). gk_InstanceID x \<noteq> 1} = {x \<in> set (llm_gateway_keys demo_db). gk_InstanceID x \<noteq> 1})"
  using ensure_keys_exact [OF demo_keys_ok, of 1 "[6]" "\<lambda>_. [1]"] by (auto split: prod.splits)

section \<open>No upstream request without a live key\<close>

lemma handleProxy_unknown_key:
  assumes "\<And>k. k \<in> set (llm_gateway_keys d) \<Longrightarrow> gk_GatewayKey k \<noteq> extractGatewayToken r"
  shows "handleProxy env r d = (auth_failed_response, None, None, d)"
proof -
  have "List.find (\<lambda>k. gk_GatewayKey k = extractGatewayToken r) (llm_gateway_keys d) = None"
    using assms by (simp add: find_None_all)
  then show ?thesis by (simp add: handleProxy_def authAndResolve_def Let_def)
qed

text \<open>C29: Taking a provider away from an instance closes the gateway to the key it had for it: after
  \<open>EnsureKeysForInstance\<close> without that provider, any request with the old key (in whichever of the four
  places) is answered 401 and nothing is sent upstream.\<close>

theorem revoked_key_refused:
  assumes "keys_ok d" "x \<in> set (llm_gateway_keys d)" "gk_InstanceID x = i" "gk_ProviderID x \<notin> set ps"
    and "EnsureKeysForInstance i ps rnd d = (None, d')"
    and "extractGatewayToken r = gk_GatewayKey x"
  shows "handleProxy env r d' = (auth_failed_response, None, None, d')"
proof (rule handleProxy_unknown_key)
  note rows = EnsureKeys_rows [OF assms(1,5)]
  fix k assume k: "k \<in> set (llm_gateway_keys d')"
  have "k \<noteq> x" using rows(6) [OF k] assms(3,4) by auto
  have "inj_on gk_GatewayKey (set (llm_gateway_keys d))"
    using assms(1) by (simp add: keys_ok_def distinct_map)
  then have "gk_GatewayKey k \<noteq> gk_GatewayKey x"
    using rows(5) [OF k] assms(2) \<open>k \<noteq> x\<close> by (auto dest: inj_onD)
  then show "gk_GatewayKey k \<noteq> extractGatewayToken r" using assms(6) by simp
qed

definition demo_request :: proxy_request where
  "demo_request = \<lparr>pq_method = ''POST'', pq_path = ''/v1/messages'', pq_query = [],
     pq_headers = [''x-api-key'' \<mapsto> [''claworc-vk-aa'']], pq_body = Some ''{}''\<rparr>"

definition demo_oauth :: oauth_env where
  "demo_oauth = \<lparr>oe_decrypt = (\<lambda>s. Some (tl s)), oe_encrypt = (\<lambda>s. Some (CHR ''x'' # s)),
     oe_endpoint = (\<lambda>_. Some \<lparr>tr_AccessToken = ''new'', tr_RefreshToken = [], tr_ExpiresIn = 3600\<rparr>),
     oe_account = (\<lambda>_. []), oe_now = 0, oe_then = 10\<rparr>"

definition demo_gateway :: gateway_env where
  "demo_gateway = \<lparr>ge_oauth = demo_oauth, ge_unmarshal = json_parse, ge_marshal = (\<lambda>_. None),
     ge_models = (\<lambda>_. None), ge_valid = (\<lambda>_ _. True), ge_upstream = (\<lambda>_. Inl ''refused'')\<rparr>"

theorem revoked_key_refused_witness:
  "handleProxy demo_gateway demo_request (snd (EnsureKeysForInstance 1 [] (\<lambda>_. []) demo_db))
     = (auth_failed_response, None, None, snd (EnsureKeysForInstance 1 [] (\<lambda>_. []) demo_db))"
proof (rule revoked_key_refused)
  show "keys_ok demo_db" by (rule demo_keys_ok)
  show "\<lparr>gk_InstanceID = 1, gk_ProviderID = 5, gk_GatewayKey = ''claworc-vk-aa''\<rparr> \<in> set (llm_gateway_keys demo_db)"
    by (simp add: demo_db_def demo_keys_def)
  show "gk_InstanceID \<lparr>gk_InstanceID = 1, gk_ProviderID = 5, gk_GatewayKey = ''claworc-vk-aa''\<rparr> = 1" by simp
  show "gk_ProviderID \<lparr>gk_InstanceID = 1, gk_ProviderID = 5, gk_GatewayKey = ''claworc-vk-aa''\<rparr> \<notin> set []" by simp
  show "EnsureKeysForInstance 1 [] (\<lambda>_. []) demo_db = (None, snd (EnsureKeysForInstance 1 [] (\<lambda>_. []) demo_db))"
    by (simp add: EnsureKeysForInstance_def)
  show "extractGatewayToken demo_request = gk_GatewayKey \<lparr>gk_InstanceID = 1, gk_ProviderID = 5, gk_GatewayKey = ''claworc-vk-aa''\<rparr>"
    by (simp add: extractGatewayToken_def demo_request_def h_Get_def key_prefix_def has_prefix_def)
qed

section \<open>What the gateway answers\<close>

lemma io_Copy_rewriter:
  "io_Copy (Rewriter newCodexEventRewriter (source ds d e)) = rewrite_lines (concat ds @ d)"
proof -
  have c: "concat (map fst (source ds d e)) = concat ds @ d"
    by (induction ds) (simp_all add: source_def)
  define ns :: "nat list" where "ns = replicate (Suc (length (rewrite_lines (concat ds @ d)))) 32767"
  have sizes: "replicate (Suc (length (rewrite_lines (concat ds @ d)))) 32768 = map Suc ns"
    by (simp add: ns_def)
  obtain got err where dr: "drain (map Suc ns) newCodexEventRewriter (source ds d e) = (got, err)" by fastforce
  have run: "running newCodexEventRewriter (source ds d e) (concat ds @ d) e"
    by (auto simp: running_def newCodexEventRewriter_def)
  have due: "due newCodexEventRewriter (concat ds @ d) = rewrite_lines (concat ds @ d)"
    by (simp add: due_def newCodexEventRewriter_def)
  have "got = rewrite_lines (concat ds @ d)"
  proof (rule ccontr)
    assume "got \<noteq> rewrite_lines (concat ds @ d)"
    with drain_running [OF run, of ns] dr due
    have "prefix got (rewrite_lines (concat ds @ d))" "length ns \<le> length got"
      by (auto split: if_splits)
    then have "length ns \<le> length (rewrite_lines (concat ds @ d))" using prefix_length_le by fastforce
    then show False by (simp add: ns_def)
  qed
  then show ?thesis unfolding io_Copy_def body_reader.case c sizes dr by simp
qed

lemma processResponse_body:
  "fst (processResponse u s ty apiType models model) \<in> {concat (us_chunks u) @ fst (us_last u),
      rewrite_lines (concat (us_chunks u) @ fst (us_last u)), []}"
proof -
  have cat: "concat (map fst (source ds x e)) = concat ds @ x" for ds x e
    by (induction ds) (simp_all add: source_def)
  show ?thesis
    by (auto simp: processResponse_def Let_def cat wrapResponseStream_def io_Copy_rewriter)
       (auto simp: io_Copy_def cat)
qed

text \<open>Whatever a provider answers, the gateway's response cannot carry a cookie of the provider, and
  its content type is JSON, an event stream, or the plain text of the gateway's own errors.  A proxied response has
  the provider's status, is marked \<open>nosniff\<close>, and its body is what the provider sent (in a codex stream with
  each line rewritten), or nothing when a body that is not a stream broke off.  A request that was sent upstream,
  and no other, is logged, with the status its client got.\<close>

theorem proxy_response_safe:
  "(case handleProxy env r d of (resp, up, row, d') \<Rightarrow>
      px_headers resp ''set-cookie'' = None
      \<and> px_headers resp ''content-type'' \<in> {Some [''application/json''], Some [''text/event-stream''], Some [''text/plain; charset=utf-8'']}
      \<and> map_option rl_StatusCode row = map_option (\<lambda>_. px_status resp) up
      \<and> (case map_option (ge_upstream env) up of
           None \<Rightarrow> px_status resp \<in> {400, 401, 500}
         | Some (Inl err) \<Rightarrow> px_status resp = 502
         | Some (Inr u) \<Rightarrow>
             px_status resp = us_status u
             \<and> px_headers resp ''x-content-type-options'' = Some [''nosniff'']
             \<and> px_body resp \<in> {concat (us_chunks u) @ fst (us_last u),
                               rewrite_lines (concat (us_chunks u) @ fst (us_last u)), []}
             \<and> (px_headers resp ''content-type'' = Some [''text/event-stream'']) =
               contains (h_Get (us_headers u) ''Content-Type'') ''text/event-stream''))"
proof -
  have hd: "response_headers u s ''set-cookie'' = None"
    "response_headers u s ''content-type'' = Some [if s then ''text/event-stream'' else ''application/json'']"
    "response_headers u s ''x-content-type-options'' = Some [''nosniff'']" for u s
    by (simp_all add: response_headers_def h_Set_def Let_def h_copy_def keep_where_def skip_response_headers_def
        split: option.split)
  have auth: "px_headers auth_failed_response ''set-cookie'' = None"
    "px_headers auth_failed_response ''content-type'' = Some [''application/json'']" "px_status auth_failed_response = 401"
    by (simp_all add: auth_failed_response_def h_Set_def)
  have plain: "px_headers (plain_error n m) ''set-cookie'' = None" "px_status (plain_error n m) = n"
    "px_headers (plain_error n m) ''content-type'' = Some [''text/plain; charset=utf-8'']" for n m
    by (simp_all add: plain_error_def h_Set_def)
  obtain a d1 where a: "authAndResolve (ge_oauth env) r d = (a, d1)" by fastforce
  consider (refused) e where "a = Inl e" | (no_body) v where "a = Inr v" "pq_body r = None"
    | (built) v b where "a = Inr v" "pq_body r = Some b" by (cases a; cases "pq_body r") auto
  then show ?thesis
  proof cases
    case refused
    with a show ?thesis by (simp add: handleProxy_def auth)
  next
    case no_body
    with a show ?thesis by (simp add: handleProxy_def plain)
  next
    case built
    define up where "up = buildUpstreamRequest (ge_valid env) (pq_method r)
      (buildTargetURL (rv_baseURL v) (pq_path r) (GetAPIType (rv_apiType v)) (pq_query r))
      (if rv_apiType v = APITypeOpenAICodexResponses then rewriteCodexRequestBody (ge_unmarshal env) (ge_marshal env) b else b)
      (pq_headers r) (rv_mat v) (GetAPIType (rv_apiType v))"
    show ?thesis
    proof (cases up)
      case None
      with a built show ?thesis by (simp add: handleProxy_def Let_def up_def [symmetric] plain)
    next
      case up: (Some q)
      show ?thesis
      proof (cases "ge_upstream env q")
        case (Inl err)
        with a built up show ?thesis by (simp add: handleProxy_def Let_def up_def [symmetric] plain)
      next
        case (Inr u)
        define s where "s = contains (h_Get (us_headers u) ''Content-Type'') ''text/event-stream''"
        obtain out rest where p: "processResponse u s (GetAPIType (rv_apiType v)) (rv_apiType v)
            (ParseProviderModels (ge_models env) (rv_models v)) (request_model b) = (out, rest)" by (rule prod.exhaust)
        then have out: "out \<in> {concat (us_chunks u) @ fst (us_last u),
            rewrite_lines (concat (us_chunks u) @ fst (us_last u)), []}"
          using processResponse_body [of u s "GetAPIType (rv_apiType v)" "rv_apiType v"
              "ParseProviderModels (ge_models env) (rv_models v)" "request_model b"] by simp
        obtain tokens cost msg where "rest = (tokens, cost, msg)" by (cases rest) auto
        with a built up Inr p have "\<exists>row d2. handleProxy env r d =
            (\<lparr>px_status = us_status u, px_headers = response_headers u s, px_body = out\<rparr>, Some q, Some row, d2)
            \<and> rl_StatusCode row = us_status u"
          by (simp add: handleProxy_def Let_def up_def [symmetric] s_def [symmetric])
        then obtain row d2 where hp: "handleProxy env r d =
            (\<lparr>px_status = us_status u, px_headers = response_headers u s, px_body = out\<rparr>, Some q, Some row, d2)"
            "rl_StatusCode row = us_status u" by blast
        show ?thesis
          unfolding hp(1) using out Inr hp(2) s_def
          by (cases s) (simp_all add: hd del: insert_iff, simp_all)
      qed
    qed
  qed
qed

section \<open>OAuth tokens\<close>

text \<open>A refreshed token is stored and reused.  After a call that contacted the token endpoint, a
  later call for the same provider, as long as the stored token has more than a minute to live, returns the same
  token and account without asking the endpoint (whatever it would answer) and changes nothing, provided
  the cipher decrypts what it encrypted.\<close>

theorem oauth_refresh_then_cached:
  assumes "EnsureFreshOAuthToken env pid d = (Inr (access, account), d')" "d' \<noteq> d"
    and "\<And>s c. oe_encrypt env s = Some c \<Longrightarrow> oe_decrypt env c = Some s \<and> c \<noteq> []"
    and "\<And>p. p \<in> set (llm_providers d') \<Longrightarrow> prov_ID p = pid \<Longrightarrow> prov_OAuthExpiresAt p - now2 > 60000"
  shows "EnsureFreshOAuthToken (env\<lparr>oe_now := now2, oe_endpoint := endpoint2\<rparr>) pid d' = (Inr (access, account), d')"
proof -
  obtain p where p: "List.find (\<lambda>p. prov_ID p = pid) (llm_providers d) = Some p"
    using assms(1) by (cases "List.find (\<lambda>p. prov_ID p = pid) (llm_providers d)") (auto simp: EnsureFreshOAuthToken_def)
  define cached where "cached = (if prov_OAuthExpiresAt p - oe_now env > codexRefreshSkew_ms
      \<and> prov_OAuthAccessToken p \<noteq> [] then oe_decrypt env (prov_OAuthAccessToken p) else None)"
  note unfolded = assms(1) [unfolded EnsureFreshOAuthToken_def p option.case Let_def cached_def [symmetric]]
  have linked: "prov_OAuthRefreshToken p \<noteq> []" using unfolded by (auto split: if_splits)
  have "cached = None" using unfolded assms(2) linked by (cases cached) simp_all
  note e1 = unfolded [unfolded this option.case if_not_P [OF linked]]
  obtain refresh where r: "oe_decrypt env (prov_OAuthRefreshToken p) = Some refresh"
    using e1 by (cases "oe_decrypt env (prov_OAuthRefreshToken p)") simp_all
  note e2 = e1 [unfolded r option.case]
  obtain resp where resp: "refreshCodexToken env refresh = Some resp"
    using e2 by (cases "refreshCodexToken env refresh") simp_all
  note e3 = e2 [unfolded resp option.case]
  obtain encAccess where enc: "oe_encrypt env (tr_AccessToken resp) = Some encAccess"
    using e3 by (cases "oe_encrypt env (tr_AccessToken resp)") simp_all
  note e4 = e3 [unfolded enc option.case]
  define rotated where "rotated = (if tr_RefreshToken resp \<noteq> [] \<and> tr_RefreshToken resp \<noteq> refresh
      then oe_encrypt env (tr_RefreshToken resp) else Some (prov_OAuthRefreshToken p))"
  note e5 = e4 [folded rotated_def]
  obtain encRefresh where encR: "rotated = Some encRefresh"
    using e5 by (cases rotated) simp_all
  note e6 = e5 [unfolded encR option.case]
  have acc: "access = tr_AccessToken resp"
    and d': "d' = d\<lparr>llm_providers := map (\<lambda>x. if prov_ID x = pid
               then x\<lparr>prov_OAuthAccessToken := encAccess, prov_OAuthRefreshToken := encRefresh,
                      prov_OAuthExpiresAt := oe_then env + tr_ExpiresIn resp * 1000,
                      prov_OAuthAccountID := account\<rparr> else x) (llm_providers d)\<rparr>"
    using e6 by (auto simp del: list.map)
  let ?q = "p\<lparr>prov_OAuthAccessToken := encAccess, prov_OAuthRefreshToken := encRefresh,
              prov_OAuthExpiresAt := oe_then env + tr_ExpiresIn resp * 1000, prov_OAuthAccountID := account\<rparr>"
  have find: "List.find (\<lambda>x. prov_ID x = pid) (map (\<lambda>x. if prov_ID x = pid then g x else x) xs)
      = map_option g (List.find (\<lambda>x. prov_ID x = pid) xs)" if "\<And>x. prov_ID (g x) = prov_ID x" for g xs
    by (induction xs) (auto simp: that)
  have q: "List.find (\<lambda>x. prov_ID x = pid) (llm_providers d') = Some ?q"
    using p by (simp add: d' find)
  have "prov_OAuthExpiresAt ?q - now2 > 60000"
    using find_Some_in [OF q] assms(4) by blast
  moreover have "oe_decrypt env encAccess = Some access" "encAccess \<noteq> []"
    using assms(3) [OF enc] acc by auto
  moreover have "encRefresh \<noteq> []"
    using encR linked assms(3) by (auto simp: rotated_def split: if_splits)
  ultimately show ?thesis
    using q by (simp add: EnsureFreshOAuthToken_def codexRefreshSkew_ms_def)
qed

definition demo_oauth_db :: db where
  "demo_oauth_db = demo_db\<lparr>llm_providers := [zeroProvider\<lparr>prov_ID := 3, prov_OAuthRefreshToken := ''xr''\<rparr>]\<rparr>"

theorem oauth_refresh_then_cached_witness:
  "fst (EnsureFreshOAuthToken (demo_oauth\<lparr>oe_now := 1000, oe_endpoint := (\<lambda>_. None)\<rparr>) 3
     (snd (EnsureFreshOAuthToken demo_oauth 3 demo_oauth_db))) = Inr (''new'', [])"
proof -
  define d' where "d' = snd (EnsureFreshOAuthToken demo_oauth 3 demo_oauth_db)"
  have e: "EnsureFreshOAuthToken demo_oauth 3 demo_oauth_db = (Inr (''new'', []), d')"
    by (simp add: d'_def EnsureFreshOAuthToken_def demo_oauth_def demo_oauth_db_def demo_db_def zeroProvider_def
        refreshCodexToken_def codexRefreshSkew_ms_def)
  have provs: "llm_providers d' = [zeroProvider\<lparr>prov_ID := 3, prov_OAuthAccessToken := ''xnew'',
      prov_OAuthRefreshToken := ''xr'', prov_OAuthExpiresAt := 3600010, prov_OAuthAccountID := []\<rparr>]"
    by (simp add: d'_def EnsureFreshOAuthToken_def demo_oauth_def demo_oauth_db_def demo_db_def zeroProvider_def
        refreshCodexToken_def codexRefreshSkew_ms_def)
  have ne: "d' \<noteq> demo_oauth_db"
  proof
    assume "d' = demo_oauth_db"
    with provs show False by (simp add: demo_oauth_db_def demo_db_def zeroProvider_def)
  qed
  have "EnsureFreshOAuthToken (demo_oauth\<lparr>oe_now := 1000, oe_endpoint := (\<lambda>_. None)\<rparr>) 3 d' = (Inr (''new'', []), d')"
    by (rule oauth_refresh_then_cached [OF e ne]) (auto simp: provs demo_oauth_def zeroProvider_def)
  then show ?thesis by (simp add: d'_def)
qed

end
