(* ===== verification/Web.thy ===== *)
theory Web imports Accounts begin

text \<open>
  What the handlers outside account administration share: a reply is a failure with a message or a
  success with its data, each with the HTTP status; and the clamping of integer query parameters
  (\<^verbatim>\<open>control-plane/internal/handlers/helpers.go\<close>).
\<close>

datatype 'a reply = Fail nat string | Reply nat 'a

fun reply_status :: "'a reply \<Rightarrow> nat" where
  "reply_status (Fail st msg) = st"
| "reply_status (Reply st x) = st"

text \<open>Calls in sequence: an error ends it and keeps the state reached.\<close>

definition andThen :: "('e + 'a) \<times> 's \<Rightarrow> ('a \<Rightarrow> 's \<Rightarrow> ('e + 'b) \<times> 's) \<Rightarrow> ('e + 'b) \<times> 's" where
  "andThen r k = (case r of (Inl e, s) \<Rightarrow> (Inl e, s) | (Inr x, s) \<Rightarrow> k x s)"

definition is_admin :: "User option \<Rightarrow> bool" where
  "is_admin cu \<longleftrightarrow> (case cu of None \<Rightarrow> False | Some u \<Rightarrow> user_Role u = ''admin'')"

definition caller_id :: "User option \<Rightarrow> nat" where
  "caller_id cu = (case cu of None \<Rightarrow> 0 | Some u \<Rightarrow> user_ID u)"

text \<open>\<open>raw\<close> is the parameter's text, empty when it is missing.\<close>

definition parseIntQuery :: "string \<Rightarrow> int \<Rightarrow> int \<Rightarrow> int \<Rightarrow> int" where
  "parseIntQuery raw def lo hi =
     (if raw = [] then def
      else case atoi raw of
             None \<Rightarrow> def
           | Some v \<Rightarrow> if v < lo then lo else if hi < v then hi else v)"

text \<open>\<open>WriteOrchestratorUnavailable\<close>.\<close>

abbreviation orchestrator_unavailable :: "'a reply" where
  "orchestrator_unavailable \<equiv> Fail 503 ''No container backend is currently available.''"

end
