(* ===== verification/Tables.thy ===== *)
theory Tables imports Database begin

text \<open>
  Tables with numbered rows: \<open>Create\<close>, \<open>First\<close> by id, \<open>Updates\<close> by id and \<open>Delete\<close> by id, for a table given by its
  name, its record field and that field's update function.
  The locale \<open>table\<close> is what every such table keeps of its rows; it is interpreted on the tables
  of the parts below.
\<close>

type_synonym 'r put = "('r list \<Rightarrow> 'r list) \<Rightarrow> db \<Rightarrow> db"

definition create_row :: "string \<Rightarrow> (db \<Rightarrow> 'r list) \<Rightarrow> 'r put \<Rightarrow> (nat \<Rightarrow> 'r) \<Rightarrow> db \<Rightarrow> nat \<times> db" where
  "create_row name rows put mk d =
     (let i = next_row d name
      in (i, put (\<lambda>rs. rs @ [mk i]) (d\<lparr>next_row := (next_row d)(name := i + 1)\<rparr>)))"

definition first_row :: "(db \<Rightarrow> 'r list) \<Rightarrow> ('r \<Rightarrow> nat) \<Rightarrow> nat \<Rightarrow> db \<Rightarrow> 'r option" where
  "first_row rows key i d = List.find (\<lambda>r. key r = i) (rows d)"

definition update_row :: "'r put \<Rightarrow> ('r \<Rightarrow> nat) \<Rightarrow> nat \<Rightarrow> ('r \<Rightarrow> 'r) \<Rightarrow> db \<Rightarrow> db" where
  "update_row put key i f d = put (map (\<lambda>r. if key r = i then f r else r)) d"

definition delete_row :: "'r put \<Rightarrow> ('r \<Rightarrow> nat) \<Rightarrow> nat \<Rightarrow> db \<Rightarrow> db" where
  "delete_row put key i d = put (filter (\<lambda>r. key r \<noteq> i)) d"

definition table_ok :: "string \<Rightarrow> (db \<Rightarrow> 'r list) \<Rightarrow> ('r \<Rightarrow> nat) \<Rightarrow> db \<Rightarrow> bool" where
  "table_ok name rows key d \<longleftrightarrow> distinct (map key (rows d)) \<and> (\<forall>r \<in> set (rows d). key r < next_row d name)"

lemma find_map_update:
  "(\<And>r. key (f r) = key r) \<Longrightarrow>
   List.find (\<lambda>r. key r = j) (map (\<lambda>r. if key r = i then f r else r) rs)
     = map_option (\<lambda>r. if j = i then f r else r) (List.find (\<lambda>r. key r = j) rs)"
  by (induction rs) auto

lemma find_filter_other:
  "List.find (\<lambda>r. key r = j) (filter (\<lambda>r. key r \<noteq> i) rs) = (if j = i then None else List.find (\<lambda>r. key r = j) rs)"
  by (induction rs) auto

lemma find_append: "List.find P (xs @ ys) = (case List.find P xs of None \<Rightarrow> List.find P ys | Some x \<Rightarrow> Some x)"
  by (induction xs) auto

text \<open>What the record package gives for a field and its update function.\<close>

locale table =
  fixes name :: string and rows :: "db \<Rightarrow> 'r list" and put :: "'r put" and key :: "'r \<Rightarrow> nat"
  assumes rows_put [simp]: "rows (put f d) = f (rows d)"
    and next_put [simp]: "next_row (put f d) = next_row d"
    and rows_next [simp]: "rows (d\<lparr>next_row := n\<rparr>) = rows d"
begin

lemma rows_create: "rows (snd (create_row name rows put mk d)) = rows d @ [mk (next_row d name)]"
  by (simp add: create_row_def Let_def)

lemma next_create: "next_row (snd (create_row name rows put mk d)) = (next_row d)(name := next_row d name + 1)"
  by (simp add: create_row_def Let_def)

lemma id_create: "fst (create_row name rows put mk d) = next_row d name"
  by (simp add: create_row_def Let_def)

lemma first_fresh: "table_ok name rows key d \<Longrightarrow> next_row d name \<le> i \<Longrightarrow> first_row rows key i d = None"
  by (auto simp: table_ok_def first_row_def find_None_iff)

lemma first_create:
  "table_ok name rows key d \<Longrightarrow> key (mk (next_row d name)) = next_row d name \<Longrightarrow>
   first_row rows key i (snd (create_row name rows put mk d))
     = (if i = next_row d name then Some (mk i) else first_row rows key i d)"
  using first_fresh [of d i] by (auto simp: first_row_def rows_create find_append split: option.split)

lemma first_update:
  "(\<And>r. key (f r) = key r) \<Longrightarrow>
   first_row rows key j (update_row put key i f d) = map_option (\<lambda>r. if j = i then f r else r) (first_row rows key j d)"
  by (simp add: first_row_def update_row_def find_map_update)

lemma first_delete: "first_row rows key j (delete_row put key i d) = (if j = i then None else first_row rows key j d)"
  by (simp add: first_row_def delete_row_def find_filter_other)

lemma create_ok:
  "table_ok name rows key d \<Longrightarrow> key (mk (next_row d name)) = next_row d name \<Longrightarrow>
   table_ok name rows key (snd (create_row name rows put mk d))"
  by (auto simp: table_ok_def rows_create next_create)

lemma update_ok:
  assumes "table_ok name rows key d" "\<And>r. key (f r) = key r"
  shows "table_ok name rows key (update_row put key i f d)"
proof -
  have "map key (map (\<lambda>r. if key r = i then f r else r) (rows d)) = map key (rows d)"
    using assms(2) by (induction "rows d") auto
  with assms show ?thesis by (auto simp: table_ok_def update_row_def simp del: map_map)
qed

lemma delete_ok: "table_ok name rows key d \<Longrightarrow> table_ok name rows key (delete_row put key i d)"
  by (auto simp: table_ok_def delete_row_def distinct_map intro: inj_on_subset)

lemma first_mem: "first_row rows key i d = Some r \<Longrightarrow> r \<in> set (rows d) \<and> key r = i"
  by (auto simp: first_row_def find_Some_iff)

lemma mem_first: "table_ok name rows key d \<Longrightarrow> r \<in> set (rows d) \<Longrightarrow> first_row rows key (key r) d = Some r"
  by (auto simp: table_ok_def first_row_def find_Some_iff distinct_conv_nth in_set_conv_nth)

end

interpretation backups_tab: table "''backups''" backups backups_update bk_ID
  by unfold_locales simp_all

interpretation schedules_tab: table "''backup_schedules''" backup_schedules backup_schedules_update bs_ID
  by unfold_locales simp_all

interpretation folders_tab: table "''shared_folders''" shared_folders shared_folders_update sf_ID
  by unfold_locales simp_all

interpretation boards_tab: table "''kanban_boards''" kanban_boards kanban_boards_update kb_ID
  by unfold_locales simp_all

interpretation tasks_tab: table "''kanban_tasks''" kanban_tasks kanban_tasks_update kt_ID
  by unfold_locales simp_all

interpretation comments_tab: table "''kanban_comments''" kanban_comments kanban_comments_update kc_ID
  by unfold_locales simp_all

interpretation artifacts_tab: table "''kanban_artifacts''" kanban_artifacts kanban_artifacts_update ka_ID
  by unfold_locales simp_all

end
