(* ===== verification/EnvVars.thy ===== *)
theory EnvVars imports Database Json "HOL-Library.AList" begin

text \<open>
  Secrets and user-defined environment variables: \<^verbatim>\<open>control-plane/internal/utils\<close>
  (crypto.go, the text functions of sanitize.go), \<^verbatim>\<open>internal/envvars/envvars.go\<close> and
  \<^verbatim>\<open>internal/handlers/envvars.go\<close>.

  A Go map of strings is an association list, read as a map.  The Fernet library is a parameter:
  a key opens what it sealed, and a token is text of the URL-safe base64 alphabet.
\<close>

section \<open>Text for log lines and file names\<close>

definition replace_char :: "char \<Rightarrow> string \<Rightarrow> string \<Rightarrow> string" where
  \<comment> \<open>\<open>strings.ReplaceAll\<close> with a one-byte pattern\<close>
  "replace_char c new s = concat (map (\<lambda>x. if x = c then new else [x]) s)"

definition SanitizeForLog :: "string \<Rightarrow> string" where
  "SanitizeForLog s =
     (let s1 = replace_char (CHR 0x0A) '' '' s;
          s2 = replace_char (CHR 0x0D) '' '' s1;
          s3 = replace_char (CHR 0x09) '' '' s2
      in concat (map encode_rune (filter (\<lambda>r. 32 \<le> r) (runes s3))))"

fun remove_dotdot :: "string \<Rightarrow> string" where
  \<comment> \<open>\<open>strings.ReplaceAll(p, "..", "")\<close>\<close>
  "remove_dotdot (a # b # s) = (if a = CHR ''.'' \<and> b = CHR ''.'' then remove_dotdot s else a # remove_dotdot (b # s))"
| "remove_dotdot s = s"

definition SanitizePath :: "string \<Rightarrow> string" where
  "SanitizePath p =
     (let cleaned = replace_char (CHR 0x5C) [] (replace_char (CHR ''/'') [] (remove_dotdot p))
      in if cleaned = [] then ''invalid'' else cleaned)"

section \<open>Encryption at rest\<close>

record fernet =
  f_valid :: "string \<Rightarrow> bool"
  f_seal :: "string \<Rightarrow> nat \<Rightarrow> string \<Rightarrow> string option"
  f_open :: "string \<Rightarrow> string \<Rightarrow> string option"

text \<open>The key of the settings table, or a fresh one that is stored there.\<close>

definition getKey :: "fernet \<Rightarrow> string \<Rightarrow> db \<Rightarrow> string option \<times> db" where
  "getKey f fresh d =
     (case GetSetting ''fernet_key'' d of
        None \<Rightarrow> (Some fresh, SetSetting ''fernet_key'' fresh d)
      | Some k \<Rightarrow> if f_valid f k then (Some k, d) else (None, d))"

definition Encrypt :: "fernet \<Rightarrow> string \<Rightarrow> nat \<Rightarrow> string \<Rightarrow> db \<Rightarrow> string option \<times> db" where
  "Encrypt f fresh nonce plaintext d =
     (case getKey f fresh d of
        (None, d1) \<Rightarrow> (None, d1)
      | (Some k, d1) \<Rightarrow> (f_seal f k nonce plaintext, d1))"

definition Decrypt :: "fernet \<Rightarrow> string \<Rightarrow> string \<Rightarrow> db \<Rightarrow> string option \<times> db" where
  "Decrypt f fresh ciphertext d =
     (if ciphertext = [] then (Some [], d)
      else case getKey f fresh d of
             (None, d1) \<Rightarrow> (None, d1)
           | (Some k, d1) \<Rightarrow> (f_open f k ciphertext, d1))"

definition Mask :: "string \<Rightarrow> string" where
  "Mask value =
     (if value = [] then [] else if 4 < length value then ''****'' @ drop (length value - 4) value else ''****'')"

section \<open>Maps of strings as JSON columns\<close>

type_synonym smap = "(string \<times> string) list"

text \<open>\<open>json.Marshal\<close> of a string, and of a map with its keys sorted.\<close>

definition hex2 :: "nat \<Rightarrow> string" where
  "hex2 n = (let h = (\<lambda>k. if k < 10 then char_of (48 + k) else char_of (87 + k :: nat)) in [h (n div 16), h (n mod 16)])"

definition quote_ascii :: "char \<Rightarrow> string" where
  "quote_ascii c =
     (let b = byte c in
      if c = CHR 0x22 \<or> c = CHR 0x5C then [CHR 0x5C, c]
      else if b = 8 then [CHR 0x5C, CHR ''b''] else if b = 12 then [CHR 0x5C, CHR ''f'']
      else if b = 10 then [CHR 0x5C, CHR ''n''] else if b = 13 then [CHR 0x5C, CHR ''r'']
      else if b = 9 then [CHR 0x5C, CHR ''t'']
      else if b < 32 \<or> c = CHR ''<'' \<or> c = CHR ''>'' \<or> c = CHR ''&'' then [CHR 0x5C] @ ''u00'' @ hex2 b
      else [c])"

function quote_body :: "string \<Rightarrow> string" where
  "quote_body [] = []"
| "quote_body (c # s) =
     (if byte c < 0x80 then quote_ascii c @ quote_body s
      else let (r, w) = decode_rune (c # s) in
           (if r = 0xFFFD \<and> w = 1 then [CHR 0x5C] @ ''ufffd''
            else if r = 0x2028 then [CHR 0x5C] @ ''u2028''
            else if r = 0x2029 then [CHR 0x5C] @ ''u2029''
            else take w (c # s)) @ quote_body (drop w (c # s)))"
  by pat_completeness auto
termination
proof (relation "measure length")
  fix c s x r w assume "x = decode_rune (c # s)" "(r, w) = x"
  with decode_width [of "c # s"] have "0 < w" by (metis snd_conv)
  then show "(drop w (c # s), c # s) \<in> measure length" by simp
qed simp_all

definition json_quote :: "string \<Rightarrow> string" where
  "json_quote s = [CHR 0x22] @ quote_body s @ [CHR 0x22]"

fun comma_members :: "smap \<Rightarrow> string" where
  "comma_members [] = []"
| "comma_members [(k, v)] = json_quote k @ '':'' @ json_quote v"
| "comma_members ((k, v) # ms) = json_quote k @ '':'' @ json_quote v @ '','' @ comma_members ms"

definition marshal_smap :: "smap \<Rightarrow> string" where
  "marshal_smap m = ''{'' @ comma_members (sort_key fst m) @ ''}''"

text \<open>\<open>json.Unmarshal\<close> into a map of strings; \<open>None\<close> on an error, which a value of another type
  is, and for a nil map.\<close>

fun member_string :: "json \<Rightarrow> string option" where
  "member_string (JStr s) = Some s"
| "member_string JNull = Some []"
| "member_string _ = None"

definition unmarshal_smap :: "string \<Rightarrow> smap option" where
  "unmarshal_smap raw =
     (case json_parse raw of
        Some (JObj ms) \<Rightarrow>
          if list_all (\<lambda>(k, j). member_string j \<noteq> None) ms
          then Some (fold (\<lambda>(k, j). AList.update k (the (member_string j))) ms []) else None
      | _ \<Rightarrow> None)"

section \<open>Environment variables\<close>

text \<open>\<open>envvars.decode\<close> and \<open>decodeEncryptedEnvVarsJSON\<close> are the same function, as are the two
  decrypting ones and the two loaders.\<close>

definition decodeEncryptedEnvVarsJSON :: "string \<Rightarrow> smap" where
  "decodeEncryptedEnvVarsJSON raw =
     (if raw = [] \<or> raw = ''{}'' then [] else case unmarshal_smap raw of None \<Rightarrow> [] | Some m \<Rightarrow> m)"

definition decryptEnvVars :: "(string \<Rightarrow> string option) \<Rightarrow> smap \<Rightarrow> smap" where
  "decryptEnvVars dec encrypted =
     concat (map (\<lambda>(k, v). case dec v of None \<Rightarrow> [] | Some plain \<Rightarrow> [(k, plain)]) encrypted)"

definition LoadGlobalEnvVars :: "(string \<Rightarrow> string option) \<Rightarrow> db \<Rightarrow> smap" where
  "LoadGlobalEnvVars dec d =
     (case GetSetting ''default_env_vars'' d of
        None \<Rightarrow> []
      | Some raw \<Rightarrow> decryptEnvVars dec (decodeEncryptedEnvVarsJSON raw))"

definition LoadInstanceEnvVars :: "(string \<Rightarrow> string option) \<Rightarrow> string \<Rightarrow> smap" where
  \<comment> \<open>of the instance's \<open>EnvVars\<close> column\<close>
  "LoadInstanceEnvVars dec raw = decryptEnvVars dec (decodeEncryptedEnvVarsJSON raw)"

definition LoadGlobalEnvVarKeys :: "db \<Rightarrow> string list" where
  "LoadGlobalEnvVarKeys d =
     (case GetSetting ''default_env_vars'' d of
        None \<Rightarrow> []
      | Some raw \<Rightarrow> sort (map fst (decodeEncryptedEnvVarsJSON raw)))"

definition MergeUserEnvVars :: "smap \<Rightarrow> smap \<Rightarrow> smap \<Rightarrow> smap" where
  "MergeUserEnvVars target global instance_vars =
     fold (\<lambda>(k, v). AList.update k v) instance_vars (fold (\<lambda>(k, v). AList.update k v) global target)"

definition Merge :: "smap \<Rightarrow> smap \<Rightarrow> smap" where
  "Merge global instance_vars =
     fold (\<lambda>(k, v). AList.update k v) instance_vars (fold (\<lambda>(k, v). AList.update k v) global [])"

definition ReservedEnvVarNames :: "string list" where
  "ReservedEnvVarNames =
     [''OPENCLAW_GATEWAY_TOKEN'', ''CLAWORC_INSTANCE_ID'', ''OPENCLAW_INITIAL_MODELS'', ''OPENCLAW_INITIAL_PROVIDERS'']"

datatype env_error = Bad_name string | Reserved_name string | Encrypt_error string

definition name_start :: "char \<Rightarrow> bool" where
  "name_start c \<longleftrightarrow> (65 \<le> byte c \<and> byte c \<le> 90) \<or> c = CHR ''_''"

definition name_char :: "char \<Rightarrow> bool" where
  "name_char c \<longleftrightarrow> name_start c \<or> (48 \<le> byte c \<and> byte c \<le> 57)"

definition ValidateEnvVarName :: "string \<Rightarrow> env_error option" where
  "ValidateEnvVarName name =
     (if \<not> (name \<noteq> [] \<and> name_start (hd name) \<and> list_all name_char (tl name)) then Some (Bad_name name)
      else if name \<in> set ReservedEnvVarNames then Some (Reserved_name name) else None)"

text \<open>The token of each value depends on the draw the library makes for it: the cipher gets the name too.\<close>

fun encrypt_all :: "(string \<Rightarrow> string \<Rightarrow> string option) \<Rightarrow> smap \<Rightarrow> env_error + smap" where
  "encrypt_all enc [] = Inr []"
| "encrypt_all enc ((k, v) # m) =
     (case enc k v of
        None \<Rightarrow> Inl (Encrypt_error k)
      | Some c \<Rightarrow> (case encrypt_all enc m of Inl e \<Rightarrow> Inl e | Inr cs \<Rightarrow> Inr ((k, c) # cs)))"

definition encodeEncryptedEnvVars :: "(string \<Rightarrow> string \<Rightarrow> string option) \<Rightarrow> smap \<Rightarrow> env_error + string" where
  "encodeEncryptedEnvVars enc plain =
     (if plain = [] then Inr ''{}''
      else case encrypt_all enc plain of Inl e \<Rightarrow> Inl e | Inr cs \<Rightarrow> Inr (marshal_smap cs))"

definition same_map :: "smap \<Rightarrow> smap \<Rightarrow> bool" where
  \<comment> \<open>\<open>reflect.DeepEqual\<close>\<close>
  "same_map a b \<longleftrightarrow> list_all (\<lambda>k. map_of a k = map_of b k) (map fst a @ map fst b)"

definition ApplyEnvVarsDelta ::
    "(string \<Rightarrow> string \<Rightarrow> string option) \<Rightarrow> (string \<Rightarrow> string option) \<Rightarrow> string \<Rightarrow> smap \<Rightarrow> string list
       \<Rightarrow> env_error + (string \<times> bool)" where
  "ApplyEnvVarsDelta enc dec existing set_vars unset =
     (case List.find (\<lambda>e. e \<noteq> None) (map ValidateEnvVarName (map fst set_vars @ unset)) of
        Some e \<Rightarrow> Inl (the e)
      | None \<Rightarrow>
          let existingPlain = decryptEnvVars dec (decodeEncryptedEnvVarsJSON existing);
              newPlain = fold AList.delete unset (fold (\<lambda>(k, v). AList.update k v) set_vars existingPlain)
          in if same_map existingPlain newPlain then Inr (existing, False)
             else case encodeEncryptedEnvVars enc newPlain of
                    Inl e \<Rightarrow> Inl e
                  | Inr encoded \<Rightarrow> Inr (encoded, True))"

definition UpsertEncryptedEnvVarsJSON ::
    "(string \<Rightarrow> string \<Rightarrow> string option) \<Rightarrow> (string \<Rightarrow> string option) \<Rightarrow> string \<Rightarrow> smap \<Rightarrow> string list \<Rightarrow> env_error + string" where
  "UpsertEncryptedEnvVarsJSON enc dec existing set_vars unset =
     (case ApplyEnvVarsDelta enc dec existing set_vars unset of Inl e \<Rightarrow> Inl e | Inr (encoded, _) \<Rightarrow> Inr encoded)"

definition EnvVarsForResponse :: "(string \<Rightarrow> string option) \<Rightarrow> string \<Rightarrow> smap" where
  "EnvVarsForResponse dec storedJSON = decryptEnvVars dec (decodeEncryptedEnvVarsJSON storedJSON)"

section \<open>Columns read back\<close>

text \<open>Characters that JSON text carries as they are; the tokens of the cipher and the names of variables
  consist of them.\<close>

definition json_plain :: "char \<Rightarrow> bool" where
  "json_plain c \<longleftrightarrow> 32 \<le> byte c \<and> byte c < 127 \<and> c \<notin> {CHR 0x22, CHR 0x5C, CHR ''<'', CHR ''>'', CHR ''&''}"

abbreviation plain_text :: "string \<Rightarrow> bool" where
  "plain_text s \<equiv> list_all json_plain s"

lemma json_plain_ascii: "json_plain c \<Longrightarrow> byte c < 128"
  by (simp add: json_plain_def)

lemma quote_body_plain: "plain_text s \<Longrightarrow> quote_body s = s"
  by (induction s) (simp_all add: json_plain_def quote_ascii_def Let_def)

lemma string_body_plain: "plain_text s \<Longrightarrow> string_body (s @ CHR 0x22 # rest) = Some (s, rest)"
  by (induction s) (simp_all add: json_plain_def next_char_def)

lemma to_valid_utf8_plain: "plain_text s \<Longrightarrow> to_valid_utf8 s = s"
proof -
  assume s: "plain_text s"
  then have "list_all (\<lambda>c. byte c < 128) s" by (induction s) (simp_all add: json_plain_ascii)
  then have "runes s = map byte s" by (rule runes_ascii)
  moreover have "concat (map (encode_rune \<circ> byte) s) = s"
    using s by (induction s) (simp_all add: json_plain_ascii encode_ascii, simp add: byte_def)
  ultimately show ?thesis by (simp add: to_valid_utf8_def)
qed

lemma quoted_value: "plain_text v \<Longrightarrow> json_quote v @ rest = CHR 0x22 # v @ CHR 0x22 # rest"
  by (simp add: json_quote_def quote_body_plain)

lemma skip_ws_nonblank: "\<not> json_ws c \<Longrightarrow> skip_ws (c # s) = c # s"
  by (simp add: skip_ws_def)

lemma json_delims [simp]: "\<not> json_ws (CHR 0x22)" "\<not> json_ws (CHR '':'')" "\<not> json_ws (CHR '','')"
  "\<not> json_ws (CHR ''}'')" "\<not> json_ws (CHR ''{'')"
  by (simp_all add: json_ws_def)

lemma parse_quoted: "plain_text v \<Longrightarrow> parse_value (Suc n) d (json_quote v @ rest) = Some (JStr v, rest)"
  by (simp add: quoted_value skip_ws_nonblank string_body_plain to_valid_utf8_plain)

lemma parse_members_step:
  assumes "skip_ws s = CHR 0x22 # r0" "string_body r0 = Some (k, q0)" "skip_ws q0 = CHR '':'' # q1"
    and "parse_value n d q1 = Some (v, q)" "skip_ws q = c # r"
  shows "parse_members (Suc n) d s =
    (if c = CHR '','' then map_option (\<lambda>(ms, q1). ((to_valid_utf8 k, v) # ms, q1)) (parse_members n d r)
     else if c = CHR ''}'' then Some ([(to_valid_utf8 k, v)], r) else None)"
  using assms by (simp add: has_prefix_def)

lemma parse_member_text:
  assumes "plain_text k" "plain_text v" "\<not> json_ws c"
  shows "parse_members (Suc (Suc n)) d (json_quote k @ CHR '':'' # json_quote v @ c # r) =
    (if c = CHR '','' then map_option (\<lambda>(ms, q1). ((k, JStr v) # ms, q1)) (parse_members (Suc n) d r)
     else if c = CHR ''}'' then Some ([(k, JStr v)], r) else None)"
proof -
  have k: "skip_ws (json_quote k @ CHR '':'' # json_quote v @ c # r) = CHR 0x22 # k @ CHR 0x22 # CHR '':'' # json_quote v @ c # r"
    unfolding quoted_value [OF assms(1)] by (rule skip_ws_nonblank) simp
  show ?thesis
    using parse_members_step [OF k string_body_plain [OF assms(1)] skip_ws_nonblank
        parse_quoted [OF assms(2)] skip_ws_nonblank [OF assms(3)], of n d]
    by (simp only: to_valid_utf8_plain [OF assms(1)] json_delims simp_thms)
qed

lemma parse_members_text:
  "ms \<noteq> [] \<Longrightarrow> list_all (\<lambda>(k, v). plain_text k \<and> plain_text v) ms \<Longrightarrow> 2 * length ms \<le> n \<Longrightarrow>
   parse_members n d (comma_members ms @ ''}'') = Some (map (\<lambda>(k, v). (k, JStr v)) ms, [])"
proof (induction ms arbitrary: n rule: comma_members.induct)
  case (2 k v)
  then obtain m where "n = Suc (Suc m)" by (cases n; cases "n - 1") auto
  with 2 show ?case using parse_member_text [of k v "CHR ''}''" m d "[]"] by (simp del: parse_members.simps)
next
  case (3 k v m ms)
  then obtain n' where n: "n = Suc (Suc n')" by (cases n; cases "n - 1") auto
  have "parse_members (Suc n') d (comma_members (m # ms) @ ''}'') = Some (map (\<lambda>(k, v). (k, JStr v)) (m # ms), [])"
    using "3.prems" n by (intro "3.IH") auto
  with 3 n show ?case
    using parse_member_text [of k v "CHR '',''" n' d "comma_members (m # ms) @ ''}''"]
    by (simp del: parse_members.simps comma_members.simps(2,3) add: comma_members.simps(3) [of k v])
qed simp

lemma comma_members_length: "2 * length ms \<le> length (comma_members ms)"
  by (induction ms rule: comma_members.induct) (simp_all add: json_quote_def)

lemma comma_members_first: "ms \<noteq> [] \<Longrightarrow> \<exists>r. comma_members ms = CHR 0x22 # r"
  by (cases ms rule: comma_members.cases) (simp_all add: json_quote_def)

lemma parse_value_object:
  assumes "skip_ws s = CHR ''{'' # r" "\<not> has_prefix (skip_ws r) ''}''" "parse_members k d r = Some (ms, q)"
  shows "parse_value (Suc k) (Suc d) s = Some (JObj ms, q)"
  using assms by (simp del: parse_members.simps)

lemma parse_marshalled:
  assumes "m \<noteq> []" "list_all (\<lambda>(k, v). plain_text k \<and> plain_text v) m"
  shows "json_parse (marshal_smap m) = Some (JObj (map (\<lambda>(k, v). (k, JStr v)) (sort_key fst m)))"
proof -
  let ?ms = "sort_key fst m" and ?n = "2 * length (marshal_smap m) + 1"
  have ms: "?ms \<noteq> []" "list_all (\<lambda>(k, v). plain_text k \<and> plain_text v) ?ms"
    using assms by (auto simp: list_all_iff simp flip: set_empty)
  obtain r where r: "comma_members ?ms = CHR 0x22 # r" using comma_members_first [OF ms(1)] by blast
  have "parse_members ?n 9999 (comma_members ?ms @ ''}'') = Some (map (\<lambda>(k, v). (k, JStr v)) ?ms, [])"
    using ms comma_members_length [of ?ms] by (intro parse_members_text) (auto simp: marshal_smap_def)
  moreover have "skip_ws (marshal_smap m) = CHR ''{'' # comma_members ?ms @ ''}''"
    by (simp add: marshal_smap_def skip_ws_nonblank)
  moreover have "\<not> has_prefix (skip_ws (comma_members ?ms @ ''}'')) ''}''"
    by (simp add: r skip_ws_nonblank has_prefix_def)
  ultimately have v: "parse_value (Suc ?n) (Suc 9999) (marshal_smap m)
      = Some (JObj (map (\<lambda>(k, v). (k, JStr v)) ?ms), [])"
    by (intro parse_value_object) simp_all
  have n: "2 * length (marshal_smap m) + 2 = Suc ?n" "10000 = Suc 9999" by simp_all
  show ?thesis unfolding json_parse_def n v by (simp add: skip_ws_def)
qed

lemma fold_update_fresh:
  "distinct (map fst (acc @ ms)) \<Longrightarrow> fold (\<lambda>(k, v). AList.update k v) ms acc = acc @ ms"
proof (induction ms arbitrary: acc)
  case (Cons m ms)
  obtain k v where m: "m = (k, v)" by (cases m)
  have "AList.update k v acc = acc @ [(k, v)]"
    using Cons.prems m by (induction acc) auto
  with Cons m show ?case by simp
qed simp

lemma unmarshal_marshal_smap:
  assumes "m \<noteq> []" "list_all (\<lambda>(k, v). plain_text k \<and> plain_text v) m" "distinct (map fst m)"
  shows "unmarshal_smap (marshal_smap m) = Some (sort_key fst m)"
proof -
  let ?ms = "sort_key fst m"
  have d: "distinct (map fst ?ms)" using assms(3) by (simp add: distinct_map)
  have "fold (\<lambda>(k, j). AList.update k (the (member_string j))) (map (\<lambda>(k, v). (k, JStr v)) ms) acc
      = fold (\<lambda>(k, v). AList.update k v) ms acc" for ms :: smap and acc
    by (induction ms arbitrary: acc) auto
  with fold_update_fresh [of "[]" ?ms] d show ?thesis
    by (simp add: unmarshal_smap_def parse_marshalled [OF assms(1,2)] list_all_iff case_prod_beta)
qed

section \<open>What an update stores\<close>

lemma distinct_fold_update:
  "distinct (map fst acc) \<Longrightarrow> distinct (map fst (fold (\<lambda>(k, j). AList.update k (f j)) ms acc))"
  by (induction ms arbitrary: acc) (auto simp: distinct_update)

lemma distinct_decoded: "distinct (map fst (decodeEncryptedEnvVarsJSON raw))"
proof (cases "unmarshal_smap raw")
  case (Some m)
  then have "distinct (map fst m)"
    by (auto simp: unmarshal_smap_def distinct_fold_update split: option.splits json.splits if_splits)
  with Some show ?thesis by (simp add: decodeEncryptedEnvVarsJSON_def)
qed (simp add: decodeEncryptedEnvVarsJSON_def)

lemma decrypt_simps [simp]:
  "decryptEnvVars dec [] = []"
  "decryptEnvVars dec ((k, v) # m) =
     (case dec v of None \<Rightarrow> decryptEnvVars dec m | Some plain \<Rightarrow> (k, plain) # decryptEnvVars dec m)"
  by (simp_all add: decryptEnvVars_def split: option.split)

lemma decrypt_keys: "fst ` set (decryptEnvVars dec m) \<subseteq> fst ` set m"
proof (induction m)
  case (Cons x m)
  then show ?case by (cases x; cases "dec (snd x)") auto
qed simp

lemma decrypt_distinct: "distinct (map fst m) \<Longrightarrow> distinct (map fst (decryptEnvVars dec m))"
proof (induction m)
  case (Cons x m)
  then have "fst x \<notin> fst ` set (decryptEnvVars dec m)" using decrypt_keys [of dec m] by auto
  with Cons show ?case by (cases x) (simp split: option.split)
qed simp

lemma decrypt_encrypt:
  assumes "\<And>k v c. enc k v = Some c \<Longrightarrow> dec c = Some v" "encrypt_all enc m = Inr cs"
  shows "decryptEnvVars dec cs = m \<and> map fst cs = map fst m"
  using assms(2)
proof (induction m arbitrary: cs)
  case (Cons x m)
  then show ?case
    using assms(1) by (cases x) (auto split: option.splits sum.splits)
qed simp

lemma encrypt_all_plain:
  assumes "\<And>k v c. enc k v = Some c \<Longrightarrow> plain_text c" "encrypt_all enc m = Inr cs"
  shows "list_all (\<lambda>(k, c). plain_text c) cs"
  using assms(2)
proof (induction m arbitrary: cs)
  case (Cons x m)
  then show ?case using assms(1) by (cases x) (auto split: option.splits sum.splits)
qed simp

lemma decrypt_map_of:
  "distinct (map fst m) \<Longrightarrow> map_of (decryptEnvVars dec m) k = Option.bind (map_of m k) dec"
proof (induction m)
  case (Cons x m)
  have none: "map_of m (fst x) = None" using Cons.prems by (simp add: map_of_eq_None_iff)
  show ?case using Cons none
    by (cases x) (auto split: option.splits)
qed simp

lemma map_of_sort_key: "distinct (map fst m) \<Longrightarrow> map_of (sort_key fst m) = map_of m"
proof -
  assume d: "distinct (map fst m)"
  have "distinct (map fst (sort_key fst m))" using d by (simp add: distinct_map)
  with d show ?thesis by (intro map_of_inject_set [THEN iffD2]) simp_all
qed

lemma encoded_reads_back:
  assumes cipher: "\<And>k v c. enc k v = Some c \<Longrightarrow> dec c = Some v \<and> plain_text c"
    and "distinct (map fst m)" "list_all (\<lambda>(k, v). plain_text k) m" "encodeEncryptedEnvVars enc m = Inr raw"
  shows "map_of (EnvVarsForResponse dec raw) = map_of m"
proof (cases "m = []")
  case True
  with assms(4) show ?thesis
    by (simp add: encodeEncryptedEnvVars_def EnvVarsForResponse_def decodeEncryptedEnvVarsJSON_def)
next
  case False
  with assms(4) obtain cs where cs: "encrypt_all enc m = Inr cs" "raw = marshal_smap cs"
    by (auto simp: encodeEncryptedEnvVars_def split: sum.splits)
  have dec: "decryptEnvVars dec cs = m" "map fst cs = map fst m"
    using decrypt_encrypt [OF _ cs(1), of dec] cipher by blast+
  have keys: "list_all (\<lambda>(k, c). plain_text k) cs"
  proof -
    have "list_all plain_text (map fst m)" using assms(3) by (simp add: list_all_iff case_prod_beta)
    then show ?thesis using dec(2) by (metis (mono_tags, lifting) case_prod_beta list.pred_map list_all_iff comp_apply)
  qed
  have plain: "list_all (\<lambda>(k, v). plain_text k \<and> plain_text v) cs"
    using keys encrypt_all_plain [OF _ cs(1)] cipher by (fastforce simp: list_all_iff)
  have ne: "cs \<noteq> []" using False dec(2) by auto
  have d: "distinct (map fst cs)" using assms(2) dec(2) by simp
  obtain r where "marshal_smap cs = CHR ''{'' # CHR 0x22 # r"
    using comma_members_first [of "sort_key fst cs"] ne
    by (auto simp: marshal_smap_def simp flip: set_empty)
  then have "decodeEncryptedEnvVarsJSON raw = sort_key fst cs"
    using unmarshal_marshal_smap [OF ne plain d] by (simp add: decodeEncryptedEnvVarsJSON_def cs(2))
  then show ?thesis
    using d dec(1) map_of_sort_key [OF d]
    by (simp add: EnvVarsForResponse_def fun_eq_iff decrypt_map_of distinct_map)
       (metis d decrypt_map_of)
qed

lemma fold_update_map_of: "map_of (fold (\<lambda>(k, v). AList.update k v) ms acc) = map_of acc ++ map_of (rev ms)"
  by (induction ms arbitrary: acc) (auto simp: AList.update_conv' map_add_upds fun_eq_iff map_add_def split: option.splits)

lemma fold_delete_map_of: "map_of (fold AList.delete ks acc) = (map_of acc) |` (- set ks)"
  by (induction ks arbitrary: acc) (auto simp: AList.delete_conv' restrict_map_def fun_eq_iff)

lemma fold_delete_keys: "fst ` set (fold AList.delete ks acc) \<subseteq> fst ` set acc"
proof (induction ks arbitrary: acc)
  case (Cons k ks)
  have "fst ` set (fold AList.delete ks (AList.delete k acc)) \<subseteq> fst ` set (AList.delete k acc)" by (rule Cons)
  also have "\<dots> \<subseteq> fst ` set acc" by (auto simp: AList.delete_eq)
  finally show ?case by simp
qed simp

lemma fold_delete_distinct: "distinct (map fst acc) \<Longrightarrow> distinct (map fst (fold AList.delete ks acc))"
  by (induction ks arbitrary: acc) (auto simp: AList.distinct_delete)

lemma fold_update_keys: "fst ` set (fold (\<lambda>(k, v). AList.update k v) ms acc) = fst ` set acc \<union> fst ` set ms"
proof (induction ms arbitrary: acc)
  case (Cons m ms)
  then show ?case by (cases m) (simp add: dom_update)
qed simp

lemma same_map_iff: "same_map a b \<longleftrightarrow> map_of a = map_of b"
proof
  assume ab: "same_map a b"
  show "map_of a = map_of b"
  proof
    fix k show "map_of a k = map_of b k"
      using ab by (cases "k \<in> fst ` set a \<or> k \<in> fst ` set b")
        (auto simp: same_map_def list_all_iff map_of_eq_None_iff [symmetric])
  qed
qed (simp add: same_map_def list_all_iff)

lemma name_plain: "ValidateEnvVarName k = None \<Longrightarrow> plain_text k"
proof -
  have c: "name_char c \<Longrightarrow> json_plain c" for c by (auto simp: name_char_def name_start_def json_plain_def byte_def)
  assume "ValidateEnvVarName k = None"
  then have "k \<noteq> []" "name_start (hd k)" "list_all name_char (tl k)"
    by (auto simp: ValidateEnvVarName_def split: if_splits)
  then show ?thesis using c by (cases k) (auto simp: name_char_def list_all_iff)
qed

text \<open>C36: An update of stored variables does what was asked and nothing else: reading the new column back gives
  the old variables with the given ones set and the named ones gone; the change flag tells exactly whether that
  differs from before, and without a change the column is left as it was.\<close>

theorem env_delta_exact:
  assumes cipher: "\<And>k v c. enc k v = Some c \<Longrightarrow> dec c = Some v \<and> plain_text c"
    and names: "list_all (\<lambda>(k, c). plain_text k) (decodeEncryptedEnvVarsJSON existing)"
    and set_vars: "distinct (map fst set_vars)"
    and ok: "ApplyEnvVarsDelta enc dec existing set_vars unset = Inr (stored, changed)"
  shows "map_of (EnvVarsForResponse dec stored)
       = (map_of (EnvVarsForResponse dec existing) ++ map_of set_vars) |` (- set unset)
     \<and> changed = (map_of (EnvVarsForResponse dec stored) \<noteq> map_of (EnvVarsForResponse dec existing))
     \<and> (if changed then True else stored = existing)"
proof -
  define old where "old = decryptEnvVars dec (decodeEncryptedEnvVarsJSON existing)"
  define new where "new = fold AList.delete unset (fold (\<lambda>(k, v). AList.update k v) set_vars old)"
  have old: "EnvVarsForResponse dec existing = old" by (simp add: EnvVarsForResponse_def old_def)
  have valid: "list_all (\<lambda>k. ValidateEnvVarName k = None) (map fst set_vars @ unset)"
    using ok by (auto simp: ApplyEnvVarsDelta_def find_None_iff list_all_iff split: option.splits)
  have "map_of (rev set_vars) = map_of set_vars"
    using set_vars by (simp add: map_of_inject_set rev_map distinct_map)
  then have map_new: "map_of new = (map_of old ++ map_of set_vars) |` (- set unset)"
    by (simp add: new_def fold_delete_map_of fold_update_map_of)
  have "distinct (map fst old)" by (simp add: old_def decrypt_distinct distinct_decoded)
  then have distinct_new: "distinct (map fst new)"
    unfolding new_def using distinct_fold_update [of old "\<lambda>v. v" set_vars] by (intro fold_delete_distinct) simp
  have old_keys: "fst ` set old \<subseteq> fst ` set (decodeEncryptedEnvVarsJSON existing)"
    unfolding old_def by (rule decrypt_keys)
  have new_keys: "fst ` set new \<subseteq> fst ` set old \<union> fst ` set set_vars"
    unfolding new_def fold_update_keys [of set_vars old, symmetric] by (rule fold_delete_keys)
  have "plain_text k" if "k \<in> fst ` set new" for k
  proof -
    from that new_keys old_keys consider "k \<in> fst ` set (decodeEncryptedEnvVarsJSON existing)" | "k \<in> fst ` set set_vars"
      by blast
    then show ?thesis
    proof cases
      case 1
      with names show ?thesis by (auto simp: list_all_iff)
    next
      case 2
      with valid have "ValidateEnvVarName k = None" by (auto simp: list_all_iff)
      then show ?thesis by (rule name_plain)
    qed
  qed
  then have plain_new: "list_all (\<lambda>(k, v). plain_text k) new"
    unfolding list_all_iff [of "\<lambda>(k, v). plain_text k"] by force
  have "map_of (EnvVarsForResponse dec stored) = map_of new \<and> changed = (map_of new \<noteq> map_of old)
      \<and> (if changed then True else stored = existing)"
  proof (cases "same_map old new")
    case True
    with ok have "stored = existing" "\<not> changed"
      by (auto simp: ApplyEnvVarsDelta_def old_def [symmetric] new_def [symmetric] Let_def split: option.splits)
    with True old show ?thesis by (simp add: same_map_iff)
  next
    case False
    with ok have "encodeEncryptedEnvVars enc new = Inr stored" "changed"
      by (auto simp: ApplyEnvVarsDelta_def old_def [symmetric] new_def [symmetric] Let_def split: option.splits sum.splits)
    with False encoded_reads_back [OF cipher distinct_new plain_new] show ?thesis by (auto simp: same_map_iff)
  qed
  with map_new old show ?thesis by simp
qed

text \<open>A cipher for the witness: it seals plain text only, with a mark.\<close>

definition demo_seal :: "string \<Rightarrow> string \<Rightarrow> string option" where
  "demo_seal k v = (if plain_text v then Some (''t:'' @ v) else None)"

definition demo_open :: "string \<Rightarrow> string option" where
  "demo_open c = (if has_prefix c ''t:'' then Some (drop 2 c) else None)"

lemma demo_cipher: "demo_seal k v = Some c \<Longrightarrow> demo_open c = Some v \<and> plain_text c"
  by (auto simp: demo_seal_def demo_open_def has_prefix_def json_plain_def byte_def split: if_splits)

definition demo_column :: string where
  "demo_column = jtext ''{~A~:~t:1~,~B~:~t:2~}''"

theorem env_delta_exact_witness:
  "\<exists>stored. ApplyEnvVarsDelta demo_seal demo_open demo_column [(''C'', ''3'')] [''A''] = Inr (stored, True)
     \<and> map_of (EnvVarsForResponse demo_open stored)
       = (map_of (EnvVarsForResponse demo_open demo_column) ++ map_of [(''C'', ''3'')]) |` (- set [''A''])"
proof -
  have col: "decodeEncryptedEnvVarsJSON demo_column = [(''A'', ''t:1''), (''B'', ''t:2'')]" by code_simp
  have names: "list_all (\<lambda>(k, c). plain_text k) (decodeEncryptedEnvVarsJSON demo_column)"
    by (simp add: col json_plain_def byte_def)
  have delta: "ApplyEnvVarsDelta demo_seal demo_open demo_column [(''C'', ''3'')] [''A'']
      = Inr (jtext ''{~B~:~t:2~,~C~:~t:3~}'', True)"
    by code_simp
  show ?thesis
    using env_delta_exact [where enc = demo_seal and dec = demo_open, OF demo_cipher names _ delta] delta by auto
qed

section \<open>Precedence, names and logs\<close>

text \<open>Variables of the instance win over global ones, and both over what was in the target.\<close>

theorem env_precedence:
  assumes "distinct (map fst global)" "distinct (map fst own)"
  shows "map_of (MergeUserEnvVars target global own) = map_of target ++ map_of global ++ map_of own
     \<and> map_of (Merge global own) = map_of global ++ map_of own"
proof -
  have "map_of (rev m) = map_of m" if "distinct (map fst m)" for m :: smap
    using that by (simp add: map_of_inject_set rev_map distinct_map)
  with assms show ?thesis by (simp add: MergeUserEnvVars_def Merge_def fold_update_map_of)
qed

theorem env_precedence_witness:
  "map_of (MergeUserEnvVars [(''HOME'', ''/'')] [(''A'', ''1''), (''B'', ''2'')] [(''B'', ''3'')])
     = map_of [(''HOME'', ''/'')] ++ map_of [(''A'', ''1''), (''B'', ''2'')] ++ map_of [(''B'', ''3'')]
   \<and> map_of (Merge [(''A'', ''1''), (''B'', ''2'')] [(''B'', ''3'')])
     = map_of [(''A'', ''1''), (''B'', ''2'')] ++ map_of [(''B'', ''3'')]"
  by (rule env_precedence) simp_all

text \<open>A line written through \<open>SanitizeForLog\<close> has no control character below the space, so it cannot
  start another line.\<close>

theorem log_text_one_line: "list_all (\<lambda>c. 32 \<le> byte c) (SanitizeForLog s)"
proof -
  have "32 \<le> byte c" if "32 \<le> r" "c \<in> set (encode_rune r)" for r c
    using that encode_ascii [of r] encode_high [of r c] by (cases "r < 128") auto
  then show ?thesis by (auto simp: SanitizeForLog_def Let_def list_all_iff)
qed

text \<open>A value sealed with the key of the settings table, which is created at the first use, opens again, also
  after later settings changes that leave the key.\<close>

theorem encrypt_decrypt:
  assumes "f_valid f fresh" "\<And>k n p c. f_seal f k n p = Some c \<Longrightarrow> c \<noteq> [] \<and> f_open f k c = Some p"
    and "Encrypt f fresh nonce plaintext d = (Some c, d1)" "settings d2 ''fernet_key'' = settings d1 ''fernet_key''"
  shows "Decrypt f fresh' c d2 = (Some plaintext, d2)"
  using assms
  by (auto simp: Encrypt_def Decrypt_def getKey_def GetSetting_def SetSetting_def upsertSetting_def
      split: option.splits if_splits)

end
