(* ===== verification/Backups.thy ===== *)
theory Backups imports Web Tables EnvVars Tasks ShellText begin

text \<open>
  \<^verbatim>\<open>control-plane/internal/backup\<close> (backup.go, cleanup.go, retention.go, scheduler.go), the
  backup queries of \<^verbatim>\<open>internal/database/database.go\<close> and the handlers of
  \<^verbatim>\<open>internal/handlers/backups.go\<close> and \<^verbatim>\<open>backup_schedules.go\<close>.

  The state is the database, the archive files (by their path under the backup directory, with their
  size), the task manager of \<open>Tasks\<close> and the running backup jobs.  A job is the goroutine of a
  backup's task between the points where others can act: before the archive is created, while tar's
  output streams into it, and before the row is completed.  The container backend's answers, the
  file system's failures, the clock, new task ids and the cron library are arguments.
\<close>

section \<open>Paths and the archive command\<close>

definition defaultExclusions :: "string list" where
  "defaultExclusions =
     [''/proc'', ''/sys'', ''/dev'', ''/tmp'', ''/run'', ''/dev/shm'', ''/var/cache/apt'', ''/var/lib/apt/lists'',
      ''/var/log/journal'']"

definition pathAliases :: "string \<rightharpoonup> string" where
  "pathAliases = [''HOME'' \<mapsto> ''/home/claworc'', ''Homebrew'' \<mapsto> ''/home/linuxbrew/.linuxbrew'']"

definition ResolvePaths :: "string list \<Rightarrow> string list" where
  "ResolvePaths aliases =
     (let named = filter (\<lambda>a. a \<noteq> []) (map trim_space aliases);
          resolved = map (\<lambda>a. case pathAliases a of Some m \<Rightarrow> m | None \<Rightarrow> a) named
      in if resolved = [] then [''/home/claworc''] else resolved)"

fun join_with_blank :: "string list \<Rightarrow> string" where
  \<comment> \<open>\<open>strings.Join(args, " ")\<close>\<close>
  "join_with_blank [] = []"
| "join_with_blank [a] = a"
| "join_with_blank (a # b # as) = a @ '' '' @ join_with_blank (b # as)"

definition buildTarCommand :: "string list \<Rightarrow> string list" where
  "buildTarCommand paths =
     (let args = [''tar'', ''-cf'', ''-''] @ map (\<lambda>e. ''--exclude='' @ e) defaultExclusions @ paths
      in [''sh'', ''-c'', join_with_blank args @ '' 2>/dev/null; exit 0''])"

section \<open>State\<close>

datatype stage = Opening | Streaming | Closing | Returned "string option"

record job =
  j_tid :: string
  j_backup :: nat
  j_path :: string
  j_paths :: "string list"
  j_stage :: stage

record backup_state =
  bw_db :: db
  bw_files :: "string \<rightharpoonup> int"
  bw_tm :: TaskManager
  bw_jobs :: "job list"
  bw_cleanup :: "string \<rightharpoonup> nat \<times> string"

section \<open>Queries\<close>

definition GetBackup :: "nat \<Rightarrow> db \<Rightarrow> Backup option" where
  "GetBackup i d = first_row backups bk_ID i d"

definition newest_first :: "('r \<Rightarrow> gtime) \<Rightarrow> 'r list \<Rightarrow> 'r list" where
  \<comment> \<open>\<open>Order("created_at DESC")\<close>\<close>
  "newest_first created rs = sort_key (\<lambda>r. - created r) rs"

definition ListBackups :: "nat \<Rightarrow> db \<Rightarrow> Backup list" where
  "ListBackups i d = newest_first bk_CreatedAt (filter (\<lambda>b. bk_InstanceID b = i) (backups d))"

definition ListAllBackupsPaginated ::
    "int \<Rightarrow> int \<Rightarrow> string \<Rightarrow> nat \<Rightarrow> bool \<Rightarrow> db \<Rightarrow> Backup list \<times> nat" where
  "ListAllBackupsPaginated limit0 offset0 instName userID isAdmin d =
     (let limit1 = (if limit0 \<le> 0 then 50 else limit0);
          limit = (if 100 < limit1 then 100 else limit1);
          offset = (if offset0 < 0 then 0 else offset0);
          q1 = (if instName \<noteq> [] then filter (\<lambda>b. bk_InstanceName b = instName) (backups d) else backups d);
          q2 = (if isAdmin then q1
                else filter (\<lambda>b. \<exists>g \<in> set (user_instances d). ui_UserID g = userID \<and> ui_InstanceID g = bk_InstanceID b) q1)
      in (take (nat limit) (drop (nat offset) (newest_first bk_CreatedAt q2)), length q2))"

definition db_UpdateBackup :: "nat \<Rightarrow> (Backup \<Rightarrow> Backup) \<Rightarrow> db \<Rightarrow> db" where
  "db_UpdateBackup i f d = update_row backups_update bk_ID i f d"

definition DeleteBackupRecord :: "nat \<Rightarrow> db \<Rightarrow> db" where
  "DeleteBackupRecord i d = delete_row backups_update bk_ID i d"

definition GetBackupSchedule :: "nat \<Rightarrow> db \<Rightarrow> BackupSchedule option" where
  "GetBackupSchedule i d = first_row backup_schedules bs_ID i d"

definition db_ListBackupSchedules :: "db \<Rightarrow> BackupSchedule list" where
  "db_ListBackupSchedules d = newest_first bs_CreatedAt (backup_schedules d)"

definition ListDueSchedules :: "gtime \<Rightarrow> db \<Rightarrow> BackupSchedule list" where
  "ListDueSchedules now d =
     filter (\<lambda>s. case bs_NextRunAt s of None \<Rightarrow> False | Some t \<Rightarrow> t \<le> now) (backup_schedules d)"

definition db_UpdateBackupSchedule :: "nat \<Rightarrow> (BackupSchedule \<Rightarrow> BackupSchedule) \<Rightarrow> db \<Rightarrow> db" where
  "db_UpdateBackupSchedule i f d = update_row backup_schedules_update bs_ID i f d"

section \<open>A backup's life\<close>

definition backup_path :: "string \<Rightarrow> nat \<Rightarrow> string \<Rightarrow> string" where
  "backup_path name i stamp = name @ ''/'' @ name @ ''-'' @ show_nat i @ ''-'' @ stamp @ ''.tar.gz''"

fun comma_strings :: "string list \<Rightarrow> string" where
  "comma_strings [] = []"
| "comma_strings [a] = json_quote a"
| "comma_strings (a # b # as) = json_quote a @ '','' @ comma_strings (b # as)"

definition marshal_strings :: "string list option \<Rightarrow> string" where
  \<comment> \<open>\<open>None\<close> is the nil slice\<close>
  "marshal_strings ss = (case ss of None \<Rightarrow> ''null'' | Some as \<Rightarrow> ''['' @ comma_strings as @ '']'')"

definition slice :: "string list option \<Rightarrow> string list" where
  "slice ss = (case ss of None \<Rightarrow> [] | Some as \<Rightarrow> as)"

text \<open>The arguments of a call that come from outside: the clock and its text in the file name, the new
  task id, and whether the directory could be made.\<close>

record create_env =
  ce_now :: gtime
  ce_stamp :: string
  ce_tid :: string
  ce_mkdir :: "string option"

definition TaskBackupCreate :: string where
  "TaskBackupCreate = ''backup.create''"

definition CreateFullBackup ::
    "create_env \<Rightarrow> string \<Rightarrow> nat \<Rightarrow> nat \<Rightarrow> string \<Rightarrow> string list option \<Rightarrow> backup_state \<Rightarrow> (string + nat) \<times> backup_state" where
  "CreateFullBackup e name instanceID userID note paths s =
     (case ce_mkdir e of
        Some msg \<Rightarrow> (Inl (''create backup dir: '' @ msg), s)
      | None \<Rightarrow>
          let resolvedPaths = ResolvePaths (slice paths);
              (i, d1) = create_row ''backups'' backups backups_update
                (\<lambda>i. \<lparr>bk_ID = i, bk_InstanceID = instanceID, bk_InstanceName = name, bk_Status = ''running'',
                     bk_FilePath = [], bk_Paths = marshal_strings paths, bk_SizeBytes = 0, bk_ErrorMessage = [],
                     bk_Note = note, bk_CreatedAt = ce_now e, bk_CompletedAt = None\<rparr>) (bw_db s);
              relPath = backup_path name i (ce_stamp e);
              d2 = db_UpdateBackup i (\<lambda>b. b\<lparr>bk_FilePath := relPath\<rparr>) d1;
              opts = \<lparr>so_Type = TaskBackupCreate, so_InstanceID = instanceID, so_UserID = userID,
                      so_ResourceID = show_nat i, so_ResourceName = name @ '' backup'',
                      so_Title = ''Backing up '' @ name, so_OnCancel = True\<rparr>
          in (Inr i, s\<lparr>bw_db := d2, bw_tm := Start (ce_now e) (ce_tid e) opts (bw_tm s),
                      bw_jobs := bw_jobs s @ [\<lparr>j_tid = ce_tid e, j_backup = i, j_path = relPath,
                                              j_paths = resolvedPaths, j_stage = Opening\<rparr>],
                      bw_cleanup := (bw_cleanup s)(ce_tid e \<mapsto> (i, relPath))\<rparr>))"

definition finishBackup :: "gtime \<Rightarrow> nat \<Rightarrow> int \<Rightarrow> string option \<Rightarrow> db \<Rightarrow> db" where
  "finishBackup now i sz err d =
     db_UpdateBackup i (\<lambda>b. b\<lparr>bk_Status := ''failed'', bk_SizeBytes := sz,
       bk_ErrorMessage := (case err of None \<Rightarrow> bk_ErrorMessage b | Some m \<Rightarrow> m), bk_CompletedAt := Some now\<rparr>) d"

definition backupOnCancel :: "gtime \<Rightarrow> nat \<Rightarrow> string \<Rightarrow> backup_state \<Rightarrow> backup_state" where
  "backupOnCancel now i path s =
     s\<lparr>bw_files := (bw_files s)(path := None),
       bw_db := db_UpdateBackup i (\<lambda>b. b\<lparr>bk_Status := ''canceled'', bk_ErrorMessage := ''canceled by user'',
                  bk_CompletedAt := Some now, bk_SizeBytes := 0\<rparr>) (bw_db s)\<rparr>"

definition job_of :: "string \<Rightarrow> backup_state \<Rightarrow> job option" where
  "job_of tid s = List.find (\<lambda>j. j_tid j = tid) (bw_jobs s)"

definition set_stage :: "string \<Rightarrow> stage \<Rightarrow> backup_state \<Rightarrow> backup_state" where
  "set_stage tid st s = s\<lparr>bw_jobs := map (\<lambda>j. if j_tid j = tid then j\<lparr>j_stage := st\<rparr> else j) (bw_jobs s)\<rparr>"

text \<open>The end of the task's function when \<open>runFullBackup\<close> fails: a cancelled task leaves the row alone.\<close>

definition job_failed :: "gtime \<Rightarrow> job \<Rightarrow> string \<Rightarrow> backup_state \<Rightarrow> backup_state" where
  "job_failed now j msg s =
     set_stage (j_tid j) (Returned (Some msg))
       (if j_tid j \<in> set (m_ctxCanceled (bw_tm s)) then s
        else s\<lparr>bw_db := finishBackup now (j_backup j) 0 (Some msg) (bw_db s)\<rparr>)"

text \<open>\<open>runFullBackup\<close> up to the call of the container backend; \<open>err\<close> is the failure of \<open>os.Create\<close>.\<close>

definition run_open :: "gtime \<Rightarrow> string option \<Rightarrow> job \<Rightarrow> backup_state \<Rightarrow> backup_state" where
  "run_open now err j s =
     (case err of
        Some msg \<Rightarrow> job_failed now j (''create file: '' @ msg) s
      | None \<Rightarrow> set_stage (j_tid j) Streaming (s\<lparr>bw_files := (bw_files s)(j_path j \<mapsto> 0)\<rparr>))"

text \<open>The return of \<open>StreamExecInInstance\<close>, with \<open>n\<close> bytes in the open file: they are in the directory's file
  if it is still there.\<close>

definition run_streamed :: "gtime \<Rightarrow> string + (string \<times> nat) \<Rightarrow> int \<Rightarrow> job \<Rightarrow> backup_state \<Rightarrow> backup_state" where
  "run_streamed now outcome n j s =
     (let s1 = s\<lparr>bw_files := (bw_files s)(j_path j := map_option (\<lambda>_. n) (bw_files s (j_path j)))\<rparr> in
      case outcome of
        Inl msg \<Rightarrow> job_failed now j (''stream exec: '' @ msg) s1
      | Inr (stderr, exitCode) \<Rightarrow>
          if 1 < exitCode then job_failed now j (''tar exited with code '' @ show_nat exitCode @ '': '' @ stderr) s1
          else set_stage (j_tid j) Closing s1)"

definition run_complete :: "gtime \<Rightarrow> job \<Rightarrow> backup_state \<Rightarrow> backup_state" where
  "run_complete now j s =
     (let sz = (case bw_files s (j_path j) of None \<Rightarrow> 0 | Some n \<Rightarrow> n)
      in set_stage (j_tid j) (Returned None)
           (s\<lparr>bw_db := db_UpdateBackup (j_backup j) (\<lambda>b. b\<lparr>bk_Status := ''completed'', bk_SizeBytes := sz,
                         bk_CompletedAt := Some now\<rparr>) (bw_db s)\<rparr>))"

text \<open>\<open>rm\<close> says with which error removing a file fails; a file that is not there is no error.\<close>

definition DeleteBackup :: "(string \<Rightarrow> string option) \<Rightarrow> nat \<Rightarrow> backup_state \<Rightarrow> string option \<times> backup_state" where
  "DeleteBackup rm i s =
     (case GetBackup i (bw_db s) of
        None \<Rightarrow> (Some ''get backup: record not found'', s)
      | Some b \<Rightarrow>
          if bk_FilePath b \<noteq> [] \<and> bw_files s (bk_FilePath b) \<noteq> None \<and> rm (bk_FilePath b) \<noteq> None
          then (Some (''remove file: '' @ the (rm (bk_FilePath b))), s)
          else (None, s\<lparr>bw_files := (if bk_FilePath b \<noteq> [] then (bw_files s)(bk_FilePath b := None) else bw_files s),
                        bw_db := DeleteBackupRecord (bk_ID b) (bw_db s)\<rparr>))"

section \<open>Schedules and retention\<close>

definition decode_ids :: "string \<Rightarrow> nat list option" where
  \<comment> \<open>\<open>json.Unmarshal\<close> into a slice of ids, \<open>None\<close> on an error\<close>
  "decode_ids raw =
     (case json_parse raw of
        None \<Rightarrow> None
      | Some j \<Rightarrow> (case decode (SSlice SUint) j GNil of (v, ok) \<Rightarrow> if ok then Some (uint_list v) else None))"

fun add_new :: "nat list \<Rightarrow> nat list \<Rightarrow> nat list" where
  \<comment> \<open>the loops over \<open>seen\<close>\<close>
  "add_new out [] = out"
| "add_new out (i # is) = add_new (if i \<in> set out then out else out @ [i]) is"

definition resolveScheduleInstances :: "BackupSchedule \<Rightarrow> db \<Rightarrow> nat list option" where
  "resolveScheduleInstances b d =
     (if bs_InstanceIDs b = ''ALL'' then Some (map inst_ID (instances d))
      else
        (case (if bs_InstanceIDs b = [] then Some [] else decode_ids (bs_InstanceIDs b)) of
           None \<Rightarrow> None
         | Some explicit \<Rightarrow>
             let teamIDs = ParseTeamIDs (bs_TeamIDs b); out = add_new [] explicit
             in Some (if teamIDs = [] then out
                      else add_new out (map inst_ID (filter (\<lambda>x. inst_TeamID x \<in> set teamIDs) (instances d))))))"

definition decode_paths :: "string \<Rightarrow> string list option" where
  \<comment> \<open>of the schedule's column, errors ignored\<close>
  "decode_paths raw =
     (if raw = [] then None
      else case json_parse raw of
             None \<Rightarrow> None
           | Some j \<Rightarrow>
               (case fst (decode (SSlice SString) j GNil) of
                  GSlice vs \<Rightarrow> Some (map (\<lambda>v. case v of GStr t \<Rightarrow> t | _ \<Rightarrow> []) vs)
                | _ \<Rightarrow> None))"

text \<open>The cron library: an error, or the next time after a given one.\<close>

type_synonym cron = "string \<Rightarrow> string + (gtime \<Rightarrow> gtime)"

definition ComputeNextRun :: "cron \<Rightarrow> gtime \<Rightarrow> string \<Rightarrow> string + gtime" where
  "ComputeNextRun cron now expr = (case cron expr of Inl e \<Rightarrow> Inl e | Inr next \<Rightarrow> Inr (next now))"

text \<open>\<open>env\<close> gives the outside arguments of the backup of each instance.\<close>

fun schedule_backups :: "(nat \<Rightarrow> create_env) \<Rightarrow> string list option \<Rightarrow> nat list \<Rightarrow> backup_state \<Rightarrow> backup_state" where
  "schedule_backups env paths [] s = s"
| "schedule_backups env paths (i # is) s =
     schedule_backups env paths is
       (case GetInstance i (bw_db s) of
          None \<Rightarrow> s
        | Some x \<Rightarrow> snd (CreateFullBackup (env i) (inst_Name x) (inst_ID x) 0 ''scheduled'' paths s))"

definition executeSchedule :: "cron \<Rightarrow> gtime \<Rightarrow> (nat \<Rightarrow> create_env) \<Rightarrow> BackupSchedule \<Rightarrow> backup_state \<Rightarrow> backup_state" where
  "executeSchedule cron now env b s =
     (case resolveScheduleInstances b (bw_db s) of
        None \<Rightarrow> s
      | Some ids \<Rightarrow>
          let s1 = schedule_backups env (decode_paths (bs_Paths b)) ids s
          in s1\<lparr>bw_db := db_UpdateBackupSchedule (bs_ID b)
                 (\<lambda>r. (case ComputeNextRun cron now (bs_CronExpression b) of
                        Inl _ \<Rightarrow> r | Inr t \<Rightarrow> r\<lparr>bs_NextRunAt := Some t\<rparr>)\<lparr>bs_LastRunAt := Some now\<rparr>) (bw_db s1)\<rparr>)"

definition executeDueSchedules ::
    "bool \<Rightarrow> cron \<Rightarrow> gtime \<Rightarrow> (nat \<Rightarrow> nat \<Rightarrow> create_env) \<Rightarrow> backup_state \<Rightarrow> backup_state" where
  "executeDueSchedules orch cron now env s =
     (if \<not> orch then s
      else fold (\<lambda>b. executeSchedule cron now (env (bs_ID b)) b) (ListDueSchedules now (bw_db s)) s)"

definition days :: "int \<Rightarrow> gtime" where
  "days n = n * 24 * minutes 60"

definition cleanupExpiredForSchedule ::
    "(string \<Rightarrow> string option) \<Rightarrow> gtime \<Rightarrow> BackupSchedule \<Rightarrow> backup_state \<Rightarrow> backup_state" where
  "cleanupExpiredForSchedule rm now b s =
     (if bs_RetentionDays b \<le> 0 then s
      else
        (case resolveScheduleInstances b (bw_db s) of
           None \<Rightarrow> s
         | Some ids \<Rightarrow>
             if ids = [] then s
             else
               let cutoff = now - days (bs_RetentionDays b);
                   expired = filter (\<lambda>k. bk_InstanceID k \<in> set ids \<and> bk_Note k = ''scheduled''
                                        \<and> bk_Status k = ''completed'' \<and> bk_CreatedAt k < cutoff) (backups (bw_db s))
               in fold (\<lambda>k s. snd (DeleteBackup rm (bk_ID k) s)) expired s))"

definition runRetentionCleanup :: "(string \<Rightarrow> string option) \<Rightarrow> gtime \<Rightarrow> backup_state \<Rightarrow> backup_state" where
  "runRetentionCleanup rm now s =
     fold (cleanupExpiredForSchedule rm now) (db_ListBackupSchedules (bw_db s)) s"

end
