(* ===== verification/BackupHandlers.thy ===== *)
theory BackupHandlers imports Backups RemoteFiles begin

text \<open>
  The handlers of \<^verbatim>\<open>control-plane/internal/handlers/backups.go\<close> and
  \<^verbatim>\<open>backup_schedules.go\<close>, and \<^verbatim>\<open>internal/backup/restore.go\<close>.  A decoded
  JSON body is an option, \<open>None\<close> when it does not decode; a path parameter is its text.
\<close>

section \<open>Backups\<close>

definition CreateBackup ::
    "create_env \<Rightarrow> bool \<Rightarrow> string \<Rightarrow> (string list option \<times> string) option \<Rightarrow> User option \<Rightarrow> backup_state
       \<Rightarrow> nat reply \<times> backup_state" where
  "CreateBackup e orch idp body cu s =
     (case atoi idp of
        None \<Rightarrow> (Fail 400 ''Invalid instance ID'', s)
      | Some i \<Rightarrow>
          if \<not> CanAccessInstance cu (uint_of i) (bw_db s)
          then (Fail 403 ''You do not have access to this instance'', s)
          else
            (case GetInstance (uint_of i) (bw_db s) of
               None \<Rightarrow> (Fail 404 ''Instance not found'', s)
             | Some x \<Rightarrow>
                 (case body of
                    None \<Rightarrow> (Fail 400 ''Invalid request body'', s)
                  | Some (paths, note) \<Rightarrow>
                      if \<not> orch then (orchestrator_unavailable, s)
                      else
                        (case CreateFullBackup e (inst_Name x) (inst_ID x) (caller_id cu) note paths s of
                           (Inl err, s1) \<Rightarrow> (Fail 500 (''Failed to start backup: '' @ err), s1)
                         | (Inr b, s1) \<Rightarrow> (Reply 202 b, s1)))))"

definition ListInstanceBackups :: "string \<Rightarrow> User option \<Rightarrow> db \<Rightarrow> Backup list reply" where
  "ListInstanceBackups idp cu d =
     (case atoi idp of
        None \<Rightarrow> Fail 400 ''Invalid instance ID''
      | Some i \<Rightarrow>
          if \<not> CanAccessInstance cu (uint_of i) d then Fail 403 ''You do not have access to this instance''
          else Reply 200 (ListBackups (uint_of i) d))"

definition ListAllBackups :: "string \<Rightarrow> string \<Rightarrow> string \<Rightarrow> User option \<Rightarrow> db \<Rightarrow> (Backup list \<times> nat \<times> int \<times> int) reply" where
  "ListAllBackups limit_q offset_q instName cu d =
     (let limit = parseIntQuery limit_q 50 1 100; offset = parseIntQuery offset_q 0 0 (2 ^ 30);
          (rows, total) = ListAllBackupsPaginated limit offset instName (caller_id cu) (is_admin cu) d
      in Reply 200 (rows, total, limit, offset))"

text \<open>The common start of the handlers of one backup.\<close>

definition with_backup :: "string \<Rightarrow> User option \<Rightarrow> db \<Rightarrow> (nat \<Rightarrow> Backup \<Rightarrow> 'a reply \<times> 's) \<Rightarrow> 's \<Rightarrow> 'a reply \<times> 's" where
  "with_backup idp cu d k s =
     (case atoi idp of
        None \<Rightarrow> (Fail 400 ''Invalid backup ID'', s)
      | Some i \<Rightarrow>
          (case GetBackup (uint_of i) d of
             None \<Rightarrow> (Fail 404 ''Backup not found'', s)
           | Some b \<Rightarrow>
               if \<not> CanAccessInstance cu (bk_InstanceID b) d
               then (Fail 403 ''You do not have access to this backup'', s)
               else k (uint_of i) b))"

definition GetBackupDetail :: "string \<Rightarrow> User option \<Rightarrow> db \<Rightarrow> Backup reply" where
  "GetBackupDetail idp cu d = fst (with_backup idp cu d (\<lambda>i b. (Reply 200 b, ())) ())"

text \<open>\<open>keys\<close> is the walk of \<open>List\<close> over the tasks.  \<open>strconv.Itoa(id)\<close> prints the signed number.\<close>

definition CancelBackupHandler :: "string list \<Rightarrow> string \<Rightarrow> User option \<Rightarrow> backup_state \<Rightarrow> unit reply \<times> backup_state" where
  "CancelBackupHandler keys idp cu s =
     with_backup idp cu (bw_db s)
       (\<lambda>i b.
          if bk_Status b \<noteq> ''running'' then (Fail 409 ''Backup is not running'', s)
          else
            (case Tasks.List \<lparr>f_Type = TaskBackupCreate, f_InstanceID = 0, f_UserID = 0,
                    f_ResourceID = show_nat i, f_State = None, f_OnlyActive = True\<rparr> keys (bw_tm s) of
               [] \<Rightarrow> (Fail 404 ''No active task for this backup'', s)
             | t # ts \<Rightarrow>
                 (case Cancel (tk_ID t) (bw_tm s) of
                    (Some ErrAlreadyTerminal, tm) \<Rightarrow> (Fail 409 ''Task already finished'', s\<lparr>bw_tm := tm\<rparr>)
                  | (Some ErrNotCancellable, tm) \<Rightarrow> (Fail 405 ''Task is not cancellable'', s\<lparr>bw_tm := tm\<rparr>)
                  | (Some ErrNotFound, tm) \<Rightarrow> (Fail 500 ''task not found'', s\<lparr>bw_tm := tm\<rparr>)
                  | (None, tm) \<Rightarrow> (Reply 200 (), s\<lparr>bw_tm := tm\<rparr>)))) s"

definition DeleteBackupHandler ::
    "(string \<Rightarrow> string option) \<Rightarrow> string \<Rightarrow> User option \<Rightarrow> backup_state \<Rightarrow> unit reply \<times> backup_state" where
  "DeleteBackupHandler rm idp cu s =
     with_backup idp cu (bw_db s)
       (\<lambda>i b. case DeleteBackup rm i s of
                (Some err, s1) \<Rightarrow> (Fail 409 err, s1)
              | (None, s1) \<Rightarrow> (Reply 200 (), s1)) s"

definition DownloadBackup :: "string \<Rightarrow> User option \<Rightarrow> backup_state \<Rightarrow> (string \<times> int) reply" where
  \<comment> \<open>the path of the archive that is sent, and its size\<close>
  "DownloadBackup idp cu s =
     fst (with_backup idp cu (bw_db s)
       (\<lambda>i b. if bk_Status b \<noteq> ''completed'' then (Fail 409 ''Backup is not completed'', ())
              else (case bw_files s (bk_FilePath b) of
                      None \<Rightarrow> (Fail 404 ''Backup file not found'', ())
                    | Some n \<Rightarrow> (Reply 200 (bk_FilePath b, n), ()))) ())"

text \<open>The restore that the handler starts: the target's name and the backup.\<close>

definition RestoreBackupHandler ::
    "bool \<Rightarrow> string \<Rightarrow> nat option \<Rightarrow> User option \<Rightarrow> db \<Rightarrow> unit reply \<times> (string \<times> nat) option" where
  "RestoreBackupHandler orch idp body cu d =
     with_backup idp cu d
       (\<lambda>i b.
          case body of
            None \<Rightarrow> (Fail 400 ''Invalid request body'', None)
          | Some target \<Rightarrow>
              if target = 0 then (Fail 400 ''instance_id is required'', None)
              else if \<not> CanAccessInstance cu target d
              then (Fail 403 ''You do not have access to the target instance'', None)
              else (case GetInstance target d of
                      None \<Rightarrow> (Fail 404 ''Target instance not found'', None)
                    | Some x \<Rightarrow>
                        if \<not> orch then (orchestrator_unavailable, None)
                        else (Reply 202 (), Some (inst_Name x, i)))) None"

section \<open>Restoring\<close>

text \<open>\<open>exec\<close> runs a command in a container: a transport error, or the output, the error output and the exit
  code.  \<open>content\<close> is what reading an archive gives.\<close>

type_synonym 'c container_exec = "string \<Rightarrow> string list \<Rightarrow> 'c \<Rightarrow> (string + string \<times> string \<times> nat) \<times> 'c"

definition restore_tmp :: string where
  "restore_tmp = ''/tmp/_claworc_restore.tar.gz''"

definition restore_chunk_size :: nat where
  "restore_chunk_size = 48 * 1024"

definition chunk_cmd :: "string \<Rightarrow> string" where
  "chunk_cmd b64 = ''echo '' @ [CHR 0x27] @ b64 @ [CHR 0x27] @ '' | base64 -d >> '' @ restore_tmp"

function restore_chunks :: "'c container_exec \<Rightarrow> string \<Rightarrow> string \<Rightarrow> 'c \<Rightarrow> string option \<times> 'c" where
  "restore_chunks exec name data c =
     (if data = [] then (None, c)
      else
        (case exec name [''sh'', ''-c'', chunk_cmd (base64_encode (take restore_chunk_size data))] c of
           (Inl e, c1) \<Rightarrow> (Some (''write chunk: '' @ e), c1)
         | (Inr (out, stderr, code), c1) \<Rightarrow>
             if code \<noteq> 0 then (Some (''write chunk failed (exit '' @ show_nat code @ ''): '' @ stderr), c1)
             else restore_chunks exec name (drop restore_chunk_size data) c1))"
  by pat_completeness auto
termination
  by (relation "measure (\<lambda>(exec, name, data, c). length data)") (auto simp: restore_chunk_size_def)

declare restore_chunks.simps [simp del]

definition extract_cmd :: string where
  "extract_cmd = ''tar xzf '' @ restore_tmp @ '' -C / 2>/dev/null; rm -f '' @ restore_tmp @ ''; exit 0''"

definition restoreArchive :: "'c container_exec \<Rightarrow> string \<Rightarrow> string \<Rightarrow> 'c \<Rightarrow> string option \<times> 'c" where
  "restoreArchive exec name data c =
     (let c1 = snd (exec name [''sh'', ''-c'', ''rm -f '' @ restore_tmp] c) in
      case restore_chunks exec name data c1 of
        (Some e, c2) \<Rightarrow> (Some e, c2)
      | (None, c2) \<Rightarrow>
          (case exec name [''sh'', ''-c'', extract_cmd] c2 of
             (Inl e, c3) \<Rightarrow> (Some (''extract archive: '' @ e), c3)
           | (Inr (out, stderr, code), c3) \<Rightarrow>
               if 1 < code then (Some (''extract failed (exit '' @ show_nat code @ ''): '' @ stderr), c3)
               else (None, c3)))"

definition RestoreBackup ::
    "'c container_exec \<Rightarrow> (string \<Rightarrow> string option) \<Rightarrow> string \<Rightarrow> nat \<Rightarrow> db \<Rightarrow> 'c \<Rightarrow> string option \<times> 'c" where
  "RestoreBackup exec content name i d c =
     (case GetBackup i d of
        None \<Rightarrow> (Some (''get backup '' @ show_nat i @ '': record not found''), c)
      | Some b \<Rightarrow>
          if bk_Status b \<noteq> ''completed''
          then (Some (''backup '' @ show_nat (bk_ID b) @ '' has status '' @ bk_Status b @ '', expected completed''), c)
          else
            (case content (bk_FilePath b) of
               None \<Rightarrow> (Some (''backup file missing for backup '' @ show_nat (bk_ID b)), c)
             | Some data \<Rightarrow>
                 (case restoreArchive exec name data c of
                    (Some e, c1) \<Rightarrow> (Some (''restore backup '' @ show_nat (bk_ID b) @ '': '' @ e), c1)
                  | (None, c1) \<Rightarrow> (None, c1))))"

section \<open>Schedules\<close>

definition scheduleInstanceIDs :: "string \<Rightarrow> nat list" where
  "scheduleInstanceIDs raw =
     (if raw = [] then []
      else case decode_ids raw of
             Some ids \<Rightarrow> ids
           | None \<Rightarrow> (case atoi raw of Some n \<Rightarrow> [uint_of n] | None \<Rightarrow> []))"

definition canAccessAllScheduleInstances :: "User option \<Rightarrow> string \<Rightarrow> db \<Rightarrow> bool" where
  "canAccessAllScheduleInstances cu raw d =
     (let ids = scheduleInstanceIDs raw in
      if ids = [] then is_admin cu else list_all (\<lambda>i. CanAccessInstance cu i d) ids)"

definition authorizeScheduleTeams :: "User option \<Rightarrow> nat list \<Rightarrow> db \<Rightarrow> nat option" where
  \<comment> \<open>the first team the caller cannot manage\<close>
  "authorizeScheduleTeams cu ts d = List.find (\<lambda>t. \<not> CanManageTeam cu t d) ts"

record scheduleCreateRequest =
  sc_InstanceIDs :: string
  sc_TeamIDs :: "nat list"
  sc_CronExpression :: string
  sc_Paths :: "string list option"
  sc_RetentionDays :: "int option"

record scheduleUpdateRequest =
  su_InstanceIDs :: "string option"
  su_TeamIDs :: "nat list option"
  su_CronExpression :: "string option"
  su_Paths :: "string list option"
  su_RetentionDays :: "int option"

definition not_authorized_team :: "nat \<Rightarrow> 'a reply" where
  "not_authorized_team t = Fail 403 (''Not authorized to attach team '' @ show_nat t)"

definition schedule_paths :: "string list option \<Rightarrow> string" where
  "schedule_paths ps = (if slice ps = [] then marshal_strings (Some [''HOME'']) else marshal_strings ps)"

definition CreateBackupSchedule ::
    "cron \<Rightarrow> gtime \<Rightarrow> scheduleCreateRequest option \<Rightarrow> User option \<Rightarrow> db \<Rightarrow> BackupSchedule reply \<times> db" where
  "CreateBackupSchedule cron now body cu d =
     (case body of
        None \<Rightarrow> (Fail 400 ''Invalid request body'', d)
      | Some req \<Rightarrow>
          if sc_CronExpression req = [] then (Fail 400 ''cron_expression is required'', d)
          else if sc_InstanceIDs req = [] then (Fail 400 ''instance_ids is required'', d)
          else if \<not> canAccessAllScheduleInstances cu (sc_InstanceIDs req) d
          then (Fail 403 ''You do not have access to all instances in this schedule'', d)
          else
            (case authorizeScheduleTeams cu (sc_TeamIDs req) d of
               Some t \<Rightarrow> (not_authorized_team t, d)
             | None \<Rightarrow>
                 (case ComputeNextRun cron now (sc_CronExpression req) of
                    Inl e \<Rightarrow> (Fail 400 (''Invalid cron expression: '' @ e), d)
                  | Inr nextRun \<Rightarrow>
                      if (case sc_RetentionDays req of None \<Rightarrow> False | Some n \<Rightarrow> n < 0)
                      then (Fail 400 ''retention_days must be >= 0'', d)
                      else
                        let mk = (\<lambda>i. \<lparr>bs_ID = i, bs_InstanceIDs = sc_InstanceIDs req,
                                   bs_TeamIDs = EncodeTeamIDs (sc_TeamIDs req),
                                   bs_CronExpression = sc_CronExpression req, bs_Paths = schedule_paths (sc_Paths req),
                                   bs_RetentionDays = (case sc_RetentionDays req of None \<Rightarrow> 0 | Some n \<Rightarrow> n),
                                   bs_LastRunAt = None, bs_NextRunAt = Some nextRun, bs_CreatedAt = now\<rparr>);
                            (i, d1) = create_row ''backup_schedules'' backup_schedules backup_schedules_update mk d
                        in (Reply 201 (mk i), d1))))"

definition ListBackupSchedules :: "User option \<Rightarrow> db \<Rightarrow> BackupSchedule list reply" where
  "ListBackupSchedules cu d =
     Reply 200 (let schedules = db_ListBackupSchedules d in
       case cu of
         None \<Rightarrow> schedules
       | Some u \<Rightarrow> if user_Role u \<noteq> ''admin''
                   then filter (\<lambda>b. canAccessAllScheduleInstances cu (bs_InstanceIDs b) d) schedules else schedules)"

text \<open>The common start of the handlers of one schedule.\<close>

definition with_schedule :: "string \<Rightarrow> User option \<Rightarrow> db \<Rightarrow> (nat \<Rightarrow> 'a reply \<times> db) \<Rightarrow> 'a reply \<times> db" where
  "with_schedule idp cu d k =
     (case atoi idp of
        None \<Rightarrow> (Fail 400 ''Invalid schedule ID'', d)
      | Some i \<Rightarrow>
          (case GetBackupSchedule (uint_of i) d of
             None \<Rightarrow> (Fail 404 ''Schedule not found'', d)
           | Some b \<Rightarrow>
               if \<not> canAccessAllScheduleInstances cu (bs_InstanceIDs b) d
               then (Fail 403 ''You do not have access to this schedule'', d)
               else k (uint_of i)))"

definition UpdateBackupSchedule ::
    "cron \<Rightarrow> gtime \<Rightarrow> string \<Rightarrow> scheduleUpdateRequest option \<Rightarrow> User option \<Rightarrow> db \<Rightarrow> BackupSchedule option reply \<times> db" where
  "UpdateBackupSchedule cron now idp body cu d =
     with_schedule idp cu d
       (\<lambda>i.
          case body of
            None \<Rightarrow> (Fail 400 ''Invalid request body'', d)
          | Some req \<Rightarrow>
              if (case su_InstanceIDs req of None \<Rightarrow> False | Some raw \<Rightarrow> \<not> canAccessAllScheduleInstances cu raw d)
              then (Fail 403 ''You do not have access to all instances in this schedule'', d)
              else
                (case (case su_TeamIDs req of None \<Rightarrow> None | Some ts \<Rightarrow> authorizeScheduleTeams cu ts d) of
                   Some t \<Rightarrow> (not_authorized_team t, d)
                 | None \<Rightarrow>
                     (case (case su_CronExpression req of
                              None \<Rightarrow> Inr None
                            | Some expr \<Rightarrow> (case ComputeNextRun cron now expr of Inl e \<Rightarrow> Inl e | Inr t \<Rightarrow> Inr (Some t))) of
                        Inl e \<Rightarrow> (Fail 400 (''Invalid cron expression: '' @ e), d)
                      | Inr nextRun \<Rightarrow>
                          if (case su_RetentionDays req of None \<Rightarrow> False | Some n \<Rightarrow> n < 0)
                          then (Fail 400 ''retention_days must be >= 0'', d)
                          else if su_InstanceIDs req = None \<and> su_TeamIDs req = None \<and> slice (su_Paths req) = []
                                  \<and> su_CronExpression req = None \<and> su_RetentionDays req = None
                          then (Fail 400 ''No fields to update'', d)
                          else
                            let upd = (\<lambda>b. b\<lparr>
                                  bs_InstanceIDs := (case su_InstanceIDs req of None \<Rightarrow> bs_InstanceIDs b | Some r \<Rightarrow> r),
                                  bs_TeamIDs := (case su_TeamIDs req of None \<Rightarrow> bs_TeamIDs b | Some ts \<Rightarrow> EncodeTeamIDs ts),
                                  bs_Paths := (if slice (su_Paths req) = [] then bs_Paths b else marshal_strings (su_Paths req)),
                                  bs_CronExpression := (case su_CronExpression req of None \<Rightarrow> bs_CronExpression b | Some x \<Rightarrow> x),
                                  bs_NextRunAt := (case nextRun of None \<Rightarrow> bs_NextRunAt b | Some t \<Rightarrow> Some t),
                                  bs_RetentionDays := (case su_RetentionDays req of None \<Rightarrow> bs_RetentionDays b | Some n \<Rightarrow> n)\<rparr>);
                                d1 = db_UpdateBackupSchedule i upd d
                            in (Reply 200 (GetBackupSchedule i d1), d1))))"

definition DeleteBackupSchedule :: "string \<Rightarrow> User option \<Rightarrow> db \<Rightarrow> unit reply \<times> db" where
  "DeleteBackupSchedule idp cu d =
     with_schedule idp cu d (\<lambda>i. (Reply 200 (), delete_row backup_schedules_update bs_ID i d))"

end
