(* ===== verification/BackupSafety.thy ===== *)
theory BackupSafety imports BackupHandlers begin

text \<open>
  What the backups of \<open>Backups\<close> keep while their jobs, cancellations, deletions and the other tasks of
  the task manager interleave; which backups the retention run deletes; and what a restore hands to
  the container.
\<close>

section \<open>Interleavings\<close>

text \<open>The steps that other parts may make on the task manager: not the return, nor the cleanup, of a
  backup's task.\<close>

fun foreign :: "backup_state \<Rightarrow> task_act \<Rightarrow> bool" where
  "foreign s (AOnCancel t) \<longleftrightarrow> bw_cleanup s t = None"
| "foreign s (AReturn now t e) \<longleftrightarrow> bw_cleanup s t = None"
| "foreign s _ \<longleftrightarrow> True"

inductive backup_step :: "backup_state \<Rightarrow> backup_state \<Rightarrow> bool" where
  create: "ce_tid e \<notin> set (m_used (bw_tm s)) \<Longrightarrow> CHR ''/'' \<notin> set name \<Longrightarrow>
    backup_step s (snd (CreateFullBackup e name i u note paths s))"
| opened: "job_of tid s = Some j \<Longrightarrow> j_stage j = Opening \<Longrightarrow> backup_step s (run_open now err j s)"
| streamed: "job_of tid s = Some j \<Longrightarrow> j_stage j = Streaming \<Longrightarrow> backup_step s (run_streamed now outcome n j s)"
| closed: "job_of tid s = Some j \<Longrightarrow> j_stage j = Closing \<Longrightarrow> backup_step s (run_complete now j s)"
| returned: "job_of tid s = Some j \<Longrightarrow> j_stage j = Returned e \<Longrightarrow>
    backup_step s (s\<lparr>bw_tm := act (AReturn now tid e) (bw_tm s)\<rparr>)"
| on_cancel: "tid \<in> set (m_cleanups (bw_tm s)) \<Longrightarrow> bw_cleanup s tid = Some (i, p) \<Longrightarrow>
    backup_step s (backupOnCancel now i p (s\<lparr>bw_tm := act (AOnCancel tid) (bw_tm s)\<rparr>))"
| deleted: "backup_step s (snd (DeleteBackup rm i s))"
| tasks: "foreign s a \<Longrightarrow> backup_step s (s\<lparr>bw_tm := act a (bw_tm s)\<rparr>)"
| others: "backups d = backups (bw_db s) \<Longrightarrow> next_row d ''backups'' = next_row (bw_db s) ''backups'' \<Longrightarrow>
    backup_step s (s\<lparr>bw_db := d\<rparr>)"

inductive_cases backup_step_E: "backup_step s s'"

section \<open>The invariant\<close>

definition archive_path :: "nat \<Rightarrow> string \<Rightarrow> bool" where
  "archive_path i p \<longleftrightarrow> (\<exists>name stamp. CHR ''/'' \<notin> set name \<and> p = backup_path name i stamp)"

definition row_state :: "bool \<Rightarrow> bool \<Rightarrow> job option \<Rightarrow> int option \<Rightarrow> Backup \<Rightarrow> bool" where
  \<comment> \<open>whether the task is cancelled, whether its cleanup is pending, its job, its file\<close>
  "row_state c pending j f r \<longleftrightarrow>
     (if c then pending \<or> bk_Status r = ''canceled'' \<or> bk_Status r = ''completed''
      else case map_option j_stage j of
             None \<Rightarrow> False
           | Some Opening \<Rightarrow> bk_Status r = ''running''
           | Some Streaming \<Rightarrow> bk_Status r = ''running'' \<and> f \<noteq> None
           | Some Closing \<Rightarrow> bk_Status r = ''running'' \<and> f \<noteq> None
           | Some (Returned e) \<Rightarrow> bk_Status r = ''failed'' \<or> bk_Status r = ''completed'' \<and> f = Some (bk_SizeBytes r))"

definition cancelled :: "backup_state \<Rightarrow> string \<Rightarrow> bool" where
  "cancelled s tid \<longleftrightarrow> tid \<in> set (m_ctxCanceled (bw_tm s))"

definition cleanup_pending :: "backup_state \<Rightarrow> string \<Rightarrow> bool" where
  "cleanup_pending s tid \<longleftrightarrow> tid \<in> set (m_cleanups (bw_tm s))"

definition row_ok :: "backup_state \<Rightarrow> Backup \<Rightarrow> string \<Rightarrow> bool" where
  "row_ok s r tid \<longleftrightarrow>
     bw_cleanup s tid = Some (bk_ID r, bk_FilePath r) \<and>
     row_state (cancelled s tid) (cleanup_pending s tid) (job_of tid s) (bw_files s (bk_FilePath r)) r"

definition rows_ok :: "backup_state \<Rightarrow> bool" where
  "rows_ok s \<longleftrightarrow> (\<forall>r \<in> set (backups (bw_db s)). \<exists>tid. row_ok s r tid)"

definition tasks_ok :: "TaskManager \<Rightarrow> bool" where
  "tasks_ok m \<longleftrightarrow> dom (m_tasks m) \<subseteq> set (m_used m) \<and> set (m_ctxCanceled m) \<subseteq> set (m_used m)
     \<and> set (m_cleanups m) \<subseteq> set (m_ctxCanceled m)"

definition owners_ok :: "backup_state \<Rightarrow> bool" where
  "owners_ok s \<longleftrightarrow>
     (\<forall>t i p. bw_cleanup s t = Some (i, p) \<longrightarrow>
        t \<in> set (m_used (bw_tm s)) \<and> i < next_row (bw_db s) ''backups'' \<and> archive_path i p) \<and>
     (\<forall>t t' i p p'. bw_cleanup s t = Some (i, p) \<longrightarrow> bw_cleanup s t' = Some (i, p') \<longrightarrow> t = t') \<and>
     (\<forall>t j. job_of t s = Some j \<longrightarrow> bw_cleanup s t = Some (j_backup j, j_path j))"

definition backup_inv :: "backup_state \<Rightarrow> bool" where
  "backup_inv s \<longleftrightarrow> table_ok ''backups'' backups bk_ID (bw_db s) \<and> tasks_ok (bw_tm s) \<and> owners_ok s \<and> rows_ok s"

lemma backup_invI [intro]:
  "table_ok ''backups'' backups bk_ID (bw_db s) \<Longrightarrow> tasks_ok (bw_tm s) \<Longrightarrow> owners_ok s \<Longrightarrow> rows_ok s \<Longrightarrow> backup_inv s"
  by (simp add: backup_inv_def)

subsection \<open>Archive paths\<close>

lemma split_at_first:
  "c \<notin> set a \<Longrightarrow> c \<notin> set b \<Longrightarrow> a @ c # x = b @ c # y \<Longrightarrow> a = b \<and> x = y"
  by (induction a arbitrary: b) (auto simp: Cons_eq_append_conv append_eq_Cons_conv)

lemma dash_not_digit: "CHR ''-'' \<notin> set (show_nat n)"
  using show_nat_digits [of n] by (auto simp: list_all_iff)

lemma show_nat_inj: "show_nat m = show_nat n \<Longrightarrow> m = n"
  using dec_value_show_nat by metis

lemma archive_path_inj: "archive_path i p \<Longrightarrow> archive_path j p \<Longrightarrow> i = j"
proof -
  assume "archive_path i p" "archive_path j p"
  then obtain a st b st' where ab: "CHR ''/'' \<notin> set a" "CHR ''/'' \<notin> set b"
    and eq: "backup_path a i st = backup_path b j st'"
    unfolding archive_path_def by metis
  from eq have "a @ CHR ''/'' # a @ ''-'' @ show_nat i @ ''-'' @ st @ ''.tar.gz''
      = b @ CHR ''/'' # b @ ''-'' @ show_nat j @ ''-'' @ st' @ ''.tar.gz''"
    by (simp add: backup_path_def)
  from split_at_first [OF ab this]
  have "show_nat i @ CHR ''-'' # st @ ''.tar.gz'' = show_nat j @ CHR ''-'' # st' @ ''.tar.gz''" by auto
  from split_at_first [OF dash_not_digit dash_not_digit this] show ?thesis by (auto dest: show_nat_inj)
qed

lemma owner_unique:
  "owners_ok s \<Longrightarrow> bw_cleanup s t = Some (i, p) \<Longrightarrow> bw_cleanup s t' = Some (i', p') \<Longrightarrow> t \<noteq> t' \<Longrightarrow> i \<noteq> i' \<and> p \<noteq> p'"
  unfolding owners_ok_def using archive_path_inj by metis

subsection \<open>One backup at a time\<close>

lemma set_stage_frame [simp]:
  "bw_db (set_stage t st s) = bw_db s" "bw_files (set_stage t st s) = bw_files s"
  "bw_tm (set_stage t st s) = bw_tm s" "bw_cleanup (set_stage t st s) = bw_cleanup s"
  by (simp_all add: set_stage_def)

lemma job_of_set_stage [simp]:
  "job_of t (set_stage tid st s) = map_option (\<lambda>j. if t = tid then j\<lparr>j_stage := st\<rparr> else j) (job_of t s)"
  unfolding set_stage_def job_of_def by (simp add: find_map_update)

lemma job_of_frame [simp]:
  "job_of t (s\<lparr>bw_db := d\<rparr>) = job_of t s" "job_of t (s\<lparr>bw_files := f\<rparr>) = job_of t s"
  "job_of t (s\<lparr>bw_tm := m\<rparr>) = job_of t s" "job_of t (s\<lparr>bw_cleanup := c\<rparr>) = job_of t s"
  by (simp_all add: job_of_def)

lemma job_of_tid: "job_of t s = Some j \<Longrightarrow> j_tid j = t"
  by (auto simp: job_of_def find_Some_iff)

lemma map_key_update:
  "(\<And>r. key (f r) = key r) \<Longrightarrow> map key (map (\<lambda>r. if key r = i then f r else r) rs) = map key rs"
  by simp

lemma rows_update: "backups (db_UpdateBackup i f d) = map (\<lambda>r. if bk_ID r = i then f r else r) (backups d)"
  by (simp add: db_UpdateBackup_def update_row_def)

lemma next_update [simp]: "next_row (db_UpdateBackup i f d) = next_row d"
  by (simp add: db_UpdateBackup_def update_row_def)

text \<open>A step of one task, on its own row and its own file.\<close>

definition one_backup :: "string \<Rightarrow> nat \<Rightarrow> string \<Rightarrow> (Backup \<Rightarrow> Backup) \<Rightarrow> backup_state \<Rightarrow> backup_state \<Rightarrow> bool" where
  "one_backup tid i p f s s' \<longleftrightarrow>
     bw_cleanup s tid = Some (i, p) \<and> bw_cleanup s' = bw_cleanup s \<and>
     (\<forall>r. bk_ID (f r) = bk_ID r \<and> bk_FilePath (f r) = bk_FilePath r) \<and>
     backups (bw_db s') = map (\<lambda>r. if bk_ID r = i then f r else r) (backups (bw_db s)) \<and>
     next_row (bw_db s') = next_row (bw_db s) \<and>
     m_used (bw_tm s') = m_used (bw_tm s) \<and>
     (\<forall>t. t \<noteq> tid \<longrightarrow> cancelled s' t = cancelled s t \<and> cleanup_pending s' t = cleanup_pending s t
            \<and> job_of t s' = job_of t s) \<and>
     (\<forall>j. job_of tid s' = Some j \<longrightarrow> (\<exists>j0. job_of tid s = Some j0 \<and> j_backup j = j_backup j0 \<and> j_path j = j_path j0)) \<and>
     (\<forall>q. q \<noteq> p \<longrightarrow> bw_files s' q = bw_files s q)"

lemma one_backup_inv:
  assumes inv: "backup_inv s" and one: "one_backup tid i p f s s'" and tm: "tasks_ok (bw_tm s')"
    and own: "\<And>r. bk_ID r = i \<Longrightarrow> bk_FilePath r = p \<Longrightarrow>
      row_state (cancelled s tid) (cleanup_pending s tid) (job_of tid s) (bw_files s p) r \<Longrightarrow>
      row_state (cancelled s' tid) (cleanup_pending s' tid) (job_of tid s') (bw_files s' p) (f r)"
  shows "backup_inv s'"
proof (rule backup_invI)
  note o = one [unfolded one_backup_def]
  from o have rows: "backups (bw_db s') = map (\<lambda>r. if bk_ID r = i then f r else r) (backups (bw_db s))"
    and keys: "\<And>r. bk_ID (f r) = bk_ID r" and nx: "next_row (bw_db s') = next_row (bw_db s)" by blast+
  from inv have ow: "owners_ok s" by (simp add: backup_inv_def)
  have "map bk_ID (backups (bw_db s')) = map bk_ID (backups (bw_db s))"
    unfolding rows by (rule map_key_update) (rule keys)
  then show "table_ok ''backups'' backups bk_ID (bw_db s')"
    using inv keys by (auto simp: backup_inv_def table_ok_def rows nx simp del: map_map)
  from o have cl: "bw_cleanup s' = bw_cleanup s" "bw_cleanup s tid = Some (i, p)" "m_used (bw_tm s') = m_used (bw_tm s)"
    by blast+
  from o have other: "\<And>t. t \<noteq> tid \<Longrightarrow> cancelled s' t = cancelled s t \<and> cleanup_pending s' t = cleanup_pending s t
      \<and> job_of t s' = job_of t s" and files: "\<And>q. q \<noteq> p \<Longrightarrow> bw_files s' q = bw_files s q" by blast+
  from o have mine: "\<And>j. job_of tid s' = Some j \<Longrightarrow>
      \<exists>j0. job_of tid s = Some j0 \<and> j_backup j = j_backup j0 \<and> j_path j = j_path j0" by blast
  from ow have jobs0: "\<And>t j. job_of t s = Some j \<Longrightarrow> bw_cleanup s t = Some (j_backup j, j_path j)"
    unfolding owners_ok_def by blast
  have jobs: "bw_cleanup s t = Some (j_backup j, j_path j)" if "job_of t s' = Some j" for t j
  proof (cases "t = tid")
    case True
    with mine that obtain j0 where "job_of tid s = Some j0" "j_backup j = j_backup j0" "j_path j = j_path j0" by blast
    from jobs0 [OF this(1)] this(2,3) True show ?thesis by simp
  next
    case False
    with that other have "job_of t s = Some j" by simp
    then show ?thesis by (rule jobs0)
  qed
  have "\<forall>t j. job_of t s' = Some j \<longrightarrow> bw_cleanup s t = Some (j_backup j, j_path j)" using jobs by (intro allI impI)
  with ow show "owners_ok s'" unfolding owners_ok_def cl nx by (elim conjE) (intro conjI)
  show "tasks_ok (bw_tm s')" by (fact tm)
  show "rows_ok s'"
    unfolding rows_ok_def
  proof
    fix r' assume "r' \<in> set (backups (bw_db s'))"
    then obtain r where r: "r \<in> set (backups (bw_db s))" "r' = (if bk_ID r = i then f r else r)"
      unfolding rows by auto
    with inv obtain t where t: "row_ok s r t" by (auto simp: backup_inv_def rows_ok_def)
    have "row_ok s' r' t"
    proof (cases "t = tid")
      case True
      with t cl have ri: "bk_ID r = i" "bk_FilePath r = p" by (auto simp: row_ok_def)
      from o have "bk_FilePath (f r) = bk_FilePath r" by blast
      with t True r(2) ri cl keys own [OF ri] show ?thesis by (simp add: row_ok_def)
    next
      case False
      from t have "bw_cleanup s t = Some (bk_ID r, bk_FilePath r)" by (simp add: row_ok_def)
      with owner_unique [OF ow this cl(2) False] have "bk_ID r \<noteq> i" "bk_FilePath r \<noteq> p" by blast+
      with t other [OF False] r(2) cl files show ?thesis by (simp add: row_ok_def)
    qed
    then show "\<exists>tid. row_ok s' r' tid" ..
  qed
qed

subsection \<open>Each step keeps the invariant\<close>

lemmas state_defs = cancelled_def cleanup_pending_def

lemma job_owner: "backup_inv s \<Longrightarrow> job_of tid s = Some j \<Longrightarrow> bw_cleanup s tid = Some (j_backup j, j_path j)"
  by (simp add: backup_inv_def owners_ok_def)

lemma one_backup_job:
  assumes "backup_inv s" "job_of tid s = Some j" "\<And>r. bk_ID (f r) = bk_ID r" "\<And>r. bk_FilePath (f r) = bk_FilePath r"
  shows "one_backup tid (j_backup j) (j_path j) f s
           (set_stage tid st (s\<lparr>bw_db := db_UpdateBackup (j_backup j) f (bw_db s), bw_files := (bw_files s)(j_path j := x)\<rparr>))"
  using job_owner [OF assms(1,2)] assms(2-4) by (simp add: one_backup_def rows_update state_defs option.map_ident)

lemma update_nothing: "db_UpdateBackup i (\<lambda>r. r) d = d"
proof -
  have "map (\<lambda>r. if bk_ID r = i then r else r) (backups d) = backups d" by simp
  then show ?thesis by (simp add: db_UpdateBackup_def update_row_def)
qed

lemma job_step:
  assumes "backup_inv s" "job_of tid s = Some j" "\<And>r. bk_ID (f r) = bk_ID r" "\<And>r. bk_FilePath (f r) = bk_FilePath r"
    and "\<And>r. row_state (cancelled s tid) (cleanup_pending s tid) (Some j) (bw_files s (j_path j)) r \<Longrightarrow>
           row_state (cancelled s tid) (cleanup_pending s tid) (Some (j\<lparr>j_stage := st\<rparr>)) x (f r)"
  shows "backup_inv (set_stage tid st (s\<lparr>bw_db := db_UpdateBackup (j_backup j) f (bw_db s),
                                        bw_files := (bw_files s)(j_path j := x)\<rparr>))"
  by (rule one_backup_inv [OF assms(1) one_backup_job [OF assms(1-4)]])
    (use assms in \<open>simp_all add: state_defs backup_inv_def\<close>)

text \<open>The steps without an update of the row, or without one of the file.\<close>

lemma job_step_file:
  assumes "backup_inv s" "job_of tid s = Some j"
    and "\<And>r. row_state (cancelled s tid) (cleanup_pending s tid) (Some j) (bw_files s (j_path j)) r \<Longrightarrow>
           row_state (cancelled s tid) (cleanup_pending s tid) (Some (j\<lparr>j_stage := st\<rparr>)) x r"
  shows "backup_inv (set_stage tid st (s\<lparr>bw_files := (bw_files s)(j_path j := x)\<rparr>))"
  using job_step [OF assms(1,2) refl refl, of st x] assms(3) by (simp add: update_nothing)

lemma job_step_row:
  assumes "backup_inv s" "job_of tid s = Some j" "\<And>r. bk_ID (f r) = bk_ID r" "\<And>r. bk_FilePath (f r) = bk_FilePath r"
    and "\<And>r. row_state (cancelled s tid) (cleanup_pending s tid) (Some j) (bw_files s (j_path j)) r \<Longrightarrow>
           row_state (cancelled s tid) (cleanup_pending s tid) (Some (j\<lparr>j_stage := st\<rparr>)) (bw_files s (j_path j)) (f r)"
  shows "backup_inv (set_stage tid st (s\<lparr>bw_db := db_UpdateBackup (j_backup j) f (bw_db s)\<rparr>))"
proof -
  have "(bw_files s)(j_path j := bw_files s (j_path j)) = bw_files s" by simp
  with job_step [OF assms] show ?thesis by simp
qed

lemma job_failed_inv:
  assumes "backup_inv s" "job_of tid s = Some j" "j_stage j \<in> {Opening, Streaming}"
  shows "backup_inv (job_failed now j msg s)"
proof (cases "cancelled s tid")
  case True
  with job_step_row [OF assms(1,2), of "\<lambda>r. r" "Returned (Some msg)"] job_of_tid [OF assms(2)]
  show ?thesis by (simp add: job_failed_def cancelled_def update_nothing row_state_def)
next
  case False
  have "backup_inv (set_stage tid (Returned (Some msg)) (s\<lparr>bw_db := finishBackup now (j_backup j) 0 (Some msg) (bw_db s)\<rparr>))"
    unfolding finishBackup_def
    by (rule job_step_row [OF assms(1,2)]) (use False assms(3) in \<open>auto simp: row_state_def\<close>)
  with False job_of_tid [OF assms(2)] show ?thesis by (simp add: job_failed_def cancelled_def)
qed

lemma run_open_inv:
  assumes "backup_inv s" "job_of tid s = Some j" "j_stage j = Opening"
  shows "backup_inv (run_open now err j s)"
proof (cases err)
  case None
  have "backup_inv (set_stage tid Streaming (s\<lparr>bw_files := (bw_files s)(j_path j \<mapsto> 0)\<rparr>))"
    by (rule job_step_file [OF assms(1,2)]) (use assms(3) in \<open>auto simp: row_state_def\<close>)
  with None job_of_tid [OF assms(2)] show ?thesis by (simp add: run_open_def)
qed (use job_failed_inv [OF assms(1,2)] assms(3) in \<open>simp add: run_open_def\<close>)

lemma file_written_inv:
  assumes "backup_inv s" "job_of tid s = Some j" "j_stage j = Streaming" "st \<in> {Streaming, Closing}"
  shows "backup_inv (set_stage tid st (s\<lparr>bw_files := (bw_files s)(j_path j := map_option (\<lambda>_. n) (bw_files s (j_path j)))\<rparr>))"
  by (rule job_step_file [OF assms(1,2)]) (use assms(3,4) in \<open>auto simp: row_state_def split: if_splits\<close>)

lemma run_complete_inv:
  assumes "backup_inv s" "job_of tid s = Some j" "j_stage j = Closing"
  shows "backup_inv (run_complete now j s)"
  using job_of_tid [OF assms(2)] unfolding run_complete_def Let_def
  by (simp, intro job_step_row [OF assms(1,2)]) (use assms(3) in \<open>auto simp: row_state_def split: option.splits if_splits\<close>)

lemma file_changed_inv:
  assumes "backup_inv s" "job_of tid s = Some j" "j_stage j = Streaming"
  shows "backup_inv (s\<lparr>bw_files := (bw_files s)(j_path j := map_option (\<lambda>_. n) (bw_files s (j_path j)))\<rparr>)" (is "backup_inv ?s")
proof (rule one_backup_inv [OF assms(1)])
  show "one_backup tid (j_backup j) (j_path j) (\<lambda>r. r) s ?s"
    using job_owner [OF assms(1,2)] by (simp add: one_backup_def state_defs)
  show "tasks_ok (bw_tm ?s)" using assms(1) by (simp add: backup_inv_def)
qed (use assms(2,3) in \<open>auto simp: row_state_def state_defs split: if_splits\<close>)

lemma run_streamed_inv:
  assumes "backup_inv s" "job_of tid s = Some j" "j_stage j = Streaming"
  shows "backup_inv (run_streamed now outcome n j s)"
proof -
  let ?s = "s\<lparr>bw_files := (bw_files s)(j_path j := map_option (\<lambda>_. n) (bw_files s (j_path j)))\<rparr>"
  have "backup_inv (job_failed now j msg ?s)" for msg
    by (rule job_failed_inv [OF file_changed_inv [OF assms]]) (use assms(2,3) in simp_all)
  moreover have "backup_inv (set_stage (j_tid j) Closing ?s)"
    using file_written_inv [OF assms, of Closing] job_of_tid [OF assms(2)] by simp
  ultimately show ?thesis by (simp add: run_streamed_def Let_def split: sum.split)
qed

subsection \<open>Steps of the task manager\<close>

lemma tasks_frame:
  "m_ctxCanceled (broadcast ev m) = m_ctxCanceled m" "m_ctxCanceled (deliver n m) = m_ctxCanceled m"
  "m_ctxCanceled (receive k m) = m_ctxCanceled m" "m_ctxCanceled (Unsubscribe k m) = m_ctxCanceled m"
  "m_ctxCanceled (snd (Subscribe m)) = m_ctxCanceled m" "m_ctxCanceled (CloseManager m) = m_ctxCanceled m"
  by (simp_all add: broadcast_def deliver_def receive_def Unsubscribe_def Subscribe_def CloseManager_def)

definition later :: "TaskManager \<Rightarrow> TaskManager \<Rightarrow> string \<Rightarrow> bool" where
  "later m m' t \<longleftrightarrow>
     (t \<in> set (m_ctxCanceled m') \<longrightarrow> t \<in> set (m_ctxCanceled m) \<or> t \<in> set (m_cleanups m')) \<and>
     (t \<in> set (m_ctxCanceled m) \<longrightarrow> t \<in> set (m_ctxCanceled m')) \<and>
     (t \<in> set (m_cleanups m) \<longrightarrow> t \<in> set (m_cleanups m'))"

lemma act_start [simp]:
  "m_ctxCanceled (Start now t opts m) = m_ctxCanceled m" "m_cleanups (Start now t opts m) = m_cleanups m"
  "m_used (Start now t opts m) = m_used m @ [t]" "dom (m_tasks (Start now t opts m)) = insert t (dom (m_tasks m))"
  by (simp_all add: Start_def Let_def frame_simps tasks_frame)

lemma act_used: "set (m_used m) \<subseteq> set (m_used (act a m))"
  by (cases a) (auto simp: frame_simps Cancel_def Let_def runOnCancel_def updateMessage_def finish_def gcOnce_def
                  split: option.split)

lemma act_later: "(\<And>u. a = AOnCancel u \<Longrightarrow> u \<noteq> t) \<Longrightarrow> later m (act a m) t"
  by (cases a) (auto simp: later_def frame_simps tasks_frame Cancel_def Let_def runOnCancel_def updateMessage_def finish_def
                  gcOnce_def split: option.split)

lemma act_tasks: "k \<in> dom (m_tasks (act a m)) \<Longrightarrow> k \<in> dom (m_tasks m) \<or> k \<in> set (m_used (act a m))"
  by (cases a) (auto simp: frame_simps Cancel_def Let_def runOnCancel_def updateMessage_def finish_def gcOnce_def
                  keep_where_def split: option.splits if_splits)

lemma act_cancelled: "tasks_ok m \<Longrightarrow> set (m_ctxCanceled (act a m)) \<subseteq> set (m_used (act a m))"
  by (cases a) (auto simp: tasks_ok_def frame_simps tasks_frame Cancel_def Let_def runOnCancel_def updateMessage_def
                  finish_def gcOnce_def split: option.split)

lemma act_cleanups: "tasks_ok m \<Longrightarrow> set (m_cleanups (act a m)) \<subseteq> set (m_ctxCanceled (act a m))"
  by (cases a) (auto simp: tasks_ok_def frame_simps tasks_frame Cancel_def Let_def runOnCancel_def updateMessage_def
                  finish_def gcOnce_def dest: notin_set_remove1 split: option.split)

lemma act_tasks_ok: "tasks_ok m \<Longrightarrow> tasks_ok (act a m)"
  using act_tasks [of _ a m] act_used [of m a] act_cancelled [of m a] act_cleanups [of m a] unfolding tasks_ok_def by blast

lemma row_state_later:
  "row_state (t \<in> set (m_ctxCanceled m)) (t \<in> set (m_cleanups m)) j f r \<Longrightarrow> later m m' t \<Longrightarrow>
   row_state (t \<in> set (m_ctxCanceled m')) (t \<in> set (m_cleanups m')) j f r"
  by (auto simp: row_state_def later_def split: if_splits)

lemma tasks_inv:
  assumes inv: "backup_inv s" and later: "\<And>t. bw_cleanup s t \<noteq> None \<Longrightarrow> later (bw_tm s) (act a (bw_tm s)) t"
  shows "backup_inv (s\<lparr>bw_tm := act a (bw_tm s)\<rparr>)" (is "backup_inv ?s")
proof (rule backup_invI)
  from inv have ow: "owners_ok s" by (simp add: backup_inv_def)
  then have "t \<in> set (m_used (act a (bw_tm s)))" if "bw_cleanup s t = Some (i, p)" for t i p
    using that act_used [of "bw_tm s" a] unfolding owners_ok_def by blast
  with ow show "owners_ok ?s" unfolding owners_ok_def by simp
  show "rows_ok ?s"
    unfolding rows_ok_def
  proof
    fix r assume "r \<in> set (backups (bw_db ?s))"
    with inv obtain t where t: "row_ok s r t" by (auto simp: backup_inv_def rows_ok_def)
    then have "bw_cleanup s t \<noteq> None" by (simp add: row_ok_def)
    from row_state_later [OF _ later [OF this]] t have "row_ok ?s r t" by (simp add: row_ok_def state_defs)
    then show "\<exists>t. row_ok ?s r t" ..
  qed
qed (use inv in \<open>simp_all add: backup_inv_def act_tasks_ok\<close>)

lemma foreign_later: "foreign s a \<Longrightarrow> bw_cleanup s t \<noteq> None \<Longrightarrow> later (bw_tm s) (act a (bw_tm s)) t"
  by (rule act_later) auto

subsection \<open>Creating, deleting, cancelling\<close>

lemma create_inv:
  assumes inv: "backup_inv s" and fresh: "ce_tid e \<notin> set (m_used (bw_tm s))" and name: "CHR ''/'' \<notin> set name"
  shows "backup_inv (snd (CreateFullBackup e name inst u note paths s))" (is "backup_inv ?s")
proof (cases "ce_mkdir e")
  case None
  let ?t = "ce_tid e"
  let ?i = "next_row (bw_db s) ''backups''"
  let ?p = "backup_path name ?i (ce_stamp e)"
  let ?mk = "\<lambda>i. \<lparr>bk_ID = i, bk_InstanceID = inst, bk_InstanceName = name, bk_Status = ''running'',
     bk_FilePath = [], bk_Paths = marshal_strings paths, bk_SizeBytes = 0, bk_ErrorMessage = [],
     bk_Note = note, bk_CreatedAt = ce_now e, bk_CompletedAt = None\<rparr>"
  from inv have tab: "table_ok ''backups'' backups bk_ID (bw_db s)" and tm: "tasks_ok (bw_tm s)" and ow: "owners_ok s"
    and rows: "rows_ok s" by (simp_all add: backup_inv_def)
  have old: "bk_ID r < ?i" if "r \<in> set (backups (bw_db s))" for r using tab that by (auto simp: table_ok_def)
  have older: "bk_ID r \<noteq> ?i" if "r \<in> set (backups (bw_db s))" for r using old [OF that] by simp
  have db: "backups (bw_db ?s) = backups (bw_db s) @ [(?mk ?i)\<lparr>bk_FilePath := ?p\<rparr>]"
    "next_row (bw_db ?s) = (next_row (bw_db s))(''backups'' := ?i + 1)"
    using None older by (auto simp: CreateFullBackup_def Let_def create_row_def rows_update intro!: map_idI)
  have rest: "bw_files ?s = bw_files s" "bw_cleanup ?s = (bw_cleanup s)(?t \<mapsto> (?i, ?p))"
    "\<exists>opts. bw_tm ?s = Start (ce_now e) ?t opts (bw_tm s)"
    "bw_jobs ?s = bw_jobs s @ [\<lparr>j_tid = ?t, j_backup = ?i, j_path = ?p, j_paths = ResolvePaths (slice paths), j_stage = Opening\<rparr>]"
    using None by (auto simp: CreateFullBackup_def Let_def create_row_def)
  then obtain opts where m: "bw_tm ?s = Start (ce_now e) ?t opts (bw_tm s)" by blast
  have unowned: "bw_cleanup s ?t = None" using ow fresh unfolding owners_ok_def by (metis not_None_eq surj_pair)
  then have nojob: "job_of ?t s = None" using ow unfolding owners_ok_def by (metis not_None_eq option.distinct(1))
  have jobs: "job_of t ?s = (if t = ?t then Some \<lparr>j_tid = ?t, j_backup = ?i, j_path = ?p, j_paths = ResolvePaths (slice paths),
      j_stage = Opening\<rparr> else job_of t s)" for t
    using nojob by (auto simp: job_of_def rest(4) find_append split: option.split)
  show ?thesis
  proof (rule backup_invI)
    show "table_ok ''backups'' backups bk_ID (bw_db ?s)"
      using tab older old [THEN less_SucI] by (auto simp: table_ok_def db simp flip: not_less)
    show "tasks_ok (bw_tm ?s)" using tm by (auto simp: tasks_ok_def m)
    have "archive_path ?i ?p" using name by (auto simp: archive_path_def)
    moreover have "i < ?i" if "bw_cleanup s t = Some (i, p)" for t i p using ow that unfolding owners_ok_def by blast
    ultimately show "owners_ok ?s"
      using ow unowned unfolding owners_ok_def rest(2) jobs db(2) m act_start
      by (auto simp: less_Suc_eq split: if_splits)
    show "rows_ok ?s"
      unfolding rows_ok_def
    proof
      fix r assume "r \<in> set (backups (bw_db ?s))"
      then consider "r \<in> set (backups (bw_db s))" | "r = (?mk ?i)\<lparr>bk_FilePath := ?p\<rparr>" by (auto simp: db)
      then show "\<exists>t. row_ok ?s r t"
      proof cases
        case 1
        with rows obtain t where t: "row_ok s r t" by (auto simp: rows_ok_def)
        with unowned have "t \<noteq> ?t" by (auto simp: row_ok_def)
        with t have "row_ok ?s r t" by (simp add: row_ok_def rest jobs state_defs m)
        then show ?thesis ..
      next
        case 2
        have "?t \<notin> set (m_ctxCanceled (bw_tm s))" using tm fresh by (auto simp: tasks_ok_def)
        with 2 have "row_ok ?s r ?t" by (simp add: row_ok_def rest jobs state_defs m row_state_def)
        then show ?thesis ..
      qed
    qed
  qed
qed (use inv in \<open>simp add: CreateFullBackup_def\<close>)

lemma delete_inv:
  assumes inv: "backup_inv s"
  shows "backup_inv (snd (DeleteBackup rm i s))" (is "backup_inv ?s")
proof (cases "?s = s")
  case False
  from inv have tab: "table_ok ''backups'' backups bk_ID (bw_db s)" and tm: "tasks_ok (bw_tm s)" and ow: "owners_ok s"
    and rows: "rows_ok s" by (simp_all add: backup_inv_def)
  from False obtain b where b: "GetBackup i (bw_db s) = Some b"
    and eq: "?s = s\<lparr>bw_files := (if bk_FilePath b \<noteq> [] then (bw_files s)(bk_FilePath b := None) else bw_files s),
                   bw_db := DeleteBackupRecord (bk_ID b) (bw_db s)\<rparr>"
    by (auto simp: DeleteBackup_def split: option.splits if_splits)
  from b have bm: "b \<in> set (backups (bw_db s))" unfolding GetBackup_def by (auto dest: backups_tab.first_mem)
  then obtain tb where tb: "row_ok s b tb" using rows by (auto simp: rows_ok_def)
  have db: "backups (bw_db ?s) = filter (\<lambda>r. bk_ID r \<noteq> bk_ID b) (backups (bw_db s))"
    "next_row (bw_db ?s) = next_row (bw_db s)" unfolding eq by (auto simp: DeleteBackupRecord_def delete_row_def)
  have same: "bw_cleanup ?s = bw_cleanup s" "bw_tm ?s = bw_tm s" "job_of t ?s = job_of t s" for t
    unfolding eq by (simp_all add: job_of_def)
  show ?thesis
  proof (rule backup_invI)
    show "table_ok ''backups'' backups bk_ID (bw_db ?s)"
      using backups_tab.delete_ok [OF tab, of "bk_ID b"] unfolding eq by (simp add: DeleteBackupRecord_def)
    show "tasks_ok (bw_tm ?s)" using tm same by simp
    show "owners_ok ?s" using ow unfolding owners_ok_def same db .
    show "rows_ok ?s"
      unfolding rows_ok_def
    proof
      fix r assume "r \<in> set (backups (bw_db ?s))"
      then have r: "r \<in> set (backups (bw_db s))" "bk_ID r \<noteq> bk_ID b" by (auto simp: db)
      with rows obtain t where t: "row_ok s r t" by (auto simp: rows_ok_def)
      with tb r(2) have "t \<noteq> tb" by (auto simp: row_ok_def)
      with t tb owner_unique [OF ow] have "bk_FilePath r \<noteq> bk_FilePath b" unfolding row_ok_def by blast
      then have "bw_files ?s (bk_FilePath r) = bw_files s (bk_FilePath r)" unfolding eq by simp
      with t have "row_ok ?s r t" by (simp add: row_ok_def same state_defs)
      then show "\<exists>t. row_ok ?s r t" ..
    qed
  qed
qed (use inv in simp)

lemma on_cancel_inv:
  assumes inv: "backup_inv s" and pending: "tid \<in> set (m_cleanups (bw_tm s))" and c: "bw_cleanup s tid = Some (i, p)"
  shows "backup_inv (backupOnCancel now i p (s\<lparr>bw_tm := act (AOnCancel tid) (bw_tm s)\<rparr>))" (is "backup_inv ?s")
proof (rule one_backup_inv [OF inv])
  have m: "set (m_cleanups (runOnCancel tid (bw_tm s))) - {tid} = set (m_cleanups (bw_tm s)) - {tid}"
    "m_ctxCanceled (runOnCancel tid (bw_tm s)) = m_ctxCanceled (bw_tm s)"
    "m_used (runOnCancel tid (bw_tm s)) = m_used (bw_tm s)"
    using in_set_remove1 [of _ tid "m_cleanups (bw_tm s)"] by (auto simp: runOnCancel_def)
  show "one_backup tid i p (\<lambda>b. b\<lparr>bk_Status := ''canceled'', bk_ErrorMessage := ''canceled by user'',
      bk_CompletedAt := Some now, bk_SizeBytes := 0\<rparr>) s ?s"
    using c m by (auto simp: one_backup_def backupOnCancel_def rows_update state_defs)
  show "tasks_ok (bw_tm ?s)" using inv act_tasks_ok [of "bw_tm s" "AOnCancel tid"] by (simp add: backup_inv_def backupOnCancel_def)
  from inv pending have "tid \<in> set (m_ctxCanceled (bw_tm s))" by (auto simp: backup_inv_def tasks_ok_def)
  then show "row_state (cancelled ?s tid) (cleanup_pending ?s tid) (job_of tid ?s) (bw_files ?s p)
      (r\<lparr>bk_Status := ''canceled'', bk_ErrorMessage := ''canceled by user'', bk_CompletedAt := Some now, bk_SizeBytes := 0\<rparr>)" for r
    by (simp add: row_state_def state_defs backupOnCancel_def m)
qed

lemma others_inv:
  assumes "backup_inv s" "backups d = backups (bw_db s)" "next_row d ''backups'' = next_row (bw_db s) ''backups''"
  shows "backup_inv (s\<lparr>bw_db := d\<rparr>)"
  using assms by (simp add: backup_inv_def table_ok_def owners_ok_def rows_ok_def row_ok_def state_defs)

theorem backup_step_inv: "backup_step s s' \<Longrightarrow> backup_inv s \<Longrightarrow> backup_inv s'"
proof (induction rule: backup_step.induct)
  case (returned tid s j e now)
  show ?case by (rule tasks_inv [OF returned.prems act_later]) simp
next
  case (tasks s a)
  then show ?case by (intro tasks_inv foreign_later)
qed (simp_all add: create_inv run_open_inv run_streamed_inv run_complete_inv on_cancel_inv delete_inv others_inv
      del: act.simps)

section \<open>Every reachable state\<close>

definition no_backups :: "backup_state \<Rightarrow> bool" where
  "no_backups s \<longleftrightarrow> backups (bw_db s) = [] \<and> bw_jobs s = [] \<and> bw_cleanup s = Map.empty \<and> tasks_ok (bw_tm s)"

lemma backup_run_inv: "backup_step\<^sup>*\<^sup>* s0 s \<Longrightarrow> no_backups s0 \<Longrightarrow> backup_inv s"
proof (induction rule: rtranclp_induct)
  case base
  then show ?case by (auto simp: no_backups_def table_ok_def owners_ok_def rows_ok_def job_of_def)
qed (use backup_step_inv in blast)

text \<open>C31: However creations, the jobs' own steps, cancellations, cleanups, deletions and the other tasks
  interleave, each row has its task, and its status tells the truth about it: a backup that is
  completed and was not cancelled has its archive on disk, with the recorded size; one that is
  running has a job that is still at work or a cancellation whose cleanup is due, so that none stays
  running for ever once its task has ended.\<close>

theorem backup_status_truthful:
  assumes "no_backups s0" and "backup_step\<^sup>*\<^sup>* s0 s" and "b \<in> set (backups (bw_db s))"
  shows "\<exists>tid. bw_cleanup s tid = Some (bk_ID b, bk_FilePath b) \<and>
     (if tid \<in> set (m_ctxCanceled (bw_tm s))
      then tid \<in> set (m_cleanups (bw_tm s)) \<or> bk_Status b = ''canceled'' \<or> bk_Status b = ''completed''
      else if bk_Status b = ''completed'' then bw_files s (bk_FilePath b) = Some (bk_SizeBytes b)
      else bk_Status b = ''failed'' \<or>
           bk_Status b = ''running'' \<and> (\<exists>j. job_of tid s = Some j \<and> j_stage j \<in> {Opening, Streaming, Closing}))"
proof -
  from backup_run_inv [OF assms(2,1)] assms(3) obtain tid where tid: "row_ok s b tid"
    by (auto simp: backup_inv_def rows_ok_def)
  then have "bw_cleanup s tid = Some (bk_ID b, bk_FilePath b) \<and>
     (if tid \<in> set (m_ctxCanceled (bw_tm s))
      then tid \<in> set (m_cleanups (bw_tm s)) \<or> bk_Status b = ''canceled'' \<or> bk_Status b = ''completed''
      else if bk_Status b = ''completed'' then bw_files s (bk_FilePath b) = Some (bk_SizeBytes b)
      else bk_Status b = ''failed'' \<or>
           bk_Status b = ''running'' \<and> (\<exists>j. job_of tid s = Some j \<and> j_stage j \<in> {Opening, Streaming, Closing}))"
    by (auto simp: row_ok_def row_state_def state_defs split: option.splits stage.splits if_splits)
  then show ?thesis ..
qed

definition demo_env :: create_env where
  "demo_env = \<lparr>ce_now = 0, ce_stamp = ''now'', ce_tid = ''t'', ce_mkdir = None\<rparr>"

definition demo_start :: backup_state where
  "demo_start = \<lparr>bw_db = empty_db, bw_files = Map.empty, bw_tm = NewManager 0 0, bw_jobs = [], bw_cleanup = Map.empty\<rparr>"

lemma demo_start_empty: "no_backups demo_start"
  by (simp add: demo_start_def no_backups_def empty_db_def NewManager_def tasks_ok_def)

definition demo_created :: backup_state where
  "demo_created = snd (CreateFullBackup demo_env ''bot'' 1 1 [] None demo_start)"

lemma demo_created_step: "backup_step demo_start demo_created"
  unfolding demo_created_def
  by (rule backup_step.create) (simp_all add: demo_start_def NewManager_def demo_env_def)

lemma demo_created_run: "backup_step\<^sup>*\<^sup>* demo_start demo_created"
  using demo_created_step by blast

lemma demo_job: "job_of ''t'' demo_created = Some \<lparr>j_tid = ''t'', j_backup = 1, j_path = ''bot/bot-1-now.tar.gz'',
    j_paths = [''/home/claworc''], j_stage = Opening\<rparr>"
  by code_simp

theorem backup_status_truthful_witness:
  "\<exists>tid. bw_cleanup demo_created tid = Some (1, ''bot/bot-1-now.tar.gz'')"
proof -
  have "(hd (backups (bw_db demo_created))) \<in> set (backups (bw_db demo_created))
    \<and> bk_ID (hd (backups (bw_db demo_created))) = 1
    \<and> bk_FilePath (hd (backups (bw_db demo_created))) = ''bot/bot-1-now.tar.gz''" by code_simp
  then show ?thesis
    using backup_status_truthful [OF demo_start_empty demo_created_run,
      of "hd (backups (bw_db demo_created))"] by auto
qed

text \<open>The cancellation is carried out by another goroutine than the job, and nothing makes it wait for the
  job: it may remove the archive and mark the row after tar's output is complete and before the job
  marks the row.\<close>

definition demo_streamed :: backup_state where
  "demo_streamed =
     (let s1 = run_open 0 None (the (job_of ''t'' demo_created)) demo_created
      in run_streamed 0 (Inr ([], 0)) 7 (the (job_of ''t'' s1)) s1)"

definition demo_cancelled :: backup_state where
  "demo_cancelled =
     (let s1 = demo_streamed\<lparr>bw_tm := act (ACancel ''t'') (bw_tm demo_streamed)\<rparr>
      in backupOnCancel 0 1 ''bot/bot-1-now.tar.gz'' (s1\<lparr>bw_tm := act (AOnCancel ''t'') (bw_tm s1)\<rparr>))"

definition demo_raced :: backup_state where
  "demo_raced = run_complete 0 (the (job_of ''t'' demo_cancelled)) demo_cancelled"

lemma demo_streamed_run: "backup_step\<^sup>*\<^sup>* demo_start demo_streamed"
proof -
  let ?s1 = "run_open 0 None (the (job_of ''t'' demo_created)) demo_created"
  have 1: "backup_step demo_created ?s1" by (rule backup_step.opened [where tid = "''t''"]) (simp_all add: demo_job)
  have "job_of ''t'' ?s1 = Some \<lparr>j_tid = ''t'', j_backup = 1, j_path = ''bot/bot-1-now.tar.gz'',
    j_paths = [''/home/claworc''], j_stage = Streaming\<rparr>" by code_simp
  then have "backup_step ?s1 demo_streamed" unfolding demo_streamed_def Let_def
    by (intro backup_step.streamed [where tid = "''t''"]) simp_all
  with demo_created_step 1 show ?thesis by (meson converse_rtranclp_into_rtranclp rtranclp.rtrancl_refl)
qed

lemma demo_raced_run: "backup_step\<^sup>*\<^sup>* demo_streamed demo_raced"
proof -
  let ?s1 = "demo_streamed\<lparr>bw_tm := act (ACancel ''t'') (bw_tm demo_streamed)\<rparr>"
  have 1: "backup_step demo_streamed ?s1" by (rule backup_step.tasks) simp
  have "''t'' \<in> set (m_cleanups (bw_tm ?s1)) \<and> bw_cleanup ?s1 ''t'' = Some (1, ''bot/bot-1-now.tar.gz'')" by code_simp
  then have 2: "backup_step ?s1 demo_cancelled" unfolding demo_cancelled_def Let_def by (blast intro: backup_step.on_cancel)
  have "job_of ''t'' demo_cancelled = Some \<lparr>j_tid = ''t'', j_backup = 1, j_path = ''bot/bot-1-now.tar.gz'',
    j_paths = [''/home/claworc''], j_stage = Closing\<rparr>" by code_simp
  then have "backup_step demo_cancelled demo_raced" unfolding demo_raced_def
    by (intro backup_step.closed [where tid = "''t''"]) simp_all
  with 1 2 show ?thesis by (meson converse_rtranclp_into_rtranclp rtranclp.rtrancl_refl)
qed

text \<open>A run in which a backup that its user cancelled ends as completed, with the cancellation's message
  and without its archive.\<close>

theorem cancelled_backup_ends_completed:
  "\<exists>s b. backup_step\<^sup>*\<^sup>* demo_start s \<and> backups (bw_db s) = [b] \<and> bk_Status b = ''completed'' \<and>
     bk_ErrorMessage b = ''canceled by user'' \<and> bk_SizeBytes b = 0 \<and> bw_files s (bk_FilePath b) = None"
proof -
  have "\<exists>b. backups (bw_db demo_raced) = [b] \<and> bk_Status b = ''completed'' \<and> bk_ErrorMessage b = ''canceled by user'' \<and>
      bk_SizeBytes b = 0 \<and> bw_files demo_raced (bk_FilePath b) = None"
    by (rule exI [of _ "hd (backups (bw_db demo_raced))"]) code_simp
  with rtranclp_trans [OF demo_streamed_run demo_raced_run] show ?thesis by blast
qed

section \<open>One backup from start to end\<close>

text \<open>The body of the task, with no other step in between; what the file system and the container answer
  is given.\<close>

record run_env =
  re_now :: gtime
  re_create :: "string option"
  re_exec :: "string + string \<times> nat"
  re_size :: int

definition run_if :: "stage \<Rightarrow> string \<Rightarrow> (job \<Rightarrow> backup_state \<Rightarrow> backup_state) \<Rightarrow> backup_state \<Rightarrow> backup_state" where
  "run_if st tid f s = (case job_of tid s of None \<Rightarrow> s | Some j \<Rightarrow> if j_stage j = st then f j s else s)"

definition runFullBackup :: "run_env \<Rightarrow> string \<Rightarrow> backup_state \<Rightarrow> backup_state" where
  "runFullBackup r tid s =
     run_if Closing tid (run_complete (re_now r))
       (run_if Streaming tid (run_streamed (re_now r) (re_exec r) (re_size r))
          (run_if Opening tid (run_open (re_now r) (re_create r)) s))"

definition backup_failure :: "run_env \<Rightarrow> string option" where
  "backup_failure r =
     (case re_create r of
        Some msg \<Rightarrow> Some (''create file: '' @ msg)
      | None \<Rightarrow>
          (case re_exec r of
             Inl msg \<Rightarrow> Some (''stream exec: '' @ msg)
           | Inr (stderr, code) \<Rightarrow>
               if 1 < code then Some (''tar exited with code '' @ show_nat code @ '': '' @ stderr) else None))"

lemma get_update:
  "(\<And>r. bk_ID (f r) = bk_ID r) \<Longrightarrow>
   GetBackup j (db_UpdateBackup i f d) = map_option (\<lambda>r. if j = i then f r else r) (GetBackup j d)"
  unfolding GetBackup_def db_UpdateBackup_def by (rule backups_tab.first_update)

lemmas run_defs = run_if_def run_open_def run_streamed_def run_complete_def job_failed_def finishBackup_def Let_def

lemma run_full_row:
  assumes "job_of tid s = Some j" "j_stage j = Opening" "tid \<notin> set (m_ctxCanceled (bw_tm s))"
  shows "GetBackup (j_backup j) (bw_db (runFullBackup r tid s)) = map_option
      (\<lambda>b. case backup_failure r of
             None \<Rightarrow> b\<lparr>bk_Status := ''completed'', bk_SizeBytes := re_size r, bk_CompletedAt := Some (re_now r)\<rparr>
           | Some msg \<Rightarrow> b\<lparr>bk_Status := ''failed'', bk_SizeBytes := 0, bk_ErrorMessage := msg, bk_CompletedAt := Some (re_now r)\<rparr>)
      (GetBackup (j_backup j) (bw_db s))"
proof (cases "re_create r")
  case None
  show ?thesis
  proof (cases "re_exec r")
    case (Inr p)
    with None show ?thesis
      using assms(2,3) job_of_tid [OF assms(1)]
      by (cases p; cases "1 < snd p") (simp_all add: runFullBackup_def backup_failure_def run_defs assms(1) get_update)
  qed (use None assms(2,3) job_of_tid [OF assms(1)] in
        \<open>simp add: runFullBackup_def backup_failure_def run_defs assms(1) get_update\<close>)
qed (use assms(2,3) job_of_tid [OF assms(1)] in
      \<open>simp add: runFullBackup_def backup_failure_def run_defs assms(1) get_update\<close>)

lemma run_full_file:
  assumes "job_of tid s = Some j" "j_stage j = Opening"
  shows "bw_files (runFullBackup r tid s) =
     (if re_create r = None then (bw_files s)(j_path j \<mapsto> re_size r) else bw_files s)"
proof (cases "re_create r")
  case None
  show ?thesis
  proof (cases "re_exec r")
    case (Inr p)
    with None show ?thesis
      using assms(2) job_of_tid [OF assms(1)]
      by (cases p; cases "1 < snd p") (simp_all add: runFullBackup_def run_defs assms(1))
  qed (use None assms(2) job_of_tid [OF assms(1)] in \<open>simp add: runFullBackup_def run_defs assms(1)\<close>)
qed (use assms(2) job_of_tid [OF assms(1)] in \<open>simp add: runFullBackup_def run_defs assms(1)\<close>)

lemma created_row:
  fixes e name inst u nt paths
  assumes inv: "backup_inv s" and "ce_mkdir e = None" "ce_tid e \<notin> set (m_used (bw_tm s))"
  defines "i \<equiv> next_row (bw_db s) ''backups''" and "s1 \<equiv> snd (CreateFullBackup e name inst u nt paths s)"
  shows "fst (CreateFullBackup e name inst u nt paths s) = Inr i"
    and "GetBackup i (bw_db s1) = Some \<lparr>bk_ID = i, bk_InstanceID = inst, bk_InstanceName = name, bk_Status = ''running'',
       bk_FilePath = backup_path name i (ce_stamp e), bk_Paths = marshal_strings paths, bk_SizeBytes = 0, bk_ErrorMessage = [],
       bk_Note = nt, bk_CreatedAt = ce_now e, bk_CompletedAt = None\<rparr>"
    and "job_of (ce_tid e) s1 = Some \<lparr>j_tid = ce_tid e, j_backup = i, j_path = backup_path name i (ce_stamp e),
       j_paths = ResolvePaths (slice paths), j_stage = Opening\<rparr>"
    and "bw_files s1 = bw_files s" and "m_ctxCanceled (bw_tm s1) = m_ctxCanceled (bw_tm s)"
proof -
  from inv have tab: "table_ok ''backups'' backups bk_ID (bw_db s)" and ow: "owners_ok s" by (simp_all add: backup_inv_def)
  show "fst (CreateFullBackup e name inst u nt paths s) = Inr i"
    using assms(2) by (simp add: CreateFullBackup_def Let_def create_row_def i_def)
  have "job_of (ce_tid e) s = None"
    using ow assms(3) unfolding owners_ok_def by (metis not_None_eq)
  then show "job_of (ce_tid e) s1 = Some \<lparr>j_tid = ce_tid e, j_backup = i, j_path = backup_path name i (ce_stamp e),
       j_paths = ResolvePaths (slice paths), j_stage = Opening\<rparr>"
    using assms(2) by (simp add: s1_def CreateFullBackup_def Let_def create_row_def job_of_def find_append i_def)
  show "bw_files s1 = bw_files s" "m_ctxCanceled (bw_tm s1) = m_ctxCanceled (bw_tm s)"
    using assms(2) by (simp_all add: s1_def CreateFullBackup_def Let_def create_row_def)
  show "GetBackup i (bw_db s1) = Some \<lparr>bk_ID = i, bk_InstanceID = inst, bk_InstanceName = name, bk_Status = ''running'',
       bk_FilePath = backup_path name i (ce_stamp e), bk_Paths = marshal_strings paths, bk_SizeBytes = 0, bk_ErrorMessage = [],
       bk_Note = nt, bk_CreatedAt = ce_now e, bk_CompletedAt = None\<rparr>"
    using assms(2) backups_tab.first_create [OF tab] backups_tab.id_create
    by (simp add: s1_def CreateFullBackup_def Let_def case_prod_beta get_update i_def GetBackup_def [symmetric])
qed

text \<open>C33: A backup that nothing disturbs: the answer is its id, and at the end its row says what happened: the
  archive's size, or the failure of creating the file, of the container's exec, or of tar's exit code
  above 1.  Exit code 1 counts as success.\<close>

theorem full_backup_outcome:
  assumes "no_backups s0" and "backup_step\<^sup>*\<^sup>* s0 s" and "ce_mkdir e = None" and "ce_tid e \<notin> set (m_used (bw_tm s))"
  shows "\<exists>i s1. CreateFullBackup e name inst u nt paths s = (Inr i, s1) \<and>
     GetBackup i (bw_db (runFullBackup r (ce_tid e) s1)) = Some
       \<lparr>bk_ID = i, bk_InstanceID = inst, bk_InstanceName = name,
        bk_Status = (if backup_failure r = None then ''completed'' else ''failed''),
        bk_FilePath = backup_path name i (ce_stamp e), bk_Paths = marshal_strings paths,
        bk_SizeBytes = (if backup_failure r = None then re_size r else 0),
        bk_ErrorMessage = (case backup_failure r of None \<Rightarrow> [] | Some msg \<Rightarrow> msg),
        bk_Note = nt, bk_CreatedAt = ce_now e, bk_CompletedAt = Some (re_now r)\<rparr> \<and>
     bw_files (runFullBackup r (ce_tid e) s1) =
       (if re_create r = None then (bw_files s)(backup_path name i (ce_stamp e) \<mapsto> re_size r) else bw_files s)"
proof -
  let ?c = "CreateFullBackup e name inst u nt paths s"
  from backup_run_inv [OF assms(2,1)] have inv: "backup_inv s" .
  note made = created_row [OF inv assms(3,4), of name inst u nt paths]
  from inv assms(4) have "ce_tid e \<notin> set (m_ctxCanceled (bw_tm (snd ?c)))"
    by (auto simp: made(5) backup_inv_def tasks_ok_def)
  from run_full_row [OF made(3) _ this, of r] run_full_file [OF made(3), of r] made
  show ?thesis
    by (intro exI [of _ "next_row (bw_db s) ''backups''"] exI [of _ "snd ?c"])
      (auto simp: prod_eq_iff split: option.splits)
qed

theorem full_backup_outcome_witness:
  "\<exists>i s1. CreateFullBackup demo_env ''bot'' 1 1 [] None demo_start = (Inr i, s1) \<and>
     map_option bk_Status (GetBackup i (bw_db (runFullBackup \<lparr>re_now = 5, re_create = None, re_exec = Inr ([], 1), re_size = 7\<rparr>
       (ce_tid demo_env) s1))) = Some ''completed''"
proof -
  have "ce_mkdir demo_env = None" "ce_tid demo_env \<notin> set (m_used (bw_tm demo_start))"
    by (simp_all add: demo_env_def demo_start_def NewManager_def)
  from full_backup_outcome [OF demo_start_empty rtranclp.rtrancl_refl this, of "''bot''" 1 1 "[]" None
      "\<lparr>re_now = 5, re_create = None, re_exec = Inr ([], 1), re_size = 7\<rparr>"]
  show ?thesis by (fastforce simp: backup_failure_def)
qed

section \<open>Retention\<close>

definition retention_due :: "gtime \<Rightarrow> db \<Rightarrow> BackupSchedule \<Rightarrow> Backup \<Rightarrow> bool" where
  "retention_due now d b k \<longleftrightarrow>
     0 < bs_RetentionDays b \<and>
     (case resolveScheduleInstances b d of None \<Rightarrow> False | Some ids \<Rightarrow> bk_InstanceID k \<in> set ids) \<and>
     bk_Note k = ''scheduled'' \<and> bk_Status k = ''completed'' \<and> bk_CreatedAt k < now - days (bs_RetentionDays b)"

lemma delete_backup_rows:
  "backups (bw_db (snd (DeleteBackup (\<lambda>_. None) i s))) = filter (\<lambda>r. bk_ID r \<noteq> i) (backups (bw_db s))"
proof (cases "GetBackup i (bw_db s)")
  case None
  then have "filter (\<lambda>r. bk_ID r \<noteq> i) (backups (bw_db s)) = backups (bw_db s)"
    by (auto simp: GetBackup_def first_row_def find_None_iff filter_id_conv)
  with None show ?thesis by (simp add: DeleteBackup_def)
next
  case (Some b)
  then have "bk_ID b = i" unfolding GetBackup_def by (auto dest: backups_tab.first_mem)
  with Some show ?thesis by (simp add: DeleteBackup_def DeleteBackupRecord_def delete_row_def)
qed

lemma delete_backup_frame:
  "backup_schedules (bw_db (snd (DeleteBackup rm i s))) = backup_schedules (bw_db s)"
  "instances (bw_db (snd (DeleteBackup rm i s))) = instances (bw_db s)"
  by (auto simp: DeleteBackup_def DeleteBackupRecord_def delete_row_def split: option.split)

lemma resolve_frame: "instances d' = instances d \<Longrightarrow> resolveScheduleInstances b d' = resolveScheduleInstances b d"
  by (simp add: resolveScheduleInstances_def Let_def split: option.split)

lemma delete_backups_rows:
  "backups (bw_db (fold (\<lambda>k s. snd (DeleteBackup (\<lambda>_. None) (bk_ID k) s)) ks s))
     = filter (\<lambda>r. bk_ID r \<notin> bk_ID ` set ks) (backups (bw_db s)) \<and>
   backup_schedules (bw_db (fold (\<lambda>k s. snd (DeleteBackup (\<lambda>_. None) (bk_ID k) s)) ks s)) = backup_schedules (bw_db s) \<and>
   instances (bw_db (fold (\<lambda>k s. snd (DeleteBackup (\<lambda>_. None) (bk_ID k) s)) ks s)) = instances (bw_db s)"
  by (induction ks arbitrary: s) (auto simp: delete_backup_rows delete_backup_frame intro: filter_cong)

lemma distinct_key: "distinct (map f xs) \<Longrightarrow> x \<in> set xs \<Longrightarrow> y \<in> set xs \<Longrightarrow> f x = f y \<longleftrightarrow> x = y"
  by (auto simp: distinct_map dest: inj_onD)

lemma cleanup_schedule_rows:
  assumes "distinct (map bk_ID (backups (bw_db s)))"
  shows "backups (bw_db (cleanupExpiredForSchedule (\<lambda>_. None) now b s))
           = filter (\<lambda>k. \<not> retention_due now (bw_db s) b k) (backups (bw_db s)) \<and>
         backup_schedules (bw_db (cleanupExpiredForSchedule (\<lambda>_. None) now b s)) = backup_schedules (bw_db s) \<and>
         instances (bw_db (cleanupExpiredForSchedule (\<lambda>_. None) now b s)) = instances (bw_db s)"
proof (cases "0 < bs_RetentionDays b \<and> (\<exists>ids. resolveScheduleInstances b (bw_db s) = Some ids \<and> ids \<noteq> [])")
  case True
  then obtain ids where ids: "0 < bs_RetentionDays b" "resolveScheduleInstances b (bw_db s) = Some ids" "ids \<noteq> []" by blast
  let ?ks = "filter (\<lambda>k. bk_InstanceID k \<in> set ids \<and> bk_Note k = ''scheduled'' \<and> bk_Status k = ''completed''
      \<and> bk_CreatedAt k < now - days (bs_RetentionDays b)) (backups (bw_db s))"
  have "cleanupExpiredForSchedule (\<lambda>_. None) now b s = fold (\<lambda>k s. snd (DeleteBackup (\<lambda>_. None) (bk_ID k) s)) ?ks s"
    using ids by (simp add: cleanupExpiredForSchedule_def Let_def)
  moreover have mem: "bk_ID r \<in> bk_ID ` set ?ks \<longleftrightarrow> retention_due now (bw_db s) b r" if "r \<in> set (backups (bw_db s))" for r
    using that ids distinct_key [OF assms that] by (auto simp: retention_due_def)
  have "filter (\<lambda>r. bk_ID r \<notin> bk_ID ` set ?ks) (backups (bw_db s))
      = filter (\<lambda>k. \<not> retention_due now (bw_db s) b k) (backups (bw_db s))"
    by (rule filter_cong [OF refl]) (use mem in blast)
  ultimately show ?thesis using delete_backups_rows [of ?ks s] by simp
next
  case False
  then have "\<not> retention_due now (bw_db s) b k" for k by (auto simp: retention_due_def split: option.splits)
  moreover from False have "cleanupExpiredForSchedule (\<lambda>_. None) now b s = s"
    by (auto simp: cleanupExpiredForSchedule_def split: option.split)
  ultimately show ?thesis by simp
qed

lemma cleanup_schedules_rows:
  "distinct (map bk_ID (backups (bw_db s))) \<Longrightarrow> instances (bw_db s) = instances d \<Longrightarrow>
   backups (bw_db (fold (cleanupExpiredForSchedule (\<lambda>_. None) now) bs s))
     = filter (\<lambda>k. \<not> (\<exists>b \<in> set bs. retention_due now d b k)) (backups (bw_db s))"
proof (induction bs arbitrary: s)
  case (Cons b bs)
  let ?s = "cleanupExpiredForSchedule (\<lambda>_. None) now b s"
  note c = cleanup_schedule_rows [OF Cons.prems(1), of now b]
  have due: "retention_due now (bw_db s) = retention_due now d"
    using Cons.prems(2) by (intro ext) (simp add: retention_due_def resolve_frame [of "bw_db s" d])
  have "distinct (map bk_ID (backups (bw_db ?s)))" using c Cons.prems(1) by (auto simp: distinct_map intro: inj_on_subset)
  from Cons.IH [OF this] c Cons.prems(2) show ?case by (auto simp: due intro: filter_cong)
qed simp

text \<open>C35: When no file resists, a retention run deletes exactly the scheduled, completed backups that are older
  than the retention of some schedule that covers their instance.  That schedule need not be the one
  that made the backup: of two schedules over the same instance the shorter retention decides.\<close>

theorem retention_deletes_exactly:
  assumes "distinct (map bk_ID (backups (bw_db s)))"
  shows "backups (bw_db (runRetentionCleanup (\<lambda>_. None) now s))
     = filter (\<lambda>k. \<not> (\<exists>b \<in> set (backup_schedules (bw_db s)). retention_due now (bw_db s) b k)) (backups (bw_db s))"
  using cleanup_schedules_rows [OF assms refl, of now "db_ListBackupSchedules (bw_db s)"]
  by (simp add: runRetentionCleanup_def db_ListBackupSchedules_def newest_first_def)

definition demo_retention :: backup_state where
  "demo_retention =
     demo_start\<lparr>bw_db := empty_db\<lparr>
       instances := [zero_instance\<lparr>inst_ID := 7\<rparr>],
       backup_schedules := [
         \<lparr>bs_ID = 1, bs_InstanceIDs = ''ALL'', bs_TeamIDs = [], bs_CronExpression = [], bs_Paths = [], bs_RetentionDays = 365,
          bs_LastRunAt = None, bs_NextRunAt = None, bs_CreatedAt = 0\<rparr>,
         \<lparr>bs_ID = 2, bs_InstanceIDs = ''ALL'', bs_TeamIDs = [], bs_CronExpression = [], bs_Paths = [], bs_RetentionDays = 1,
          bs_LastRunAt = None, bs_NextRunAt = None, bs_CreatedAt = 0\<rparr>],
       backups := [\<lparr>bk_ID = 3, bk_InstanceID = 7, bk_InstanceName = [], bk_Status = ''completed'', bk_FilePath = [],
         bk_Paths = [], bk_SizeBytes = 0, bk_ErrorMessage = [], bk_Note = ''scheduled'', bk_CreatedAt = 0, bk_CompletedAt = None\<rparr>]\<rparr>\<rparr>"

theorem retention_deletes_exactly_witness:
  "backups (bw_db (runRetentionCleanup (\<lambda>_. None) (days 2) demo_retention)) = []"
proof -
  have d: "distinct (map bk_ID (backups (bw_db demo_retention)))" by (simp add: demo_retention_def)
  have due: "list_all (\<lambda>k. list_ex (\<lambda>b. retention_due (days 2) (bw_db demo_retention) b k) (backup_schedules (bw_db demo_retention)))
      (backups (bw_db demo_retention))" by code_simp
  show ?thesis
    unfolding retention_deletes_exactly [OF d] filter_empty_conv
    using due unfolding list_all_iff list_ex_iff by blast
qed

section \<open>Who reaches a backup\<close>

definition may_use_backup :: "User option \<Rightarrow> string \<Rightarrow> db \<Rightarrow> bool" where
  "may_use_backup cu idp d \<longleftrightarrow>
     (\<exists>i b. atoi idp = Some i \<and> GetBackup (uint_of i) d = Some b \<and> CanAccessInstance cu (bk_InstanceID b) d)"

lemma with_backup_denied:
  "\<not> may_use_backup cu idp d \<Longrightarrow> \<exists>code msg. with_backup idp cu d k s = (Fail code msg, s)"
  by (auto simp: with_backup_def may_use_backup_def split: option.splits)

lemma with_backup_denied_fst: "\<not> may_use_backup cu idp d \<Longrightarrow> \<exists>code msg. fst (with_backup idp cu d k s) = Fail code msg"
  using with_backup_denied [of cu idp d k s] by auto

lemma with_backup_denied_snd: "\<not> may_use_backup cu idp d \<Longrightarrow> snd (with_backup idp cu d k s) = s"
  using with_backup_denied [of cu idp d k s] by auto


section \<open>What a restore does in the container\<close>

text \<open>A container with files, where \<open>untar\<close> is what unpacking an archive at the root does to them.\<close>

definition container :: "(string \<Rightarrow> files \<Rightarrow> files) \<Rightarrow> files container_exec" where
  "container untar name argv fs =
     (case argv of
        [sh, c, line] \<Rightarrow>
          if line = extract_cmd
          then (Inr ([], [], 0), ((case fs restore_tmp of None \<Rightarrow> fs | Some d \<Rightarrow> untar d fs))(restore_tmp := None))
          else if line = ''rm -f '' @ restore_tmp then (Inr ([], [], 0), fs(restore_tmp := None))
          else (case lex None line of
                  None \<Rightarrow> (Inr ([], ''syntax error'', 2), fs)
                | Some ts \<Rightarrow> (case perform ts fs of ((out, err, code), fs1) \<Rightarrow> (Inr (out, err, nat code), fs1)))
      | _ \<Rightarrow> (Inl ''bad command'', fs))"

lemma argv_chunk: "lex None (chunk_cmd (base64_encode d)) =
    Some [Word ''echo'', Word (base64_encode d), Op ''|'', Word ''base64'', Word ''-d'', Op ''>>'', Word restore_tmp]"
proof -
  have "concat (map quote_char b) = b" if "\<And>c. c \<in> set b \<Longrightarrow> c \<noteq> CHR 0x27" for b
    using that by (induction b) (auto simp: quote_char_def)
  then have "chunk_cmd (base64_encode d) = ''echo '' @ shellQuote (base64_encode d) @ '' | base64 -d >> '' @ restore_tmp"
    using b64_no_quote [of _ d] by (simp add: chunk_cmd_def shellQuote_def)
  then show ?thesis by (simp add: lex_eval lex_shellQuote restore_tmp_def)
qed

lemma container_chunk:
  "container untar name [''sh'', ''-c'', chunk_cmd (base64_encode d)] fs =
     (Inr ([], [], 0), fs(restore_tmp \<mapsto> (case fs restore_tmp of None \<Rightarrow> [] | Some y \<Rightarrow> y) @ d))"
proof -
  have "chunk_cmd x \<noteq> extract_cmd" "chunk_cmd x \<noteq> ''rm -f '' @ restore_tmp" for x
    by (simp_all add: chunk_cmd_def extract_cmd_def)
  then show ?thesis by (simp add: container_def argv_chunk)
qed

lemma container_chunks:
  "restore_chunks (container untar) name data fs =
     (None, if data = [] then fs
            else fs(restore_tmp \<mapsto> (case fs restore_tmp of None \<Rightarrow> [] | Some y \<Rightarrow> y) @ data))"
proof (induction data arbitrary: fs rule: length_induct)
  case (1 data)
  show ?case
  proof (cases "data = []")
    case False
    then have "length (drop restore_chunk_size data) < length data" by (simp add: restore_chunk_size_def)
    with 1 False show ?thesis
      by (subst restore_chunks.simps) (auto simp: container_chunk split: option.split)
  qed (simp add: restore_chunks.simps)
qed


definition demo_completed :: Backup where
  "demo_completed = \<lparr>bk_ID = 3, bk_InstanceID = 7, bk_InstanceName = [], bk_Status = ''completed'', bk_FilePath = ''a'',
     bk_Paths = [], bk_SizeBytes = 3, bk_ErrorMessage = [], bk_Note = [], bk_CreatedAt = 0, bk_CompletedAt = None\<rparr>"


end
