(* ===== verification/Mentions.thy ===== *)
theory Mentions imports RemoteFiles begin

text \<open>
  \<^verbatim>\<open>control-plane/internal/moderator/mentions.go\<close>: the file paths that an agent's
  transcript mentions, and the parts of Go's \<open>path/filepath\<close> that the moderator uses.  Each regular
  expression is written out as the matcher that Go's leftmost search with greedy repetition makes of it.
\<close>

section \<open>Paths\<close>

definition is_abs :: "string \<Rightarrow> bool" where
  "is_abs p \<longleftrightarrow> has_prefix p ''/''"

definition filepath_Join :: "string \<Rightarrow> string \<Rightarrow> string" where
  "filepath_Join a b =
     (if a \<noteq> [] \<and> b \<noteq> [] then filepath_Clean (a @ ''/'' @ b)
      else if a @ b = [] then [] else filepath_Clean (a @ b))"

text \<open>The elements of a cleaned path; the root is one empty element.\<close>

definition path_elems :: "string \<Rightarrow> string list" where
  "path_elems p = (if p = ''.'' then [] else if p = ''/'' then [[]] else go_split (CHR ''/'') p)"

fun strip_common :: "string list \<Rightarrow> string list \<Rightarrow> string list \<times> string list" where
  "strip_common (b # bs) (t # ts) = (if b = t then strip_common bs ts else (b # bs, t # ts))"
| "strip_common bs ts = (bs, ts)"

definition filepath_Rel :: "string \<Rightarrow> string \<Rightarrow> string option" where
  "filepath_Rel basepath targpath =
     (let base = filepath_Clean basepath; targ = filepath_Clean targpath in
      if targ = base then Some ''.''
      else if is_abs base \<noteq> is_abs targ then None
      else
        let (bs, ts) = strip_common (path_elems base) (path_elems targ) in
        if bs \<noteq> [] \<and> ts \<noteq> [] \<and> hd bs = ''..'' then None
        else Some (join_slash (replicate (length bs) ''..'' @ ts)))"

section \<open>Character classes\<close>

definition re_space :: "char \<Rightarrow> bool" where
  \<comment> \<open>\<open>\s\<close>\<close>
  "re_space c \<longleftrightarrow> c \<in> {CHR 0x09, CHR 0x0A, CHR 0x0C, CHR 0x0D, CHR '' ''}"

definition re_alnum :: "char \<Rightarrow> bool" where
  "re_alnum c \<longleftrightarrow> 48 \<le> byte c \<and> byte c \<le> 57 \<or> 65 \<le> byte c \<and> byte c \<le> 90 \<or> 97 \<le> byte c \<and> byte c \<le> 122"

definition re_word :: "char \<Rightarrow> bool" where
  \<comment> \<open>\<open>\w\<close>\<close>
  "re_word c \<longleftrightarrow> re_alnum c \<or> c = CHR ''_''"

definition lower :: "char \<Rightarrow> char" where
  "lower c = (if 65 \<le> byte c \<and> byte c \<le> 90 then char_of (byte c + 32) else c)"

text \<open>The prefix of at most \<open>n\<close> runes.\<close>

fun take_runes :: "nat \<Rightarrow> string \<Rightarrow> string" where
  "take_runes 0 s = []"
| "take_runes (Suc n) s =
     (if s = [] then [] else (case decode_rune s of (r, w) \<Rightarrow> take w s @ take_runes n (drop w s)))"

section \<open>The expressions\<close>

text \<open>\<open>isPathLike\<close>, with \<open>extRe\<close>: a dot and one to eight letters or digits at the end.\<close>

definition isPathLike :: "string \<Rightarrow> bool" where
  "isPathLike s \<longleftrightarrow>
     s \<noteq> [] \<and> \<not> list_ex (\<lambda>c. c = CHR '' '' \<or> c = CHR 0x0A \<or> c = CHR 0x09) s \<and>
     (let ext = takeWhile re_alnum (rev s); front = dropWhile re_alnum (rev s)
      in 1 \<le> length ext \<and> length ext \<le> 8 \<and> has_prefix front ''.'')"

text \<open>\<open>backtickRe\<close>: what stands between two backticks, one to 201 runes of which the first is no space.\<close>

function backticks :: "string \<Rightarrow> string list" where
  "backticks s =
     (case s of
        [] \<Rightarrow> []
      | c # r \<Rightarrow>
          if c = CHR 0x60 \<and> dropWhile (\<lambda>c. c \<noteq> CHR 0x60) r \<noteq> [] \<and> takeWhile (\<lambda>c. c \<noteq> CHR 0x60) r \<noteq> []
             \<and> \<not> re_space (hd r) \<and> length (runes (takeWhile (\<lambda>c. c \<noteq> CHR 0x60) r)) \<le> 201
          then takeWhile (\<lambda>c. c \<noteq> CHR 0x60) r # backticks (tl (dropWhile (\<lambda>c. c \<noteq> CHR 0x60) r))
          else backticks r)"
  by pat_completeness auto
termination
  by (relation "measure length") (auto simp: length_dropWhile_le less_Suc_eq_le intro: le_trans [OF diff_le_self])

declare backticks.simps [simp del]

text \<open>\<open>bareRe\<close>: a slash, then up to the last dot of the run that is followed by one to eight letters or
  digits and a word boundary.  \<open>bare_end\<close> gives the length of the match after the slash: it tries the dots
  of the run from the right.\<close>

definition bare_char :: "char \<Rightarrow> bool" where
  "bare_char c \<longleftrightarrow> \<not> re_space c \<and> c \<notin> {CHR 0x27, CHR 0x22, CHR 0x60}"

definition bare_at :: "string \<Rightarrow> nat \<Rightarrow> bool" where
  \<comment> \<open>a match whose dot is at the position\<close>
  "bare_at r k \<longleftrightarrow>
     (let ext = takeWhile re_alnum (drop (Suc k) r) in
      r ! k = CHR ''.'' \<and> 1 \<le> length ext \<and> length ext \<le> 8 \<and> \<not> has_prefix (drop (Suc k + length ext) r) ''_'')"

fun bare_end :: "string \<Rightarrow> nat \<Rightarrow> nat option" where
  "bare_end r 0 = None"
| "bare_end r (Suc k) =
     (if 0 < k \<and> bare_at r k then Some (Suc k + length (takeWhile re_alnum (drop (Suc k) r))) else bare_end r k)"

function bares :: "string \<Rightarrow> string list" where
  "bares s =
     (case s of
        [] \<Rightarrow> []
      | c # r \<Rightarrow>
          if c = CHR ''/'' then
            (case bare_end r (length (takeWhile bare_char r)) of
               None \<Rightarrow> bares r
             | Some n \<Rightarrow> (c # take n r) # bares (drop n r))
          else bares r)"
  by pat_completeness auto
termination
  by (relation "measure length") (auto simp: less_Suc_eq_le)

declare bares.simps [simp del]

text \<open>\<open>verbRe\<close>, in any case of the letters (the long s folds to s).  \<open>prev\<close> is whether the character
  before is a word character.\<close>

definition verbs :: "string list" where
  "verbs = [''saved'', ''wrote'', ''writing'', ''written'', ''created'', ''generated'']"

definition verb_at :: "bool \<Rightarrow> string \<Rightarrow> nat option" where
  \<comment> \<open>the width of the verb at the start, after a word boundary\<close>
  "verb_at prev s =
     (case List.find (\<lambda>v. map lower (take (length v) s) = v) verbs of
        Some v \<Rightarrow> if prev then None else Some (length v)
      | None \<Rightarrow> if has_prefix s [CHR 0xC5, CHR 0xBF] \<and> map lower (take 4 (drop 2 s)) = ''aved'' \<and> prev then Some 6
                else None)"

definition verb_token :: "string \<Rightarrow> string" where
  "verb_token s = take_runes 300 (takeWhile (\<lambda>c. \<not> re_space c \<and> c \<noteq> CHR '','' \<and> c \<noteq> CHR '';'') s)"

definition verb_rest :: "string \<Rightarrow> string \<times> string" where
  \<comment> \<open>after the verb: the token, and what follows it\<close>
  "verb_rest s =
     (if s = [] \<or> \<not> re_space (hd s) then ([], s)
      else
        let r = dropWhile re_space s;
            r2 = (if map lower (take 2 r) = ''to'' then drop 2 r else []);
            r3 = dropWhile re_space r2
        in if r2 \<noteq> [] \<and> re_space (hd r2) \<and> verb_token r3 \<noteq> []
           then (verb_token r3, drop (length (verb_token r3)) r3)
           else (verb_token r, drop (length (verb_token r)) r))"

lemma verb_rest_shorter: "length (snd (verb_rest s)) \<le> length s"
proof -
  have le: "length (drop n (dropWhile P x)) \<le> length x" for n P and x :: string
    using length_dropWhile_le [of P x] by (simp only: length_drop)
  have le2: "length (drop n (dropWhile P (drop 2 (dropWhile Q x)))) \<le> length x" for n P Q and x :: string
    using length_dropWhile_le [of Q x] length_dropWhile_le [of P "drop 2 (dropWhile Q x)"] by (simp only: length_drop)
  show ?thesis by (simp only: verb_rest_def Let_def split: if_split) (auto simp: le le2 simp del: length_drop)
qed

function verb_matches :: "bool \<Rightarrow> string \<Rightarrow> string list" where
  "verb_matches prev s =
     (case s of
        [] \<Rightarrow> []
      | c # r \<Rightarrow>
          (case verb_at prev s of
             None \<Rightarrow> verb_matches (re_word c) r
           | Some w \<Rightarrow>
               if fst (verb_rest (drop w s)) = [] \<or> w = 0 then verb_matches (re_word c) r
               else fst (verb_rest (drop w s))
                    # verb_matches (re_word (last (fst (verb_rest (drop w s))))) (snd (verb_rest (drop w s)))))"
  by pat_completeness auto
termination
proof (relation "measure (\<lambda>(prev, s). length s)")
  fix prev s c r w
  assume "s = c # r" "\<not> (fst (verb_rest (drop w s)) = [] \<or> w = 0)"
  then show "((re_word (last (fst (verb_rest (drop w s)))), snd (verb_rest (drop w s))), prev, s)
      \<in> measure (\<lambda>(prev, s). length s)"
    using verb_rest_shorter [of "drop w s"] by (cases w) (auto simp: less_Suc_eq_le intro: le_trans)
qed auto

declare verb_matches.simps [simp del]

section \<open>Mentions\<close>

definition in_set :: "string \<Rightarrow> char \<Rightarrow> bool" where
  "in_set cs c \<longleftrightarrow> c \<in> set cs"

definition go_trim :: "string \<Rightarrow> string \<Rightarrow> string" where
  \<comment> \<open>\<open>strings.Trim\<close> with a cutset of ASCII characters\<close>
  "go_trim s cs = rev (dropWhile (in_set cs) (rev (dropWhile (in_set cs) s)))"

definition trim_cutset :: string where
  "trim_cutset = [CHR 0x60, CHR 0x27, CHR 0x22] @ ''.,;:()[]{}''"

definition mention_candidates :: "string \<Rightarrow> string list" where
  "mention_candidates t =
     remdups (filter isPathLike (backticks t)
              @ filter isPathLike (map (\<lambda>m. go_trim m trim_cutset) (verb_matches False t)) @ bares t)"

definition relativizeToWorkspace :: "string \<Rightarrow> string \<Rightarrow> string option" where
  "relativizeToWorkspace workspace raw =
     (let clean = filepath_Clean raw in
      if has_prefix clean (workspace @ ''/'') then
        (let rel = trim_prefix clean (workspace @ ''/'')
         in if rel = [] \<or> contains rel ''..'' then None else Some rel)
      else if is_abs clean then None
      else if contains clean ''..'' then None else Some clean)"

text \<open>\<open>walk\<close> is the order in which Go walks the set of candidates.\<close>

definition ExtractMentionedPaths :: "(string list \<Rightarrow> string list) \<Rightarrow> string \<Rightarrow> string \<Rightarrow> string list" where
  "ExtractMentionedPaths walk transcript workspace =
     List.map_filter (relativizeToWorkspace workspace) (walk (mention_candidates transcript))"

end
