(* ===== verification/Moderator.thy ===== *)
theory Moderator imports Mentions Tables EnvVars LlmGateway Web begin

text \<open>
  \<^verbatim>\<open>control-plane/internal/moderator\<close> (dispatcher.go, runner.go, summarizer.go,
  moderator.go) over the adapters of \<^verbatim>\<open>internal/modwiring/adapters.go\<close>: the service that
  routes a Kanban task to an instance, runs it there and collects its files.

  The ports that reach outside the process are a record of functions: an instance's workspace, the
  language model, the gateway connection, SHA-256, the JSON encoder for untyped values.  The store, the
  settings and the instance list are the database.  A task's context may be cancelled at any moment:
  \<open>ms_ctx\<close> is the number of database calls it still lets through (\<open>None\<close>: it is never cancelled).
\<close>

section \<open>Errors and calls\<close>

datatype merror = Canceled | Stopped | Diverges | Msg string

text \<open>\<open>Diverges\<close> stands for a directory walk that has not ended within the given number of calls.\<close>

fun err_text :: "merror \<Rightarrow> string" where
  "err_text Canceled = ''context canceled''"
| "err_text Stopped = ''task stopped by user''"
| "err_text Diverges = []"
| "err_text (Msg m) = m"

fun wrap :: "string \<Rightarrow> merror \<Rightarrow> merror" where
  \<comment> \<open>\<open>fmt.Errorf("...: %w", err)\<close>\<close>
  "wrap p (Msg m) = Msg (p @ m)"
| "wrap p e = e"

definition wrapErr :: "string \<Rightarrow> (merror + 'a) \<times> 's \<Rightarrow> (merror + 'a) \<times> 's" where
  "wrapErr p r = (case r of (Inl e, s) \<Rightarrow> (Inl (wrap p e), s) | (Inr x, s) \<Rightarrow> (Inr x, s))"

section \<open>Ports\<close>

record mod_file =
  mf_Path :: string
  mf_Size :: int
  mf_IsDir :: bool

record 'w ports =
  p_List :: "nat \<Rightarrow> string \<Rightarrow> 'w \<Rightarrow> (merror + mod_file list) \<times> 'w"
  p_Read :: "nat \<Rightarrow> string \<Rightarrow> 'w \<Rightarrow> (merror + string) \<times> 'w"
  p_Write :: "nat \<Rightarrow> string \<Rightarrow> string \<Rightarrow> 'w \<Rightarrow> merror option \<times> 'w"
  p_RemoveAll :: "nat \<Rightarrow> string \<Rightarrow> 'w \<Rightarrow> merror option \<times> 'w"
  p_Complete :: "string \<Rightarrow> string \<Rightarrow> string \<Rightarrow> merror + string"
  p_Dial :: "nat \<Rightarrow> string \<Rightarrow> merror option"
  p_Send :: "string \<Rightarrow> merror option"
  p_mkdir_err :: "string \<Rightarrow> string option"
  p_write_err :: "string \<Rightarrow> string option"
  p_sha256 :: "string \<Rightarrow> string"
  p_marshal :: "json \<Rightarrow> string"
  p_walk :: "string list \<Rightarrow> string list"
  p_DefaultDir :: string

record 'w mstate =
  ms_db :: db
  ms_disk :: "string \<rightharpoonup> string"
  ms_ws :: 'w
  ms_ctx :: "nat option"

definition db_call :: "('w mstate \<Rightarrow> (merror + 'a) \<times> 'w mstate) \<Rightarrow> 'w mstate \<Rightarrow> (merror + 'a) \<times> 'w mstate" where
  "db_call f m =
     (case ms_ctx m of
        None \<Rightarrow> f m
      | Some 0 \<Rightarrow> (Inl Canceled, m)
      | Some (Suc n) \<Rightarrow> f (m\<lparr>ms_ctx := Some n\<rparr>))"

definition background :: "'w mstate \<Rightarrow> 'w mstate" where
  "background m = m\<lparr>ms_ctx := None\<rparr>"

section \<open>The store\<close>

record Board =
  bd_ID :: nat
  bd_EligibleInstances :: "nat list"

record Soul =
  sl_InstanceID :: nat
  sl_Summary :: string
  sl_Skills :: "string list"

definition st_GetTask :: "nat \<Rightarrow> 'w mstate \<Rightarrow> (merror + KanbanTask) \<times> 'w mstate" where
  "st_GetTask tid = db_call (\<lambda>m.
     (case first_row kanban_tasks kt_ID tid (ms_db m) of
        None \<Rightarrow> Inl (Msg ''record not found'') | Some t \<Rightarrow> Inr t, m))"

definition st_UpdateTask :: "nat \<Rightarrow> (KanbanTask \<Rightarrow> KanbanTask) \<Rightarrow> 'w mstate \<Rightarrow> (merror + unit) \<times> 'w mstate" where
  "st_UpdateTask tid f = db_call (\<lambda>m. (Inr (), m\<lparr>ms_db := update_row kanban_tasks_update kt_ID tid f (ms_db m)\<rparr>))"

definition id_column :: "string \<Rightarrow> nat list" where
  \<comment> \<open>\<open>json.Unmarshal\<close> into a slice of ids, errors ignored\<close>
  "id_column raw = (case json_parse raw of None \<Rightarrow> [] | Some j \<Rightarrow> uint_list (fst (decode (SSlice SUint) j GNil)))"

definition st_GetBoard :: "nat \<Rightarrow> 'w mstate \<Rightarrow> (merror + Board) \<times> 'w mstate" where
  "st_GetBoard i = db_call (\<lambda>m.
     (case first_row kanban_boards kb_ID i (ms_db m) of
        None \<Rightarrow> Inl (Msg ''record not found'')
      | Some b \<Rightarrow> Inr \<lparr>bd_ID = kb_ID b, bd_EligibleInstances = id_column (kb_EligibleInstances b)\<rparr>, m))"

definition new_comment :: "nat \<Rightarrow> string \<Rightarrow> string \<Rightarrow> string \<Rightarrow> string \<Rightarrow> db \<Rightarrow> nat \<times> db" where
  "new_comment tid kind author body session d =
     create_row ''kanban_comments'' kanban_comments kanban_comments_update
       (\<lambda>i. \<lparr>kc_ID = i, kc_TaskID = tid, kc_Kind = kind, kc_Author = author, kc_Body = body,
             kc_OpenClawSessionID = session\<rparr>) d"

definition st_InsertComment ::
    "nat \<Rightarrow> string \<Rightarrow> string \<Rightarrow> string \<Rightarrow> string \<Rightarrow> 'w mstate \<Rightarrow> (merror + nat) \<times> 'w mstate" where
  "st_InsertComment tid kind author body session = db_call (\<lambda>m.
     case new_comment tid kind author body session (ms_db m) of (i, d) \<Rightarrow> (Inr i, m\<lparr>ms_db := d\<rparr>))"

definition st_SetCommentBody :: "nat \<Rightarrow> string \<Rightarrow> 'w mstate \<Rightarrow> (merror + unit) \<times> 'w mstate" where
  "st_SetCommentBody i body = db_call (\<lambda>m.
     (Inr (), m\<lparr>ms_db := update_row kanban_comments_update kc_ID i (\<lambda>c. c\<lparr>kc_Body := body\<rparr>) (ms_db m)\<rparr>))"

definition st_ListComments :: "nat \<Rightarrow> 'w mstate \<Rightarrow> (merror + KanbanComment list) \<times> 'w mstate" where
  "st_ListComments tid = db_call (\<lambda>m. (Inr (filter (\<lambda>c. kc_TaskID c = tid) (kanban_comments (ms_db m))), m))"

definition st_InsertArtifact ::
    "nat \<Rightarrow> string \<Rightarrow> int \<Rightarrow> string \<Rightarrow> string \<Rightarrow> 'w mstate \<Rightarrow> (merror + unit) \<times> 'w mstate" where
  "st_InsertArtifact tid path sz sha dst = db_call (\<lambda>m.
     (Inr (), m\<lparr>ms_db := snd (create_row ''kanban_artifacts'' kanban_artifacts kanban_artifacts_update
        (\<lambda>i. \<lparr>ka_ID = i, ka_TaskID = tid, ka_Path = path, ka_SizeBytes = sz, ka_SHA256 = sha, ka_StoragePath = dst\<rparr>)
        (ms_db m))\<rparr>))"

definition st_ListTaskArtifacts :: "nat \<Rightarrow> 'w mstate \<Rightarrow> (merror + KanbanArtifact list) \<times> 'w mstate" where
  "st_ListTaskArtifacts tid = db_call (\<lambda>m. (Inr (filter (\<lambda>a. ka_TaskID a = tid) (kanban_artifacts (ms_db m))), m))"

definition string_column :: "string \<Rightarrow> string list" where
  "string_column raw =
     (case json_parse raw of
        None \<Rightarrow> []
      | Some j \<Rightarrow> (case fst (decode (SSlice SString) j GNil) of
                    GSlice vs \<Rightarrow> map (\<lambda>v. case v of GStr t \<Rightarrow> t | _ \<Rightarrow> []) vs | _ \<Rightarrow> []))"

definition st_GetSouls :: "nat list \<Rightarrow> 'w mstate \<Rightarrow> (merror + Soul list) \<times> 'w mstate" where
  "st_GetSouls ids = db_call (\<lambda>m.
     (Inr (map (\<lambda>r. \<lparr>sl_InstanceID = so_InstanceID r, sl_Summary = so_Summary r, sl_Skills = string_column (so_Skills r)\<rparr>)
        (filter (\<lambda>r. so_InstanceID r \<in> set ids) (instance_souls (ms_db m)))), m))"

definition upsert_soul :: "InstanceSoul \<Rightarrow> InstanceSoul list \<Rightarrow> InstanceSoul list" where
  "upsert_soul r rs =
     (if list_ex (\<lambda>x. so_InstanceID x = so_InstanceID r) rs
      then map (\<lambda>x. if so_InstanceID x = so_InstanceID r then r else x) rs else rs @ [r])"

definition st_UpsertSoul :: "nat \<Rightarrow> string \<Rightarrow> 'w mstate \<Rightarrow> (merror + unit) \<times> 'w mstate" where
  \<comment> \<open>the summarizer passes no skills, which are stored as \<open>null\<close>\<close>
  "st_UpsertSoul i summary = db_call (\<lambda>m.
     (Inr (), m\<lparr>ms_db := (ms_db m)\<lparr>instance_souls :=
        upsert_soul \<lparr>so_InstanceID = i, so_Summary = summary, so_Skills = ''null''\<rparr> (instance_souls (ms_db m))\<rparr>\<rparr>))"

definition il_ListInstanceIDs :: "'w mstate \<Rightarrow> (merror + nat list) \<times> 'w mstate" where
  "il_ListInstanceIDs = db_call (\<lambda>m. (Inr (map inst_ID (instances (ms_db m))), m))"

definition il_InstanceName :: "nat \<Rightarrow> 'w mstate \<Rightarrow> (merror + string) \<times> 'w mstate" where
  "il_InstanceName i = db_call (\<lambda>m.
     (case GetInstance i (ms_db m) of
        None \<Rightarrow> Inl (Msg ''record not found'')
      | Some x \<Rightarrow> Inr (if inst_DisplayName x \<noteq> [] then inst_DisplayName x else inst_Name x), m))"

definition shown_name :: "nat \<Rightarrow> 'w mstate \<Rightarrow> string \<times> 'w mstate" where
  \<comment> \<open>the name, or the number when there is none\<close>
  "shown_name i m =
     (case il_InstanceName i m of
        (Inr n, m1) \<Rightarrow> (if n = [] then ''#'' @ show_nat i else n, m1)
      | (Inl e, m1) \<Rightarrow> (''#'' @ show_nat i, m1))"

section \<open>Settings\<close>

definition get_setting :: "string \<Rightarrow> string \<Rightarrow> db \<Rightarrow> string" where
  "get_setting key def d = (case GetSetting key d of None \<Rightarrow> def | Some v \<Rightarrow> if v = [] then def else v)"

definition ModeratorProvider :: "db \<Rightarrow> string \<times> string" where
  "ModeratorProvider d = (get_setting ''kanban_moderator_provider_key'' [] d, get_setting ''kanban_moderator_model'' [] d)"

text \<open>\<open>fmt.Sscanf(v, "%d", &n)\<close>: blanks, a sign and digits at the start; 0 on an error.\<close>

function skip_blanks :: "string \<Rightarrow> string" where
  "skip_blanks s = (if s = [] \<or> lead_space s = 0 \<or> hd s = CHR 0x0A then s else skip_blanks (drop (lead_space s) s))"
  by pat_completeness auto
termination
  by (relation "measure length") auto

declare skip_blanks.simps [simp del]

definition scan_int :: "string \<Rightarrow> int" where
  "scan_int v =
     (let s = skip_blanks v;
          sign = (if has_prefix s ''-'' \<or> has_prefix s ''+'' then [hd s] else []);
          ds = takeWhile is_digit (drop (length sign) s)
      in if ds = [] then 0 else case atoi (sign @ ds) of None \<Rightarrow> 0 | Some n \<Rightarrow> n)"

definition ArtifactMaxBytes :: "db \<Rightarrow> int" where
  "ArtifactMaxBytes d =
     (let n = scan_int (get_setting ''kanban_artifacts_max_bytes'' ''5242880'' d)
      in if n \<le> 0 then 5 * 1024 * 1024 else n)"

definition ArtifactStorageDir :: "string \<Rightarrow> db \<Rightarrow> string" where
  "ArtifactStorageDir def d = get_setting ''kanban_artifacts_dir'' def d"

definition WorkspaceDir :: "db \<Rightarrow> string" where
  "WorkspaceDir d = get_setting ''kanban_workspace_dir'' ''/home/claworc/.openclaw/workspace'' d"

definition TaskOutcomeDir :: "db \<Rightarrow> string" where
  "TaskOutcomeDir d = get_setting ''kanban_task_outcome_dir'' ''/home/claworc/tasks'' d"

section \<open>Texts\<close>

abbreviation newline :: string where
  "newline \<equiv> [CHR 0x0A]"

definition truncate_text :: "string \<Rightarrow> nat \<Rightarrow> string" where
  \<comment> \<open>\<open>truncate\<close> and \<open>truncateForHistory\<close>: with the ellipsis in UTF-8\<close>
  "truncate_text s n = (if length s \<le> n then s else take n s @ [CHR 0xE2, CHR 0x80, CHR 0xA6])"

definition show_int :: "int \<Rightarrow> string" where
  "show_int n = (if n < 0 then ''-'' @ show_nat (nat (- n)) else show_nat (nat n))"

fun join_text :: "string \<Rightarrow> string list \<Rightarrow> string" where
  "join_text sep [] = []"
| "join_text sep [a] = a"
| "join_text sep (a # b # as) = a @ sep @ join_text sep (b # as)"

definition bullets :: "string list \<Rightarrow> string" where
  "bullets ps = join_text (newline @ ''- '') ps"

end
