(* ===== verification/ModeratorRun.thy ===== *)
theory ModeratorRun imports Moderator begin

text \<open>
  The moderator's work on one task: dispatcher.go, runner.go and moderator.go, and the summarizer's
  refresh of an instance's description.
\<close>

section \<open>Dispatching\<close>

definition rank_prompt :: "KanbanTask \<Rightarrow> nat list \<Rightarrow> Soul list \<Rightarrow> string" where
  "rank_prompt task candidates souls =
     ''You are routing a task to the best-fit OpenClaw agent.'' @ newline @ newline
     @ ''TASK:'' @ newline @ ''Title: '' @ kt_Title task @ newline
     @ ''Description: '' @ kt_Description task @ newline @ newline @ ''CANDIDATES:'' @ newline
     @ concat (map (\<lambda>i.
         case (case List.find (\<lambda>s. sl_InstanceID s = i) (rev souls) of None \<Rightarrow> ([], []) | Some s \<Rightarrow> (sl_Skills s, sl_Summary s)) of
           (skills, summary) \<Rightarrow>
             ''- instance_id='' @ show_nat i @ '' skills=['' @ join_blank skills @ '']'' @ newline
             @ ''  soul: '' @ truncate_text summary 600 @ newline) candidates)
     @ newline @ jtext ''Reply with strict JSON: {~instance_id~: <id>, ~reason~: ~<one paragraph>~}.''"

text \<open>The decoding of the reply into a \<open>json.Number\<close> and a string.\<close>

definition valid_number :: "string \<Rightarrow> bool" where
  "valid_number s \<longleftrightarrow> number_text s = Some (s, [])"

fun rank_members :: "jobject \<Rightarrow> string \<Rightarrow> string \<Rightarrow> (string \<times> string) option" where
  "rank_members [] num reason = Some (num, reason)"
| "rank_members ((k, j) # ms) num reason =
     (case field_for k [(''instance_id'', SInt), (''reason'', SString)] of
        None \<Rightarrow> rank_members ms num reason
      | Some (f, sh) \<Rightarrow>
          if f = ''reason'' then
            (case j of JNull \<Rightarrow> rank_members ms num reason | JStr t \<Rightarrow> rank_members ms num t | _ \<Rightarrow> None)
          else
            (case j of
               JNull \<Rightarrow> rank_members ms num reason
             | JNum t \<Rightarrow> rank_members ms t reason
             | JStr t \<Rightarrow> if valid_number t then rank_members ms t reason else None
             | _ \<Rightarrow> None))"

definition parseRankReply :: "string \<Rightarrow> (nat \<times> string) option" where
  "parseRankReply s =
     (let tail = dropWhile (\<lambda>c. c \<noteq> CHR ''{'') s;
          body = rev (dropWhile (\<lambda>c. c \<noteq> CHR ''}'') (rev tail))
      in if body = [] then None
         else (case json_parse body of
                 Some (JObj ms) \<Rightarrow>
                   (case rank_members ms [] [] of
                      None \<Rightarrow> None
                    | Some (num, reason) \<Rightarrow> map_option (\<lambda>n. (n, reason)) (parse_uint num))
               | _ \<Rightarrow> None))"

text \<open>The task's own provider and model come before the settings.\<close>

definition task_model :: "KanbanTask \<Rightarrow> db \<Rightarrow> string \<times> string" where
  "task_model task d =
     (case ModeratorProvider d of
        (p, mdl) \<Rightarrow> (if kt_EvaluatorProviderKey task \<noteq> [] then kt_EvaluatorProviderKey task else p,
                   if kt_EvaluatorModel task \<noteq> [] then kt_EvaluatorModel task else mdl))"

definition rank :: "'w ports \<Rightarrow> KanbanTask \<Rightarrow> nat list \<Rightarrow> Soul list \<Rightarrow> db \<Rightarrow> nat \<times> string" where
  "rank P task candidates souls d =
     (case task_model task d of (provKey, model) \<Rightarrow>
        (case p_Complete P provKey model (rank_prompt task candidates souls) of
           Inl e \<Rightarrow> (hd candidates, ''LLM unavailable; defaulted to first candidate. Error: '' @ err_text e)
         | Inr resp \<Rightarrow>
             (case parseRankReply resp of
                Some (i, reason) \<Rightarrow>
                  if i \<in> set candidates then (i, reason)
                  else (hd candidates, ''Could not parse LLM ranking reply; defaulted to first candidate.'' @ newline
                                       @ ''Raw: '' @ truncate_text resp 400)
              | None \<Rightarrow> (hd candidates, ''Could not parse LLM ranking reply; defaulted to first candidate.'' @ newline
                                       @ ''Raw: '' @ truncate_text resp 400))))"

definition no_eligible :: "Board \<Rightarrow> merror" where
  "no_eligible b = Msg (''board '' @ show_nat (bd_ID b) @ '' has no eligible instances'')"

definition Dispatch :: "'w ports \<Rightarrow> nat \<Rightarrow> 'w mstate \<Rightarrow> (merror + unit) \<times> 'w mstate" where
  "Dispatch P tid m0 =
     andThen (wrapErr ''load task: '' (st_GetTask tid m0)) (\<lambda>task m1.
     andThen (wrapErr ''load board: '' (st_GetBoard (kt_BoardID task) m1)) (\<lambda>board m2.
       if bd_EligibleInstances board = [] then (Inl (no_eligible board), m2)
       else
         andThen (wrapErr ''list instances: '' (il_ListInstanceIDs m2)) (\<lambda>liveIDs m3.
           let candidates = filter (\<lambda>i. i \<in> set liveIDs) (bd_EligibleInstances board) in
           if candidates = [] then (Inl (no_eligible board), m3)
           else
             andThen (wrapErr ''load souls: '' (st_GetSouls candidates m3)) (\<lambda>souls m4.
               let (chosen, reason) =
                     (if length candidates = 1 then (hd candidates, ''Only one eligible instance on this board.'')
                      else rank P task candidates souls (ms_db m4));
                   (name, m5) = shown_name chosen m4
               in andThen (wrapErr ''insert routing comment: ''
                    (st_InsertComment tid ''routing'' ''moderator''
                       (''Routed to '' @ name @ ''.'' @ newline @ newline @ reason) [] m5)) (\<lambda>_ m6.
                  wrapErr ''update task: ''
                    (st_UpdateTask tid (\<lambda>t. t\<lparr>kt_Status := ''dispatching'', kt_AssignedInstanceID := Some chosen\<rparr>) m6))))))"

section \<open>What a run sends to the agent\<close>

definition task_dir :: "nat \<Rightarrow> string" where
  "task_dir tid = ''~/tasks/'' @ show_nat tid @ ''/''"

definition size_skip :: "string \<Rightarrow> int \<Rightarrow> int \<Rightarrow> string" where
  "size_skip path n maxBytes = path @ '' (size '' @ show_int n @ '' > max '' @ show_int maxBytes @ '')''"

definition inject_one ::
    "'w ports \<Rightarrow> nat \<Rightarrow> string \<Rightarrow> int \<Rightarrow> KanbanArtifact \<Rightarrow> string list \<times> string list \<times> 'w mstate
       \<Rightarrow> string list \<times> string list \<times> 'w mstate" where
  "inject_one P i outcomeDir maxBytes a acc =
     (case acc of (injected, skipped, m) \<Rightarrow>
        (case ms_disk m (ka_StoragePath a) of
           None \<Rightarrow> (injected, skipped @ [ka_Path a @ '' (read error: open '' @ ka_StoragePath a @ '': no such file or directory)''], m)
         | Some data \<Rightarrow>
             if maxBytes < int (length data)
             then (injected, skipped @ [size_skip (ka_Path a) (int (length data)) maxBytes], m)
             else
               (case p_Write P i (filepath_Join outcomeDir (ka_Path a)) data (ms_ws m) of
                  (Some e, w) \<Rightarrow> (injected, skipped @ [ka_Path a @ '' (upload error: '' @ err_text e @ '')''], m\<lparr>ms_ws := w\<rparr>)
                | (None, w) \<Rightarrow> (injected @ [ka_Path a], skipped, m\<lparr>ms_ws := w\<rparr>))))"

definition skipped_report :: "string list \<Rightarrow> string" where
  "skipped_report skipped =
     (if skipped = [] then [] else newline @ newline @ ''Skipped:'' @ newline @ ''- '' @ bullets skipped)"

definition injectPriorArtifacts :: "'w ports \<Rightarrow> nat \<Rightarrow> nat \<Rightarrow> 'w mstate \<Rightarrow> string \<times> 'w mstate" where
  "injectPriorArtifacts P tid i m0 =
     (case st_ListTaskArtifacts tid m0 of
        (Inl e, m1) \<Rightarrow> ([], m1)
      | (Inr artifacts, m1) \<Rightarrow>
          if artifacts = [] then ([], m1)
          else
            (case fold (inject_one P i (TaskOutcomeDir (ms_db m1) @ ''/'' @ show_nat tid) (ArtifactMaxBytes (ms_db m1)))
                    artifacts ([], [], m1) of
               (injected, skipped, m2) \<Rightarrow>
                 (concat (map (\<lambda>p. ''- '' @ task_dir tid @ p @ newline) injected),
                  if injected = [] then m2
                  else snd (st_InsertComment tid ''moderator'' ''moderator''
                         (''Injected '' @ show_nat (length injected) @ '' artifact(s) from prior run.'' @ newline @ ''- ''
                          @ bullets injected @ skipped_report skipped) [] m2))))"

definition history_entry :: "KanbanComment \<Rightarrow> string" where
  "history_entry c =
     (let body = trim_space (kc_Body c) in
      if body = [] \<or> kc_Kind c = ''tool'' then []
      else ''['' @ kc_Kind c @ ''] '' @ kc_Author c @ '': '' @ truncate_text body 2000 @ newline @ newline)"

definition buildCommentHistory :: "nat \<Rightarrow> 'w mstate \<Rightarrow> string \<times> 'w mstate" where
  "buildCommentHistory tid m0 =
     (case st_ListComments tid m0 of
        (Inl e, m1) \<Rightarrow> ([], m1)
      | (Inr comments, m1) \<Rightarrow>
          (let result = concat (map history_entry comments)
           in if 8000 < length result then take 8000 result @ newline @ ''... (truncated)'' else result, m1))"

definition user_notes :: "nat \<Rightarrow> 'w mstate \<Rightarrow> string \<times> 'w mstate" where
  "user_notes tid m0 =
     (case st_ListComments tid m0 of
        (Inl e, m1) \<Rightarrow> ([], m1)
      | (Inr comments, m1) \<Rightarrow>
          (let notes = map kc_Body (filter (\<lambda>c. kc_Kind c = ''user'') comments)
           in if notes = [] then []
              else newline @ newline @ ''--- User feedback ---'' @ newline @ join_text (newline @ newline) notes, m1))"

definition agent_message :: "KanbanTask \<Rightarrow> nat \<Rightarrow> string \<Rightarrow> string \<Rightarrow> string \<Rightarrow> string" where
  "agent_message task tid artifactDesc historyDesc notes =
     join_text (newline @ newline)
       ((if artifactDesc = [] then []
         else [''--- Artifacts from prior run ---'' @ newline @ ''Files from the previous run of this task are at ''
               @ task_dir tid @ '':'' @ newline @ artifactDesc])
        @ (if historyDesc = [] then [] else [''--- Prior conversation history ---'' @ newline @ historyDesc])
        @ [''--- Task ---'' @ newline @ kt_Description task,
           ''--- Instructions ---'' @ newline @ ''Save all output files to: '' @ task_dir tid @ newline
           @ ''Use artifacts from the prior run if they are relevant to your work.''])
     @ notes"

definition send_frame :: "string \<Rightarrow> string \<Rightarrow> string" where
  "send_frame sessionKey message =
     jtext ''{~id~:~kanban-send-1~,~method~:~chat.send~,~params~:{~idempotencyKey~:'' @ json_quote sessionKey
     @ jtext '',~message~:'' @ json_quote message @ jtext '',~sessionKey~:'' @ json_quote sessionKey
     @ jtext ''},~type~:~req~}''"

section \<open>The stream of events\<close>

text \<open>What \<open>Recv\<close> returns: a frame, an error, or the context's end.  A connection ends with an error.\<close>

datatype recv = Frame string | RecvErr string | RecvCanceled

definition member :: "string \<Rightarrow> json option \<Rightarrow> json option" where
  \<comment> \<open>\<open>m[key]\<close> of a \<open>map[string]any\<close>: the last member of the name\<close>
  "member k j = (case j of Some (JObj ms) \<Rightarrow> map_of (rev ms) k | _ \<Rightarrow> None)"

definition as_string :: "json option \<Rightarrow> string" where
  "as_string j = (case j of Some (JStr t) \<Rightarrow> t | _ \<Rightarrow> [])"

definition as_object :: "json option \<Rightarrow> json option" where
  "as_object j = (case j of Some (JObj ms) \<Rightarrow> Some (JObj ms) | _ \<Rightarrow> None)"

datatype agent_event = Assistant string | Tool "json option" | EndPhase | Other_event

definition read_frame :: "string \<Rightarrow> agent_event" where
  "read_frame raw =
     (let msg = json_parse raw; payload = as_object (member ''payload'' msg);
          stream = as_string (member ''stream'' payload); data = as_object (member ''data'' payload)
      in if as_object msg = None \<or> member ''type'' msg \<noteq> Some (JStr ''event'') \<or> payload = None then Other_event
         else if stream = ''assistant'' then Assistant (as_string (member ''text'' data))
         else if stream = ''tool'' then Tool data
         else if stream = ''lifecycle'' \<and> as_string (member ''phase'' data) = ''end'' then EndPhase
         else Other_event)"

definition data_text :: "'w ports \<Rightarrow> json option \<Rightarrow> string" where
  "data_text P d = (case d of None \<Rightarrow> ''null'' | Some j \<Rightarrow> p_marshal P j)"

fun recv_loop ::
    "'w ports \<Rightarrow> nat \<Rightarrow> string \<Rightarrow> string \<Rightarrow> nat \<Rightarrow> recv list \<Rightarrow> string \<Rightarrow> 'w mstate \<Rightarrow> (merror + string) \<times> 'w mstate" where
  "recv_loop P tid author session aid [] text m =
     (Inl (if ms_ctx m = Some 0 then Stopped else Msg ''recv: EOF''), m)"
| "recv_loop P tid author session aid (r # rs) text m =
     (if ms_ctx m = Some 0 then (Inl Stopped, m)
      else
        (case r of
           RecvCanceled \<Rightarrow> (Inl Stopped, m)
         | RecvErr e \<Rightarrow> (Inl (Msg (''recv: '' @ e)), m)
         | Frame raw \<Rightarrow>
             (case read_frame raw of
                Assistant t \<Rightarrow>
                  if t \<noteq> [] \<and> t \<noteq> text
                  then recv_loop P tid author session aid rs t (snd (st_SetCommentBody aid t m))
                  else recv_loop P tid author session aid rs text m
              | Tool d \<Rightarrow>
                  recv_loop P tid author session aid rs text
                    (snd (st_InsertComment tid ''tool'' author (data_text P d) session m))
              | EndPhase \<Rightarrow> (Inr text, m)
              | Other_event \<Rightarrow> recv_loop P tid author session aid rs text m)))"

section \<open>Collecting artifacts\<close>

definition store_artifact ::
    "'w ports \<Rightarrow> nat \<Rightarrow> string \<Rightarrow> string \<Rightarrow> string list \<times> string list \<times> 'w mstate
       \<Rightarrow> string list \<times> string list \<times> 'w mstate" where
  "store_artifact P tid rel data acc =
     (case acc of (pulled, skipped, m) \<Rightarrow>
        let storageRoot = filepath_Join (ArtifactStorageDir (p_DefaultDir P) (ms_db m)) (show_nat tid);
            dst = filepath_Join storageRoot rel
        in case p_mkdir_err P (filepath_Dir dst) of
             Some e \<Rightarrow> (pulled, skipped @ [rel @ '' (mkdir: '' @ e @ '')''], m)
           | None \<Rightarrow>
               (case p_write_err P dst of
                  Some e \<Rightarrow> (pulled, skipped @ [rel @ '' (write: '' @ e @ '')''], m)
                | None \<Rightarrow>
                    (pulled @ [rel], skipped,
                     snd (st_InsertArtifact tid rel (int (length data)) (p_sha256 P data) dst
                            (m\<lparr>ms_disk := (ms_disk m)(dst \<mapsto> data)\<rparr>)))))"

text \<open>\<open>walkDir\<close> as one walk in the order of the recursive calls; the first number bounds the calls.\<close>

fun walk_entries :: "'w ports \<Rightarrow> nat \<Rightarrow> nat \<Rightarrow> mod_file list \<Rightarrow> 'w \<Rightarrow> mod_file list option \<times> 'w" where
  "walk_entries P n i [] w = (Some [], w)"
| "walk_entries P 0 i (e # es) w = (None, w)"
| "walk_entries P (Suc n) i (e # es) w =
     (if mf_IsDir e then
        (case p_List P i (mf_Path e) w of
           (Inl err, w1) \<Rightarrow> walk_entries P n i es w1
         | (Inr sub, w1) \<Rightarrow> walk_entries P n i (sub @ es) w1)
      else (case walk_entries P n i es w of (r, w1) \<Rightarrow> (map_option ((#) e) r, w1)))"

definition walkDir :: "'w ports \<Rightarrow> nat \<Rightarrow> nat \<Rightarrow> string \<Rightarrow> 'w \<Rightarrow> (merror + mod_file list) \<times> 'w" where
  "walkDir P n i dir w =
     (case p_List P i dir w of
        (Inl e, w1) \<Rightarrow> (Inl e, w1)
      | (Inr es, w1) \<Rightarrow>
          (case walk_entries P n i es w1 of
             (None, w2) \<Rightarrow> (Inl Diverges, w2)
           | (Some all, w2) \<Rightarrow> (Inr all, w2)))"

definition collect_file ::
    "'w ports \<Rightarrow> nat \<Rightarrow> nat \<Rightarrow> string \<Rightarrow> mod_file \<Rightarrow> string list \<times> string list \<times> 'w mstate
       \<Rightarrow> string list \<times> string list \<times> 'w mstate" where
  "collect_file P tid i baseDir e acc =
     (case acc of (pulled, skipped, m) \<Rightarrow>
        (case filepath_Rel baseDir (mf_Path e) of
           None \<Rightarrow> acc
         | Some rel \<Rightarrow>
             if ArtifactMaxBytes (ms_db m) < mf_Size e
             then (pulled, skipped @ [size_skip rel (mf_Size e) (ArtifactMaxBytes (ms_db m))], m)
             else
               (case p_Read P i (mf_Path e) (ms_ws m) of
                  (Inl err, w) \<Rightarrow> (pulled, skipped @ [rel @ '' (read error: '' @ err_text err @ '')''], m\<lparr>ms_ws := w\<rparr>)
                | (Inr data, w) \<Rightarrow> store_artifact P tid rel data (pulled, skipped, m\<lparr>ms_ws := w\<rparr>))))"

definition collectFromDir ::
    "'w ports \<Rightarrow> nat \<Rightarrow> nat \<Rightarrow> string \<Rightarrow> mod_file list \<Rightarrow> 'w mstate \<Rightarrow> string list \<times> string list \<times> 'w mstate" where
  "collectFromDir P tid i baseDir entries m = fold (collect_file P tid i baseDir) entries ([], [], m)"

definition collect_mention ::
    "'w ports \<Rightarrow> nat \<Rightarrow> nat \<Rightarrow> string \<Rightarrow> string list \<times> string list \<times> 'w mstate
       \<Rightarrow> string list \<times> string list \<times> 'w mstate" where
  "collect_mention P tid i rel acc =
     (case acc of (pulled, skipped, m) \<Rightarrow>
        (case p_Read P i (filepath_Join (WorkspaceDir (ms_db m)) rel) (ms_ws m) of
           (Inl err, w) \<Rightarrow> (pulled, skipped @ [rel @ '' (read error: '' @ err_text err @ '')''], m\<lparr>ms_ws := w\<rparr>)
         | (Inr data, w) \<Rightarrow>
             if ArtifactMaxBytes (ms_db m) < int (length data)
             then (pulled, skipped @ [size_skip rel (int (length data)) (ArtifactMaxBytes (ms_db m))], m\<lparr>ms_ws := w\<rparr>)
             else store_artifact P tid rel data (pulled, skipped, m\<lparr>ms_ws := w\<rparr>)))"

fun first_seen :: "string list \<Rightarrow> string list \<Rightarrow> string list" where
  \<comment> \<open>the loop over \<open>seen\<close>\<close>
  "first_seen seen [] = []"
| "first_seen seen (x # xs) = (if x \<in> set seen then first_seen seen xs else x # first_seen (x # seen) xs)"

definition collectArtifactsMentionBased ::
    "'w ports \<Rightarrow> nat \<Rightarrow> nat \<Rightarrow> string \<Rightarrow> 'w mstate \<Rightarrow> string list \<times> string list \<times> 'w mstate" where
  "collectArtifactsMentionBased P tid i transcript m =
     fold (collect_mention P tid i)
       (first_seen [] (ExtractMentionedPaths (p_walk P) transcript (WorkspaceDir (ms_db m)))) ([], [], m)"

definition outcome_dir :: "nat \<Rightarrow> db \<Rightarrow> string" where
  "outcome_dir tid d = TaskOutcomeDir d @ ''/'' @ show_nat tid"

definition collectOutcomes ::
    "'w ports \<Rightarrow> nat \<Rightarrow> nat \<Rightarrow> nat \<Rightarrow> string \<Rightarrow> 'w mstate \<Rightarrow> (merror + string list \<times> string list) \<times> 'w mstate" where
  "collectOutcomes P n tid i assistantText m =
     (let dir = outcome_dir tid (ms_db m);
          finished = (\<lambda>(pulled, skipped, m'). (Inr (pulled, skipped), m')) in
      case walkDir P n i dir (ms_ws m) of
        (Inl Diverges, w) \<Rightarrow> (Inl Diverges, m\<lparr>ms_ws := w\<rparr>)
      | (Inl e, w) \<Rightarrow> finished (collectArtifactsMentionBased P tid i assistantText (m\<lparr>ms_ws := w\<rparr>))
      | (Inr entries, w) \<Rightarrow>
          if entries \<noteq> [] then finished (collectFromDir P tid i dir entries (m\<lparr>ms_ws := w\<rparr>))
          else finished (collectArtifactsMentionBased P tid i assistantText (m\<lparr>ms_ws := w\<rparr>)))"

section \<open>A run\<close>

definition evaluate_prompt :: "KanbanTask \<Rightarrow> string \<Rightarrow> string list \<Rightarrow> string" where
  "evaluate_prompt task finalText artifacts =
     ''Evaluate whether this OpenClaw run accomplished the user'' @ [CHR 0x27] @ ''s task.'' @ newline @ newline
     @ ''TASK:'' @ newline @ kt_Description task @ newline @ newline
     @ ''AGENT FINAL OUTPUT:'' @ newline @ truncate_text finalText 4000 @ newline @ newline
     @ ''ARTIFACTS PULLED: '' @ join_text '', '' artifacts @ newline @ newline
     @ ''Reply with a brief evaluation (3-6 sentences) and a verdict line: VERDICT: success|partial|failed.''"

definition evaluate :: "'w ports \<Rightarrow> KanbanTask \<Rightarrow> string \<Rightarrow> string list \<Rightarrow> 'w mstate \<Rightarrow> (merror + unit) \<times> 'w mstate" where
  "evaluate P task finalText artifacts m =
     (case task_model task (ms_db m) of (provKey, model) \<Rightarrow>
        (case p_Complete P provKey model (evaluate_prompt task finalText artifacts) of
           Inl e \<Rightarrow> (Inl e, m)
         | Inr resp \<Rightarrow>
             andThen (st_InsertComment (kt_ID task) ''evaluation'' ''moderator'' resp [] m) (\<lambda>_ m1. (Inr (), m1))))"

definition pull_report :: "string list \<Rightarrow> string list \<Rightarrow> string" where
  "pull_report pulled skipped =
     ''Pulled '' @ show_nat (length pulled) @ '' artifact(s).''
     @ (if pulled = [] then [] else newline @ newline @ ''Pulled:'' @ newline @ ''- '' @ bullets pulled)
     @ skipped_report skipped"

definition after_end ::
    "'w ports \<Rightarrow> nat \<Rightarrow> KanbanTask \<Rightarrow> nat \<Rightarrow> nat \<Rightarrow> string \<Rightarrow> 'w mstate \<Rightarrow> (merror + unit) \<times> 'w mstate" where
  "after_end P n task tid i text m0 =
     andThen (collectOutcomes P n tid i text m0) (\<lambda>(pulled, skipped) m1.
       let m2 = snd (st_InsertComment tid ''moderator'' ''moderator'' (pull_report pulled skipped) [] m1);
           m3 = m2\<lparr>ms_ws := snd (p_RemoveAll P i (outcome_dir tid (ms_db m2)) (ms_ws m2))\<rparr>;
           m4 = (case evaluate P task text pulled m3 of
                   (Inr _, m) \<Rightarrow> m
                 | (Inl e, m) \<Rightarrow> snd (st_InsertComment tid ''error'' ''moderator'' (''Evaluator failed: '' @ err_text e) [] m))
       in st_UpdateTask tid (\<lambda>t. t\<lparr>kt_Status := ''done''\<rparr>) m4)"

text \<open>\<open>sfx\<close> is the random end of the session key, \<open>rs\<close> what the connection delivers.\<close>

definition Run :: "'w ports \<Rightarrow> nat \<Rightarrow> string \<Rightarrow> recv list \<Rightarrow> nat \<Rightarrow> 'w mstate \<Rightarrow> (merror + unit) \<times> 'w mstate" where
  "Run P n sfx rs tid m0 =
     andThen (wrapErr ''load task: '' (st_GetTask tid m0)) (\<lambda>task m1.
       case kt_AssignedInstanceID task of
         None \<Rightarrow> (Inl (Msg (''task '' @ show_nat tid @ '' has no assigned instance'')), m1)
       | Some i \<Rightarrow>
           let (name, m2) = shown_name i m1;
               author = ''agent:'' @ name;
               (artifactDesc, m3) = injectPriorArtifacts P tid i m2;
               (historyDesc, m4) = buildCommentHistory tid m3;
               (notes, m5) = user_notes tid m4;
               message = agent_message task tid artifactDesc historyDesc notes;
               sessionKey = ''kanban-task-'' @ show_nat (kt_ID task) @ ''-'' @ sfx
           in andThen (wrapErr ''mark in_progress: ''
                (st_UpdateTask tid (\<lambda>t. t\<lparr>kt_Status := ''in_progress'', kt_OpenClawSessionID := sessionKey\<rparr>) m5)) (\<lambda>_ m6.
              case p_Dial P i sessionKey of
                Some e \<Rightarrow> (Inl (wrap ''dial gateway: '' e), m6)
              | None \<Rightarrow>
                  (case p_Send P (send_frame sessionKey message) of
                     Some e \<Rightarrow> (Inl (wrap ''send chat.send: '' e), m6)
                   | None \<Rightarrow>
                       andThen (wrapErr ''insert assistant comment: ''
                         (st_InsertComment tid ''assistant'' author [] sessionKey m6)) (\<lambda>aid m7.
                       andThen (recv_loop P tid author sessionKey aid rs [] m7) (\<lambda>text m8.
                         after_end P n task tid i text m8)))))"

section \<open>The service\<close>

definition markStopped :: "nat \<Rightarrow> 'w mstate \<Rightarrow> 'w mstate" where
  "markStopped tid m0 =
     (let m1 = snd (st_InsertComment tid ''moderator'' ''moderator'' ''Task stopped.'' [] (background m0))
      in snd (st_UpdateTask tid (\<lambda>t. t\<lparr>kt_Status := ''todo''\<rparr>) m1))"

definition markFailed :: "nat \<Rightarrow> merror \<Rightarrow> 'w mstate \<Rightarrow> 'w mstate" where
  \<comment> \<open>on the state's context\<close>
  "markFailed tid cause m0 =
     (let m1 = snd (st_InsertComment tid ''error'' ''moderator'' (err_text cause) [] m0)
      in snd (st_UpdateTask tid (\<lambda>t. t\<lparr>kt_Status := ''failed''\<rparr>) m1))"

text \<open>The goroutine of \<open>EnqueueTask\<close>: nothing more happens after a walk that does not end.\<close>

definition run_task :: "'w ports \<Rightarrow> nat \<Rightarrow> string \<Rightarrow> recv list \<Rightarrow> nat \<Rightarrow> 'w mstate \<Rightarrow> 'w mstate" where
  "run_task P n sfx rs tid m0 =
     (case Dispatch P tid m0 of
        (Inl e, m1) \<Rightarrow> if e = Canceled then markStopped tid m1 else markFailed tid e m1
      | (Inr _, m1) \<Rightarrow>
          (case Run P n sfx rs tid m1 of
             (Inr _, m2) \<Rightarrow> m2
           | (Inl e, m2) \<Rightarrow>
               if e = Stopped \<or> e = Canceled then markStopped tid m2
               else if e = Diverges then m2
               else markFailed tid e (background m2)))"

text \<open>The map of running tasks: the number of the context that \<open>Stop\<close> cancels.  Each goroutine is in
  \<open>sv_live\<close> until it ends.\<close>

record service =
  sv_running :: "nat \<rightharpoonup> nat"
  sv_next :: nat
  sv_live :: "(nat \<times> nat) list"
  sv_cancelled :: "nat list"

definition sv_Enqueue :: "nat \<Rightarrow> service \<Rightarrow> service" where
  "sv_Enqueue tid s =
     s\<lparr>sv_running := (sv_running s)(tid \<mapsto> sv_next s), sv_next := sv_next s + 1,
       sv_live := sv_live s @ [(sv_next s, tid)]\<rparr>"

definition sv_ended :: "nat \<Rightarrow> nat \<Rightarrow> service \<Rightarrow> service" where
  \<comment> \<open>the deferred end of a goroutine\<close>
  "sv_ended c tid s =
     s\<lparr>sv_running := (sv_running s)(tid := None), sv_cancelled := sv_cancelled s @ [c],
       sv_live := filter (\<lambda>p. p \<noteq> (c, tid)) (sv_live s)\<rparr>"

definition sv_Stop :: "nat \<Rightarrow> service \<Rightarrow> bool \<times> service" where
  "sv_Stop tid s =
     (case sv_running s tid of
        None \<Rightarrow> (False, s)
      | Some c \<Rightarrow> (True, s\<lparr>sv_cancelled := sv_cancelled s @ [c]\<rparr>))"

section \<open>Summaries of the instances\<close>

fun summary_files :: "'w ports \<Rightarrow> nat \<Rightarrow> mod_file list \<Rightarrow> string \<Rightarrow> 'w \<Rightarrow> string \<times> 'w" where
  "summary_files P i [] b w = (b, w)"
| "summary_files P i (e # es) b w =
     (if mf_IsDir e \<or> \<not> has_suffix (mf_Path e) ''.md'' then summary_files P i es b w
      else
        (case p_Read P i (mf_Path e) w of
           (Inl err, w1) \<Rightarrow> summary_files P i es b w1
         | (Inr body, w1) \<Rightarrow>
             let b1 = b @ ''--- '' @ mf_Path e @ '' ---'' @ newline @ body @ newline @ newline
             in if 16000 < length b1 then (b1, w1) else summary_files P i es b1 w1))"

definition refreshOne :: "'w ports \<Rightarrow> nat \<Rightarrow> 'w mstate \<Rightarrow> (merror + unit) \<times> 'w mstate" where
  "refreshOne P i m =
     (case p_List P i (WorkspaceDir (ms_db m)) (ms_ws m) of
        (Inl e, w) \<Rightarrow> (Inl e, m\<lparr>ms_ws := w\<rparr>)
      | (Inr entries, w) \<Rightarrow>
          (case summary_files P i entries [] w of
             (b, w1) \<Rightarrow>
               let (provKey, model) = ModeratorProvider (ms_db m);
                   summary = (if b = [] then []
                     else case p_Complete P provKey model
                            (''In ONE paragraph (max 120 words), describe the personality, current focus, and recent activity of the OpenClaw agent whose workspace markdown is below. Be concrete.''
                             @ newline @ newline @ b) of
                       Inl e \<Rightarrow> []
                     | Inr resp \<Rightarrow> trim_space resp)
               in st_UpsertSoul i summary (m\<lparr>ms_ws := w1\<rparr>)))"

definition refreshAll :: "'w ports \<Rightarrow> 'w mstate \<Rightarrow> 'w mstate" where
  "refreshAll P m0 =
     (case il_ListInstanceIDs m0 of
        (Inl e, m1) \<Rightarrow> m1
      | (Inr ids, m1) \<Rightarrow> fold (\<lambda>i m. snd (refreshOne P i m)) ids m1)"

section \<open>The adapters\<close>

text \<open>\<open>WorkspaceFS\<close> over the remote file commands; \<open>conn\<close> is the failure to reach the instance, \<open>ferr\<close> the
  text of a file error.\<close>

definition ws_List ::
    "(nat \<Rightarrow> string option) \<Rightarrow> (file_error \<Rightarrow> string) \<Rightarrow> (nat \<Rightarrow> 'w exec) \<Rightarrow> nat \<Rightarrow> string \<Rightarrow> 'w
       \<Rightarrow> (merror + mod_file list) \<times> 'w" where
  "ws_List conn ferr exec i dir w =
     (case conn i of
        Some e \<Rightarrow> (Inl (Msg e), w)
      | None \<Rightarrow>
          (case ListDirectory (exec i) dir w of
             (Inl e, w1) \<Rightarrow> (Inl (Msg (ferr e)), w1)
           | (Inr es, w1) \<Rightarrow>
               (Inr (map (\<lambda>e. \<lparr>mf_Path = filepath_Join dir (fe_Name e),
                              mf_Size = (case fe_Size e of None \<Rightarrow> 0 | Some t \<Rightarrow> scan_int t),
                              mf_IsDir = (fe_Type e = ''directory'')\<rparr>) es), w1)))"

definition ws_Read ::
    "(nat \<Rightarrow> string option) \<Rightarrow> (file_error \<Rightarrow> string) \<Rightarrow> (nat \<Rightarrow> 'w exec) \<Rightarrow> nat \<Rightarrow> string \<Rightarrow> 'w
       \<Rightarrow> (merror + string) \<times> 'w" where
  "ws_Read conn ferr exec i path w =
     (case conn i of
        Some e \<Rightarrow> (Inl (Msg e), w)
      | None \<Rightarrow>
          (case ReadFile (exec i) path w of
             (Inl e, w1) \<Rightarrow> (Inl (Msg (ferr e)), w1) | (Inr d, w1) \<Rightarrow> (Inr d, w1)))"

definition ws_Write ::
    "(nat \<Rightarrow> string option) \<Rightarrow> (file_error \<Rightarrow> string) \<Rightarrow> (nat \<Rightarrow> 'w exec) \<Rightarrow> nat \<Rightarrow> string \<Rightarrow> string \<Rightarrow> 'w
       \<Rightarrow> merror option \<times> 'w" where
  "ws_Write conn ferr exec i path data w =
     (case conn i of
        Some e \<Rightarrow> (Some (Msg e), w)
      | None \<Rightarrow>
          (case EnsureParentDir (exec i) path w of
             (Some e, w1) \<Rightarrow> (Some (Msg (ferr e)), w1)
           | (None, w1) \<Rightarrow>
               (case WriteFile (exec i) path data w1 of (r, w2) \<Rightarrow> (map_option (\<lambda>e. Msg (ferr e)) r, w2))))"

definition ws_RemoveAll ::
    "(nat \<Rightarrow> string option) \<Rightarrow> (file_error \<Rightarrow> string) \<Rightarrow> (nat \<Rightarrow> 'w exec) \<Rightarrow> nat \<Rightarrow> string \<Rightarrow> 'w
       \<Rightarrow> merror option \<times> 'w" where
  "ws_RemoveAll conn ferr exec i path w =
     (case conn i of
        Some e \<Rightarrow> (Some (Msg e), w)
      | None \<Rightarrow> (case DeletePath (exec i) path w of (r, w1) \<Rightarrow> (map_option (\<lambda>e. Msg (ferr e)) r, w1)))"

text \<open>\<open>LLMClient\<close>: the request for a provider, and the text in its answer.\<close>

record llm_call =
  lc_URL :: string
  lc_Headers :: "(string \<times> string) list"
  lc_Body :: string

definition user_messages :: "string \<Rightarrow> string" where
  "user_messages prompt = jtext ''~messages~:[{~content~:'' @ json_quote prompt @ jtext '',~role~:~user~}]''"

definition llm_request :: "string \<Rightarrow> LLMProvider \<Rightarrow> string \<Rightarrow> string \<Rightarrow> llm_call" where
  "llm_request apiKey prov model prompt =
     (let base = trim_right_slash (prov_BaseURL prov);
          json_type = (''Content-Type'', ''application/json'') in
      if prov_APIType prov = ''anthropic-messages''
      then \<lparr>lc_URL = base @ ''/v1/messages'',
            lc_Headers = json_type # (if apiKey = [] then [] else [(''X-Api-Key'', apiKey)])
                         @ [(''Anthropic-Version'', ''2023-06-01'')],
            lc_Body = jtext ''{~max_tokens~:4096,'' @ user_messages prompt @ jtext '',~model~:'' @ json_quote model @ ''}''\<rparr>
      else \<lparr>lc_URL = (if has_suffix base ''/v1'' \<or> contains base ''/v1/'' then base @ ''/chat/completions''
                       else base @ ''/v1/chat/completions''),
            lc_Headers = json_type # (if apiKey = [] then [] else [(''Authorization'', ''Bearer '' @ apiKey)]),
            lc_Body = ''{'' @ user_messages prompt @ jtext '',~model~:'' @ json_quote model @ ''}''\<rparr>)"

definition slice_at :: "string list \<Rightarrow> gv \<Rightarrow> gv list" where
  "slice_at ks v = (case at_path ks v of GSlice vs \<Rightarrow> vs | _ \<Rightarrow> [])"

definition anthropic_reply_shape :: shape where
  "anthropic_reply_shape = SStruct [(''content'', SSlice (SStruct [(''type'', SString), (''text'', SString)]))]"

definition openai_reply_shape :: shape where
  "openai_reply_shape = SStruct [(''choices'', SSlice (SStruct [(''message'', SStruct [(''content'', SString)])]))]"

definition llm_reply :: "(string \<Rightarrow> string) \<Rightarrow> string \<Rightarrow> nat \<Rightarrow> string \<Rightarrow> merror + string" where
  \<comment> \<open>\<open>jerr\<close> is the text of the decoder's error\<close>
  "llm_reply jerr apiType statusCode body =
     (if statusCode div 100 \<noteq> 2 then Inl (Msg (''llm http '' @ show_nat statusCode @ '': '' @ body))
      else if apiType = ''anthropic-messages'' then
        (case unmarshal anthropic_reply_shape body (zero_of anthropic_reply_shape) of
           (v, ok) \<Rightarrow>
             if \<not> ok then Inl (Msg (jerr body))
             else Inr (concat (map (\<lambda>c. if str_at [''type''] c = ''text'' then str_at [''text''] c else [])
                                 (slice_at [''content''] v))))
      else
        (case unmarshal openai_reply_shape body (zero_of openai_reply_shape) of
           (v, ok) \<Rightarrow>
             if \<not> ok then Inl (Msg (jerr body))
             else (case slice_at [''choices''] v of
                     [] \<Rightarrow> Inl (Msg ''llm empty response'')
                   | c # cs \<Rightarrow> Inr (str_at [''message'', ''content''] c))))"

text \<open>\<open>http\<close> sends the call: an error, or the status and the body.\<close>

definition Complete ::
    "(string \<Rightarrow> string option) \<Rightarrow> (string \<Rightarrow> string) \<Rightarrow> (llm_call \<Rightarrow> merror + nat \<times> string) \<Rightarrow> db
       \<Rightarrow> string \<Rightarrow> string \<Rightarrow> string \<Rightarrow> merror + string" where
  "Complete unseal jerr http d providerKey model prompt =
     (case List.find (\<lambda>p. prov_Key p = providerKey \<and> prov_InstanceID p = None) (llm_providers d) of
        None \<Rightarrow> Inl (Msg (''load provider '' @ json_quote providerKey @ '': record not found''))
      | Some prov \<Rightarrow>
          let apiKey = (if prov_APIKey prov = [] then []
                        else case unseal (prov_APIKey prov) of None \<Rightarrow> [] | Some k \<Rightarrow> k)
          in case http (llm_request apiKey prov model prompt) of
               Inl e \<Rightarrow> Inl e
             | Inr (code, body) \<Rightarrow> llm_reply jerr (prov_APIType prov) code body)"

end
