(* ===== verification/Kanban.thy ===== *)
theory Kanban imports ModeratorRun begin

text \<open>
  The handlers of \<^verbatim>\<open>control-plane/internal/handlers/kanban.go\<close>.  A decoded JSON body is an
  option, \<open>None\<close> when it does not decode; a path parameter is its text, read as 0 when it is no number.
  A handler that has the moderator work on a task says so by the task's number.
\<close>

definition id_param :: "string \<Rightarrow> nat" where
  \<comment> \<open>\<open>id, _ := strconv.Atoi(...)\<close>: a number out of range is clamped\<close>
  "id_param p =
     (case atoi p of
        Some i \<Rightarrow> uint_of i
      | None \<Rightarrow>
          let ds = (if has_prefix p ''-'' \<or> has_prefix p ''+'' then tl p else p)
          in if ds \<noteq> [] \<and> list_all is_digit ds
             then uint_of (if has_prefix p ''-'' then - (2 ^ 63) else 2 ^ 63 - 1)
             else 0)"

section \<open>Boards\<close>

record boardPayload =
  bp_Name :: string
  bp_Description :: string
  bp_EligibleInstances :: "nat list option"

definition marshal_ids :: "nat list option \<Rightarrow> string" where
  \<comment> \<open>\<open>None\<close> is the nil slice\<close>
  "marshal_ids ids = (case ids of None \<Rightarrow> ''null'' | Some is \<Rightarrow> ''['' @ comma_ids is @ '']'')"

definition ListKanbanBoards :: "db \<Rightarrow> (KanbanBoard \<times> nat list) list reply" where
  "ListKanbanBoards d = Reply 200 (map (\<lambda>b. (b, id_column (kb_EligibleInstances b))) (rev (kanban_boards d)))"

definition CreateKanbanBoard :: "boardPayload option \<Rightarrow> db \<Rightarrow> KanbanBoard reply \<times> db" where
  "CreateKanbanBoard body d =
     (case body of
        None \<Rightarrow> (Fail 400 ''invalid payload'', d)
      | Some p \<Rightarrow>
          if bp_Name p = [] then (Fail 400 ''invalid payload'', d)
          else
            let mk = (\<lambda>i. \<lparr>kb_ID = i, kb_Name = bp_Name p, kb_Description = bp_Description p,
                         kb_EligibleInstances = marshal_ids (bp_EligibleInstances p)\<rparr>);
                (i, d1) = create_row ''kanban_boards'' kanban_boards kanban_boards_update mk d
            in (Reply 201 (mk i), d1))"

definition GetKanbanBoard :: "string \<Rightarrow> db \<Rightarrow> (KanbanBoard \<times> nat list \<times> KanbanTask list) reply" where
  "GetKanbanBoard idp d =
     (case first_row kanban_boards kb_ID (id_param idp) d of
        None \<Rightarrow> Fail 404 ''not found''
      | Some b \<Rightarrow> Reply 200 (b, id_column (kb_EligibleInstances b),
                             rev (filter (\<lambda>t. kt_BoardID t = id_param idp) (kanban_tasks d))))"

definition UpdateKanbanBoard :: "string \<Rightarrow> boardPayload option \<Rightarrow> db \<Rightarrow> unit reply \<times> db" where
  "UpdateKanbanBoard idp body d =
     (case body of
        None \<Rightarrow> (Fail 400 ''invalid payload'', d)
      | Some p \<Rightarrow>
          (Reply 204 (), update_row kanban_boards_update kb_ID (id_param idp)
             (\<lambda>b. b\<lparr>kb_Name := bp_Name p, kb_Description := bp_Description p,
                    kb_EligibleInstances := marshal_ids (bp_EligibleInstances p)\<rparr>) d))"

definition DeleteKanbanBoard :: "string \<Rightarrow> db \<Rightarrow> unit reply \<times> db" where
  "DeleteKanbanBoard idp d =
     (Reply 204 (),
      delete_row kanban_boards_update kb_ID (id_param idp)
        (d\<lparr>kanban_tasks := filter (\<lambda>t. kt_BoardID t \<noteq> id_param idp) (kanban_tasks d)\<rparr>))"

section \<open>Tasks\<close>

record taskPayload =
  tp_Title :: string
  tp_Description :: string
  tp_EvaluatorProviderKey :: string
  tp_EvaluatorModel :: string
  tp_Status :: string

definition first_line :: "string \<Rightarrow> string" where
  "first_line s = takeWhile (\<lambda>c. c \<noteq> CHR 0x0A) s"

definition autoTitle :: "string \<Rightarrow> string" where
  "autoTitle desc =
     (let line0 = trim_space (first_line (trim_space desc));
          line = (if 60 < length line0 then take 57 line0 @ ''...'' else line0)
      in if line = [] then ''Untitled task'' else line)"

text \<open>The third result is the task that \<open>EnqueueTask\<close> is called for; \<open>svc\<close> says whether there is a moderator.\<close>

definition CreateKanbanTask ::
    "bool \<Rightarrow> string \<Rightarrow> taskPayload option \<Rightarrow> db \<Rightarrow> KanbanTask reply \<times> db \<times> nat option" where
  "CreateKanbanTask svc boardp body d =
     (case body of
        None \<Rightarrow> (Fail 400 ''invalid payload'', d, None)
      | Some p \<Rightarrow>
          if tp_Description p = [] then (Fail 400 ''invalid payload'', d, None)
          else
            let title = (if tp_Title p = [] then autoTitle (tp_Description p) else tp_Title p);
                st = (if tp_Status p = ''draft'' then ''draft'' else ''todo'');
                mk = (\<lambda>i. \<lparr>kt_ID = i, kt_BoardID = id_param boardp, kt_Title = title,
                         kt_Description = tp_Description p, kt_Status = st, kt_AssignedInstanceID = None,
                         kt_OpenClawSessionID = [], kt_OpenClawRunID = [],
                         kt_EvaluatorProviderKey = tp_EvaluatorProviderKey p,
                         kt_EvaluatorModel = tp_EvaluatorModel p\<rparr>);
                (i, d1) = create_row ''kanban_tasks'' kanban_tasks kanban_tasks_update mk d
            in (Reply 201 (mk i), d1, if st = ''todo'' \<and> svc then Some i else None))"

definition StartKanbanTask :: "bool \<Rightarrow> string \<Rightarrow> db \<Rightarrow> unit reply \<times> db \<times> nat option" where
  "StartKanbanTask svc idp d =
     (case first_row kanban_tasks kt_ID (id_param idp) d of
        None \<Rightarrow> (Fail 404 ''not found'', d, None)
      | Some t \<Rightarrow>
          if kt_Status t \<noteq> ''draft'' then (Fail 400 ''task is not in draft status'', d, None)
          else (Reply 202 (), update_row kanban_tasks_update kt_ID (kt_ID t) (\<lambda>t. t\<lparr>kt_Status := ''todo''\<rparr>) d,
                if svc then Some (kt_ID t) else None))"

definition GetKanbanTask ::
    "string \<Rightarrow> db \<Rightarrow> (KanbanTask \<times> KanbanComment list \<times> KanbanArtifact list) reply" where
  "GetKanbanTask idp d =
     (case first_row kanban_tasks kt_ID (id_param idp) d of
        None \<Rightarrow> Fail 404 ''not found''
      | Some t \<Rightarrow> Reply 200 (t, filter (\<lambda>c. kc_TaskID c = id_param idp) (kanban_comments d),
                             filter (\<lambda>a. ka_TaskID a = id_param idp) (kanban_artifacts d)))"

text \<open>The members of the body that may be changed, as texts; other members are dropped.\<close>

definition patch_task :: "(string \<rightharpoonup> string) \<Rightarrow> KanbanTask \<Rightarrow> KanbanTask" where
  "patch_task p t =
     (let get = (\<lambda>k def. case p k of None \<Rightarrow> def | Some v \<Rightarrow> v) in
      t\<lparr>kt_Status := get ''status'' (kt_Status t), kt_Title := get ''title'' (kt_Title t),
        kt_Description := get ''description'' (kt_Description t),
        kt_EvaluatorProviderKey := get ''evaluator_provider_key'' (kt_EvaluatorProviderKey t),
        kt_EvaluatorModel := get ''evaluator_model'' (kt_EvaluatorModel t)\<rparr>)"

definition PatchKanbanTask :: "string \<Rightarrow> (string \<rightharpoonup> string) option \<Rightarrow> db \<Rightarrow> unit reply \<times> db" where
  "PatchKanbanTask idp body d =
     (case body of
        None \<Rightarrow> (Fail 400 ''invalid payload'', d)
      | Some p \<Rightarrow> (Reply 204 (), update_row kanban_tasks_update kt_ID (id_param idp) (patch_task p) d))"

text \<open>\<open>RemoveAll\<close> of the directory of a task's artifacts.\<close>

definition remove_tree :: "string \<Rightarrow> (string \<rightharpoonup> string) \<Rightarrow> (string \<rightharpoonup> string)" where
  "remove_tree dir disk = (\<lambda>p. if p = dir \<or> has_prefix p (dir @ ''/'') then None else disk p)"

definition DeleteKanbanTask ::
    "string \<Rightarrow> string \<Rightarrow> db \<Rightarrow> (string \<rightharpoonup> string) \<Rightarrow> unit reply \<times> db \<times> (string \<rightharpoonup> string)" where
  "DeleteKanbanTask dataPath idp d disk =
     (let i = id_param idp;
          artifactDir = filepath_Join (get_setting ''kanban_artifacts_dir'' (dataPath @ ''/kanban/artifacts'') d) (show_nat i)
      in (Reply 204 (),
          delete_row kanban_tasks_update kt_ID i
            (d\<lparr>kanban_comments := filter (\<lambda>c. kc_TaskID c \<noteq> i) (kanban_comments d),
               kanban_artifacts := filter (\<lambda>a. ka_TaskID a \<noteq> i) (kanban_artifacts d)\<rparr>),
          remove_tree artifactDir disk))"

definition StopKanbanTask :: "string \<Rightarrow> service \<Rightarrow> unit reply \<times> service" where
  "StopKanbanTask idp s = (Reply 204 (), snd (sv_Stop (id_param idp) s))"

definition CreateKanbanUserComment ::
    "string \<Rightarrow> string option \<Rightarrow> User option \<Rightarrow> db \<Rightarrow> nat reply \<times> db" where
  "CreateKanbanUserComment idp body cu d =
     (case body of
        None \<Rightarrow> (Fail 400 ''invalid payload'', d)
      | Some text \<Rightarrow>
          if text = [] then (Fail 400 ''invalid payload'', d)
          else
            let author = (case cu of None \<Rightarrow> ''user'' | Some u \<Rightarrow> Username u);
                (i, d1) = new_comment (id_param idp) ''user'' author text [] d
            in (Reply 201 i, d1))"

definition ReopenKanbanTask :: "bool \<Rightarrow> string \<Rightarrow> db \<Rightarrow> unit reply \<times> db \<times> nat option" where
  "ReopenKanbanTask svc idp d =
     (if svc then (Reply 202 (), update_row kanban_tasks_update kt_ID (id_param idp) (\<lambda>t. t\<lparr>kt_Status := ''todo''\<rparr>) d,
                   Some (id_param idp))
      else (Reply 202 (), d, None))"

definition DownloadKanbanArtifact :: "string \<Rightarrow> db \<Rightarrow> (string \<rightharpoonup> string) \<Rightarrow> (string \<times> string) reply" where
  \<comment> \<open>the name sent and the content\<close>
  "DownloadKanbanArtifact aidp d disk =
     (case first_row kanban_artifacts ka_ID (id_param aidp) d of
        None \<Rightarrow> Fail 404 ''not found''
      | Some a \<Rightarrow>
          (case disk (ka_StoragePath a) of
             None \<Rightarrow> Fail 500 (''open '' @ ka_StoragePath a @ '': no such file or directory'')
           | Some data \<Rightarrow> Reply 200 (ka_Path a, data)))"

end
