(* ===== verification/Paths.thy ===== *)
theory Paths imports Mentions begin

text \<open>
  Facts about cleaned paths: the elements that \<open>Clean\<close> leaves, that it leaves a cleaned path alone, and that
  joining a path without \<open>..\<close> stays below the directory it is joined to.
\<close>

section \<open>Splitting and joining\<close>

lemma go_split_append: "go_split sep (a @ sep # b) = go_split sep a @ go_split sep b"
  by (induction a) auto

lemma go_split_elems: "c \<in> set (go_split sep s) \<Longrightarrow> sep \<notin> set c"
proof (induction s arbitrary: c)
  case (Cons x s)
  have "hd (go_split sep s) \<in> set (go_split sep s)" by simp
  moreover have "set (tl (go_split sep s)) \<subseteq> set (go_split sep s)" by (cases "go_split sep s") auto
  ultimately show ?case using Cons by (auto split: if_splits)
qed simp

lemma go_split_infix: "c \<in> set (go_split sep s) \<Longrightarrow> \<exists>a b. s = a @ c @ b"
proof (induction s arbitrary: c)
  case (Cons x s)
  obtain h t where s: "go_split sep s = h # t" by (cases "go_split sep s") auto
  have "\<exists>b. s = hd (go_split sep s) @ b" for s by (induction s) auto
  with s have h: "\<exists>b. s = h @ b" by (metis list.sel(1))
  show ?case
  proof (cases "c = x # h \<and> x \<noteq> sep")
    case True
    with h show ?thesis by (metis append_Cons append_Nil)
  next
    case False
    show ?thesis
    proof (cases "c = []")
      case ne: False
      with Cons.prems s False have "c \<in> set (go_split sep s)" by (auto split: if_splits)
      with Cons.IH obtain a b where "s = a @ c @ b" by blast
      then show ?thesis by (metis append_Cons)
    qed auto
  qed
qed simp

lemma go_split_single: "sep \<notin> set c \<Longrightarrow> go_split sep c = [c]"
  by (induction c) auto

lemma split_join: "xs \<noteq> [] \<Longrightarrow> (\<forall>c \<in> set xs. CHR ''/'' \<notin> set c) \<Longrightarrow> go_split (CHR ''/'') (join_slash xs) = xs"
  by (induction xs rule: join_slash.induct) (auto simp: go_split_single go_split_append [where sep = "CHR ''/''", simplified])

lemma join_slash_append: "xs \<noteq> [] \<Longrightarrow> ys \<noteq> [] \<Longrightarrow> join_slash (xs @ ys) = join_slash xs @ ''/'' @ join_slash ys"
  by (induction xs rule: join_slash.induct) (auto simp: neq_Nil_conv)

section \<open>Cleaned paths\<close>

definition normal :: "bool \<Rightarrow> string list \<Rightarrow> bool" where
  "normal r out \<longleftrightarrow> (\<forall>c \<in> set out. c \<noteq> [] \<and> c \<noteq> ''.'' \<and> CHR ''/'' \<notin> set c) \<and>
     (\<exists>k rest. out = replicate k ''..'' @ rest \<and> ''..'' \<notin> set rest \<and> (r \<longrightarrow> k = 0))"

definition path_text :: "bool \<Rightarrow> string list \<Rightarrow> string" where
  "path_text r out = (let s = (if r then ''/'' else []) @ join_slash out in if s = [] then ''.'' else s)"

lemma Clean_text: "filepath_Clean p = path_text (has_prefix p ''/'')
    (foldl (clean_step (has_prefix p ''/'')) [] (go_split (CHR ''/'') p))"
  by (simp add: filepath_Clean_def path_text_def Let_def)

lemma normal_Nil [simp]: "normal r []"
  by (simp add: normal_def)

lemma clean_step_normal:
  assumes "normal r out" "CHR ''/'' \<notin> set c"
  shows "normal r (clean_step r out c)"
proof -
  from assms(1) obtain k rest where o: "out = replicate k ''..'' @ rest" "''..'' \<notin> set rest" "r \<longrightarrow> k = 0"
    and e: "\<forall>c \<in> set out. c \<noteq> [] \<and> c \<noteq> ''.'' \<and> CHR ''/'' \<notin> set c" by (auto simp: normal_def)
  consider "c = [] \<or> c = ''.''" | "c = ''..''" | "c \<noteq> []" "c \<noteq> ''.''" "c \<noteq> ''..''" by blast
  then show ?thesis
  proof cases
    case 1
    with assms show ?thesis by (simp add: clean_step_def)
  next
    case 2
    show ?thesis
    proof (cases "rest = []")
      case True
      then have "out \<noteq> [] \<Longrightarrow> last out = ''..''" using o by (cases k) auto
      moreover have r: "out @ [''..''] = replicate (Suc k) ''..'' @ []"
        using o True by (simp add: replicate_append_same)
      ultimately have s: "clean_step r out c = (if r then out else out @ [''..''])" using 2 by (auto simp: clean_step_def)
      have "normal r (out @ [''..''])" if "\<not> r"
        unfolding normal_def
      proof (intro conjI exI [of _ "Suc k"] exI [of _ "[]"])
        show "\<forall>c \<in> set (out @ [''..'']). c \<noteq> [] \<and> c \<noteq> ''.'' \<and> CHR ''/'' \<notin> set c" using e by simp
      qed (use r that in simp_all)
      with s assms(1) show ?thesis by (cases r) simp_all
    next
      case False
      then have l: "last out = last rest" "butlast out = replicate k ''..'' @ butlast rest" "out \<noteq> []"
        using o by (auto simp: butlast_append)
      moreover have "last rest \<noteq> ''..''" using False o by (metis last_in_set)
      ultimately have "clean_step r out c = replicate k ''..'' @ butlast rest" using 2 by (simp add: clean_step_def)
      moreover have "\<forall>c \<in> set (butlast out). c \<noteq> [] \<and> c \<noteq> ''.'' \<and> CHR ''/'' \<notin> set c" using e by (meson in_set_butlastD)
      ultimately show ?thesis using o l unfolding normal_def by (metis in_set_butlastD)
    qed
  next
    case 3
    then have "clean_step r out c = replicate k ''..'' @ rest @ [c]" using o by (simp add: clean_step_def)
    moreover have "\<forall>x \<in> set (rest @ [c]). x \<noteq> ''..''" using o 3 by auto
    moreover have "\<forall>x \<in> set (replicate k ''..'' @ rest @ [c]). x \<noteq> [] \<and> x \<noteq> ''.'' \<and> CHR ''/'' \<notin> set x"
      using 3 o(1) e assms(2) by auto
    ultimately show ?thesis unfolding normal_def
      by (simp only:) (intro conjI exI [of _ k] exI [of _ "rest @ [c]"]; use o(3) in auto)
  qed
qed

lemma foldl_normal: "normal r out \<Longrightarrow> (\<forall>c \<in> set xs. CHR ''/'' \<notin> set c) \<Longrightarrow> normal r (foldl (clean_step r) out xs)"
  by (induction xs arbitrary: out) (auto intro: clean_step_normal)

lemma Clean_normal: "\<exists>out. normal (has_prefix p ''/'') out \<and> filepath_Clean p = path_text (has_prefix p ''/'') out"
  unfolding Clean_text by (rule exI, rule conjI [OF foldl_normal refl]) (auto dest: go_split_elems)

lemma path_text_nonempty [simp]: "path_text r out \<noteq> []"
  by (simp add: path_text_def Let_def)

lemma join_slash_Cons: "\<exists>t. join_slash (c # cs) = c @ t"
  by (cases cs) auto

lemma path_text_rooted: "normal r out \<Longrightarrow> has_prefix (path_text r out @ t) ''/'' = r"
proof (cases "out = [] \<or> r")
  case False
  assume n: "normal r out"
  from False obtain c cs where c: "out = c # cs" by (cases out) auto
  from n c obtain x xs where "c = x # xs" "x \<noteq> CHR ''/''" by (cases c) (auto simp: normal_def)
  moreover obtain u where "join_slash (c # cs) = c @ u" using join_slash_Cons by blast
  ultimately show ?thesis using False c by (auto simp: path_text_def has_prefix_def)
qed (auto simp: path_text_def has_prefix_def Let_def)

lemma foldl_plain:
  "(\<forall>c \<in> set xs. c \<noteq> ''..'') \<Longrightarrow> foldl (clean_step r) out xs = out @ filter (\<lambda>c. c \<noteq> [] \<and> c \<noteq> ''.'') xs"
  by (induction xs arbitrary: out) (auto simp: clean_step_def)

lemma foldl_of_normal: "normal r out \<Longrightarrow> foldl (clean_step r) [] out = out"
proof -
  assume "normal r out"
  then obtain k rest where o: "out = replicate k ''..'' @ rest" "''..'' \<notin> set rest" "r \<longrightarrow> k = 0"
    and e: "\<forall>c \<in> set out. c \<noteq> [] \<and> c \<noteq> ''.''" unfolding normal_def by blast
  have ups: "foldl (clean_step False) (replicate j ''..'') (replicate k ''..'') = replicate (j + k) ''..''" for j k
  proof (induction k arbitrary: j)
    case (Suc k)
    have "clean_step False (replicate j ''..'') ''..'' = replicate (Suc j) ''..''"
      by (cases j) (auto simp: clean_step_def replicate_append_same)
    with Suc [of "Suc j"] show ?case by (simp del: replicate_Suc add: replicate_Suc [of k])
  qed simp
  have "foldl (clean_step r) [] (replicate k ''..'') = replicate k ''..''"
    using ups [of 0 k] o(3) by (cases r) auto
  moreover have "filter (\<lambda>c. c \<noteq> [] \<and> c \<noteq> ''.'') rest = rest" using e o(1) by (intro filter_True) auto
  ultimately show ?thesis using o(1,2) foldl_plain [of rest r "replicate k ''..''"] by auto
qed

lemma join_slash_nonempty: "normal r out \<Longrightarrow> out \<noteq> [] \<Longrightarrow> join_slash out \<noteq> []"
  by (cases out rule: join_slash.cases) (auto simp: normal_def)

lemma foldl_path_text:
  assumes n: "normal r out"
  shows "foldl (clean_step r) [] (go_split (CHR ''/'') (path_text r out)) = out"
proof (cases "out = []")
  case True
  then show ?thesis by (cases r) (simp_all add: path_text_def clean_step_def)
next
  case False
  have j: "go_split (CHR ''/'') (join_slash out) = out" using n False by (intro split_join) (auto simp: normal_def)
  have "path_text r out = (if r then ''/'' else []) @ join_slash out"
    using join_slash_nonempty [OF n False] by (simp add: path_text_def Let_def)
  then have "go_split (CHR ''/'') (path_text r out) = (if r then [[]] else []) @ out" using j by simp
  moreover have "foldl (clean_step r) [] ((if r then [[]] else []) @ out) = foldl (clean_step r) [] out"
    by (simp add: clean_step_def)
  ultimately show ?thesis using foldl_of_normal [OF n] by simp
qed

text \<open>Joining a path that has no \<open>..\<close> goes down from the directory.\<close>

lemma Join_down:
  assumes "normal r out" "b \<noteq> []" "\<forall>c \<in> set (go_split (CHR ''/'') b). c \<noteq> ''..''"
  shows "filepath_Join (path_text r out) b
       = path_text r (out @ filter (\<lambda>c. c \<noteq> [] \<and> c \<noteq> ''.'') (go_split (CHR ''/'') b))"
proof -
  have "has_prefix (path_text r out @ ''/'' @ b) ''/'' = r" using assms(1) by (rule path_text_rooted)
  moreover have "go_split (CHR ''/'') (path_text r out @ ''/'' @ b)
      = go_split (CHR ''/'') (path_text r out) @ go_split (CHR ''/'') b"
    using go_split_append [of "CHR ''/''"] by simp
  ultimately show ?thesis
    using assms foldl_path_text [of r out] by (simp add: filepath_Join_def Clean_text foldl_plain)
qed

lemma path_text_below: "out \<noteq> [] \<Longrightarrow> normal r out \<Longrightarrow>
    path_text r (out @ ys) = path_text r out @ (if ys = [] then [] else ''/'' @ join_slash ys)"
proof -
  assume "out \<noteq> []" "normal r out"
  then have "join_slash out \<noteq> []" by (cases out rule: join_slash.cases) (auto simp: normal_def)
  with \<open>out \<noteq> []\<close> show ?thesis by (simp add: path_text_def Let_def join_slash_append)
qed

text \<open>The directory of a number.\<close>

lemma show_nat_chars: "c \<in> set (show_nat n) \<Longrightarrow> \<exists>d < 10. c = char_of (48 + d :: nat)"
proof (induction n rule: show_nat.induct)
  case (1 n)
  show ?case
  proof (cases "n < 10")
    case False
    with 1 have "c \<in> set (show_nat (n div 10)) \<or> c = char_of (48 + n mod 10)" by (subst (asm) show_nat.simps) auto
    with 1 False show ?thesis by (metis mod_less_divisor zero_less_numeral)
  qed (use 1 in \<open>auto simp: show_nat.simps [of n]\<close>)
qed

lemma show_nat_nonempty: "show_nat n \<noteq> []"
  by (subst show_nat.simps) auto

lemma show_nat_elem: "CHR ''/'' \<notin> set (show_nat n)" "show_nat n \<noteq> ''.''" "show_nat n \<noteq> ''..''"
proof -
  have no: "c \<notin> set (show_nat n)" if "of_char c < (48::nat)" for c
  proof
    assume "c \<in> set (show_nat n)"
    then obtain d :: nat where "d < 10" "c = char_of (48 + d)" using show_nat_chars by blast
    with that show False by simp
  qed
  from no [of "CHR ''/''"] show "CHR ''/'' \<notin> set (show_nat n)" by simp
  have dot: "CHR ''.'' \<notin> set (show_nat n)" using no [of "CHR ''.''"] by simp
  then show "show_nat n \<noteq> ''.''" by (metis list.set_intros(1))
  show "show_nat n \<noteq> ''..''" using dot by (metis list.set_intros(1))
qed

lemma numbered_dir: "\<exists>r out. normal r out \<and> out \<noteq> [] \<and> filepath_Join dir (show_nat n) = path_text r out"
proof -
  let ?p = "(if dir = [] then [] else dir @ ''/'') @ show_nat n"
  have j: "filepath_Join dir (show_nat n) = filepath_Clean ?p" by (simp add: filepath_Join_def show_nat_nonempty)
  have "go_split (CHR ''/'') (show_nat n) = [show_nat n]" by (rule go_split_single) (rule show_nat_elem)
  then have "\<exists>xs. go_split (CHR ''/'') ?p = xs @ [show_nat n]"
    using go_split_append [of "CHR ''/''" dir "show_nat n"] by simp
  then obtain xs where xs: "go_split (CHR ''/'') ?p = xs @ [show_nat n]" by blast
  let ?out = "foldl (clean_step (has_prefix ?p ''/'')) [] (go_split (CHR ''/'') ?p)"
  have "normal (has_prefix ?p ''/'') ?out" by (rule foldl_normal) (auto dest: go_split_elems)
  moreover have "?out \<noteq> []" by (simp add: xs clean_step_def show_nat_elem show_nat_nonempty)
  ultimately show ?thesis using j Clean_text by metis
qed

definition below :: "string \<Rightarrow> string \<Rightarrow> bool" where
  "below dir p \<longleftrightarrow> p = dir \<or> has_prefix p (dir @ ''/'')"

theorem numbered_dir_contains:
  assumes "rel \<noteq> []" "\<not> contains rel ''..''"
  shows "below (filepath_Join dir (show_nat n)) (filepath_Join (filepath_Join dir (show_nat n)) rel)"
proof -
  obtain r out where o: "normal r out" "out \<noteq> []" "filepath_Join dir (show_nat n) = path_text r out"
    using numbered_dir by blast
  have "\<forall>c \<in> set (go_split (CHR ''/'') rel). c \<noteq> ''..''"
    using assms(2) go_split_infix contains_iff by metis
  with o assms(1) show ?thesis by (auto simp: Join_down path_text_below below_def has_prefix_iff)
qed

end
