(* ===== verification/ModeratorSafety.thy ===== *)
theory ModeratorSafety imports Kanban Paths begin

text \<open>
  Properties of the moderator: which instance a task may go to, how each task's status ends, what its
  comments and artifacts hold, and what stopping and deleting a task reach.
\<close>

section \<open>Rules for the calls\<close>

text \<open>\<open>post r Q E\<close>: \<open>Q\<close> holds of the result and the state if the call succeeds, \<open>E\<close> of the error and the state
  otherwise.\<close>

named_theorems post_rules \<open>introduction rules for \<open>post\<close> of the store's calls\<close>

definition post :: "('e + 'a) \<times> 's \<Rightarrow> ('a \<Rightarrow> 's \<Rightarrow> bool) \<Rightarrow> ('e \<Rightarrow> 's \<Rightarrow> bool) \<Rightarrow> bool" where
  "post r Q E \<longleftrightarrow> (case r of (Inl e, s) \<Rightarrow> E e s | (Inr x, s) \<Rightarrow> Q x s)"

lemma post_simps [simp]: "post (Inl e, s) Q E \<longleftrightarrow> E e s" "post (Inr x, s) Q E \<longleftrightarrow> Q x s"
  by (simp_all add: post_def)

lemma post_mono: "post r Q E \<Longrightarrow> (\<And>x s. Q x s \<Longrightarrow> Q' x s) \<Longrightarrow> (\<And>e s. E e s \<Longrightarrow> E' e s) \<Longrightarrow> post r Q' E'"
  by (auto simp: post_def split: prod.splits sum.splits)

lemma post_andThen [post_rules]: "post r (\<lambda>x s. post (k x s) Q E) E \<Longrightarrow> post (andThen r k) Q E"
  by (auto simp: post_def andThen_def split: prod.splits sum.splits)

lemma post_wrapErr [post_rules]: "post r Q (\<lambda>e. E (wrap p e)) \<Longrightarrow> post (wrapErr p r) Q E"
  by (auto simp: post_def wrapErr_def split: prod.splits sum.splits)

text \<open>A context that is never cancelled stays so.\<close>

abbreviation still :: "'w mstate \<Rightarrow> nat option \<Rightarrow> bool" where
  "still m c \<equiv> ms_ctx m = None \<longrightarrow> c = None"

lemma post_db_call:
  assumes "\<And>c. still m c \<Longrightarrow> post (f (m\<lparr>ms_ctx := c\<rparr>)) Q E" and "ms_ctx m \<noteq> None \<Longrightarrow> E Canceled m"
  shows "post (db_call f m) Q E"
proof -
  have "m\<lparr>ms_ctx := ms_ctx m\<rparr> = m" by simp
  with assms(1) [of "ms_ctx m"] have "post (f m) Q E" by simp
  with assms show ?thesis by (auto simp: db_call_def split: option.split nat.split)
qed

lemma post_GetTask [post_rules]:
  "(\<And>t c. still m c \<Longrightarrow> first_row kanban_tasks kt_ID tid (ms_db m) = Some t \<Longrightarrow> Q t (m\<lparr>ms_ctx := c\<rparr>)) \<Longrightarrow>
   (\<And>c. still m c \<Longrightarrow> E (Msg ''record not found'') (m\<lparr>ms_ctx := c\<rparr>)) \<Longrightarrow> (ms_ctx m \<noteq> None \<Longrightarrow> E Canceled m) \<Longrightarrow>
   post (st_GetTask tid m) Q E"
  unfolding st_GetTask_def by (rule post_db_call) (auto split: option.split)

lemma post_GetBoard [post_rules]:
  "(\<And>b r c. still m c \<Longrightarrow> first_row kanban_boards kb_ID i (ms_db m) = Some r \<Longrightarrow>
     Q \<lparr>bd_ID = kb_ID r, bd_EligibleInstances = id_column (kb_EligibleInstances r)\<rparr> (m\<lparr>ms_ctx := c\<rparr>)) \<Longrightarrow>
   (\<And>c. still m c \<Longrightarrow> E (Msg ''record not found'') (m\<lparr>ms_ctx := c\<rparr>)) \<Longrightarrow> (ms_ctx m \<noteq> None \<Longrightarrow> E Canceled m) \<Longrightarrow>
   post (st_GetBoard i m) Q E"
  unfolding st_GetBoard_def by (rule post_db_call) (auto split: option.split)

lemma post_ListInstanceIDs [post_rules]:
  "(\<And>c. still m c \<Longrightarrow> Q (map inst_ID (instances (ms_db m))) (m\<lparr>ms_ctx := c\<rparr>)) \<Longrightarrow>
   (ms_ctx m \<noteq> None \<Longrightarrow> E Canceled m) \<Longrightarrow> post (il_ListInstanceIDs m) Q E"
  unfolding il_ListInstanceIDs_def by (rule post_db_call) auto

lemma post_GetSouls [post_rules]:
  "(\<And>s c. still m c \<Longrightarrow> Q s (m\<lparr>ms_ctx := c\<rparr>)) \<Longrightarrow>
   (ms_ctx m \<noteq> None \<Longrightarrow> E Canceled m) \<Longrightarrow> post (st_GetSouls ids m) Q E"
  unfolding st_GetSouls_def by (rule post_db_call) auto

lemma post_InsertComment [post_rules]:
  "(\<And>c. still m c \<Longrightarrow> Q (fst (new_comment t k a b s (ms_db m)))
           (m\<lparr>ms_ctx := c, ms_db := snd (new_comment t k a b s (ms_db m))\<rparr>)) \<Longrightarrow>
   (ms_ctx m \<noteq> None \<Longrightarrow> E Canceled m) \<Longrightarrow> post (st_InsertComment t k a b s m) Q E"
  unfolding st_InsertComment_def by (rule post_db_call) (auto split: prod.split)

lemma post_UpdateTask [post_rules]:
  "(\<And>c. still m c \<Longrightarrow> Q () (m\<lparr>ms_ctx := c, ms_db := update_row kanban_tasks_update kt_ID t f (ms_db m)\<rparr>)) \<Longrightarrow>
   (ms_ctx m \<noteq> None \<Longrightarrow> E Canceled m) \<Longrightarrow> post (st_UpdateTask t f m) Q E"
  unfolding st_UpdateTask_def by (rule post_db_call) auto

lemma post_if [post_rules]: "(b \<Longrightarrow> post x Q E) \<Longrightarrow> (\<not> b \<Longrightarrow> post y Q E) \<Longrightarrow> post (if b then x else y) Q E"
  by simp

lemma post_let [post_rules]: "(\<And>x. x = y \<Longrightarrow> post (f x) Q E) \<Longrightarrow> post (let x = y in f x) Q E"
  by (simp add: Let_def)

lemma post_prod [post_rules]: "(\<And>x y. p = (x, y) \<Longrightarrow> post (f x y) Q E) \<Longrightarrow> post (case p of (x, y) \<Rightarrow> f x y) Q E"
  by (cases p) simp

lemma post_prod_app [post_rules]:
  "(\<And>x y. p = (x, y) \<Longrightarrow> post (f x y z) Q E) \<Longrightarrow> post ((case p of (x, y) \<Rightarrow> f x y) z) Q E"
  by (cases p) simp

lemma post_option [post_rules]:
  "(z = None \<Longrightarrow> post x Q E) \<Longrightarrow> (\<And>y. z = Some y \<Longrightarrow> post (f y) Q E) \<Longrightarrow>
   post (case z of None \<Rightarrow> x | Some y \<Rightarrow> f y) Q E"
  by (cases z) simp_all

text \<open>Calls whose errors are ignored.\<close>

lemma snd_db_call:
  assumes "\<And>c. still m c \<Longrightarrow> R (snd (f (m\<lparr>ms_ctx := c\<rparr>)))" and "\<And>c. still m c \<Longrightarrow> R (m\<lparr>ms_ctx := c\<rparr>)"
  shows "R (snd (db_call f m))"
proof -
  have "m\<lparr>ms_ctx := ms_ctx m\<rparr> = m" by simp
  with assms(1) [of "ms_ctx m"] assms(2) [of "ms_ctx m"] have "R (snd (f m))" "R m" by simp_all
  with assms show ?thesis by (auto simp: db_call_def split: option.split nat.split)
qed

lemma wrap_eq [simp]: "wrap p e = Canceled \<longleftrightarrow> e = Canceled" "wrap p e = Stopped \<longleftrightarrow> e = Stopped"
    "wrap p e = Diverges \<longleftrightarrow> e = Diverges"
  by (cases e; simp)+

lemma snd_shown_name: "snd (shown_name i m) = snd (il_InstanceName i m)"
  by (auto simp: shown_name_def split: prod.split sum.split)

lemma shown_name_same:
  "shown_name i m = (n, m1) \<Longrightarrow> ms_db m1 = ms_db m \<and> ms_disk m1 = ms_disk m \<and> still m (ms_ctx m1)"
proof -
  assume "shown_name i m = (n, m1)"
  then have "m1 = snd (il_InstanceName i m)" by (simp flip: snd_shown_name)
  moreover have "ms_db (snd (il_InstanceName i m)) = ms_db m \<and> ms_disk (snd (il_InstanceName i m)) = ms_disk m
      \<and> still m (ms_ctx (snd (il_InstanceName i m)))"
    unfolding il_InstanceName_def by (rule snd_db_call) (auto split: option.split)
  ultimately show ?thesis by simp
qed

section \<open>Dispatching\<close>

lemma rank_in: "candidates \<noteq> [] \<Longrightarrow> fst (rank P task candidates souls d) \<in> set candidates"
  by (auto simp: rank_def split: prod.splits sum.splits option.splits)

lemma comment_frame [simp]:
  "kanban_tasks (snd (new_comment tid k a b s d)) = kanban_tasks d"
  "kanban_boards (snd (new_comment tid k a b s d)) = kanban_boards d"
  "kanban_artifacts (snd (new_comment tid k a b s d)) = kanban_artifacts d"
  "instances (snd (new_comment tid k a b s d)) = instances d"
  "settings (snd (new_comment tid k a b s d)) = settings d"
  by (simp_all add: new_comment_def create_row_def Let_def)

definition routed :: "nat \<Rightarrow> db \<Rightarrow> nat \<Rightarrow> db \<Rightarrow> bool" where
  \<comment> \<open>the task is assigned to the instance, with a comment, and nothing else of it changes\<close>
  "routed tid d i d' \<longleftrightarrow>
     kanban_tasks d' = map (\<lambda>t. if kt_ID t = tid then t\<lparr>kt_Status := ''dispatching'', kt_AssignedInstanceID := Some i\<rparr> else t)
                         (kanban_tasks d) \<and>
     (\<exists>c. kanban_comments d' = kanban_comments d @ [c] \<and> kc_TaskID c = tid \<and> kc_Kind c = ''routing'')"

definition may_route :: "nat \<Rightarrow> db \<Rightarrow> nat \<Rightarrow> bool" where
  \<comment> \<open>the instance is on the task's board and exists\<close>
  "may_route tid d i \<longleftrightarrow>
     (\<exists>t b. first_row kanban_tasks kt_ID tid d = Some t \<and> first_row kanban_boards kb_ID (kt_BoardID t) d = Some b \<and>
        i \<in> set (id_column (kb_EligibleInstances b)) \<and> i \<in> inst_ID ` set (instances d))"

lemma routed_after:
  "routed tid d i (update_row kanban_tasks_update kt_ID tid
      (\<lambda>t. t\<lparr>kt_Status := ''dispatching'', kt_AssignedInstanceID := Some i\<rparr>)
      (snd (new_comment tid ''routing'' a b s d)))"
  by (auto simp: routed_def update_row_def new_comment_def create_row_def Let_def)

lemma chosen_in:
  "(chosen, reason) = (if length candidates = 1 then (hd candidates, r) else rank P t candidates souls d) \<Longrightarrow>
   candidates \<noteq> [] \<Longrightarrow> chosen \<in> set candidates"
  using rank_in [of candidates P t souls d] by (auto simp: prod_eq_iff split: if_splits)

lemma may_route_candidate:
  "first_row kanban_tasks kt_ID tid d = Some t \<Longrightarrow> first_row kanban_boards kb_ID (kt_BoardID t) d = Some r \<Longrightarrow>
   i \<in> set (filter (\<lambda>i. i \<in> set (map inst_ID (instances d))) (id_column (kb_EligibleInstances r))) \<Longrightarrow>
   may_route tid d i"
  by (auto simp: may_route_def)

lemma Dispatch_post:
  "post (Dispatch P tid m)
     (\<lambda>u m1. \<exists>i. may_route tid (ms_db m) i \<and> routed tid (ms_db m) i (ms_db m1) \<and> still m (ms_ctx m1))
     (\<lambda>e m1. kanban_tasks (ms_db m1) = kanban_tasks (ms_db m) \<and> e \<noteq> Stopped \<and> e \<noteq> Diverges \<and> still m (ms_ctx m1) \<and>
           (e = Canceled \<longrightarrow> ms_ctx m \<noteq> None))"
  unfolding Dispatch_def
proof (intro post_rules)
  fix t c r ca cb cands souls cc x chosen reason y nm m5 cd ce
  let ?m4 = "m\<lparr>ms_ctx := c, ms_ctx := ca, ms_ctx := cb, ms_ctx := cc\<rparr>"
  assume t: "first_row kanban_tasks kt_ID tid (ms_db m) = Some t"
    and r: "first_row kanban_boards kb_ID (kt_BoardID t) (ms_db (m\<lparr>ms_ctx := c\<rparr>)) = Some r"
    and c: "cands = filter (\<lambda>i. i \<in> set (map inst_ID (instances (ms_db (m\<lparr>ms_ctx := c, ms_ctx := ca\<rparr>)))))
                  (bd_EligibleInstances \<lparr>bd_ID = kb_ID r, bd_EligibleInstances = id_column (kb_EligibleInstances r)\<rparr>)"
    and ne: "cands \<noteq> []"
    and x: "x = (if length cands = 1 then (hd cands, ''Only one eligible instance on this board.'')
                 else rank P t cands souls (ms_db ?m4))" "x = (chosen, reason)"
    and y: "y = shown_name chosen ?m4" "y = (nm, m5)"
  let ?f = "\<lambda>t. t\<lparr>kt_Status := ''dispatching'', kt_AssignedInstanceID := Some chosen\<rparr>"
  let ?m6 = "m5\<lparr>ms_ctx := cd, ms_db := snd (new_comment tid ''routing'' ''moderator''
                 (''Routed to '' @ nm @ ''.'' @ newline @ newline @ reason) [] (ms_db m5))\<rparr>"
  assume st: "still m c" "still (m\<lparr>ms_ctx := c\<rparr>) ca" "still (m\<lparr>ms_ctx := c, ms_ctx := ca\<rparr>) cb"
    "still (m\<lparr>ms_ctx := c, ms_ctx := ca, ms_ctx := cb\<rparr>) cc" "still m5 cd" "still ?m6 ce"
  have "chosen \<in> set cands" using x ne by (intro chosen_in) auto
  with t r c have "may_route tid (ms_db m) chosen" by (intro may_route_candidate) auto
  moreover have d5: "ms_db m5 = ms_db m" "still ?m4 (ms_ctx m5)" using y shown_name_same [of chosen _ nm m5] by simp_all
  moreover have "routed tid (ms_db m5) chosen (update_row kanban_tasks_update kt_ID tid ?f (ms_db ?m6))"
    using routed_after by simp
  ultimately show "\<exists>i. may_route tid (ms_db m) i \<and> routed tid (ms_db m) i
        (ms_db (?m6\<lparr>ms_ctx := ce, ms_db := update_row kanban_tasks_update kt_ID tid ?f (ms_db ?m6)\<rparr>)) \<and>
      still m (ms_ctx (?m6\<lparr>ms_ctx := ce, ms_db := update_row kanban_tasks_update kt_ID tid ?f (ms_db ?m6)\<rparr>))"
    using st by (auto simp: d5)
qed (simp_all add: no_eligible_def, ((drule shown_name_same [OF sym])?, cases "ms_ctx m", simp, simp)+)

section \<open>How a run ends\<close>

text \<open>A context that is not cancelled stays so through the calls whose errors are ignored.\<close>

lemma still_calls [simp]:
  "ms_ctx m = None \<Longrightarrow> ms_ctx (snd (st_SetCommentBody i b m)) = None"
  "ms_ctx m = None \<Longrightarrow> ms_ctx (snd (st_InsertComment t k a b x m)) = None"
  "ms_ctx m = None \<Longrightarrow> ms_ctx (snd (st_InsertArtifact t p n h q m)) = None"
  "ms_ctx m = None \<Longrightarrow> ms_ctx (snd (st_ListComments t m)) = None"
  "ms_ctx m = None \<Longrightarrow> ms_ctx (snd (st_ListTaskArtifacts t m)) = None"
  by (auto simp: db_call_def st_SetCommentBody_def st_InsertComment_def st_InsertArtifact_def st_ListComments_def
        st_ListTaskArtifacts_def split: prod.splits option.splits nat.splits)

lemma fold_keeps: "(\<And>x a. R a \<Longrightarrow> R (f x a)) \<Longrightarrow> R a \<Longrightarrow> R (fold f xs a)"
  by (induction xs arbitrary: a) auto

abbreviation third_live :: "'a \<times> 'b \<times> 'w mstate \<Rightarrow> bool" where
  "third_live a \<equiv> ms_ctx (snd (snd a)) = None"

lemma store_artifact_live: "third_live a \<Longrightarrow> third_live (store_artifact P t r d a)"
  by (cases a) (auto simp: store_artifact_def Let_def split: option.splits)

lemma collect_file_live: "third_live a \<Longrightarrow> third_live (collect_file P t i dir e a)"
  by (cases a) (auto simp: collect_file_def intro!: store_artifact_live split: option.splits prod.splits sum.splits)

lemma collect_mention_live: "third_live a \<Longrightarrow> third_live (collect_mention P t i r a)"
  by (cases a) (auto simp: collect_mention_def intro!: store_artifact_live split: option.splits prod.splits sum.splits)

lemma inject_one_live: "third_live a \<Longrightarrow> third_live (inject_one P i dir n x a)"
  by (cases a) (auto simp: inject_one_def split: option.splits prod.splits)

definition tree_bound :: "'w ports \<Rightarrow> nat \<Rightarrow> bool" where
  \<comment> \<open>no directory of a workspace holds more than the given number of entries, those of its directories included\<close>
  "tree_bound P n \<longleftrightarrow>
     (\<exists>h. (\<forall>d. h d \<le> n) \<and>
        (\<forall>i d w. case fst (p_List P i d w) of
                   Inl e \<Rightarrow> e \<noteq> Diverges
                 | Inr es \<Rightarrow> sum_list (map (\<lambda>e. if mf_IsDir e then Suc (h (mf_Path e)) else 1) es) \<le> h d))"

lemma walk_entries_ends:
  assumes "\<And>i d w es. fst (p_List P i d w) = Inr es \<Longrightarrow>
             sum_list (map (\<lambda>e. if mf_IsDir e then Suc (h (mf_Path e)) else 1) es) \<le> h d"
  shows "sum_list (map (\<lambda>e. if mf_IsDir e then Suc (h (mf_Path e)) else 1) es) \<le> n \<Longrightarrow>
         fst (walk_entries P n i es w) \<noteq> None"
proof (induction n arbitrary: es w)
  case 0
  then show ?case by (cases es) (auto split: if_splits)
next
  case (Suc n)
  show ?case
  proof (cases es)
    case (Cons e fs)
    show ?thesis
    proof (cases "mf_IsDir e")
      case True
      obtain r w1 where l: "p_List P i (mf_Path e) w = (r, w1)" by fastforce
      with Suc Cons True assms [of i "mf_Path e" w] show ?thesis by (cases r) fastforce+
    next
      case False
      with Suc.IH [of fs w] Suc.prems Cons show ?thesis by (auto split: prod.split)
    qed
  qed simp
qed

lemma walkDir_ends: "tree_bound P n \<Longrightarrow> fst (walkDir P n i dir w) \<noteq> Inl Diverges"
proof -
  assume "tree_bound P n"
  then obtain h where h: "\<And>d. h d \<le> n"
      "\<And>i d w. case fst (p_List P i d w) of Inl e \<Rightarrow> e \<noteq> Diverges
         | Inr es \<Rightarrow> sum_list (map (\<lambda>e. if mf_IsDir e then Suc (h (mf_Path e)) else 1) es) \<le> h d"
    unfolding tree_bound_def by blast
  have w: "fst (p_List P i d w) = Inr es \<Longrightarrow>
      sum_list (map (\<lambda>e. if mf_IsDir e then Suc (h (mf_Path e)) else 1) es) \<le> h d" for i d w es
    using h(2) [of d i w] by simp
  obtain r w1 where l: "p_List P i dir w = (r, w1)" by fastforce
  show ?thesis
  proof (cases r)
    case (Inl e)
    with l h(2) [of dir i w] show ?thesis by (simp add: walkDir_def)
  next
    case (Inr es)
    with l w [of i dir w es] h(1) [of dir] have "fst (walk_entries P n i es w1) \<noteq> None"
      by (intro walk_entries_ends [where h = h] w) auto
    with l Inr show ?thesis by (auto simp: walkDir_def split: prod.split option.split)
  qed
qed

lemma collectFromDir_live:
  assumes "collectFromDir P t i dir es m = (x, y, m1)" "ms_ctx m = None"
  shows "ms_ctx m1 = None"
proof -
  have "third_live (collectFromDir P t i dir es m)"
    unfolding collectFromDir_def using assms(2)
    by (intro fold_keeps [where R = third_live] collect_file_live) auto
  with assms show ?thesis by simp
qed

lemma collectMentions_live:
  assumes "collectArtifactsMentionBased P t i s m = (x, y, m1)" "ms_ctx m = None"
  shows "ms_ctx m1 = None"
proof -
  have "third_live (collectArtifactsMentionBased P t i s m)"
    unfolding collectArtifactsMentionBased_def using assms(2)
    by (intro fold_keeps [where R = third_live] collect_mention_live) auto
  with assms show ?thesis by simp
qed

lemma collectOutcomes_post:
  assumes "tree_bound P n"
  shows "post (collectOutcomes P n t i text m) (\<lambda>_ m1. still m (ms_ctx m1)) (\<lambda>_ _. False)"
proof -
  obtain r w where l: "walkDir P n i (outcome_dir t (ms_db m)) (ms_ws m) = (r, w)" by fastforce
  moreover have "r \<noteq> Inl Diverges" using walkDir_ends [OF assms, of i "outcome_dir t (ms_db m)" "ms_ws m"] l by simp
  ultimately show ?thesis
    by (cases r) (auto simp: collectOutcomes_def Let_def post_def split: prod.split merror.split
      dest: collectFromDir_live collectMentions_live)
qed

text \<open>What a run's parts leave of the context, and which errors they return.\<close>

lemma post_weaken:
  "post r (\<lambda>_ m1. ms_ctx m' = None \<longrightarrow> ms_ctx m1 = None)
     (\<lambda>e m1. e \<noteq> Diverges \<and> (ms_ctx m' = None \<and> c \<longrightarrow> e \<noteq> Stopped \<and> e \<noteq> Canceled)) \<Longrightarrow>
   (ms_ctx m = None \<longrightarrow> ms_ctx m' = None) \<Longrightarrow>
   post r (\<lambda>_ m1. ms_ctx m = None \<longrightarrow> ms_ctx m1 = None)
     (\<lambda>e m1. e \<noteq> Diverges \<and> (ms_ctx m = None \<and> c \<longrightarrow> e \<noteq> Stopped \<and> e \<noteq> Canceled))"
  by (auto simp: post_def split: prod.splits sum.splits)

lemma recv_loop_post:
  "post (recv_loop P t au se aid rs x m) (\<lambda>_ m1. still m (ms_ctx m1))
     (\<lambda>e m1. e \<noteq> Diverges \<and> (ms_ctx m = None \<and> RecvCanceled \<notin> set rs \<longrightarrow> e \<notin> {Stopped, Canceled}))"
proof (induction P t au se aid rs x m rule: recv_loop.induct)
  case (2 P t au se aid r rs x m)
  show ?case
  proof (cases r)
    case [simp]: (Frame raw)
    show ?thesis
    proof (cases "read_frame raw")
      case a: (Assistant y)
      show ?thesis
      proof (cases "y \<noteq> [] \<and> y \<noteq> x")
        case True
        from 2(1) [OF _ Frame a True] have "ms_ctx m \<noteq> Some 0 \<Longrightarrow> ?thesis"
          using a True by (auto intro: post_weaken [where m' = "snd (st_SetCommentBody aid y m)"])
        then show ?thesis by auto
      qed (use 2(2) [OF _ Frame a] a in auto)
    next
      case d: (Tool d)
      from 2(3) [OF _ Frame d] have "ms_ctx m \<noteq> Some 0 \<Longrightarrow> ?thesis"
        using d by (auto intro: post_weaken [where m' = "snd (st_InsertComment t ''tool'' au (data_text P d) se m)"])
      then show ?thesis by auto
    qed (use 2 in auto)
  qed auto
qed auto

lemma InsertComment_live: "st_InsertComment t k a b x m = (r, m1) \<Longrightarrow> ms_ctx m = None \<Longrightarrow> ms_ctx m1 = None"
  using still_calls(2) [of m t k a b x] by simp

lemma evaluate_live: "ms_ctx m = None \<Longrightarrow> ms_ctx (snd (evaluate P task y fs m)) = None"
proof -
  assume l: "ms_ctx m = None"
  obtain k mo where t: "task_model task (ms_db m) = (k, mo)" by fastforce
  show ?thesis
  proof (cases "p_Complete P k mo (evaluate_prompt task y fs)")
    case (Inr resp)
    obtain r m1 where i: "st_InsertComment (kt_ID task) ''evaluation'' ''moderator'' resp [] m = (r, m1)" by fastforce
    with l have "ms_ctx m1 = None" by (rule InsertComment_live [rotated])
    with t Inr i show ?thesis by (cases r) (simp_all add: evaluate_def andThen_def)
  qed (simp add: evaluate_def t l)
qed

definition has_status :: "nat \<Rightarrow> string set \<Rightarrow> db \<Rightarrow> bool" where
  "has_status tid S d \<longleftrightarrow> list_all (\<lambda>t. kt_ID t = tid \<longrightarrow> kt_Status t \<in> S) (kanban_tasks d)"

lemma has_status_update:
  "(\<And>t. kt_Status (f t) = st) \<Longrightarrow> (\<And>t. kt_ID (f t) = kt_ID t) \<Longrightarrow> st \<in> S \<Longrightarrow>
   has_status tid S (update_row kanban_tasks_update kt_ID tid f d)"
  by (simp add: has_status_def update_row_def list.pred_map o_def list.pred_True)

text \<open>The parts of a run before the connection.\<close>

lemma ListComments_live: "st_ListComments t m = (r, m1) \<Longrightarrow> ms_ctx m = None \<Longrightarrow> ms_ctx m1 = None"
  using still_calls(4) [of m t] by simp

lemma ListTaskArtifacts_live: "st_ListTaskArtifacts t m = (r, m1) \<Longrightarrow> ms_ctx m = None \<Longrightarrow> ms_ctx m1 = None"
  using still_calls(5) [of m t] by simp

lemma shown_name_live: "shown_name i m = (x, m1) \<Longrightarrow> still m (ms_ctx m1)"
  by (simp add: shown_name_same)

lemma injectPriorArtifacts_live: "injectPriorArtifacts P t i m = (x, m1) \<Longrightarrow> still m (ms_ctx m1)"
proof
  assume a: "injectPriorArtifacts P t i m = (x, m1)" "ms_ctx m = None"
  have f: "fold (inject_one P i dir n) as ([], [], m2) = (p, q, m3) \<Longrightarrow> ms_ctx m2 = None \<Longrightarrow> ms_ctx m3 = None"
    for dir n as m2 p q m3
    using fold_keeps [where R = third_live and f = "inject_one P i dir n" and xs = as and a = "([], [], m2)"]
      inject_one_live [of _ P i dir n] by auto
  obtain r m2 where l: "st_ListTaskArtifacts t m = (r, m2)" by fastforce
  with a(2) have m2: "ms_ctx m2 = None" by (rule ListTaskArtifacts_live [rotated])
  show "ms_ctx m1 = None"
  proof (cases "\<exists>as. r = Inr as \<and> as \<noteq> []")
    case True
    then obtain as where as: "r = Inr as" "as \<noteq> []" by blast
    let ?dir = "TaskOutcomeDir (ms_db m2) @ ''/'' @ show_nat t"
    obtain p q m3 where fo: "fold (inject_one P i ?dir (ArtifactMaxBytes (ms_db m2))) as ([], [], m2) = (p, q, m3)"
      by (metis surj_pair)
    with m2 have "ms_ctx m3 = None" by (rule f [rotated])
    with a(1) l as fo show "ms_ctx m1 = None" by (auto simp: injectPriorArtifacts_def split: if_splits simp del: append.simps)
  qed (use a l m2 in \<open>auto simp: injectPriorArtifacts_def split: sum.splits if_splits\<close>)
qed

lemma buildCommentHistory_live: "buildCommentHistory t m = (x, m1) \<Longrightarrow> still m (ms_ctx m1)"
  by (auto simp: buildCommentHistory_def Let_def split: prod.splits sum.splits dest: ListComments_live)

lemma user_notes_live: "user_notes t m = (x, m1) \<Longrightarrow> still m (ms_ctx m1)"
  by (auto simp: user_notes_def Let_def split: prod.splits sum.splits dest: ListComments_live)

definition calls_return :: "'w ports \<Rightarrow> bool" where
  \<comment> \<open>dialling and sending end, with an error of their own or none\<close>
  "calls_return P \<longleftrightarrow> (\<forall>i s. p_Dial P i s \<notin> Some ` {Canceled, Stopped, Diverges}) \<and>
                     (\<forall>f. p_Send P f \<notin> Some ` {Canceled, Stopped, Diverges})"

abbreviation fair :: "'w mstate \<Rightarrow> recv list \<Rightarrow> merror \<Rightarrow> bool" where
  "fair m rs e \<equiv> e \<noteq> Diverges \<and> (ms_ctx m = None \<and> RecvCanceled \<notin> set rs \<longrightarrow> e \<noteq> Stopped \<and> e \<noteq> Canceled)"

lemma after_end_post:
  assumes "tree_bound P n"
  shows "post (after_end P n task t i x m) (\<lambda>_ m1. has_status t {''done''} (ms_db m1)) (\<lambda>e m1. fair m rs e)"
  unfolding after_end_def
proof (intro post_andThen post_mono [OF collectOutcomes_post [OF assms]] post_prod_app post_let)
  fix p m1 pulled skipped m2 m3 m4
  assume l: "still m (ms_ctx m1)" and m2: "m2 = snd (st_InsertComment t ''moderator'' ''moderator'' (pull_report pulled skipped) [] m1)"
    and m3: "m3 = m2\<lparr>ms_ws := snd (p_RemoveAll P i (outcome_dir t (ms_db m2)) (ms_ws m2))\<rparr>"
    and m4: "m4 = (case evaluate P task x pulled m3 of
                   (Inr _, m) \<Rightarrow> m
                 | (Inl e, m) \<Rightarrow> snd (st_InsertComment t ''error'' ''moderator'' (''Evaluator failed: '' @ err_text e) [] m))"
  have "still m (ms_ctx m3)" using l m2 m3 by simp
  then have "still m (ms_ctx m4)"
    using m4 evaluate_live [of m3 P task x pulled] by (auto split: prod.splits sum.splits)
  then show "post (st_UpdateTask t (\<lambda>t. t\<lparr>kt_Status := ''done''\<rparr>) m4) (\<lambda>_ m1. has_status t {''done''} (ms_db m1))
      (\<lambda>e m1. fair m rs e)"
    by (intro post_rules) (auto intro!: has_status_update)
qed auto

lemma let_pair: "(\<And>a b. y = (a, b) \<Longrightarrow> post (f a b) Q E) \<Longrightarrow> post (let (a, b) = y in f a b) Q E"
  by (cases y) simp

lemma calls_return_ends:
  assumes "calls_return P"
  shows "p_Dial P i k = Some e \<Longrightarrow> e \<noteq> Canceled \<and> e \<noteq> Stopped \<and> e \<noteq> Diverges"
    and "p_Send P f = Some e \<Longrightarrow> e \<noteq> Canceled \<and> e \<noteq> Stopped \<and> e \<noteq> Diverges"
  using assms unfolding calls_return_def by blast+

lemmas pair_live = shown_name_live injectPriorArtifacts_live buildCommentHistory_live user_notes_live

lemma recv_loop_rule:
  "(\<And>y m1. still m (ms_ctx m1) \<Longrightarrow> Q y m1) \<Longrightarrow> (\<And>e m1. fair m rs e \<Longrightarrow> E e m1) \<Longrightarrow>
   post (recv_loop P t au se aid rs x m) Q E"
  by (rule post_mono [OF recv_loop_post]) auto

lemma after_end_rule:
  "tree_bound P n \<Longrightarrow> (\<And>m1. has_status t {''done''} (ms_db m1) \<Longrightarrow> Q () m1) \<Longrightarrow> (\<And>e m1. fair m rs e \<Longrightarrow> E e m1) \<Longrightarrow>
   post (after_end P n task t i x m) Q E"
  by (rule post_mono [OF after_end_post]) auto

lemma Run_post:
  assumes "tree_bound P n" "calls_return P"
  shows "post (Run P n sfx rs tid m) (\<lambda>_ m1. has_status tid {''done''} (ms_db m1)) (\<lambda>e m1. fair m rs e)"
  unfolding Run_def
proof (intro let_pair post_rules recv_loop_rule after_end_rule [where rs = rs, OF assms(1)])
qed (simp_all add: calls_return_ends [OF assms(2)] del: append.simps,
     ((drule pair_live)+, cases "ms_ctx m", simp, simp)+)

section \<open>Where artifacts go\<close>

definition task_store :: "'w ports \<Rightarrow> nat \<Rightarrow> db \<Rightarrow> string" where
  "task_store P tid d = filepath_Join (ArtifactStorageDir (p_DefaultDir P) d) (show_nat tid)"

text \<open>What storing adds: rows of the task, and files, below its directory; the settings stay.\<close>

definition stored_below :: "string \<Rightarrow> nat \<Rightarrow> 'w mstate \<Rightarrow> 'w mstate \<Rightarrow> bool" where
  "stored_below base tid m m1 \<longleftrightarrow>
     (\<exists>new. kanban_artifacts (ms_db m1) = kanban_artifacts (ms_db m) @ new \<and>
        list_all (\<lambda>a. ka_TaskID a = tid \<and> below base (ka_StoragePath a)) new) \<and>
     (\<forall>p. below base p \<or> ms_disk m1 p = ms_disk m p) \<and>
     settings (ms_db m1) = settings (ms_db m)"

lemma stored_refl: "ms_db m1 = ms_db m \<Longrightarrow> ms_disk m1 = ms_disk m \<Longrightarrow> stored_below base tid m m1"
  by (simp add: stored_below_def)

lemma stored_trans: "stored_below base tid m m1 \<Longrightarrow> stored_below base tid m1 m2 \<Longrightarrow> stored_below base tid m m2"
proof -
  assume a: "stored_below base tid m m1" "stored_below base tid m1 m2"
  then obtain n1 n2 where n: "kanban_artifacts (ms_db m1) = kanban_artifacts (ms_db m) @ n1"
      "kanban_artifacts (ms_db m2) = kanban_artifacts (ms_db m1) @ n2"
      "list_all (\<lambda>a. ka_TaskID a = tid \<and> below base (ka_StoragePath a)) n1"
      "list_all (\<lambda>a. ka_TaskID a = tid \<and> below base (ka_StoragePath a)) n2" unfolding stored_below_def by blast
  have "kanban_artifacts (ms_db m2) = kanban_artifacts (ms_db m) @ (n1 @ n2)" using n by simp
  moreover have "list_all (\<lambda>a. ka_TaskID a = tid \<and> below base (ka_StoragePath a)) (n1 @ n2)" using n by simp
  moreover have "\<forall>p. below base p \<or> ms_disk m2 p = ms_disk m p" using a unfolding stored_below_def by metis
  ultimately show ?thesis using a unfolding stored_below_def by metis
qed

lemma task_store_settings: "settings d = settings d' \<Longrightarrow> task_store P tid d = task_store P tid d'"
  by (simp add: task_store_def ArtifactStorageDir_def get_setting_def GetSetting_def)

lemma InsertArtifact_stored:
  "below base dst \<Longrightarrow> stored_below base tid m (snd (st_InsertArtifact tid rel n h dst (m\<lparr>ms_disk := (ms_disk m)(dst \<mapsto> x)\<rparr>)))"
  unfolding st_InsertArtifact_def
  by (rule snd_db_call) (auto simp: stored_below_def create_row_def Let_def)

lemma store_artifact_stored:
  assumes "below (task_store P tid (ms_db m)) (filepath_Join (task_store P tid (ms_db m)) rel)"
  shows "stored_below (task_store P tid (ms_db m)) tid m (snd (snd (store_artifact P tid rel x (p, q, m))))"
  using InsertArtifact_stored [OF assms]
  by (auto simp: store_artifact_def Let_def task_store_def [symmetric] split: option.split intro: stored_refl)

lemma collect_mention_stored:
  assumes "rel \<noteq> []" "\<not> contains rel ''..''"
  shows "stored_below (task_store P tid (ms_db m)) tid m (snd (snd (collect_mention P tid i rel (p, q, m))))"
proof -
  have b: "below (task_store P tid d) (filepath_Join (task_store P tid d) rel)" for d
    unfolding task_store_def by (rule numbered_dir_contains [OF assms])
  obtain r w where l: "p_Read P i (filepath_Join (WorkspaceDir (ms_db m)) rel) (ms_ws m) = (r, w)" by fastforce
  have "stored_below (task_store P tid (ms_db m)) tid (m\<lparr>ms_ws := w\<rparr>)
      (snd (snd (store_artifact P tid rel x (p, q, m\<lparr>ms_ws := w\<rparr>))))" for x
    using store_artifact_stored [of P tid "m\<lparr>ms_ws := w\<rparr>" rel x p q] b by simp
  then have "stored_below (task_store P tid (ms_db m)) tid m
      (snd (snd (store_artifact P tid rel x (p, q, m\<lparr>ms_ws := w\<rparr>))))" for x
    by (rule stored_trans [OF stored_refl, rotated -1]) simp_all
  with l show ?thesis by (cases r) (auto simp: collect_mention_def intro: stored_refl)
qed

lemma mention_down: "rel \<in> set (ExtractMentionedPaths walk transcript ws) \<Longrightarrow> rel \<noteq> [] \<and> \<not> contains rel ''..''"
  by (auto simp: ExtractMentionedPaths_def List.map_filter_def relativizeToWorkspace_def Let_def Clean_text
      split: if_splits)

lemma first_seen_subset: "set (first_seen seen xs) \<subseteq> set xs"
  by (induction seen xs rule: first_seen.induct) auto

lemma collect_mentions_stored:
  "(\<forall>rel \<in> set rels. rel \<noteq> [] \<and> \<not> contains rel ''..'') \<Longrightarrow>
   stored_below (task_store P tid (ms_db m)) tid m (snd (snd (fold (collect_mention P tid i) rels (p, q, m))))"
proof (induction rels arbitrary: p q m)
  case (Cons rel rels)
  obtain p1 q1 m1 where c: "collect_mention P tid i rel (p, q, m) = (p1, q1, m1)" by (metis surj_pair)
  with collect_mention_stored [of rel P tid m i p q] Cons.prems
  have s: "stored_below (task_store P tid (ms_db m)) tid m m1" by simp
  then have "task_store P tid (ms_db m1) = task_store P tid (ms_db m)"
    by (intro task_store_settings) (simp add: stored_below_def)
  with Cons.IH [of m1 p1 q1] Cons.prems s c show ?case by (auto intro: stored_trans)
qed (simp add: stored_refl)

lemma mentions_stored:
  "collectArtifactsMentionBased P tid i x m = (p, q, m1) \<Longrightarrow> stored_below (task_store P tid (ms_db m)) tid m m1"
  using collect_mentions_stored [of "first_seen [] (ExtractMentionedPaths (p_walk P) x (WorkspaceDir (ms_db m)))" P tid m i "[]" "[]"]
    first_seen_subset mention_down by (fastforce simp: collectArtifactsMentionBased_def)

lemma remove_tree_below: "remove_tree dir disk = (\<lambda>p. if below dir p then None else disk p)"
  by (simp add: remove_tree_def below_def fun_eq_iff)

section \<open>What the agent says\<close>

fun heard :: "recv list \<Rightarrow> agent_event list" where
  \<comment> \<open>the events up to the end of the turn or of the connection\<close>
  "heard (Frame raw # rs) = (if read_frame raw = EndPhase then [EndPhase] else read_frame raw # heard rs)"
| "heard rs = []"

definition last_text :: "string \<Rightarrow> agent_event list \<Rightarrow> string" where
  "last_text t0 es = foldl (\<lambda>t e. case e of Assistant s \<Rightarrow> if s = [] then t else s | _ \<Rightarrow> t) t0 es"

definition tool_data :: "agent_event list \<Rightarrow> json option list" where
  "tool_data es = List.map_filter (\<lambda>e. case e of Tool d \<Rightarrow> Some d | _ \<Rightarrow> None) es"

fun tool_comments :: "'w ports \<Rightarrow> nat \<Rightarrow> string \<Rightarrow> string \<Rightarrow> nat \<Rightarrow> json option list \<Rightarrow> KanbanComment list" where
  "tool_comments P tid author session i [] = []"
| "tool_comments P tid author session i (d # ds) =
     \<lparr>kc_ID = i, kc_TaskID = tid, kc_Kind = ''tool'', kc_Author = author, kc_Body = data_text P d,
      kc_OpenClawSessionID = session\<rparr> # tool_comments P tid author session (i + 1) ds"

definition with_body :: "nat \<Rightarrow> string \<Rightarrow> KanbanComment list \<Rightarrow> KanbanComment list" where
  "with_body aid t cs = map (\<lambda>c. if kc_ID c = aid then c\<lparr>kc_Body := t\<rparr> else c) cs"

lemma with_body_twice [simp]: "with_body aid t (with_body aid u cs) = with_body aid t cs"
  by (auto simp: with_body_def)

lemma with_body_same: "(\<forall>c \<in> set cs. kc_ID c = aid \<longrightarrow> kc_Body c = t) \<Longrightarrow> with_body aid t cs = cs"
  unfolding with_body_def by (rule map_idI) auto

lemma with_body_bodies: "\<forall>c \<in> set (with_body aid t cs). kc_ID c = aid \<longrightarrow> kc_Body c = t"
  unfolding with_body_def set_map by (intro ballI impI; elim imageE) (simp split: if_splits)

lemma recv_loop_comments:
  assumes "ms_ctx m = None" "aid < next_row (ms_db m) ''kanban_comments''"
    "\<forall>c \<in> set (kanban_comments (ms_db m)). kc_ID c = aid \<longrightarrow> kc_Body c = x"
  shows "kanban_comments (ms_db (snd (recv_loop P tid au se aid rs x m)))
     = with_body aid (last_text x (heard rs)) (kanban_comments (ms_db m))
       @ tool_comments P tid au se (next_row (ms_db m) ''kanban_comments'') (tool_data (heard rs))"
  using assms
proof (induction P tid au se aid rs x m rule: recv_loop.induct)
  case (2 P tid au se aid r rs x m)
  show ?case
  proof (cases r)
    case r: (Frame raw)
    show ?thesis
    proof (cases "read_frame raw")
      case a: (Assistant y)
      show ?thesis
      proof (cases "y \<noteq> [] \<and> y \<noteq> x")
        case True
        let ?m = "snd (st_SetCommentBody aid y m)"
        have m: "?m = m\<lparr>ms_db := update_row kanban_comments_update kc_ID aid (\<lambda>c. c\<lparr>kc_Body := y\<rparr>) (ms_db m)\<rparr>"
          using 2 by (simp add: st_SetCommentBody_def db_call_def)
        have "kanban_comments (ms_db ?m) = with_body aid y (kanban_comments (ms_db m))"
            "next_row (ms_db ?m) = next_row (ms_db m)" "ms_ctx ?m = None"
          using 2 by (simp_all add: m update_row_def with_body_def)
        moreover from this(1) have "\<forall>c \<in> set (kanban_comments (ms_db ?m)). kc_ID c = aid \<longrightarrow> kc_Body c = y"
          using with_body_bodies [of aid y "kanban_comments (ms_db m)"] by (simp only:)
        ultimately show ?thesis
          using 2(1) [OF _ r a True] 2 True a r by (simp add: last_text_def tool_data_def List.map_filter_def)
      next
        case False
        then show ?thesis using 2(2) [OF _ r a False] 2 a r
          by (auto simp: last_text_def tool_data_def List.map_filter_def)
      qed
    next
      case t: (Tool d)
      let ?m = "snd (st_InsertComment tid ''tool'' au (data_text P d) se m)"
      let ?n = "next_row (ms_db m) ''kanban_comments''"
      have "ms_ctx ?m = None" "next_row (ms_db ?m) ''kanban_comments'' = ?n + 1"
        "kanban_comments (ms_db ?m) = kanban_comments (ms_db m) @ tool_comments P tid au se ?n [d]"
        using 2 by (simp_all add: st_InsertComment_def db_call_def new_comment_def create_row_def Let_def)
      then show ?thesis using 2(3) [OF _ r t] 2 r t
        by (simp add: last_text_def tool_data_def List.map_filter_def with_body_def)
    next
      case EndPhase
      then show ?thesis using 2 r by (simp add: last_text_def tool_data_def List.map_filter_def with_body_same)
    next
      case Other_event
      then show ?thesis using 2(4) [OF _ r] 2 r
        by (simp add: last_text_def tool_data_def List.map_filter_def with_body_same)
    qed
  qed (use 2 in \<open>simp_all add: last_text_def tool_data_def with_body_same List.map_filter_def\<close>)
qed (simp add: last_text_def tool_data_def with_body_same List.map_filter_def)

section \<open>Properties\<close>

text \<open>A world for the witnesses: one task on a board that names an instance, workspaces that are empty.\<close>

definition demo_ports :: "unit ports" where
  "demo_ports = \<lparr>p_List = \<lambda>i d w. (Inr [], w), p_Read = \<lambda>i f w. (Inl (Msg ''no such file''), w),
     p_Write = \<lambda>i f x w. (None, w), p_RemoveAll = \<lambda>i f w. (None, w), p_Complete = \<lambda>k mdl q. Inl (Msg ''no provider''),
     p_Dial = \<lambda>i k. None, p_Send = \<lambda>f. None, p_mkdir_err = \<lambda>d. None, p_write_err = \<lambda>d. None, p_sha256 = id,
     p_marshal = \<lambda>j. [], p_walk = id, p_DefaultDir = ''/data/kanban/artifacts''\<rparr>"

definition demo_state :: "unit mstate" where
  "demo_state = \<lparr>ms_db = empty_db\<lparr>
       kanban_boards := [\<lparr>kb_ID = 1, kb_Name = ''work'', kb_Description = [], kb_EligibleInstances = ''[4]''\<rparr>],
       kanban_tasks := [\<lparr>kt_ID = 2, kt_BoardID = 1, kt_Title = ''report'', kt_Description = ''write it'', kt_Status = ''todo'',
         kt_AssignedInstanceID = None, kt_OpenClawSessionID = [], kt_OpenClawRunID = [], kt_EvaluatorProviderKey = [],
         kt_EvaluatorModel = []\<rparr>],
       kanban_comments := [\<lparr>kc_ID = 5, kc_TaskID = 2, kc_Kind = ''assistant'', kc_Author = ''agent:a'', kc_Body = [],
         kc_OpenClawSessionID = ''s''\<rparr>],
       next_row := \<lambda>t. 6\<rparr>,
     ms_disk = Map.empty, ms_ws = (), ms_ctx = None\<rparr>"

text \<open>C38: Whatever the language model answers, however often the store refuses: a dispatched task has gone to an
  instance that is on the task's board and exists, with a routing comment; on an error no task has changed.\<close>

theorem dispatch_only_eligible:
  "case Dispatch P tid m of
     (Inr u, m1) \<Rightarrow> \<exists>i. may_route tid (ms_db m) i \<and> routed tid (ms_db m) i (ms_db m1)
   | (Inl e, m1) \<Rightarrow> kanban_tasks (ms_db m1) = kanban_tasks (ms_db m)"
  using Dispatch_post [of P tid m] by (auto simp: post_def split: prod.split sum.split) blast+

lemma markStopped_status: "has_status tid {''todo''} (ms_db (markStopped tid m))"
  by (simp add: markStopped_def Let_def st_UpdateTask_def st_InsertComment_def db_call_def background_def
      has_status_update split: prod.split)

lemma markFailed_status: "ms_ctx m = None \<Longrightarrow> has_status tid {''failed''} (ms_db (markFailed tid e m))"
  by (simp add: markFailed_def Let_def st_UpdateTask_def st_InsertComment_def db_call_def has_status_update
      split: prod.split)

lemma has_status_mono: "has_status tid S d \<Longrightarrow> S \<subseteq> S' \<Longrightarrow> has_status tid S' d"
  by (auto simp: has_status_def list_all_iff)

lemma markFailed_weak:
  assumes "has_status tid S (ms_db m)"
  shows "has_status tid (insert ''failed'' S) (ms_db (markFailed tid e m))"
proof -
  have i: "has_status tid (insert ''failed'' S) (ms_db (snd (st_InsertComment tid k a b x m)))" for k a b x
    unfolding st_InsertComment_def
    by (rule snd_db_call) (use has_status_mono [OF assms subset_insertI, of "''failed''"] in
        \<open>simp_all add: has_status_def case_prod_beta\<close>)
  show ?thesis unfolding markFailed_def Let_def st_UpdateTask_def
    by (rule snd_db_call; simp add: has_status_update i)
qed



text \<open>While nothing is cancelled, the assistant's comment holds the last text the agent sent, each tool event
  of the turn has a comment of its own, in order, and no other comment changes; also when the connection
  breaks.\<close>

theorem transcript_recorded:
  assumes "ms_ctx m = None" "aid < next_row (ms_db m) ''kanban_comments''"
    "list_all (\<lambda>c. kc_ID c = aid \<longrightarrow> kc_Body c = []) (kanban_comments (ms_db m))"
  shows "kanban_comments (ms_db (snd (recv_loop P tid au se aid rs [] m)))
     = with_body aid (last_text [] (heard rs)) (kanban_comments (ms_db m))
       @ tool_comments P tid au se (next_row (ms_db m) ''kanban_comments'') (tool_data (heard rs))"
  using assms by (intro recv_loop_comments) (auto simp: list_all_iff)

theorem transcript_recorded_witness:
  "kanban_comments (ms_db (snd (recv_loop demo_ports 2 ''agent:a'' ''s'' 5 [Frame ''ping'', RecvErr ''closed''] [] demo_state)))
     = with_body 5 (last_text [] (heard [Frame ''ping'', RecvErr ''closed''])) (kanban_comments (ms_db demo_state))
       @ tool_comments demo_ports 2 ''agent:a'' ''s'' 6 (tool_data (heard [Frame ''ping'', RecvErr ''closed'']))"
  using transcript_recorded [of demo_state 5 demo_ports 2 "''agent:a''" "''s''" "[Frame ''ping'', RecvErr ''closed'']"]
  by (simp add: demo_state_def empty_db_def del: heard.simps)


text \<open>C40: A name that an instance's directory listing gives is not checked: one that climbs with \<open>..\<close> is stored
  outside the directory of the artifacts, with the content the instance returns for it.\<close>

theorem listed_names_escape:
  "case collectFromDir (P\<lparr>p_Read := \<lambda>i path w. (Inr x, w), p_mkdir_err := \<lambda>d. None, p_write_err := \<lambda>d. None,
                          p_DefaultDir := ''/d/artifacts''\<rparr>) 7 i ''/t/7''
          [\<lparr>mf_Path = filepath_Join ''/t/7'' ''../../../cron'', mf_Size = 0, mf_IsDir = False\<rparr>]
          (m\<lparr>ms_db := (ms_db m)\<lparr>settings := \<lambda>k. None\<rparr>\<rparr>) of
     (pulled, skipped, m1) \<Rightarrow> pulled = [''../../cron''] \<and> ms_disk m1 ''/d/cron'' = Some x \<and>
       \<not> below ''/d/artifacts'' ''/d/cron''"
proof -
  let ?P = "P\<lparr>p_Read := \<lambda>i path w. (Inr x, w), p_mkdir_err := \<lambda>d. None, p_write_err := \<lambda>d. None,
                p_DefaultDir := ''/d/artifacts''\<rparr>"
  let ?m = "m\<lparr>ms_db := (ms_db m)\<lparr>settings := \<lambda>k. None\<rparr>\<rparr>"
  have rel: "filepath_Rel ''/t/7'' (filepath_Join ''/t/7'' ''../../../cron'') = Some ''../../cron''" by code_simp
  have dst: "filepath_Join (filepath_Join ''/d/artifacts'' (show_nat 7)) ''../../cron'' = ''/d/cron''" by code_simp
  have max: "\<not> ArtifactMaxBytes d < 0" for d by (simp add: ArtifactMaxBytes_def Let_def)
  have disk: "ms_disk (snd (st_InsertArtifact t p n h q m')) = ms_disk m'" for t p n h q and m' :: "'a mstate"
    unfolding st_InsertArtifact_def by (rule snd_db_call) simp_all
  have "store_artifact ?P 7 ''../../cron'' x ([], [], ?m) =
      ([''../../cron''], [], snd (st_InsertArtifact 7 ''../../cron'' (int (length x)) (p_sha256 P x) ''/d/cron''
         (?m\<lparr>ms_disk := (ms_disk m)(''/d/cron'' \<mapsto> x)\<rparr>)))"
    using dst by (simp add: store_artifact_def ArtifactStorageDir_def get_setting_def GetSetting_def Let_def del: append.simps)
  moreover have "?m\<lparr>ms_ws := ms_ws m\<rparr> = ?m" by simp
  ultimately show ?thesis using rel max disk
    by (simp add: collectFromDir_def collect_file_def below_def has_prefix_def del: append.simps)
qed

text \<open>Stopping a task that was started again while its first run was still going: once the first run has
  ended, the second is no longer found, so stopping reports that nothing runs and cancels nothing.\<close>

theorem stop_misses_restarted_task:
  "let s2 = sv_Enqueue tid (sv_Enqueue tid s); s3 = sv_ended (sv_next s) tid s2 in
   (sv_next s + 1, tid) \<in> set (sv_live s3) \<and> sv_Stop tid s3 = (False, s3)"
  by (simp add: sv_Enqueue_def sv_ended_def sv_Stop_def Let_def)

end
