(* ===== verification/Resources.thy ===== *)
theory Resources imports LlmUsage begin

text \<open>
  \<^verbatim>\<open>control-plane/internal/handlers/resourcevalidation.go\<close>: the formats of CPU, memory and
  storage quantities, and the comparison of requests with limits, with Go's 64-bit integers and
  double-precision floats.
\<close>

section \<open>Formats\<close>

definition digits :: "string \<Rightarrow> bool" where
  "digits s \<longleftrightarrow> s \<noteq> [] \<and> list_all is_digit s"

definition after_digits :: "string \<Rightarrow> string" where
  "after_digits s = dropWhile is_digit s"

definition cpu_format :: "string \<Rightarrow> bool" where
  \<comment> \<open>\<open>^(\d+m|\d+(\.\d+)?)$\<close>\<close>
  "cpu_format s \<longleftrightarrow>
     s \<noteq> [] \<and> is_digit (hd s) \<and>
     (case after_digits s of [] \<Rightarrow> True | c # r \<Rightarrow> c = CHR ''m'' \<and> r = [] \<or> c = CHR ''.'' \<and> digits r)"

definition memory_format :: "string \<Rightarrow> bool" where
  \<comment> \<open>\<open>^\d+(Ki|Mi|Gi)$\<close>\<close>
  "memory_format s \<longleftrightarrow> s \<noteq> [] \<and> is_digit (hd s) \<and> after_digits s \<in> {''Ki'', ''Mi'', ''Gi''}"

definition resolution_format :: "string \<Rightarrow> bool" where
  \<comment> \<open>\<open>^\d+x\d+$\<close>\<close>
  "resolution_format s \<longleftrightarrow> s \<noteq> [] \<and> is_digit (hd s) \<and>
     (case after_digits s of [] \<Rightarrow> False | c # r \<Rightarrow> c = CHR ''x'' \<and> digits r)"

section \<open>Numbers\<close>

definition parse_int64 :: "string \<Rightarrow> int" where
  \<comment> \<open>\<open>n, _ := strconv.ParseInt(s, 10, 64)\<close> on digits: clamped when out of range, 0 when empty\<close>
  "parse_int64 s = (if digits s then min (int (dec_value s)) (2 ^ 63 - 1) else 0)"

text \<open>Double-precision numbers as a mantissa and a power of two.  \<open>to_double\<close> rounds a positive fraction
  to the nearest one, ties to even; magnitudes outside its exponents do not change what follows.\<close>

definition round_even :: "nat \<Rightarrow> nat \<Rightarrow> nat" where
  "round_even num den =
     (let q = num div den; r = num mod den
      in if 2 * r < den \<or> 2 * r = den \<and> even q then q else q + 1)"

fun bit_length :: "nat \<Rightarrow> nat" where
  "bit_length n = (if n = 0 then 0 else Suc (bit_length (n div 2)))"

declare bit_length.simps [simp del]

definition to_double :: "nat \<Rightarrow> nat \<Rightarrow> nat \<times> int" where
  "to_double num den =
     (if num = 0 then (0, 0)
      else
        let e0 = int (bit_length num) - int (bit_length den) - 53;
            scaled = (\<lambda>e. (num * 2 ^ nat (- e), den * 2 ^ nat e));
            e = (case scaled e0 of (a, b) \<Rightarrow> if 2 ^ 53 * b \<le> a then e0 + 1 else e0)
        in case scaled e of (a, b) \<Rightarrow> (round_even a b, e))"

definition double_trunc :: "nat \<times> int \<Rightarrow> int" where
  \<comment> \<open>the conversion to \<open>int64\<close>; out of range it gives the least one on amd64\<close>
  "double_trunc x =
     (case x of (m, e) \<Rightarrow>
        let v = (if 0 \<le> e then m * 2 ^ nat e else m div 2 ^ nat (- e))
        in if v < 2 ^ 63 then int v else - (2 ^ 63))"

definition times_1000 :: "nat \<times> int \<Rightarrow> nat \<times> int" where
  "times_1000 x = (case x of (m, e) \<Rightarrow> to_double (m * 1000 * 2 ^ nat e) (2 ^ nat (- e)))"

definition parse_float :: "string \<Rightarrow> nat \<times> int" where
  \<comment> \<open>digits, and digits after a point\<close>
  "parse_float s =
     (let ip = takeWhile is_digit s; fp = drop 1 (after_digits s)
      in to_double (dec_value (ip @ fp)) (10 ^ length fp))"

definition cpuToMillicores :: "string \<Rightarrow> int" where
  "cpuToMillicores s =
     (if has_suffix s ''m'' then parse_int64 (butlast s) else double_trunc (times_1000 (parse_float s)))"

definition memoryToBytes :: "string \<Rightarrow> int" where
  "memoryToBytes s =
     (if has_suffix s ''Ki'' then wrap64 (parse_int64 (take (length s - 2) s) * 1024)
      else if has_suffix s ''Mi'' then wrap64 (parse_int64 (take (length s - 2) s) * 1024 ^ 2)
      else if has_suffix s ''Gi'' then wrap64 (parse_int64 (take (length s - 2) s) * 1024 ^ 3)
      else parse_int64 s)"

section \<open>Validation\<close>

record ResourceQuantities =
  rq_CPURequest :: string
  rq_CPULimit :: string
  rq_MemoryRequest :: string
  rq_MemoryLimit :: string
  rq_StorageHome :: string
  rq_StorageHomebrew :: string

definition ValidateResourceQuantities :: "ResourceQuantities \<Rightarrow> string option" where
  "ValidateResourceQuantities q =
     (if rq_CPURequest q \<noteq> [] \<and> \<not> cpu_format (rq_CPURequest q)
      then Some ''Invalid CPU request format (e.g., 500m or 0.5)''
      else if rq_CPULimit q \<noteq> [] \<and> \<not> cpu_format (rq_CPULimit q)
      then Some ''Invalid CPU limit format (e.g., 2000m or 2)''
      else if rq_MemoryRequest q \<noteq> [] \<and> \<not> memory_format (rq_MemoryRequest q)
      then Some ''Invalid memory request format (e.g., 1Gi or 512Mi)''
      else if rq_MemoryLimit q \<noteq> [] \<and> \<not> memory_format (rq_MemoryLimit q)
      then Some ''Invalid memory limit format (e.g., 4Gi or 2048Mi)''
      else if rq_StorageHome q \<noteq> [] \<and> \<not> memory_format (rq_StorageHome q)
      then Some ''Invalid home storage format (e.g., 10Gi or 512Mi)''
      else if rq_StorageHomebrew q \<noteq> [] \<and> \<not> memory_format (rq_StorageHomebrew q)
      then Some ''Invalid homebrew storage format (e.g., 10Gi or 512Mi)''
      else if rq_CPURequest q \<noteq> [] \<and> rq_CPULimit q \<noteq> [] \<and>
              cpuToMillicores (rq_CPULimit q) < cpuToMillicores (rq_CPURequest q)
      then Some ''CPU request cannot exceed CPU limit''
      else if rq_MemoryRequest q \<noteq> [] \<and> rq_MemoryLimit q \<noteq> [] \<and>
              memoryToBytes (rq_MemoryLimit q) < memoryToBytes (rq_MemoryRequest q)
      then Some ''Memory request cannot exceed memory limit''
      else None)"

section \<open>What the comparison of memory means\<close>

definition memory_number :: "string \<Rightarrow> nat" where
  "memory_number s = dec_value (takeWhile is_digit s)"

definition memory_unit :: "string \<Rightarrow> nat" where
  "memory_unit s = (if has_suffix s ''Ki'' then 2 ^ 10 else if has_suffix s ''Mi'' then 2 ^ 20 else 2 ^ 30)"

lemma takeWhile_after: "s = takeWhile is_digit s @ after_digits s"
  by (simp add: after_digits_def)

lemma memory_format_parts:
  assumes "memory_format s"
  shows "\<exists>ds u. s = ds @ u \<and> digits ds \<and> takeWhile is_digit s = ds \<and> u \<in> {''Ki'', ''Mi'', ''Gi''}"
proof -
  from assms have "digits (takeWhile is_digit s)"
    by (cases s) (auto simp: memory_format_def digits_def list_all_iff dest: set_takeWhileD)
  with assms takeWhile_after [of s] show ?thesis unfolding memory_format_def by blast
qed

lemma wrap64_small: "0 \<le> x \<Longrightarrow> x < 2 ^ 63 \<Longrightarrow> wrap64 x = x"
  by (simp add: wrap64_def)

lemma memoryToBytes_exact:
  assumes "memory_format s" "memory_number s * memory_unit s < 2 ^ 63"
  shows "memoryToBytes s = int (memory_number s * memory_unit s)"
proof -
  obtain ds u where s: "s = ds @ u" "digits ds" "takeWhile is_digit s = ds" "u \<in> {''Ki'', ''Mi'', ''Gi''}"
    using memory_format_parts [OF assms(1)] by blast
  then have l: "length u = 2" "take (length s - 2) s = ds" by auto
  have n: "memory_number s = dec_value ds" by (simp add: memory_number_def s(3))
  have suf: "has_suffix s ''Ki'' \<longleftrightarrow> u = ''Ki''" "has_suffix s ''Mi'' \<longleftrightarrow> u = ''Mi''" "has_suffix s ''Gi'' \<longleftrightarrow> u = ''Gi''"
    using s(1,4) l by (auto simp: has_suffix_def)
  have "memory_number s * 1 \<le> memory_number s * memory_unit s" by (rule mult_le_mono2) (simp add: memory_unit_def)
  then have "memory_number s * 1 < 2 ^ 63" using assms(2) by (rule le_less_trans)
  then have "memory_number s < 2 ^ 63" by (simp only: nat_mult_1_right)
  then have p: "parse_int64 ds = int (memory_number s)" using s(2) n by (simp add: parse_int64_def)
  have "wrap64 (int (memory_number s * memory_unit s)) = int (memory_number s * memory_unit s)"
    using assms(2) by (intro wrap64_small) (simp_all only: of_nat_0_le_iff of_nat_less_numeral_power_cancel_iff)
  then show ?thesis using s(4) suf l p
    by (auto simp: memoryToBytes_def memory_unit_def of_nat_mult)
qed

end
