(* ===== verification/Instances.thy ===== *)
theory Instances imports Resources EnvVars LlmGateway Web Tables RemoteFiles begin

text \<open>
  The data behind the instance handlers (the first part of
  \<^verbatim>\<open>control-plane/internal/handlers/instances.go\<close>): names, model lists, gateway providers,
  effective settings, the status shown, and the parameters of a container.
\<close>

section \<open>Names and tokens\<close>

text \<open>\<open>strings.ToLower\<close> as far as the name keeps it: two letters outside ASCII have a lower case inside.\<close>

definition lower_rune :: "nat \<Rightarrow> nat" where
  "lower_rune r = (if 65 \<le> r \<and> r \<le> 90 then r + 32 else if r = 0x212A then 107 else if r = 0x130 then 105 else r)"

definition name_blank :: "nat \<Rightarrow> bool" where
  \<comment> \<open>\<open>[\s_]\<close>\<close>
  "name_blank r \<longleftrightarrow> r \<in> {9, 10, 12, 13, 32, 95}"

fun dash_blanks :: "bool \<Rightarrow> nat list \<Rightarrow> nat list" where
  \<comment> \<open>each run of blanks becomes one dash; the flag says that a run has begun\<close>
  "dash_blanks run [] = []"
| "dash_blanks run (r # rs) =
     (if name_blank r then (if run then [] else [45]) @ dash_blanks True rs else r # dash_blanks False rs)"

definition name_rune :: "nat \<Rightarrow> bool" where
  \<comment> \<open>\<open>[a-z0-9-]\<close>\<close>
  "name_rune r \<longleftrightarrow> 97 \<le> r \<and> r \<le> 122 \<or> 48 \<le> r \<and> r \<le> 57 \<or> r = 45"

definition trim_dashes :: "string \<Rightarrow> string" where
  "trim_dashes s = rev (dropWhile ((=) CHR ''-'') (rev (dropWhile ((=) CHR ''-'') s)))"

definition generateName :: "string \<Rightarrow> string" where
  "generateName displayName =
     take 63 (''bot-'' @ trim_dashes (map char_of (filter name_rune (dash_blanks False (map lower_rune (runes displayName))))))"

definition generateToken :: "nat list \<Rightarrow> string" where
  "generateToken b = hex_encode b"

section \<open>Models\<close>

record modelsConfig =
  mc_Disabled :: "string list"
  mc_Extra :: "string list"

definition string_list :: "gv \<Rightarrow> string list" where
  "string_list v = (case v of GSlice vs \<Rightarrow> map (\<lambda>x. case x of GStr s \<Rightarrow> s | _ \<Rightarrow> []) vs | _ \<Rightarrow> [])"

definition parseModelsConfig :: "string \<Rightarrow> modelsConfig" where
  "parseModelsConfig raw =
     (let sh = SStruct [(''disabled'', SSlice SString), (''extra'', SSlice SString)];
          v = (if raw = [] then zero_of sh else fst (unmarshal sh raw (zero_of sh)))
      in \<lparr>mc_Disabled = string_list (at_path [''disabled''] v), mc_Extra = string_list (at_path [''extra''] v)\<rparr>)"

definition json_strings :: "string \<Rightarrow> string list" where
  \<comment> \<open>\<open>json.Unmarshal\<close> into a slice of strings, errors ignored\<close>
  "json_strings raw = string_list (fst (unmarshal (SSlice SString) raw GNil))"

definition computeEffectiveModels :: "modelsConfig \<Rightarrow> db \<Rightarrow> string list" where
  "computeEffectiveModels mc d =
     (let defaults = (case GetSetting ''default_models'' d of None \<Rightarrow> [] | Some raw \<Rightarrow> if raw = [] then [] else json_strings raw)
      in filter (\<lambda>m. m \<notin> set (mc_Disabled mc)) defaults @ mc_Extra mc)"

fun to_front :: "string \<Rightarrow> string list \<Rightarrow> string list" where
  \<comment> \<open>the loop that moves the default model to the front\<close>
  "to_front m ms = (if m \<in> set ms then m # takeWhile ((\<noteq>) m) ms @ tl (dropWhile ((\<noteq>) m) ms) else ms)"

definition resolveInstanceModels :: "Instance \<Rightarrow> db \<Rightarrow> string list" where
  "resolveInstanceModels inst d =
     (let models = computeEffectiveModels (parseModelsConfig (inst_ModelsConfig inst)) d
      in if inst_DefaultModel inst = [] then models else to_front (inst_DefaultModel inst) models)"

fun comma_strings :: "string list \<Rightarrow> string" where
  "comma_strings [] = []"
| "comma_strings [s] = json_quote s"
| "comma_strings (s # ss) = json_quote s @ '','' @ comma_strings ss"

definition marshal_strings :: "string list \<Rightarrow> string" where
  "marshal_strings ss = ''['' @ comma_strings ss @ '']''"

definition marshalModelsConfig :: "modelsConfig \<Rightarrow> string" where
  "marshalModelsConfig mc =
     jtext ''{~disabled~:'' @ marshal_strings (mc_Disabled mc) @ jtext '',~extra~:'' @ marshal_strings (mc_Extra mc) @ ''}''"

definition model_config_json :: "string list \<Rightarrow> string" where
  \<comment> \<open>the primary model and its fallbacks\<close>
  "model_config_json models =
     (case models of
        [] \<Rightarrow> []
      | m # ms \<Rightarrow> jtext ''{~fallbacks~:'' @ marshal_strings ms @ jtext '',~primary~:'' @ json_quote m @ ''}'')"

definition models_map_json :: "string list \<Rightarrow> string" where
  "models_map_json models =
     ''{'' @ join_with '','' (map (\<lambda>m. json_quote m @ '':{}'') (sort (remdups models))) @ ''}''"

section \<open>Gateway providers\<close>

record GatewayProvider =
  gp_Key :: string
  gp_APIType :: string
  gp_Models :: "ProviderModel list"
  gp_CatalogKey :: string

record openclawProviderCfg =
  oc_BaseURL :: string
  oc_API :: string
  oc_APIKey :: string
  oc_Models :: "ProviderModel list"

definition parseEnabledProviders :: "string \<Rightarrow> nat list" where
  "parseEnabledProviders raw = ParseTeamIDs raw"

definition concatUniqueProviderIDs :: "nat \<Rightarrow> nat list \<Rightarrow> db \<Rightarrow> nat list" where
  "concatUniqueProviderIDs instID globalIDs d =
     globalIDs @ map prov_ID (filter (\<lambda>p. prov_InstanceID p = Some instID) (llm_providers d))"

definition allProviderIDsForInstance :: "nat \<Rightarrow> nat list \<Rightarrow> db \<Rightarrow> nat list" where
  "allProviderIDsForInstance instID globalEnabledIDs d =
     (case GetInstance instID d of
        None \<Rightarrow> concatUniqueProviderIDs instID globalEnabledIDs d
      | Some inst \<Rightarrow>
          let whitelist = GetTeamProviderIDs (inst_TeamID inst) d;
              allowed = (if inst_TeamID inst \<noteq> 0 \<and> whitelist \<noteq> []
                         then filter (\<lambda>i. i \<in> set whitelist) globalEnabledIDs else globalEnabledIDs)
          in concatUniqueProviderIDs instID allowed d)"

text \<open>A map from provider keys as an association list with distinct keys; \<open>dec\<close> decodes the column of models.\<close>

definition resolveGatewayProviders ::
    "(string \<Rightarrow> ProviderModel list option) \<Rightarrow> Instance \<Rightarrow> db \<Rightarrow> (string \<times> GatewayProvider) list" where
  "resolveGatewayProviders dec inst d =
     (let enabledIDs = parseEnabledProviders (inst_EnabledProviders inst);
          gatewayKeys = GetInstanceGatewayKeys (inst_ID inst) d;
          providers = filter (\<lambda>p. prov_ID p \<in> set enabledIDs) (llm_providers d)
                      @ filter (\<lambda>p. prov_InstanceID p = Some (inst_ID inst)) (llm_providers d)
      in fold (\<lambda>p m. case gatewayKeys (prov_ID p) of
                 None \<Rightarrow> m
               | Some gk \<Rightarrow> AList.update (prov_Key p)
                   \<lparr>gp_Key = gk, gp_APIType = prov_APIType p, gp_Models = ParseProviderModels dec (prov_Models p),
                    gp_CatalogKey = prov_Provider p\<rparr> m) providers [])"

text \<open>\<open>catalog\<close> gives the models of a catalog provider, \<open>marshal\<close> the JSON of a map from provider keys.\<close>

definition provider_cfg :: "(string \<Rightarrow> ProviderModel list) \<Rightarrow> string list \<Rightarrow> int \<Rightarrow> string \<Rightarrow> GatewayProvider \<Rightarrow> openclawProviderCfg" where
  "provider_cfg catalog models port key gp =
     (let apiType = (if gp_APIType gp = [] then ''openai-completions'' else gp_APIType gp);
          gpModels = (if gp_CatalogKey gp \<noteq> [] then
                        filter (\<lambda>m. key @ ''/'' @ pm_ID m \<in> set models)
                          (if gp_Models gp \<noteq> [] then gp_Models gp else catalog (gp_CatalogKey gp))
                      else gp_Models gp)
      in \<lparr>oc_BaseURL = ''http://127.0.0.1:'' @ show_nat (nat port),
          oc_API = (if apiType = APITypeOpenAICodexResponses then ''openai-responses'' else apiType),
          oc_APIKey = gp_Key gp, oc_Models = gpModels\<rparr>)"

definition buildOpenClawProvidersJSON ::
    "(string \<Rightarrow> ProviderModel list) \<Rightarrow> ((string \<times> openclawProviderCfg) list \<Rightarrow> string) \<Rightarrow> string list
       \<Rightarrow> (string \<times> GatewayProvider) list \<Rightarrow> int \<Rightarrow> string" where
  "buildOpenClawProvidersJSON catalog marshal models gps port =
     (if gps = [] \<or> port \<le> 0 then []
      else marshal (map (\<lambda>(k, gp). (k, provider_cfg catalog models port k gp)) (sort_key fst gps)))"

section \<open>Effective settings\<close>

definition setting_or :: "string \<Rightarrow> string \<Rightarrow> db \<Rightarrow> string" where
  \<comment> \<open>a setting that is there and not empty, else the fallback\<close>
  "setting_or key fallback d = (case GetSetting key d of None \<Rightarrow> fallback | Some v \<Rightarrow> if v = [] then fallback else v)"

definition getEffectiveImage :: "Instance \<Rightarrow> db \<Rightarrow> string" where
  "getEffectiveImage inst d =
     (if inst_ContainerImage inst \<noteq> [] then inst_ContainerImage inst else setting_or ''default_container_image'' [] d)"

definition getEffectiveResolution :: "Instance \<Rightarrow> db \<Rightarrow> string" where
  "getEffectiveResolution inst d =
     (if inst_VNCResolution inst \<noteq> [] then inst_VNCResolution inst else setting_or ''default_vnc_resolution'' ''1920x1080'' d)"

definition getEffectiveTimezone :: "Instance \<Rightarrow> db \<Rightarrow> string" where
  "getEffectiveTimezone inst d =
     (if inst_Timezone inst \<noteq> [] then inst_Timezone inst else setting_or ''default_timezone'' ''America/New_York'' d)"

definition getEffectiveUserAgent :: "Instance \<Rightarrow> db \<Rightarrow> string" where
  "getEffectiveUserAgent inst d =
     (if inst_UserAgent inst \<noteq> [] then inst_UserAgent inst else setting_or ''default_user_agent'' [] d)"

definition IsLegacyEmbedded :: "string \<Rightarrow> bool" where
  "IsLegacyEmbedded img \<longleftrightarrow> img = [] \<or> contains img ''openclaw-vnc-''"

section \<open>Rows\<close>

definition update_instance :: "gtime \<Rightarrow> nat \<Rightarrow> (Instance \<Rightarrow> Instance) \<Rightarrow> db \<Rightarrow> db" where
  \<comment> \<open>an update of columns, which also sets the time of the last update\<close>
  "update_instance now i f d =
     d\<lparr>instances := map (\<lambda>x. if inst_ID x = i then (f x)\<lparr>inst_UpdatedAt := Some now\<rparr> else x) (instances d)\<rparr>"

definition set_status :: "gtime \<Rightarrow> nat \<Rightarrow> string \<Rightarrow> db \<Rightarrow> db" where
  "set_status now i st d = update_instance now i (\<lambda>x. x\<lparr>inst_Status := st\<rparr>) d"

text \<open>\<open>resolveStatus\<close>: the status shown, the row in memory and the database.\<close>

definition resolveStatus :: "gtime \<Rightarrow> Instance \<Rightarrow> string \<Rightarrow> db \<Rightarrow> string \<times> Instance \<times> db" where
  "resolveStatus now inst orchStatus d =
     (let settle = (\<lambda>st. (st, inst\<lparr>inst_Status := st, inst_UpdatedAt := Some now\<rparr>, set_status now (inst_ID inst) st d)) in
      if inst_Status inst = ''stopping'' then
        if orchStatus = ''stopped'' then settle ''stopped'' else (''stopping'', inst, d)
      else if inst_Status inst = ''error'' \<and> orchStatus = ''stopped'' then (''failed'', inst, d)
      else if inst_Status inst = ''creating'' then (''creating'', inst, d)
      else if inst_Status inst \<noteq> ''restarting'' then (orchStatus, inst, d)
      else if orchStatus \<noteq> ''running'' then (''restarting'', inst, d)
      else if (case inst_UpdatedAt inst of None \<Rightarrow> False | Some u \<Rightarrow> now - u < 15 * 10 ^ 9) then (''restarting'', inst, d)
      else settle ''running'')"

text \<open>The unique index on the name can refuse a row; columns that have a default take it in place of a zero
  value.\<close>

definition column_defaults :: "Instance \<Rightarrow> Instance" where
  "column_defaults x =
     (let def = (\<lambda>s v. if s = [] then v else s) in
      x\<lparr>inst_Status := def (inst_Status x) ''creating'', inst_CPURequest := def (inst_CPURequest x) ''500m'',
        inst_CPULimit := def (inst_CPULimit x) ''2000m'', inst_MemoryRequest := def (inst_MemoryRequest x) ''1Gi'',
        inst_MemoryLimit := def (inst_MemoryLimit x) ''4Gi'', inst_StorageHomebrew := def (inst_StorageHomebrew x) ''10Gi'',
        inst_StorageHome := def (inst_StorageHome x) ''10Gi'', inst_ModelsConfig := def (inst_ModelsConfig x) ''{}'',
        inst_EnabledProviders := def (inst_EnabledProviders x) ''[]'', inst_EnvVars := def (inst_EnvVars x) ''{}'',
        inst_BrowserActive := True, inst_TeamID := (if inst_TeamID x = 0 then 1 else inst_TeamID x)\<rparr>)"

definition create_instance :: "gtime \<Rightarrow> Instance \<Rightarrow> db \<Rightarrow> (Instance \<times> db) option" where
  "create_instance now x d =
     (if inst_Name x \<in> inst_Name ` set (instances d) then None
      else
        let mk = (\<lambda>i. (column_defaults x)\<lparr>inst_ID := i, inst_UpdatedAt := Some now\<rparr>);
            (i, d1) = create_row ''instances'' instances instances_update mk d
        in Some (mk i, d1))"

definition max_sort_order :: "db \<Rightarrow> int" where
  "max_sort_order d = (case instances d of [] \<Rightarrow> 0 | xs \<Rightarrow> Max (inst_SortOrder ` set xs))"

section \<open>Shared folders\<close>

definition folder_covers :: "nat \<Rightarrow> nat \<Rightarrow> SharedFolder \<Rightarrow> bool" where
  "folder_covers i team sf \<longleftrightarrow>
     i \<in> set (ParseTeamIDs (sf_InstanceIDs sf)) \<or> team \<noteq> 0 \<and> team \<in> set (ParseTeamIDs (sf_TeamIDs sf))"

definition GetSharedFoldersForInstance :: "nat \<Rightarrow> db \<Rightarrow> SharedFolder list" where
  "GetSharedFoldersForInstance i d =
     filter (folder_covers i (case GetInstance i d of None \<Rightarrow> 0 | Some x \<Rightarrow> inst_TeamID x)) (shared_folders d)"

definition db_UpdateSharedFolder :: "nat \<Rightarrow> (SharedFolder \<Rightarrow> SharedFolder) \<Rightarrow> db \<Rightarrow> db" where
  "db_UpdateSharedFolder i f d = update_row shared_folders_update sf_ID i f d"

definition getSharedFolderMounts :: "nat \<Rightarrow> db \<Rightarrow> (nat \<times> string) list" where
  "getSharedFolderMounts i d = map (\<lambda>sf. (sf_ID sf, sf_MountPath sf)) (GetSharedFoldersForInstance i d)"

section \<open>Parameters of a container\<close>

record CreateParams =
  cp_Name :: string
  cp_CPURequest :: string
  cp_CPULimit :: string
  cp_MemoryRequest :: string
  cp_MemoryLimit :: string
  cp_StorageHomebrew :: string
  cp_StorageHome :: string
  cp_ContainerImage :: string
  cp_VNCResolution :: string
  cp_Timezone :: string
  cp_UserAgent :: string
  cp_EnvVars :: smap
  cp_SharedFolderMounts :: "(nat \<times> string) list"

definition token_vars :: "(string \<Rightarrow> string option) \<Rightarrow> Instance \<Rightarrow> smap \<Rightarrow> smap" where
  \<comment> \<open>the gateway token, where it can be decrypted, and the instance's id\<close>
  "token_vars unseal inst vars =
     AList.update ''CLAWORC_INSTANCE_ID'' (show_nat (inst_ID inst))
       (if inst_GatewayToken inst = [] then vars
        else case unseal (inst_GatewayToken inst) of
               None \<Rightarrow> vars | Some plain \<Rightarrow> AList.update ''OPENCLAW_GATEWAY_TOKEN'' plain vars)"

definition buildCreateParams :: "(string \<Rightarrow> string option) \<Rightarrow> Instance \<Rightarrow> db \<Rightarrow> CreateParams" where
  "buildCreateParams unseal inst d =
     \<lparr>cp_Name = inst_Name inst, cp_CPURequest = inst_CPURequest inst, cp_CPULimit = inst_CPULimit inst,
      cp_MemoryRequest = inst_MemoryRequest inst, cp_MemoryLimit = inst_MemoryLimit inst,
      cp_StorageHomebrew = inst_StorageHomebrew inst, cp_StorageHome = inst_StorageHome inst,
      cp_ContainerImage = getEffectiveImage inst d, cp_VNCResolution = getEffectiveResolution inst d,
      cp_Timezone = getEffectiveTimezone inst d, cp_UserAgent = getEffectiveUserAgent inst d,
      cp_EnvVars = token_vars unseal inst
        (MergeUserEnvVars [] (LoadGlobalEnvVars unseal d) (LoadInstanceEnvVars unseal (inst_EnvVars inst))),
      cp_SharedFolderMounts = getSharedFolderMounts (inst_ID inst) d\<rparr>"

end
