(* ===== verification/InstanceHandlers.thy ===== *)
theory InstanceHandlers imports Instances IpRestrict begin

text \<open>
  The handlers of \<^verbatim>\<open>control-plane/internal/handlers/instances.go\<close> and the work they leave to the
  task manager.  The container backend, the SSH side of an instance, encryption and the provider catalog are
  functions over the outside state \<open>'w\<close>; a decoded body is an option, \<open>None\<close> when it does not decode.
\<close>

section \<open>The world outside\<close>

record ContainerStats =
  cs_CPUUsageMillicores :: int
  cs_CPUUsagePercent :: real
  cs_MemoryUsageBytes :: int
  cs_MemoryLimitBytes :: int

record UpdateResourcesParams =
  ur_CPURequest :: string
  ur_CPULimit :: string
  ur_MemoryRequest :: string
  ur_MemoryLimit :: string

text \<open>The backend: each call returns its error, if any; a creation also the progress messages it sends.\<close>

record 'w orch =
  o_Create :: "CreateParams \<Rightarrow> 'w \<Rightarrow> (string list \<times> string option) \<times> 'w"
  o_Delete :: "string \<Rightarrow> 'w \<Rightarrow> string option \<times> 'w"
  o_Start :: "string \<Rightarrow> 'w \<Rightarrow> string option \<times> 'w"
  o_Stop :: "string \<Rightarrow> 'w \<Rightarrow> string option \<times> 'w"
  o_Restart :: "string \<Rightarrow> CreateParams \<Rightarrow> 'w \<Rightarrow> string option \<times> 'w"
  o_Status :: "string \<Rightarrow> 'w \<Rightarrow> (string \<times> bool) \<times> 'w"
  o_ImageInfo :: "string \<Rightarrow> 'w \<Rightarrow> string option \<times> 'w"
  o_UpdateResources :: "string \<Rightarrow> UpdateResourcesParams \<Rightarrow> 'w \<Rightarrow> string option \<times> 'w"
  o_Stats :: "string \<Rightarrow> 'w \<Rightarrow> ContainerStats option \<times> 'w"
  o_UpdateImage :: "string \<Rightarrow> CreateParams \<Rightarrow> 'w \<Rightarrow> string option \<times> 'w"
  o_CloneVolumes :: "string \<Rightarrow> string \<Rightarrow> 'w \<Rightarrow> string option \<times> 'w"

text \<open>\<open>e_now\<close> is the clock; \<open>e_disconnect\<close> cancels an instance's reconnection and stops its tunnels;
  \<open>e_connect\<close> is \<open>EnsureConnectedWithIPCheck\<close>; \<open>e_polls\<close> bounds how often a wait asks for the status;
  \<open>e_quote\<close>, \<open>e_ip_error\<close> and \<open>e_file_error\<close> are texts of error values.\<close>

record 'w ienv =
  e_now :: gtime
  e_seal :: "string \<Rightarrow> string option"
  e_seal_var :: "string \<Rightarrow> string \<Rightarrow> string option"
  e_unseal :: "string \<Rightarrow> string option"
  e_models :: "string \<Rightarrow> ProviderModel list option"
  e_catalog :: "string \<Rightarrow> ProviderModel list"
  e_marshal :: "(string \<times> openclawProviderCfg) list \<Rightarrow> string"
  e_port :: int
  e_orch :: "'w orch option"
  e_disconnect :: "nat \<Rightarrow> 'w \<Rightarrow> 'w"
  e_browser_delete :: "nat \<Rightarrow> 'w \<Rightarrow> 'w"
  e_browser_clone :: "string \<Rightarrow> string \<Rightarrow> 'w \<Rightarrow> 'w"
  e_wait_ssh :: "nat \<Rightarrow> 'w \<Rightarrow> bool \<times> 'w"
  e_connect :: "nat \<Rightarrow> string \<Rightarrow> 'w \<Rightarrow> string option \<times> 'w"
  e_exec :: "nat \<Rightarrow> 'w exec"
  e_polls :: nat
  e_quote :: "string \<Rightarrow> string"
  e_ip_error :: "parse_error \<Rightarrow> string"
  e_file_error :: "file_error \<Rightarrow> string"

section \<open>The state of the handlers\<close>

text \<open>What a task is to do is data, so that it can run later.\<close>

record create_work =
  cw_inst :: Instance
  cw_token :: string
  cw_image :: string
  cw_resolution :: string
  cw_timezone :: string
  cw_agent :: string
  cw_models :: "string list"
  cw_gateways :: "(string \<times> GatewayProvider) list"
  cw_initialModels :: string
  cw_initialProviders :: string

datatype work =
    Create_work create_work
  | Restart_work Instance
  | Image_work Instance CreateParams
  | Clone_work Instance Instance string
  | Configure_work nat string "string list" "(string \<times> GatewayProvider) list"

record ijob =
  ij_type :: string
  ij_inst :: nat
  ij_user :: nat
  ij_name :: string
  ij_title :: string
  ij_message :: string
  ij_cancellable :: bool
  ij_work :: work

record 'w iworld =
  iw_db :: db
  iw_msg :: "nat \<rightharpoonup> string"
  iw_out :: 'w
  iw_jobs :: "ijob list"

definition setStatusMessage :: "nat \<Rightarrow> string \<Rightarrow> 'w iworld \<Rightarrow> 'w iworld" where
  "setStatusMessage i msg s = s\<lparr>iw_msg := (iw_msg s)(i \<mapsto> msg)\<rparr>"

definition clearStatusMessage :: "nat \<Rightarrow> 'w iworld \<Rightarrow> 'w iworld" where
  "clearStatusMessage i s = s\<lparr>iw_msg := (iw_msg s)(i := None)\<rparr>"

definition getStatusMessage :: "nat \<Rightarrow> 'w iworld \<Rightarrow> string" where
  "getStatusMessage i s = (case iw_msg s i of None \<Rightarrow> [] | Some m \<Rightarrow> m)"

definition upd_db :: "(db \<Rightarrow> db) \<Rightarrow> 'w iworld \<Rightarrow> 'w iworld" where
  "upd_db f s = s\<lparr>iw_db := f (iw_db s)\<rparr>"

definition upd_out :: "('w \<Rightarrow> 'w) \<Rightarrow> 'w iworld \<Rightarrow> 'w iworld" where
  "upd_out f s = s\<lparr>iw_out := f (iw_out s)\<rparr>"

definition call_out :: "('w \<Rightarrow> 'a \<times> 'w) \<Rightarrow> 'w iworld \<Rightarrow> 'a \<times> 'w iworld" where
  "call_out f s = (case f (iw_out s) of (x, w) \<Rightarrow> (x, s\<lparr>iw_out := w\<rparr>))"

definition start_task ::
    "string \<Rightarrow> Instance \<Rightarrow> nat \<Rightarrow> string \<Rightarrow> string \<Rightarrow> bool \<Rightarrow> work \<Rightarrow> 'w iworld \<Rightarrow> 'w iworld" where
  "start_task type inst user title message cancellable w s =
     s\<lparr>iw_jobs := iw_jobs s @
        [\<lparr>ij_type = type, ij_inst = inst_ID inst, ij_user = user, ij_name = inst_DisplayName inst, ij_title = title,
          ij_message = message, ij_cancellable = cancellable, ij_work = w\<rparr>]\<rparr>"

definition status_of :: "'w ienv \<Rightarrow> string \<Rightarrow> 'w iworld \<Rightarrow> string \<times> 'w iworld" where
  \<comment> \<open>the backend's status, \<open>stopped\<close> when there is no backend\<close>
  "status_of E name s =
     (case e_orch E of
        None \<Rightarrow> (''stopped'', s)
      | Some O1 \<Rightarrow> (case call_out (o_Status O1 name) s of ((st, ok), s1) \<Rightarrow> (st, s1)))"

section \<open>Configuring a running instance\<close>

definition ExecOpenclaw :: "'w exec \<Rightarrow> string list \<Rightarrow> 'w \<Rightarrow> int option \<times> 'w" where
  \<comment> \<open>the exit code, \<open>None\<close> when the command could not be run\<close>
  "ExecOpenclaw exec args w =
     (case openclaw_cmd args of
        None \<Rightarrow> (None, w)
      | Some cmd \<Rightarrow> (case exec cmd w of (Inl e, w1) \<Rightarrow> (None, w1) | (Inr (out, err, code), w1) \<Rightarrow> (Some code, w1)))"

fun waitForRunning :: "'w orch \<Rightarrow> string \<Rightarrow> nat \<Rightarrow> 'w \<Rightarrow> bool \<times> 'w" where
  "waitForRunning O1 name 0 w = (False, w)"
| "waitForRunning O1 name (Suc n) w =
     (case o_Status O1 name w of
        ((st, ok), w1) \<Rightarrow> if ok \<and> st = ''running'' then (True, w1) else waitForRunning O1 name n w1)"

text \<open>The commands in order; the result of those whose failure is only logged is dropped.\<close>

definition model_commands :: "'w exec \<Rightarrow> string list \<Rightarrow> 'w \<Rightarrow> bool \<times> 'w" where
  \<comment> \<open>False: the handler gives up\<close>
  "model_commands exec models w =
     (if models = [] then (True, w)
      else
        (case ExecOpenclaw exec [''config'', ''set'', ''agents.defaults.model'', model_config_json models, ''--json''] w of
           (None, w1) \<Rightarrow> (False, w1)
         | (Some code, w1) \<Rightarrow>
             let w2 = snd (ExecOpenclaw exec [''config'', ''unset'', ''agents.defaults.models''] w1)
             in (True, snd (ExecOpenclaw exec
                   [''config'', ''set'', ''agents.defaults.models'', models_map_json models, ''--json''] w2))))"

definition provider_commands :: "'w exec \<Rightarrow> string \<Rightarrow> 'w \<Rightarrow> 'w" where
  "provider_commands exec providersJSON w =
     (if providersJSON = [] then w
      else
        let w1 = snd (ExecOpenclaw exec [''config'', ''unset'', ''models.providers''] w)
        in snd (ExecOpenclaw exec [''config'', ''set'', ''models.providers'', providersJSON, ''--json''] w1))"

definition ConfigureInstance ::
    "'w ienv \<Rightarrow> 'w orch \<Rightarrow> nat \<Rightarrow> string \<Rightarrow> string list \<Rightarrow> (string \<times> GatewayProvider) list \<Rightarrow> 'w \<Rightarrow> 'w" where
  "ConfigureInstance E O1 i name models gps w =
     (if models = [] \<and> gps = [] then w
      else
        (case waitForRunning O1 name (e_polls E) w of
           (False, w1) \<Rightarrow> w1
         | (True, w1) \<Rightarrow>
             (case model_commands (e_exec E i) models w1 of
                (False, w2) \<Rightarrow> w2
              | (True, w2) \<Rightarrow>
                  let w3 = provider_commands (e_exec E i)
                             (buildOpenClawProvidersJSON (e_catalog E) (e_marshal E) models gps (e_port E)) w2
                  in snd (ExecOpenclaw (e_exec E i) [''gateway'', ''stop''] w3))))"

definition configure_over_ssh ::
    "'w ienv \<Rightarrow> 'w orch \<Rightarrow> nat \<Rightarrow> string \<Rightarrow> string list \<Rightarrow> (string \<times> GatewayProvider) list \<Rightarrow> 'w \<Rightarrow> 'w" where
  \<comment> \<open>after \<open>WaitForSSH\<close>\<close>
  "configure_over_ssh E O1 i name models gps w =
     (case e_wait_ssh E i w of (False, w1) \<Rightarrow> w1 | (True, w1) \<Rightarrow> ConfigureInstance E O1 i name models gps w1)"

section \<open>What is shown of an instance\<close>

record instanceResponse =
  ir_inst :: Instance
  ir_Status :: string
  ir_StatusMessage :: string
  ir_HasBraveOverride :: bool
  ir_EffectiveModels :: "string list"
  ir_DisabledDefaults :: "string list"
  ir_Extra :: "string list"
  ir_EnvVars :: smap
  ir_EnabledProviders :: "nat list"
  ir_InstanceProviders :: "LLMProvider list"
  ir_ControlURL :: string
  ir_GatewayToken :: string
  ir_IsLegacyEmbedded :: bool
  ir_RequiresRestart :: bool
  ir_Restarting :: bool
  ir_LiveImageInfo :: "string option"

definition instanceToResponse :: "'w ienv \<Rightarrow> Instance \<Rightarrow> string \<Rightarrow> 'w iworld \<Rightarrow> instanceResponse" where
  "instanceToResponse E inst st s =
     (let d = iw_db s; mc = parseModelsConfig (inst_ModelsConfig inst) in
      \<lparr>ir_inst = inst, ir_Status = st, ir_StatusMessage = getStatusMessage (inst_ID inst) s,
       ir_HasBraveOverride = (inst_BraveAPIKey inst \<noteq> []), ir_EffectiveModels = computeEffectiveModels mc d,
       ir_DisabledDefaults = mc_Disabled mc, ir_Extra = mc_Extra mc,
       ir_EnvVars = EnvVarsForResponse (e_unseal E) (inst_EnvVars inst),
       ir_EnabledProviders = parseEnabledProviders (inst_EnabledProviders inst),
       ir_InstanceProviders = sort_key prov_ID (filter (\<lambda>p. prov_InstanceID p = Some (inst_ID inst)) (llm_providers d)),
       ir_ControlURL = ''/openclaw/'' @ show_nat (inst_ID inst) @ ''/'',
       ir_GatewayToken = (if inst_GatewayToken inst = [] then []
                          else case e_unseal E (inst_GatewayToken inst) of None \<Rightarrow> [] | Some t \<Rightarrow> t),
       ir_IsLegacyEmbedded = IsLegacyEmbedded (getEffectiveImage inst d),
       ir_RequiresRestart = False, ir_Restarting = False, ir_LiveImageInfo = None\<rparr>)"

section \<open>Finding the instance\<close>

definition load_instance :: "string \<Rightarrow> db \<Rightarrow> (nat \<times> string) + Instance" where
  "load_instance idp d =
     (case atoi idp of
        None \<Rightarrow> Inl (400, ''Invalid instance ID'')
      | Some i \<Rightarrow>
          (case (if i < 0 then None else GetInstance (nat i) d) of
             None \<Rightarrow> Inl (404, ''Instance not found'') | Some inst \<Rightarrow> Inr inst))"

definition with_instance ::
    "string \<Rightarrow> (Instance \<Rightarrow> bool) \<Rightarrow> string \<Rightarrow> (Instance \<Rightarrow> 'w iworld \<Rightarrow> 'a reply \<times> 'w iworld) \<Rightarrow> 'w iworld
       \<Rightarrow> 'a reply \<times> 'w iworld" where
  \<comment> \<open>the common beginning: the id, the row, the permission\<close>
  "with_instance idp ok denied k s =
     (case load_instance idp (iw_db s) of
        Inl (st, msg) \<Rightarrow> (Fail st msg, s)
      | Inr inst \<Rightarrow> if ok inst then k inst s else (Fail 403 denied, s))"

abbreviation may_access :: "User option \<Rightarrow> 'w iworld \<Rightarrow> Instance \<Rightarrow> bool" where
  "may_access cu s inst \<equiv> CanAccessInstance cu (inst_ID inst) (iw_db s)"

abbreviation may_mutate :: "User option \<Rightarrow> 'w iworld \<Rightarrow> Instance \<Rightarrow> bool" where
  "may_mutate cu s inst \<equiv> CanMutateInstance cu (inst_ID inst) (iw_db s)"

section \<open>Listing and showing\<close>

fun list_responses :: "'w ienv \<Rightarrow> Instance list \<Rightarrow> 'w iworld \<Rightarrow> instanceResponse list \<times> 'w iworld" where
  "list_responses E [] s = ([], s)"
| "list_responses E (inst # xs) s =
     (case status_of E (inst_Name inst) s of
        (orchStatus, s1) \<Rightarrow>
          (case resolveStatus (e_now E) inst orchStatus (iw_db s1) of
             (st, inst1, d) \<Rightarrow>
               let s2 = s1\<lparr>iw_db := d\<rparr>; r = instanceToResponse E inst1 st s2
               in (case list_responses E xs s2 of (rs, s3) \<Rightarrow> (r # rs, s3))))"

definition ListInstances ::
    "'w ienv \<Rightarrow> User option \<Rightarrow> string \<Rightarrow> 'w iworld \<Rightarrow> instanceResponse list reply \<times> 'w iworld" where
  "ListInstances E cu teamParam s =
     (let all = sort_key inst_SortOrder (sort_key inst_ID (instances (iw_db s)));
          inTeam = (case atoi teamParam of
                      Some n \<Rightarrow> if 0 < n then filter (\<lambda>x. inst_TeamID x = nat n) all else all | None \<Rightarrow> all);
          reply = (\<lambda>xs. case list_responses E xs s of (rs, s1) \<Rightarrow> (Reply 200 rs, s1))
      in case cu of
           None \<Rightarrow> reply inTeam
         | Some u \<Rightarrow>
             if user_Role u = ''admin'' then reply inTeam
             else
               let accessible = AccessibleInstanceIDs (user_ID u) (iw_db s)
               in if accessible = [] then (Reply 200 [], s)
                  else reply (filter (\<lambda>x. inst_ID x \<in> set accessible) inTeam))"

definition live_image :: "'w ienv \<Rightarrow> Instance \<Rightarrow> instanceResponse \<Rightarrow> 'w iworld \<Rightarrow> instanceResponse \<times> 'w iworld" where
  "live_image E inst r s =
     (case e_orch E of
        None \<Rightarrow> (r, s)
      | Some O1 \<Rightarrow>
          (case call_out (o_ImageInfo O1 (inst_Name inst)) s of
             (None, s1) \<Rightarrow> (r, s1)
           | (Some info, s1) \<Rightarrow> (if info = [] then r else r\<lparr>ir_LiveImageInfo := Some info\<rparr>, s1)))"

definition GetInstanceHandler ::
    "'w ienv \<Rightarrow> User option \<Rightarrow> string \<Rightarrow> 'w iworld \<Rightarrow> instanceResponse reply \<times> 'w iworld" where
  "GetInstanceHandler E cu idp s =
     with_instance idp (may_access cu s) ''Access denied'' (\<lambda>inst s0.
       case status_of E (inst_Name inst) s0 of
         (orchStatus, s1) \<Rightarrow>
           (case resolveStatus (e_now E) inst orchStatus (iw_db s1) of
              (st, inst1, d) \<Rightarrow>
                let s2 = s1\<lparr>iw_db := d\<rparr>
                in case live_image E inst1 (instanceToResponse E inst1 st s2) s2 of (r, s3) \<Rightarrow> (Reply 200 r, s3))) s"

definition GetInstanceStats ::
    "'w ienv \<Rightarrow> User option \<Rightarrow> string \<Rightarrow> 'w iworld \<Rightarrow> ContainerStats reply \<times> 'w iworld" where
  "GetInstanceStats E cu idp s =
     with_instance idp (may_access cu s) ''Access denied'' (\<lambda>inst s0.
       case e_orch E of
         None \<Rightarrow> (orchestrator_unavailable, s0)
       | Some O1 \<Rightarrow>
           (case call_out (o_Stats O1 (inst_Name inst)) s0 of
              (None, s1) \<Rightarrow> (Fail 503 ''Stats unavailable'', s1) | (Some stats, s1) \<Rightarrow> (Reply 200 stats, s1))) s"

end
