(* ===== verification/InstanceUpdates.thy ===== *)
theory InstanceUpdates imports InstanceHandlers begin

text \<open>
  The handlers of \<^verbatim>\<open>control-plane/internal/handlers/instances.go\<close> that change instances, the work of
  their tasks, and the routes that lead to them.
\<close>

section \<open>Creating\<close>

record instanceCreateRequest =
  cr_DisplayName :: string
  cr_CPURequest :: string
  cr_CPULimit :: string
  cr_MemoryRequest :: string
  cr_MemoryLimit :: string
  cr_StorageHomebrew :: string
  cr_StorageHome :: string
  cr_BraveAPIKey :: "string option"
  cr_Models :: "modelsConfig option"
  cr_DefaultModel :: string
  cr_ContainerImage :: "string option"
  cr_VNCResolution :: "string option"
  cr_Timezone :: "string option"
  cr_UserAgent :: "string option"
  cr_EnabledProviders :: "nat list"
  cr_EnvVarsSet :: smap
  cr_BrowserProvider :: "string option"
  cr_BrowserImage :: "string option"
  cr_BrowserIdleMinutes :: "int option"
  cr_BrowserStorage :: "string option"
  cr_TeamID :: "nat option"

definition or_empty :: "string option \<Rightarrow> string" where
  "or_empty v = (case v of None \<Rightarrow> [] | Some s \<Rightarrow> s)"

definition given_or_setting :: "string \<Rightarrow> string \<Rightarrow> string \<Rightarrow> db \<Rightarrow> string" where
  \<comment> \<open>\<open>resolveDefault\<close>\<close>
  "given_or_setting v key fallback d = (if v \<noteq> [] then v else setting_or key fallback d)"

definition with_default_resources :: "db \<Rightarrow> instanceCreateRequest \<Rightarrow> instanceCreateRequest" where
  "with_default_resources d b =
     b\<lparr>cr_CPURequest := given_or_setting (cr_CPURequest b) ''default_cpu_request'' ''500m'' d,
       cr_CPULimit := given_or_setting (cr_CPULimit b) ''default_cpu_limit'' ''2000m'' d,
       cr_MemoryRequest := given_or_setting (cr_MemoryRequest b) ''default_memory_request'' ''1Gi'' d,
       cr_MemoryLimit := given_or_setting (cr_MemoryLimit b) ''default_memory_limit'' ''4Gi'' d,
       cr_StorageHomebrew := given_or_setting (cr_StorageHomebrew b) ''default_storage_homebrew'' ''10Gi'' d,
       cr_StorageHome := given_or_setting (cr_StorageHome b) ''default_storage_home'' ''10Gi'' d\<rparr>"

definition env_error_text :: "'w ienv \<Rightarrow> env_error \<Rightarrow> string" where
  "env_error_text E e =
     (case e of
        Bad_name n \<Rightarrow> ''invalid env var name '' @ e_quote E n @ '': must match [A-Z_][A-Z0-9_]*''
      | Reserved_name n \<Rightarrow> ''env var name '' @ e_quote E n @ '' is reserved for internal use''
      | Encrypt_error n \<Rightarrow> ''encrypt '' @ n)"

text \<open>The checks before the row is made; the row without the encrypted columns; the row.\<close>

definition create_checks :: "User option \<Rightarrow> instanceCreateRequest \<Rightarrow> db \<Rightarrow> (nat \<times> string) option" where
  "create_checks cu b d =
     (let team = (case cr_TeamID b of None \<Rightarrow> 0 | Some t \<Rightarrow> t) in
      if cr_DisplayName b = [] then Some (400, ''display_name is required'')
      else if team = 0 then Some (400, ''team_id is required'')
      else if GetTeam team d = None then Some (400, ''Unknown team'')
      else if (case cu of None \<Rightarrow> False | Some u \<Rightarrow> user_Role u \<noteq> ''admin'' \<and> \<not> IsTeamManager (user_ID u) team d)
      then Some (403, ''You must be a manager of the target team to create instances'')
      else
        let b1 = with_default_resources d b in
        case ValidateResourceQuantities
               \<lparr>rq_CPURequest = cr_CPURequest b1, rq_CPULimit = cr_CPULimit b1, rq_MemoryRequest = cr_MemoryRequest b1,
                rq_MemoryLimit = cr_MemoryLimit b1, rq_StorageHome = cr_StorageHome b1,
                rq_StorageHomebrew = cr_StorageHomebrew b1\<rparr> of
          Some msg \<Rightarrow> Some (400, msg)
        | None \<Rightarrow>
            let name = generateName (cr_DisplayName b) in
            if name \<in> inst_Name ` set (instances d)
            then Some (409, ''Instance name '' @ [CHR 0x27] @ name @ [CHR 0x27] @ '' already exists'')
            else None)"

definition new_instance :: "instanceCreateRequest \<Rightarrow> string \<Rightarrow> string \<Rightarrow> string \<Rightarrow> db \<Rightarrow> Instance" where
  \<comment> \<open>given the encrypted keys and environment variables\<close>
  "new_instance b0 braveKey token envVars d =
     (let b = with_default_resources d b0 in
      zero_instance\<lparr>inst_Name := generateName (cr_DisplayName b), inst_DisplayName := cr_DisplayName b,
        inst_Status := ''creating'', inst_CPURequest := cr_CPURequest b, inst_CPULimit := cr_CPULimit b,
        inst_MemoryRequest := cr_MemoryRequest b, inst_MemoryLimit := cr_MemoryLimit b,
        inst_StorageHomebrew := cr_StorageHomebrew b, inst_StorageHome := cr_StorageHome b,
        inst_BraveAPIKey := braveKey,
        inst_ContainerImage := (if or_empty (cr_ContainerImage b) \<noteq> [] then or_empty (cr_ContainerImage b)
                                else setting_or ''default_agent_image'' [] d),
        inst_VNCResolution := or_empty (cr_VNCResolution b), inst_GatewayToken := token,
        inst_ModelsConfig := (case cr_Models b of None \<Rightarrow> ''{}'' | Some mc \<Rightarrow> marshalModelsConfig mc),
        inst_DefaultModel := cr_DefaultModel b, inst_EnabledProviders := EncodeTeamIDs (cr_EnabledProviders b),
        inst_Timezone := or_empty (cr_Timezone b), inst_UserAgent := or_empty (cr_UserAgent b),
        inst_EnvVars := envVars, inst_SortOrder := max_sort_order d + 1,
        inst_BrowserProvider := or_empty (cr_BrowserProvider b), inst_BrowserImage := or_empty (cr_BrowserImage b),
        inst_BrowserIdleMinutes := cr_BrowserIdleMinutes b, inst_BrowserStorage := or_empty (cr_BrowserStorage b),
        inst_TeamID := (case cr_TeamID b of None \<Rightarrow> 0 | Some t \<Rightarrow> t)\<rparr>)"

definition assign_creator :: "User option \<Rightarrow> nat \<Rightarrow> db \<Rightarrow> db" where
  "assign_creator cu i d =
     (case cu of
        None \<Rightarrow> d
      | Some u \<Rightarrow>
          if user_Role u = ''admin'' then d
          else let g = \<lparr>ui_UserID = user_ID u, ui_InstanceID = i\<rparr> in
               if g \<in> set (user_instances d) then d else d\<lparr>user_instances := user_instances d @ [g]\<rparr>)"

text \<open>\<open>tok\<close> and \<open>rnd\<close> are the random bytes of the token and of the gateway keys.\<close>

definition CreateInstance ::
    "'w ienv \<Rightarrow> User option \<Rightarrow> nat list \<Rightarrow> (nat \<Rightarrow> nat list) \<Rightarrow> instanceCreateRequest option \<Rightarrow> 'w iworld
       \<Rightarrow> instanceResponse reply \<times> 'w iworld" where
  "CreateInstance E cu tok rnd body s =
     (case body of
        None \<Rightarrow> (Fail 400 ''Invalid request body'', s)
      | Some b \<Rightarrow>
     (case create_checks cu b (iw_db s) of
        Some (st, msg) \<Rightarrow> (Fail st msg, s)
      | None \<Rightarrow>
     (case (if or_empty (cr_BraveAPIKey b) = [] then Some [] else e_seal E (or_empty (cr_BraveAPIKey b))) of
        None \<Rightarrow> (Fail 500 ''Failed to encrypt API key'', s)
      | Some braveKey \<Rightarrow>
     (case e_seal E (generateToken tok) of
        None \<Rightarrow> (Fail 500 ''Failed to encrypt gateway token'', s)
      | Some token \<Rightarrow>
     (case (if cr_EnvVarsSet b = [] then Inr ''{}''
            else UpsertEncryptedEnvVarsJSON (e_seal_var E) (e_unseal E) ''{}'' (cr_EnvVarsSet b) []) of
        Inl e \<Rightarrow> (Fail 400 (env_error_text E e), s)
      | Inr envVars \<Rightarrow>
     (case create_instance (e_now E) (new_instance b braveKey token envVars (iw_db s)) (iw_db s) of
        None \<Rightarrow> (Fail 500 ''Failed to create instance'', s)
      | Some (inst, d1) \<Rightarrow>
          let d2 = assign_creator cu (inst_ID inst) d1;
              allIDs = allProviderIDsForInstance (inst_ID inst) (cr_EnabledProviders b) d2;
              d3 = snd (EnsureKeysForInstance (inst_ID inst) allIDs rnd d2);
              models = resolveInstanceModels inst d3;
              gps = resolveGatewayProviders (e_models E) inst d3;
              w = Create_work \<lparr>cw_inst = inst, cw_token = generateToken tok, cw_image = getEffectiveImage inst d3,
                    cw_resolution = getEffectiveResolution inst d3, cw_timezone = getEffectiveTimezone inst d3,
                    cw_agent = getEffectiveUserAgent inst d3, cw_models = models, cw_gateways = gps,
                    cw_initialModels = model_config_json models,
                    cw_initialProviders = buildOpenClawProvidersJSON (e_catalog E) (e_marshal E) models gps (e_port E)\<rparr>;
              s1 = start_task ''instance.create'' inst (caller_id cu) (''Creating instance '' @ inst_DisplayName inst) [] False w
                     (s\<lparr>iw_db := d3\<rparr>)
          in (Reply 201 (instanceToResponse E inst ''creating'' s1), s1)))))))"

definition set_var :: "string \<Rightarrow> string \<Rightarrow> smap \<Rightarrow> smap" where
  \<comment> \<open>a variable that is set when its value is not empty\<close>
  "set_var k v vars = (if v = [] then vars else AList.update k v vars)"

definition fail_status :: "nat \<Rightarrow> string \<Rightarrow> 'w ienv \<Rightarrow> 'w iworld \<Rightarrow> 'w iworld" where
  "fail_status i msg E s = upd_db (set_status (e_now E) i ''error'') (setStatusMessage i msg s)"

definition create_params :: "'w ienv \<Rightarrow> create_work \<Rightarrow> db \<Rightarrow> CreateParams" where
  "create_params E c d =
     (let inst = cw_inst c in
      \<lparr>cp_Name = inst_Name inst, cp_CPURequest = inst_CPURequest inst, cp_CPULimit = inst_CPULimit inst,
       cp_MemoryRequest = inst_MemoryRequest inst, cp_MemoryLimit = inst_MemoryLimit inst,
       cp_StorageHomebrew = inst_StorageHomebrew inst, cp_StorageHome = inst_StorageHome inst,
       cp_ContainerImage = cw_image c, cp_VNCResolution = cw_resolution c, cp_Timezone = cw_timezone c,
       cp_UserAgent = cw_agent c,
       cp_EnvVars =
         set_var ''OPENCLAW_INITIAL_PROVIDERS'' (cw_initialProviders c)
           (set_var ''OPENCLAW_INITIAL_MODELS'' (cw_initialModels c)
             (AList.update ''CLAWORC_INSTANCE_ID'' (show_nat (inst_ID inst))
               (set_var ''OPENCLAW_GATEWAY_TOKEN'' (cw_token c)
                 (MergeUserEnvVars [] (LoadGlobalEnvVars (e_unseal E) d)
                    (LoadInstanceEnvVars (e_unseal E) (inst_EnvVars inst)))))),
       cp_SharedFolderMounts = []\<rparr>)"

definition no_backend :: string where
  "no_backend = ''Failed: no orchestrator available''"

definition run_create :: "'w ienv \<Rightarrow> create_work \<Rightarrow> 'w iworld \<Rightarrow> 'w iworld" where
  "run_create E c s =
     (let i = inst_ID (cw_inst c) in
      case e_orch E of
        None \<Rightarrow> fail_status i no_backend E s
      | Some O1 \<Rightarrow>
          (case call_out (o_Create O1 (create_params E c (iw_db s))) s of
             ((progress, r), s0) \<Rightarrow>
               let s1 = fold (setStatusMessage i) progress s0 in
               (case r of
                  Some err \<Rightarrow> fail_status i (''Failed: '' @ err) E s1
                | None \<Rightarrow>
                    upd_out (configure_over_ssh E O1 i (inst_Name (cw_inst c)) (cw_models c) (cw_gateways c))
                      (upd_db (set_status (e_now E) i ''running'') (clearStatusMessage i s1)))))"

section \<open>Restarting in the background\<close>

definition restartInstanceAsync :: "'w ienv \<Rightarrow> Instance \<Rightarrow> nat \<Rightarrow> string \<Rightarrow> string \<Rightarrow> 'w iworld \<Rightarrow> 'w iworld" where
  \<comment> \<open>\<open>restartInstanceAsyncWithToast\<close>\<close>
  "restartInstanceAsync E inst user title message s =
     (if inst_Status inst \<noteq> ''running'' \<or> e_orch E = None then s
      else
        let s1 = upd_out (e_disconnect E (inst_ID inst)) s;
            s2 = upd_db (set_status (e_now E) (inst_ID inst) ''restarting'') s1;
            inst1 = inst\<lparr>inst_Status := ''restarting'', inst_UpdatedAt := Some (e_now E)\<rparr>
        in start_task ''instance.restart'' inst1 user title message False (Restart_work inst1) s2)"

definition run_restart :: "'w ienv \<Rightarrow> Instance \<Rightarrow> 'w iworld \<Rightarrow> 'w iworld" where
  "run_restart E inst s =
     (case e_orch E of
        None \<Rightarrow> s
      | Some O1 \<Rightarrow>
          (case call_out (o_Restart O1 (inst_Name inst) (buildCreateParams (e_unseal E) inst (iw_db s))) s of
             (None, s1) \<Rightarrow> s1
           | (Some err, s1) \<Rightarrow> fail_status (inst_ID inst) (''Failed: '' @ err) E s1))"

section \<open>Updating\<close>

record instanceUpdateRequest =
  iu_BraveAPIKey :: "string option"
  iu_Models :: "modelsConfig option"
  iu_DefaultModel :: "string option"
  iu_Timezone :: "string option"
  iu_UserAgent :: "string option"
  iu_AllowedSourceIPs :: "string option"
  iu_EnabledProviders :: "nat list option"
  iu_DisplayName :: "string option"
  iu_CPURequest :: "string option"
  iu_CPULimit :: "string option"
  iu_MemoryRequest :: "string option"
  iu_MemoryLimit :: "string option"
  iu_VNCResolution :: "string option"
  iu_EnvVarsSet :: smap
  iu_EnvVarsUnset :: "string list"
  iu_BrowserProvider :: "string option"
  iu_BrowserImage :: "string option"
  iu_BrowserIdleMinutes :: "int option"
  iu_BrowserStorage :: "string option"
  iu_TeamID :: "nat option"

text \<open>Each part of the handler works on the row in memory and the database, and can end it with an error.\<close>

type_synonym step = "Instance \<times> db \<Rightarrow> ((nat \<times> string) + unit) \<times> Instance \<times> db"

fun run_steps :: "step list \<Rightarrow> step" where
  "run_steps [] x = (Inr (), x)"
| "run_steps (f # fs) x = andThen (f x) (\<lambda>_. run_steps fs)"

definition set_columns :: "gtime \<Rightarrow> (Instance \<Rightarrow> Instance) \<Rightarrow> step" where
  "set_columns now f x =
     (case x of (inst, d) \<Rightarrow> (Inr (), (f inst)\<lparr>inst_UpdatedAt := Some now\<rparr>, update_instance now (inst_ID inst) f d))"

definition if_given :: "'a option \<Rightarrow> ('a \<Rightarrow> step) \<Rightarrow> step" where
  "if_given v f x = (case v of None \<Rightarrow> (Inr (), x) | Some y \<Rightarrow> f y x)"

definition stop_with :: "nat \<Rightarrow> string \<Rightarrow> step" where
  "stop_with st msg x = (Inl (st, msg), x)"

definition admin_only :: "User option \<Rightarrow> string \<Rightarrow> step \<Rightarrow> step" where
  "admin_only cu msg f x = (if is_admin cu then f x else stop_with 403 msg x)"

definition reassign_team :: "gtime \<Rightarrow> User option \<Rightarrow> nat option \<Rightarrow> step" where
  "reassign_team now cu team x =
     (case team of
        None \<Rightarrow> (Inr (), x)
      | Some t \<Rightarrow>
          if t = 0 \<or> t = inst_TeamID (fst x) then (Inr (), x)
          else
            (case cu of
               None \<Rightarrow> stop_with 401 ''Authentication required'' x
             | Some u \<Rightarrow>
                 if GetTeam t (snd x) = None then stop_with 400 ''Unknown team'' x
                 else if user_Role u \<noteq> ''admin'' \<and>
                         (\<not> IsTeamManager (user_ID u) (inst_TeamID (fst x)) (snd x) \<or> \<not> IsTeamManager (user_ID u) t (snd x))
                 then stop_with 403 ''You must be a manager of both the current and target teams to reassign'' x
                 else set_columns now (\<lambda>r. r\<lparr>inst_TeamID := t\<rparr>) x))"

definition update_brave_key :: "gtime \<Rightarrow> (string \<Rightarrow> string option) \<Rightarrow> string \<Rightarrow> step" where
  "update_brave_key now seal key x =
     (if key = [] then set_columns now (\<lambda>r. r\<lparr>inst_BraveAPIKey := []\<rparr>) x
      else case seal key of
             None \<Rightarrow> stop_with 500 ''Failed to encrypt API key'' x
           | Some c \<Rightarrow> set_columns now (\<lambda>r. r\<lparr>inst_BraveAPIKey := c\<rparr>) x)"

definition update_source_ips :: "'w ienv \<Rightarrow> string \<Rightarrow> step" where
  "update_source_ips E ips x =
     (case (if ips = [] then Inr None else ParseIPRestrictions ips) of
        Inl e \<Rightarrow> stop_with 400 (''Invalid source IP restriction: '' @ e_ip_error E e) x
      | Inr _ \<Rightarrow> set_columns (e_now E) (\<lambda>r. r\<lparr>inst_AllowedSourceIPs := ips\<rparr>) x)"

definition update_enabled_providers :: "gtime \<Rightarrow> (nat \<Rightarrow> nat list) \<Rightarrow> nat list \<Rightarrow> step" where
  "update_enabled_providers now rnd ids x =
     (case set_columns now (\<lambda>r. r\<lparr>inst_EnabledProviders := EncodeTeamIDs ids\<rparr>) x of
        (r, inst, d) \<Rightarrow>
          (r, inst, snd (EnsureKeysForInstance (inst_ID inst) (allProviderIDsForInstance (inst_ID inst) ids d) rnd d)))"

definition update_display_name :: "gtime \<Rightarrow> string \<Rightarrow> step" where
  "update_display_name now v x =
     (if trim_space v = [] then stop_with 400 ''Display name cannot be empty'' x
      else set_columns now (\<lambda>r. r\<lparr>inst_DisplayName := trim_space v\<rparr>) x)"

definition given :: "'a option \<Rightarrow> 'a \<Rightarrow> 'a" where
  "given v old = (case v of None \<Rightarrow> old | Some x \<Rightarrow> x)"

definition resources_given :: "instanceUpdateRequest \<Rightarrow> bool" where
  "resources_given b \<longleftrightarrow>
     iu_CPURequest b \<noteq> None \<or> iu_CPULimit b \<noteq> None \<or> iu_MemoryRequest b \<noteq> None \<or> iu_MemoryLimit b \<noteq> None"

definition update_resources :: "gtime \<Rightarrow> instanceUpdateRequest \<Rightarrow> step" where
  "update_resources now b x =
     (let inst = fst x;
          cpuReq = given (iu_CPURequest b) (inst_CPURequest inst); cpuLim = given (iu_CPULimit b) (inst_CPULimit inst);
          memReq = given (iu_MemoryRequest b) (inst_MemoryRequest inst); memLim = given (iu_MemoryLimit b) (inst_MemoryLimit inst)
      in case ValidateResourceQuantities
                \<lparr>rq_CPURequest = cpuReq, rq_CPULimit = cpuLim, rq_MemoryRequest = memReq, rq_MemoryLimit = memLim,
                 rq_StorageHome = [], rq_StorageHomebrew = []\<rparr> of
           Some msg \<Rightarrow> stop_with 400 msg x
         | None \<Rightarrow>
             set_columns now (\<lambda>r. r\<lparr>inst_CPURequest := cpuReq, inst_CPULimit := cpuLim,
                                   inst_MemoryRequest := memReq, inst_MemoryLimit := memLim\<rparr>) x)"

definition update_resolution :: "gtime \<Rightarrow> string \<Rightarrow> step" where
  "update_resolution now v x =
     (if v \<noteq> [] \<and> \<not> resolution_format v then stop_with 400 ''Invalid resolution format (e.g., 1920x1080)'' x
      else set_columns now (\<lambda>r. r\<lparr>inst_VNCResolution := v\<rparr>) x)"

definition update_steps :: "'w ienv \<Rightarrow> User option \<Rightarrow> (nat \<Rightarrow> nat list) \<Rightarrow> instanceUpdateRequest \<Rightarrow> step list" where
  "update_steps E cu rnd b =
     (let now = e_now E in
      [reassign_team now cu (iu_TeamID b),
       if_given (iu_BraveAPIKey b) (update_brave_key now (e_seal E)),
       if_given (iu_DefaultModel b) (\<lambda>v. set_columns now (\<lambda>r. r\<lparr>inst_DefaultModel := v\<rparr>)),
       if_given (iu_Timezone b) (\<lambda>v. set_columns now (\<lambda>r. r\<lparr>inst_Timezone := v\<rparr>)),
       if_given (iu_UserAgent b) (\<lambda>v. set_columns now (\<lambda>r. r\<lparr>inst_UserAgent := v\<rparr>)),
       if_given (iu_BrowserProvider b) (\<lambda>v. set_columns now (\<lambda>r. r\<lparr>inst_BrowserProvider := v\<rparr>)),
       if_given (iu_BrowserImage b) (\<lambda>v. set_columns now (\<lambda>r. r\<lparr>inst_BrowserImage := v\<rparr>)),
       if_given (iu_BrowserStorage b) (\<lambda>v. set_columns now (\<lambda>r. r\<lparr>inst_BrowserStorage := v\<rparr>)),
       if_given (iu_BrowserIdleMinutes b) (\<lambda>v. set_columns now (\<lambda>r. r\<lparr>inst_BrowserIdleMinutes := Some v\<rparr>)),
       if_given (iu_AllowedSourceIPs b)
         (\<lambda>v. admin_only cu ''Only admins can configure source IP restrictions'' (update_source_ips E v)),
       if_given (iu_Models b) (\<lambda>mc. set_columns now (\<lambda>r. r\<lparr>inst_ModelsConfig := marshalModelsConfig mc\<rparr>)),
       if_given (iu_EnabledProviders b)
         (\<lambda>ids. admin_only cu ''Only admins can configure LLM gateway providers'' (update_enabled_providers now rnd ids)),
       if_given (iu_DisplayName b) (\<lambda>v. admin_only cu ''Only admins can rename instances'' (update_display_name now v)),
       if_given (if resources_given b then Some () else None)
         (\<lambda>_. admin_only cu ''Only admins can change resource limits'' (update_resources now b)),
       if_given (iu_VNCResolution b)
         (\<lambda>v. admin_only cu ''Only admins can change VNC resolution'' (update_resolution now v))])"

definition update_env_vars :: "'w ienv \<Rightarrow> instanceUpdateRequest \<Rightarrow> Instance \<times> db \<Rightarrow> ((nat \<times> string) + bool) \<times> Instance \<times> db" where
  \<comment> \<open>whether the variables changed\<close>
  "update_env_vars E b x =
     (if iu_EnvVarsSet b = [] \<and> iu_EnvVarsUnset b = [] then (Inr False, x)
      else
        (case ApplyEnvVarsDelta (e_seal_var E) (e_unseal E) (inst_EnvVars (fst x)) (iu_EnvVarsSet b) (iu_EnvVarsUnset b) of
           Inl e \<Rightarrow> (Inl (400, env_error_text E e), x)
         | Inr (updated, changed) \<Rightarrow>
             if changed then (Inr True, snd (set_columns (e_now E) (\<lambda>r. r\<lparr>inst_EnvVars := updated\<rparr>) x))
             else (Inr False, x)))"

definition push_resources :: "'w ienv \<Rightarrow> Instance \<Rightarrow> string \<Rightarrow> bool \<Rightarrow> 'w iworld \<Rightarrow> 'w iworld" where
  "push_resources E inst orchStatus changed s =
     (case e_orch E of
        None \<Rightarrow> s
      | Some O1 \<Rightarrow>
          if changed \<and> orchStatus = ''running'' then
            snd (call_out (o_UpdateResources O1 (inst_Name inst)
                   \<lparr>ur_CPURequest = inst_CPURequest inst, ur_CPULimit = inst_CPULimit inst,
                    ur_MemoryRequest = inst_MemoryRequest inst, ur_MemoryLimit = inst_MemoryLimit inst\<rparr>) s)
          else s)"

text \<open>The plain goroutine that configures the instance is a job without a title.\<close>

definition push_config :: "'w ienv \<Rightarrow> Instance \<Rightarrow> string \<Rightarrow> 'w iworld \<Rightarrow> 'w iworld" where
  "push_config E inst orchStatus s =
     (if e_orch E \<noteq> None \<and> orchStatus = ''running'' then
        start_task [] inst 0 [] [] False
          (Configure_work (inst_ID inst) (inst_Name inst) (resolveInstanceModels inst (iw_db s))
             (resolveGatewayProviders (e_models E) inst (iw_db s))) s
      else s)"

text \<open>The end of the handler, once every column is written: the row is read again, the backend and the agent are
  told, and a changed environment restarts the instance.\<close>

definition finish_update ::
    "'w ienv \<Rightarrow> User option \<Rightarrow> instanceUpdateRequest \<Rightarrow> bool \<Rightarrow> Instance \<Rightarrow> 'w iworld \<Rightarrow> instanceResponse reply \<times> 'w iworld" where
  "finish_update E cu b envVarsChanged inst1 s1 =
     (let inst2 = (case GetInstance (inst_ID inst1) (iw_db s1) of None \<Rightarrow> inst1 | Some x \<Rightarrow> x) in
      case status_of E (inst_Name inst2) s1 of (orchStatus, s2) \<Rightarrow>
      let s3 = push_config E inst2 orchStatus (push_resources E inst2 orchStatus (resources_given b) s2) in
      case resolveStatus (e_now E) inst2 orchStatus (iw_db s3) of (st, inst3, d4) \<Rightarrow>
      let s4 = s3\<lparr>iw_db := d4\<rparr>;
          restarting = (envVarsChanged \<and> st = ''running'');
          s5 = (if restarting
                then restartInstanceAsync E inst3 (caller_id cu) (''Restarting instance '' @ inst_DisplayName inst3) [] s4
                else s4);
          r = (instanceToResponse E inst3 (if restarting then ''restarting'' else st) s5)
                \<lparr>ir_RequiresRestart := restarting, ir_Restarting := restarting\<rparr>
      in case live_image E inst3 r s5 of (r1, s6) \<Rightarrow> (Reply 200 r1, s6))"

definition UpdateInstance ::
    "'w ienv \<Rightarrow> User option \<Rightarrow> (nat \<Rightarrow> nat list) \<Rightarrow> string \<Rightarrow> instanceUpdateRequest option \<Rightarrow> 'w iworld
       \<Rightarrow> instanceResponse reply \<times> 'w iworld" where
  "UpdateInstance E cu rnd idp body s =
     with_instance idp (may_access cu s) ''Access denied'' (\<lambda>inst0 s0.
       case body of
         None \<Rightarrow> (Fail 400 ''Invalid request body'', s0)
       | Some b \<Rightarrow>
           (case andThen (run_steps (update_steps E cu rnd b) (inst0, iw_db s0)) (\<lambda>_. update_env_vars E b) of
              (Inl (st, msg), _, d) \<Rightarrow> (Fail st msg, s0\<lparr>iw_db := d\<rparr>)
            | (Inr envVarsChanged, inst1, d) \<Rightarrow> finish_update E cu b envVarsChanged inst1 (s0\<lparr>iw_db := d\<rparr>))) s"

end
