(* ===== verification/InstanceLifecycle.thy ===== *)
theory InstanceLifecycle imports InstanceUpdates begin

text \<open>
  The rest of the handlers of \<^verbatim>\<open>control-plane/internal/handlers/instances.go\<close>: image updates, deletion,
  start, stop and restart, the agent's configuration file, clones, the browser pane and the order; the
  work of the tasks; and the routes of \<^verbatim>\<open>control-plane/main.go\<close> that lead to the handlers.
\<close>

section \<open>Updating the image\<close>

definition image_params :: "(string \<Rightarrow> string option) \<Rightarrow> Instance \<Rightarrow> db \<Rightarrow> CreateParams" where
  \<comment> \<open>no storage, no variables of the user; the folders are looked up by the task\<close>
  "image_params unseal inst d =
     \<lparr>cp_Name = inst_Name inst, cp_CPURequest = inst_CPURequest inst, cp_CPULimit = inst_CPULimit inst,
      cp_MemoryRequest = inst_MemoryRequest inst, cp_MemoryLimit = inst_MemoryLimit inst,
      cp_StorageHomebrew = [], cp_StorageHome = [],
      cp_ContainerImage = getEffectiveImage inst d, cp_VNCResolution = getEffectiveResolution inst d,
      cp_Timezone = getEffectiveTimezone inst d, cp_UserAgent = getEffectiveUserAgent inst d,
      cp_EnvVars = token_vars unseal inst [], cp_SharedFolderMounts = []\<rparr>"

definition UpdateInstanceImage :: "'w ienv \<Rightarrow> User option \<Rightarrow> string \<Rightarrow> 'w iworld \<Rightarrow> string reply \<times> 'w iworld" where
  "UpdateInstanceImage E cu idp s =
     (if \<not> is_admin cu then (Fail 403 ''Only admins can update instance images'', s)
      else with_instance idp (may_access cu s) ''Access denied'' (\<lambda>inst s0.
        case e_orch E of
          None \<Rightarrow> (orchestrator_unavailable, s0)
        | Some O1 \<Rightarrow>
            (case status_of E (inst_Name inst) s0 of
               (st, s1) \<Rightarrow>
                 let img = getEffectiveImage inst (iw_db s1) in
                 if st \<noteq> ''running'' then (Fail 400 ''Instance must be running to update image'', s1)
                 else if img = [] then (Fail 400 ''No container image configured'', s1)
                 else if contains img ''@sha256:''
                 then (Fail 400 ''Cannot update a digest-pinned image; use a tag-based image instead'', s1)
                 else
                   let inst1 = inst\<lparr>inst_Status := ''restarting'', inst_UpdatedAt := Some (e_now E)\<rparr>;
                       s2 = upd_out (e_disconnect E (inst_ID inst))
                              (upd_db (set_status (e_now E) (inst_ID inst) ''restarting'') s1)
                   in (Reply 202 ''restarting'',
                       start_task ''instance.image_update'' inst1 (caller_id cu)
                         (''Updating image for '' @ inst_DisplayName inst) [] False
                         (Image_work inst1 (image_params (e_unseal E) inst1 (iw_db s2))) s2))) s)"

text \<open>After a failed update the status is asked for again, but the statement that would store it also sets a
  column \<open>status_message\<close>, which the table does not have, so that it is refused and its error ignored.\<close>

definition run_image :: "'w ienv \<Rightarrow> Instance \<Rightarrow> CreateParams \<Rightarrow> 'w iworld \<Rightarrow> 'w iworld" where
  "run_image E inst p s =
     (case e_orch E of
        None \<Rightarrow> s
      | Some O1 \<Rightarrow>
          (case call_out (o_UpdateImage O1 (inst_Name inst)
                  (p\<lparr>cp_SharedFolderMounts := getSharedFolderMounts (inst_ID inst) (iw_db s)\<rparr>)) s of
             (Some err, s1) \<Rightarrow> snd (status_of E (inst_Name inst) s1)
           | (None, s1) \<Rightarrow> upd_db (set_status (e_now E) (inst_ID inst) ''running'') s1))"

section \<open>Deleting\<close>

definition drop_instance_rows :: "nat \<Rightarrow> db \<Rightarrow> db" where
  \<comment> \<open>the browser session, the providers and the gateway keys of the instance\<close>
  "drop_instance_rows i d =
     d\<lparr>browser_sessions := filter (\<lambda>b. br_InstanceID b \<noteq> i) (browser_sessions d),
       llm_providers := filter (\<lambda>p. prov_InstanceID p \<noteq> Some i) (llm_providers d),
       llm_gateway_keys := filter (\<lambda>k. gk_InstanceID k \<noteq> i) (llm_gateway_keys d)\<rparr>"

definition delete_instance_row :: "nat \<Rightarrow> db \<Rightarrow> db" where
  "delete_instance_row i d = delete_row instances_update inst_ID i d"

definition backend_delete :: "'w ienv \<Rightarrow> string \<Rightarrow> 'w iworld \<Rightarrow> 'w iworld" where
  \<comment> \<open>an error is only logged\<close>
  "backend_delete E name s =
     (case e_orch E of None \<Rightarrow> s | Some O1 \<Rightarrow> snd (call_out (o_Delete O1 name) s))"

definition DeleteInstance :: "'w ienv \<Rightarrow> string \<Rightarrow> 'w iworld \<Rightarrow> unit reply \<times> 'w iworld" where
  "DeleteInstance E idp s =
     (case load_instance idp (iw_db s) of
        Inl (st, msg) \<Rightarrow> (Fail st msg, s)
      | Inr inst \<Rightarrow>
          let i = inst_ID inst;
              s1 = upd_out (e_disconnect E i) s;
              s2 = (case e_orch E of None \<Rightarrow> s1 | Some O1 \<Rightarrow> upd_out (e_browser_delete E i) s1);
              s3 = backend_delete E (inst_Name inst) s2
          in (Reply 204 (), upd_db (\<lambda>d. delete_instance_row i (drop_instance_rows i d)) s3))"

section \<open>Starting, stopping, restarting\<close>

definition backend_call :: "'w ienv \<Rightarrow> ('w orch \<Rightarrow> 'w \<Rightarrow> string option \<times> 'w) \<Rightarrow> 'w iworld \<Rightarrow> string option \<times> 'w iworld" where
  "backend_call E f s = (case e_orch E of None \<Rightarrow> (None, s) | Some O1 \<Rightarrow> call_out (f O1) s)"

definition finish_call ::
    "'w ienv \<Rightarrow> Instance \<Rightarrow> string \<Rightarrow> string \<Rightarrow> string option \<times> 'w iworld \<Rightarrow> string reply \<times> 'w iworld" where
  "finish_call E inst verb st r =
     (case r of
        (Some err, s) \<Rightarrow> (Fail 500 (''Failed to '' @ verb @ '' instance: '' @ err), s)
      | (None, s) \<Rightarrow> (Reply 200 st, upd_db (set_status (e_now E) (inst_ID inst) st) s))"

definition StartInstance :: "'w ienv \<Rightarrow> User option \<Rightarrow> string \<Rightarrow> 'w iworld \<Rightarrow> string reply \<times> 'w iworld" where
  "StartInstance E cu idp s =
     with_instance idp (may_mutate cu s) ''Only admins or team managers can start instances'' (\<lambda>inst s0.
       finish_call E inst ''start'' ''running'' (backend_call E (\<lambda>O1. o_Start O1 (inst_Name inst)) s0)) s"

definition StopInstance :: "'w ienv \<Rightarrow> User option \<Rightarrow> string \<Rightarrow> 'w iworld \<Rightarrow> string reply \<times> 'w iworld" where
  "StopInstance E cu idp s =
     with_instance idp (may_mutate cu s) ''Only admins or team managers can stop instances'' (\<lambda>inst s0.
       finish_call E inst ''stop'' ''stopping''
         (backend_call E (\<lambda>O1. o_Stop O1 (inst_Name inst)) (upd_out (e_disconnect E (inst_ID inst)) s0))) s"

definition RestartInstance :: "'w ienv \<Rightarrow> User option \<Rightarrow> string \<Rightarrow> 'w iworld \<Rightarrow> string reply \<times> 'w iworld" where
  "RestartInstance E cu idp s =
     with_instance idp (may_mutate cu s) ''Only admins or team managers can restart instances'' (\<lambda>inst s0.
       finish_call E inst ''restart'' ''restarting''
         (backend_call E (\<lambda>O1. o_Restart O1 (inst_Name inst) (buildCreateParams (e_unseal E) inst (iw_db s0)))
            (upd_out (e_disconnect E (inst_ID inst)) s0))) s"

section \<open>The agent's configuration file\<close>

definition PathOpenClawConfig :: string where
  "PathOpenClawConfig = ''/home/claworc/.openclaw/openclaw.json''"

definition connect_to :: "'w ienv \<Rightarrow> Instance \<Rightarrow> 'w iworld \<Rightarrow> string option \<times> 'w iworld" where
  "connect_to E inst s = call_out (e_connect E (inst_ID inst) (inst_AllowedSourceIPs inst)) s"

definition GetInstanceConfig :: "'w ienv \<Rightarrow> User option \<Rightarrow> string \<Rightarrow> 'w iworld \<Rightarrow> string reply \<times> 'w iworld" where
  "GetInstanceConfig E cu idp s =
     with_instance idp (may_access cu s) ''Access denied'' (\<lambda>inst s0.
       case e_orch E of
         None \<Rightarrow> (orchestrator_unavailable, s0)
       | Some O1 \<Rightarrow>
           (case connect_to E inst s0 of
              (Some err, s1) \<Rightarrow> (Fail 502 (''SSH connection failed: '' @ err), s1)
            | (None, s1) \<Rightarrow>
                (case call_out (ReadFile (e_exec E (inst_ID inst)) PathOpenClawConfig) s1 of
                   (Inl e, s2) \<Rightarrow> (Fail 503 ''Instance must be running to read config'', s2)
                 | (Inr content, s2) \<Rightarrow> (Reply 200 content, s2)))) s"

definition UpdateInstanceConfig ::
    "'w ienv \<Rightarrow> User option \<Rightarrow> string \<Rightarrow> string option \<Rightarrow> 'w iworld \<Rightarrow> string reply \<times> 'w iworld" where
  "UpdateInstanceConfig E cu idp body s =
     (if atoi idp = None then (Fail 400 ''Invalid instance ID'', s)
      else
     (case body of
        None \<Rightarrow> (Fail 400 ''Invalid request body'', s)
      | Some config \<Rightarrow>
          if json_parse config = None then (Fail 400 ''Invalid JSON in config'', s)
          else with_instance idp (may_access cu s) ''Access denied'' (\<lambda>inst s0.
            case e_orch E of
              None \<Rightarrow> (orchestrator_unavailable, s0)
            | Some O1 \<Rightarrow>
                (case connect_to E inst s0 of
                   (Some err, s1) \<Rightarrow> (Fail 502 (''SSH connection failed: '' @ err), s1)
                 | (None, s1) \<Rightarrow>
                     (case call_out (WriteFile (e_exec E (inst_ID inst)) PathOpenClawConfig config) s1 of
                        (Some e, s2) \<Rightarrow> (Fail 500 (''Failed to write config: '' @ e_file_error E e), s2)
                      | (None, s2) \<Rightarrow>
                          (Reply 200 config,
                           snd (call_out (ExecOpenclaw (e_exec E (inst_ID inst)) [''gateway'', ''stop'']) s2))))) s))"

section \<open>Cloning\<close>

definition clone_name :: "string \<Rightarrow> nat list \<Rightarrow> db \<Rightarrow> string" where
  "clone_name displayName rnd d =
     (let name = generateName displayName
      in if name \<in> inst_Name ` set (instances d) then take 63 (name @ ''-'' @ hex_encode rnd) else name)"

definition clone_row :: "Instance \<Rightarrow> string \<Rightarrow> string \<Rightarrow> string \<Rightarrow> int \<Rightarrow> Instance" where
  "clone_row src name displayName token sortOrder =
     zero_instance\<lparr>inst_Name := name, inst_DisplayName := displayName, inst_Status := ''creating'',
       inst_CPURequest := inst_CPURequest src, inst_CPULimit := inst_CPULimit src,
       inst_MemoryRequest := inst_MemoryRequest src, inst_MemoryLimit := inst_MemoryLimit src,
       inst_StorageHomebrew := inst_StorageHomebrew src, inst_StorageHome := inst_StorageHome src,
       inst_BraveAPIKey := inst_BraveAPIKey src, inst_ContainerImage := inst_ContainerImage src,
       inst_VNCResolution := inst_VNCResolution src, inst_Timezone := inst_Timezone src,
       inst_UserAgent := inst_UserAgent src, inst_GatewayToken := token, inst_ModelsConfig := inst_ModelsConfig src,
       inst_DefaultModel := inst_DefaultModel src, inst_SortOrder := sortOrder,
       inst_BrowserProvider := inst_BrowserProvider src, inst_BrowserImage := inst_BrowserImage src,
       inst_BrowserIdleMinutes := inst_BrowserIdleMinutes src, inst_BrowserStorage := inst_BrowserStorage src,
       inst_BrowserActive := inst_BrowserActive src\<rparr>"

definition hide_browser :: "gtime \<Rightarrow> Instance \<Rightarrow> Instance \<times> db \<Rightarrow> Instance \<times> db" where
  \<comment> \<open>the column's default hides that the source's browser pane is off\<close>
  "hide_browser now src x =
     (if inst_BrowserActive src then x else snd (set_columns now (\<lambda>r. r\<lparr>inst_BrowserActive := False\<rparr>) x))"

definition set_folder_instances :: "(nat list \<Rightarrow> nat list) \<Rightarrow> nat \<Rightarrow> db \<Rightarrow> db" where
  \<comment> \<open>the ids of every shared folder of an instance, changed\<close>
  "set_folder_instances f i d =
     fold (\<lambda>sf. db_UpdateSharedFolder (sf_ID sf)
             (\<lambda>x. x\<lparr>sf_InstanceIDs := EncodeTeamIDs (f (ParseTeamIDs (sf_InstanceIDs sf)))\<rparr>))
       (GetSharedFoldersForInstance i d) d"

definition CloneInstance ::
    "'w ienv \<Rightarrow> User option \<Rightarrow> nat list \<Rightarrow> nat list \<Rightarrow> string \<Rightarrow> 'w iworld \<Rightarrow> instanceResponse reply \<times> 'w iworld" where
  \<comment> \<open>\<open>tok\<close> and \<open>rnd\<close> are the random bytes of the token and of the name\<close>
  "CloneInstance E cu tok rnd idp s =
     (case load_instance idp (iw_db s) of
        Inl (st, msg) \<Rightarrow> (Fail st msg, s)
      | Inr src \<Rightarrow>
          let displayName = inst_DisplayName src @ '' (Copy)''; name = clone_name displayName rnd (iw_db s) in
          (case e_seal E (generateToken tok) of
             None \<Rightarrow> (Fail 500 ''Failed to encrypt gateway token'', s)
           | Some token \<Rightarrow>
          (case create_instance (e_now E) (clone_row src name displayName token (max_sort_order (iw_db s) + 1)) (iw_db s) of
             None \<Rightarrow> (Fail 500 ''Failed to create cloned instance'', s)
           | Some x \<Rightarrow>
               let (inst, d1) = hide_browser (e_now E) src x;
                   d2 = set_folder_instances (\<lambda>ids. ids @ [inst_ID inst]) (inst_ID src) d1;
                   s1 = start_task ''instance.clone'' inst (caller_id cu) ''Cloning instance''
                          (''Cloning '' @ inst_DisplayName src @ '' to '' @ inst_DisplayName inst) True
                          (Clone_work src inst (generateToken tok)) (s\<lparr>iw_db := d2\<rparr>)
               in (Reply 201 (instanceToResponse E inst ''creating'' s1), s1))))"

definition clone_params :: "string \<Rightarrow> Instance \<Rightarrow> db \<Rightarrow> CreateParams" where
  "clone_params token inst d =
     \<lparr>cp_Name = inst_Name inst, cp_CPURequest = inst_CPURequest inst, cp_CPULimit = inst_CPULimit inst,
      cp_MemoryRequest = inst_MemoryRequest inst, cp_MemoryLimit = inst_MemoryLimit inst,
      cp_StorageHomebrew = inst_StorageHomebrew inst, cp_StorageHome = inst_StorageHome inst,
      cp_ContainerImage = getEffectiveImage inst d, cp_VNCResolution = getEffectiveResolution inst d,
      cp_Timezone = getEffectiveTimezone inst d, cp_UserAgent = getEffectiveUserAgent inst d,
      cp_EnvVars = AList.update ''CLAWORC_INSTANCE_ID'' (show_nat (inst_ID inst)) (set_var ''OPENCLAW_GATEWAY_TOKEN'' token []),
      cp_SharedFolderMounts = getSharedFolderMounts (inst_ID inst) d\<rparr>"

definition run_clone :: "'w ienv \<Rightarrow> Instance \<Rightarrow> Instance \<Rightarrow> string \<Rightarrow> 'w iworld \<Rightarrow> 'w iworld" where
  "run_clone E src inst token s =
     (let i = inst_ID inst in
      case e_orch E of
        None \<Rightarrow> fail_status i no_backend E s
      | Some O1 \<Rightarrow>
          (case call_out (o_Create O1 (clone_params token inst (iw_db s))) s of
             ((progress, r), s0) \<Rightarrow>
               let s1 = fold (setStatusMessage i) progress s0 in
               (case r of
                  Some err \<Rightarrow> fail_status i (''Failed: '' @ err) E s1
                | None \<Rightarrow>
                    let s2 = snd (call_out (o_CloneVolumes O1 (inst_Name src) (inst_Name inst))
                                    (setStatusMessage i ''Cloning volumes...'' s1));
                        s3 = upd_out (e_browser_clone E (inst_Name src) (inst_Name inst)) s2;
                        s4 = upd_db (set_status (e_now E) i ''running'') (clearStatusMessage i s3);
                        inst1 = (case GetInstance i (iw_db s4) of None \<Rightarrow> inst | Some x \<Rightarrow> x)
                    in upd_out (configure_over_ssh E O1 i (inst_Name inst) (resolveInstanceModels inst1 (iw_db s4)) []) s4)))"

definition cloneOnCancel :: "'w ienv \<Rightarrow> nat \<Rightarrow> string \<Rightarrow> 'w iworld \<Rightarrow> 'w iworld" where
  "cloneOnCancel E i name s =
     (let s1 = upd_out (e_disconnect E i) (setStatusMessage i ''Canceling clone...'' s);
          s2 = backend_delete E name (upd_out (e_browser_delete E i) s1)
      in clearStatusMessage i
           (upd_db (\<lambda>d. delete_instance_row i
              (set_folder_instances (filter (\<lambda>k. k \<noteq> i)) i (drop_instance_rows i d))) s2))"

section \<open>The browser pane and the order\<close>

definition SetBrowserActive :: "'w ienv \<Rightarrow> User option \<Rightarrow> string \<Rightarrow> bool option \<Rightarrow> 'w iworld \<Rightarrow> bool reply \<times> 'w iworld" where
  \<comment> \<open>a negative id wraps in the access check and matches no row\<close>
  "SetBrowserActive E cu idp body s =
     (case atoi idp of
        None \<Rightarrow> (Fail 400 ''Invalid instance ID'', s)
      | Some i \<Rightarrow>
          if \<not> CanAccessInstance cu (uint_of i) (iw_db s) then (Fail 403 ''Access denied'', s)
          else
            (case body of
               None \<Rightarrow> (Fail 400 ''browser_active is required'', s)
             | Some v \<Rightarrow>
                 (Reply 200 v,
                  if i < 0 then s
                  else upd_db (update_instance (e_now E) (nat i) (\<lambda>x. x\<lparr>inst_BrowserActive := v\<rparr>)) s)))"

fun number_instances :: "gtime \<Rightarrow> nat \<Rightarrow> nat list \<Rightarrow> db \<Rightarrow> db" where
  "number_instances now k [] d = d"
| "number_instances now k (i # is1) d =
     number_instances now (Suc k) is1 (update_instance now i (\<lambda>x. x\<lparr>inst_SortOrder := int k\<rparr>) d)"

definition ReorderInstances :: "'w ienv \<Rightarrow> nat list option \<Rightarrow> 'w iworld \<Rightarrow> unit reply \<times> 'w iworld" where
  "ReorderInstances E body s =
     (case body of
        None \<Rightarrow> (Fail 400 ''Invalid request body'', s)
      | Some ids \<Rightarrow>
          if ids = [] then (Fail 400 ''ordered_ids is required'', s)
          else (Reply 204 (), upd_db (number_instances (e_now E) 1 ids) s))"

section \<open>Tasks\<close>

fun run_work :: "'w ienv \<Rightarrow> work \<Rightarrow> 'w iworld \<Rightarrow> 'w iworld" where
  "run_work E (Create_work c) s = run_create E c s"
| "run_work E (Restart_work inst) s = run_restart E inst s"
| "run_work E (Image_work inst p) s = run_image E inst p s"
| "run_work E (Clone_work src inst token) s = run_clone E src inst token s"
| "run_work E (Configure_work i name models gps) s =
     (case e_orch E of None \<Rightarrow> s | Some O1 \<Rightarrow> upd_out (configure_over_ssh E O1 i name models gps) s)"

definition run_job :: "'w ienv \<Rightarrow> ijob \<Rightarrow> 'w iworld \<Rightarrow> string option \<times> 'w iworld" where
  \<comment> \<open>the error of the task is its status message, when that begins with the word Failed\<close>
  "run_job E j s =
     (let s1 = run_work E (ij_work j) s; msg = getStatusMessage (ij_inst j) s1
      in (if prefix ''Failed'' msg then Some msg else None, s1))"

fun cancel_work :: "'w ienv \<Rightarrow> work \<Rightarrow> 'w iworld \<Rightarrow> 'w iworld" where
  "cancel_work E (Clone_work src inst token) s = cloneOnCancel E (inst_ID inst) (inst_Name inst) s"
| "cancel_work E w s = s"

section \<open>Routes\<close>

datatype irequest =
    List_req string
  | Get_req string
  | Stats_req string
  | Update_req string "instanceUpdateRequest option"
  | Image_req string
  | Start_req string
  | Stop_req string
  | Restart_req string
  | Config_req string
  | Set_config_req string "string option"
  | Browser_req string "bool option"
  | Reorder_req "nat list option"
  | Create_req "instanceCreateRequest option"
  | Clone_req string
  | Delete_req string

definition answer :: "'a reply \<times> 'w iworld \<Rightarrow> nat \<times> 'w iworld" where
  "answer r = (reply_status (fst r), snd r)"

definition instance_creator :: "User \<Rightarrow> db \<Rightarrow> bool" where
  \<comment> \<open>\<open>RequireInstanceCreator\<close> lets the user pass\<close>
  "instance_creator u d \<longleftrightarrow> user_Role u = ''admin'' \<or> 0 < length (UserManagedTeamIDs (user_ID u) d)"

text \<open>The requests of a user who is logged in; \<open>tok\<close>, \<open>rnd\<close> and \<open>keys\<close> are random bytes.\<close>

fun serve_instances ::
    "'w ienv \<Rightarrow> User \<Rightarrow> nat list \<Rightarrow> nat list \<Rightarrow> (nat \<Rightarrow> nat list) \<Rightarrow> irequest \<Rightarrow> 'w iworld \<Rightarrow> nat \<times> 'w iworld" where
  "serve_instances E u tok rnd keys (List_req team) s = answer (ListInstances E (Some u) team s)"
| "serve_instances E u tok rnd keys (Get_req i) s = answer (GetInstanceHandler E (Some u) i s)"
| "serve_instances E u tok rnd keys (Stats_req i) s = answer (GetInstanceStats E (Some u) i s)"
| "serve_instances E u tok rnd keys (Update_req i b) s = answer (UpdateInstance E (Some u) keys i b s)"
| "serve_instances E u tok rnd keys (Image_req i) s = answer (UpdateInstanceImage E (Some u) i s)"
| "serve_instances E u tok rnd keys (Start_req i) s = answer (StartInstance E (Some u) i s)"
| "serve_instances E u tok rnd keys (Stop_req i) s = answer (StopInstance E (Some u) i s)"
| "serve_instances E u tok rnd keys (Restart_req i) s = answer (RestartInstance E (Some u) i s)"
| "serve_instances E u tok rnd keys (Config_req i) s = answer (GetInstanceConfig E (Some u) i s)"
| "serve_instances E u tok rnd keys (Set_config_req i b) s = answer (UpdateInstanceConfig E (Some u) i b s)"
| "serve_instances E u tok rnd keys (Browser_req i b) s = answer (SetBrowserActive E (Some u) i b s)"
| "serve_instances E u tok rnd keys (Reorder_req b) s = answer (ReorderInstances E b s)"
| "serve_instances E u tok rnd keys (Create_req b) s =
     (if instance_creator u (iw_db s) then answer (CreateInstance E (Some u) tok keys b s) else (403, s))"
| "serve_instances E u tok rnd keys (Clone_req i) s =
     (if instance_creator u (iw_db s) then answer (CloneInstance E (Some u) tok rnd i s) else (403, s))"
| "serve_instances E u tok rnd keys (Delete_req i) s =
     (if user_Role u = ''admin'' then answer (DeleteInstance E i s) else (403, s))"

end
