(* ===== verification/InstanceSafety.thy ===== *)
theory InstanceSafety imports InstanceLifecycle begin

text \<open>
  What requests on instances can change.  The locale \<open>row_rules\<close> has the closure conditions a predicate on rows
  needs to survive every request; its interpretations give the statuses a row can have, the columns only an
  administrator can change, and the rows a user without access cannot change.
\<close>

section \<open>Changes of a row\<close>

definition row_statuses :: "string set" where
  "row_statuses = {''creating'', ''running'', ''restarting'', ''stopping'', ''stopped'', ''error''}"

lemma row_statuses_mem [simp]:
  "''creating'' \<in> row_statuses" "''running'' \<in> row_statuses" "''restarting'' \<in> row_statuses"
  "''stopping'' \<in> row_statuses" "''stopped'' \<in> row_statuses" "''error'' \<in> row_statuses"
  by (simp_all add: row_statuses_def)

definition owner_columns where
  \<comment> \<open>the columns that only an administrator changes, and those that nobody changes\<close>
  "owner_columns x =
     ((inst_Name x, inst_DisplayName x, inst_AllowedSourceIPs x, inst_EnabledProviders x, inst_VNCResolution x),
      (inst_CPURequest x, inst_CPULimit x, inst_MemoryRequest x, inst_MemoryLimit x),
      (inst_StorageHomebrew x, inst_StorageHome x, inst_ContainerImage x, inst_GatewayToken x, inst_LogPaths x))"

definition any_change :: "Instance \<Rightarrow> Instance \<Rightarrow> bool" where
  "any_change x y \<longleftrightarrow> inst_ID y = inst_ID x \<and> (inst_Status y = inst_Status x \<or> inst_Status y \<in> row_statuses)"

definition user_change :: "Instance \<Rightarrow> Instance \<Rightarrow> bool" where
  "user_change x y \<longleftrightarrow> any_change x y \<and> owner_columns y = owner_columns x"

definition order_change :: "Instance \<Rightarrow> Instance \<Rightarrow> bool" where
  "order_change x y \<longleftrightarrow> (\<exists>k t. y = x\<lparr>inst_SortOrder := k, inst_UpdatedAt := t\<rparr>)"

lemma order_change_refl [simp]: "order_change x x"
proof -
  have "x = x\<lparr>inst_SortOrder := inst_SortOrder x, inst_UpdatedAt := inst_UpdatedAt x\<rparr>" by simp
  then show ?thesis unfolding order_change_def by blast
qed

lemma order_change_step: "order_change x y \<Longrightarrow> order_change x (y\<lparr>inst_SortOrder := k, inst_UpdatedAt := t\<rparr>)"
proof -
  assume "order_change x y"
  then obtain k1 t1 where "y = x\<lparr>inst_SortOrder := k1, inst_UpdatedAt := t1\<rparr>" unfolding order_change_def by blast
  then have "y\<lparr>inst_SortOrder := k, inst_UpdatedAt := t\<rparr> = x\<lparr>inst_SortOrder := k, inst_UpdatedAt := t\<rparr>" by simp
  then show ?thesis unfolding order_change_def by blast
qed

lemma order_change_columns:
  "order_change x y \<Longrightarrow> inst_ID y = inst_ID x \<and> inst_Status y = inst_Status x \<and> owner_columns y = owner_columns x"
  unfolding order_change_def owner_columns_def by (elim exE) simp

section \<open>Calls that leave the rows alone\<close>

named_theorems same_rows \<open>the operations that leave the table of instances alone\<close>

lemma instances_ensure_keys: "instances (snd (ensure_keys i ps rnd k d)) = instances d"
  by (induction i ps rnd k d rule: ensure_keys.induct) (simp_all add: Let_def split: option.splits)

lemma instances_EnsureKeys [same_rows]: "instances (snd (EnsureKeysForInstance i ps rnd d)) = instances d"
  using instances_ensure_keys [of i ps rnd 0 d]
  by (auto simp: EnsureKeysForInstance_def split: prod.split option.split)

lemma instances_assign_creator [same_rows]: "instances (assign_creator cu i d) = instances d"
  by (simp add: assign_creator_def Let_def split: option.split)

lemma instances_fold_folders:
  "instances (fold (\<lambda>sf. db_UpdateSharedFolder (g sf) (h sf)) sfs d) = instances d"
  by (induction sfs arbitrary: d) (simp_all add: db_UpdateSharedFolder_def update_row_def)

lemma instances_set_folders [same_rows]: "instances (set_folder_instances f i d) = instances d"
  unfolding set_folder_instances_def by (rule instances_fold_folders)

lemma instances_drop_rows [same_rows]: "instances (drop_instance_rows i d) = instances d"
  by (simp add: drop_instance_rows_def)

lemma db_call_out [same_rows]: "iw_db (snd (call_out f s)) = iw_db s"
  by (simp add: call_out_def split: prod.split)

lemma db_call_outD: "call_out f s = (x, s1) \<Longrightarrow> iw_db s1 = iw_db s"
  using db_call_out [of f s] by simp

lemma db_status_of [same_rows]: "iw_db (snd (status_of E name s)) = iw_db s"
  using db_call_outD by (fastforce simp: status_of_def split: option.split prod.split)

lemma db_status_ofD: "status_of E name s = (st, s1) \<Longrightarrow> iw_db s1 = iw_db s"
  using db_status_of [of E name s] by simp

lemma db_live_image [same_rows]: "iw_db (snd (live_image E inst r s)) = iw_db s"
  using db_call_outD by (fastforce simp: live_image_def split: option.split prod.split)

lemma db_simple [same_rows]:
  "iw_db (setStatusMessage i msg s) = iw_db s"
  "iw_db (clearStatusMessage i s) = iw_db s"
  "iw_db (upd_out g s) = iw_db s"
  "iw_db (upd_db f s) = f (iw_db s)"
  "iw_db (start_task type inst user title message c w s) = iw_db s"
  by (simp_all add: setStatusMessage_def clearStatusMessage_def upd_out_def upd_db_def start_task_def)

lemma db_messages [same_rows]: "iw_db (fold (setStatusMessage i) msgs s) = iw_db s"
  by (induction msgs arbitrary: s) (simp_all add: same_rows)

lemma db_push [same_rows]:
  "iw_db (push_resources E inst st changed s) = iw_db s"
  "iw_db (push_config E inst st s) = iw_db s"
  by (simp_all add: push_resources_def push_config_def same_rows split: option.split)

section \<open>Predicates on rows that requests keep\<close>

definition rows_ok :: "(Instance \<Rightarrow> bool) \<Rightarrow> nat set \<Rightarrow> db \<Rightarrow> bool" where
  \<comment> \<open>every row satisfies \<open>P\<close>, and the rows with the ids \<open>kept\<close> are still there\<close>
  "rows_ok P kept d \<longleftrightarrow> (\<forall>x \<in> set (instances d). P x) \<and> kept \<subseteq> inst_ID ` set (instances d)"

definition step_keeps :: "(Instance \<Rightarrow> bool) \<Rightarrow> (nat \<Rightarrow> bool) \<Rightarrow> nat set \<Rightarrow> (Instance \<times> db \<Rightarrow> 'e \<times> Instance \<times> db) \<Rightarrow> bool" where
  "step_keeps P A kept f \<longleftrightarrow>
     (\<forall>x. rows_ok P kept (snd x) \<and> A (inst_ID (fst x)) \<longrightarrow>
        rows_ok P kept (snd (snd (f x))) \<and> inst_ID (fst (snd (f x))) = inst_ID (fst x))"

lemma clone_row_status [simp]: "inst_Status (clone_row src name disp token k) = ''creating''"
  by (simp add: clone_row_def)

lemma rows_ok_same: "instances d' = instances d \<Longrightarrow> rows_ok P kept d' \<longleftrightarrow> rows_ok P kept d"
  by (simp add: rows_ok_def)

lemma rows_ok_update:
  assumes "rows_ok P kept d"
    and "\<And>x. inst_ID x = i \<Longrightarrow> P x \<Longrightarrow> P ((f x)\<lparr>inst_UpdatedAt := Some now\<rparr>)"
    and "\<And>x. inst_ID (f x) = inst_ID x"
  shows "rows_ok P kept (update_instance now i f d)"
proof -
  let ?g = "\<lambda>x. if inst_ID x = i then (f x)\<lparr>inst_UpdatedAt := Some now\<rparr> else x"
  have "inst_ID (?g x) = inst_ID x" for x using assms(3) by simp
  then have "inst_ID ` set (map ?g (instances d)) = inst_ID ` set (instances d)"
    by (simp only: list.set_map image_image)
  moreover have "P (?g x)" if "x \<in> set (instances d)" for x
    using assms(1,2) that by (auto simp: rows_ok_def)
  then have "\<forall>y \<in> set (map ?g (instances d)). P y" by (simp only: list.set_map ball_simps) blast
  moreover have "instances (update_instance now i f d) = map ?g (instances d)" by (simp add: update_instance_def)
  ultimately show ?thesis using assms(1) by (simp only: rows_ok_def)
qed

lemma resolveStatus_id: "resolveStatus now inst st d = (r, inst', d') \<Longrightarrow> inst_ID inst' = inst_ID inst"
  by (auto simp: resolveStatus_def Let_def split: if_splits)

lemma create_instance_rows:
  assumes "create_instance now x d = Some (inst, d')"
  shows "instances d' = instances d @ [inst] \<and> inst_ID inst = next_row d ''instances''
    \<and> inst_Status inst = (if inst_Status x = [] then ''creating'' else inst_Status x)"
proof -
  let ?new = "(column_defaults x)\<lparr>inst_ID := next_row d ''instances'', inst_UpdatedAt := Some now\<rparr>"
  have "inst_Name x \<notin> inst_Name ` set (instances d)"
    using assms by (simp add: create_instance_def split: if_split_asm)
  then have "?new = inst" and "instances d' = instances d @ [?new]"
    using assms by (auto simp: create_instance_def create_row_def Let_def)
  moreover have "inst_Status ?new = (if inst_Status x = [] then ''creating'' else inst_Status x)"
    by (simp add: column_defaults_def Let_def)
  ultimately show ?thesis by auto
qed

locale row_rules =
  fixes P :: "Instance \<Rightarrow> bool" and A :: "nat \<Rightarrow> bool" and adm :: bool and ord :: bool
    and kept :: "nat set" and fresh :: nat
  assumes user_rule: "P x \<Longrightarrow> A (inst_ID x) \<Longrightarrow> user_change x y \<Longrightarrow> P y"
    and order_rule: "ord \<Longrightarrow> P x \<Longrightarrow> order_change x y \<Longrightarrow> P y"
    and admin_rule: "adm \<Longrightarrow> P x \<Longrightarrow> any_change x y \<Longrightarrow> P y"
    and new_rule: "inst_ID y = fresh \<Longrightarrow> inst_Status y \<in> row_statuses \<Longrightarrow> P y"
    and fresh_allowed: "A fresh"
    and delete_rule: "adm \<Longrightarrow> kept = {}"
begin

lemma set_status_ok: "rows_ok P kept d \<Longrightarrow> A i \<Longrightarrow> st \<in> row_statuses \<Longrightarrow> rows_ok P kept (set_status now i st d)"
  unfolding set_status_def
proof (rule rows_ok_update)
  fix x assume "A i" "st \<in> row_statuses" "inst_ID x = i" "P x"
  then show "P (x\<lparr>inst_Status := st, inst_UpdatedAt := Some now\<rparr>)"
    by (elim user_rule [of x]) (simp_all add: user_change_def any_change_def owner_columns_def)
qed simp_all

lemma resolve_ok:
  assumes "rows_ok P kept d" "A (inst_ID inst)" "resolveStatus now inst st d = (r, inst', d')"
  shows "rows_ok P kept d'"
proof -
  have "d' = d \<or> (\<exists>v \<in> row_statuses. d' = set_status now (inst_ID inst) v d)"
    using assms(3) by (auto simp: resolveStatus_def Let_def split: if_splits)
  with assms set_status_ok show ?thesis by blast
qed

lemma create_ok:
  assumes "rows_ok P kept d" "create_instance now x d = Some (inst, d')" "next_row d ''instances'' = fresh"
    "inst_Status x \<in> row_statuses"
  shows "rows_ok P kept d' \<and> inst_ID inst = fresh"
proof -
  have "inst_Status x \<noteq> []" using assms(4) by (auto simp: row_statuses_def)
  then have "P inst" using create_instance_rows [OF assms(2)] assms(3,4) by (intro new_rule) simp_all
  with assms(1,3) create_instance_rows [OF assms(2)] show ?thesis by (auto simp: rows_ok_def)
qed

subsection \<open>The parts of an update\<close>

lemma keeps_columns:
  assumes "\<And>x t. user_change x ((f x)\<lparr>inst_UpdatedAt := t\<rparr>)"
  shows "step_keeps P A kept (set_columns now f)"
proof -
  have id: "inst_ID (f x) = inst_ID x" for x using assms [of x None] by (simp add: user_change_def any_change_def)
  show ?thesis
    unfolding step_keeps_def set_columns_def
    using assms id by (auto intro!: rows_ok_update intro: user_rule split: prod.split)
qed

lemma keeps_admin_columns:
  assumes "adm" "\<And>x t. any_change x ((f x)\<lparr>inst_UpdatedAt := t\<rparr>)"
  shows "step_keeps P A kept (set_columns now f)"
proof -
  have id: "inst_ID (f x) = inst_ID x" for x using assms(2) [of x None] by (simp add: any_change_def)
  show ?thesis
    unfolding step_keeps_def set_columns_def
    using assms id by (auto intro!: rows_ok_update intro: admin_rule split: prod.split)
qed

lemma keeps_given: "(\<And>v. a = Some v \<Longrightarrow> step_keeps P A kept (f v)) \<Longrightarrow> step_keeps P A kept (if_given a f)"
  by (cases a) (simp_all add: step_keeps_def if_given_def)

lemma keeps_stop: "step_keeps P A kept (stop_with st msg)"
  by (simp add: step_keeps_def stop_with_def)

lemma keeps_admin_only:
  "(is_admin cu \<Longrightarrow> adm) \<Longrightarrow> (adm \<Longrightarrow> step_keeps P A kept f) \<Longrightarrow> step_keeps P A kept (admin_only cu msg f)"
  by (simp add: step_keeps_def admin_only_def stop_with_def)

lemma keeps_run: "list_all (step_keeps P A kept) fs \<Longrightarrow> step_keeps P A kept (run_steps fs)"
proof (induction fs)
  case Nil
  then show ?case by (simp add: step_keeps_def)
next
  case (Cons f fs)
  then have f: "step_keeps P A kept f" and fs: "step_keeps P A kept (run_steps fs)" by simp_all
  show ?case
    unfolding step_keeps_def
  proof (intro allI impI)
    fix x :: "Instance \<times> db" assume x: "rows_ok P kept (snd x) \<and> A (inst_ID (fst x))"
    obtain r y where y: "f x = (r, y)" by (rule prod.exhaust)
    then have "rows_ok P kept (snd y) \<and> inst_ID (fst y) = inst_ID (fst x)"
      using f [unfolded step_keeps_def, rule_format, OF x] by simp
    with x fs [unfolded step_keeps_def, rule_format, of y] y
    show "rows_ok P kept (snd (snd (run_steps (f # fs) x))) \<and> inst_ID (fst (snd (run_steps (f # fs) x))) = inst_ID (fst x)"
      by (cases r) (simp_all add: andThen_def)
  qed
qed

end

context row_rules
begin

lemma keeps_pointwise:
  assumes "\<And>g. g \<in> G \<Longrightarrow> step_keeps P A kept g" and "\<And>x. snd (f x) = x \<or> (\<exists>g \<in> G. snd (f x) = snd (g x))"
  shows "step_keeps P A kept f"
  unfolding step_keeps_def
proof (intro allI impI)
  fix x :: "Instance \<times> db" assume x: "rows_ok P kept (snd x) \<and> A (inst_ID (fst x))"
  from assms(2) [of x] show "rows_ok P kept (snd (snd (f x))) \<and> inst_ID (fst (snd (f x))) = inst_ID (fst x)"
  proof
    assume "snd (f x) = x"
    with x show ?thesis by simp
  next
    assume "\<exists>g \<in> G. snd (f x) = snd (g x)"
    then obtain g where "g \<in> G" "snd (f x) = snd (g x)" ..
    with assms(1) [of g, unfolded step_keeps_def, rule_format, OF _ x] show ?thesis by simp
  qed
qed

lemmas keeps_single = keeps_pointwise [of "{g}" for g, simplified]

lemmas user_columns = user_change_def any_change_def owner_columns_def

lemma keeps_reassign: "step_keeps P A kept (reassign_team now cu team)"
proof (rule keeps_pointwise)
  fix g assume "g \<in> range (\<lambda>t. set_columns now (\<lambda>r. r\<lparr>inst_TeamID := t\<rparr>))"
  then show "step_keeps P A kept g" by (elim rangeE) (simp, rule keeps_columns, simp add: user_columns)
next
  fix x
  have "snd (reassign_team now cu team x) = x \<or>
      snd (reassign_team now cu team x) = snd (set_columns now (\<lambda>r. r\<lparr>inst_TeamID := the team\<rparr>) x)"
    by (cases team; cases cu; simp add: reassign_team_def stop_with_def)
  then show "snd (reassign_team now cu team x) = x \<or>
      (\<exists>g \<in> range (\<lambda>t. set_columns now (\<lambda>r. r\<lparr>inst_TeamID := t\<rparr>)). snd (reassign_team now cu team x) = snd (g x))"
    by blast
qed

lemma keeps_brave: "step_keeps P A kept (update_brave_key now seal key)"
proof -
  have set: "step_keeps P A kept (set_columns now (\<lambda>r. r\<lparr>inst_BraveAPIKey := c\<rparr>))" for c
    by (rule keeps_columns) (simp add: user_columns)
  show ?thesis
  proof (rule keeps_single)
    show "step_keeps P A kept (set_columns now (\<lambda>r. r\<lparr>inst_BraveAPIKey := (if key = [] then [] else the (seal key))\<rparr>))"
      by (rule set)
  qed (simp add: update_brave_key_def stop_with_def split: option.split)
qed

lemma keeps_admin_parts:
  assumes "adm"
  shows "step_keeps P A kept (update_source_ips E ips)"
    and "step_keeps P A kept (update_enabled_providers now rnd ids)"
    and "step_keeps P A kept (update_display_name now v)"
    and "step_keeps P A kept (update_resources now b)"
    and "step_keeps P A kept (update_resolution now v)"
proof -
  have set: "step_keeps P A kept (set_columns t f)" if "\<And>x u. any_change x ((f x)\<lparr>inst_UpdatedAt := u\<rparr>)"
    for t and f :: "Instance \<Rightarrow> Instance"
    using that by (rule keeps_admin_columns [OF assms])
  show "step_keeps P A kept (update_source_ips E ips)"
    by (rule keeps_single [OF set [of "\<lambda>r. r\<lparr>inst_AllowedSourceIPs := ips\<rparr>" "e_now E"]])
      (simp_all add: update_source_ips_def stop_with_def any_change_def split: sum.split)
  show "step_keeps P A kept (update_display_name now v)"
    by (rule keeps_single [OF set [of "\<lambda>r. r\<lparr>inst_DisplayName := trim_space v\<rparr>" now]])
      (simp_all add: update_display_name_def stop_with_def any_change_def)
  show "step_keeps P A kept (update_resolution now v)"
    by (rule keeps_single [OF set [of "\<lambda>r. r\<lparr>inst_VNCResolution := v\<rparr>" now]])
      (simp_all add: update_resolution_def stop_with_def any_change_def)
  let ?four = "\<lambda>(c1, c2, m1, m2). set_columns now
    (\<lambda>r. r\<lparr>inst_CPURequest := c1, inst_CPULimit := c2, inst_MemoryRequest := m1, inst_MemoryLimit := m2\<rparr>)"
  show "step_keeps P A kept (update_resources now b)"
  proof (rule keeps_pointwise)
    fix g assume "g \<in> range ?four"
    then obtain q where g: "g = ?four q" by (rule rangeE)
    show "step_keeps P A kept g" unfolding g prod.case_eq_if by (rule set) (simp add: any_change_def)
  next
    fix x :: "Instance \<times> db"
    let ?q = "(given (iu_CPURequest b) (inst_CPURequest (fst x)), given (iu_CPULimit b) (inst_CPULimit (fst x)),
      given (iu_MemoryRequest b) (inst_MemoryRequest (fst x)), given (iu_MemoryLimit b) (inst_MemoryLimit (fst x)))"
    have "snd (update_resources now b x) = x \<or> snd (update_resources now b x) = snd (?four ?q x)"
      by (simp add: update_resources_def Let_def stop_with_def split: option.split)
    then show "snd (update_resources now b x) = x \<or> (\<exists>g \<in> range ?four. snd (update_resources now b x) = snd (g x))"
      by blast
  qed
  let ?f = "\<lambda>r :: Instance. r\<lparr>inst_EnabledProviders := EncodeTeamIDs ids\<rparr>"
  have f: "step_keeps P A kept (set_columns now ?f)" by (rule set) (simp add: any_change_def)
  show "step_keeps P A kept (update_enabled_providers now rnd ids)"
    unfolding step_keeps_def
  proof (intro allI impI)
    fix x :: "Instance \<times> db" assume x: "rows_ok P kept (snd x) \<and> A (inst_ID (fst x))"
    obtain r inst d where s: "set_columns now ?f x = (r, inst, d)" by (metis surj_pair)
    then have "rows_ok P kept d \<and> inst_ID inst = inst_ID (fst x)"
      using f [unfolded step_keeps_def, rule_format, OF x] by simp
    then show "rows_ok P kept (snd (snd (update_enabled_providers now rnd ids x)))
        \<and> inst_ID (fst (snd (update_enabled_providers now rnd ids x))) = inst_ID (fst x)"
      by (simp add: update_enabled_providers_def s rows_ok_same [OF instances_EnsureKeys])
  qed
qed

lemma keeps_update_steps:
  assumes "is_admin cu \<Longrightarrow> adm"
  shows "step_keeps P A kept (run_steps (update_steps E cu rnd b))"
proof (rule keeps_run)
  have set: "step_keeps P A kept (set_columns t f)" if "\<And>x u. user_change x ((f x)\<lparr>inst_UpdatedAt := u\<rparr>)"
    for t and f :: "Instance \<Rightarrow> Instance"
    using that by (rule keeps_columns)
  have admin: "step_keeps P A kept (admin_only cu msg f)" if "adm \<Longrightarrow> step_keeps P A kept f" for msg f
    using assms that by (rule keeps_admin_only)
  show "list_all (step_keeps P A kept) (update_steps E cu rnd b)"
    unfolding update_steps_def Let_def list.pred_inject
    by (intro conjI TrueI keeps_reassign keeps_given keeps_brave set admin keeps_admin_parts; (assumption | simp add: user_columns))
qed

lemma keeps_env_vars: "step_keeps P A kept (update_env_vars E b)"
proof (rule keeps_pointwise)
  let ?set = "\<lambda>c. set_columns (e_now E) (\<lambda>r. r\<lparr>inst_EnvVars := c\<rparr>)"
  show "step_keeps P A kept g" if "g \<in> range ?set" for g
    using that by (elim rangeE) (simp, rule keeps_columns, simp add: user_columns)
  fix x :: "Instance \<times> db"
  let ?r = "ApplyEnvVarsDelta (e_seal_var E) (e_unseal E) (inst_EnvVars (fst x)) (iu_EnvVarsSet b) (iu_EnvVarsUnset b)"
  have "snd (update_env_vars E b x) = x \<or> snd (update_env_vars E b x) = snd (?set (fst (projr ?r)) x)"
    by (simp add: update_env_vars_def split: sum.split prod.split)
  then show "snd (update_env_vars E b x) = x \<or> (\<exists>g \<in> range ?set. snd (update_env_vars E b x) = snd (g x))"
    by blast
qed

subsection \<open>The handlers\<close>

lemma list_ok:
  "(\<And>x. x \<in> set xs \<Longrightarrow> A (inst_ID x)) \<Longrightarrow> rows_ok P kept (iw_db s) \<Longrightarrow>
   rows_ok P kept (iw_db (snd (list_responses E xs s)))"
proof (induction xs arbitrary: s)
  case (Cons inst xs)
  obtain st s1 where st: "status_of E (inst_Name inst) s = (st, s1)" by (rule prod.exhaust)
  obtain r inst1 d where r: "resolveStatus (e_now E) inst st (iw_db s1) = (r, inst1, d)" by (metis surj_pair)
  have "rows_ok P kept d"
    using Cons.prems db_status_ofD [OF st] by (intro resolve_ok [OF _ _ r]) simp_all
  then have "rows_ok P kept (iw_db (snd (list_responses E xs (s1\<lparr>iw_db := d\<rparr>))))"
    using Cons.prems by (intro Cons.IH) simp_all
  then show ?case by (simp add: st r Let_def case_prod_beta)
qed simp

lemma with_ok:
  "rows_ok P kept (iw_db s) \<Longrightarrow> (\<And>inst. ok inst \<Longrightarrow> rows_ok P kept (iw_db (snd (k inst s)))) \<Longrightarrow>
   rows_ok P kept (iw_db (snd (with_instance idp ok denied k s)))"
  by (simp add: with_instance_def split: sum.split)

lemma finish_ok:
  assumes "rows_ok P kept (iw_db (snd r))" "A (inst_ID inst)" "st \<in> row_statuses"
  shows "rows_ok P kept (iw_db (snd (finish_call E inst verb st r)))"
  using assms by (cases r) (simp add: finish_call_def same_rows set_status_ok split: option.split)

lemma backend_call_db: "iw_db (snd (backend_call E f s)) = iw_db s"
  by (simp add: backend_call_def same_rows split: option.split)

lemma restart_async_ok:
  assumes "rows_ok P kept (iw_db s)" "A (inst_ID inst)"
  shows "rows_ok P kept (iw_db (restartInstanceAsync E inst user title msg s))"
  using assms by (simp add: restartInstanceAsync_def Let_def same_rows set_status_ok)

lemma get_ok:
  assumes "rows_ok P kept (iw_db s)" "\<And>i. CanAccessInstance cu i (iw_db s) \<Longrightarrow> A i"
  shows "rows_ok P kept (iw_db (snd (GetInstanceHandler E cu i s)))"
  unfolding GetInstanceHandler_def
proof (rule with_ok [OF assms(1)])
  fix inst assume "may_access cu s inst"
  then have a: "A (inst_ID inst)" by (rule assms(2))
  obtain st s1 where st: "status_of E (inst_Name inst) s = (st, s1)" by (rule prod.exhaust)
  obtain r inst1 d where r: "resolveStatus (e_now E) inst st (iw_db s1) = (r, inst1, d)" by (metis surj_pair)
  let ?s2 = "s1\<lparr>iw_db := d\<rparr>"
  have "rows_ok P kept d" using assms(1) a db_status_ofD [OF st] by (intro resolve_ok [OF _ _ r]) simp_all
  then have "rows_ok P kept (iw_db (snd (live_image E inst1 (instanceToResponse E inst1 r ?s2) ?s2)))"
    by (simp add: same_rows)
  then show "rows_ok P kept (iw_db (snd (case status_of E (inst_Name inst) s of (orchStatus, s1) \<Rightarrow>
      (case resolveStatus (e_now E) inst orchStatus (iw_db s1) of (st, inst1, d) \<Rightarrow>
         let s2 = s1\<lparr>iw_db := d\<rparr>
         in case live_image E inst1 (instanceToResponse E inst1 st s2) s2 of (r, s3) \<Rightarrow> (Reply 200 r, s3)))))"
    by (simp add: st r Let_def case_prod_beta)
qed

lemma stats_ok: "rows_ok P kept (iw_db s) \<Longrightarrow> rows_ok P kept (iw_db (snd (GetInstanceStats E cu i s)))"
  unfolding GetInstanceStats_def
  by (rule with_ok) (auto dest: db_call_outD split: option.split prod.split)

lemma list_handler_ok:
  assumes "rows_ok P kept (iw_db s)" "\<And>i. CanAccessInstance (Some u) i (iw_db s) \<Longrightarrow> A i"
    "\<And>i. i \<in> set (AccessibleInstanceIDs (user_ID u) (iw_db s)) \<Longrightarrow> A i"
  shows "rows_ok P kept (iw_db (snd (ListInstances E (Some u) team s)))"
proof -
  have reply: "snd (case list_responses E xs s of (rs, s1) \<Rightarrow> (Reply 200 rs, s1)) = snd (list_responses E xs s)" for xs
    by (simp split: prod.split)
  have admin: "A i" if "user_Role u = ''admin''" for i using assms(2) [of i] that by (simp add: CanAccessInstance_def)
  show ?thesis
    unfolding ListInstances_def Let_def option.case if_distrib [of snd] reply snd_conv
    using assms(1,3) admin by (auto intro!: list_ok)
qed

lemma finish_update_ok:
  assumes "rows_ok P kept (iw_db s)" "A (inst_ID inst1)"
  shows "rows_ok P kept (iw_db (snd (finish_update E cu b ch inst1 s)))"
proof -
  define inst2 where "inst2 = (case GetInstance (inst_ID inst1) (iw_db s) of None \<Rightarrow> inst1 | Some x \<Rightarrow> x)"
  have id2: "inst_ID inst2 = inst_ID inst1"
    by (auto simp: inst2_def GetInstance_def dest: find_Some_in split: option.split)
  obtain st s2 where st: "status_of E (inst_Name inst2) s = (st, s2)" by (rule prod.exhaust)
  define s3 where "s3 = push_config E inst2 st (push_resources E inst2 st (resources_given b) s2)"
  have s3: "iw_db s3 = iw_db s" using db_status_ofD [OF st] by (simp add: s3_def same_rows)
  obtain r inst3 d where r: "resolveStatus (e_now E) inst2 st (iw_db s3) = (r, inst3, d)" by (metis surj_pair)
  have d: "rows_ok P kept d" using assms s3 id2 by (intro resolve_ok [OF _ _ r]) simp_all
  have id3: "A (inst_ID inst3)" using resolveStatus_id [OF r] id2 assms(2) by simp
  show ?thesis
    using d id3 unfolding finish_update_def Let_def inst2_def [symmetric] st prod.case s3_def [symmetric] r
    by (simp add: case_prod_beta same_rows restart_async_ok)
qed

lemma update_ok:
  assumes "rows_ok P kept (iw_db s)" "\<And>i. CanAccessInstance cu i (iw_db s) \<Longrightarrow> A i" "is_admin cu \<Longrightarrow> adm"
  shows "rows_ok P kept (iw_db (snd (UpdateInstance E cu keys i body s)))"
  unfolding UpdateInstance_def
proof (rule with_ok [OF assms(1)], goal_cases)
  case (1 inst0)
  then have a: "A (inst_ID inst0)" by (rule assms(2))
  show ?case
  proof (cases body)
    case None
    with assms(1) show ?thesis by simp
  next
    case (Some b)
    obtain r0 x0 where r0: "run_steps (update_steps E cu keys b) (inst0, iw_db s) = (r0, x0)" by (rule prod.exhaust)
    have "step_keeps P A kept (run_steps (update_steps E cu keys b))" by (rule keeps_update_steps) (rule assms(3))
    from this [unfolded step_keeps_def, rule_format, of "(inst0, iw_db s)"] assms(1) a r0
    have x0: "rows_ok P kept (snd x0) \<and> inst_ID (fst x0) = inst_ID inst0" by simp
    obtain r1 inst1 d where r1: "andThen (r0, x0) (\<lambda>_. update_env_vars E b) = (r1, inst1, d)" by (metis surj_pair)
    have "step_keeps P A kept (update_env_vars E b)" by (rule keeps_env_vars)
    from this [unfolded step_keeps_def, rule_format, of x0] x0 a r1
    have "rows_ok P kept d \<and> inst_ID inst1 = inst_ID inst0" by (cases r0) (auto simp: andThen_def)
    then show ?thesis
      using a by (cases r1) (simp_all add: Some r0 r1 finish_update_ok case_prod_beta)
  qed
qed

lemma image_ok:
  assumes "rows_ok P kept (iw_db s)" "\<And>i. CanAccessInstance cu i (iw_db s) \<Longrightarrow> A i"
  shows "rows_ok P kept (iw_db (snd (UpdateInstanceImage E cu i s)))"
proof (cases "is_admin cu")
  case True
  then show ?thesis
    unfolding UpdateInstanceImage_def
  proof (simp only: not_True_eq_False if_False, intro with_ok [OF assms(1)], goal_cases)
    case (1 inst)
    then have a: "A (inst_ID inst)" by (intro assms(2))
    obtain st s1 where st: "status_of E (inst_Name inst) s = (st, s1)" by (rule prod.exhaust)
    with assms(1) have "rows_ok P kept (iw_db s1)" by (simp add: db_status_ofD)
    with assms(1) a show ?case by (simp add: st same_rows set_status_ok Let_def split: option.split)
  qed
qed (simp add: UpdateInstanceImage_def assms(1))

lemma lifecycle_ok:
  assumes "rows_ok P kept (iw_db s)" "\<And>i. CanMutateInstance cu i (iw_db s) \<Longrightarrow> A i"
  shows "rows_ok P kept (iw_db (snd (StartInstance E cu i s)))"
    and "rows_ok P kept (iw_db (snd (StopInstance E cu i s)))"
    and "rows_ok P kept (iw_db (snd (RestartInstance E cu i s)))"
  unfolding StartInstance_def StopInstance_def RestartInstance_def
  by (rule with_ok [OF assms(1)], rule finish_ok; simp add: backend_call_db same_rows assms)+

lemma get_config_ok: "rows_ok P kept (iw_db s) \<Longrightarrow> rows_ok P kept (iw_db (snd (GetInstanceConfig E cu i s)))"
  unfolding GetInstanceConfig_def
  by (rule with_ok) (auto simp: connect_to_def dest!: db_call_outD split: option.split prod.split sum.split)

lemma set_config_ok: "rows_ok P kept (iw_db s) \<Longrightarrow> rows_ok P kept (iw_db (snd (UpdateInstanceConfig E cu i b s)))"
  unfolding UpdateInstanceConfig_def
  by (auto simp: connect_to_def same_rows dest!: db_call_outD split: option.split prod.split intro!: with_ok)

lemma browser_ok:
  assumes "rows_ok P kept (iw_db s)" "\<And>i. CanAccessInstance cu i (iw_db s) \<Longrightarrow> A i"
  shows "rows_ok P kept (iw_db (snd (SetBrowserActive E cu idp b s)))"
proof -
  have "rows_ok P kept (update_instance (e_now E) (nat i) (\<lambda>x. x\<lparr>inst_BrowserActive := v\<rparr>) (iw_db s))"
    if "atoi idp = Some i" "0 \<le> i" "CanAccessInstance cu (uint_of i) (iw_db s)" for i v
  proof (rule rows_ok_update [OF assms(1)])
    have "uint_of i = nat i" using uint_of_nat [OF that(1), of "nat i"] that(2) by simp
    with that(3) assms(2) have "A (nat i)" by metis
    then show "P (x\<lparr>inst_BrowserActive := v, inst_UpdatedAt := Some (e_now E)\<rparr>)" if "inst_ID x = nat i" "P x" for x
      using that by (elim user_rule [of x]) (simp_all add: user_columns)
  qed simp
  with assms(1) show ?thesis by (simp add: SetBrowserActive_def same_rows split: option.split)
qed

lemma number_ok: "ord \<Longrightarrow> rows_ok P kept d \<Longrightarrow> rows_ok P kept (number_instances now k ids d)"
proof (induction now k ids d rule: number_instances.induct)
  case (2 now k i ids d)
  have "rows_ok P kept (update_instance now i (\<lambda>x. x\<lparr>inst_SortOrder := int k\<rparr>) d)"
  proof (rule rows_ok_update [OF 2(3)])
    show "P (x\<lparr>inst_SortOrder := int k, inst_UpdatedAt := Some now\<rparr>)" if "P x" for x
      by (rule order_rule [OF 2(2) that]) (rule order_change_step [OF order_change_refl])
  qed simp
  with 2 show ?case by simp
qed simp

lemma reorder_ok:
  "ord \<Longrightarrow> rows_ok P kept (iw_db s) \<Longrightarrow> rows_ok P kept (iw_db (snd (ReorderInstances E b s)))"
  by (simp add: ReorderInstances_def same_rows number_ok split: option.split)

lemma create_handler_ok:
  assumes "rows_ok P kept (iw_db s)" "next_row (iw_db s) ''instances'' = fresh"
  shows "rows_ok P kept (iw_db (snd (CreateInstance E cu tok keys b s)))"
proof -
  have new: "rows_ok P kept d'" if "create_instance now (new_instance r k t v (iw_db s)) (iw_db s) = Some (inst, d')" for now r k t v inst d'
    using create_ok [OF assms(1) that assms(2)] by (simp add: new_instance_def Let_def)
  show ?thesis
    using assms(1)
    by (auto simp: CreateInstance_def Let_def same_rows dest!: new
        intro: rows_ok_same [THEN iffD2, rotated] split: option.split sum.split)
qed

lemma hide_ok:
  assumes "rows_ok P kept d" "A (inst_ID inst)" "hide_browser now src (inst, d) = (inst', d')"
  shows "rows_ok P kept d'"
proof -
  have "step_keeps P A kept (set_columns now (\<lambda>r. r\<lparr>inst_BrowserActive := False\<rparr>))"
    by (rule keeps_columns) (simp add: user_columns)
  from this [unfolded step_keeps_def, rule_format, of "(inst, d)"] assms show ?thesis
    by (auto simp: hide_browser_def split: if_splits)
qed

lemma clone_ok:
  assumes "rows_ok P kept (iw_db s)" "next_row (iw_db s) ''instances'' = fresh"
  shows "rows_ok P kept (iw_db (snd (CloneInstance E cu tok rnd idp s)))"
proof (cases "load_instance idp (iw_db s)")
  case (Inl e)
  with assms(1) show ?thesis by (cases e) (simp add: CloneInstance_def)
next
  case (Inr src)
  let ?name = "clone_name (inst_DisplayName src @ '' (Copy)'') rnd (iw_db s)"
  let ?row = "\<lambda>token. clone_row src ?name (inst_DisplayName src @ '' (Copy)'') token (max_sort_order (iw_db s) + 1)"
  show ?thesis
  proof (cases "e_seal E (generateToken tok)")
    case None
    with Inr assms(1) show ?thesis by (simp add: CloneInstance_def Let_def)
  next
    case (Some token)
    show ?thesis
    proof (cases "create_instance (e_now E) (?row token) (iw_db s)")
      case None
      with Inr Some assms(1) show ?thesis by (simp add: CloneInstance_def Let_def)
    next
      fix x assume c: "create_instance (e_now E) (?row token) (iw_db s) = Some x"
      obtain inst0 d0 where x: "x = (inst0, d0)" by (rule prod.exhaust)
      obtain inst1 d1 where h: "hide_browser (e_now E) src x = (inst1, d1)" by (rule prod.exhaust)
      have "rows_ok P kept d0 \<and> inst_ID inst0 = fresh"
        by (rule create_ok [OF assms(1) c [unfolded x] assms(2)]) (simp only: clone_row_status row_statuses_mem)
      then have "rows_ok P kept d0" "A (inst_ID inst0)" using fresh_allowed by simp_all
      then have "rows_ok P kept d1" by (rule hide_ok [OF _ _ h [unfolded x]])
      with Inr Some c h show ?thesis
        by (simp add: CloneInstance_def Let_def same_rows rows_ok_same [OF instances_set_folders])
    qed
  qed
qed

lemma delete_ok:
  assumes "rows_ok P kept (iw_db s)" adm
  shows "rows_ok P kept (iw_db (snd (DeleteInstance E idp s)))"
proof -
  have "rows_ok P kept (delete_instance_row i (drop_instance_rows i (iw_db s)))" for i
    using assms delete_rule by (auto simp: rows_ok_def delete_instance_row_def delete_row_def drop_instance_rows_def)
  moreover have "iw_db (backend_delete E name t) = iw_db t" for name and t :: "'a iworld"
    by (simp add: backend_delete_def same_rows split: option.split)
  ultimately show ?thesis
    using assms(1) by (auto simp: DeleteInstance_def Let_def same_rows split: sum.split option.split)
qed

lemma mutate_access: "CanMutateInstance (Some u) i d \<Longrightarrow> CanAccessInstance (Some u) i d"
  by (auto simp: CanMutateInstance_def CanAccessInstance_def IsTeamManager_def split: option.splits if_splits)

lemma serve_ok:
  assumes "rows_ok P kept (iw_db s)" "next_row (iw_db s) ''instances'' = fresh"
    and access: "\<And>i. CanAccessInstance (Some u) i (iw_db s) \<Longrightarrow> A i"
    and listed: "\<And>i. i \<in> set (AccessibleInstanceIDs (user_ID u) (iw_db s)) \<Longrightarrow> A i"
    and admin: "user_Role u = ''admin'' \<Longrightarrow> adm"
    and order: "\<And>b. q = Reorder_req b \<Longrightarrow> ord"
  shows "rows_ok P kept (iw_db (snd (serve_instances E u tok rnd keys q s)))"
proof -
  have mutate: "A i" if "CanMutateInstance (Some u) i (iw_db s)" for i
    using mutate_access [OF that] by (rule access)
  have answer: "snd (answer r) = snd r" for r :: "'b reply \<times> 'a iworld" by (simp add: answer_def)
  show ?thesis
  proof (cases q)
    case (List_req t)
    show ?thesis using list_handler_ok [OF assms(1) access listed] by (simp add: List_req answer_def)
  next
    case (Get_req i)
    show ?thesis using get_ok [OF assms(1) access] by (simp add: Get_req answer_def)
  next
    case (Stats_req i)
    show ?thesis using stats_ok [OF assms(1)] by (simp add: Stats_req answer_def)
  next
    case (Update_req i b)
    have "is_admin (Some u) \<Longrightarrow> adm" using admin by (simp add: is_admin_def)
    then show ?thesis using update_ok [OF assms(1) access] by (simp add: Update_req answer_def)
  next
    case (Image_req i)
    show ?thesis using image_ok [OF assms(1) access] by (simp add: Image_req answer_def)
  next
    case (Start_req i)
    show ?thesis using lifecycle_ok(1) [OF assms(1) mutate] by (simp add: Start_req answer_def)
  next
    case (Stop_req i)
    show ?thesis using lifecycle_ok(2) [OF assms(1) mutate] by (simp add: Stop_req answer_def)
  next
    case (Restart_req i)
    show ?thesis using lifecycle_ok(3) [OF assms(1) mutate] by (simp add: Restart_req answer_def)
  next
    case (Config_req i)
    show ?thesis using get_config_ok [OF assms(1)] by (simp add: Config_req answer_def)
  next
    case (Set_config_req i b)
    show ?thesis using set_config_ok [OF assms(1)] by (simp add: Set_config_req answer_def)
  next
    case (Browser_req i b)
    show ?thesis using browser_ok [OF assms(1) access] by (simp add: Browser_req answer_def)
  next
    case (Reorder_req b)
    show ?thesis using reorder_ok [OF order [OF Reorder_req] assms(1)] by (simp add: Reorder_req answer_def)
  next
    case (Create_req b)
    show ?thesis using create_handler_ok [OF assms(1,2)] assms(1) by (simp add: Create_req answer_def)
  next
    case (Clone_req i)
    show ?thesis using clone_ok [OF assms(1,2)] assms(1) by (simp add: Clone_req answer_def)
  next
    case (Delete_req i)
    show ?thesis using delete_ok [OF assms(1) admin] assms(1) by (simp add: Delete_req answer_def)
  qed
qed

subsection \<open>The work of the tasks\<close>

lemma fail_ok: "rows_ok P kept (iw_db s) \<Longrightarrow> A i \<Longrightarrow> rows_ok P kept (iw_db (fail_status i msg E s))"
  by (simp add: fail_status_def same_rows set_status_ok)

lemma work_ok:
  assumes every: "\<And>i. A i" and "rows_ok P kept (iw_db s)"
  shows "rows_ok P kept (iw_db (run_work E w s))"
proof (cases w)
  case (Create_work c)
  show ?thesis
    using assms
    by (auto simp: Create_work run_create_def Let_def fail_ok set_status_ok same_rows dest!: db_call_outD
        split: option.split prod.split)
next
  case (Restart_work inst)
  show ?thesis
    using assms
    by (auto simp: Restart_work run_restart_def fail_ok dest!: db_call_outD split: option.split prod.split)
next
  case (Image_work inst p)
  show ?thesis
    using assms
    by (auto simp: Image_work run_image_def set_status_ok same_rows dest!: db_call_outD split: option.split prod.split)
next
  case (Clone_work src inst token)
  show ?thesis
    using assms
    by (auto simp: Clone_work run_clone_def Let_def fail_ok set_status_ok same_rows dest!: db_call_outD
        split: option.split prod.split)
next
  case (Configure_work i name models gps)
  show ?thesis using assms by (simp add: Configure_work same_rows split: option.split)
qed

lemma cancel_ok:
  assumes "rows_ok P kept (iw_db s)" adm
  shows "rows_ok P kept (iw_db (cancel_work E w s))"
proof -
  have "rows_ok P kept (delete_instance_row i d)" if "rows_ok P kept d" for i d
    using that assms(2) delete_rule by (auto simp: rows_ok_def delete_instance_row_def delete_row_def)
  moreover have "iw_db (backend_delete E name t) = iw_db t" for name and t :: "'a iworld"
    by (simp add: backend_delete_def same_rows split: option.split)
  ultimately show ?thesis
    using assms(1)
    by (cases w) (simp_all add: cloneOnCancel_def Let_def same_rows rows_ok_same [OF instances_set_folders]
        rows_ok_same [OF instances_drop_rows])
qed

end

section \<open>The statuses of instances\<close>

text \<open>What happens to the instances: a user's request, the work of the k-th pending task, or its cancellation,
  before or after its work.  Each comes with its own surroundings (the clock and what the backend does).\<close>

datatype ievent =
    Requested User "nat list" "nat list" "nat \<Rightarrow> nat list" irequest
  | Ran nat
  | Cancelled nat bool

definition drop_job :: "nat \<Rightarrow> 'w iworld \<Rightarrow> 'w iworld" where
  "drop_job k s = s\<lparr>iw_jobs := take k (iw_jobs s) @ drop (Suc k) (iw_jobs s)\<rparr>"

fun ievent_step :: "'w iworld \<Rightarrow> 'w ienv \<times> ievent \<Rightarrow> 'w iworld" where
  "ievent_step s (E, Requested u tok rnd keys q) = snd (serve_instances E u tok rnd keys q s)"
| "ievent_step s (E, Ran k) =
     (if k < length (iw_jobs s) then snd (run_job E (iw_jobs s ! k) (drop_job k s)) else s)"
| "ievent_step s (E, Cancelled k late) =
     (if k < length (iw_jobs s) \<and> ij_cancellable (iw_jobs s ! k)
      then let w = ij_work (iw_jobs s ! k); s1 = drop_job k s
           in cancel_work E w (if late then run_work E w s1 else s1)
      else s)"

lemma drop_job_db [simp]: "iw_db (drop_job k s) = iw_db s"
  by (simp add: drop_job_def)

interpretation known: row_rules "\<lambda>x. inst_Status x \<in> row_statuses" "\<lambda>_. True" True True "{}" fresh for fresh
  by unfold_locales (auto simp: user_change_def any_change_def dest: order_change_columns)

lemma rows_status_iff:
  "rows_ok (\<lambda>x. inst_Status x \<in> row_statuses) {} d \<longleftrightarrow> inst_Status ` set (instances d) \<subseteq> row_statuses"
  by (auto simp: rows_ok_def)

lemma known_step:
  "rows_ok (\<lambda>x. inst_Status x \<in> row_statuses) {} (iw_db s) \<Longrightarrow>
   rows_ok (\<lambda>x. inst_Status x \<in> row_statuses) {} (iw_db (ievent_step s e))"
  by (induction s e rule: ievent_step.induct)
    (simp_all add: known.serve_ok [OF _ refl] known.work_ok known.cancel_ok run_job_def Let_def)

end
