(* ===== verification/InstanceOutcomes.thy ===== *)
theory InstanceOutcomes imports InstanceSafety begin

text \<open>
  The outcomes of single requests on instances: who can change whose rows, what a clone gives away, what a
  container is started with, and what is left when a request or a task fails.
\<close>

section \<open>Statuses\<close>

text \<open>C12: The status of an instance is always one of creating, running, restarting, stopping, stopped and error:
  whatever users request, whenever the tasks they start run or are cancelled, and whatever the container
  backend answers.  In particular a status the backend makes up is shown but never stored.\<close>

theorem instance_status_type:
  assumes "inst_Status ` set (instances (iw_db s)) \<subseteq> row_statuses"
  shows "inst_Status ` set (instances (iw_db (foldl ievent_step s es))) \<subseteq> row_statuses"
  using assms
proof (induction es arbitrary: s)
  case (Cons e es)
  have "inst_Status ` set (instances (iw_db (ievent_step s e))) \<subseteq> row_statuses"
    using known_step Cons.prems unfolding rows_status_iff .
  from Cons.IH [OF this] show ?case by simp
qed simp

section \<open>What a user without access cannot change\<close>

lemma order_change_trans: "order_change x y \<Longrightarrow> order_change y z \<Longrightarrow> order_change x z"
proof -
  assume "order_change x y" "order_change y z"
  then obtain k t where "z = y\<lparr>inst_SortOrder := k, inst_UpdatedAt := t\<rparr>" unfolding order_change_def by blast
  with \<open>order_change x y\<close> show ?thesis using order_change_step by simp
qed

definition protected_row :: "db \<Rightarrow> nat \<Rightarrow> (nat \<Rightarrow> bool) \<Rightarrow> bool \<Rightarrow> Instance \<Rightarrow> bool" where
  \<comment> \<open>\<open>y\<close> is new, or has the administrators' columns of its row in \<open>d\<close>, and all of them without access\<close>
  "protected_row d fresh ok ord y \<longleftrightarrow>
     (inst_ID y \<noteq> fresh \<longrightarrow>
       (\<forall>x \<in> set (instances d). inst_ID x = inst_ID y \<longrightarrow>
          owner_columns y = owner_columns x \<and>
          (\<not> ok (inst_ID x) \<longrightarrow> (if ord then order_change x y else y = x))))"

lemma protected_user:
  assumes "protected_row d fresh ok ord x" "ok (inst_ID x) \<or> inst_ID x = fresh" "user_change x y"
  shows "protected_row d fresh ok ord y"
  unfolding protected_row_def
proof (intro impI ballI)
  fix x0 assume "inst_ID y \<noteq> fresh" "x0 \<in> set (instances d)" and id: "inst_ID x0 = inst_ID y"
  moreover have y: "inst_ID y = inst_ID x" "owner_columns y = owner_columns x"
    using assms(3) by (simp_all add: user_change_def any_change_def)
  ultimately have "owner_columns y = owner_columns x0"
    using assms(1) unfolding protected_row_def by metis
  moreover have "ok (inst_ID x0)" using assms(2) \<open>inst_ID y \<noteq> fresh\<close> y(1) id by simp
  ultimately show "owner_columns y = owner_columns x0 \<and>
      (\<not> ok (inst_ID x0) \<longrightarrow> (if ord then order_change x0 y else y = x0))" by simp
qed

lemma protected_order:
  assumes "protected_row d fresh ok True x" "order_change x y"
  shows "protected_row d fresh ok True y"
  unfolding protected_row_def
proof (intro impI ballI)
  fix x0 assume "inst_ID y \<noteq> fresh" "x0 \<in> set (instances d)" "inst_ID x0 = inst_ID y"
  with order_change_columns [OF assms(2)] assms(1)
  have "owner_columns x = owner_columns x0" "\<not> ok (inst_ID x0) \<longrightarrow> order_change x0 x"
    by (auto simp: protected_row_def)
  with order_change_columns [OF assms(2)] order_change_trans [OF _ assms(2)]
  show "owner_columns y = owner_columns x0 \<and> (\<not> ok (inst_ID x0) \<longrightarrow> (if True then order_change x0 y else y = x0))"
    by simp
qed

interpretation foreign: row_rules "protected_row d fresh ok ord" "\<lambda>i. ok i \<or> i = fresh" False ord
    "inst_ID ` set (instances d)" fresh for d fresh ok ord
proof unfold_locales
  show "protected_row d fresh ok ord y" if "inst_ID y = fresh" for y
    using that by (simp add: protected_row_def)
  show "protected_row d fresh ok ord y" if "ord" "protected_row d fresh ok ord x" "order_change x y" for x y
    using that protected_order by (cases ord) auto
qed (auto intro: protected_user)

lemma protected_initial:
  assumes "distinct (map inst_ID (instances d))"
  shows "rows_ok (protected_row d fresh ok ord) (inst_ID ` set (instances d)) d"
proof -
  have "y = x" if "x \<in> set (instances d)" "y \<in> set (instances d)" "inst_ID y = inst_ID x" for x y
    using assms that by (metis distinct_map inj_onD)
  then show ?thesis unfolding rows_ok_def protected_row_def by (metis order_change_refl subset_refl)
qed

lemma listed_access:
  assumes "db_ok d" "i \<in> set (AccessibleInstanceIDs (user_ID u) d)"
  shows "CanAccessInstance (Some u) i d"
  using assms(2) unfolding accessible_iff [OF assms(1)] by (auto simp: CanAccessInstance_def Let_def)

lemma ordinary_request:
  fixes s :: "'w iworld"
  defines "d \<equiv> iw_db s"
  assumes "db_ok d" "table_ok ''instances'' instances inst_ID d" "user_Role u \<noteq> ''admin''" "x \<in> set (instances d)"
  shows "\<exists>y \<in> set (instances (iw_db (snd (serve_instances E u tok rnd keys q s)))).
     inst_ID y = inst_ID x \<and> owner_columns y = owner_columns x \<and>
     (\<not> CanAccessInstance (Some u) (inst_ID x) d \<longrightarrow> (if \<exists>b. q = Reorder_req b then order_change x y else y = x))"
proof -
  define P where "P = protected_row d (next_row d ''instances'') (\<lambda>i. CanAccessInstance (Some u) i d) (\<exists>b. q = Reorder_req b)"
  have "rows_ok P (inst_ID ` set (instances d)) (iw_db (snd (serve_instances E u tok rnd keys q s)))"
    unfolding P_def
    by (rule foreign.serve_ok)
      (use assms listed_access in \<open>auto simp: table_ok_def intro: protected_initial\<close>)
  moreover from this have "inst_ID x \<in> inst_ID ` set (instances (iw_db (snd (serve_instances E u tok rnd keys q s))))"
    using assms(5) unfolding rows_ok_def by blast
  then obtain y where y: "y \<in> set (instances (iw_db (snd (serve_instances E u tok rnd keys q s))))" "inst_ID x = inst_ID y"
    by (rule imageE)
  ultimately have "P y" unfolding rows_ok_def by blast
  moreover have "inst_ID x \<noteq> next_row d ''instances''" using assms(3,5) by (auto simp: table_ok_def)
  ultimately show ?thesis using y assms(5) unfolding P_def protected_row_def by (intro bexI [of _ y]) auto
qed

text \<open>C3: A user who is not an administrator cannot change or delete an instance the user has no access to: after any
  request to the routes of instances its row is as it was, except that the request to reorder instances, which
  checks no access, may have set its place in the order.\<close>

theorem foreign_instances_kept:
  assumes "db_ok (iw_db s)" "table_ok ''instances'' instances inst_ID (iw_db s)" "user_Role u \<noteq> ''admin''"
    and "x \<in> set (instances (iw_db s))" "\<not> CanAccessInstance (Some u) (inst_ID x) (iw_db s)"
  shows "\<exists>y \<in> set (instances (iw_db (snd (serve_instances E u tok rnd keys q s)))).
     if \<exists>b. q = Reorder_req b then order_change x y else y = x"
  using ordinary_request [OF assms(1-4), of E tok rnd keys q] assms(5) by blast


section \<open>Names\<close>

definition name_chars :: string where
  "name_chars = ''abcdefghijklmnopqrstuvwxyz0123456789-''"

lemma name_rune_chars: "name_rune r \<Longrightarrow> char_of r \<in> set name_chars"
proof -
  assume "name_rune r"
  then have "r = 45 \<or> r \<in> set [48..<58] \<or> r \<in> set [97..<123]"
    by (simp only: name_rune_def set_upt atLeastLessThan_iff) arith
  then have "r \<in> set (45 # [48..<58] @ [97..<123])" by (simp only: list.set set_append Un_iff insert_iff)
  moreover have "list_all (\<lambda>r. (char_of r :: char) \<in> set name_chars) (45 # [48..<58] @ [97..<123 :: nat])"
    by code_simp
  ultimately show ?thesis by (simp only: list_all_iff)
qed

lemma set_trim_dashes: "set (trim_dashes s) \<subseteq> set s"
  by (auto simp: trim_dashes_def dest!: set_dropWhileD)

text \<open>The name made for an instance begins with \<open>bot-\<close>, has at most 63 bytes and consists of lower case letters,
  digits and dashes only, whatever bytes the display name has: it is safe in shell commands and in the names of
  containers, volumes and Kubernetes objects.\<close>

theorem instance_name_safe:
  "take 4 (generateName displayName) = ''bot-'' \<and> length (generateName displayName) \<le> 63 \<and>
   set (generateName displayName) \<subseteq> set name_chars"
proof -
  let ?m = "map char_of (filter name_rune (dash_blanks False (map lower_rune (runes displayName))))"
  have "set ?m \<subseteq> set name_chars" using name_rune_chars by auto
  then have "set (trim_dashes ?m) \<subseteq> set name_chars" using set_trim_dashes by (rule subset_trans [rotated])
  moreover have "set ''bot-'' \<subseteq> set name_chars" by (simp add: name_chars_def)
  ultimately have "set (''bot-'' @ trim_dashes ?m) \<subseteq> set name_chars" by (simp only: set_append Un_subset_iff)
  then have "set (generateName displayName) \<subseteq> set name_chars"
    unfolding generateName_def by (rule subset_trans [OF set_take_subset])
  then show ?thesis by (simp add: generateName_def)
qed

section \<open>Cloning\<close>

lemma GetInstance_new:
  assumes "table_ok ''instances'' instances inst_ID d" "instances d' = instances d @ [inst]" "inst_ID inst = next_row d ''instances''"
  shows "GetInstance (inst_ID inst) d' = Some inst"
proof -
  have "List.find (\<lambda>x. inst_ID x = inst_ID inst) (instances d) = None"
    using assms(1,3) by (auto simp: table_ok_def find_None_iff)
  with assms(2) show ?thesis by (simp add: GetInstance_def find_append)
qed

text \<open>The row of a clone as it is left in the tables.\<close>

definition clone_result :: "'w ienv \<Rightarrow> Instance \<Rightarrow> nat list \<Rightarrow> string \<Rightarrow> db \<Rightarrow> Instance" where
  "clone_result E src rnd token d =
     (column_defaults (clone_row src (clone_name (inst_DisplayName src @ '' (Copy)'') rnd d)
        (inst_DisplayName src @ '' (Copy)'') token (max_sort_order d + 1)))
       \<lparr>inst_ID := next_row d ''instances'', inst_BrowserActive := inst_BrowserActive src, inst_UpdatedAt := Some (e_now E)\<rparr>"

lemma clone_effect:
  assumes "load_instance idp (iw_db s) = Inr src" "e_seal E (generateToken tok) = Some token"
    and ok: "table_ok ''instances'' instances inst_ID (iw_db s)"
    and free: "clone_name (inst_DisplayName src @ '' (Copy)'') rnd (iw_db s) \<notin> inst_Name ` set (instances (iw_db s))"
  defines "inst \<equiv> clone_result E src rnd token (iw_db s)"
  shows "\<exists>s1 r. CloneInstance E cu tok rnd idp s = (Reply 201 r, s1) \<and> instances (iw_db s1) = instances (iw_db s) @ [inst]
    \<and> iw_jobs s1 = iw_jobs s @ [\<lparr>ij_type = ''instance.clone'', ij_inst = inst_ID inst, ij_user = caller_id cu,
         ij_name = inst_DisplayName inst, ij_title = ''Cloning instance'',
         ij_message = ''Cloning '' @ inst_DisplayName src @ '' to '' @ inst_DisplayName inst, ij_cancellable = True,
         ij_work = Clone_work src inst (generateToken tok)\<rparr>]
    \<and> iw_out s1 = iw_out s \<and> iw_msg s1 = iw_msg s
    \<and> (\<exists>d1. iw_db s1 = set_folder_instances (\<lambda>ids. ids @ [inst_ID inst]) (inst_ID src) d1
         \<and> d1 = (iw_db s)\<lparr>next_row := (next_row (iw_db s))(''instances'' := Suc (inst_ID inst)),
                           instances := instances (iw_db s) @ [inst]\<rparr>)"
proof -
  let ?d = "iw_db s" and ?now = "e_now E"
  let ?row = "clone_row src (clone_name (inst_DisplayName src @ '' (Copy)'') rnd ?d) (inst_DisplayName src @ '' (Copy)'')
    token (max_sort_order ?d + 1)"
  define i where "i = next_row ?d ''instances''"
  define x0 where "x0 = (column_defaults ?row)\<lparr>inst_ID := i, inst_UpdatedAt := Some ?now\<rparr>"
  define d0 where "d0 = ?d\<lparr>next_row := (next_row ?d)(''instances'' := Suc i), instances := instances ?d @ [x0]\<rparr>"
  have "inst_Name ?row \<notin> inst_Name ` set (instances ?d)" using free by (simp add: clone_row_def)
  then have c: "create_instance ?now ?row ?d = Some (x0, d0)"
    by (simp add: create_instance_def create_row_def Let_def x0_def d0_def i_def)
  have active: "inst_BrowserActive x0 = True" "inst_ID x0 = i" "inst_UpdatedAt x0 = Some ?now"
    by (simp_all add: x0_def column_defaults_def Let_def)
  have inst: "inst = x0\<lparr>inst_BrowserActive := inst_BrowserActive src\<rparr>"
    unfolding inst_def clone_result_def x0_def i_def by simp
  have others: "map (\<lambda>x. if inst_ID x = i then f x else x) (instances ?d) = instances ?d" for f
    using ok by (intro map_idI) (auto simp: table_ok_def i_def)
  have "hide_browser ?now src (x0, d0) = (inst, d0\<lparr>instances := instances ?d @ [inst]\<rparr>)"
  proof (cases "inst_BrowserActive src")
    case True
    have "x0\<lparr>inst_BrowserActive := inst_BrowserActive x0\<rparr> = x0" by simp
    then have "x0\<lparr>inst_BrowserActive := True\<rparr> = x0" by (simp only: active(1))
    with True show ?thesis by (simp add: hide_browser_def inst d0_def)
  next
    case False
    have "x0\<lparr>inst_BrowserActive := False, inst_UpdatedAt := Some ?now\<rparr> = x0\<lparr>inst_BrowserActive := False\<rparr>"
      unfolding x0_def by simp
    with False active show ?thesis
      by (simp add: hide_browser_def set_columns_def update_instance_def inst d0_def others)
  qed
  then show ?thesis
    unfolding CloneInstance_def assms(1) Let_def sum.case assms(2) option.case c
    by (auto simp: start_task_def same_rows d0_def active inst)
qed


lemma owner_of_clone:
  "inst_ID (clone_result E src rnd token d) = next_row d ''instances''"
  "inst_TeamID (clone_result E src rnd token d) = 1"
  "inst_BraveAPIKey (clone_result E src rnd token d) = inst_BraveAPIKey src"
  "inst_AllowedSourceIPs (clone_result E src rnd token d) = []"
  by (simp_all add: clone_result_def column_defaults_def clone_row_def zero_instance_def Let_def)

lemma set_folders_frame:
  "GetTeamRole u t (set_folder_instances f i d) = GetTeamRole u t d"
proof -
  have "team_members (fold (\<lambda>sf. db_UpdateSharedFolder (g sf) (h sf)) sfs d) = team_members d"
    for g :: "SharedFolder \<Rightarrow> nat" and h sfs
    by (induction sfs arbitrary: d) (simp_all add: db_UpdateSharedFolder_def update_row_def)
  then show ?thesis by (simp add: set_folder_instances_def GetTeamRole_def)
qed

text \<open>C22: Cloning does not look at who may access the source.  A manager of the default team (id 1) who asks to clone
  any instance, of whatever team, is answered 201: the clone belongs to team 1, so the caller may use it, carries
  the source's Brave key but not its source address whitelist, and its task copies the source's volumes.\<close>

theorem clone_ignores_source_access:
  assumes "load_instance idp (iw_db s) = Inr src" "e_seal E (generateToken tok) = Some token"
    and "table_ok ''instances'' instances inst_ID (iw_db s)"
    and "clone_name (inst_DisplayName src @ '' (Copy)'') rnd (iw_db s) \<notin> inst_Name ` set (instances (iw_db s))"
    and "IsTeamManager (user_ID u) 1 (iw_db s)" "instance_creator u (iw_db s)"
  shows "case serve_instances E u tok rnd keys (Clone_req idp) s of (st, s1) \<Rightarrow>
     st = 201 \<and>
     (\<exists>inst. GetInstance (inst_ID inst) (iw_db s1) = Some inst \<and> inst_TeamID inst = 1
        \<and> inst_BraveAPIKey inst = inst_BraveAPIKey src \<and> inst_AllowedSourceIPs inst = []
        \<and> CanAccessInstance (Some u) (inst_ID inst) (iw_db s1)
        \<and> ij_work (last (iw_jobs s1)) = Clone_work src inst (generateToken tok))"
proof -
  let ?inst = "clone_result E src rnd token (iw_db s)"
  obtain s1 r d1 where c: "CloneInstance E (Some u) tok rnd idp s = (Reply 201 r, s1)"
    and rows: "instances (iw_db s1) = instances (iw_db s) @ [?inst]"
    and job: "ij_work (last (iw_jobs s1)) = Clone_work src ?inst (generateToken tok)"
    and d1: "iw_db s1 = set_folder_instances (\<lambda>ids. ids @ [inst_ID ?inst]) (inst_ID src) d1"
      "d1 = (iw_db s)\<lparr>next_row := (next_row (iw_db s))(''instances'' := Suc (inst_ID ?inst)),
                       instances := instances (iw_db s) @ [?inst]\<rparr>"
    using clone_effect [OF assms(1-4), of "Some u"] by auto
  have get: "GetInstance (inst_ID ?inst) (iw_db s1) = Some ?inst"
    by (rule GetInstance_new [OF assms(3) rows]) (rule owner_of_clone)
  have "GetTeamRole (user_ID u) 1 (iw_db s1) = TeamRoleManager"
    using assms(5) unfolding d1(1) set_folders_frame by (simp add: d1(2) IsTeamManager_def GetTeamRole_def)
  then have "CanAccessInstance (Some u) (inst_ID ?inst) (iw_db s1)"
    using get by (simp add: CanAccessInstance_def owner_of_clone Let_def)
  with get job owner_of_clone show ?thesis
    by (auto simp: assms(6) answer_def c intro!: exI [of _ ?inst])
qed

section \<open>Cancelling a clone\<close>

lemma update_folders:
  assumes "\<And>r x. sf_ID (h r x) = sf_ID x"
  shows "shared_folders d = pre @ rs \<Longrightarrow> distinct (map sf_ID (pre @ rs)) \<Longrightarrow>
    shared_folders (fold (\<lambda>sf. db_UpdateSharedFolder (sf_ID sf) (h sf)) (filter p rs) d)
      = pre @ map (\<lambda>r. if p r then h r r else r) rs"
proof (induction rs arbitrary: pre d)
  case (Cons r rs)
  show ?case
  proof (cases "p r")
    case True
    have other: "map (\<lambda>x. if sf_ID x = sf_ID r then h r x else x) xs = xs" if "sf_ID r \<notin> sf_ID ` set xs" for xs
      using that by (induction xs) auto
    have "shared_folders (db_UpdateSharedFolder (sf_ID r) (h r) d) = (pre @ [h r r]) @ rs"
      using Cons.prems by (simp add: db_UpdateSharedFolder_def update_row_def other)
    moreover have "distinct (map sf_ID ((pre @ [h r r]) @ rs))" using Cons.prems assms by simp
    ultimately show ?thesis using True Cons.IH [of "db_UpdateSharedFolder (sf_ID r) (h r) d" "pre @ [h r r]"] by simp
  next
    case False
    then show ?thesis using Cons.prems Cons.IH [of d "pre @ [r]"] by simp
  qed
qed simp

lemma folders_set:
  assumes "distinct (map sf_ID (shared_folders d))"
  shows "shared_folders (set_folder_instances f i d) =
    map (\<lambda>sf. if folder_covers i (case GetInstance i d of None \<Rightarrow> 0 | Some x \<Rightarrow> inst_TeamID x) sf
              then sf\<lparr>sf_InstanceIDs := EncodeTeamIDs (f (ParseTeamIDs (sf_InstanceIDs sf)))\<rparr> else sf) (shared_folders d)"
  unfolding set_folder_instances_def GetSharedFoldersForInstance_def
  using update_folders [of "\<lambda>r x. x\<lparr>sf_InstanceIDs := EncodeTeamIDs (f (ParseTeamIDs (sf_InstanceIDs r)))\<rparr>" d "[]"]
    assms by simp

lemma other_tables_fold:
  "llm_providers (fold (\<lambda>sf. db_UpdateSharedFolder (g sf) (h sf)) sfs d) = llm_providers d"
  "llm_gateway_keys (fold (\<lambda>sf. db_UpdateSharedFolder (g sf) (h sf)) sfs d) = llm_gateway_keys d"
  "browser_sessions (fold (\<lambda>sf. db_UpdateSharedFolder (g sf) (h sf)) sfs d) = browser_sessions d"
  by (induction sfs arbitrary: d) (simp_all add: db_UpdateSharedFolder_def update_row_def)

definition folder_ids :: "db \<Rightarrow> (nat \<times> nat list) list" where
  "folder_ids d = map (\<lambda>sf. (sf_ID sf, ParseTeamIDs (sf_InstanceIDs sf))) (shared_folders d)"

lemma detached:
  assumes "distinct (map sf_ID (shared_folders d))"
    and "list_all (\<lambda>(k, ids). list_all (\<lambda>j. j < 2 ^ 64) ids) (folder_ids d)"
  shows "folder_ids (set_folder_instances (filter (\<lambda>k. k \<noteq> i)) i d) = map (\<lambda>(k, ids). (k, filter (\<lambda>j. j \<noteq> i) ids)) (folder_ids d)"
proof -
  let ?team = "case GetInstance i d of None \<Rightarrow> 0 | Some x \<Rightarrow> inst_TeamID x"
  let ?ids = "\<lambda>sf. ParseTeamIDs (sf_InstanceIDs sf)"
  have "(case (if folder_covers i ?team sf then sf\<lparr>sf_InstanceIDs := EncodeTeamIDs (filter (\<lambda>k. k \<noteq> i) (?ids sf))\<rparr> else sf)
          of x \<Rightarrow> (sf_ID x, ?ids x)) = (sf_ID sf, filter (\<lambda>j. j \<noteq> i) (?ids sf))"
    if "sf \<in> set (shared_folders d)" for sf
  proof -
    have "list_all (\<lambda>j. j < 2 ^ 64) (filter (\<lambda>k. k \<noteq> i) (?ids sf))"
      using assms(2) that by (auto simp: list_all_iff folder_ids_def)
    moreover have "i \<notin> set (?ids sf) \<Longrightarrow> filter (\<lambda>j. j \<noteq> i) (?ids sf) = ?ids sf" by (auto simp: filter_id_conv)
    ultimately show ?thesis using team_ids_roundtrip by (auto simp: folder_covers_def)
  qed
  then show ?thesis by (simp add: folder_ids_def folders_set [OF assms(1)])
qed

lemma attached:
  assumes "distinct (map sf_ID (shared_folders d))" "i < 2 ^ 64"
    and "list_all (\<lambda>(k, ids). list_all (\<lambda>j. j < 2 ^ 64 \<and> j \<noteq> i) ids) (folder_ids d)"
  shows "map (\<lambda>(k, ids). (k, filter (\<lambda>j. j \<noteq> i) ids)) (folder_ids (set_folder_instances (\<lambda>ids. ids @ [i]) src d)) = folder_ids d"
    and "list_all (\<lambda>(k, ids). list_all (\<lambda>j. j < 2 ^ 64) ids) (folder_ids (set_folder_instances (\<lambda>ids. ids @ [i]) src d))"
proof -
  let ?team = "case GetInstance src d of None \<Rightarrow> 0 | Some x \<Rightarrow> inst_TeamID x"
  let ?ids = "\<lambda>sf. ParseTeamIDs (sf_InstanceIDs sf)"
  have ids: "?ids (if folder_covers src ?team sf then sf\<lparr>sf_InstanceIDs := EncodeTeamIDs (?ids sf @ [i])\<rparr> else sf)
      = (if folder_covers src ?team sf then ?ids sf @ [i] else ?ids sf)" and ok: "list_all (\<lambda>j. j < 2 ^ 64 \<and> j \<noteq> i) (?ids sf)"
    if "sf \<in> set (shared_folders d)" for sf
  proof -
    show ok: "list_all (\<lambda>j. j < 2 ^ 64 \<and> j \<noteq> i) (?ids sf)"
      using assms(3) that by (auto simp: list_all_iff folder_ids_def)
    then have "list_all (\<lambda>j. j < 2 ^ 64) (?ids sf @ [i])" using assms(2) by (simp add: list_all_iff)
    from team_ids_roundtrip [OF this] show "?ids (if folder_covers src ?team sf
        then sf\<lparr>sf_InstanceIDs := EncodeTeamIDs (?ids sf @ [i])\<rparr> else sf)
      = (if folder_covers src ?team sf then ?ids sf @ [i] else ?ids sf)" by simp
  qed
  have same: "filter (\<lambda>j. j \<noteq> i) (?ids sf) = ?ids sf" if "sf \<in> set (shared_folders d)" for sf
    using ok [OF that] by (auto simp: filter_id_conv list_all_iff)
  show "map (\<lambda>(k, ids). (k, filter (\<lambda>j. j \<noteq> i) ids)) (folder_ids (set_folder_instances (\<lambda>ids. ids @ [i]) src d)) = folder_ids d"
    using ids same by (simp add: folder_ids_def folders_set [OF assms(1)])
  show "list_all (\<lambda>(k, ids). list_all (\<lambda>j. j < 2 ^ 64) ids) (folder_ids (set_folder_instances (\<lambda>ids. ids @ [i]) src d))"
    using ids ok assms(2) by (simp add: folder_ids_def folders_set [OF assms(1)] list_all_iff)
qed


lemma run_clone_tables:
  "instances (iw_db (run_clone E src inst token s)) = instances (iw_db s) \<or>
   (\<exists>st. instances (iw_db (run_clone E src inst token s)) = instances (set_status (e_now E) (inst_ID inst) st (iw_db s)))"
  "llm_providers (iw_db (run_clone E src inst token s)) = llm_providers (iw_db s)"
  "llm_gateway_keys (iw_db (run_clone E src inst token s)) = llm_gateway_keys (iw_db s)"
  "browser_sessions (iw_db (run_clone E src inst token s)) = browser_sessions (iw_db s)"
  "shared_folders (iw_db (run_clone E src inst token s)) = shared_folders (iw_db s)"
proof -
  have "iw_db (run_clone E src inst token s) = iw_db s \<or>
      (\<exists>st. iw_db (run_clone E src inst token s) = set_status (e_now E) (inst_ID inst) st (iw_db s))"
    by (auto simp: run_clone_def Let_def fail_status_def same_rows dest!: db_call_outD split: option.split prod.split)
  then show "instances (iw_db (run_clone E src inst token s)) = instances (iw_db s) \<or>
   (\<exists>st. instances (iw_db (run_clone E src inst token s)) = instances (set_status (e_now E) (inst_ID inst) st (iw_db s)))"
  "llm_providers (iw_db (run_clone E src inst token s)) = llm_providers (iw_db s)"
  "llm_gateway_keys (iw_db (run_clone E src inst token s)) = llm_gateway_keys (iw_db s)"
  "browser_sessions (iw_db (run_clone E src inst token s)) = browser_sessions (iw_db s)"
  "shared_folders (iw_db (run_clone E src inst token s)) = shared_folders (iw_db s)"
    by (auto simp: set_status_def update_instance_def)
qed

lemma filter_map_other:
  "(\<And>x. inst_ID (g x) = inst_ID x) \<Longrightarrow>
   filter (\<lambda>x. inst_ID x \<noteq> i) (map (\<lambda>x. if inst_ID x = i then g x else x) xs) = filter (\<lambda>x. inst_ID x \<noteq> i) xs"
  by (induction xs) auto

lemma backend_delete_db [same_rows]: "iw_db (backend_delete E name s) = iw_db s"
  by (simp add: backend_delete_def same_rows split: option.split)

lemma cancel_tables:
  fixes d :: db and i :: nat and f :: "nat list \<Rightarrow> nat list"
  defines "d' \<equiv> delete_instance_row i (set_folder_instances f i (drop_instance_rows i d))"
  shows "instances d' = filter (\<lambda>x. inst_ID x \<noteq> i) (instances d)"
    "llm_providers d' = filter (\<lambda>p. prov_InstanceID p \<noteq> Some i) (llm_providers d)"
    "llm_gateway_keys d' = filter (\<lambda>k. gk_InstanceID k \<noteq> i) (llm_gateway_keys d)"
    "browser_sessions d' = filter (\<lambda>b. br_InstanceID b \<noteq> i) (browser_sessions d)"
    "folder_ids d' = folder_ids (set_folder_instances f i (drop_instance_rows i d))"
  unfolding d'_def
  by (simp_all add: delete_instance_row_def delete_row_def same_rows folder_ids_def)
    (simp_all add: set_folder_instances_def other_tables_fold drop_instance_rows_def)

text \<open>The rows that name an instance id.\<close>

definition unused_id :: "nat \<Rightarrow> db \<Rightarrow> bool" where
  "unused_id i d \<longleftrightarrow>
     list_all (\<lambda>p. prov_InstanceID p \<noteq> Some i) (llm_providers d) \<and>
     list_all (\<lambda>k. gk_InstanceID k \<noteq> i) (llm_gateway_keys d) \<and>
     list_all (\<lambda>b. br_InstanceID b \<noteq> i) (browser_sessions d) \<and>
     list_all (\<lambda>(k, ids). list_all (\<lambda>j. j < 2 ^ 64 \<and> j \<noteq> i) ids) (folder_ids d)"



section \<open>What a container is started with\<close>

lemma distinct_loaded:
  "distinct (map fst (LoadGlobalEnvVars dec d))" "distinct (map fst (LoadInstanceEnvVars dec raw))"
  by (simp_all add: LoadGlobalEnvVars_def LoadInstanceEnvVars_def decrypt_distinct distinct_decoded split: option.split)

lemma token_vars_map:
  "map_of (token_vars unseal inst vars) k =
     (if k = ''CLAWORC_INSTANCE_ID'' then Some (show_nat (inst_ID inst))
      else if k = ''OPENCLAW_GATEWAY_TOKEN'' \<and> inst_GatewayToken inst \<noteq> [] \<and> unseal (inst_GatewayToken inst) \<noteq> None
      then unseal (inst_GatewayToken inst) else map_of vars k)"
  by (auto simp: token_vars_def update_conv split: option.split)

text \<open>The environment a container is created or restarted with: the instance's id and its decrypted gateway token
  first, then the instance's own variables, then the global ones, so that no user variable shadows the two
  reserved ones.  An image update passes the reserved ones only: a container whose image is updated starts
  without the variables of the user.\<close>

theorem container_environment:
  "map_of (cp_EnvVars (buildCreateParams unseal inst d)) k =
     (if k = ''CLAWORC_INSTANCE_ID'' then Some (show_nat (inst_ID inst))
      else if k = ''OPENCLAW_GATEWAY_TOKEN'' \<and> inst_GatewayToken inst \<noteq> [] \<and> unseal (inst_GatewayToken inst) \<noteq> None
      then unseal (inst_GatewayToken inst)
      else (map_of (LoadGlobalEnvVars unseal d) ++ map_of (LoadInstanceEnvVars unseal (inst_EnvVars inst))) k)
   \<and> map_of (cp_EnvVars (image_params unseal inst d)) k =
     (if k = ''CLAWORC_INSTANCE_ID'' then Some (show_nat (inst_ID inst))
      else if k = ''OPENCLAW_GATEWAY_TOKEN'' \<and> inst_GatewayToken inst \<noteq> [] \<and> unseal (inst_GatewayToken inst) \<noteq> None
      then unseal (inst_GatewayToken inst) else None)"
  using env_precedence [OF distinct_loaded(1) distinct_loaded(2), of "[]" unseal d unseal "inst_EnvVars inst"]
  by (cases "unseal (inst_GatewayToken inst)") (simp_all add: buildCreateParams_def image_params_def token_vars_map)

section \<open>Failed image updates\<close>

lemma load_GetInstance:
  assumes "load_instance idp d = Inr inst"
  shows "GetInstance (inst_ID inst) d = Some inst"
proof -
  obtain i where i: "GetInstance (nat i) d = Some inst"
    using assms by (auto simp: load_instance_def split: option.splits if_splits)
  then have "inst_ID inst = nat i" by (auto simp: GetInstance_def dest: find_Some_in)
  with i show ?thesis by simp
qed

lemma GetInstance_update:
  "(\<And>x. inst_ID (f x) = inst_ID x) \<Longrightarrow>
   GetInstance j (update_instance now i f d) =
     map_option (\<lambda>x. if inst_ID x = i then (f x)\<lparr>inst_UpdatedAt := Some now\<rparr> else x) (GetInstance j d)"
proof -
  assume id: "\<And>x. inst_ID (f x) = inst_ID x"
  have "List.find (\<lambda>x. inst_ID x = j) (map (\<lambda>x. if inst_ID x = i then (f x)\<lparr>inst_UpdatedAt := Some now\<rparr> else x) xs)
      = map_option (\<lambda>x. if inst_ID x = i then (f x)\<lparr>inst_UpdatedAt := Some now\<rparr> else x) (List.find (\<lambda>x. inst_ID x = j) xs)" for xs
    using id by (induction xs) auto
  then show ?thesis by (simp add: GetInstance_def update_instance_def)
qed


section \<open>Rejected updates\<close>

text \<open>A rejected update may have changed the instance.  A user with access who sends a time zone and a display name
  in one request is answered 403, because only administrators rename instances, but the time zone is stored.\<close>

theorem rejected_update_applied:
  assumes "load_instance idp (iw_db s) = Inr inst" "CanAccessInstance (Some u) (inst_ID inst) (iw_db s)"
    and "user_Role u \<noteq> ''admin''"
    and "b = \<lparr>iu_BraveAPIKey = None, iu_Models = None, iu_DefaultModel = None, iu_Timezone = Some tz, iu_UserAgent = None,
       iu_AllowedSourceIPs = None, iu_EnabledProviders = None, iu_DisplayName = Some name, iu_CPURequest = None,
       iu_CPULimit = None, iu_MemoryRequest = None, iu_MemoryLimit = None, iu_VNCResolution = None, iu_EnvVarsSet = [],
       iu_EnvVarsUnset = [], iu_BrowserProvider = None, iu_BrowserImage = None, iu_BrowserIdleMinutes = None,
       iu_BrowserStorage = None, iu_TeamID = None\<rparr>"
  shows "case serve_instances E u tok rnd keys (Update_req idp (Some b)) s of (st, s1) \<Rightarrow>
     st = 403 \<and> map_option inst_Timezone (GetInstance (inst_ID inst) (iw_db s1)) = Some tz"
proof -
  have inst: "GetInstance (inst_ID inst) (iw_db s) = Some inst"
    using assms(1) by (rule load_GetInstance)
  have run: "run_steps (update_steps E (Some u) keys b) (inst, iw_db s) =
      (Inl (403, ''Only admins can rename instances''),
       inst\<lparr>inst_Timezone := tz, inst_UpdatedAt := Some (e_now E)\<rparr>,
       update_instance (e_now E) (inst_ID inst) (\<lambda>r. r\<lparr>inst_Timezone := tz\<rparr>) (iw_db s))"
    unfolding update_steps_def Let_def assms(4)
    by (simp add: reassign_team_def if_given_def set_columns_def admin_only_def is_admin_def assms(3) andThen_def stop_with_def)
  show ?thesis
    using inst by (simp add: UpdateInstance_def with_instance_def assms(1,2) run andThen_def answer_def GetInstance_update)
qed

section \<open>Memory amounts\<close>

text \<open>Where the amounts are below 2^63 bytes, accepted resources never ask for more memory than their limit, the
  units read as powers of 1024.\<close>

theorem accepted_memory_within_limit:
  assumes "ValidateResourceQuantities q = None" "rq_MemoryRequest q \<noteq> []" "rq_MemoryLimit q \<noteq> []"
    and "memory_number (rq_MemoryRequest q) * memory_unit (rq_MemoryRequest q) < 2 ^ 63"
    and "memory_number (rq_MemoryLimit q) * memory_unit (rq_MemoryLimit q) < 2 ^ 63"
  shows "memory_number (rq_MemoryRequest q) * memory_unit (rq_MemoryRequest q)
    \<le> memory_number (rq_MemoryLimit q) * memory_unit (rq_MemoryLimit q)"
proof -
  have "memory_format (rq_MemoryRequest q)" "memory_format (rq_MemoryLimit q)"
    "memoryToBytes (rq_MemoryRequest q) \<le> memoryToBytes (rq_MemoryLimit q)"
    using assms(1-3) by (simp_all add: ValidateResourceQuantities_def split: if_split_asm)
  with memoryToBytes_exact assms(4,5) show ?thesis by (metis of_nat_le_iff)
qed


section \<open>Examples\<close>

definition sample_orch :: "unit orch" where
  "sample_orch =
     \<lparr>o_Create = (\<lambda>p w. (([], None), w)), o_Delete = (\<lambda>n w. (None, w)), o_Start = (\<lambda>n w. (None, w)),
      o_Stop = (\<lambda>n w. (None, w)), o_Restart = (\<lambda>n p w. (None, w)), o_Status = (\<lambda>n w. ((''running'', True), w)),
      o_ImageInfo = (\<lambda>n w. (None, w)), o_UpdateResources = (\<lambda>n p w. (None, w)), o_Stats = (\<lambda>n w. (None, w)),
      o_UpdateImage = (\<lambda>n p w. (Some ''pull failed'', w)), o_CloneVolumes = (\<lambda>a b w. (None, w))\<rparr>"

definition sample_env :: "unit ienv" where
  "sample_env =
     \<lparr>e_now = 1000, e_seal = Some, e_seal_var = (\<lambda>k v. Some v), e_unseal = Some, e_models = (\<lambda>_. None), e_catalog = (\<lambda>_. []),
      e_marshal = (\<lambda>_. ''{}''), e_port = 40001, e_orch = Some sample_orch, e_disconnect = (\<lambda>i w. w),
      e_browser_delete = (\<lambda>i w. w), e_browser_clone = (\<lambda>a b w. w), e_wait_ssh = (\<lambda>i w. (False, w)),
      e_connect = (\<lambda>i ips w. (None, w)), e_exec = (\<lambda>i c w. (Inl [], w)), e_polls = 1, e_quote = (\<lambda>n. n),
      e_ip_error = (\<lambda>_. []), e_file_error = (\<lambda>_. [])\<rparr>"

text \<open>Instance 7 is in team 2, instance 8 in team 1, which the user 5 manages; the user 1 is an administrator.\<close>

definition inst7 :: Instance where
  "inst7 = zero_instance\<lparr>inst_ID := 7, inst_Name := ''bot-a'', inst_DisplayName := ''a'', inst_Status := ''running'',
     inst_ContainerImage := ''img:1'', inst_TeamID := 2\<rparr>"

definition inst8 :: Instance where
  "inst8 = zero_instance\<lparr>inst_ID := 8, inst_Name := ''bot-b'', inst_DisplayName := ''b'', inst_Status := ''running'', inst_TeamID := 1\<rparr>"

definition user5 :: User where
  "user5 = \<lparr>user_ID = 5, Username = ''eve'', PasswordHash = [], user_Role = ''user'', LastLoginAt = None\<rparr>"

definition user1 :: User where
  "user1 = \<lparr>user_ID = 1, Username = ''root'', PasswordHash = [], user_Role = ''admin'', LastLoginAt = None\<rparr>"

definition sample_instances :: "unit iworld" where
  "sample_instances =
     \<lparr>iw_db = empty_db\<lparr>teams := [\<lparr>team_ID = 1, team_Name = ''x'', team_Description = []\<rparr>,
                               \<lparr>team_ID = 2, team_Name = ''y'', team_Description = []\<rparr>],
               team_members := [\<lparr>tm_TeamID = 1, tm_UserID = 5, tm_Role = ''manager''\<rparr>],
               users := [user1, user5], instances := [inst7, inst8],
               next_row := (\<lambda>_. 9)\<rparr>,
      iw_msg = Map.empty, iw_out = (), iw_jobs = []\<rparr>"

lemma sample_rows [simp]: "instances (iw_db sample_instances) = [inst7, inst8]"
  by (simp add: sample_instances_def)

lemma sample_fields [simp]:
  "inst_ID inst7 = 7" "inst_ID inst8 = 8" "inst_TeamID inst7 = 2" "inst_TeamID inst8 = 1"
  "inst_Name inst7 = ''bot-a''" "inst_Name inst8 = ''bot-b''" "inst_Status inst7 = ''running''" "inst_Status inst8 = ''running''"
  "inst_DisplayName inst7 = ''a''" "inst_ContainerImage inst7 = ''img:1''"
  "user_Role user5 = ''user''" "user_ID user5 = 5"
  by (simp_all add: inst7_def inst8_def zero_instance_def user5_def)

lemma sample_ok: "db_ok (iw_db sample_instances)" "table_ok ''instances'' instances inst_ID (iw_db sample_instances)"
  by (simp_all add: db_ok_def members_ok_def table_ok_def sample_instances_def TeamRoleManager_def TeamRoleUser_def)

lemma sample_no_access: "\<not> CanAccessInstance (Some user5) 7 (iw_db sample_instances)"
  by (simp add: CanAccessInstance_def GetInstance_def GetTeamRole_def sample_instances_def Let_def
      TeamRoleManager_def TeamRoleUser_def)

lemma sample_access: "CanAccessInstance (Some user5) 8 (iw_db sample_instances)"
  by (simp add: CanAccessInstance_def GetInstance_def GetTeamRole_def sample_instances_def Let_def
      TeamRoleManager_def TeamRoleUser_def)

lemma sample_load: "load_instance ''7'' (iw_db sample_instances) = Inr inst7" "load_instance ''8'' (iw_db sample_instances) = Inr inst8"
proof -
  have "atoi ''7'' = Some 7" "atoi ''8'' = Some 8" by code_simp+
  then show "load_instance ''7'' (iw_db sample_instances) = Inr inst7" "load_instance ''8'' (iw_db sample_instances) = Inr inst8"
    by (simp_all add: load_instance_def GetInstance_def)
qed

lemma sample_creator: "instance_creator user5 (iw_db sample_instances)" "IsTeamManager (user_ID user5) 1 (iw_db sample_instances)"
  by (simp_all add: instance_creator_def UserManagedTeamIDs_def IsTeamManager_def GetTeamRole_def sample_instances_def
      TeamRoleManager_def TeamRoleUser_def)

lemma sample_clone_name: "clone_name (inst_DisplayName inst7 @ '' (Copy)'') [] (iw_db sample_instances) \<notin> inst_Name ` set [inst7, inst8]"
proof -
  have "generateName ''a (Copy)'' = ''bot-a-copy''" by code_simp
  then show ?thesis by (simp add: clone_name_def)
qed

theorem instance_status_type_witness:
  "inst_Status ` set (instances (iw_db (foldl ievent_step sample_instances
     [(sample_env, Requested user5 [] [] (\<lambda>_. []) (Clone_req ''7'')), (sample_env, Ran 0)]))) \<subseteq> row_statuses"
  by (rule instance_status_type) simp

theorem foreign_instances_kept_witness:
  "\<exists>y \<in> set (instances (iw_db (snd (serve_instances sample_env user5 [] [] (\<lambda>_. []) (Stop_req ''7'') sample_instances)))).
     if \<exists>b. Stop_req ''7'' = Reorder_req b then order_change inst7 y else y = inst7"
  by (rule foreign_instances_kept [OF sample_ok]) (simp_all add: sample_no_access)


theorem clone_ignores_source_access_witness:
  "\<not> CanAccessInstance (Some user5) (inst_ID inst7) (iw_db sample_instances) \<and>
   (case serve_instances sample_env user5 [] [] (\<lambda>_. []) (Clone_req ''7'') sample_instances of (st, s1) \<Rightarrow>
     st = 201 \<and>
     (\<exists>inst. GetInstance (inst_ID inst) (iw_db s1) = Some inst \<and> inst_TeamID inst = 1
        \<and> inst_BraveAPIKey inst = inst_BraveAPIKey inst7 \<and> inst_AllowedSourceIPs inst = []
        \<and> CanAccessInstance (Some user5) (inst_ID inst) (iw_db s1)
        \<and> ij_work (last (iw_jobs s1)) = Clone_work inst7 inst (generateToken [])))"
proof
  show "\<not> CanAccessInstance (Some user5) (inst_ID inst7) (iw_db sample_instances)" by (simp add: sample_no_access)
  have seal: "e_seal sample_env (generateToken []) = Some (generateToken [])" by (simp add: sample_env_def)
  show "case serve_instances sample_env user5 [] [] (\<lambda>_. []) (Clone_req ''7'') sample_instances of (st, s1) \<Rightarrow>
     st = 201 \<and>
     (\<exists>inst. GetInstance (inst_ID inst) (iw_db s1) = Some inst \<and> inst_TeamID inst = 1
        \<and> inst_BraveAPIKey inst = inst_BraveAPIKey inst7 \<and> inst_AllowedSourceIPs inst = []
        \<and> CanAccessInstance (Some user5) (inst_ID inst) (iw_db s1)
        \<and> ij_work (last (iw_jobs s1)) = Clone_work inst7 inst (generateToken []))"
    by (rule clone_ignores_source_access [OF sample_load(1) seal sample_ok(2) _ sample_creator(2,1)])
      (simp only: sample_rows sample_clone_name not_False_eq_True)
qed



theorem rejected_update_applied_witness:
  "case serve_instances sample_env user5 [] [] (\<lambda>_. []) (Update_req ''8'' (Some
       \<lparr>iu_BraveAPIKey = None, iu_Models = None, iu_DefaultModel = None, iu_Timezone = Some ''UTC'', iu_UserAgent = None,
       iu_AllowedSourceIPs = None, iu_EnabledProviders = None, iu_DisplayName = Some ''c'', iu_CPURequest = None,
       iu_CPULimit = None, iu_MemoryRequest = None, iu_MemoryLimit = None, iu_VNCResolution = None, iu_EnvVarsSet = [],
       iu_EnvVarsUnset = [], iu_BrowserProvider = None, iu_BrowserImage = None, iu_BrowserIdleMinutes = None,
       iu_BrowserStorage = None, iu_TeamID = None\<rparr>)) sample_instances of (st, s1) \<Rightarrow>
     st = 403 \<and> map_option inst_Timezone (GetInstance (inst_ID inst8) (iw_db s1)) = Some ''UTC''"
  by (rule rejected_update_applied [OF sample_load(2) _ _ refl]) (simp_all add: sample_access)

definition sample_quantities :: ResourceQuantities where
  "sample_quantities = \<lparr>rq_CPURequest = [], rq_CPULimit = [], rq_MemoryRequest = ''512Mi'', rq_MemoryLimit = ''2Gi'',
     rq_StorageHome = [], rq_StorageHomebrew = []\<rparr>"

theorem accepted_memory_within_limit_witness:
  "memory_number (rq_MemoryRequest sample_quantities) * memory_unit (rq_MemoryRequest sample_quantities)
    \<le> memory_number (rq_MemoryLimit sample_quantities) * memory_unit (rq_MemoryLimit sample_quantities)"
proof (rule accepted_memory_within_limit)
  have n: "memory_number ''512Mi'' = 512" "memory_number ''2Gi'' = 2" "memory_format ''512Mi''" "memory_format ''2Gi''"
    by code_simp+
  have u: "memory_unit ''512Mi'' = 2 ^ 20" "memory_unit ''2Gi'' = 2 ^ 30"
    by (simp_all add: memory_unit_def has_suffix_def)
  have b: "memoryToBytes ''512Mi'' = 512 * 2 ^ 20" "memoryToBytes ''2Gi'' = 2 * 2 ^ 30"
    using memoryToBytes_exact [OF n(3)] memoryToBytes_exact [OF n(4)] n u by simp_all
  show "ValidateResourceQuantities sample_quantities = None"
    by (simp add: ValidateResourceQuantities_def sample_quantities_def n b)
  show "memory_number (rq_MemoryRequest sample_quantities) * memory_unit (rq_MemoryRequest sample_quantities) < 2 ^ 63"
    "memory_number (rq_MemoryLimit sample_quantities) * memory_unit (rq_MemoryLimit sample_quantities) < 2 ^ 63"
    by (simp_all add: sample_quantities_def n u)
qed (simp_all add: sample_quantities_def)

end
