(* ===== verification/SharedFolders.thy ===== *)
theory SharedFolders imports InstanceOutcomes begin

text \<open>
  \<^verbatim>\<open>control-plane/internal/handlers/shared_folders.go\<close>: folders that several instances mount.  Only the
  owner or an administrator changes one; the instances whose mounts change are restarted.
\<close>

section \<open>Mount paths\<close>

definition reservedMountPrefixes :: "string list" where
  "reservedMountPrefixes = [''/home/claworc'', ''/home/linuxbrew'', ''/dev/shm'']"

definition isValidMountPath :: "string \<Rightarrow> bool" where
  "isValidMountPath p \<longleftrightarrow>
     has_prefix p ''/'' \<and> \<not> list_ex (\<lambda>prefix. p = prefix \<or> has_prefix p (prefix @ ''/'')) reservedMountPrefixes"

definition mountPathTaken :: "string \<Rightarrow> nat \<Rightarrow> db \<Rightarrow> bool" where
  \<comment> \<open>an id of 0 excludes no folder\<close>
  "mountPathTaken p excludeID d \<longleftrightarrow>
     list_ex (\<lambda>sf. sf_MountPath sf = p \<and> \<not> (excludeID \<noteq> 0 \<and> sf_ID sf = excludeID)) (shared_folders d)"

section \<open>Who must restart\<close>

definition expandFolderEffectiveInstances :: "nat list \<Rightarrow> nat list \<Rightarrow> db \<Rightarrow> nat list" where
  \<comment> \<open>the explicit instances and those of the teams, each once\<close>
  "expandFolderEffectiveInstances instanceIDs teamIDs d =
     rev (remdups (rev (instanceIDs @ map inst_ID (filter (\<lambda>x. inst_TeamID x \<in> set teamIDs) (instances d)))))"

text \<open>The two set operations walk over Go maps, in no particular order; here the order is that of the lists.\<close>

definition symmetricDiffUint :: "nat list \<Rightarrow> nat list \<Rightarrow> nat list" where
  "symmetricDiffUint a b = remdups (filter (\<lambda>v. v \<notin> set b) a) @ remdups (filter (\<lambda>v. v \<notin> set a) b)"

definition mergeUintSets :: "nat list \<Rightarrow> nat list \<Rightarrow> nat list" where
  "mergeUintSets a b = remdups (a @ b)"

definition computeFolderUpdateRestartTargets :: "nat list \<Rightarrow> nat list \<Rightarrow> bool \<Rightarrow> bool \<Rightarrow> (nat \<times> string) list" where
  "computeFolderUpdateRestartTargets oldIDs newIDs mountPathChanged membershipChanged =
     (if \<not> mountPathChanged \<and> \<not> membershipChanged then []
      else map (\<lambda>i. (i, if i \<in> set newIDs then ''Adding shared folder'' else ''Deleting shared folder''))
             (if mountPathChanged then mergeUintSets oldIDs newIDs else symmetricDiffUint oldIDs newIDs))"

fun restart_targets :: "'w ienv \<Rightarrow> nat \<Rightarrow> (nat \<times> string) list \<Rightarrow> 'w iworld \<Rightarrow> 'w iworld" where
  "restart_targets E user [] s = s"
| "restart_targets E user ((i, title) # ts) s =
     restart_targets E user ts
       (case GetInstance i (iw_db s) of
          None \<Rightarrow> s
        | Some inst \<Rightarrow> restartInstanceAsync E inst user title (inst_DisplayName inst @ '' is being restarted'') s)"

section \<open>Handlers\<close>

definition GetSharedFolder :: "nat \<Rightarrow> db \<Rightarrow> SharedFolder option" where
  "GetSharedFolder i d = first_row shared_folders sf_ID i d"

definition db_ListSharedFolders :: "nat \<Rightarrow> bool \<Rightarrow> db \<Rightarrow> SharedFolder list" where
  \<comment> \<open>newest first\<close>
  "db_ListSharedFolders owner isAdmin d =
     (let fs = rev (sort_key sf_CreatedAt (shared_folders d)) in if isAdmin then fs else filter (\<lambda>sf. sf_OwnerID sf = owner) fs)"

text \<open>What is shown of a folder: the row and its two lists of ids.\<close>

definition folder_response :: "SharedFolder \<Rightarrow> SharedFolder \<times> nat list \<times> nat list" where
  "folder_response sf = (sf, ParseTeamIDs (sf_InstanceIDs sf), ParseTeamIDs (sf_TeamIDs sf))"

definition ListSharedFolders :: "User option \<Rightarrow> 'w iworld \<Rightarrow> (SharedFolder \<times> nat list \<times> nat list) list reply \<times> 'w iworld" where
  "ListSharedFolders cu s =
     (case cu of
        None \<Rightarrow> (Fail 401 ''Unauthorized'', s)
      | Some u \<Rightarrow> (Reply 200 (map folder_response (db_ListSharedFolders (user_ID u) (user_Role u = ''admin'') (iw_db s))), s))"

definition CreateSharedFolder ::
    "'w ienv \<Rightarrow> User option \<Rightarrow> (string \<times> string) option \<Rightarrow> 'w iworld \<Rightarrow> (SharedFolder \<times> nat list \<times> nat list) reply \<times> 'w iworld" where
  \<comment> \<open>the body is the name and the mount path\<close>
  "CreateSharedFolder E cu body s =
     (case cu of
        None \<Rightarrow> (Fail 401 ''Unauthorized'', s)
      | Some u \<Rightarrow>
     (case body of
        None \<Rightarrow> (Fail 400 ''Invalid request body'', s)
      | Some (name, path) \<Rightarrow>
          if name = [] then (Fail 400 ''Name is required'', s)
          else if \<not> isValidMountPath path
          then (Fail 400 ''Invalid mount path: must be absolute and not conflict with system paths'', s)
          else if mountPathTaken path 0 (iw_db s)
          then (Fail 409 ''Mount path already in use by another shared folder'', s)
          else
            let mk = (\<lambda>i. \<lparr>sf_ID = i, sf_Name = name, sf_MountPath = path, sf_OwnerID = user_ID u, sf_InstanceIDs = ''[]'',
                           sf_TeamIDs = ''[]'', sf_CreatedAt = e_now E\<rparr>);
                (i, d) = create_row ''shared_folders'' shared_folders shared_folders_update mk (iw_db s)
            in (Reply 201 (mk i, [], []), s\<lparr>iw_db := d\<rparr>)))"

definition with_folder ::
    "User option \<Rightarrow> string \<Rightarrow> (User \<Rightarrow> SharedFolder \<Rightarrow> 'w iworld \<Rightarrow> 'a reply \<times> 'w iworld) \<Rightarrow> 'w iworld \<Rightarrow> 'a reply \<times> 'w iworld" where
  \<comment> \<open>the common beginning: the user, the id, the row, the owner\<close>
  "with_folder cu idp k s =
     (case cu of
        None \<Rightarrow> (Fail 401 ''Unauthorized'', s)
      | Some u \<Rightarrow>
     (case atoi idp of
        None \<Rightarrow> (Fail 400 ''Invalid folder ID'', s)
      | Some i \<Rightarrow>
     (case GetSharedFolder (uint_of i) (iw_db s) of
        None \<Rightarrow> (Fail 404 ''Shared folder not found'', s)
      | Some sf \<Rightarrow>
          if user_Role u \<noteq> ''admin'' \<and> sf_OwnerID sf \<noteq> user_ID u then (Fail 403 ''Access denied'', s) else k u sf s)))"

definition GetSharedFolderHandler ::
    "User option \<Rightarrow> string \<Rightarrow> 'w iworld \<Rightarrow> (SharedFolder \<times> nat list \<times> nat list) reply \<times> 'w iworld" where
  "GetSharedFolderHandler cu idp s = with_folder cu idp (\<lambda>u sf s0. (Reply 200 (folder_response sf), s0)) s"

record folder_update =
  fu_Name :: "string option"
  fu_MountPath :: "string option"
  fu_InstanceIDs :: "nat list option"
  fu_TeamIDs :: "nat list option"

text \<open>The checks of an update in their order, then the columns it writes.\<close>

definition check_folder_update :: "User option \<Rightarrow> SharedFolder \<Rightarrow> folder_update \<Rightarrow> db \<Rightarrow> (nat \<times> string) option" where
  "check_folder_update cu sf b d =
     (case (case fu_MountPath b of
              None \<Rightarrow> None
            | Some p \<Rightarrow>
                if \<not> isValidMountPath p
                then Some (400, ''Invalid mount path: must be absolute and not conflict with system paths'')
                else if mountPathTaken p (sf_ID sf) d
                then Some (409, ''Mount path already in use by another shared folder'') else None) of
        Some e \<Rightarrow> Some e
      | None \<Rightarrow>
     (case (case fu_InstanceIDs b of
              None \<Rightarrow> None
            | Some ids \<Rightarrow> map_option (\<lambda>i. (403, ''Access denied to instance '' @ show_nat i))
                            (List.find (\<lambda>i. \<not> CanAccessInstance cu i d) ids)) of
        Some e \<Rightarrow> Some e
      | None \<Rightarrow>
     (case (case fu_TeamIDs b of
              None \<Rightarrow> None
            | Some ids \<Rightarrow> map_option (\<lambda>i. (403, ''Not authorized to attach team '' @ show_nat i))
                            (List.find (\<lambda>i. \<not> CanManageTeam cu i d) ids)) of
        Some e \<Rightarrow> Some e
      | None \<Rightarrow>
          if (fu_Name b = None \<or> fu_Name b = Some []) \<and> fu_MountPath b = None \<and> fu_InstanceIDs b = None \<and> fu_TeamIDs b = None
          then Some (400, ''No fields to update'') else None)))"

definition write_folder_update :: "folder_update \<Rightarrow> SharedFolder \<Rightarrow> SharedFolder" where
  "write_folder_update b sf =
     sf\<lparr>sf_Name := (case fu_Name b of None \<Rightarrow> sf_Name sf | Some n \<Rightarrow> if n = [] then sf_Name sf else n),
        sf_MountPath := (case fu_MountPath b of None \<Rightarrow> sf_MountPath sf | Some p \<Rightarrow> p),
        sf_InstanceIDs := (case fu_InstanceIDs b of None \<Rightarrow> sf_InstanceIDs sf | Some ids \<Rightarrow> EncodeTeamIDs ids),
        sf_TeamIDs := (case fu_TeamIDs b of None \<Rightarrow> sf_TeamIDs sf | Some ids \<Rightarrow> EncodeTeamIDs ids)\<rparr>"

definition UpdateSharedFolder ::
    "'w ienv \<Rightarrow> User option \<Rightarrow> string \<Rightarrow> folder_update option \<Rightarrow> 'w iworld \<Rightarrow> string reply \<times> 'w iworld" where
  "UpdateSharedFolder E cu idp body s =
     with_folder cu idp (\<lambda>u sf s0.
       case body of
         None \<Rightarrow> (Fail 400 ''Invalid request body'', s0)
       | Some b \<Rightarrow>
           (case check_folder_update cu sf b (iw_db s0) of
              Some (st, msg) \<Rightarrow> (Fail st msg, s0)
            | None \<Rightarrow>
                let oldIDs = ParseTeamIDs (sf_InstanceIDs sf); oldTeams = ParseTeamIDs (sf_TeamIDs sf);
                    newIDs = (case fu_InstanceIDs b of None \<Rightarrow> oldIDs | Some ids \<Rightarrow> ids);
                    newTeams = (case fu_TeamIDs b of None \<Rightarrow> oldTeams | Some ids \<Rightarrow> ids);
                    s1 = upd_db (db_UpdateSharedFolder (sf_ID sf) (write_folder_update b)) s0;
                    targets = computeFolderUpdateRestartTargets
                      (expandFolderEffectiveInstances oldIDs oldTeams (iw_db s1))
                      (expandFolderEffectiveInstances newIDs newTeams (iw_db s1))
                      (case fu_MountPath b of None \<Rightarrow> False | Some p \<Rightarrow> p \<noteq> sf_MountPath sf)
                      (fu_InstanceIDs b \<noteq> None \<or> fu_TeamIDs b \<noteq> None)
                in (Reply 200 ''updated'', restart_targets E (caller_id cu) targets s1))) s"

text \<open>The reply names the volume whose deletion is left to a goroutine that first waits ten seconds.\<close>

definition DeleteSharedFolder :: "'w ienv \<Rightarrow> User option \<Rightarrow> string \<Rightarrow> 'w iworld \<Rightarrow> nat option reply \<times> 'w iworld" where
  "DeleteSharedFolder E cu idp s =
     with_folder cu idp (\<lambda>u sf s0.
       let s1 = upd_db (delete_row shared_folders_update sf_ID (sf_ID sf)) s0
       in (Reply 204 (case e_orch E of None \<Rightarrow> None | Some O1 \<Rightarrow> Some (sf_ID sf)),
           restart_targets E (caller_id cu)
             (map (\<lambda>i. (i, ''Deleting shared folder'')) (ParseTeamIDs (sf_InstanceIDs sf))) s1)) s"

section \<open>Routes\<close>

datatype folder_request =
    FList
  | FCreate "(string \<times> string) option"
  | FGet string
  | FUpdate string "folder_update option"
  | FDelete string

fun serve_folders :: "'w ienv \<Rightarrow> User \<Rightarrow> folder_request \<Rightarrow> 'w iworld \<Rightarrow> nat \<times> 'w iworld" where
  "serve_folders E u FList s = answer (ListSharedFolders (Some u) s)"
| "serve_folders E u (FCreate b) s = answer (CreateSharedFolder E (Some u) b s)"
| "serve_folders E u (FGet i) s = answer (GetSharedFolderHandler (Some u) i s)"
| "serve_folders E u (FUpdate i b) s = answer (UpdateSharedFolder E (Some u) i b s)"
| "serve_folders E u (FDelete i) s = answer (DeleteSharedFolder E (Some u) i s)"

section \<open>What requests do to the folders\<close>

lemma folders_restart: "shared_folders (iw_db (restart_targets E u ts s)) = shared_folders (iw_db s)"
proof (induction E u ts s rule: restart_targets.induct)
  case (2 E user i title ts s)
  have "shared_folders (iw_db (restartInstanceAsync E inst user title m t)) = shared_folders (iw_db t)" for inst m and t :: "'a iworld"
    by (simp add: restartInstanceAsync_def Let_def upd_db_def upd_out_def start_task_def set_status_def update_instance_def)
  with 2 show ?case by (simp split: option.split)
qed simp

lemma check_update_None:
  assumes "check_folder_update cu sf b d = None"
  shows "case fu_MountPath b of None \<Rightarrow> True | Some p \<Rightarrow> isValidMountPath p \<and> \<not> mountPathTaken p (sf_ID sf) d"
    and "case fu_InstanceIDs b of None \<Rightarrow> True | Some ids \<Rightarrow> list_all (\<lambda>i. CanAccessInstance cu i d) ids"
    and "case fu_TeamIDs b of None \<Rightarrow> True | Some ids \<Rightarrow> list_all (\<lambda>i. CanManageTeam cu i d) ids"
  using assms
  by (auto simp: check_folder_update_def find_None_iff list_all_iff split: option.splits if_splits)

text \<open>Every request leaves the folders as they are, or adds one, changes one of the caller's, or deletes one.\<close>

lemma serve_folders_cases:
  obtains (same) "shared_folders (iw_db (snd (serve_folders E u q s))) = shared_folders (iw_db s)"
  | (added) name path where "isValidMountPath path" "\<not> mountPathTaken path 0 (iw_db s)"
      "shared_folders (iw_db (snd (serve_folders E u q s))) = shared_folders (iw_db s) @
         [\<lparr>sf_ID = next_row (iw_db s) ''shared_folders'', sf_Name = name, sf_MountPath = path, sf_OwnerID = user_ID u,
           sf_InstanceIDs = ''[]'', sf_TeamIDs = ''[]'', sf_CreatedAt = e_now E\<rparr>]"
  | (changed) sf b where "\<exists>j. q = FUpdate j (Some b)" "sf \<in> set (shared_folders (iw_db s))" "user_Role u = ''admin'' \<or> sf_OwnerID sf = user_ID u"
      "check_folder_update (Some u) sf b (iw_db s) = None"
      "shared_folders (iw_db (snd (serve_folders E u q s))) =
         map (\<lambda>x. if sf_ID x = sf_ID sf then write_folder_update b x else x) (shared_folders (iw_db s))"
  | (deleted) sf where "sf \<in> set (shared_folders (iw_db s))" "user_Role u = ''admin'' \<or> sf_OwnerID sf = user_ID u"
      "shared_folders (iw_db (snd (serve_folders E u q s))) = filter (\<lambda>x. sf_ID x \<noteq> sf_ID sf) (shared_folders (iw_db s))"
proof (cases q)
  case FList
  then show thesis using same by (simp add: answer_def ListSharedFolders_def)
next
  case (FCreate b)
  show thesis
  proof (cases b)
    case None
    then show thesis using same FCreate by (simp add: answer_def CreateSharedFolder_def)
  next
    case (Some np)
    obtain name path where np: "np = (name, path)" by (rule prod.exhaust)
    note b = FCreate Some np
    show thesis
    proof (cases "name = [] \<or> \<not> isValidMountPath path \<or> mountPathTaken path 0 (iw_db s)")
      case True
      then have "snd (serve_folders E u q s) = s"
        by (auto simp: b answer_def CreateSharedFolder_def)
      then show thesis using same by simp
    next
      case False
      then have ok: "name \<noteq> []" "isValidMountPath path" "\<not> mountPathTaken path 0 (iw_db s)" by simp_all
      then show thesis
        by (intro added[OF ok(2,3), of name]) (simp add: b answer_def CreateSharedFolder_def create_row_def Let_def)
    qed
  qed
next
  case (FGet i)
  then show thesis using same by (simp add: answer_def GetSharedFolderHandler_def with_folder_def split: option.splits)
next
  case (FUpdate i b)
  show thesis
  proof (cases "\<exists>n sf b1. atoi i = Some n \<and> GetSharedFolder (uint_of n) (iw_db s) = Some sf \<and> b = Some b1 \<and>
      (user_Role u = ''admin'' \<or> sf_OwnerID sf = user_ID u) \<and> check_folder_update (Some u) sf b1 (iw_db s) = None")
    case True
    then obtain n sf b1 where ok: "atoi i = Some n" "GetSharedFolder (uint_of n) (iw_db s) = Some sf" "b = Some b1"
      "user_Role u = ''admin'' \<or> sf_OwnerID sf = user_ID u" "check_folder_update (Some u) sf b1 (iw_db s) = None" by blast
    have "shared_folders (iw_db (snd (serve_folders E u q s))) =
         map (\<lambda>x. if sf_ID x = sf_ID sf then write_folder_update b1 x else x) (shared_folders (iw_db s))"
      using ok
      by (cases "user_Role u = ''admin''") (simp_all add: FUpdate answer_def UpdateSharedFolder_def with_folder_def Let_def folders_restart upd_db_def
          db_UpdateSharedFolder_def update_row_def)
    moreover have "sf \<in> set (shared_folders (iw_db s))"
      using ok(2) folders_tab.first_mem by (auto simp: GetSharedFolder_def)
    moreover have "\<exists>j. q = FUpdate j (Some b1)" using FUpdate ok(3) by simp
    ultimately show thesis using changed ok by blast
  next
    case False
    then have "snd (serve_folders E u q s) = s"
      by (auto simp: FUpdate answer_def UpdateSharedFolder_def with_folder_def split: option.splits)
    then show thesis using same by simp
  qed
next
  case (FDelete i)
  show thesis
  proof (cases "\<exists>n sf. atoi i = Some n \<and> GetSharedFolder (uint_of n) (iw_db s) = Some sf \<and>
      (user_Role u = ''admin'' \<or> sf_OwnerID sf = user_ID u)")
    case True
    then obtain n sf where ok: "atoi i = Some n" "GetSharedFolder (uint_of n) (iw_db s) = Some sf"
      "user_Role u = ''admin'' \<or> sf_OwnerID sf = user_ID u" by blast
    have "shared_folders (iw_db (snd (serve_folders E u q s))) = filter (\<lambda>x. sf_ID x \<noteq> sf_ID sf) (shared_folders (iw_db s))"
      using ok
      by (cases "user_Role u = ''admin''") (simp_all add: FDelete answer_def DeleteSharedFolder_def with_folder_def Let_def folders_restart upd_db_def delete_row_def)
    moreover have "sf \<in> set (shared_folders (iw_db s))"
      using ok(2) folders_tab.first_mem by (auto simp: GetSharedFolder_def)
    ultimately show thesis using deleted ok by blast
  next
    case False
    then have "snd (serve_folders E u q s) = s"
      by (auto simp: FDelete answer_def DeleteSharedFolder_def with_folder_def split: option.splits)
    then show thesis using same by simp
  qed
qed

text \<open>A request moves no instance to another team: it only marks some as restarting.\<close>

lemma find_team_map:
  assumes "\<And>x. inst_ID (f x) = inst_ID x" "\<And>x. inst_TeamID (f x) = inst_TeamID x"
  shows "map_option inst_TeamID (List.find (\<lambda>x. inst_ID x = i) (map f xs)) = map_option inst_TeamID (List.find (\<lambda>x. inst_ID x = i) xs)"
  using assms by (induction xs) auto

lemma team_restart: "map_option inst_TeamID (GetInstance i (iw_db (restart_targets E u ts s))) = map_option inst_TeamID (GetInstance i (iw_db s))"
proof (induction E u ts s rule: restart_targets.induct)
  case (2 E user j title ts s)
  have "map_option inst_TeamID (GetInstance i (iw_db (restartInstanceAsync E inst user title m t))) = map_option inst_TeamID (GetInstance i (iw_db t))"
    for inst m and t :: "'a iworld"
    by (auto simp: restartInstanceAsync_def Let_def upd_db_def upd_out_def start_task_def set_status_def update_instance_def
        GetInstance_def intro!: find_team_map)
  with 2 show ?case by (simp split: option.split)
qed simp

lemma folder_rows_instances [simp]: "instances (shared_folders_update f d) = instances d"
  by simp

lemma team_kept: "map_option inst_TeamID (GetInstance i (iw_db (snd (serve_folders E u q s)))) = map_option inst_TeamID (GetInstance i (iw_db s))"
proof (cases q)
  case (FUpdate j b)
  then show ?thesis
    by (auto simp: answer_def UpdateSharedFolder_def with_folder_def Let_def team_restart upd_db_def db_UpdateSharedFolder_def
        update_row_def GetInstance_def [of _ "shared_folders_update _ _"] split: option.split)
      (simp_all add: GetInstance_def)
next
  case (FDelete j)
  then show ?thesis
    by (auto simp: answer_def DeleteSharedFolder_def with_folder_def Let_def team_restart upd_db_def delete_row_def
        split: option.split) (simp_all add: GetInstance_def)
next
  case (FCreate b)
  then show ?thesis
    by (auto simp: answer_def CreateSharedFolder_def create_row_def Let_def split: option.split) (simp_all add: GetInstance_def)
qed (auto simp: answer_def ListSharedFolders_def GetSharedFolderHandler_def with_folder_def split: option.split)

section \<open>Mount paths stay apart\<close>

definition mount_paths_ok :: "db \<Rightarrow> bool" where
  "mount_paths_ok d \<longleftrightarrow> distinct (map sf_MountPath (shared_folders d)) \<and> list_all isValidMountPath (map sf_MountPath (shared_folders d))"

definition folder_requests :: "('w ienv \<times> User \<times> folder_request) list \<Rightarrow> 'w iworld \<Rightarrow> 'w iworld" where
  "folder_requests qs s = foldl (\<lambda>t (E, u, q). snd (serve_folders E u q t)) s qs"

lemma write_keeps_id [simp]: "sf_ID (write_folder_update b x) = sf_ID x"
  by (simp add: write_folder_update_def)

lemma write_path: "sf_MountPath (write_folder_update b x) = (case fu_MountPath b of None \<Rightarrow> sf_MountPath x | Some p \<Rightarrow> p)"
  by (simp add: write_folder_update_def)

lemma not_taken:
  "\<not> mountPathTaken p i d \<Longrightarrow> x \<in> set (shared_folders d) \<Longrightarrow> sf_MountPath x = p \<Longrightarrow> sf_ID x = i"
  by (auto simp: mountPathTaken_def list_ex_iff)

lemma distinct_map_update:
  assumes "distinct (map key xs)" "distinct (map val xs)" "\<And>x. x \<in> set xs \<Longrightarrow> val x = v \<Longrightarrow> key x = i" "\<And>x. val (f x) = v"
  shows "distinct (map val (map (\<lambda>x. if key x = i then f x else x) xs))"
  using assms(1-3)
proof (induction xs)
  case (Cons y ys)
  then show ?case using assms(4) by (auto simp: image_iff)
qed simp

lemma table_restart:
  "table_ok ''shared_folders'' shared_folders sf_ID (iw_db (restart_targets E u ts s))
   \<longleftrightarrow> table_ok ''shared_folders'' shared_folders sf_ID (iw_db s)"
proof -
  have "next_row (iw_db (restart_targets E u ts s)) = next_row (iw_db s)"
  proof (induction E u ts s rule: restart_targets.induct)
    case (2 E user j title ts s)
    have "next_row (iw_db (restartInstanceAsync E inst user title m t)) = next_row (iw_db t)" for inst m and t :: "'a iworld"
      by (simp add: restartInstanceAsync_def Let_def upd_db_def upd_out_def start_task_def set_status_def update_instance_def)
    with 2 show ?case by (simp split: option.split)
  qed simp
  then show ?thesis by (simp add: table_ok_def folders_restart)
qed

lemma folder_table_kept:
  assumes "table_ok ''shared_folders'' shared_folders sf_ID (iw_db s)"
  shows "table_ok ''shared_folders'' shared_folders sf_ID (iw_db (snd (serve_folders E u q s)))"
proof (cases q)
  case (FUpdate j b)
  then show ?thesis
    using assms by (auto simp: answer_def UpdateSharedFolder_def with_folder_def Let_def table_restart upd_db_def
        db_UpdateSharedFolder_def folders_tab.update_ok split: option.split)
next
  case (FDelete j)
  then show ?thesis
    using assms by (auto simp: answer_def DeleteSharedFolder_def with_folder_def Let_def table_restart upd_db_def
        folders_tab.delete_ok split: option.split)
next
  case (FCreate b)
  let ?mk = "\<lambda>name path i. \<lparr>sf_ID = i, sf_Name = name, sf_MountPath = path, sf_OwnerID = user_ID u, sf_InstanceIDs = ''[]'',
    sf_TeamIDs = ''[]'', sf_CreatedAt = e_now E\<rparr>"
  have "table_ok ''shared_folders'' shared_folders sf_ID
      (snd (create_row ''shared_folders'' shared_folders shared_folders_update (?mk name path) (iw_db s)))" for name path
    using assms by (rule folders_tab.create_ok) simp
  with assms FCreate show ?thesis
    by (auto simp: answer_def CreateSharedFolder_def Let_def case_prod_beta split: option.split)
qed (use assms in \<open>auto simp: answer_def ListSharedFolders_def GetSharedFolderHandler_def with_folder_def split: option.split\<close>)

lemma mount_paths_step:
  assumes "table_ok ''shared_folders'' shared_folders sf_ID (iw_db s)" "mount_paths_ok (iw_db s)"
  shows "mount_paths_ok (iw_db (snd (serve_folders E u q s)))"
proof (rule serve_folders_cases [of E u q s])
  show ?thesis if "shared_folders (iw_db (snd (serve_folders E u q s))) = shared_folders (iw_db s)"
    using that assms(2) by (simp add: mount_paths_ok_def)
next
  fix name path
  assume new: "isValidMountPath path" "\<not> mountPathTaken path 0 (iw_db s)"
    "shared_folders (iw_db (snd (serve_folders E u q s))) = shared_folders (iw_db s) @
         [\<lparr>sf_ID = next_row (iw_db s) ''shared_folders'', sf_Name = name, sf_MountPath = path, sf_OwnerID = user_ID u,
           sf_InstanceIDs = ''[]'', sf_TeamIDs = ''[]'', sf_CreatedAt = e_now E\<rparr>]"
  have "path \<notin> sf_MountPath ` set (shared_folders (iw_db s))" using new(2) by (auto simp: mountPathTaken_def list_ex_iff)
  with new assms(2) show ?thesis by (simp add: mount_paths_ok_def)
next
  fix sf b
  assume ch: "check_folder_update (Some u) sf b (iw_db s) = None"
    "shared_folders (iw_db (snd (serve_folders E u q s))) =
         map (\<lambda>x. if sf_ID x = sf_ID sf then write_folder_update b x else x) (shared_folders (iw_db s))"
  show ?thesis
  proof (cases "fu_MountPath b")
    case None
    then have "sf_MountPath (if sf_ID x = sf_ID sf then write_folder_update b x else x) = sf_MountPath x" for x
      by (simp add: write_path)
    then have "map sf_MountPath (map (\<lambda>x. if sf_ID x = sf_ID sf then write_folder_update b x else x) (shared_folders (iw_db s)))
        = map sf_MountPath (shared_folders (iw_db s))" by (simp only: map_map comp_def)
    then show ?thesis using assms(2) unfolding mount_paths_ok_def ch(2) by (simp only:)
  next
    case (Some p)
    then have p: "isValidMountPath p" "\<not> mountPathTaken p (sf_ID sf) (iw_db s)"
      using check_update_None(1) [OF ch(1)] by simp_all
    have "distinct (map sf_MountPath (map (\<lambda>x. if sf_ID x = sf_ID sf then write_folder_update b x else x) (shared_folders (iw_db s))))"
      using assms not_taken [OF p(2)] Some
      by (intro distinct_map_update [where v = p]) (simp_all add: table_ok_def mount_paths_ok_def write_path)
    then show ?thesis
      using assms(2) p(1) Some unfolding mount_paths_ok_def ch(2) by (auto simp: list_all_iff write_path)
  qed
next
  fix sf
  assume "shared_folders (iw_db (snd (serve_folders E u q s))) = filter (\<lambda>x. sf_ID x \<noteq> sf_ID sf) (shared_folders (iw_db s))"
  then show ?thesis using assms(2) by (simp add: mount_paths_ok_def distinct_map_filter list_all_iff)
qed


section \<open>Whom a folder reaches\<close>

lemma covers_write:
  assumes "check_folder_update (Some u) sf b d = None" "\<not> CanAccessInstance (Some u) i d"
    and team: "t = (case map_option inst_TeamID (GetInstance i d) of None \<Rightarrow> 0 | Some t \<Rightarrow> t)"
    and ids: "list_all (\<lambda>j. j < 2 ^ 64) (case fu_InstanceIDs b of None \<Rightarrow> [] | Some ids \<Rightarrow> ids)"
      "list_all (\<lambda>j. j < 2 ^ 64) (case fu_TeamIDs b of None \<Rightarrow> [] | Some ids \<Rightarrow> ids)"
    and covers: "folder_covers i t (write_folder_update b x)"
  shows "folder_covers i t x"
proof -
  have no_team: "\<not> CanManageTeam (Some u) t d" if "t \<noteq> 0"
    using that assms(2) team
    by (auto simp: CanAccessInstance_def CanManageTeam_def IsTeamManager_def Let_def split: option.splits if_splits)
  have "i \<in> set (ParseTeamIDs (sf_InstanceIDs x))" if "i \<in> set (ParseTeamIDs (sf_InstanceIDs (write_folder_update b x)))"
    using that ids(1) check_update_None(2) [OF assms(1)] assms(2)
    by (auto simp: write_folder_update_def team_ids_roundtrip list_all_iff split: option.splits)
  moreover have "t \<in> set (ParseTeamIDs (sf_TeamIDs x))" if "t \<noteq> 0" "t \<in> set (ParseTeamIDs (sf_TeamIDs (write_folder_update b x)))"
    using that ids(2) check_update_None(3) [OF assms(1)] no_team
    by (auto simp: write_folder_update_def team_ids_roundtrip list_all_iff split: option.splits)
  ultimately show ?thesis using covers by (auto simp: folder_covers_def)
qed

text \<open>The ids in a request are unsigned 64-bit numbers, as decoding gives them.\<close>

fun folder_request_ok :: "folder_request \<Rightarrow> bool" where
  "folder_request_ok (FUpdate i (Some b)) \<longleftrightarrow>
     list_all (\<lambda>j. j < 2 ^ 64) (case fu_InstanceIDs b of None \<Rightarrow> [] | Some ids \<Rightarrow> ids) \<and>
     list_all (\<lambda>j. j < 2 ^ 64) (case fu_TeamIDs b of None \<Rightarrow> [] | Some ids \<Rightarrow> ids)"
| "folder_request_ok _ \<longleftrightarrow> True"

text \<open>C20: A user cannot mount a folder into an instance the user has no access to: after any request to the routes of
  shared folders, by whatever user, the folders mounted in such an instance are folders that were mounted there before
  (possibly at another path).\<close>

theorem foreign_instance_gets_no_folder:
  assumes "\<not> CanAccessInstance (Some u) i (iw_db s)" "folder_request_ok q"
  shows "sf_ID ` set (GetSharedFoldersForInstance i (iw_db (snd (serve_folders E u q s))))
    \<subseteq> sf_ID ` set (GetSharedFoldersForInstance i (iw_db s))"
proof -
  define t where "t = (case map_option inst_TeamID (GetInstance i (iw_db s)) of None \<Rightarrow> 0 | Some t \<Rightarrow> t)"
  have mounted: "GetSharedFoldersForInstance i d = filter (folder_covers i t) (shared_folders d)"
    if "map_option inst_TeamID (GetInstance i d) = map_option inst_TeamID (GetInstance i (iw_db s))" for d
    using that by (auto simp: GetSharedFoldersForInstance_def t_def split: option.splits)
  let ?fs = "shared_folders (iw_db s)" and ?fs' = "shared_folders (iw_db (snd (serve_folders E u q s)))"
  have "sf_ID ` set (filter (folder_covers i t) ?fs') \<subseteq> sf_ID ` set (filter (folder_covers i t) ?fs)"
  proof (rule serve_folders_cases [of E u q s])
    fix sf b
    assume ch: "\<exists>j. q = FUpdate j (Some b)" "check_folder_update (Some u) sf b (iw_db s) = None"
      "?fs' = map (\<lambda>x. if sf_ID x = sf_ID sf then write_folder_update b x else x) ?fs"
    have ids: "list_all (\<lambda>j. j < 2 ^ 64) (case fu_InstanceIDs b of None \<Rightarrow> [] | Some ids \<Rightarrow> ids)"
      "list_all (\<lambda>j. j < 2 ^ 64) (case fu_TeamIDs b of None \<Rightarrow> [] | Some ids \<Rightarrow> ids)"
      using ch(1) assms(2) by (auto split: option.splits)
    have "sf_ID (if sf_ID x = sf_ID sf then write_folder_update b x else x) = sf_ID x \<and> folder_covers i t x"
      if "folder_covers i t (if sf_ID x = sf_ID sf then write_folder_update b x else x)" for x
      using that covers_write [OF ch(2) assms(1) t_def ids, of x] by (simp split: if_splits)
    note kept = this
    show ?thesis unfolding ch(3)
    proof
      fix k assume "k \<in> sf_ID ` set (filter (folder_covers i t)
        (map (\<lambda>x. if sf_ID x = sf_ID sf then write_folder_update b x else x) ?fs))"
      then obtain x where "x \<in> set ?fs" "k = sf_ID (if sf_ID x = sf_ID sf then write_folder_update b x else x)"
        "folder_covers i t (if sf_ID x = sf_ID sf then write_folder_update b x else x)" by auto
      with kept [OF this(3)] show "k \<in> sf_ID ` set (filter (folder_covers i t) ?fs)" by simp
    qed
  qed (auto simp: folder_covers_def ParseTeamIDs_def)
  then show ?thesis using mounted [OF team_kept] mounted [OF refl] by (simp only:)
qed


theorem foreign_instance_gets_no_folder_witness:
  "sf_ID ` set (GetSharedFoldersForInstance 7 (iw_db (snd (serve_folders sample_env user5 (FUpdate ''9'' (Some
      \<lparr>fu_Name = None, fu_MountPath = None, fu_InstanceIDs = Some [7], fu_TeamIDs = Some [2]\<rparr>)) sample_instances))))
    \<subseteq> sf_ID ` set (GetSharedFoldersForInstance 7 (iw_db sample_instances))"
  by (rule foreign_instance_gets_no_folder) (simp_all add: sample_no_access)

end
