(* ===== verification/AuditLog.thy ===== *)
theory AuditLog imports EventLog Web begin

text \<open>
  \<^verbatim>\<open>control-plane/internal/sshaudit/audit.go\<close> and \<^verbatim>\<open>handlers/audit.go\<close>: the table of audit entries, its pages
  and its retention, and what \<^verbatim>\<open>main.go\<close> makes of the SSH manager's events.  A day is a \<open>Duration\<close> of
  64-bit nanoseconds, so that a retention can wrap around.
\<close>

section \<open>Entries\<close>

record AuditEntry =
  ae_ID :: nat
  ae_EventType :: string
  ae_InstanceID :: nat
  ae_User :: string
  ae_Details :: string
  ae_CreatedAt :: gtime

record Auditor =
  au_entries :: "AuditEntry list"
  au_next :: nat
  au_retentionDays :: int

definition EventConnection :: string where "EventConnection = ''connection''"
definition EventDisconnection :: string where "EventDisconnection = ''disconnection''"
definition EventCommandExec :: string where "EventCommandExec = ''command_exec''"
definition EventFileOperation :: string where "EventFileOperation = ''file_operation''"
definition EventTerminalSession :: string where "EventTerminalSession = ''terminal_session''"
definition EventKeyUpload :: string where "EventKeyUpload = ''key_upload''"
definition EventKeyRotation :: string where "EventKeyRotation = ''key_rotation''"

definition audit_Log :: "gtime \<Rightarrow> string \<Rightarrow> nat \<Rightarrow> string \<Rightarrow> string \<Rightarrow> Auditor \<Rightarrow> Auditor" where
  "audit_Log now eventType inst user details a =
     a\<lparr>au_entries := au_entries a @ [\<lparr>ae_ID = au_next a, ae_EventType = eventType, ae_InstanceID = inst, ae_User = user,
         ae_Details = details, ae_CreatedAt = now\<rparr>], au_next := au_next a + 1\<rparr>"

definition LogConnection :: "gtime \<Rightarrow> nat \<Rightarrow> string \<Rightarrow> string \<Rightarrow> Auditor \<Rightarrow> Auditor" where
  "LogConnection now inst user details = audit_Log now EventConnection inst user details"
definition LogDisconnection :: "gtime \<Rightarrow> nat \<Rightarrow> string \<Rightarrow> string \<Rightarrow> Auditor \<Rightarrow> Auditor" where
  "LogDisconnection now inst user details = audit_Log now EventDisconnection inst user details"
definition LogFileOperation :: "gtime \<Rightarrow> nat \<Rightarrow> string \<Rightarrow> string \<Rightarrow> Auditor \<Rightarrow> Auditor" where
  "LogFileOperation now inst user details = audit_Log now EventFileOperation inst user details"
definition LogKeyUpload :: "gtime \<Rightarrow> nat \<Rightarrow> string \<Rightarrow> Auditor \<Rightarrow> Auditor" where
  "LogKeyUpload now inst details = audit_Log now EventKeyUpload inst ''system'' details"

definition SetRetentionDays :: "int \<Rightarrow> Auditor \<Rightarrow> Auditor" where
  "SetRetentionDays days a = a\<lparr>au_retentionDays := days\<rparr>"

text \<open>The listener that the server registers for the SSH manager's events.\<close>

definition audit_event :: "gtime \<Rightarrow> ConnectionEvent \<Rightarrow> Auditor \<Rightarrow> Auditor" where
  "audit_event now ev a =
     (if ev_Type ev = EventConnected \<or> ev_Type ev = EventReconnected
      then LogConnection now (ev_InstanceID ev) ''system'' (ev_Details ev) a
      else if ev_Type ev = EventDisconnected then LogDisconnection now (ev_InstanceID ev) ''system'' (ev_Details ev) a
      else if ev_Type ev = EventKeyUploaded then LogKeyUpload now (ev_InstanceID ev) (ev_Details ev) a
      else a)"

text \<open>The retention at the start: a positive number from the settings, otherwise 90 days.\<close>

definition initial_retention :: "string option \<Rightarrow> int" where
  "initial_retention setting =
     (case setting of
        None \<Rightarrow> 90
      | Some s \<Rightarrow> (case atoi s of None \<Rightarrow> 90 | Some d \<Rightarrow> if 0 < d then d else 90))"

definition getUsername :: "User option \<Rightarrow> string" where
  "getUsername cu = (case cu of None \<Rightarrow> ''unknown'' | Some u \<Rightarrow> Username u)"

section \<open>Pages\<close>

record QueryOptions =
  qo_InstanceID :: "nat option"
  qo_EventType :: "string option"
  qo_Limit :: int
  qo_Offset :: int

definition audit_matches :: "QueryOptions \<Rightarrow> AuditEntry \<Rightarrow> bool" where
  "audit_matches opts e \<longleftrightarrow>
     (case qo_InstanceID opts of None \<Rightarrow> True | Some i \<Rightarrow> ae_InstanceID e = i) \<and>
     (case qo_EventType opts of None \<Rightarrow> True | Some t \<Rightarrow> ae_EventType e = t)"

definition audit_rows :: "QueryOptions \<Rightarrow> Auditor \<Rightarrow> AuditEntry list" where
  \<comment> \<open>newest first; where times are equal the database's order is not fixed, here the later entry comes first\<close>
  "audit_rows opts a = rev (sort_key ae_CreatedAt (filter (audit_matches opts) (au_entries a)))"

definition audit_Query :: "QueryOptions \<Rightarrow> Auditor \<Rightarrow> AuditEntry list \<times> nat" where
  "audit_Query opts a =
     (let rows = audit_rows opts a; limit = (if qo_Limit opts \<le> 0 then 100 else qo_Limit opts)
      in (take (nat limit) (drop (nat (qo_Offset opts)) rows), length rows))"

text \<open>\<open>strconv.ParseUint\<close> in base 10, of 64 bits.\<close>

definition parse_uint :: "string \<Rightarrow> nat option" where
  "parse_uint s = (if s \<noteq> [] \<and> list_all (\<lambda>c. digit_val c \<noteq> None) s \<and> dec_value s < 2 ^ 64 then Some (dec_value s) else None)"

text \<open>The query parameters are their texts, empty when missing.\<close>

definition GetAuditLogs ::
    "string \<Rightarrow> string \<Rightarrow> string \<Rightarrow> string \<Rightarrow> Auditor option \<Rightarrow> (AuditEntry list \<times> nat) reply" where
  "GetAuditLogs idStr et limitStr offsetStr auditor =
     (case auditor of
        None \<Rightarrow> Fail 503 ''Audit logging not initialized''
      | Some a \<Rightarrow>
          if idStr \<noteq> [] \<and> parse_uint idStr = None then Fail 400 ''Invalid instance_id''
          else if limitStr \<noteq> [] \<and> (case atoi limitStr of None \<Rightarrow> True | Some l \<Rightarrow> l < 1) then Fail 400 ''Invalid limit''
          else if offsetStr \<noteq> [] \<and> (case atoi offsetStr of None \<Rightarrow> True | Some l \<Rightarrow> l < 0) then Fail 400 ''Invalid offset''
          else
            Reply 200 (audit_Query
              \<lparr>qo_InstanceID = (if idStr = [] then None else parse_uint idStr),
               qo_EventType = (if et = [] then None else Some et),
               qo_Limit = (case atoi limitStr of None \<Rightarrow> 0 | Some l \<Rightarrow> if 1000 < l then 1000 else l),
               qo_Offset = (case atoi offsetStr of None \<Rightarrow> 0 | Some l \<Rightarrow> l)\<rparr> a))"

section \<open>Retention\<close>

definition duration_days :: "int \<Rightarrow> int" where
  \<comment> \<open>\<open>time.Duration(days) * 24 * time.Hour\<close>\<close>
  "duration_days days = (days * 86400000000000 + 2 ^ 63) mod 2 ^ 64 - 2 ^ 63"

definition PurgeOlderThan :: "gtime \<Rightarrow> int \<Rightarrow> Auditor \<Rightarrow> nat \<times> Auditor" where
  "PurgeOlderThan now d a =
     (let old = (\<lambda>e. ae_CreatedAt e < now - d)
      in (length (filter old (au_entries a)), a\<lparr>au_entries := filter (\<lambda>e. \<not> old e) (au_entries a)\<rparr>))"

definition retention_tick :: "gtime \<Rightarrow> Auditor \<Rightarrow> Auditor" where
  \<comment> \<open>the body of the daily loop\<close>
  "retention_tick now a =
     (if au_retentionDays a \<le> 0 then a else snd (PurgeOlderThan now (duration_days (au_retentionDays a)) a))"

section \<open>What pages and retention do\<close>

lemma duration_days_exact: "0 \<le> days \<Longrightarrow> days \<le> 106751 \<Longrightarrow> duration_days days = days * 86400000000000"
  by (simp add: duration_days_def)

lemma take_pages: "concat (map (\<lambda>k. take n (drop (k * n) xs)) [0..<m]) = take (m * n) xs"
proof (induction m)
  case (Suc m)
  then show ?case using take_add [of "m * n" n xs] by (simp add: add.commute [of n "m * n"])
qed simp

text \<open>Reading page after page gives each matching entry once, newest first.\<close>

theorem audit_pages_complete:
  assumes "0 < n" "length (audit_rows opts a) \<le> m * n"
  shows "concat (map (\<lambda>k. fst (audit_Query (opts\<lparr>qo_Limit := int n, qo_Offset := int (k * n)\<rparr>) a)) [0..<m]) = audit_rows opts a"
proof -
  have rows: "audit_rows (opts\<lparr>qo_Limit := l, qo_Offset := off\<rparr>) a = audit_rows opts a" for l off
    by (simp add: audit_rows_def audit_matches_def [abs_def])
  have "fst (audit_Query (opts\<lparr>qo_Limit := int n, qo_Offset := int (k * n)\<rparr>) a) = take n (drop (k * n) (audit_rows opts a))" for k
    using assms(1) by (simp add: audit_Query_def Let_def rows nat_mult_distrib del: of_nat_mult)
  then show ?thesis using assms(2) take_pages [of n "audit_rows opts a" m] by simp
qed

text \<open>The daily clean-up keeps exactly the entries of the last days, up to a retention of 106751 days; a longer one
  wraps around, and 200000 days delete everything that has been written so far.\<close>

theorem retention_exact:
  assumes "0 < au_retentionDays a" "au_retentionDays a \<le> 106751"
  shows "au_entries (retention_tick now a) =
    filter (\<lambda>e. now - au_retentionDays a * 86400000000000 \<le> ae_CreatedAt e) (au_entries a)"
  using assms by (simp add: retention_tick_def PurgeOlderThan_def duration_days_exact Let_def not_less)

theorem long_retention_deletes_all:
  assumes "au_retentionDays a = 200000" "\<forall>e \<in> set (au_entries a). ae_CreatedAt e \<le> now"
  shows "au_entries (retention_tick now a) = []"
proof -
  have "duration_days 200000 < 0" by (simp add: duration_days_def)
  then show ?thesis
    using assms by (auto simp: retention_tick_def PurgeOlderThan_def Let_def filter_empty_conv)
qed

end
