(* ===== verification/KeyRotation.thy ===== *)
theory KeyRotation imports AuditLog SshManager RemoteFiles begin

text \<open>
  The rotation of the control plane's SSH key: \<^verbatim>\<open>control-plane/internal/sshkeys/rotation.go\<close>, the key files of
  \<^verbatim>\<open>sshproxy/keys.go\<close>, \<open>configureSSHAccess\<close> of \<^verbatim>\<open>orchestrator/common.go\<close> and \<^verbatim>\<open>handlers/rotation.go\<close>.  The
  container backend's exec, the connection test, the crypto library and the outcome of each write to the disk are
  arguments.  The goroutines of a rotation work on one instance each; here they run one after the other.
\<close>

section \<open>Key files\<close>

type_synonym disk = "string \<rightharpoonup> string"

datatype write_outcome = Wrote | Refused | Cut string

text \<open>A write that fails has opened nothing, or leaves some text in the file.\<close>

fun write_file :: "write_outcome \<Rightarrow> string \<Rightarrow> string \<Rightarrow> disk \<Rightarrow> bool \<times> disk" where
  "write_file Wrote p c d = (True, d(p \<mapsto> c))"
| "write_file Refused p c d = (False, d)"
| "write_file (Cut left) p c d = (False, d(p \<mapsto> left))"

definition privateKeyFile :: string where "privateKeyFile = ''ssh_key''"
definition publicKeyFile :: string where "publicKeyFile = ''ssh_key.pub''"
definition backupPriv :: string where "backupPriv = ''ssh_key.old''"
definition backupPub :: string where "backupPub = ''ssh_key.pub.old''"

lemmas key_files = privateKeyFile_def publicKeyFile_def backupPriv_def backupPub_def

text \<open>An exec of the backend: an error, or what it printed on stderr and its exit code.\<close>

type_synonym 'w rexec = "string \<Rightarrow> string list \<Rightarrow> 'w \<Rightarrow> (string + string \<times> int) \<times> 'w"

record 'w kenv =
  k_now :: gtime
  k_orch :: bool
  k_stamp :: "gtime \<Rightarrow> string"
  k_parse_time :: "string \<Rightarrow> gtime option"
  k_generate :: "string + string \<times> string"
  k_parse :: "string \<Rightarrow> string + signer"
  k_fingerprint :: "signer \<Rightarrow> string"
  k_write :: "string \<Rightarrow> string \<Rightarrow> write_outcome"
  k_unreadable :: "string \<Rightarrow> bool"
  k_stuck :: "string \<Rightarrow> bool"
  k_exec :: "'w rexec"
  k_address :: "nat \<Rightarrow> 'w \<Rightarrow> (string + string \<times> int) \<times> 'w"
  k_test :: "signer \<Rightarrow> string \<Rightarrow> int \<Rightarrow> 'w \<Rightarrow> string option \<times> 'w"
  k_show_int :: "int \<Rightarrow> string"

definition put_file :: "'w kenv \<Rightarrow> string \<Rightarrow> string \<Rightarrow> disk \<Rightarrow> bool \<times> disk" where
  "put_file E p c d = write_file (k_write E p c) p c d"

definition remove_file :: "'w kenv \<Rightarrow> string \<Rightarrow> disk \<Rightarrow> disk" where
  "remove_file E p d = (if k_stuck E p then d else d(p := None))"

definition SaveKeyPair :: "'w kenv \<Rightarrow> string \<Rightarrow> string \<Rightarrow> disk \<Rightarrow> string option \<times> disk" where
  "SaveKeyPair E priv pub d =
     (case put_file E privateKeyFile priv d of
        (False, d1) \<Rightarrow> (Some ''write private key'', d1)
      | (True, d1) \<Rightarrow>
          (case put_file E publicKeyFile pub d1 of
             (False, d2) \<Rightarrow> (Some ''write public key'', d2) | (True, d2) \<Rightarrow> (None, d2)))"

definition load_file :: "'w kenv \<Rightarrow> string \<Rightarrow> disk \<Rightarrow> string option" where
  "load_file E p d = (if k_unreadable E p then None else d p)"

definition KeyPairExists :: "disk \<Rightarrow> bool" where
  "KeyPairExists d \<longleftrightarrow> d privateKeyFile \<noteq> None \<and> d publicKeyFile \<noteq> None"

definition EnsureKeyPair :: "'w kenv \<Rightarrow> disk \<Rightarrow> (string + signer \<times> string) \<times> disk" where
  "EnsureKeyPair E d =
     andThen (if KeyPairExists d then (Inr (), d)
              else (case k_generate E of
                      Inl e \<Rightarrow> (Inl (''generate ssh key pair: '' @ e), d)
                    | Inr (pub, priv) \<Rightarrow>
                        (case SaveKeyPair E priv pub d of
                           (Some e, d1) \<Rightarrow> (Inl (''save ssh key pair: '' @ e), d1) | (None, d1) \<Rightarrow> (Inr (), d1))))
       (\<lambda>_ d1.
         case load_file E privateKeyFile d1 of
           None \<Rightarrow> (Inl ''load private key'', d1)
         | Some pem \<Rightarrow>
             (case k_parse E pem of
                Inl e \<Rightarrow> (Inl (''parse private key: '' @ e), d1)
              | Inr signer \<Rightarrow>
                  (case load_file E publicKeyFile d1 of
                     None \<Rightarrow> (Inl ''load public key'', d1) | Some pub \<Rightarrow> (Inr (signer, pub), d1))))"

definition copyFile :: "'w kenv \<Rightarrow> string \<Rightarrow> string \<Rightarrow> disk \<Rightarrow> bool \<times> disk" where
  "copyFile E src dst d = (case load_file E src d of None \<Rightarrow> (False, d) | Some c \<Rightarrow> put_file E dst c d)"

definition restoreFile :: "'w kenv \<Rightarrow> string \<Rightarrow> string \<Rightarrow> disk \<Rightarrow> disk" where
  "restoreFile E src dst d = (case copyFile E src dst d of (False, d1) \<Rightarrow> d1 | (True, d1) \<Rightarrow> remove_file E src d1)"

section \<open>Keys on the instances\<close>

definition append_line :: "string \<Rightarrow> string" where
  "append_line pub = ''echo '' @ [CHR 0x27] @ base64_encode pub @ [CHR 0x27] @ '' | base64 -d >> /root/.ssh/authorized_keys''"

definition appendPublicKey :: "'w kenv \<Rightarrow> string \<Rightarrow> string \<Rightarrow> 'w \<Rightarrow> string option \<times> 'w" where
  "appendPublicKey E name pub w =
     (case k_exec E name [''sh'', ''-c'', append_line pub] w of
        (Inl e, w1) \<Rightarrow> (Some (''exec: '' @ e), w1)
      | (Inr (stderr, code), w1) \<Rightarrow>
          (if code \<noteq> 0 then Some (''exit code '' @ k_show_int E code @ '': '' @ stderr) else None, w1))"

definition mkdir_line :: string where
  "mkdir_line = ''mkdir -p /root/.ssh && chmod 700 /root/.ssh''"

definition replace_line :: "string \<Rightarrow> string" where
  "replace_line pub = ''echo '' @ [CHR 0x27] @ base64_encode pub @ [CHR 0x27]
     @ '' | base64 -d > /root/.ssh/authorized_keys && chmod 600 /root/.ssh/authorized_keys''"

definition configureSSHAccess :: "'w kenv \<Rightarrow> string \<Rightarrow> string \<Rightarrow> 'w \<Rightarrow> string option \<times> 'w" where
  "configureSSHAccess E name pub w =
     (case k_exec E name [''sh'', ''-c'', mkdir_line] w of
        (Inl e, w1) \<Rightarrow> (Some (''create .ssh directory: '' @ e), w1)
      | (Inr (stderr, code), w1) \<Rightarrow>
          if code \<noteq> 0 then (Some (''create .ssh directory: '' @ stderr), w1)
          else (case k_exec E name [''sh'', ''-c'', replace_line pub] w1 of
                  (Inl e, w2) \<Rightarrow> (Some (''write authorized_keys: '' @ e), w2)
                | (Inr (stderr, code), w2) \<Rightarrow>
                    (if code \<noteq> 0 then Some (''write authorized_keys: '' @ stderr) else None, w2)))"

definition ConfigureSSHAccess :: "'w kenv \<Rightarrow> db \<Rightarrow> nat \<Rightarrow> string \<Rightarrow> 'w \<Rightarrow> string option \<times> 'w" where
  "ConfigureSSHAccess E d i pub w =
     (case GetInstance i d of
        None \<Rightarrow> (Some (''instance '' @ show_nat i @ '' not found''), w)
      | Some inst \<Rightarrow> configureSSHAccess E (inst_Name inst) pub w)"

text \<open>The host keys that the connection test accepts, by their type.\<close>

definition verifyAgentHostKey :: "string \<Rightarrow> bool" where
  "verifyAgentHostKey keyType \<longleftrightarrow>
     keyType \<in> set [''ssh-ed25519'', ''ssh-rsa'', ''ecdsa-sha2-nistp256'', ''ecdsa-sha2-nistp384'', ''ecdsa-sha2-nistp521'']"

section \<open>The rotation\<close>

record InstanceInfo =
  ii_ID :: nat
  ii_Name :: string

record InstanceRotationStatus =
  rs_InstanceID :: nat
  rs_Name :: string
  rs_Success :: bool
  rs_Error :: string

record RotationResult =
  rr_OldFingerprint :: string
  rr_NewFingerprint :: string
  rr_Timestamp :: gtime
  rr_InstanceStatuses :: "InstanceRotationStatus list"
  rr_FullSuccess :: bool

record 'w kworld =
  kw_disk :: disk
  kw_mgr :: SSHManager
  kw_db :: db
  kw_audit :: "Auditor option"
  kw_out :: 'w

text \<open>Step 2: the new key is added on every instance.\<close>

fun append_keys :: "'w kenv \<Rightarrow> string \<Rightarrow> InstanceInfo list \<Rightarrow> 'w \<Rightarrow> InstanceRotationStatus list \<times> 'w" where
  "append_keys E pub [] w = ([], w)"
| "append_keys E pub (i # is) w =
     (case appendPublicKey E (ii_Name i) pub w of
        (err, w1) \<Rightarrow>
          (case append_keys E pub is w1 of
             (sts, w2) \<Rightarrow>
               (\<lparr>rs_InstanceID = ii_ID i, rs_Name = ii_Name i, rs_Success = False,
                 rs_Error = (case err of None \<Rightarrow> [] | Some e \<Rightarrow> ''append key: '' @ e)\<rparr> # sts, w2)))"

text \<open>Steps 6 and 7: the new key is tested, then it replaces the others; a failure to replace is only logged.\<close>

definition finalize_instance ::
    "'w kenv \<Rightarrow> db \<Rightarrow> signer \<Rightarrow> string \<Rightarrow> InstanceRotationStatus \<Rightarrow> 'w \<Rightarrow> InstanceRotationStatus \<times> 'w" where
  "finalize_instance E d signer pub st w =
     (if rs_Error st \<noteq> [] then (st, w)
      else
        case k_address E (rs_InstanceID st) w of
          (Inl e, w1) \<Rightarrow> (st\<lparr>rs_Error := ''get address: '' @ e\<rparr>, w1)
        | (Inr (host, port), w1) \<Rightarrow>
            (case k_test E signer host port w1 of
               (Some e, w2) \<Rightarrow> (st\<lparr>rs_Error := ''connection test: '' @ e\<rparr>, w2)
             | (None, w2) \<Rightarrow> (st\<lparr>rs_Success := True\<rparr>, snd (ConfigureSSHAccess E d (rs_InstanceID st) pub w2))))"

fun finalize_keys ::
    "'w kenv \<Rightarrow> db \<Rightarrow> signer \<Rightarrow> string \<Rightarrow> InstanceRotationStatus list \<Rightarrow> 'w \<Rightarrow> InstanceRotationStatus list \<times> 'w" where
  "finalize_keys E d signer pub [] w = ([], w)"
| "finalize_keys E d signer pub (st # sts) w =
     (case finalize_instance E d signer pub st w of
        (st1, w1) \<Rightarrow> (case finalize_keys E d signer pub sts w1 of (sts1, w2) \<Rightarrow> (st1 # sts1, w2)))"

definition RotateGlobalKeyPair :: "'w kenv \<Rightarrow> InstanceInfo list \<Rightarrow> 'w kworld \<Rightarrow> (string + RotationResult) \<times> 'w kworld" where
  "RotateGlobalKeyPair E insts s =
     (case k_generate E of
        Inl e \<Rightarrow> (Inl (''generate new key pair: '' @ e), s)
      | Inr (pub, priv) \<Rightarrow>
     (case k_parse E priv of
        Inl e \<Rightarrow> (Inl (''parse new private key: '' @ e), s)
      | Inr signer \<Rightarrow>
     (case append_keys E pub insts (kw_out s) of
        (sts, w1) \<Rightarrow>
     (case copyFile E privateKeyFile backupPriv (kw_disk s) of
        (False, d1) \<Rightarrow> (Inl ''backup private key'', s\<lparr>kw_disk := d1, kw_out := w1\<rparr>)
      | (True, d1) \<Rightarrow>
     (case copyFile E publicKeyFile backupPub d1 of
        (False, d2) \<Rightarrow> (Inl ''backup public key'', s\<lparr>kw_disk := remove_file E backupPriv d2, kw_out := w1\<rparr>)
      | (True, d2) \<Rightarrow>
     (case SaveKeyPair E priv pub d2 of
        (Some e, d3) \<Rightarrow>
          (Inl (''save new key pair: '' @ e),
           s\<lparr>kw_disk := restoreFile E backupPub publicKeyFile (restoreFile E backupPriv privateKeyFile d3), kw_out := w1\<rparr>)
      | (None, d3) \<Rightarrow>
     (case finalize_keys E (kw_db s) signer pub sts w1 of
        (sts1, w2) \<Rightarrow>
          let full = list_all rs_Success sts1;
              d4 = (if full then remove_file E backupPub (remove_file E backupPriv d3) else d3)
          in (Inr \<lparr>rr_OldFingerprint = k_fingerprint E (m_signer (kw_mgr s)), rr_NewFingerprint = k_fingerprint E signer,
                   rr_Timestamp = k_now E, rr_InstanceStatuses = sts1, rr_FullSuccess = full\<rparr>,
              s\<lparr>kw_disk := d4, kw_mgr := ReloadKeys signer pub (kw_mgr s), kw_out := w2\<rparr>))))))))"

section \<open>Handler and daily job\<close>

definition running_instances :: "db \<Rightarrow> InstanceInfo list" where
  "running_instances d = map (\<lambda>x. \<lparr>ii_ID = inst_ID x, ii_Name = inst_Name x\<rparr>) (filter (\<lambda>x. inst_Status x = ''running'') (instances d))"

definition audit_log :: "gtime \<Rightarrow> string \<Rightarrow> nat \<Rightarrow> string \<Rightarrow> string \<Rightarrow> Auditor option \<Rightarrow> Auditor option" where
  "audit_log now eventType i user details a = map_option (audit_Log now eventType i user details) a"

definition record_rotation :: "'w kenv \<Rightarrow> string \<Rightarrow> string \<Rightarrow> RotationResult \<Rightarrow> 'w kworld \<Rightarrow> 'w kworld" where
  "record_rotation E user intro r s =
     s\<lparr>kw_db := SetSetting ''ssh_key_last_rotation'' (k_stamp E (rr_Timestamp r)) (kw_db s),
       kw_audit := audit_log (k_now E) EventKeyRotation 0 user
         (intro @ ''old='' @ rr_OldFingerprint r @ '', new='' @ rr_NewFingerprint r @ '', instances='' @
          show_nat (length (filter rs_Success (rr_InstanceStatuses r))) @ ''/'' @ show_nat (length (rr_InstanceStatuses r)) @
          '' succeeded'') (kw_audit s)\<rparr>"

definition RotateSSHKey :: "'w kenv \<Rightarrow> User option \<Rightarrow> 'w kworld \<Rightarrow> RotationResult reply \<times> 'w kworld" where
  "RotateSSHKey E cu s =
     (if \<not> k_orch E then (orchestrator_unavailable, s)
      else
        case RotateGlobalKeyPair E (running_instances (kw_db s)) s of
          (Inl e, s1) \<Rightarrow> (Fail 500 (''Key rotation failed: '' @ e), s1)
        | (Inr r, s1) \<Rightarrow> (Reply 200 r, record_rotation E (getUsername cu) [] r s1))"

text \<open>\<open>time.Since\<close> of the zero time is the longest duration.\<close>

definition time_since :: "gtime \<Rightarrow> gtime option \<Rightarrow> int" where
  "time_since now t =
     (case t of None \<Rightarrow> 2 ^ 63 - 1 | Some x \<Rightarrow> max (- (2 ^ 63)) (min (2 ^ 63 - 1) (now - x)))"

definition rotation_due :: "'w kenv \<Rightarrow> db \<Rightarrow> bool" where
  "rotation_due E d \<longleftrightarrow>
     (case GetSetting ''ssh_key_rotation_policy_days'' d of
        None \<Rightarrow> False
      | Some policy \<Rightarrow>
     (case atoi policy of
        None \<Rightarrow> False
      | Some days \<Rightarrow>
          0 < days \<and>
          \<not> time_since (k_now E) (case GetSetting ''ssh_key_last_rotation'' d of
                None \<Rightarrow> None | Some l \<Rightarrow> if l = [] then None else k_parse_time E l) < duration_days days))"

definition checkAndRotateKeys :: "'w kenv \<Rightarrow> 'w kworld \<Rightarrow> 'w kworld" where
  "checkAndRotateKeys E s =
     (if \<not> k_orch E \<or> \<not> rotation_due E (kw_db s) then s
      else
        case RotateGlobalKeyPair E (running_instances (kw_db s)) s of
          (Inl e, s1) \<Rightarrow> s1
        | (Inr r, s1) \<Rightarrow> record_rotation E ''system'' ''auto-rotation: '' r s1)"

section \<open>When the job rotates\<close>

text \<open>With a policy of up to 106751 days the job rotates exactly when the last rotation is at least that long ago, or
  was never recorded; a longer policy wraps around, and one of 200000 days rotates every day.\<close>

theorem rotation_due_iff:
  assumes "GetSetting ''ssh_key_rotation_policy_days'' d = Some policy" "atoi policy = Some days" "0 < days" "days \<le> 106751"
    and "GetSetting ''ssh_key_last_rotation'' d = Some stamp" "stamp \<noteq> []" "k_parse_time E stamp = Some t"
  shows "rotation_due E d \<longleftrightarrow> t + days * 86400000000000 \<le> k_now E"
proof -
  have "days * 86400000000000 \<le> 2 ^ 63 - 1" using assms(4) by simp
  then show ?thesis
    using assms by (auto simp: rotation_due_def duration_days_exact time_since_def)
qed

theorem long_policy_always_due:
  assumes "GetSetting ''ssh_key_rotation_policy_days'' d = Some policy" "atoi policy = Some 200000"
    and "GetSetting ''ssh_key_last_rotation'' d = Some stamp" "stamp \<noteq> []" "k_parse_time E stamp = Some t" "t \<le> k_now E"
  shows "rotation_due E d"
  using assms by (auto simp: rotation_due_def duration_days_def time_since_def)

section \<open>A reference instance\<close>

text \<open>
  Files by instance; a line of the root shell is run part by part, as far as the parts succeed.  An exec may also not
  reach the instance, run without being heard of, or break after some bytes have been written.
\<close>

datatype exec_outcome = Runs | Unreached string | Unheard string | Breaks nat string int

type_synonym agents = "string \<Rightarrow> files"

definition keys_path :: string where "keys_path = ''/root/.ssh/authorized_keys''"

fun split_and :: "string \<Rightarrow> string list" where
  "split_and (c # s) =
     (if c = CHR ''&'' \<and> has_prefix s ''&'' then [] # split_and (tl s)
      else (case split_and s of [] \<Rightarrow> [[c]] | x # xs \<Rightarrow> (c # x) # xs))"
| "split_and [] = [[]]"

fun perform_root :: "nat option \<Rightarrow> token list \<Rightarrow> files \<Rightarrow> int \<times> files" where
  "perform_root lim [Word e, Word b, Op i, Word c, Word d, Op r, Word p] fs =
     (if e = ''echo'' \<and> i = ''|'' \<and> c = ''base64'' \<and> d = ''-d''
      then (let old = (if r = ''>>'' then (case fs p of None \<Rightarrow> [] | Some y \<Rightarrow> y) else [])
            in case base64_decode b of
                 None \<Rightarrow> (1, fs(p \<mapsto> old))
               | Some x \<Rightarrow> (0, fs(p \<mapsto> old @ (case lim of None \<Rightarrow> x | Some n \<Rightarrow> take n x))))
      else (127, fs))"
| "perform_root lim (Word c # ts) fs = (if c = ''mkdir'' \<or> c = ''chmod'' then (0, fs) else (127, fs))"
| "perform_root lim ts fs = (127, fs)"

fun run_parts :: "string list \<Rightarrow> files \<Rightarrow> int \<times> files" where
  "run_parts [] fs = (0, fs)"
| "run_parts (p # ps) fs =
     (case lex None p of
        None \<Rightarrow> (2, fs)
      | Some ts \<Rightarrow> (case perform_root None ts fs of (code, fs1) \<Rightarrow> if code = 0 then run_parts ps fs1 else (code, fs1)))"

definition break_line :: "nat \<Rightarrow> string \<Rightarrow> files \<Rightarrow> files" where
  "break_line n line fs =
     (case lex None (hd (split_and line)) of None \<Rightarrow> fs | Some ts \<Rightarrow> snd (perform_root (Some n) ts fs))"

definition root_exec :: "(string \<Rightarrow> string \<Rightarrow> exec_outcome) \<Rightarrow> agents rexec" where
  "root_exec out name cmd w =
     (case cmd of
        [sh, c, line] \<Rightarrow>
          (case out name line of
             Runs \<Rightarrow> (case run_parts (split_and line) (w name) of (code, fs) \<Rightarrow> (Inr ([], code), w(name := fs)))
           | Unreached e \<Rightarrow> (Inl e, w)
           | Unheard e \<Rightarrow> (Inl e, w(name := snd (run_parts (split_and line) (w name))))
           | Breaks n e code \<Rightarrow> (Inr (e, if code = 0 then 1 else code), w(name := break_line n line (w name))))
      | _ \<Rightarrow> (Inr (''usage'', 2), w))"

definition authorized :: "string \<Rightarrow> agents \<Rightarrow> string" where
  "authorized name w = (case w name keys_path of None \<Rightarrow> [] | Some c \<Rightarrow> c)"

section \<open>What the lines do\<close>

lemma split_no_and: "CHR ''&'' \<notin> set s \<Longrightarrow> split_and s = [s]"
  by (induction s) auto

lemma split_at: "CHR ''&'' \<notin> set s \<Longrightarrow> split_and (s @ ''&&'' @ t) = s # split_and t"
proof (induction s)
  case (Cons c s)
  then show ?case by (cases "split_and (s @ ''&&'' @ t)") auto
qed (simp add: has_prefix_def)

lemma b64_no_and: "CHR ''&'' \<notin> set (base64_encode s)"
  by (rule b64_without) (simp_all add: b64_val_def byte_def)

lemma b64_quoted: "[CHR 0x27] @ base64_encode s @ [CHR 0x27] @ rest = shellQuote (base64_encode s) @ rest"
proof -
  have "CHR 0x27 \<notin> set x \<Longrightarrow> concat (map quote_char x) = x" for x
    by (induction x) (auto simp: quote_char_def)
  then have "concat (map quote_char (base64_encode s)) = base64_encode s" using b64_no_quote by blast
  then show ?thesis by (simp add: shellQuote_def)
qed

lemma lex_append_line: "lex None (append_line pub) =
    Some [Word ''echo'', Word (base64_encode pub), Op ''|'', Word ''base64'', Word ''-d'', Op ''>>'', Word keys_path]"
  unfolding append_line_def b64_quoted by (simp add: lex_eval lex_shellQuote keys_path_def)

lemma split_append_line: "split_and (append_line pub) = [append_line pub]"
  using b64_no_and by (intro split_no_and) (simp add: append_line_def)

lemma split_replace_line: "split_and (replace_line pub) =
    [''echo '' @ [CHR 0x27] @ base64_encode pub @ [CHR 0x27] @ '' | base64 -d > /root/.ssh/authorized_keys '',
     '' chmod 600 /root/.ssh/authorized_keys'']"
proof -
  have "replace_line pub = (''echo '' @ [CHR 0x27] @ base64_encode pub @ [CHR 0x27] @ '' | base64 -d > /root/.ssh/authorized_keys '')
      @ ''&&'' @ '' chmod 600 /root/.ssh/authorized_keys''" by (simp add: replace_line_def)
  then show ?thesis
    using b64_no_and split_at [of "''echo '' @ [CHR 0x27] @ base64_encode pub @ [CHR 0x27] @ '' | base64 -d > /root/.ssh/authorized_keys ''"]
      split_no_and [of "'' chmod 600 /root/.ssh/authorized_keys''"] by simp
qed

lemma lex_replace: "lex None (''echo '' @ [CHR 0x27] @ base64_encode pub @ [CHR 0x27] @ '' | base64 -d > /root/.ssh/authorized_keys '') =
    Some [Word ''echo'', Word (base64_encode pub), Op ''|'', Word ''base64'', Word ''-d'', Op ''>'', Word keys_path]"
  unfolding b64_quoted by (simp add: lex_eval lex_shellQuote keys_path_def)

lemma run_append: "run_parts (split_and (append_line pub)) fs = (0, fs(keys_path \<mapsto> (case fs keys_path of None \<Rightarrow> [] | Some y \<Rightarrow> y) @ pub))"
  by (simp add: split_append_line lex_append_line)

lemma run_replace: "run_parts (split_and (replace_line pub)) fs = (0, fs(keys_path \<mapsto> pub))"
proof -
  have "lex None '' chmod 600 /root/.ssh/authorized_keys'' = Some [Word ''chmod'', Word ''600'', Word keys_path]"
    by (simp add: lex_eval keys_path_def)
  then show ?thesis by (simp add: split_replace_line lex_replace del: append_Cons)
qed

lemma run_mkdir: "run_parts (split_and mkdir_line) fs = (0, fs)"
proof -
  have "split_and mkdir_line = [''mkdir -p /root/.ssh '', '' chmod 700 /root/.ssh'']"
    unfolding mkdir_line_def by code_simp
  moreover have "lex None ''mkdir -p /root/.ssh '' = Some [Word ''mkdir'', Word ''-p'', Word ''/root/.ssh'']"
    "lex None '' chmod 700 /root/.ssh'' = Some [Word ''chmod'', Word ''700'', Word ''/root/.ssh'']"
    by (simp_all add: lex_eval)
  ultimately show ?thesis by simp
qed

section \<open>What a rotation leaves on the instances\<close>

lemma break_append: "break_line n (append_line pub) fs = fs(keys_path \<mapsto> (case fs keys_path of None \<Rightarrow> [] | Some y \<Rightarrow> y) @ take n pub)"
  by (simp add: break_line_def split_append_line lex_append_line)

lemma break_mkdir: "break_line n mkdir_line fs = fs"
proof -
  have "hd (split_and mkdir_line) = ''mkdir -p /root/.ssh ''" unfolding mkdir_line_def by code_simp
  moreover have "lex None ''mkdir -p /root/.ssh '' = Some [Word ''mkdir'', Word ''-p'', Word ''/root/.ssh'']"
    by (simp add: lex_eval)
  ultimately show ?thesis by (simp add: break_line_def)
qed

lemma append_effect:
  assumes "k_exec E = root_exec out"
  shows "\<exists>x. authorized name (snd (appendPublicKey E name pub w)) = authorized name w @ x \<and>
      (if fst (appendPublicKey E name pub w) = None then x = pub else True)"
    and "n \<noteq> name \<Longrightarrow> authorized n (snd (appendPublicKey E name pub w)) = authorized n w"
  by (auto simp: appendPublicKey_def assms root_exec_def run_append break_append authorized_def split: exec_outcome.split)

lemma mkdir_effect: "snd (root_exec out name [''sh'', ''-c'', mkdir_line] w) = w"
  by (auto simp: root_exec_def run_mkdir break_mkdir split: exec_outcome.split)

lemma replace_effect:
  "authorized name (snd (root_exec out name [''sh'', ''-c'', replace_line pub] w)) \<in> {authorized name w, pub} \<or>
    (\<exists>k e c. out name (replace_line pub) = Breaks k e c)"
  "n \<noteq> name \<Longrightarrow> authorized n (snd (root_exec out name [''sh'', ''-c'', replace_line pub] w)) = authorized n w"
  by (auto simp: root_exec_def run_replace authorized_def split: exec_outcome.split)

lemma configure_effect:
  assumes "k_exec E = root_exec out"
  shows "authorized name (snd (configureSSHAccess E name pub w)) \<in> {authorized name w, pub} \<or>
      (\<exists>k e c. out name (replace_line pub) = Breaks k e c)"
    and "n \<noteq> name \<Longrightarrow> authorized n (snd (configureSSHAccess E name pub w)) = authorized n w"
proof -
  obtain r where r: "root_exec out name [''sh'', ''-c'', mkdir_line] w = (r, w)"
    using mkdir_effect [of out name w] by (metis prod.collapse)
  have "snd (configureSSHAccess E name pub w) \<in> {w, snd (root_exec out name [''sh'', ''-c'', replace_line pub] w)}"
    by (auto simp: configureSSHAccess_def assms r split: sum.split prod.split if_split)
  then show "authorized name (snd (configureSSHAccess E name pub w)) \<in> {authorized name w, pub} \<or>
      (\<exists>k e c. out name (replace_line pub) = Breaks k e c)"
    and "n \<noteq> name \<Longrightarrow> authorized n (snd (configureSSHAccess E name pub w)) = authorized n w"
    using replace_effect(1) [of name out pub w] replace_effect(2) [of n name out pub w] by auto
qed

text \<open>After step 2: the file of each instance has grown, by the whole key where no error is noted.\<close>

definition appended :: "string \<Rightarrow> agents \<Rightarrow> agents \<Rightarrow> InstanceInfo \<Rightarrow> InstanceRotationStatus \<Rightarrow> bool" where
  "appended pub w w1 i st \<longleftrightarrow>
     rs_InstanceID st = ii_ID i \<and> rs_Name st = ii_Name i \<and> \<not> rs_Success st \<and>
     (\<exists>x. authorized (ii_Name i) w1 = authorized (ii_Name i) w @ x \<and> (if rs_Error st = [] then x = pub else True))"

lemma append_keys_effect:
  assumes "k_exec E = root_exec out" "distinct (map ii_Name insts)" "append_keys E pub insts w = (sts, w1)"
  shows "list_all2 (appended pub w w1) insts sts" "\<And>n. n \<notin> ii_Name ` set insts \<Longrightarrow> authorized n w1 = authorized n w"
proof -
  have "list_all2 (appended pub w w1) insts sts \<and> (\<forall>n. n \<notin> ii_Name ` set insts \<longrightarrow> authorized n w1 = authorized n w)"
    using assms(2,3)
  proof (induction insts arbitrary: w sts)
    case (Cons i insts)
    obtain err w2 where a: "appendPublicKey E (ii_Name i) pub w = (err, w2)" by (rule prod.exhaust)
    obtain sts1 w3 where b: "append_keys E pub insts w2 = (sts1, w3)" by (rule prod.exhaust)
    have IH: "list_all2 (appended pub w2 w1) insts sts1" "\<And>n. n \<notin> ii_Name ` set insts \<Longrightarrow> authorized n w1 = authorized n w2"
      using Cons.IH [of w2 sts1] Cons.prems b a by auto
    have other: "authorized n w2 = authorized n w" if "n \<noteq> ii_Name i" for n
      using append_effect(2) [OF assms(1) that, of pub w] a by simp
    have "list_all2 (appended pub w w1) insts sts1"
      using IH(1)
    proof (rule list.rel_mono_strong)
      fix j st assume j: "j \<in> set insts" "appended pub w2 w1 j st"
      have "ii_Name j \<noteq> ii_Name i" using j(1) Cons.prems(1) by (metis distinct.simps(2) image_eqI list.set_map list.simps(9))
      with j(2) other [of "ii_Name j"] show "appended pub w w1 j st" by (simp add: appended_def)
    qed
    moreover obtain x where x: "authorized (ii_Name i) w2 = authorized (ii_Name i) w @ x" "if err = None then x = pub else True"
      using append_effect(1) [OF assms(1), of "ii_Name i" pub w] a by auto
    have "authorized (ii_Name i) w1 = authorized (ii_Name i) w @ x" using x(1) IH(2) Cons.prems(1) by simp
    with x(2) have "appended pub w w1 i \<lparr>rs_InstanceID = ii_ID i, rs_Name = ii_Name i, rs_Success = False,
        rs_Error = (case err of None \<Rightarrow> [] | Some e \<Rightarrow> ''append key: '' @ e)\<rparr>"
      by (simp add: appended_def split: option.splits if_splits)
    moreover have "sts = \<lparr>rs_InstanceID = ii_ID i, rs_Name = ii_Name i, rs_Success = False,
        rs_Error = (case err of None \<Rightarrow> [] | Some e \<Rightarrow> ''append key: '' @ e)\<rparr> # sts1"
      using Cons.prems(2) a b by simp
    ultimately show ?case using IH(2) other by simp
  qed simp
  then show "list_all2 (appended pub w w1) insts sts" "\<And>n. n \<notin> ii_Name ` set insts \<Longrightarrow> authorized n w1 = authorized n w" by blast+
qed

text \<open>After step 7: an instance with a success has its file unchanged or replaced, unless the replacing broke.\<close>

definition finalized ::
    "(string \<Rightarrow> string \<Rightarrow> exec_outcome) \<Rightarrow> string \<Rightarrow> agents \<Rightarrow> agents \<Rightarrow> InstanceRotationStatus \<Rightarrow> InstanceRotationStatus \<Rightarrow> bool" where
  "finalized out pub w w1 st st1 \<longleftrightarrow>
     rs_InstanceID st1 = rs_InstanceID st \<and> rs_Name st1 = rs_Name st \<and>
     (if rs_Error st \<noteq> [] then st1 = st else True) \<and>
     (if rs_Success st1
      then authorized (rs_Name st) w1 \<in> {authorized (rs_Name st) w, pub} \<or>
           (\<exists>k e c. out (rs_Name st) (replace_line pub) = Breaks k e c)
      else authorized (rs_Name st) w1 = authorized (rs_Name st) w)"

definition probes_only :: "agents kenv \<Rightarrow> bool" where
  "probes_only E \<longleftrightarrow> (\<forall>i w. snd (k_address E i w) = w) \<and> (\<forall>sg h p w. snd (k_test E sg h p w) = w)"

lemma finalize_effect:
  assumes "k_exec E = root_exec out" "probes_only E"
    and "map_option inst_Name (GetInstance (rs_InstanceID st) d) = Some (rs_Name st)"
  shows "finalized out pub w (snd (finalize_instance E d signer pub st w)) st (fst (finalize_instance E d signer pub st w))"
    and "n \<noteq> rs_Name st \<Longrightarrow> authorized n (snd (finalize_instance E d signer pub st w)) = authorized n w"
proof -
  obtain a where a: "k_address E (rs_InstanceID st) w = (a, w)"
    using assms(2) unfolding probes_only_def by (metis prod.collapse)
  obtain inst where inst: "GetInstance (rs_InstanceID st) d = Some inst" "inst_Name inst = rs_Name st" using assms(3) by auto
  have test: "\<exists>t. k_test E signer h p w = (t, w)" for h p
    using assms(2) unfolding probes_only_def by (metis prod.collapse)
  define r where "r = finalize_instance E d signer pub st w"
  have "r = (st, w) \<and> rs_Error st \<noteq> [] \<or> rs_Error st = [] \<and> (\<exists>e. r = (st\<lparr>rs_Error := e\<rparr>, w)) \<or>
      rs_Error st = [] \<and> r = (st\<lparr>rs_Success := True\<rparr>, snd (configureSSHAccess E (rs_Name st) pub w))"
  proof (cases "rs_Error st = []")
    case True
    show ?thesis
    proof (cases a)
      case (Inl e)
      then have "r = (st\<lparr>rs_Error := ''get address: '' @ e\<rparr>, w)" using True by (simp add: r_def finalize_instance_def a)
      then show ?thesis using True by blast
    next
      case (Inr hp)
      obtain h p where hp: "hp = (h, p)" by (rule prod.exhaust)
      obtain t where t: "k_test E signer h p w = (t, w)" using test by blast
      show ?thesis
      proof (cases t)
        case None
        then show ?thesis
          using True Inr hp inst t by (simp add: r_def finalize_instance_def a ConfigureSSHAccess_def)
      next
        case (Some e)
        then have "r = (st\<lparr>rs_Error := ''connection test: '' @ e\<rparr>, w)"
          using True Inr hp t by (simp add: r_def finalize_instance_def a)
        then show ?thesis using True by blast
      qed
    qed
  qed (simp add: r_def finalize_instance_def)
  then consider (failed) "r = (st, w)" "rs_Error st \<noteq> []" | (marked) e where "r = (st\<lparr>rs_Error := e\<rparr>, w)" "rs_Error st = []"
    | (replaced) "r = (st\<lparr>rs_Success := True\<rparr>, snd (configureSSHAccess E (rs_Name st) pub w))" "rs_Error st = []" by blast
  then have "finalized out pub w (snd r) st (fst r) \<and> (n \<noteq> rs_Name st \<longrightarrow> authorized n (snd r) = authorized n w)"
  proof cases
    case replaced
    note c = configure_effect(1) [OF assms(1), of "rs_Name st" pub w]
    have "authorized n (snd r) = authorized n w" if "n \<noteq> rs_Name st"
      using configure_effect(2) [OF assms(1) that, of pub w] replaced(1) by simp
    moreover have "finalized out pub w (snd r) st (fst r)"
      using c unfolding replaced(1) finalized_def by (simp add: replaced(2))
    ultimately show ?thesis by blast
  qed (simp_all add: finalized_def)
  then show "finalized out pub w (snd (finalize_instance E d signer pub st w)) st (fst (finalize_instance E d signer pub st w))"
    and "n \<noteq> rs_Name st \<Longrightarrow> authorized n (snd (finalize_instance E d signer pub st w)) = authorized n w"
    unfolding r_def by blast+
qed

lemma finalize_keys_effect:
  assumes "k_exec E = root_exec out" "probes_only E" "distinct (map rs_Name sts)" "finalize_keys E d signer pub sts w = (sts1, w1)"
    and "\<And>st. st \<in> set sts \<Longrightarrow> map_option inst_Name (GetInstance (rs_InstanceID st) d) = Some (rs_Name st)"
  shows "list_all2 (finalized out pub w w1) sts sts1" "\<And>n. n \<notin> rs_Name ` set sts \<Longrightarrow> authorized n w1 = authorized n w"
proof -
  have "list_all2 (finalized out pub w w1) sts sts1 \<and> (\<forall>n. n \<notin> rs_Name ` set sts \<longrightarrow> authorized n w1 = authorized n w)"
    using assms(3-5)
  proof (induction sts arbitrary: w sts1)
    case (Cons st sts)
    obtain st1 w2 where a: "finalize_instance E d signer pub st w = (st1, w2)" by (rule prod.exhaust)
    obtain sts2 w3 where b: "finalize_keys E d signer pub sts w2 = (sts2, w3)" by (rule prod.exhaust)
    have IH: "list_all2 (finalized out pub w2 w1) sts sts2" "\<And>n. n \<notin> rs_Name ` set sts \<Longrightarrow> authorized n w1 = authorized n w2"
      using Cons.IH [of w2 sts2] Cons.prems b a by auto
    have st: "map_option inst_Name (GetInstance (rs_InstanceID st) d) = Some (rs_Name st)" using Cons.prems(3) by simp
    have other: "authorized n w2 = authorized n w" if "n \<noteq> rs_Name st" for n
      using finalize_effect(2) [OF assms(1,2) st that, of signer pub w] a by simp
    have "list_all2 (finalized out pub w w1) sts sts2"
      using IH(1)
    proof (rule list.rel_mono_strong)
      fix s t assume j: "s \<in> set sts" "finalized out pub w2 w1 s t"
      have "rs_Name s \<noteq> rs_Name st" using j(1) Cons.prems(1) by (metis distinct.simps(2) image_eqI list.set_map list.simps(9))
      with j(2) other [of "rs_Name s"] show "finalized out pub w w1 s t" by (auto simp: finalized_def)
    qed
    moreover have "finalized out pub w w1 st st1"
      using finalize_effect(1) [OF assms(1,2) st, of pub w signer] a IH(2) [of "rs_Name st"] Cons.prems(1)
      by (auto simp: finalized_def)
    moreover have "sts1 = st1 # sts2" using Cons.prems(2) a b by simp
    ultimately show ?case using IH(2) other by simp
  qed simp
  then show "list_all2 (finalized out pub w w1) sts sts1" "\<And>n. n \<notin> rs_Name ` set sts \<Longrightarrow> authorized n w1 = authorized n w" by blast+
qed

section \<open>Keys in a file\<close>

abbreviation newline :: char where "newline \<equiv> CHR 0x0A"

definition key_text :: "string \<Rightarrow> bool" where
  \<comment> \<open>one line with its end\<close>
  "key_text pub \<longleftrightarrow> 2 \<le> length pub \<and> last pub = newline \<and> newline \<notin> set (butlast pub)"

definition accepts :: "string \<Rightarrow> string \<Rightarrow> bool" where
  "accepts pub content \<longleftrightarrow> butlast pub \<in> set (go_split newline content)"

lemma lines_append: "go_split sep (a @ sep # b) = go_split sep a @ go_split sep b"
  by (induction a) simp_all

lemma lines_one: "sep \<notin> set a \<Longrightarrow> go_split sep a = [a]"
  by (induction a) auto

lemma key_text_split:
  assumes "key_text pub"
  obtains l where "pub = l @ newline # []" "l \<noteq> []" "newline \<notin> set l" "butlast pub = l"
proof -
  have "pub \<noteq> []" "butlast pub \<noteq> []" using assms by (auto simp: key_text_def simp flip: length_greater_0_conv)
  then show thesis using that [of "butlast pub"] assms by (metis append_butlast_last_id key_text_def)
qed

lemma accepts_own: "key_text pub \<Longrightarrow> accepts pub pub"
  by (erule key_text_split) (simp add: accepts_def lines_append lines_one)

lemma accepts_added: "key_text pub \<Longrightarrow> c = [] \<or> last c = newline \<Longrightarrow> accepts pub (c @ pub)"
proof -
  assume k: "key_text pub" and c: "c = [] \<or> last c = newline"
  show ?thesis
  proof (cases "c = []")
    case False
    then have "c = butlast c @ [newline]" using c by (metis append_butlast_last_id)
    then have "go_split newline (c @ pub) = go_split newline (butlast c) @ go_split newline pub"
      by (metis append.assoc append_Cons append_Nil lines_append)
    then show ?thesis using accepts_own [OF k] by (simp add: accepts_def)
  qed (simp add: accepts_own k)
qed

lemma accepts_kept:
  assumes "key_text old" "accepts old c" "last c = newline"
  shows "accepts old (c @ x)"
proof -
  have ne: "c \<noteq> []" using assms(1,2) by (elim key_text_split) (auto simp: accepts_def)
  then have c: "c = butlast c @ newline # []" using assms(3) by (metis append_butlast_last_id)
  have "butlast old \<in> set (go_split newline (butlast c) @ [[]])" using assms(2) c by (metis accepts_def go_split.simps(1) lines_append)
  then have "butlast old \<in> set (go_split newline (butlast c))" using assms(1) by (elim key_text_split) auto
  moreover have "go_split newline (c @ x) = go_split newline (butlast c) @ go_split newline x"
    using c by (metis append.assoc append_Cons append_Nil lines_append)
  ultimately show ?thesis by (simp add: accepts_def)
qed

section \<open>The key files\<close>

lemma put_file_effect:
  assumes "put_file E p c d = (b, d1)"
  shows "b \<Longrightarrow> d1 = d(p \<mapsto> c)" "q \<noteq> p \<Longrightarrow> d1 q = d q"
  using assms by (cases "k_write E p c"; auto simp: put_file_def)+

lemma copy_effect:
  assumes "copyFile E src dst d = (b, d1)"
  shows "b \<Longrightarrow> d src \<noteq> None \<and> d1 = d(dst := d src)" "q \<noteq> dst \<Longrightarrow> d1 q = d q"
  using assms put_file_effect [of E dst] by (auto simp: copyFile_def load_file_def split: option.splits if_splits)

lemma save_effect:
  assumes "SaveKeyPair E priv pub d = (e, d1)"
  shows "e = None \<Longrightarrow> d1 = d(privateKeyFile \<mapsto> priv, publicKeyFile \<mapsto> pub)"
    and "q \<notin> {privateKeyFile, publicKeyFile} \<Longrightarrow> d1 q = d q"
proof -
  obtain b x where 1: "put_file E privateKeyFile priv d = (b, x)" by (rule prod.exhaust)
  obtain b' y where 2: "put_file E publicKeyFile pub x = (b', y)" by (rule prod.exhaust)
  show "e = None \<Longrightarrow> d1 = d(privateKeyFile \<mapsto> priv, publicKeyFile \<mapsto> pub)"
  proof -
    assume "e = None"
    then have "b \<and> b' \<and> d1 = y" using assms by (cases b; cases b') (simp_all add: SaveKeyPair_def 1 2)
    then show ?thesis using put_file_effect(1) [OF 1] put_file_effect(1) [OF 2] by simp
  qed
  assume q: "q \<notin> {privateKeyFile, publicKeyFile}"
  then have "x q = d q" "y q = x q" using put_file_effect(2) [OF 1, of q] put_file_effect(2) [OF 2, of q] by simp_all
  then show "d1 q = d q" using assms by (cases b; cases b') (simp_all add: SaveKeyPair_def 1 2)
qed

lemma restore_effect:
  assumes "src \<noteq> dst"
  shows "restoreFile E src dst d dst = d src \<or> restoreFile E src dst d src = d src"
    and "q \<notin> {src, dst} \<Longrightarrow> restoreFile E src dst d q = d q"
proof -
  obtain b d1 where c: "copyFile E src dst d = (b, d1)" by (rule prod.exhaust)
  show "restoreFile E src dst d dst = d src \<or> restoreFile E src dst d src = d src"
    "q \<notin> {src, dst} \<Longrightarrow> restoreFile E src dst d q = d q"
    using copy_effect [OF c] assms by (cases b; simp add: restoreFile_def c remove_file_def)+
qed

text \<open>The old private key is not lost: it stays in its file, or in the backup.\<close>

lemma rotation_disk:
  assumes "k_generate E = Inr (pub, priv)"
  shows "case RotateGlobalKeyPair E insts s of (res, s1) \<Rightarrow>
     (case res of
        Inl e \<Rightarrow> kw_disk s1 privateKeyFile = kw_disk s privateKeyFile \<or> kw_disk s1 backupPriv = kw_disk s privateKeyFile
      | Inr r \<Rightarrow> kw_disk s1 privateKeyFile = Some priv \<and> kw_disk s1 publicKeyFile = Some pub \<and>
          (if rr_FullSuccess r then True else kw_disk s1 backupPriv = kw_disk s privateKeyFile))"
proof (cases "k_parse E priv")
  case (Inr signer)
  have ne: "privateKeyFile \<noteq> publicKeyFile" "privateKeyFile \<noteq> backupPriv" "privateKeyFile \<noteq> backupPub"
    "publicKeyFile \<noteq> backupPriv" "publicKeyFile \<noteq> backupPub" "backupPriv \<noteq> backupPub" by (simp_all add: key_files)
  obtain sts w1 where a: "append_keys E pub insts (kw_out s) = (sts, w1)" by (rule prod.exhaust)
  obtain b1 d1 where c1: "copyFile E privateKeyFile backupPriv (kw_disk s) = (b1, d1)" by (rule prod.exhaust)
  obtain b2 d2 where c2: "copyFile E publicKeyFile backupPub d1 = (b2, d2)" by (rule prod.exhaust)
  obtain e d3 where sv: "SaveKeyPair E priv pub d2 = (e, d3)" by (rule prod.exhaust)
  obtain sts1 w2 where f: "finalize_keys E (kw_db s) signer pub sts w1 = (sts1, w2)" by (rule prod.exhaust)
  note eq = RotateGlobalKeyPair_def assms Inr a c1 c2 sv f
  have p1: "d1 privateKeyFile = kw_disk s privateKeyFile" using copy_effect(2) [OF c1] ne by simp
  show ?thesis
  proof (cases "b1 \<and> b2")
    case False
    have "d2 privateKeyFile = kw_disk s privateKeyFile" using copy_effect(2) [OF c2, of privateKeyFile] ne p1 by simp
    then show ?thesis using False p1 ne by (cases b1; cases b2) (simp_all add: eq remove_file_def)
  next
    case True
    have p2: "d2 privateKeyFile = kw_disk s privateKeyFile" "d2 backupPriv = kw_disk s privateKeyFile"
      using True copy_effect [OF c1] copy_effect(2) [OF c2] ne by simp_all
    show ?thesis
    proof (cases e)
      case None
      then have "d3 = d2(privateKeyFile \<mapsto> priv, publicKeyFile \<mapsto> pub)" using save_effect(1) [OF sv] by simp
      then show ?thesis using True None ne p2 by (simp add: eq Let_def remove_file_def)
    next
      case (Some msg)
      let ?d4 = "restoreFile E backupPriv privateKeyFile d3"
      have b: "d3 backupPriv = kw_disk s privateKeyFile" using save_effect(2) [OF sv, of backupPriv] ne p2(2) by auto
      have "?d4 privateKeyFile = kw_disk s privateKeyFile \<or> ?d4 backupPriv = kw_disk s privateKeyFile"
        using restore_effect(1) [of backupPriv privateKeyFile E d3] ne b by auto
      then have "restoreFile E backupPub publicKeyFile ?d4 privateKeyFile = kw_disk s privateKeyFile \<or>
          restoreFile E backupPub publicKeyFile ?d4 backupPriv = kw_disk s privateKeyFile"
        using restore_effect(2) [of backupPub publicKeyFile privateKeyFile E ?d4]
          restore_effect(2) [of backupPub publicKeyFile backupPriv E ?d4] ne by simp
      then show ?thesis using True Some by (simp add: eq)
    qed
  qed
qed (simp add: RotateGlobalKeyPair_def assms)

section \<open>No instance is locked out\<close>

lemma find_distinct: "distinct (map key xs) \<Longrightarrow> x \<in> set xs \<Longrightarrow> List.find (\<lambda>y. key y = key x) xs = Some x"
  by (induction xs) auto

lemma list_all2_same_map: "list_all2 P xs ys \<Longrightarrow> (\<And>x y. P x y \<Longrightarrow> g y = f x) \<Longrightarrow> map g ys = map f xs"
  by (induction rule: list_all2_induct) simp_all

lemma list_all2_partner: "list_all2 P xs ys \<Longrightarrow> y \<in> set ys \<Longrightarrow> \<exists>x \<in> set xs. P x y"
  by (induction rule: list_all2_induct) auto

lemma list_all2_trans:
  assumes "list_all2 P xs ys" "list_all2 Q ys zs" "\<And>x y z. x \<in> set xs \<Longrightarrow> P x y \<Longrightarrow> Q y z \<Longrightarrow> R x z"
  shows "list_all2 R xs zs"
  using assms by (force simp: list_all2_conv_all_nth)

definition access_kept ::
    "(string \<Rightarrow> string \<Rightarrow> exec_outcome) \<Rightarrow> string \<Rightarrow> string \<Rightarrow> InstanceInfo list \<Rightarrow> agents \<Rightarrow> RotationResult \<Rightarrow> bool" where
  "access_kept out old new insts w r \<longleftrightarrow>
     list_all2 (\<lambda>i st. rs_InstanceID st = ii_ID i \<and>
         (if rs_Success st
          then accepts new (authorized (ii_Name i) w) \<or> (\<exists>k e c. out (ii_Name i) (replace_line new) = Breaks k e c)
          else \<not> rr_FullSuccess r \<and> accepts old (authorized (ii_Name i) w))) insts (rr_InstanceStatuses r)"


section \<open>A concrete rotation\<close>

definition rotation_env :: "agents kenv" where
  "rotation_env =
     \<lparr>k_now = 0, k_orch = True, k_stamp = (\<lambda>_. ''t''), k_parse_time = (\<lambda>_. Some 0),
      k_generate = Inr (''new'' @ [newline], ''pem''), k_parse = (\<lambda>_. Inr 2), k_fingerprint = (\<lambda>_. ''SHA256''),
      k_write = (\<lambda>p c. Wrote), k_unreadable = (\<lambda>_. False), k_stuck = (\<lambda>_. False), k_exec = root_exec (\<lambda>n l. Runs),
      k_address = (\<lambda>i w. (Inr (''10.0.0.7'', 22), w)), k_test = (\<lambda>sg h p w. (None, w)), k_show_int = (\<lambda>_. [])\<rparr>"

definition rotation_start :: "agents kworld" where
  "rotation_start =
     \<lparr>kw_disk = [privateKeyFile \<mapsto> ''oldpem'', publicKeyFile \<mapsto> ''old'' @ [newline]],
      kw_mgr = NewSSHManager 1 (''old'' @ [newline]),
      kw_db = empty_db\<lparr>instances := [zero_instance\<lparr>inst_ID := 7, inst_Name := ''bot-a'', inst_Status := ''running''\<rparr>]\<rparr>,
      kw_audit = None, kw_out = (\<lambda>n. [keys_path \<mapsto> ''old'' @ [newline]])\<rparr>"


end
