(* ===== verification/TaskHandlers.thy ===== *)
theory TaskHandlers imports Tasks Web begin

text \<open>
  \<^verbatim>\<open>control-plane/internal/handlers/tasks.go\<close>: listing, showing, cancelling and streaming tasks.  A caller who is not
  an administrator sees the tasks the caller started, and no others.  The manager is an option: it may not be set.
\<close>

section \<open>Handlers\<close>

definition visibilityFilter :: "User option \<Rightarrow> (Task \<Rightarrow> bool) option" where
  "visibilityFilter cu =
     (case cu of
        None \<Rightarrow> None
      | Some u \<Rightarrow>
          if user_Role u = ''admin'' then Some (\<lambda>t. True)
          else Some (\<lambda>t. tk_UserID t \<noteq> 0 \<and> tk_UserID t = user_ID u))"

text \<open>\<open>fmt.Sscanf(v, "%d", &id)\<close>: blanks other than a line break are skipped, the digits that follow are the number, and
  what cannot be read leaves 0.\<close>

definition sscanf_uint :: "string \<Rightarrow> nat" where
  "sscanf_uint v =
     (let r = trim_left v; blanks = take (length v - length r) v; ds = takeWhile (\<lambda>c. digit_val c \<noteq> None) r
      in if CHR 0x0A \<in> set blanks \<or> ds = [] \<or> 2 ^ 64 \<le> dec_value ds then 0 else dec_value ds)"

definition state_of :: "string \<Rightarrow> TaskState option" where
  "state_of s =
     (if s = ''running'' then Some TaskRunning else if s = ''succeeded'' then Some TaskSucceeded
      else if s = ''failed'' then Some TaskFailed else if s = ''canceled'' then Some TaskCanceled else None)"

record task_query =
  tq_type :: string
  tq_instance_id :: string
  tq_resource_id :: string
  tq_state :: string
  tq_only_active :: string

definition ListTasks :: "User option \<Rightarrow> task_query \<Rightarrow> string list \<Rightarrow> TaskManager option \<Rightarrow> Task list reply" where
  \<comment> \<open>a state that no task has matches none; the keys are the walk over the map\<close>
  "ListTasks cu q keys tm =
     (case tm of
        None \<Rightarrow> Reply 200 []
      | Some m \<Rightarrow>
     (case visibilityFilter cu of
        None \<Rightarrow> Fail 500 ''no user''
      | Some allow \<Rightarrow>
          let f = \<lparr>f_Type = tq_type q, f_InstanceID = (if tq_instance_id q = [] then 0 else sscanf_uint (tq_instance_id q)),
                   f_UserID = 0, f_ResourceID = tq_resource_id q, f_State = state_of (tq_state q),
                   f_OnlyActive = (tq_only_active q = ''true'')\<rparr>;
              ts = (if tq_state q \<noteq> [] \<and> state_of (tq_state q) = None then [] else List f keys m)
          in Reply 200 (filter allow ts)))"

definition with_task ::
    "User option \<Rightarrow> string \<Rightarrow> TaskManager option \<Rightarrow> (Task \<Rightarrow> TaskManager \<Rightarrow> 'a reply \<times> TaskManager option) \<Rightarrow> 'a reply \<times> TaskManager option" where
  \<comment> \<open>the common beginning of \<open>GetTask\<close> and \<open>CancelTask\<close>\<close>
  "with_task cu tid tm k =
     (case tm of
        None \<Rightarrow> (Fail 404 ''Task not found'', tm)
      | Some m \<Rightarrow>
     (case Get tid m of
        None \<Rightarrow> (Fail 404 ''Task not found'', tm)
      | Some t \<Rightarrow>
     (case visibilityFilter cu of
        None \<Rightarrow> (Fail 500 ''no user'', tm)
      | Some allow \<Rightarrow> if \<not> allow t then (Fail 403 ''Access denied'', tm) else k t m)))"

definition GetTask :: "User option \<Rightarrow> string \<Rightarrow> TaskManager option \<Rightarrow> Task reply \<times> TaskManager option" where
  "GetTask cu tid tm = with_task cu tid tm (\<lambda>t m. (Reply 200 t, Some m))"

definition CancelTask :: "User option \<Rightarrow> string \<Rightarrow> TaskManager option \<Rightarrow> string reply \<times> TaskManager option" where
  "CancelTask cu tid tm =
     with_task cu tid tm (\<lambda>t m.
       case Cancel tid m of (err, m1) \<Rightarrow>
         (case err of
            Some ErrNotCancellable \<Rightarrow> Fail 405 ''Task is not cancellable''
          | Some ErrAlreadyTerminal \<Rightarrow> Fail 409 ''Task has already finished''
          | Some ErrNotFound \<Rightarrow> Fail 404 ''Task not found''
          | None \<Rightarrow> Reply 200 ''cancel requested'', Some m1))"

text \<open>The stream: it subscribes first, then sends the active tasks, then what its channel brings.\<close>

definition active_tasks :: "string list \<Rightarrow> TaskManager \<Rightarrow> Task list" where
  "active_tasks keys m =
     List \<lparr>f_Type = [], f_InstanceID = 0, f_UserID = 0, f_ResourceID = [], f_State = None, f_OnlyActive = True\<rparr> keys m"

definition seed_events :: "(Task \<Rightarrow> bool) \<Rightarrow> string list \<Rightarrow> TaskManager \<Rightarrow> TaskEvent list" where
  "seed_events allow keys m = map (\<lambda>t. (EventStarted, t)) (filter allow (active_tasks keys m))"

definition next_event :: "(Task \<Rightarrow> bool) \<Rightarrow> nat \<Rightarrow> TaskManager \<Rightarrow> TaskEvent list" where
  "next_event allow k m = (case m_subs m k of Some (ev # evs) \<Rightarrow> if allow (snd ev) then [ev] else [] | _ \<Rightarrow> [])"

fun stream_events :: "(Task \<Rightarrow> bool) \<Rightarrow> nat \<Rightarrow> task_act list \<Rightarrow> TaskManager \<Rightarrow> TaskEvent list" where
  \<comment> \<open>what the loop of subscriber \<open>k\<close> writes during a run of the manager\<close>
  "stream_events allow k [] m = []"
| "stream_events allow k (a # as) m =
     (if a = AReceive k then next_event allow k m else []) @ stream_events allow k as (act a m)"

definition StreamTaskEvents :: "User option \<Rightarrow> string list \<Rightarrow> task_act list \<Rightarrow> task_act list \<Rightarrow> TaskManager option \<Rightarrow> TaskEvent list reply" where
  \<comment> \<open>\<open>before\<close> is what happens between the subscription and the snapshot, \<open>after\<close> what comes later\<close>
  "StreamTaskEvents cu keys before after tm =
     (case tm of
        None \<Rightarrow> Fail 503 ''Task manager not initialized''
      | Some m \<Rightarrow>
     (case visibilityFilter cu of
        None \<Rightarrow> Fail 500 ''no user''
      | Some allow \<Rightarrow>
          let (k, m1) = Subscribe m; m2 = fold act before m1
          in Reply 200 (seed_events allow keys m2 @ stream_events allow k after m2)))"

section \<open>Who sees what\<close>

lemma stream_allowed: "list_all (\<lambda>ev. allow (snd ev)) (stream_events allow k as m)"
  by (induction allow k as m rule: stream_events.induct) (auto simp: next_event_def split: option.split list.split)

text \<open>A user who is not an administrator sees the tasks the user started and no others, in lists, one by one and in
  the stream of events, and cancelling any other task changes nothing.\<close>

theorem tasks_shown_to_owner:
  assumes "user_Role u \<noteq> ''admin''"
  shows "case ListTasks (Some u) q keys tm of Fail st e \<Rightarrow> False | Reply st ts \<Rightarrow> list_all (\<lambda>t. tk_UserID t = user_ID u) ts"
    and "case fst (GetTask (Some u) tid tm) of Fail st e \<Rightarrow> st \<in> {403, 404} | Reply st t \<Rightarrow> tk_UserID t = user_ID u"
    and "case StreamTaskEvents (Some u) keys before after tm of
           Fail st e \<Rightarrow> tm = None | Reply st evs \<Rightarrow> list_all (\<lambda>ev. tk_UserID (snd ev) = user_ID u) evs"
    and "case tm of None \<Rightarrow> snd (CancelTask (Some u) tid tm) = tm | Some m \<Rightarrow>
           (case Get tid m of
              None \<Rightarrow> snd (CancelTask (Some u) tid tm) = tm
            | Some t \<Rightarrow> tk_UserID t = user_ID u \<or> snd (CancelTask (Some u) tid tm) = tm)"
proof -
  have v: "visibilityFilter (Some u) = Some (\<lambda>t. tk_UserID t \<noteq> 0 \<and> tk_UserID t = user_ID u)"
    using assms by (simp add: visibilityFilter_def)
  show "case ListTasks (Some u) q keys tm of Fail st e \<Rightarrow> False | Reply st ts \<Rightarrow> list_all (\<lambda>t. tk_UserID t = user_ID u) ts"
    by (auto simp: ListTasks_def v Let_def list_all_iff split: option.split)
  show "case fst (GetTask (Some u) tid tm) of Fail st e \<Rightarrow> st \<in> {403, 404} | Reply st t \<Rightarrow> tk_UserID t = user_ID u"
    by (auto simp: GetTask_def with_task_def v split: option.split)
  show "case StreamTaskEvents (Some u) keys before after tm of
           Fail st e \<Rightarrow> tm = None | Reply st evs \<Rightarrow> list_all (\<lambda>ev. tk_UserID (snd ev) = user_ID u) evs"
  proof (cases tm)
    case (Some m)
    have "list_all (\<lambda>ev. tk_UserID (snd ev) = user_ID u) (stream_events (\<lambda>t. tk_UserID t \<noteq> 0 \<and> tk_UserID t = user_ID u) k as m')"
      for k as m' by (rule list.pred_mono_strong [OF stream_allowed]) simp
    then show ?thesis
      by (auto simp: StreamTaskEvents_def Some v case_prod_beta Let_def seed_events_def list_all_iff)
  qed (simp add: StreamTaskEvents_def)
  show "case tm of None \<Rightarrow> snd (CancelTask (Some u) tid tm) = tm | Some m \<Rightarrow>
           (case Get tid m of
              None \<Rightarrow> snd (CancelTask (Some u) tid tm) = tm
            | Some t \<Rightarrow> tk_UserID t = user_ID u \<or> snd (CancelTask (Some u) tid tm) = tm)"
    by (auto simp: CancelTask_def with_task_def v split: option.split)
qed

end
