(* ===== verification/Settings.thy ===== *)
theory Settings imports InstanceOutcomes begin

text \<open>
  The settings (\<^verbatim>\<open>control-plane/internal/handlers/settings.go\<close>) and the telemetry that they gate
  (\<^verbatim>\<open>internal/analytics\<close>).  A request body is a JSON value; the JSON encoder and the random bytes of a new
  installation id are arguments.  What the collector is sent is a log of events.
\<close>

section \<open>Telemetry\<close>

definition ConsentUnset :: string where "ConsentUnset = ''unset''"
definition ConsentOptIn :: string where "ConsentOptIn = ''opt_in''"
definition ConsentOptOut :: string where "ConsentOptOut = ''opt_out''"

definition GetConsent :: "db \<Rightarrow> string" where
  "GetConsent d = (case GetSetting ''analytics_consent'' d of None \<Rightarrow> ConsentUnset | Some v \<Rightarrow> if v = [] then ConsentUnset else v)"

definition GetOrCreateInstallationID :: "string option \<Rightarrow> db \<Rightarrow> string option \<times> db" where
  "GetOrCreateInstallationID fresh d =
     (case GetSetting ''installation_id'' d of
        Some v \<Rightarrow> if v \<noteq> [] then (Some v, d)
                  else (case fresh of None \<Rightarrow> (None, d) | Some n \<Rightarrow> (Some n, SetSetting ''installation_id'' n d))
      | None \<Rightarrow> (case fresh of None \<Rightarrow> (None, d) | Some n \<Rightarrow> (Some n, SetSetting ''installation_id'' n d)))"

definition AllowedEvents :: "string list" where
  "AllowedEvents =
     [''instance_created'', ''instance_deleted'', ''skill_uploaded'', ''skill_deleted'', ''shared_folder_created'',
      ''shared_folder_deleted'', ''backup_schedule_created'', ''backup_created_manual'', ''user_created'', ''user_updated'',
      ''user_deleted'', ''password_changed'', ''provider_added'', ''provider_deleted'', ''ssh_key_rotated'',
      ''global_env_vars_edited'', ''instance_env_vars_edited'', ''opt_out'', ''heartbeat'']"

record 'w sworld =
  sw_w :: "'w iworld"
  sw_sent :: "(string \<times> string) list"

definition sw_upd :: "(db \<Rightarrow> db) \<Rightarrow> 'w sworld \<Rightarrow> 'w sworld" where
  "sw_upd f s = s\<lparr>sw_w := upd_db f (sw_w s)\<rparr>"

definition sw_db :: "'w sworld \<Rightarrow> db" where
  "sw_db s = iw_db (sw_w s)"

text \<open>An event and the installation id it carries.\<close>

definition send_event :: "string option \<Rightarrow> string \<Rightarrow> 'w sworld \<Rightarrow> 'w sworld" where
  "send_event fresh event s =
     (case GetOrCreateInstallationID fresh (sw_db s) of
        (None, d) \<Rightarrow> s
      | (Some n, d) \<Rightarrow>
          let s1 = sw_upd (\<lambda>_. d) s in if n = [] then s1 else s1\<lparr>sw_sent := sw_sent s1 @ [(event, n)]\<rparr>)"

definition Track :: "string option \<Rightarrow> string \<Rightarrow> 'w sworld \<Rightarrow> 'w sworld" where
  "Track fresh event s =
     (if event \<notin> set AllowedEvents \<or> GetConsent (sw_db s) \<noteq> ConsentOptIn then s else send_event fresh event s)"

definition TrackForceOptOut :: "string option \<Rightarrow> 'w sworld \<Rightarrow> 'w sworld" where
  "TrackForceOptOut fresh s = send_event fresh ''opt_out'' s"

section \<open>Showing the settings\<close>

definition fixedEncryptedSettings :: "string list" where
  "fixedEncryptedSettings = [''brave_api_key'']"

definition plainSettings :: "string list" where
  "plainSettings =
     [''default_container_image'', ''default_agent_image'', ''default_browser_image'', ''default_browser_provider'',
      ''default_browser_idle_minutes'', ''default_browser_ready_seconds'', ''default_browser_storage'',
      ''default_vnc_resolution'', ''default_cpu_request'', ''default_cpu_limit'', ''default_memory_request'',
      ''default_memory_limit'', ''default_storage_homebrew'', ''default_storage_home'', ''default_timezone'',
      ''default_user_agent'', ''default_models'', ''analytics_consent'']"

datatype setting_value = SV_text string | SV_list "string list" | SV_map smap

record 'w senv =
  se_env :: "'w ienv"
  se_fresh :: "string option"
  se_marshal :: "json \<Rightarrow> string"

definition raw_setting :: "db \<Rightarrow> string \<Rightarrow> string" where
  "raw_setting d k = (case settings d k of None \<Rightarrow> [] | Some v \<Rightarrow> v)"

definition string_list :: "string \<Rightarrow> string list" where
  \<comment> \<open>a column that is not a list of strings counts as empty\<close>
  "string_list raw =
     (if raw = [] then []
      else case json_parse raw of
             None \<Rightarrow> []
           | Some j \<Rightarrow>
               (case decode (SSlice SString) j GNil of
                  (GSlice vs, True) \<Rightarrow> map (\<lambda>v. case v of GStr t \<Rightarrow> t | _ \<Rightarrow> []) vs
                | _ \<Rightarrow> []))"

definition settingsToResponse :: "'w senv \<Rightarrow> db \<Rightarrow> (string \<times> setting_value) list \<times> db" where
  "settingsToResponse E d =
     (let plain = map (\<lambda>k. (k, if k = ''default_models'' then SV_list (string_list (raw_setting d k))
                               else if k = ''analytics_consent''
                               then SV_text (if raw_setting d k = [] then ConsentUnset else raw_setting d k)
                               else SV_text (raw_setting d k))) plainSettings;
          (inst, d1) = GetOrCreateInstallationID (se_fresh E) d;
          secret = map (\<lambda>k. (k, SV_text (if raw_setting d k = [] then []
                                 else case e_unseal (se_env E) (raw_setting d k) of None \<Rightarrow> [] | Some t \<Rightarrow> Mask t)))
                     fixedEncryptedSettings
      in (plain @ [(''installation_id'', SV_text (case inst of None \<Rightarrow> [] | Some n \<Rightarrow> n))] @ secret
          @ [(''default_env_vars'', SV_map (EnvVarsForResponse (e_unseal (se_env E)) (raw_setting d ''default_env_vars'')))], d1))"

definition GetSettings :: "'w senv \<Rightarrow> 'w sworld \<Rightarrow> (string \<times> setting_value) list reply \<times> 'w sworld" where
  "GetSettings E s = (case settingsToResponse E (sw_db s) of (r, d) \<Rightarrow> (Reply 200 r, sw_upd (\<lambda>_. d) s))"

section \<open>Changing the settings\<close>

text \<open>A JSON object as a Go map: the last of equal keys counts.  A body \<open>null\<close> is the empty map.\<close>

definition go_map :: "(string \<times> json) list \<Rightarrow> (string \<times> json) list" where
  "go_map ms = fold (\<lambda>(k, v). AList.update k v) ms []"

definition body_map :: "json option \<Rightarrow> (string \<times> json) list option" where
  "body_map body =
     (case body of Some (JObj ms) \<Rightarrow> Some (go_map ms) | Some JNull \<Rightarrow> Some [] | _ \<Rightarrow> None)"

definition resourceFromRaw :: "(string \<times> json) list \<Rightarrow> string \<Rightarrow> string" where
  "resourceFromRaw raw k = (case map_of raw k of Some (JStr s) \<Rightarrow> s | _ \<Rightarrow> [])"

definition parse_env_set :: "json option \<Rightarrow> string + smap" where
  "parse_env_set v =
     (case v of
        None \<Rightarrow> Inr []
      | Some JNull \<Rightarrow> Inr []
      | Some (JObj ms) \<Rightarrow>
          (case List.find (\<lambda>(k, x). case x of JStr t \<Rightarrow> False | _ \<Rightarrow> True) (go_map ms) of
             Some (k, x) \<Rightarrow> Inl (''env_vars_set['' @ k @ ''] must be a string'')
           | None \<Rightarrow> Inr (map (\<lambda>(k, x). (k, case x of JStr t \<Rightarrow> t | _ \<Rightarrow> [])) (go_map ms)))
      | Some _ \<Rightarrow> Inl ''env_vars_set must be an object'')"

definition parse_env_unset :: "json option \<Rightarrow> string + string list" where
  "parse_env_unset v =
     (case v of
        None \<Rightarrow> Inr []
      | Some JNull \<Rightarrow> Inr []
      | Some (JArr js) \<Rightarrow>
          if list_all (\<lambda>x. case x of JStr t \<Rightarrow> True | _ \<Rightarrow> False) js then Inr (map (\<lambda>x. case x of JStr t \<Rightarrow> t | _ \<Rightarrow> []) js)
          else Inl ''env_vars_unset items must be strings''
      | Some _ \<Rightarrow> Inl ''env_vars_unset must be an array'')"

definition parseEnvVarsDelta :: "(string \<times> json) list \<Rightarrow> string + (smap \<times> string list)" where
  "parseEnvVarsDelta raw =
     (case parse_env_set (map_of raw ''env_vars_set'') of
        Inl e \<Rightarrow> Inl e
      | Inr vars \<Rightarrow> (case parse_env_unset (map_of raw ''env_vars_unset'') of Inl e \<Rightarrow> Inl e | Inr gone \<Rightarrow> Inr (vars, gone)))"

text \<open>The remaining string values, whatever their key.\<close>

fun store_plain :: "'w senv \<Rightarrow> (string \<times> json) list \<Rightarrow> 'w sworld \<Rightarrow> 'w sworld" where
  "store_plain E [] s = s"
| "store_plain E ((k, v) # ms) s =
     store_plain E ms
       (if k \<in> set [''default_models'', ''brave_api_key'', ''env_vars_set'', ''env_vars_unset'', ''installation_id''] then s
        else case v of
               JStr t \<Rightarrow>
                 if k = ''analytics_consent'' then
                   (if t \<noteq> ConsentOptIn \<and> t \<noteq> ConsentOptOut then s
                    else sw_upd (SetSetting k t)
                           (if t = ConsentOptOut \<and> GetConsent (sw_db s) = ConsentOptIn then TrackForceOptOut (se_fresh E) s else s))
                 else sw_upd (SetSetting k t) s
             | _ \<Rightarrow> s)"

fun restart_running :: "'w ienv \<Rightarrow> nat \<Rightarrow> Instance list \<Rightarrow> 'w iworld \<Rightarrow> 'w iworld" where
  "restart_running E user [] s = s"
| "restart_running E user (x # xs) s =
     restart_running E user xs (restartInstanceAsync E x user (''Restarting instance '' @ inst_DisplayName x) [] s)"

definition store_models :: "'w senv \<Rightarrow> (string \<times> json) list \<Rightarrow> 'w sworld \<Rightarrow> 'w sworld" where
  "store_models E raw s =
     (case map_of raw ''default_models'' of None \<Rightarrow> s | Some v \<Rightarrow> sw_upd (SetSetting ''default_models'' (se_marshal E v)) s)"

definition store_brave :: "'w senv \<Rightarrow> (string \<times> json) list \<Rightarrow> 'w sworld \<Rightarrow> (string + unit) \<times> 'w sworld" where
  "store_brave E raw s =
     (case map_of raw ''brave_api_key'' of
        Some (JStr t) \<Rightarrow>
          if t = [] then (Inr (), sw_upd (SetSetting ''brave_api_key'' []) s)
          else (case e_seal (se_env E) t of
                  None \<Rightarrow> (Inl ''Failed to encrypt API key'', s)
                | Some c \<Rightarrow> (Inr (), sw_upd (SetSetting ''brave_api_key'' c) s))
      | _ \<Rightarrow> (Inr (), s))"

definition store_env :: "'w senv \<Rightarrow> smap \<Rightarrow> string list \<Rightarrow> 'w sworld \<Rightarrow> (string + bool) \<times> 'w sworld" where
  \<comment> \<open>whether the variables changed\<close>
  "store_env E vars gone s =
     (if vars = [] \<and> gone = [] then (Inr False, s)
      else
        case ApplyEnvVarsDelta (e_seal_var (se_env E)) (e_unseal (se_env E))
               (case GetSetting ''default_env_vars'' (sw_db s) of None \<Rightarrow> [] | Some t \<Rightarrow> t) vars gone of
          Inl e \<Rightarrow> (Inl (''Failed to update env vars: '' @ env_error_text (se_env E) e), s)
        | Inr (updated, changed) \<Rightarrow>
            if changed then (Inr True, Track (se_fresh E) ''global_env_vars_edited'' (sw_upd (SetSetting ''default_env_vars'' updated) s))
            else (Inr False, s))"

text \<open>The end of the handler: the remaining values, and the restarts when the variables have changed.\<close>

definition finish_settings ::
    "'w senv \<Rightarrow> User option \<Rightarrow> (string \<times> json) list \<Rightarrow> bool \<Rightarrow> 'w sworld
       \<Rightarrow> ((string \<times> setting_value) list \<times> nat list) reply \<times> 'w sworld" where
  "finish_settings E cu raw changed s2 =
     (let s3 = store_plain E raw s2;
          running = (if changed then filter (\<lambda>x. inst_Status x = ''running'') (instances (sw_db s3)) else []);
          s4 = s3\<lparr>sw_w := restart_running (se_env E) (caller_id cu) running (sw_w s3)\<rparr>
      in case settingsToResponse E (sw_db s4) of (r, d) \<Rightarrow> (Reply 200 (r, map inst_ID running), sw_upd (\<lambda>_. d) s4))"

definition UpdateSettings ::
    "'w senv \<Rightarrow> User option \<Rightarrow> json option \<Rightarrow> 'w sworld \<Rightarrow> ((string \<times> setting_value) list \<times> nat list) reply \<times> 'w sworld" where
  "UpdateSettings E cu body s =
     (case body_map body of
        None \<Rightarrow> (Fail 400 ''Invalid request body'', s)
      | Some raw \<Rightarrow>
     (case ValidateResourceQuantities
             \<lparr>rq_CPURequest = resourceFromRaw raw ''default_cpu_request'', rq_CPULimit = resourceFromRaw raw ''default_cpu_limit'',
              rq_MemoryRequest = resourceFromRaw raw ''default_memory_request'',
              rq_MemoryLimit = resourceFromRaw raw ''default_memory_limit'',
              rq_StorageHome = resourceFromRaw raw ''default_storage_home'',
              rq_StorageHomebrew = resourceFromRaw raw ''default_storage_homebrew''\<rparr> of
        Some e \<Rightarrow> (Fail 400 e, s)
      | None \<Rightarrow>
     (case store_brave E raw (store_models E raw s) of
        (Inl e, s1) \<Rightarrow> (Fail 500 e, s1)
      | (Inr _, s1) \<Rightarrow>
     (case parseEnvVarsDelta raw of
        Inl e \<Rightarrow> (Fail 400 e, s1)
      | Inr (vars, gone) \<Rightarrow>
     (case store_env E vars gone s1 of
        (Inl e, s2) \<Rightarrow> (Fail 500 e, s2)
      | (Inr changed, s2) \<Rightarrow> finish_settings E cu raw changed s2)))))"

section \<open>No telemetry without consent\<close>

datatype 'w settings_op =
    SGet "'w senv"
  | SUpdate "'w senv" User "json option"
  | STrack "string option" string

fun settings_step :: "'w settings_op \<Rightarrow> 'w sworld \<Rightarrow> 'w sworld" where
  "settings_step (SGet E) s = snd (GetSettings E s)"
| "settings_step (SUpdate E u body) s = snd (UpdateSettings E (Some u) body s)"
| "settings_step (STrack fresh event) s = Track fresh event s"

definition asks_opt_in :: "'w settings_op \<Rightarrow> bool" where
  "asks_opt_in p =
     (case p of
        SUpdate E u body \<Rightarrow>
          (case body_map body of
             None \<Rightarrow> False | Some raw \<Rightarrow> list_ex (\<lambda>(k, v). k = ''analytics_consent'' \<and> v = JStr ConsentOptIn) raw)
      | _ \<Rightarrow> False)"

text \<open>The state as far as it matters here.\<close>

definition quiet :: "'w sworld \<Rightarrow> (string \<times> string) list \<Rightarrow> bool" where
  "quiet s sent \<longleftrightarrow> sw_sent s = sent \<and> GetConsent (sw_db s) \<noteq> ConsentOptIn"

lemmas consents = ConsentUnset_def ConsentOptIn_def ConsentOptOut_def

lemma consent_set: "GetConsent (SetSetting k v d) =
    (if k = ''analytics_consent'' then if v = [] then ConsentUnset else v else GetConsent d)"
  by (simp add: GetConsent_def GetSetting_def SetSetting_def upsertSetting_def)

lemma quiet_set: "quiet s sent \<Longrightarrow> (k = ''analytics_consent'' \<Longrightarrow> v \<noteq> ConsentOptIn) \<Longrightarrow> quiet (sw_upd (SetSetting k v) s) sent"
  by (auto simp: quiet_def sw_upd_def sw_db_def upd_db_def consent_set consents)

lemma consent_id: "GetConsent (snd (GetOrCreateInstallationID fresh d)) = GetConsent d"
  by (auto simp: GetOrCreateInstallationID_def consent_set split: option.split)

lemma quiet_id:
  assumes "quiet s sent" "snd (settingsToResponse E (sw_db s)) = d"
  shows "quiet (sw_upd (\<lambda>_. d) s) sent"
proof -
  have "GetConsent d = GetConsent (sw_db s)"
    using assms(2) consent_id by (auto simp: settingsToResponse_def Let_def case_prod_beta)
  then show ?thesis using assms(1) by (simp add: quiet_def sw_upd_def sw_db_def upd_db_def)
qed

lemma quiet_track: "quiet s sent \<Longrightarrow> Track fresh event s = s"
  by (simp add: quiet_def Track_def)

lemma quiet_plain:
  "quiet s sent \<Longrightarrow> list_all (\<lambda>(k, v). \<not> (k = ''analytics_consent'' \<and> v = JStr ConsentOptIn)) raw \<Longrightarrow> quiet (store_plain E raw s) sent"
proof (induction E raw s rule: store_plain.induct)
  case (2 E k v ms s)
  let ?keys = "[''default_models'', ''brave_api_key'', ''env_vars_set'', ''env_vars_unset'', ''installation_id'']"
  have "quiet (if k \<in> set ?keys then s
      else case v of
             JStr t \<Rightarrow>
               if k = ''analytics_consent'' then
                 (if t \<noteq> ConsentOptIn \<and> t \<noteq> ConsentOptOut then s
                  else sw_upd (SetSetting k t)
                         (if t = ConsentOptOut \<and> GetConsent (sw_db s) = ConsentOptIn then TrackForceOptOut (se_fresh E) s else s))
               else sw_upd (SetSetting k t) s
           | _ \<Rightarrow> s) sent" (is "quiet ?s1 sent")
  proof (cases "\<exists>t. v = JStr t")
    case True
    then obtain t where v: "v = JStr t" by blast
    have set: "quiet (sw_upd (SetSetting k t) s) sent"
      using 2(2,3) v by (intro quiet_set) simp_all
    have "GetConsent (sw_db s) \<noteq> ConsentOptIn" using 2(2) by (simp add: quiet_def)
    then show ?thesis using set 2(2) by (auto simp: v)
  next
    case False
    then show ?thesis using 2(2) by (cases v) simp_all
  qed
  moreover have "list_all (\<lambda>(k, v). \<not> (k = ''analytics_consent'' \<and> v = JStr ConsentOptIn)) ms" using 2(3) by simp
  ultimately show ?case using 2(1) by (simp only: store_plain.simps)
qed simp

lemma quiet_restarts:
  assumes "quiet s sent" shows "quiet (s\<lparr>sw_w := restart_running E user xs (sw_w s)\<rparr>) sent"
proof -
  have "settings (iw_db (restart_running E user xs w)) = settings (iw_db w)" for w
  proof (induction E user xs w rule: restart_running.induct)
    case (2 E user x xs w)
    then show ?case
      by (simp add: restartInstanceAsync_def Let_def upd_db_def upd_out_def start_task_def set_status_def update_instance_def)
  qed simp
  then show ?thesis using assms by (simp add: quiet_def sw_db_def GetConsent_def GetSetting_def)
qed

lemma quiet_update:
  assumes "quiet s sent" "\<not> asks_opt_in (SUpdate E u body)"
  shows "quiet (snd (UpdateSettings E (Some u) body s)) sent"
proof (cases "body_map body")
  case (Some raw)
  have no: "list_all (\<lambda>(k, v). \<not> (k = ''analytics_consent'' \<and> v = JStr ConsentOptIn)) raw"
    using assms(2) Some by (auto simp: asks_opt_in_def list_ex_iff list_all_iff)
  define s1 where "s1 = snd (store_brave E raw (store_models E raw s))"
  have "quiet (store_models E raw s) sent"
    using assms(1) by (auto simp: store_models_def intro: quiet_set split: option.split)
  then have q1: "quiet s1 sent"
    by (auto simp: s1_def store_brave_def intro: quiet_set split: option.split json.split)
  have q2: "quiet (snd (store_env E vars gone s1)) sent" for vars gone
  proof -
    have "quiet (sw_upd (SetSetting ''default_env_vars'' t) s1) sent" for t using q1 by (intro quiet_set) simp_all
    then have "Track f ev (sw_upd (SetSetting ''default_env_vars'' t) s1) = sw_upd (SetSetting ''default_env_vars'' t) s1"
      "quiet (sw_upd (SetSetting ''default_env_vars'' t) s1) sent" for f ev t using quiet_track by blast+
    then show ?thesis using q1 by (simp add: store_env_def split: sum.split prod.split)
  qed
  obtain r1 where b: "store_brave E raw (store_models E raw s) = (r1, s1)" unfolding s1_def by (metis prod.collapse)
  show ?thesis
  proof (cases "parseEnvVarsDelta raw")
    case (Inl e)
    then show ?thesis using assms(1) q1 by (simp add: UpdateSettings_def Some b split: option.split sum.split)
  next
    case (Inr vg)
    obtain vars gone where vg: "vg = (vars, gone)" by (rule prod.exhaust)
    obtain r2 s2 where e: "store_env E vars gone s1 = (r2, s2)" by (rule prod.exhaust)
    have q2': "quiet s2 sent" using q2 [of vars gone] e by simp
    have "quiet (snd (finish_settings E (Some u) raw c s2)) sent" for c
      unfolding finish_settings_def Let_def case_prod_beta snd_conv
      by (rule quiet_id [OF quiet_restarts [OF quiet_plain [OF q2' no]] refl])
    then show ?thesis
      using assms(1) q1 q2' by (simp add: UpdateSettings_def Some b Inr vg e split: option.split sum.split)
  qed
qed (simp add: UpdateSettings_def assms(1))

text \<open>C18: 
  C?: Without consent nothing is sent.  Starting without consent, the settings may be read and changed and events may be
  tracked in any order: as long as no update sets the consent to \<open>opt_in\<close>, no event reaches the collector.
\<close>

theorem telemetry_needs_consent:
  assumes "GetConsent (sw_db s) \<noteq> ConsentOptIn" "list_all (\<lambda>p. \<not> asks_opt_in p) ops"
  shows "sw_sent (fold settings_step ops s) = sw_sent s"
proof -
  have "quiet s sent \<Longrightarrow> quiet (fold settings_step ops s) sent" for sent
    using assms(2)
  proof (induction ops arbitrary: s)
    case (Cons p ops)
    have "quiet (settings_step p s) sent"
    proof (cases p)
      case (SGet E)
      then show ?thesis using Cons.prems quiet_id [of s sent E] by (simp add: GetSettings_def case_prod_beta)
    next
      case (SUpdate E u body)
      then show ?thesis using Cons.prems by (simp add: quiet_update)
    next
      case (STrack fresh event)
      then show ?thesis using Cons.prems quiet_track by (metis settings_step.simps(3))
    qed
    then show ?case using Cons by simp
  qed simp
  then show ?thesis using assms(1) unfolding quiet_def by blast
qed

section \<open>Every other key is stored\<close>

lemma sw_db_upd [simp]: "sw_db (sw_upd f s) = f (sw_db s)"
  by (simp add: sw_db_def sw_upd_def upd_db_def)

lemma sw_db_sent [simp]: "sw_db (x\<lparr>sw_sent := y\<rparr>) = sw_db x"
  by (simp add: sw_db_def)

lemma get_set: "GetSetting k (SetSetting j v d) = (if k = j then Some v else GetSetting k d)"
  by (simp add: GetSetting_def SetSetting_def upsertSetting_def)

lemma get_id: "k \<noteq> ''installation_id'' \<Longrightarrow> GetSetting k (snd (GetOrCreateInstallationID fresh d)) = GetSetting k d"
  by (simp add: GetOrCreateInstallationID_def get_set split: option.split)

lemma get_opt_out:
  assumes "k \<noteq> ''installation_id''"
  shows "GetSetting k (sw_db (TrackForceOptOut fresh s)) = GetSetting k (sw_db s)"
proof -
  obtain r d where g: "GetOrCreateInstallationID fresh (sw_db s) = (r, d)" by (rule prod.exhaust)
  have "GetSetting k d = GetSetting k (sw_db s)" using get_id [OF assms, of fresh "sw_db s"] g by simp
  then show ?thesis by (simp add: TrackForceOptOut_def send_event_def g Let_def split: option.split)
qed

lemma plain_step:
  assumes "k \<noteq> ''installation_id''" "k \<noteq> j"
  shows "GetSetting k (sw_db (store_plain E [(j, v)] s)) = GetSetting k (sw_db s)"
  using assms by (auto simp: get_set get_opt_out split: json.split)

lemma plain_other:
  "k \<noteq> ''installation_id'' \<Longrightarrow> k \<notin> fst ` set raw \<Longrightarrow> GetSetting k (sw_db (store_plain E raw s)) = GetSetting k (sw_db s)"
proof (induction raw arbitrary: s)
  case (Cons m raw)
  obtain j v where m: "m = (j, v)" by (rule prod.exhaust)
  have "store_plain E (m # raw) s = store_plain E raw (store_plain E [(j, v)] s)" by (simp only: m store_plain.simps)
  then show ?case using Cons plain_step [of k j E v s] m by simp
qed simp

lemma plain_stored:
  assumes "distinct (map fst raw)" "(k, JStr v) \<in> set raw"
    and "k \<notin> {''default_models'', ''brave_api_key'', ''env_vars_set'', ''env_vars_unset'', ''installation_id'', ''analytics_consent''}"
  shows "GetSetting k (sw_db (store_plain E raw s)) = Some v"
  using assms(1,2)
proof (induction raw arbitrary: s)
  case (Cons m raw)
  obtain j w where m: "m = (j, w)" by (rule prod.exhaust)
  show ?case
  proof (cases "m = (k, JStr v)")
    case True
    have "store_plain E (m # raw) s = store_plain E raw (sw_upd (SetSetting k v) s)" using assms(3) True by simp
    moreover have "k \<notin> fst ` set raw" using Cons.prems(1) True by simp
    ultimately show ?thesis using plain_other [of k raw E] assms(3) by (simp add: get_set)
  next
    case False
    then have "distinct (map fst raw)" "(k, JStr v) \<in> set raw" using Cons.prems by auto
    then show ?thesis unfolding m store_plain.simps by (rule Cons.IH)
  qed
qed simp

text \<open>C19: 
  C?: The update of the settings stores every string value whose key it does not treat specially, whatever the key
  is: an accepted request that names the encryption key (\<open>fernet_key\<close>) or the encrypted column \<open>default_env_vars\<close>
  replaces it by the given text.
\<close>

theorem settings_store_any_key:
  assumes "body_map body = Some raw" "map_of raw k = Some (JStr v)"
    and "k \<notin> {''default_models'', ''brave_api_key'', ''env_vars_set'', ''env_vars_unset'', ''installation_id'', ''analytics_consent''}"
    and "reply_status (fst (UpdateSettings E cu body s)) = 200"
  shows "GetSetting k (sw_db (snd (UpdateSettings E cu body s))) = Some v"
proof -
  have "distinct (map fst (go_map ms))" for ms :: "(string \<times> json) list"
  proof -
    have "distinct (map fst acc) \<Longrightarrow> distinct (map fst (fold (\<lambda>(k, v). AList.update k v) ms acc))" for acc :: "(string \<times> json) list"
      by (induction ms arbitrary: acc) (auto intro: distinct_update)
    then show ?thesis by (simp add: go_map_def)
  qed
  then have d: "distinct (map fst raw)" using assms(1) by (auto simp: body_map_def split: option.splits json.splits)
  have mem: "(k, JStr v) \<in> set raw" using assms(2) by (rule map_of_SomeD)
  have k: "k \<noteq> ''installation_id''" using assms(3) by simp
  have restarts: "GetSetting k (iw_db (restart_running F i xs w)) = GetSetting k (iw_db w)" for F i xs and w :: "'a iworld"
  proof (induction F i xs w rule: restart_running.induct)
    case (2 F i x xs w)
    then show ?case
      by (simp add: restartInstanceAsync_def Let_def upd_db_def upd_out_def start_task_def set_status_def update_instance_def GetSetting_def)
  qed simp
  have resp: "GetSetting k (snd (settingsToResponse E d)) = GetSetting k d" for d
    using get_id [OF k, of "se_fresh E" d] by (simp add: settingsToResponse_def Let_def case_prod_beta)
  have stored: "GetSetting k (sw_db (store_plain E raw s')) = Some v" for s' using d mem assms(3) by (rule plain_stored)
  obtain r1 s1 where b: "store_brave E raw (store_models E raw s) = (r1, s1)" by (rule prod.exhaust)
  obtain u1 where r1: "r1 = Inr u1" using assms(4) by (cases r1) (auto simp: UpdateSettings_def assms(1) b split: option.splits)
  obtain vars gone where vg: "parseEnvVarsDelta raw = Inr (vars, gone)"
    using assms(4) by (cases "parseEnvVarsDelta raw") (auto simp: UpdateSettings_def assms(1) b r1 split: option.splits)
  obtain r2 s2 where e: "store_env E vars gone s1 = (r2, s2)" by (rule prod.exhaust)
  obtain changed where r2: "r2 = Inr changed"
    using assms(4) by (cases r2) (auto simp: UpdateSettings_def assms(1) b r1 vg e split: option.splits)
  have plain: "GetSetting k (sw_db ((store_plain E raw s2)\<lparr>sw_w := restart_running F i xs (sw_w (store_plain E raw s2))\<rparr>)) = Some v" for F i xs
    using stored [of s2] restarts by (simp add: sw_db_def)
  have "GetSetting k (sw_db (snd (finish_settings E cu raw changed s2))) = Some v"
    using plain resp by (simp add: finish_settings_def Let_def case_prod_beta)
  then show ?thesis
    using assms(4) by (simp add: UpdateSettings_def assms(1) b r1 vg e r2 split: option.split_asm)
qed

section \<open>Concrete requests\<close>

definition sample_settings :: "unit sworld" where
  "sample_settings = \<lparr>sw_w = sample_instances, sw_sent = []\<rparr>"

definition sample_senv :: "unit senv" where
  "sample_senv = \<lparr>se_env = sample_env, se_fresh = Some ''ab'', se_marshal = (\<lambda>_. [])\<rparr>"

theorem telemetry_needs_consent_witness:
  "sw_sent (fold settings_step
     [SUpdate sample_senv user1 (Some (JObj [(''analytics_consent'', JStr ''opt_out'')])), STrack None ''heartbeat'']
     sample_settings) = sw_sent sample_settings"
  by (rule telemetry_needs_consent)
    (simp_all add: sample_settings_def sample_instances_def sw_db_def GetConsent_def GetSetting_def empty_db_def consents
      asks_opt_in_def body_map_def go_map_def)

theorem settings_store_any_key_witness:
  "GetSetting ''fernet_key'' (sw_db (snd (UpdateSettings sample_senv (Some user1)
     (Some (JObj [(''fernet_key'', JStr ''x'')])) sample_settings))) = Some ''x''"
proof (rule settings_store_any_key)
  show "body_map (Some (JObj [(''fernet_key'', JStr ''x'')])) = Some [(''fernet_key'', JStr ''x'')]"
    by (simp add: body_map_def go_map_def)
  show "reply_status (fst (UpdateSettings sample_senv (Some user1) (Some (JObj [(''fernet_key'', JStr ''x'')])) sample_settings)) = 200"
    by (simp add: UpdateSettings_def body_map_def go_map_def resourceFromRaw_def ValidateResourceQuantities_def
        store_brave_def store_models_def finish_settings_def parseEnvVarsDelta_def parse_env_set_def parse_env_unset_def store_env_def
        case_prod_beta Let_def)
qed simp_all

end
