(* ===== verification/Spec2Isabelle.thy ===== *)
theory Spec2Isabelle
  imports RateLimit ConnState EventLog IpRestrict SshSafety TunnelSafety Terminal RemoteFiles Tasks UserAdmin
    CodexRequest LlmSafety BackupSafety ModeratorSafety InstanceOutcomes SharedFolders KeyRotation TaskHandlers Settings
begin

text \<open>
  A verification development for the claworc control plane, the Go server that runs agent
  instances in containers and reaches them over SSH (\<^verbatim>\<open>control-plane/\<close>).

  \<^bold>\<open>The program.\<close>  The control plane keeps one SSH connection per running instance
  (\<^verbatim>\<open>internal/sshproxy\<close>): the manager opens, checks, closes and reconnects them, under a
  rate limiter, an IP whitelist and host keys pinned on first use, and keeps a state tracker and an
  event log per instance.  Over each connection the tunnel manager keeps listeners for the desktop,
  the gateway and the LLM proxy, the terminal service (\<^verbatim>\<open>internal/sshterminal\<close>) keeps shell
  sessions that clients attach to and leave, and the file handlers run quoted shell commands.  The
  LLM gateway (\<^verbatim>\<open>internal/llmgateway\<close>) forwards the instances' model requests with the
  real credentials, which the instances never see.
  Backups (\<^verbatim>\<open>internal/backup\<close>) stream an instance's files into archives, by hand or on
  schedules.  The moderator (\<^verbatim>\<open>internal/moderator\<close>) sends the tasks of Kanban boards to instances
  and collects what they produce.  The instance handlers (\<^verbatim>\<open>internal/handlers/instances.go\<close>) create, configure, clone, start, stop and delete
  instances through the container backend, most of it in background tasks; shared folders are mounted into several instances.
  Long operations run in the task manager (\<^verbatim>\<open>internal/taskmanager\<close>).  Requests come in through
  the session middleware (\<^verbatim>\<open>internal/middleware\<close>, \<^verbatim>\<open>internal/auth\<close>), which
  decides who may reach which instance from the tables of \<^verbatim>\<open>internal/database\<close>.

  \<^bold>\<open>The theories.\<close>
  \<^item> \<open>GoBase\<close>: instance ids, clock readings (nanoseconds), Go's string functions, generic lemmas.
  \<^item> \<open>Contracts\<close>: the interfaces as locales: bounded histories (the ring buffers), capped
    doubling (every backoff), check counters (health metrics), keyed stores (maps of per-instance state).
    Each is interpreted in the theory of the component that provides it.
  \<^item> \<open>RingBuffer\<close>: the shared lemma on ring buffers behind the histories.
  \<^item> \<open>RateLimit\<close> (ratelimit.go), \<open>ConnState\<close> (state.go), \<open>EventLog\<close>
    (events.go), \<open>NetAddr\<close> and \<open>IpRestrict\<close> (Go's address parsing; iprestrict.go).
  \<^item> \<open>SshManager\<close> (manager.go, health.go, the registry of reconnect.go), \<open>Reconnect\<close>
    (the retry loop of reconnect.go), \<open>SshSafety\<close> (properties over runs of the manager).
  \<^item> \<open>Tunnels\<close> (tunnel.go, tunnel_health.go) and \<open>TunnelSafety\<close> (its properties).
  \<^item> \<open>Terminal\<close> (scrollback.go, session_manager.go, the shell validation of terminal.go).
  \<^item> \<open>Utf8\<close> (Go's decoding of bytes into code points), \<open>ShellText\<close> (quoting, base64 and a model of how a POSIX shell reads a command
    line) and \<open>RemoteFiles\<close> (files.go, the tail command of logs.go, instance.go).
  \<^item> \<open>Tasks\<close> (taskmanager.go).
  \<^item> \<open>Database\<close> (the tables and queries of teams.go and database.go), \<open>Sessions\<close>
    (auth.go, the challenge store of webauthn.go), \<open>Accounts\<close> (middleware/auth.go,
    handlers/auth.go) and \<open>UserAdmin\<close> (handlers/users.go, handlers/teams.go, their routes).
  \<^item> \<open>Tables\<close>: numbered rows, as a locale interpreted on each table; \<open>Json\<close>: a JSON parser, Go's decoding
    into typed values, and the columns that hold lists of ids (models.go); \<open>Web\<close>: replies and query
    parameters (helpers.go); \<open>EnvVars\<close>: sanitize.go, crypto.go and both envvars.go.
  \<^item> \<open>Backups\<close> (backup.go, cleanup.go, retention.go, scheduler.go and their queries),
    \<open>BackupHandlers\<close> (restore.go, handlers/backups.go, backup_schedules.go) and
    \<open>BackupSafety\<close> (the interleavings of backup jobs with the task manager, and the properties).
  \<^item> The LLM gateway: \<open>LlmUsage\<close> (response_parser.go, the cost), \<open>LlmStream\<close> (stream_rewriter.go), \<open>CodexRequest\<close>
    (request_rewriter.go), \<open>LlmGateway\<close> (gateway.go, keys.go, the API types, the token refresh of
    oauth_codex.go) and \<open>LlmSafety\<close> (its properties).
  \<^item> The moderator: \<open>Mentions\<close> (mentions.go, with Go's path functions), \<open>Moderator\<close> (the ports and the store,
    modwiring/adapters.go), \<open>ModeratorRun\<close> (dispatcher.go, runner.go, moderator.go, summarizer.go),
    \<open>Kanban\<close> (handlers/kanban.go), \<open>Paths\<close> (what cleaning a path leaves) and \<open>ModeratorSafety\<close> (rules for
    calls that a cancelled context refuses, and the properties).
  \<^item> Instances: \<open>Resources\<close> (resourcevalidation.go), \<open>Instances\<close> (the data of instances.go: names, models,
    providers, effective settings, the status shown, container parameters), \<open>InstanceHandlers\<close> (the handlers' state and
    what shows instances), \<open>InstanceUpdates\<close> (creating and updating), \<open>InstanceLifecycle\<close> (the other handlers,
    the work of their tasks and the routes), \<open>InstanceSafety\<close> (what every handler keeps of a row, as a locale of
    rules interpreted once per property) and \<open>InstanceOutcomes\<close> (the properties).
  \<^item> \<open>SharedFolders\<close> (shared_folders.go, its queries and routes), \<open>TaskHandlers\<close> (handlers/tasks.go),
    \<open>Settings\<close> (settings.go and the telemetry of internal/analytics).
  \<^item> \<open>AuditLog\<close> (sshaudit/audit.go, handlers/audit.go) and \<open>KeyRotation\<close> (sshkeys/rotation.go, keys.go,
    handlers/rotation.go), with a reference instance on which the shell lines of a rotation run, get lost or break.

  \<^bold>\<open>How the code is modelled.\<close>  A struct is a record with the source's fields, a map field a
  partial function, a method a function from the state to the result and the new state.  What the
  program reads from outside is an argument: the clock, random bytes, the answers of the network, of
  the orchestrator, of the SSH library, of a browser probe, of bcrypt and of the WebAuthn library.
  Code under one mutex is one step; where the code gives a lock up in between (a connection attempt,
  a task's end, a cancellation) the parts are separate steps, and the properties quantify over every
  interleaving of them (\<open>ssh_op\<close>, \<open>tunnel_op\<close>, \<open>sm_op\<close> and the task
  operations, and the relation \<open>backup_step\<close>).  Resources that the program must not lose (SSH clients, listeners, terminals) are
  numbered, and the state logs the closings, so that leaks and double closings show.  The
  instance handlers put a task's work into a list as data; running it is one step, which may come at any time and also
  before a cancellation; the SSH manager is taken as set up.  Log lines and
  analytics events are left out.

  \<^bold>\<open>What the lemmas show.\<close>  Histories: each ring buffer refines the list of the last n
  entries.  Resources: clients, listeners and terminals are at each moment in exactly one place.
  Safety: the sliding window of the rate limiter, host key pinning, the fail-closed IP check, exact
  quoting of every remote command, at most one cancellation callback per task.  Access: the checks
  before an operation and the lists shown agree, sessions end with the password and the account, an
  administrator always remains.  Backups: a row's status tells the truth about its archive until
  someone cancels it.  The moderator: a task goes only to an instance of its board and does not stay
  unfinished, and mentioned files stay in the task's directory.  Instances: whoever asks, an instance changes only for
  those who may reach it, the columns reserved for administrators only by them, the status stays one of six values, a
  cancelled clone leaves nothing behind; a folder reaches no instance that its owner cannot, and mount paths stay apart.  A key
  rotation locks no instance out, and nothing is sent to the collector without consent.  Schedules: each backoff loop ends and waits what it says.

  \<^bold>\<open>Loops and bounds.\<close>  Every loop is a terminating recursion, except the scrollback write,
  which is a partial function with a proof that it returns.  The JSON parser takes as fuel the length of
  its text, and \<open>json_parse_enough_calls\<close> shows that more changes nothing.  The walk
  over an instance's directories takes a number of calls, and \<open>walkDir_ends\<close> shows that the number of entries
  is enough.  Ids and counters are unbounded numbers
  (the code has 64-bit ones that a run does not exhaust); \<open>atoi\<close> and \<open>uint_of\<close>
  keep the 64-bit range of path parameters.  Bytes, addresses and masks keep their width.

  \<^bold>\<open>Not modelled.\<close>  The copying of bytes between sockets, the start of a PTY, the
  background loops' timers (their bodies are operations), failures of the database other than missing
  rows and violated keys, and the parts not reached: browser
  provisioning, the orchestrator backends, and the handlers of providers, skills, files and terminals.
\<close>

end
